(* ===== verification/GR_Prelude.thy ===== *)
theory GR_Prelude
  imports Complex_Main
begin

text \<open>
  Shared vocabulary of the development: the collections of rewrite rules the
  component proofs draw on, and the two abstractions every component uses.

  \<^item> A database table is the list of its rows in insertion order.
    \<open>row_get\<close> is SQLAlchemy's \<open>session.get\<close> (lookup by primary key),
    \<open>row_put\<close> is what a flush does to a row whose attributes were assigned, and
    appending is what a flush does to an added row.  The locale \<open>repository\<close> states
    what the services rely on; every table of the data store interprets it.
  \<^item> The outcome of a call that may raise is a sum, \<open>Inl\<close> the exception.
\<close>

named_theorems table_simps \<open>laws of table lookups and updates\<close>
named_theorems py_simps \<open>evaluation of the modelled Python primitives\<close>
named_theorems op_defs \<open>definitions unfolded when an operation is followed step by step\<close>

section \<open>Lists and options\<close>

lemma find_Some_iff_mem:
  "List.find P xs = Some x \<Longrightarrow> P x \<and> x \<in> set xs"
  by (induction xs) (auto split: if_splits)

lemma find_None_iff_ball:
  "List.find P xs = None \<longleftrightarrow> (\<forall>x \<in> set xs. \<not> P x)"
  by (induction xs) auto

lemma find_append_Some [simp]:
  "List.find P xs = Some x \<Longrightarrow> List.find P (xs @ ys) = Some x"
  by (induction xs) auto

lemma find_append_None [simp]:
  "List.find P xs = None \<Longrightarrow> List.find P (xs @ ys) = List.find P ys"
  by (induction xs) auto

lemma find_map_cond:
  assumes "\<And>x. x \<in> set xs \<Longrightarrow> P (f x) = P x"
  shows "List.find P (map f xs) = map_option f (List.find P xs)"
  using assms by (induction xs) auto

lemma distinct_map_append_single:
  "distinct (map f (xs @ [x])) \<longleftrightarrow> distinct (map f xs) \<and> f x \<notin> f ` set xs"
  by auto

text \<open>The results of a comprehension whose body may raise: all of them, or the first error.\<close>

fun collect :: "('e + 'a) list \<Rightarrow> 'e + 'a list" where
  "collect [] = Inr []"
| "collect (x # xs) =
     (case x of
        Inl e \<Rightarrow> Inl e
      | Inr y \<Rightarrow> (case collect xs of Inl e \<Rightarrow> Inl e | Inr ys \<Rightarrow> Inr (y # ys)))"

lemma collect_all_ok [simp]: "collect (map Inr ys) = Inr ys"
  by (induction ys) auto

lemma collect_Inr: "collect xs = Inr ys \<longleftrightarrow> xs = map Inr ys"
proof
  show "collect xs = Inr ys \<Longrightarrow> xs = map Inr ys"
    by (induction xs arbitrary: ys) (auto split: sum.splits)
qed simp

section \<open>Tables\<close>

definition row_get :: "('r \<Rightarrow> string) \<Rightarrow> string \<Rightarrow> 'r list \<Rightarrow> 'r option" where
  "row_get key k rows = List.find (\<lambda>r. key r = k) rows"

definition row_put :: "('r \<Rightarrow> string) \<Rightarrow> 'r \<Rightarrow> 'r list \<Rightarrow> 'r list" where
  "row_put key r rows = map (\<lambda>r'. if key r' = key r then r else r') rows"

lemma row_get_key: "row_get key k rows = Some r \<Longrightarrow> key r = k"
  unfolding row_get_def by (drule find_Some_iff_mem) simp

lemma row_get_mem: "row_get key k rows = Some r \<Longrightarrow> r \<in> set rows"
  unfolding row_get_def by (drule find_Some_iff_mem) simp

lemma row_get_put_same [table_simps]:
  "row_get key (key r) rows \<noteq> None \<Longrightarrow> row_get key (key r) (row_put key r rows) = Some r"
  unfolding row_get_def row_put_def by (induction rows) auto

lemma row_get_put_other [table_simps]:
  "k \<noteq> key r \<Longrightarrow> row_get key k (row_put key r rows) = row_get key k rows"
  unfolding row_get_def row_put_def by (induction rows) auto

lemma row_get_put_absent [table_simps]:
  "row_get key (key r) rows = None \<Longrightarrow> row_get key (key r) (row_put key r rows) = None"
  unfolding row_get_def row_put_def by (induction rows) auto

lemma row_get_append_other [table_simps]:
  "k \<noteq> key r \<Longrightarrow> row_get key k (rows @ [r]) = row_get key k rows"
  unfolding row_get_def by (induction rows) auto

lemma row_get_append_new [table_simps]:
  "row_get key (key r) rows = None \<Longrightarrow> row_get key (key r) (rows @ [r]) = Some r"
  unfolding row_get_def by simp

lemma row_get_append_old:
  "row_get key k rows = Some r \<Longrightarrow> row_get key k (rows @ [r']) = Some r"
  unfolding row_get_def by simp

lemma keys_row_put [table_simps]: "map key (row_put key r rows) = map key rows"
  unfolding row_put_def by (induction rows) auto

lemma length_row_put [table_simps]: "length (row_put key r rows) = length rows"
  unfolding row_put_def by simp

lemma set_row_put_subset: "set (row_put key r rows) \<subseteq> insert r (set rows)"
  unfolding row_put_def by auto

lemma mem_row_put:
  "x \<in> set (row_put key r rows) \<Longrightarrow> x = r \<or> (x \<in> set rows \<and> key x \<noteq> key r)"
  unfolding row_put_def by auto

lemma row_put_self: "row_get key (key r) rows = Some r0 \<Longrightarrow> r \<in> set (row_put key r rows)"
proof -
  assume "row_get key (key r) rows = Some r0"
  then have "r0 \<in> set rows" and "key r0 = key r" by (rule row_get_mem, rule row_get_key)
  then show ?thesis unfolding row_put_def by (auto intro!: image_eqI [of _ _ r0])
qed

lemma unique_row:
  "distinct (map f rows) \<Longrightarrow> x \<in> set rows \<Longrightarrow> y \<in> set rows \<Longrightarrow> f x = f y \<Longrightarrow> x = y"
  by (auto simp: distinct_map dest: inj_onD)

lemma row_get_unique:
  assumes "distinct (map key rows)" and "r \<in> set rows"
  shows "row_get key (key r) rows = Some r"
proof (cases "row_get key (key r) rows")
  case None
  with assms(2) show ?thesis by (auto simp: row_get_def find_None_iff_ball)
next
  case (Some r')
  then show ?thesis
    using unique_row [OF assms(1) row_get_mem [OF Some] assms(2) row_get_key [OF Some]] by simp
qed

lemma row_put_row_put [table_simps]:
  "key r = key r' \<Longrightarrow> row_put key r (row_put key r' rows) = row_put key r rows"
  by (simp add: row_put_def comp_def)

lemma row_get_row_put:
  "row_get key k (row_put key r rows)
     = (if k = key r \<and> row_get key k rows \<noteq> None then Some r else row_get key k rows)"
  using row_get_put_same [of key r rows] row_get_put_absent [of key r rows]
    row_get_put_other [of k key r rows]
  by (cases "k = key r") auto

text \<open>
  Histories: a relation between successive states keeps a predicate when each step does.
\<close>

locale step_system =
  fixes step :: "'s \<Rightarrow> 's \<Rightarrow> bool"
    and inv :: "'s \<Rightarrow> bool"
  assumes inv_step: "step s s' \<Longrightarrow> inv s \<Longrightarrow> inv s'"
begin

lemma inv_history: "step\<^sup>*\<^sup>* s s' \<Longrightarrow> inv s \<Longrightarrow> inv s'"
  by (induction rule: rtranclp_induct) (auto intro: inv_step)

end

text \<open>An attribute the assignment leaves alone keeps its column.\<close>

lemma column_row_put:
  assumes "row_get key (key r) rows = Some r0" and "f r = f r0"
    and "distinct (map key rows)"
  shows "map f (row_put key r rows) = map f rows"
  using assms unfolding row_get_def row_put_def
  by (induction rows) (auto split: if_splits simp: image_iff)

text \<open>
  The repository interface of the services: what a lookup returns after an attribute
  assignment (\<open>put\<close>) or an insert (\<open>add\<close>).
\<close>

locale repository =
  fixes get :: "string \<Rightarrow> 'd \<Rightarrow> 'r option"
    and put :: "'r \<Rightarrow> 'd \<Rightarrow> 'd"
    and add :: "'r \<Rightarrow> 'd \<Rightarrow> 'd"
    and key :: "'r \<Rightarrow> string"
  assumes get_key: "get k d = Some r \<Longrightarrow> key r = k"
    and get_put_same: "get (key r) d \<noteq> None \<Longrightarrow> get (key r) (put r d) = Some r"
    and get_put_absent: "get (key r) d = None \<Longrightarrow> get (key r) (put r d) = None"
    and get_put_other: "k \<noteq> key r \<Longrightarrow> get k (put r d) = get k d"
    and get_add_new: "get (key r) d = None \<Longrightarrow> get (key r) (add r d) = Some r"
    and get_add_old: "get k d = Some r' \<Longrightarrow> get k (add r d) = Some r'"
    and get_add_other: "k \<noteq> key r \<Longrightarrow> get k (add r d) = get k d"
begin

lemma get_put:
  "get k (put r d) = (if k = key r \<and> get k d \<noteq> None then Some r else get k d)"
  using get_put_same [of r d] get_put_absent [of r d] get_put_other [of k r d]
  by (cases "k = key r") auto

lemma get_add:
  "get k (add r d) = (if k = key r \<and> get k d = None then Some r else get k d)"
  using get_add_new [of r d] get_add_old [of k d _ r] get_add_other [of k r d]
  by (cases "get k d") auto

text \<open>Load a row, assign attributes other than the key, flush: the row reads back changed.\<close>

lemma get_assign: "get k d = Some r0 \<Longrightarrow> key r = key r0 \<Longrightarrow> get k (put r d) = Some r"
  using get_key [of k d r0] by (simp add: get_put)

lemma get_assign_other:
  "get k d = Some r0 \<Longrightarrow> key r = key r0 \<Longrightarrow> k' \<noteq> k \<Longrightarrow> get k' (put r d) = get k' d"
  using get_key [of k d r0] by (simp add: get_put)

end

end
