(* ===== verification/Py_Values.thy ===== *)
theory Py_Values
  imports GR_Prelude "HOL-Library.Log_Nat" "HOL-Library.Char_ord" "HOL-Library.List_Lexorder"
begin

text \<open>
  The Python values the services compute with: ASCII strings and the string methods the
  sources call, JSON documents (the \<open>dict[str, object]\<close> of requests and the JSONB
  columns) with truthiness, \<open>str\<close> and \<open>int\<close>, datetimes, and binary64
  arithmetic with \<open>round\<close> as the scoring formulas use it.

  Strings are lists of characters; code points beyond ASCII are outside the model.
  A datetime is the number of microseconds since 1970-01-01T00:00:00 UTC.
\<close>

section \<open>Exceptions\<close>

datatype error =
    ValueError string
  | PolicySkip string
  | TypeError string
  | KeyError string
  | IndexError string
  | AttributeError string
  | PermissionError string
  | IntegrityError
  | ValidationError
  | CrmProviderError string bool "int option"
  | CalendarProviderError string bool "int option"
  | ProviderError string
  | RuntimeError string
  | SyntheticPersistenceError string string

fun error_text :: "error \<Rightarrow> string" where
  "error_text (ValueError m) = m"
| "error_text (PolicySkip m) = m"
| "error_text (TypeError m) = m"
| "error_text (KeyError m) = m"
| "error_text (IndexError m) = m"
| "error_text (AttributeError m) = m"
| "error_text (PermissionError m) = m"
| "error_text IntegrityError = ''unique constraint violated''"
| "error_text ValidationError = ''validation error''"
| "error_text (CrmProviderError m _ _) = m"
| "error_text (CalendarProviderError m _ _) = m"
| "error_text (ProviderError m) = m"
| "error_text (RuntimeError m) = m"
| "error_text (SyntheticPersistenceError c f) =
     ''synthetic provider or lineage marker rejected in '' @ c @ ''.'' @ f"

section \<open>Strings\<close>

definition char_lower :: "char \<Rightarrow> char" where
  "char_lower c = (let n = (of_char c :: nat) in if 65 \<le> n \<and> n \<le> 90 then char_of (n + 32) else c)"

definition char_upper :: "char \<Rightarrow> char" where
  "char_upper c = (let n = (of_char c :: nat) in if 97 \<le> n \<and> n \<le> 122 then char_of (n - 32) else c)"

definition py_lower :: "string \<Rightarrow> string" where
  "py_lower s = map char_lower s"

lemma char_lower_idem: "char_lower (char_lower c) = char_lower c"
proof -
  have "(of_char c :: nat) < 256" by simp
  then show ?thesis
    by (auto simp: char_lower_def Let_def of_char_of)
qed

lemma py_lower_idem [simp]: "py_lower (py_lower s) = py_lower s"
  by (simp add: py_lower_def char_lower_idem)

lemma py_lower_append: "py_lower (s @ t) = py_lower s @ py_lower t"
  by (simp add: py_lower_def)

lemma py_lower_Nil_iff [simp]: "py_lower s = [] \<longleftrightarrow> s = []"
  by (simp add: py_lower_def)

lemma length_py_lower [simp]: "length (py_lower s) = length s"
  by (simp add: py_lower_def)

text \<open>The ASCII characters \<open>str.strip()\<close> removes: tab to carriage return, the four
  separators and the space.\<close>

definition is_space :: "char \<Rightarrow> bool" where
  "is_space c = (let n = (of_char c :: nat) in (9 \<le> n \<and> n \<le> 13) \<or> (28 \<le> n \<and> n \<le> 32))"

definition py_strip :: "string \<Rightarrow> string" where
  "py_strip s = rev (dropWhile is_space (rev (dropWhile is_space s)))"

text \<open>\<open>s.rsplit(c, 1)[1]\<close> and \<open>s.split(c, 1)[0]\<close> for a one-character separator.\<close>

definition after_last :: "char \<Rightarrow> string \<Rightarrow> string" where
  "after_last c s = rev (takeWhile (\<lambda>x. x \<noteq> c) (rev s))"

definition before_first :: "char \<Rightarrow> string \<Rightarrow> string" where
  "before_first c s = takeWhile (\<lambda>x. x \<noteq> c) s"

fun is_substring :: "string \<Rightarrow> string \<Rightarrow> bool" where
  "is_substring p [] = (p = [])"
| "is_substring p (c # s) = (take (length p) (c # s) = p \<or> is_substring p s)"

definition digit_char :: "nat \<Rightarrow> char" where
  "digit_char d = char_of (48 + d)"

fun show_nat :: "nat \<Rightarrow> string" where
  "show_nat n = (if n < 10 then [digit_char n] else show_nat (n div 10) @ [digit_char (n mod 10)])"

declare show_nat.simps [simp del]

definition show_int :: "int \<Rightarrow> string" where
  "show_int i = (if i < 0 then CHR ''-'' # show_nat (nat (- i)) else show_nat (nat i))"

text \<open>The decimal form of a number determines it, so keys built from ids and version
  numbers do not collide.\<close>

definition digit_val :: "char \<Rightarrow> nat" where
  "digit_val c = of_char c - 48"

definition read_nat :: "string \<Rightarrow> nat" where
  "read_nat s = foldl (\<lambda>acc c. 10 * acc + digit_val c) 0 s"

lemma digit_val_char [simp]: "d < 10 \<Longrightarrow> digit_val (digit_char d) = d"
  by (simp add: digit_val_def digit_char_def of_char_of)

lemma read_show_nat [simp]: "read_nat (show_nat n) = n"
proof (induction n rule: show_nat.induct)
  case (1 n)
  show ?case
  proof (cases "n < 10")
    case True
    then show ?thesis by (subst show_nat.simps) (simp add: read_nat_def)
  next
    case False
    with "1.IH" have "read_nat (show_nat (n div 10)) = n div 10" by simp
    with False show ?thesis by (subst show_nat.simps) (simp add: read_nat_def)
  qed
qed

lemma show_nat_inject [simp]: "show_nat m = show_nat n \<longleftrightarrow> m = n"
  by (metis read_show_nat)

text \<open>Executable forms on integers, for evaluating concrete runs.\<close>

definition digit_of :: "int \<Rightarrow> char" where
  "digit_of i =
     (if i = 0 then CHR ''0'' else if i = 1 then CHR ''1'' else if i = 2 then CHR ''2''
      else if i = 3 then CHR ''3'' else if i = 4 then CHR ''4'' else if i = 5 then CHR ''5''
      else if i = 6 then CHR ''6'' else if i = 7 then CHR ''7'' else if i = 8 then CHR ''8''
      else CHR ''9'')"

function show_pos :: "int \<Rightarrow> string" where
  "show_pos i = (if i < 10 then [digit_of i] else show_pos (i div 10) @ [digit_of (i mod 10)])"
  by pat_completeness auto
termination
  by (relation "measure nat") auto

declare show_pos.simps [simp del]

lemma digit_of_char: "0 \<le> i \<Longrightarrow> i < 10 \<Longrightarrow> digit_of i = digit_char (nat i)"
proof -
  assume "0 \<le> i" "i < 10"
  then have "i = 0 \<or> i = 1 \<or> i = 2 \<or> i = 3 \<or> i = 4 \<or> i = 5 \<or> i = 6 \<or> i = 7 \<or> i = 8 \<or> i = 9"
    by presburger
  then show ?thesis by (elim disjE) (simp_all add: digit_of_def digit_char_def char_of_def bit_0)
qed

lemma show_pos_nat: "0 \<le> i \<Longrightarrow> show_pos i = show_nat (nat i)"
proof (induction i rule: show_pos.induct)
  case (1 i)
  show ?case
  proof (cases "i < 10")
    case True
    with "1.prems" have "nat i < 10" by simp
    with True "1.prems" show ?thesis
      by (subst show_pos.simps, subst show_nat.simps) (simp add: digit_of_char)
  next
    case False
    then have "\<not> nat i < 10" by simp
    moreover have "show_pos (i div 10) = show_nat (nat (i div 10))" using "1.IH" False "1.prems" by simp
    ultimately show ?thesis
      using False "1.prems"
      by (subst show_pos.simps, subst show_nat.simps) (simp add: digit_of_char nat_div_distrib nat_mod_distrib)
  qed
qed

lemma show_int_code [code]: "show_int i = (if i < 0 then CHR ''-'' # show_pos (- i) else show_pos i)"
  by (simp add: show_int_def show_pos_nat)

section \<open>Integers read from text\<close>

text \<open>
  \<open>int(str)\<close>: surrounding white space, an optional sign, decimal digits with single
  underscores between them, at most 4300 digits (the interpreter's default limit).
\<close>

definition is_digit :: "char \<Rightarrow> bool" where
  "is_digit c = (let n = (of_char c :: nat) in 48 \<le> n \<and> n \<le> 57)"

fun digits_ok :: "bool \<Rightarrow> string \<Rightarrow> bool" where
  "digits_ok prev [] = prev"
| "digits_ok prev (c # s) =
     (if is_digit c then digits_ok True s
      else if c = CHR ''_'' then prev \<and> digits_ok False s
      else False)"

definition parse_digits :: "string \<Rightarrow> nat option" where
  "parse_digits s =
     (if digits_ok False s \<and> length (filter is_digit s) \<le> 4300
      then Some (read_nat (filter is_digit s)) else None)"

definition parse_int :: "string \<Rightarrow> int option" where
  "parse_int s =
     (case py_strip s of
        [] \<Rightarrow> None
      | c # rest \<Rightarrow>
          if c = CHR ''-'' then map_option (\<lambda>n. - int n) (parse_digits rest)
          else if c = CHR ''+'' then map_option int (parse_digits rest)
          else map_option int (parse_digits (c # rest)))"

section \<open>JSON documents\<close>

text \<open>
  \<open>JFloat\<close> carries a finite binary64 value and the text \<open>repr\<close> prints for it;
  \<open>JTime\<close> is a \<open>datetime\<close> object inside an event payload before it is encoded.
  An object keeps the insertion order of its keys, as a \<open>dict\<close> does.
\<close>

datatype json =
    JNull
  | JBool bool
  | JInt int
  | JFloat rat string
  | JStr string
  | JTime int
  | JArr "json list"
  | JObj "(string \<times> json) list"

lemma size_arr_member: "x \<in> set xs \<Longrightarrow> size x < size (JArr xs)"
  by (induction xs) auto

lemma size_obj_member: "kv \<in> set kvs \<Longrightarrow> size (snd kv) < size (JObj kvs)"
proof (induction kvs)
  case (Cons kv' kvs)
  then show ?case by (cases kv') auto
qed simp

lemmas size_json_member = size_arr_member size_obj_member

type_synonym dict = "(string \<times> json) list"

fun truthy :: "json \<Rightarrow> bool" where
  "truthy JNull = False"
| "truthy (JBool b) = b"
| "truthy (JInt i) = (i \<noteq> 0)"
| "truthy (JFloat r _) = (r \<noteq> 0)"
| "truthy (JStr s) = (s \<noteq> [])"
| "truthy (JTime _) = True"
| "truthy (JArr xs) = (xs \<noteq> [])"
| "truthy (JObj kvs) = (kvs \<noteq> [])"

definition py_or :: "json \<Rightarrow> json \<Rightarrow> json" where
  "py_or a b = (if truthy a then a else b)"

definition dict_get :: "dict \<Rightarrow> string \<Rightarrow> json" where
  "dict_get d k = (case map_of d k of None \<Rightarrow> JNull | Some v \<Rightarrow> v)"

definition dict_get_default :: "dict \<Rightarrow> string \<Rightarrow> json \<Rightarrow> json" where
  "dict_get_default d k v = (case map_of d k of None \<Rightarrow> v | Some w \<Rightarrow> w)"

fun dict_set :: "string \<Rightarrow> json \<Rightarrow> dict \<Rightarrow> dict" where
  "dict_set k v [] = [(k, v)]"
| "dict_set k v ((k', w) # d) = (if k' = k then (k', v) # d else (k', w) # dict_set k v d)"

definition dict_pop :: "string \<Rightarrow> dict \<Rightarrow> dict" where
  "dict_pop k d = filter (\<lambda>kv. fst kv \<noteq> k) d"

text \<open>\<open>d.update(e)\<close> and \<open>{**d, **e}\<close>.\<close>

definition dict_update :: "dict \<Rightarrow> dict \<Rightarrow> dict" where
  "dict_update d e = foldl (\<lambda>acc kv. dict_set (fst kv) (snd kv) acc) d e"

lemma map_of_dict_set [simp]: "map_of (dict_set k v d) = (map_of d)(k \<mapsto> v)"
  by (induction k v d rule: dict_set.induct) auto

lemma map_of_dict_update: "map_of (dict_update d e) = map_of d ++ map_of (rev e)"
proof (induction e arbitrary: d)
  case Nil
  show ?case by (simp add: dict_update_def)
next
  case (Cons kv e)
  have "map_of (dict_update d (kv # e)) = map_of (dict_update (dict_set (fst kv) (snd kv) d) e)"
    by (simp add: dict_update_def)
  also have "\<dots> = (map_of d)(fst kv \<mapsto> snd kv) ++ map_of (rev e)"
    by (simp add: Cons.IH fun_upd_def)
  finally show ?case by (cases kv) (simp add: map_add_def fun_eq_iff split: option.splits)
qed

lemma dict_get_set [simp]:
  "dict_get (dict_set k v d) k' = (if k' = k then v else dict_get d k')"
  by (simp add: dict_get_def)

lemma dict_get_pop [simp]:
  "dict_get (dict_pop k d) k' = (if k' = k then JNull else dict_get d k')"
  unfolding dict_get_def dict_pop_def by (induction d) auto

section \<open>Datetimes\<close>

text \<open>The civil date of a day counted from 1970-01-01, and \<open>datetime.isoformat()\<close> of an
  aware UTC value.\<close>

definition civil_from_days :: "int \<Rightarrow> int \<times> int \<times> int" where
  "civil_from_days z0 =
     (let z = z0 + 719468;
          era = z div 146097;
          doe = z mod 146097;
          yoe = (doe - doe div 1460 + doe div 36524 - doe div 146096) div 365;
          doy = doe - (365 * yoe + yoe div 4 - yoe div 100);
          mp = (5 * doy + 2) div 153;
          d = doy - (153 * mp + 2) div 5 + 1;
          m = (if mp < 10 then mp + 3 else mp - 9);
          y = yoe + era * 400 + (if m \<le> 2 then 1 else 0)
      in (y, m, d))"

definition pad :: "nat \<Rightarrow> int \<Rightarrow> string" where
  "pad w i = (let s = show_nat (nat i) in replicate (w - length s) (CHR ''0'') @ s)"

lemma pad_code [code]:
  "pad w i = (let s = (if 0 \<le> i then show_pos i else ''0'') in replicate (w - length s) (CHR ''0'') @ s)"
proof (cases "0 \<le> i")
  case False
  then have "nat i = 0" by simp
  moreover have "show_nat 0 = ''0''" by (subst show_nat.simps) (simp add: digit_char_def, code_simp)
  ultimately show ?thesis using False by (simp add: pad_def)
qed (simp add: pad_def show_pos_nat)

definition usec_per_sec :: int where
  "usec_per_sec = 1000000"

definition isoformat_sep :: "string \<Rightarrow> int \<Rightarrow> string" where
  "isoformat_sep sep t =
     (let secs = t div usec_per_sec;
          us = t mod usec_per_sec;
          (y, m, d) = civil_from_days (secs div 86400);
          sod = secs mod 86400
      in pad 4 y @ ''-'' @ pad 2 m @ ''-'' @ pad 2 d @ sep
         @ pad 2 (sod div 3600) @ '':'' @ pad 2 (sod div 60 mod 60) @ '':'' @ pad 2 (sod mod 60)
         @ (if us = 0 then [] else ''.'' @ pad 6 us) @ ''+00:00'')"

definition isoformat :: "int \<Rightarrow> string" where
  "isoformat t = isoformat_sep ''T'' t"

section \<open>Conversions of JSON values\<close>

definition hex_digit :: "nat \<Rightarrow> char" where
  "hex_digit d = (if d < 10 then char_of (48 + d) else char_of (87 + d))"

definition hex2 :: "nat \<Rightarrow> string" where
  "hex2 n = [hex_digit (n div 16), hex_digit (n mod 16)]"

definition repr_char :: "char \<Rightarrow> char \<Rightarrow> string" where
  "repr_char q c =
     (if c = q \<or> c = CHR 0x5C then [CHR 0x5C, c]
      else if c = CHR 0x0A then [CHR 0x5C, CHR ''n'']
      else if c = CHR 0x0D then [CHR 0x5C, CHR ''r'']
      else if c = CHR 0x09 then [CHR 0x5C, CHR ''t'']
      else let n = (of_char c :: nat) in
           if n < 32 \<or> n = 127 then [CHR 0x5C, CHR ''x''] @ hex2 n else [c])"

definition repr_str :: "string \<Rightarrow> string" where
  "repr_str s =
     (let q = (if CHR 0x27 \<in> set s \<and> CHR 0x22 \<notin> set s then CHR 0x22 else CHR 0x27)
      in q # concat (map (repr_char q) s) @ [q])"

definition join :: "string \<Rightarrow> string list \<Rightarrow> string" where
  "join sep xs = (case xs of [] \<Rightarrow> [] | y # ys \<Rightarrow> y @ concat (map (\<lambda>z. sep @ z) ys))"

function py_repr :: "json \<Rightarrow> string" where
  "py_repr JNull = ''None''"
| "py_repr (JBool b) = (if b then ''True'' else ''False'')"
| "py_repr (JInt i) = show_int i"
| "py_repr (JFloat r t) = t"
| "py_repr (JStr s) = repr_str s"
| "py_repr (JTime t) = isoformat_sep '' '' t"
| "py_repr (JArr xs) = ''['' @ join '', '' (map py_repr xs) @ '']''"
| "py_repr (JObj kvs) =
     ''{'' @ join '', '' (map (\<lambda>kv. repr_str (fst kv) @ '': '' @ py_repr (snd kv)) kvs) @ ''}''"
  by pat_completeness auto
termination
  by (relation "measure size") (auto dest!: size_json_member)

definition py_str :: "json \<Rightarrow> string" where
  "py_str v = (case v of JStr s \<Rightarrow> s | _ \<Rightarrow> py_repr v)"

definition rat_trunc :: "rat \<Rightarrow> int" where
  "rat_trunc r = (if r < 0 then - \<lfloor>- r\<rfloor> else \<lfloor>r\<rfloor>)"

definition py_int :: "json \<Rightarrow> error + int" where
  "py_int v =
     (case v of
        JBool b \<Rightarrow> Inr (if b then 1 else 0)
      | JInt i \<Rightarrow> Inr i
      | JFloat r _ \<Rightarrow> Inr (rat_trunc r)
      | JStr s \<Rightarrow> (case parse_int s of
                     None \<Rightarrow> Inl (ValueError ''invalid literal for int() with base 10'')
                   | Some i \<Rightarrow> Inr i)
      | _ \<Rightarrow> Inl (TypeError ''int() argument must be a string or a real number''))"

text \<open>\<open>json.dumps(v, sort_keys=True, separators=(",", ":"), default=str)\<close>.\<close>

definition dumps_char :: "char \<Rightarrow> string" where
  "dumps_char c =
     (if c = CHR 0x22 \<or> c = CHR 0x5C then [CHR 0x5C, c]
      else if c = CHR 0x0A then [CHR 0x5C, CHR ''n'']
      else if c = CHR 0x0D then [CHR 0x5C, CHR ''r'']
      else if c = CHR 0x09 then [CHR 0x5C, CHR ''t'']
      else if c = CHR 0x08 then [CHR 0x5C, CHR ''b'']
      else if c = CHR 0x0C then [CHR 0x5C, CHR ''f'']
      else let n = (of_char c :: nat) in
           if n < 32 \<or> n > 126 then [CHR 0x5C, CHR ''u'', CHR ''0'', CHR ''0''] @ hex2 n else [c])"

definition dumps_str :: "string \<Rightarrow> string" where
  "dumps_str s = CHR 0x22 # concat (map dumps_char s) @ [CHR 0x22]"

function dumps :: "json \<Rightarrow> string" where
  "dumps JNull = ''null''"
| "dumps (JBool b) = (if b then ''true'' else ''false'')"
| "dumps (JInt i) = show_int i"
| "dumps (JFloat r t) = t"
| "dumps (JStr s) = dumps_str s"
| "dumps (JTime t) = dumps_str (isoformat_sep '' '' t)"
| "dumps (JArr xs) = ''['' @ join '','' (map dumps xs) @ '']''"
| "dumps (JObj kvs) =
     ''{'' @ join '','' (map snd (sort_key fst
        (map (\<lambda>kv. (fst kv, dumps_str (fst kv) @ '':'' @ dumps (snd kv))) kvs))) @ ''}''"
  by pat_completeness auto
termination
  by (relation "measure size") (auto dest!: size_json_member)

text \<open>\<open>_json_safe\<close> of \<open>governance/review_records.py\<close>: datetimes become ISO strings.\<close>

function json_safe :: "json \<Rightarrow> json" where
  "json_safe (JTime t) = JStr (isoformat t)"
| "json_safe (JObj kvs) = JObj (map (\<lambda>kv. (fst kv, json_safe (snd kv))) kvs)"
| "json_safe (JArr xs) = JArr (map json_safe xs)"
| "json_safe JNull = JNull"
| "json_safe (JBool b) = JBool b"
| "json_safe (JInt i) = JInt i"
| "json_safe (JFloat r t) = JFloat r t"
| "json_safe (JStr s) = JStr s"
  by pat_completeness auto
termination
  by (relation "measure size") (auto dest!: size_json_member)

definition json_safe_dict :: "dict \<Rightarrow> dict" where
  "json_safe_dict d = map (\<lambda>kv. (fst kv, json_safe (snd kv))) d"

section \<open>Binary64 arithmetic\<close>

text \<open>
  Positive finite doubles as rationals: \<open>fl\<close> rounds an exact result to the nearest
  53-bit value, ties to even (the normal range; the scores stay between 0 and 100).
  \<open>py_round\<close> is \<open>round\<close>: nearest integer, ties to even.
\<close>

definition pow2 :: "int \<Rightarrow> rat" where
  "pow2 k = (if 0 \<le> k then 2 ^ nat k else 1 / 2 ^ nat (- k))"

definition py_round :: "rat \<Rightarrow> int" where
  "py_round r =
     (let f = \<lfloor>r\<rfloor>; d = r - of_int f
      in if d < 1 / 2 then f else if 1 / 2 < d then f + 1 else if even f then f else f + 1)"

definition fexp :: "rat \<Rightarrow> int" where
  "fexp r = (let (p, q) = quotient_of r; k = bitlen p - bitlen q
             in if pow2 k \<le> r then k else k - 1)"

definition fl :: "rat \<Rightarrow> rat" where
  "fl r = (if r = 0 then 0
           else let e = fexp \<bar>r\<bar> - 52 in of_int (py_round (r / pow2 e)) * pow2 e)"

lemma pow2_pos [simp]: "0 < pow2 k"
  by (simp add: pow2_def)

lemma pow2_succ: "pow2 (k + 1) = 2 * pow2 k"
proof (cases "0 \<le> k")
  case True
  then show ?thesis by (simp add: pow2_def nat_add_distrib)
next
  case False
  then have "nat (- k) = Suc (nat (- (k + 1)))" by simp
  with False show ?thesis by (cases "k = - 1") (auto simp: pow2_def)
qed

lemma pow2_add_nat: "pow2 (k + int n) = pow2 k * 2 ^ n"
proof (induction n)
  case (Suc n)
  have "pow2 (k + int (Suc n)) = pow2 ((k + int n) + 1)" by (simp add: ac_simps)
  then show ?case by (simp only: pow2_succ Suc.IH) simp
qed simp

lemma pow2_diff: "pow2 (i - j) * pow2 j = pow2 i"
proof (cases "0 \<le> j")
  case True
  then show ?thesis using pow2_add_nat [of "i - j" "nat j"] by (simp add: pow2_def)
next
  case False
  then show ?thesis using pow2_add_nat [of i "nat (- j)"] by (simp add: pow2_def field_simps)
qed

lemma py_round_err: "\<bar>of_int (py_round r) - r\<bar> \<le> 1 / 2"
proof -
  have "of_int \<lfloor>r\<rfloor> \<le> r" and "r < of_int \<lfloor>r\<rfloor> + 1"
    using floor_correct by auto
  then show ?thesis
    unfolding py_round_def Let_def abs_le_iff by (simp split: if_split) linarith
qed

lemma py_round_upper: "of_int (py_round r) \<le> r + 1 / 2"
  and py_round_lower: "r - 1 / 2 \<le> of_int (py_round r)"
  using py_round_err [of r] unfolding abs_le_iff by linarith+

lemma py_round_le: "r < of_int n + 1 / 2 \<Longrightarrow> py_round r \<le> n"
proof -
  assume "r < of_int n + 1 / 2"
  with py_round_upper [of r] have "of_int (py_round r) < (of_int (n + 1) :: rat)" by simp
  then show ?thesis by (simp only: of_int_less_iff)
qed

lemma py_round_ge: "of_int n - 1 / 2 < r \<Longrightarrow> n \<le> py_round r"
proof -
  assume "of_int n - 1 / 2 < r"
  with py_round_lower [of r] have "of_int (n - 1) < (of_int (py_round r) :: rat)" by simp
  then show ?thesis by (simp only: of_int_less_iff)
qed

lemma bitlen_pos: "0 < p \<Longrightarrow> 0 < bitlen p"
  using bitlen_nonneg [of p] bitlen_eq_zero_iff [of p] by linarith

lemma pow2_bitlen_le: "0 < p \<Longrightarrow> pow2 (bitlen p - 1) \<le> of_int p"
  and less_pow2_bitlen: "0 < p \<Longrightarrow> of_int p < pow2 (bitlen p)"
proof -
  assume "0 < p"
  then have "0 < bitlen p" and b: "2 ^ nat (bitlen p - 1) \<le> p" "p < 2 ^ nat (bitlen p)"
    using bitlen_bounds [of p] bitlen_pos [of p] by auto
  from b have "(of_int (2 ^ nat (bitlen p - 1)) :: rat) \<le> of_int p"
    and "(of_int p :: rat) < of_int (2 ^ nat (bitlen p))"
    by (simp_all only: of_int_le_iff of_int_less_iff)
  with \<open>0 < bitlen p\<close> show "pow2 (bitlen p - 1) \<le> of_int p" and "of_int p < pow2 (bitlen p)"
    by (simp_all add: pow2_def)
qed

lemma fexp_le: "0 < r \<Longrightarrow> pow2 (fexp r) \<le> r"
proof -
  assume r: "0 < r"
  obtain p q where pq: "quotient_of r = (p, q)" by force
  then have "0 < q" and rpq: "r = of_int p / of_int q"
    by (auto simp: quotient_of_denom_pos quotient_of_div)
  with r have "0 < p" by (simp add: zero_less_divide_iff)
  have "pow2 (bitlen p - bitlen q - 1) \<le> r"
  proof -
    have "pow2 (bitlen p - 1 - bitlen q) * of_int q \<le> pow2 (bitlen p - 1 - bitlen q) * pow2 (bitlen q)"
      using less_pow2_bitlen [OF \<open>0 < q\<close>] by (simp add: mult_left_mono)
    also have "\<dots> \<le> of_int p"
      by (simp add: pow2_diff pow2_bitlen_le \<open>0 < p\<close>)
    finally show ?thesis
      using \<open>0 < q\<close> by (simp add: rpq pos_le_divide_eq diff_right_commute)
  qed
  then show ?thesis by (simp add: fexp_def pq Let_def)
qed

text \<open>The relative error of one rounding is at most half a unit in the last place.\<close>

lemma fl_err: "\<bar>fl r - r\<bar> \<le> \<bar>r\<bar> / 2 ^ 53"
proof (cases "r = 0")
  case False
  define e where "e = fexp \<bar>r\<bar> - 52"
  have "pow2 e * 2 ^ 52 \<le> \<bar>r\<bar>"
    using fexp_le [of "\<bar>r\<bar>"] pow2_add_nat [of e 52] False by (simp add: e_def)
  moreover have "\<bar>fl r - r\<bar> \<le> pow2 e / 2"
  proof -
    have "pow2 e \<noteq> 0" using pow2_pos [of e] by linarith
    then have "fl r - r = (of_int (py_round (r / pow2 e)) - r / pow2 e) * pow2 e"
      using False by (simp add: fl_def Let_def e_def algebra_simps)
    then have "\<bar>fl r - r\<bar> = \<bar>of_int (py_round (r / pow2 e)) - r / pow2 e\<bar> * pow2 e"
      by (simp add: abs_mult abs_of_pos)
    also have "\<dots> \<le> 1 / 2 * pow2 e"
      using py_round_err by (intro mult_right_mono) (simp_all add: less_imp_le)
    finally show ?thesis by simp
  qed
  ultimately show ?thesis by simp
qed (simp add: fl_def)

lemma fl_upper: "0 \<le> r \<Longrightarrow> fl r \<le> r + r / 2 ^ 53"
  and fl_lower: "0 \<le> r \<Longrightarrow> r - r / 2 ^ 53 \<le> fl r"
  using fl_err [of r] unfolding abs_le_iff by linarith+

lemma fl_nonneg [simp]: "0 \<le> r \<Longrightarrow> 0 \<le> fl r"
  using fl_lower [of r] by simp

text \<open>Rounding is monotone, within a binade and across binades.\<close>

lemma py_round_mono: "r \<le> s \<Longrightarrow> py_round r \<le> py_round s"
proof (cases "\<lfloor>r\<rfloor> = \<lfloor>s\<rfloor>")
  case True
  assume "r \<le> s"
  with True show ?thesis by (auto simp: py_round_def Let_def)
next
  case False
  assume "r \<le> s"
  with False have "\<lfloor>r\<rfloor> + 1 \<le> \<lfloor>s\<rfloor>" using floor_mono [of r s] by linarith
  moreover have "py_round r \<le> \<lfloor>r\<rfloor> + 1" and "\<lfloor>s\<rfloor> \<le> py_round s"
    by (simp_all add: py_round_def Let_def)
  ultimately show ?thesis by linarith
qed

lemma py_round_of_int [simp]: "py_round (of_int n) = n"
  by (simp add: py_round_def)

lemma pow2_mono: "i \<le> j \<Longrightarrow> pow2 i \<le> pow2 j"
  using pow2_add_nat [of i "nat (j - i)"] by simp

lemma pow2_less_mono: "i < j \<Longrightarrow> pow2 i < pow2 j"
  using pow2_mono [of "i + 1" j] pow2_succ [of i] pow2_pos [of i] by linarith

lemma fexp_less: "0 < r \<Longrightarrow> r < pow2 (fexp r + 1)"
proof -
  assume r: "0 < r"
  obtain p q where pq: "quotient_of r = (p, q)" by force
  then have "0 < q" and rpq: "r = of_int p / of_int q"
    by (auto simp: quotient_of_denom_pos quotient_of_div)
  with r have "0 < p" by (simp add: zero_less_divide_iff)
  have "r < pow2 (bitlen p - bitlen q + 1)"
  proof -
    have "of_int p < pow2 (bitlen p)" by (rule less_pow2_bitlen [OF \<open>0 < p\<close>])
    also have "\<dots> = pow2 (bitlen p - (bitlen q - 1)) * pow2 (bitlen q - 1)"
      by (simp add: pow2_diff)
    also have "\<dots> \<le> pow2 (bitlen p - (bitlen q - 1)) * of_int q"
      using pow2_bitlen_le [OF \<open>0 < q\<close>] by (simp add: mult_left_mono)
    finally show ?thesis
      using \<open>0 < q\<close> by (simp add: rpq pos_divide_less_eq algebra_simps)
  qed
  then show ?thesis by (simp add: fexp_def pq Let_def)
qed

lemma fexp_mono: "0 < r \<Longrightarrow> r \<le> s \<Longrightarrow> fexp r \<le> fexp s"
proof (rule ccontr)
  assume r: "0 < r" "r \<le> s" and "\<not> fexp r \<le> fexp s"
  then have "pow2 (fexp s + 1) \<le> pow2 (fexp r)" by (intro pow2_mono) simp
  with fexp_le [of r] fexp_less [of s] r show False by linarith
qed

lemma fl_pos_bounds:
  assumes "0 < r"
  shows "pow2 (fexp r) \<le> fl r" and "fl r \<le> pow2 (fexp r + 1)"
proof -
  define e where "e = fexp r - 52"
  have scale: "pow2 (fexp r) = of_int (2 ^ 52) * pow2 e" "pow2 (fexp r + 1) = of_int (2 ^ 53) * pow2 e"
    using pow2_add_nat [of e 52] pow2_add_nat [of e 53] by (simp_all add: e_def add.commute)
  have fl: "fl r = of_int (py_round (r / pow2 e)) * pow2 e"
    using assms by (simp add: fl_def e_def Let_def)
  have "of_int (2 ^ 52) \<le> r / pow2 e"
    using fexp_le [OF assms] scale(1) by (simp add: pos_le_divide_eq)
  then have "2 ^ 52 \<le> py_round (r / pow2 e)"
    by (drule_tac py_round_mono) (simp only: py_round_of_int)
  then have "(of_int (2 ^ 52) :: rat) \<le> of_int (py_round (r / pow2 e))" by (simp only: of_int_le_iff)
  then show "pow2 (fexp r) \<le> fl r"
    unfolding fl scale by (intro mult_right_mono) (simp_all add: less_imp_le)
  have "r / pow2 e \<le> of_int (2 ^ 53)"
    using fexp_less [OF assms] scale(2) by (simp add: pos_divide_le_eq)
  then have "py_round (r / pow2 e) \<le> 2 ^ 53"
    by (drule_tac py_round_mono) (simp only: py_round_of_int)
  then have "(of_int (py_round (r / pow2 e)) :: rat) \<le> of_int (2 ^ 53)" by (simp only: of_int_le_iff)
  then show "fl r \<le> pow2 (fexp r + 1)"
    unfolding fl scale by (intro mult_right_mono) (simp_all add: less_imp_le)
qed

lemma fl_mono: "0 \<le> r \<Longrightarrow> r \<le> s \<Longrightarrow> fl r \<le> fl s"
proof (cases "r = 0")
  case True
  assume "0 \<le> r" "r \<le> s"
  with True show ?thesis by (simp add: fl_def [of 0])
next
  case False
  assume "0 \<le> r" and rs: "r \<le> s"
  with False have r: "0 < r" "0 < s" by auto
  show ?thesis
  proof (cases "fexp r = fexp s")
    case True
    have "py_round (r / pow2 (fexp s - 52)) \<le> py_round (s / pow2 (fexp s - 52))"
      using rs by (intro py_round_mono divide_right_mono) (simp_all add: less_imp_le)
    with True r show ?thesis
      by (simp add: fl_def Let_def mult_right_mono less_imp_le)
  next
    case False
    with fexp_mono [OF r(1) rs] have "fexp r + 1 \<le> fexp s" by linarith
    then have "pow2 (fexp r + 1) \<le> pow2 (fexp s)" by (rule pow2_mono)
    with fl_pos_bounds [OF r(1)] fl_pos_bounds [OF r(2)] show ?thesis by linarith
  qed
qed
end
