(* ===== verification/Schema.thy ===== *)
theory Schema
  imports Py_Values
begin

text \<open>
  The persistent rows (\<open>models/db/*.py\<close>): one record per mapped class, with the columns of
  the class in their order.  A nullable column is an option, a JSONB object a \<open>dict\<close>, a
  JSONB array a list of documents, a timestamp its microseconds since the epoch.  Every
  field carries a prefix for its class.  Relationship attributes are queries over the
  foreign keys and have no field.
\<close>

section \<open>Outreach sequences\<close>

record Sequence =
  seq_id :: string
  seq_name :: string
  seq_owner_id :: "string option"
  seq_channel :: string
  seq_status :: string
  seq_rate_limit_policy :: dict
  seq_definition_version :: int
  seq_idempotency_key :: "string option"
  seq_created_at :: int
  seq_updated_at :: int

record SequenceStep =
  step_id :: string
  step_sequence_id :: string
  step_step_order :: int
  step_channel :: string
  step_delay_seconds :: int
  step_subject_template :: "string option"
  step_body_template :: "string option"
  step_requires_approval :: bool
  step_step_metadata :: dict
  step_definition_version :: int
  step_active :: bool
  step_created_at :: int
  step_updated_at :: int

record SequenceEnrollment =
  enr_id :: string
  enr_sequence_id :: string
  enr_crm_target_id :: string
  enr_contact_id :: string
  enr_account_id :: "string option"
  enr_status :: string
  enr_approval_actor :: string
  enr_approval_reason :: string
  enr_current_step_order :: int
  enr_definition_version :: int
  enr_next_step_at :: "int option"
  enr_pause_reason :: "string option"
  enr_policy_snapshot :: dict
  enr_idempotency_key :: string
  enr_version :: int
  enr_created_at :: int
  enr_updated_at :: int
  enr_completed_at :: "int option"

record SequenceStepActivity =
  act_id :: string
  act_enrollment_id :: string
  act_sequence_step_id :: string
  act_outbound_email_id :: "string option"
  act_meeting_handoff_id :: "string option"
  act_step_order :: int
  act_channel :: string
  act_status :: string
  act_due_at :: "int option"
  act_approved_by :: "string option"
  act_approved_at :: "int option"
  act_completed_by :: "string option"
  act_completed_at :: "int option"
  act_metadata_payload :: dict
  act_idempotency_key :: string
  act_created_at :: int
  act_updated_at :: int

record OutboundEmail =
  out_id :: string
  out_enrollment_id :: string
  out_sequence_step_id :: string
  out_contact_id :: string
  out_channel :: string
  out_to_email :: string
  out_from_email :: string
  out_subject :: string
  out_body :: string
  out_status :: string
  out_provider_message_id :: "string option"
  out_idempotency_key :: string
  out_attempt_count :: int
  out_last_error :: "string option"
  out_retry_after_seconds :: "int option"
  out_scheduled_at :: int
  out_sent_at :: "int option"
  out_created_at :: int
  out_updated_at :: int

record InboundEmailEvent =
  inb_id :: string
  inb_enrollment_id :: "string option"
  inb_outbound_email_id :: "string option"
  inb_event_type :: string
  inb_from_email :: "string option"
  inb_to_email :: "string option"
  inb_message_id :: "string option"
  inb_provider_payload :: dict
  inb_idempotency_key :: string
  inb_occurred_at :: int
  inb_created_at :: int

record SequenceSuppressionEvent =
  sse_id :: string
  sse_enrollment_id :: "string option"
  sse_suppression_id :: "string option"
  sse_email :: "string option"
  sse_domain :: "string option"
  sse_channel :: string
  sse_reason :: string
  sse_source_event_id :: "string option"
  sse_created_at :: int

record SequenceEmailAlert =
  alr_id :: string
  alr_enrollment_id :: string
  alr_recipient_email :: string
  alr_subject :: string
  alr_body :: string
  alr_send_at :: int
  alr_status :: string
  alr_actor :: string
  alr_provider_message_id :: "string option"
  alr_last_error :: "string option"
  alr_sent_at :: "int option"
  alr_idempotency_key :: string
  alr_created_at :: int
  alr_updated_at :: int

section \<open>Review queue\<close>

record ReviewCandidate =
  rc_id :: string
  rc_candidate_type :: string
  rc_target_type :: string
  rc_target_id :: string
  rc_origin_type :: "string option"
  rc_origin_id :: "string option"
  rc_source_definition_id :: "string option"
  rc_source_item_ids :: "json list"
  rc_status :: string
  rc_reason_code :: string
  rc_reason :: "string option"
  rc_evidence_summary :: dict
  rc_policy_snapshot :: dict
  rc_policy_snapshot_hash :: "string option"
  rc_sla_due_at :: "int option"
  rc_idempotency_key :: string
  rc_version :: int
  rc_created_at :: int
  rc_updated_at :: int

record CandidateScore =
  cs_id :: string
  cs_target_type :: string
  cs_target_id :: string
  cs_origin_type :: "string option"
  cs_origin_id :: "string option"
  cs_source_definition_id :: "string option"
  cs_source_item_ids :: "json list"
  cs_config_version :: string
  cs_component_scores :: dict
  cs_composite_score :: int
  cs_route :: string
  cs_reasons :: "json list"
  cs_policy_snapshot :: dict
  cs_policy_snapshot_hash :: string
  cs_idempotency_key :: string
  cs_created_at :: int

record ReviewDecision =
  rd_id :: string
  rd_review_candidate_id :: "string option"
  rd_target_type :: string
  rd_target_id :: string
  rd_decision :: string
  rd_actor :: string
  rd_reason_code :: string
  rd_reason :: "string option"
  rd_evidence_snapshot :: dict
  rd_policy_snapshot :: dict
  rd_policy_snapshot_hash :: "string option"
  rd_idempotency_key :: string
  rd_created_at :: int

section \<open>Governance, audit and outbox\<close>

record Suppression =
  sup_id :: string
  sup_email :: "string option"
  sup_domain :: "string option"
  sup_contact_id :: "string option"
  sup_channel :: string
  sup_target_type :: "string option"
  sup_target_id :: "string option"
  sup_reason :: string
  sup_source :: string
  sup_active :: bool
  sup_expires_at :: "int option"
  sup_policy_snapshot :: dict
  sup_idempotency_key :: "string option"
  sup_created_at :: int

record AuditEvent =
  aud_id :: string
  aud_actor :: string
  aud_human_subject :: "string option"
  aud_service_subject :: "string option"
  aud_on_behalf_of_subject :: "string option"
  aud_identity_type :: "string option"
  aud_action :: string
  aud_operation :: "string option"
  aud_permission :: "string option"
  aud_decision :: "string option"
  aud_denial_category :: "string option"
  aud_assurance :: "string option"
  aud_policy_version :: "string option"
  aud_mapping_version :: "string option"
  aud_environment :: "string option"
  aud_request_id :: "string option"
  aud_correlation_id :: "string option"
  aud_entity_type :: string
  aud_entity_id :: string
  aud_idempotency_key :: "string option"
  aud_payload :: dict
  aud_network_metadata :: dict
  aud_integrity_hmac :: "string option"
  aud_created_at :: int

record OutboxEvent =
  obx_id :: string
  obx_event_name :: string
  obx_aggregate_type :: string
  obx_aggregate_id :: string
  obx_idempotency_key :: string
  obx_payload :: dict
  obx_published_at :: "int option"
  obx_created_at :: int

section \<open>CRM targets and exports\<close>

record CrmTarget =
  tgt_id :: string
  tgt_review_candidate_id :: "string option"
  tgt_review_decision_id :: "string option"
  tgt_target_type :: string
  tgt_target_id :: string
  tgt_origin_type :: "string option"
  tgt_origin_id :: "string option"
  tgt_source_definition_id :: "string option"
  tgt_source_item_ids :: "json list"
  tgt_status :: string
  tgt_export_status :: string
  tgt_policy_snapshot :: dict
  tgt_approval_snapshot :: dict
  tgt_idempotency_key :: string
  tgt_version :: int
  tgt_created_at :: int
  tgt_updated_at :: int

record CrmExportBatch =
  bat_id :: string
  bat_provider :: string
  bat_workspace_id :: "string option"
  bat_requested_by :: string
  bat_status :: string
  bat_crm_target_ids :: "json list"
  bat_selection_hash :: string
  bat_idempotency_key :: string
  bat_counts :: dict
  bat_reconciliation_summary :: dict
  bat_started_at :: "int option"
  bat_completed_at :: "int option"
  bat_created_at :: int
  bat_updated_at :: int

record CrmExportItem =
  itm_id :: string
  itm_batch_id :: string
  itm_crm_target_id :: string
  itm_target_type :: string
  itm_target_id :: string
  itm_operation :: string
  itm_dependency_item_ids :: "json list"
  itm_provider_object :: string
  itm_provider_record_id :: "string option"
  itm_provider_list_id :: "string option"
  itm_provider_list_entry_id :: "string option"
  itm_stable_match_key :: string
  itm_status :: string
  itm_attempt_count :: int
  itm_last_error :: "string option"
  itm_retry_after_seconds :: "int option"
  itm_reconciliation_state :: string
  itm_created_at :: int
  itm_updated_at :: int

section \<open>Prospects\<close>

record Account =
  acc_id :: string
  acc_crm_account_id :: "string option"
  acc_domain :: string
  acc_company_name :: string
  acc_hq_country :: "string option"
  acc_employee_count :: "int option"
  acc_revenue_band :: "string option"
  acc_industry :: "string option"
  acc_sub_industry :: "string option"
  acc_tech_stack :: dict
  acc_security_stack :: dict
  acc_intent_topics :: "json list"
  acc_territory :: "string option"
  acc_owner_id :: "string option"
  acc_named_account_flag :: bool
  acc_priority_tier :: "string option"
  acc_fit_score :: int
  acc_intent_score :: int
  acc_composite_score :: int
  acc_last_signal_at :: "int option"
  acc_created_at :: int
  acc_updated_at :: int

record Contact =
  con_id :: string
  con_crm_contact_id :: "string option"
  con_account_id :: "string option"
  con_full_name :: string
  con_title :: "string option"
  con_seniority :: "string option"
  con_function :: "string option"
  con_email :: "string option"
  con_email_status :: "string option"
  con_phone :: "string option"
  con_linkedin_url :: "string option"
  con_timezone :: "string option"
  con_persona_type :: "string option"
  con_buying_role :: "string option"
  con_last_enriched_at :: "int option"
  con_do_not_contact_flag :: bool
  con_lawful_basis :: "string option"
  con_source_vendor :: "string option"
  con_source_confidence :: int
  con_source_url :: "string option"
  con_source_definition_id :: "string option"
  con_source_item_ids :: "json list"
  con_origin_type :: "string option"
  con_origin_id :: "string option"
  con_source_policy_snapshot :: dict
  con_review_status :: string
  con_review_reason :: "string option"
  con_idempotency_key :: "string option"
  con_version :: int
  con_created_at :: int
  con_updated_at :: int

record EmailCandidateRecord =
  ecr_id :: string
  ecr_contact_id :: "string option"
  ecr_email :: string
  ecr_pattern :: string
  ecr_verification_status :: string
  ecr_verification_payload :: dict
  ecr_verification_checked_at :: "int option"
  ecr_source_definition_id :: "string option"
  ecr_source_item_ids :: "json list"
  ecr_origin_type :: "string option"
  ecr_origin_id :: "string option"
  ecr_policy_snapshot :: dict
  ecr_review_status :: string
  ecr_review_reason :: "string option"
  ecr_idempotency_key :: "string option"
  ecr_version :: int
  ecr_created_at :: int

section \<open>Intelligence\<close>

record SecurityIncident =
  inc_id :: string
  inc_status :: string
  inc_title :: string
  inc_incident_group_key :: "string option"
  inc_primary_affected_company :: "string option"
  inc_primary_affected_domain :: "string option"
  inc_affected_companies :: "json list"
  inc_affected_domains :: "json list"
  inc_incident_type :: "string option"
  inc_attack_vector :: "string option"
  inc_first_observed_at :: "int option"
  inc_last_observed_at :: "int option"
  inc_geography :: "json list"
  inc_languages :: "json list"
  inc_confidence :: int
  inc_evidence_article_ids :: "json list"
  inc_evidence_source_item_ids :: "json list"
  inc_evidence_families :: "json list"
  inc_evidence_urls :: "json list"
  inc_corroboration_method :: string
  inc_analyst_decision_ref :: "string option"
  inc_canonical_state :: string
  inc_dedupe_key :: string
  inc_source_definition_id :: "string option"
  inc_source_item_ids :: "json list"
  inc_version :: int
  inc_created_at :: int
  inc_updated_at :: int

record CyberEvent =
  evt_id :: string
  evt_name :: string
  evt_event_series_key :: string
  evt_external_id :: "string option"
  evt_canonical_url :: "string option"
  evt_original_start :: "string option"
  evt_original_end :: "string option"
  evt_source_timezone :: "string option"
  evt_iana_timezone :: "string option"
  evt_timezone_status :: string
  evt_starts_at_utc :: "int option"
  evt_ends_at_utc :: "int option"
  evt_event_format :: string
  evt_venue_name :: "string option"
  evt_street_address :: "string option"
  evt_city :: "string option"
  evt_region :: "string option"
  evt_postcode :: "string option"
  evt_country :: "string option"
  evt_virtual_url :: "string option"
  evt_latitude :: "rat option"
  evt_longitude :: "rat option"
  evt_geocode_status :: string
  evt_geocode_provider :: "string option"
  evt_geocode_display_name :: "string option"
  evt_geocoded_at :: "int option"
  evt_topics :: "json list"
  evt_organizers :: "json list"
  evt_confidence :: int
  evt_canonical_state :: string
  evt_dedupe_key :: string
  evt_source_definition_id :: "string option"
  evt_source_item_ids :: "json list"
  evt_version :: int
  evt_created_at :: int
  evt_updated_at :: int

record EventParticipant =
  evp_id :: string
  evp_cyber_event_id :: string
  evp_source_definition_id :: "string option"
  evp_source_item_id :: "string option"
  evp_source_participant_id :: "string option"
  evp_published_name :: string
  evp_organization :: "string option"
  evp_published_role :: "string option"
  evp_participant_type :: string
  evp_profile_url :: "string option"
  evp_reuse_state :: string
  evp_reuse_evidence :: dict
  evp_contact_extraction_allowed :: bool
  evp_crm_export_allowed :: bool
  evp_resolution_confidence :: int
  evp_dedupe_key :: string
  evp_created_at :: int
  evp_updated_at :: int

section \<open>Meetings\<close>

record MeetingHandoff =
  mtg_id :: string
  mtg_crm_target_id :: "string option"
  mtg_sequence_enrollment_id :: "string option"
  mtg_account_id :: "string option"
  mtg_contact_id :: "string option"
  mtg_status :: string
  mtg_subject :: string
  mtg_description :: "string option"
  mtg_location :: "string option"
  mtg_start_at :: int
  mtg_end_at :: int
  mtg_timezone :: string
  mtg_attendees :: "json list"
  mtg_calendar_provider :: string
  mtg_calendar_id :: "string option"
  mtg_provider_event_id :: "string option"
  mtg_provider_html_link :: "string option"
  mtg_provider_payload :: dict
  mtg_outcome_status :: "string option"
  mtg_outcome_notes :: "string option"
  mtg_next_steps :: "json list"
  mtg_crm_sync_status :: string
  mtg_crm_sync_error :: "string option"
  mtg_crm_retry_after_seconds :: "int option"
  mtg_policy_snapshot :: dict
  mtg_idempotency_key :: string
  mtg_version :: int
  mtg_created_at :: int
  mtg_updated_at :: int

record MeetingPrepPacket =
  mpp_id :: string
  mpp_meeting_id :: string
  mpp_account_summary :: string
  mpp_stakeholder_map :: "json list"
  mpp_likely_security_priorities :: "json list"
  mpp_suggested_questions :: "json list"
  mpp_risks :: "json list"
  mpp_source_snapshot :: dict
  mpp_generated_by :: string
  mpp_idempotency_key :: "string option"
  mpp_created_at :: int
  mpp_updated_at :: int

record MeetingFollowUpTask =
  mft_id :: string
  mft_meeting_id :: string
  mft_title :: string
  mft_description :: "string option"
  mft_owner :: "string option"
  mft_due_at :: "int option"
  mft_status :: string
  mft_crm_sync_status :: string
  mft_provider_task_id :: "string option"
  mft_last_error :: "string option"
  mft_idempotency_key :: "string option"
  mft_created_at :: int
  mft_updated_at :: int

record Signal =
  sgl_id :: string
  sgl_account_id :: "string option"
  sgl_contact_id :: "string option"
  sgl_signal_type :: string
  sgl_signal_source :: string
  sgl_signal_strength :: int
  sgl_signal_topic :: "string option"
  sgl_signal_timestamp :: int
  sgl_expires_at :: "int option"
  sgl_product_relevance :: "string option"
  sgl_recommended_play :: "string option"
  sgl_raw_payload :: dict

end
