(* ===== verification/Identity.thy ===== *)
theory Identity
  imports Py_Values
begin

text \<open>
  The identity contract and the permission policy (\<open>security/identity.py\<close>,
  \<open>security/policy.py\<close>): the verified identity handed to business code, the
  roles and the permissions each grants, and the authorization decision.
\<close>

section \<open>Identity context\<close>

datatype IdentityType = HUMAN | SERVICE | WORKER

fun identity_type_value :: "IdentityType \<Rightarrow> string" where
  "identity_type_value HUMAN = ''human''"
| "identity_type_value SERVICE = ''service''"
| "identity_type_value WORKER = ''worker''"

datatype AssuranceLevel = EMAIL_OTP | PHISHING_RESISTANT | WORKLOAD

fun assurance_value :: "AssuranceLevel \<Rightarrow> string" where
  "assurance_value EMAIL_OTP = ''aal1''"
| "assurance_value PHISHING_RESISTANT = ''aal2_phishing_resistant''"
| "assurance_value WORKLOAD = ''workload''"

record IdentityContext =
  idn_type :: IdentityType
  idn_subject :: string
  idn_actor_label :: string
  idn_issuer :: string
  idn_audience :: "string list"
  idn_roles :: "string set"
  idn_permissions :: "string set"
  idn_calling_service :: "string option"
  idn_on_behalf_of_subject :: "string option"
  idn_authentication_method :: string
  idn_authenticated_at :: int
  idn_assurance :: AssuranceLevel
  idn_session_id :: "string option"
  idn_correlation_id :: string
  idn_request_id :: string
  idn_claim_mapping_version :: string
  idn_permission_policy_version :: string
  idn_environment :: string
  idn_workspace_id :: string
  idn_email_verified :: "bool option"
  idn_attributes :: "(string \<times> string) list"

text \<open>\<open>__post_init__\<close>: the constructor's checks.  Timestamps of the model are aware by
  construction, so the time-zone check has no counterpart.\<close>

definition identity_post_init :: "IdentityContext \<Rightarrow> error + IdentityContext" where
  "identity_post_init i =
     (if py_strip (idn_subject i) = [] then Inl (ValueError ''identity subject is required'')
      else if py_strip (idn_issuer i) = [] then Inl (ValueError ''identity issuer is required'')
      else if idn_audience i = [] then Inl (ValueError ''identity audience is required'')
      else Inr i)"

text \<open>\<open>x or y\<close> on an optional string: \<open>None\<close> and the empty string both fall through.\<close>

definition str_or :: "string option \<Rightarrow> string \<Rightarrow> string" where
  "str_or x d = (case x of Some s \<Rightarrow> if s = [] then d else s | None \<Rightarrow> d)"

definition represented_subject :: "IdentityContext \<Rightarrow> string" where
  "represented_subject i = str_or (idn_on_behalf_of_subject i) (idn_subject i)"

text \<open>\<open>timedelta.total_seconds()\<close> is the correctly rounded quotient of the microseconds.\<close>

definition total_seconds :: "int \<Rightarrow> rat" where
  "total_seconds us = fl (of_int us / 1000000)"

definition authentication_age_seconds :: "IdentityContext \<Rightarrow> int \<Rightarrow> rat" where
  "authentication_age_seconds i now = max 0 (total_seconds (now - idn_authenticated_at i))"

section \<open>Roles and permissions\<close>

definition POLICY_VERSION :: string where
  "POLICY_VERSION = ''sprint25.v1''"

datatype Role = VIEWER | ANALYST_ROLE | GOVERNANCE_REVIEWER | ADMINISTRATOR

fun role_value :: "Role \<Rightarrow> string" where
  "role_value VIEWER = ''viewer''"
| "role_value ANALYST_ROLE = ''analyst''"
| "role_value GOVERNANCE_REVIEWER = ''governance_reviewer''"
| "role_value ADMINISTRATOR = ''administrator''"

datatype Permission =
    SESSION_SELF_READ
  | SESSION_SELF_REVOKE
  | PROFILE_SELF_READ
  | CANONICAL_READ
  | REPORTING_READ
  | GOVERNANCE_READ
  | INTELLIGENCE_WRITE
  | ENRICHMENT_WRITE
  | SCORING_WRITE
  | WATCH_WRITE
  | CRM_EXPORT
  | SEQUENCE_WRITE
  | MEETING_WRITE
  | ASSIGNED_WORK_WRITE
  | GOVERNANCE_ANNOTATE
  | GOVERNANCE_DECIDE
  | GOVERNANCE_OVERRIDE
  | SUPPRESSION_WRITE
  | SECURITY_ADMIN
  | SECURITY_AUDIT_READ
  | METRICS_READ
  | DOCS_READ

fun permission_value :: "Permission \<Rightarrow> string" where
  "permission_value SESSION_SELF_READ = ''session.self.read''"
| "permission_value SESSION_SELF_REVOKE = ''session.self.revoke''"
| "permission_value PROFILE_SELF_READ = ''profile.self.read''"
| "permission_value CANONICAL_READ = ''canonical.read''"
| "permission_value REPORTING_READ = ''reporting.read''"
| "permission_value GOVERNANCE_READ = ''governance.read''"
| "permission_value INTELLIGENCE_WRITE = ''intelligence.write''"
| "permission_value ENRICHMENT_WRITE = ''enrichment.write''"
| "permission_value SCORING_WRITE = ''scoring.write''"
| "permission_value WATCH_WRITE = ''watch.write''"
| "permission_value CRM_EXPORT = ''crm.export''"
| "permission_value SEQUENCE_WRITE = ''sequence.write''"
| "permission_value MEETING_WRITE = ''meeting.write''"
| "permission_value ASSIGNED_WORK_WRITE = ''assigned_work.write''"
| "permission_value GOVERNANCE_ANNOTATE = ''governance.annotate''"
| "permission_value GOVERNANCE_DECIDE = ''governance.decide''"
| "permission_value GOVERNANCE_OVERRIDE = ''governance.override''"
| "permission_value SUPPRESSION_WRITE = ''suppression.write''"
| "permission_value SECURITY_ADMIN = ''security.admin''"
| "permission_value SECURITY_AUDIT_READ = ''security.audit.read''"
| "permission_value METRICS_READ = ''system.metrics.read''"
| "permission_value DOCS_READ = ''system.docs.read''"

definition BASELINE :: "Permission set" where
  "BASELINE = {SESSION_SELF_READ, SESSION_SELF_REVOKE, PROFILE_SELF_READ, CANONICAL_READ,
               REPORTING_READ}"

definition ANALYST :: "Permission set" where
  "ANALYST = {INTELLIGENCE_WRITE, ENRICHMENT_WRITE, SCORING_WRITE, WATCH_WRITE, CRM_EXPORT,
              SEQUENCE_WRITE, MEETING_WRITE, ASSIGNED_WORK_WRITE}"

definition GOVERNANCE :: "Permission set" where
  "GOVERNANCE = {GOVERNANCE_READ, GOVERNANCE_ANNOTATE, GOVERNANCE_DECIDE, GOVERNANCE_OVERRIDE,
                 SUPPRESSION_WRITE}"

definition ADMIN_ONLY :: "Permission set" where
  "ADMIN_ONLY = {SECURITY_ADMIN, SECURITY_AUDIT_READ, METRICS_READ, DOCS_READ}"

fun ROLE_PERMISSIONS :: "Role \<Rightarrow> Permission set" where
  "ROLE_PERMISSIONS VIEWER = BASELINE"
| "ROLE_PERMISSIONS ANALYST_ROLE = BASELINE \<union> ANALYST"
| "ROLE_PERMISSIONS GOVERNANCE_REVIEWER = BASELINE \<union> GOVERNANCE"
| "ROLE_PERMISSIONS ADMINISTRATOR = BASELINE \<union> ANALYST \<union> GOVERNANCE \<union> ADMIN_ONLY"

text \<open>The enum constructor \<open>Role(raw)\<close>; \<open>None\<close> is its \<open>ValueError\<close>.\<close>

definition role_of :: "string \<Rightarrow> Role option" where
  "role_of raw =
     List.find (\<lambda>r. role_value r = raw) [VIEWER, ANALYST_ROLE, GOVERNANCE_REVIEWER, ADMINISTRATOR]"

definition permissions_for_roles :: "string set \<Rightarrow> string set" where
  "permissions_for_roles roles =
     (\<Union>raw \<in> roles. case role_of raw of
        None \<Rightarrow> {}
      | Some role \<Rightarrow> permission_value ` ROLE_PERMISSIONS role)"

record AuthorizationDecision =
  azd_allowed :: bool
  azd_code :: string
  azd_required_permission :: Permission

definition assurance_satisfies :: "AssuranceLevel \<Rightarrow> AssuranceLevel \<Rightarrow> bool" where
  "assurance_satisfies actual required =
     (if required = WORKLOAD then actual = WORKLOAD
      else if actual = WORKLOAD then False
      else if required = PHISHING_RESISTANT then actual = PHISHING_RESISTANT
      else actual \<in> {EMAIL_OTP, PHISHING_RESISTANT})"

definition authorize ::
  "IdentityContext \<Rightarrow> Permission \<Rightarrow> AssuranceLevel \<Rightarrow> int option \<Rightarrow> int \<Rightarrow> AuthorizationDecision" where
  "authorize i permission minimum_assurance maximum_age now =
     (if permission_value permission \<notin> idn_permissions i
      then \<lparr>azd_allowed = False, azd_code = ''permission_denied'', azd_required_permission = permission\<rparr>
      else if \<not> assurance_satisfies (idn_assurance i) minimum_assurance
      then \<lparr>azd_allowed = False, azd_code = ''step_up_required'', azd_required_permission = permission\<rparr>
      else if (case maximum_age of None \<Rightarrow> False
               | Some m \<Rightarrow> authentication_age_seconds i now > of_int m)
      then \<lparr>azd_allowed = False, azd_code = ''recent_authentication_required'',
            azd_required_permission = permission\<rparr>
      else \<lparr>azd_allowed = True, azd_code = ''allowed'', azd_required_permission = permission\<rparr>)"

section \<open>Laws of the policy\<close>

lemma permission_value_inject [simp]: "permission_value p = permission_value q \<longleftrightarrow> p = q"
  by (cases p; cases q; simp)

lemma role_of_value [simp]: "role_of (role_value r) = Some r"
  by (cases r) (simp_all add: role_of_def)

lemma role_of_Some: "role_of raw = Some r \<longleftrightarrow> raw = role_value r"
  by (cases r) (auto simp: role_of_def split: if_splits)

lemma mem_permissions_for_roles:
  "permission_value p \<in> permissions_for_roles roles
     \<longleftrightarrow> (\<exists>r. role_value r \<in> roles \<and> p \<in> ROLE_PERMISSIONS r)"
proof
  assume "permission_value p \<in> permissions_for_roles roles"
  then obtain raw where "raw \<in> roles"
      and *: "permission_value p \<in> (case role_of raw of None \<Rightarrow> {}
                | Some role \<Rightarrow> permission_value ` ROLE_PERMISSIONS role)"
    by (auto simp: permissions_for_roles_def)
  then show "\<exists>r. role_value r \<in> roles \<and> p \<in> ROLE_PERMISSIONS r"
    by (cases "role_of raw") (auto simp: role_of_Some)
next
  assume "\<exists>r. role_value r \<in> roles \<and> p \<in> ROLE_PERMISSIONS r"
  then show "permission_value p \<in> permissions_for_roles roles"
    by (force simp: permissions_for_roles_def)
qed

lemma permissions_for_roles_union:
  "permissions_for_roles (A \<union> B) = permissions_for_roles A \<union> permissions_for_roles B"
  by (simp add: permissions_for_roles_def)

lemma permissions_for_roles_unknown:
  "role_of raw = None \<Longrightarrow> permissions_for_roles (insert raw A) = permissions_for_roles A"
  by (simp add: permissions_for_roles_def)

lemmas role_permission_sets = BASELINE_def ANALYST_def GOVERNANCE_def ADMIN_ONLY_def

lemma role_cases_ex: "(\<exists>r. P r) \<longleftrightarrow> P VIEWER \<or> P ANALYST_ROLE \<or> P GOVERNANCE_REVIEWER \<or> P ADMINISTRATOR"
  by (metis Role.exhaust)

text \<open>A step-up requirement is never met by a lower human assurance nor by a workload, and
  a workload requirement only by a workload.\<close>

lemma assurance_satisfies_iff:
  "assurance_satisfies a r \<longleftrightarrow>
     a = r \<or> (r = EMAIL_OTP \<and> a = PHISHING_RESISTANT)"
  by (cases a; cases r) (simp_all add: assurance_satisfies_def)

end
