(* ===== verification/Datastore.thy ===== *)
theory Datastore
  imports Schema Identity
begin

text \<open>
  The store the services share and the session every operation runs in
  (\<open>common/database.py\<close>, \<open>common/synthetic_guard.py\<close>,
  \<open>events/contracts.py\<close>, \<open>security/audit.py\<close>, the outbox and audit helpers of
  \<open>governance/review_records.py\<close>).

  A service call is a function from the state to an outcome and a new state.
  \<open>session_scope\<close> makes it a transaction: an exception leaves every table as it
  was.  Two components of the state survive a roll-back because they are not in the
  database: the supply of random identifiers already drawn, and the log of calls already
  made to the mail and CRM providers.

  \<open>flush\<close> writes the pending rows: guarded lineage columns that were set since the last
  flush are checked, new audit events pass the redaction listener, then the primary keys
  and unique constraints of the schema are checked.  An added row is in its table from the
  moment it is added.  A query of the same session between an add and the next flush would
  not see the row (sessions do not flush on their own); where a service queries at such a
  point, its definition passes the state of the last flush to the query.

  Foreign keys, column lengths and the row-level security settings of the database are not
  part of the model.
\<close>

section \<open>Settings and environment\<close>

datatype RuntimeProfile = LOCAL | TEST | STAGING | PRODUCTION

datatype CrmProvider = ATTIO | LOCAL_DEMO | CRM_DISABLED

datatype CalendarProvider = FAKE | GOOGLE | CALENDAR_DISABLED

text \<open>The settings the modelled services read.\<close>

record Settings =
  cfg_profile :: RuntimeProfile
  cfg_audit_hmac_key :: "string option"
  cfg_crm_provider :: CrmProvider
  cfg_attio_access_token :: "string option"
  cfg_attio_events_list_api_slug :: string
  cfg_attio_event_participants_list_api_slug :: string
  cfg_attio_incidents_list_api_slug :: string
  cfg_attio_companies_list_api_slug :: string
  cfg_attio_incident_contacts_list_api_slug :: string
  cfg_smtp_from_address :: string
  cfg_smtp_host :: "string option"
  cfg_sequence_domain_daily_limit :: int
  cfg_sequence_sender_daily_limit :: int
  cfg_sequence_channel_daily_limit :: int
  cfg_sequence_retry_after_seconds :: int
  cfg_calendar_provider :: CalendarProvider
  cfg_google_calendar_id :: "string option"
  cfg_google_client_email :: "string option"
  cfg_google_private_key :: "string option"
  cfg_google_calendar_send_updates :: bool
  cfg_attio_meetings_list_api_slug :: string

definition strict_runtime :: "Settings \<Rightarrow> bool" where
  "strict_runtime s = (cfg_profile s \<in> {STAGING, PRODUCTION})"

text \<open>
  What an operation reads from outside the database: the clock (one reading per
  operation), random identifiers by position in the order they are drawn, the hash
  functions, the verified security context, pydantic's e-mail validation (the normalised
  address, or None for an address it refuses) and what Python's \<open>format_map\<close> makes of a
  replacement field that is more than a name.
\<close>

record env =
  env_now :: int
  env_uuid4 :: "nat \<Rightarrow> string"
  env_sha256 :: "string \<Rightarrow> string"
  env_hmac_sha256 :: "string \<Rightarrow> string \<Rightarrow> string"
  env_identity :: "IdentityContext option"
  env_operation :: "string option"
  env_settings :: Settings
  env_email_str :: "string \<Rightarrow> string option"
  env_format_field :: "(string \<times> string) list \<Rightarrow> string \<Rightarrow> char option \<Rightarrow> string \<Rightarrow> error + string"

section \<open>Provider calls\<close>

record SmtpSendRequest =
  smtp_from_email :: string
  smtp_to_email :: string
  smtp_subject :: string
  smtp_body :: string
  smtp_message_id :: string

record CrmExportPlan =
  pln_target_type :: string
  pln_target_id :: string
  pln_provider_object :: string
  pln_stable_match_key :: string
  pln_matching_attribute :: string
  pln_values :: dict
  pln_list_api_slug :: "string option"
  pln_list_entry_values :: dict

record CrmExportResult =
  res_provider_record_id :: string
  res_provider_list_id :: "string option"
  res_provider_list_entry_id :: "string option"
  res_raw_response :: dict

record CrmSyncPlan =
  syn_sync_type :: string
  syn_target_id :: string
  syn_provider_object :: string
  syn_stable_match_key :: string
  syn_matching_attribute :: string
  syn_values :: dict
  syn_list_api_slug :: "string option"
  syn_list_entry_values :: dict

record MeetingAttendee =
  att_email :: string
  att_name :: "string option"
  att_optional :: bool

record CalendarEventRequest =
  cal_meeting_id :: string
  cal_subject :: string
  cal_start_at :: int
  cal_end_at :: int
  cal_timezone :: string
  cal_attendees :: "MeetingAttendee list"
  cal_description :: "string option"
  cal_location :: "string option"
  cal_send_updates :: bool

record CalendarEventResult =
  cer_provider_event_id :: string
  cer_calendar_id :: string
  cer_html_link :: "string option"
  cer_raw_response :: dict

datatype effect =
    SmtpSend SmtpSendRequest
  | CrmExport CrmExportPlan
  | CrmSync CrmSyncPlan
  | CalendarCreate CalendarEventRequest
  | CalendarCancel string bool

section \<open>The store\<close>

record db =
  sequences :: "Sequence list"
  sequence_steps :: "SequenceStep list"
  sequence_enrollments :: "SequenceEnrollment list"
  sequence_step_activities :: "SequenceStepActivity list"
  outbound_emails :: "OutboundEmail list"
  inbound_email_events :: "InboundEmailEvent list"
  sequence_suppression_events :: "SequenceSuppressionEvent list"
  sequence_email_alerts :: "SequenceEmailAlert list"
  review_candidates :: "ReviewCandidate list"
  candidate_scores :: "CandidateScore list"
  review_decisions :: "ReviewDecision list"
  suppressions :: "Suppression list"
  audit_events :: "AuditEvent list"
  outbox_events :: "OutboxEvent list"
  crm_targets :: "CrmTarget list"
  crm_export_batches :: "CrmExportBatch list"
  crm_export_items :: "CrmExportItem list"
  accounts :: "Account list"
  contacts :: "Contact list"
  email_candidates :: "EmailCandidateRecord list"
  security_incidents :: "SecurityIncident list"
  cyber_events :: "CyberEvent list"
  event_participants :: "EventParticipant list"
  signals :: "Signal list"
  meeting_handoffs :: "MeetingHandoff list"
  meeting_prep_packets :: "MeetingPrepPacket list"
  meeting_follow_up_tasks :: "MeetingFollowUpTask list"
  new_audit_events :: "AuditEvent list"
  uuid_seq :: nat
  effects :: "effect list"
  clean_lineage :: "(string \<times> string \<times> string \<times> string) list"

type_synonym 'a op = "db \<Rightarrow> (error + 'a) \<times> db"

definition empty_db :: db where
  "empty_db = \<lparr>sequences = [], sequence_steps = [], sequence_enrollments = [],
     sequence_step_activities = [], outbound_emails = [], inbound_email_events = [],
     sequence_suppression_events = [], sequence_email_alerts = [], review_candidates = [],
     candidate_scores = [], review_decisions = [], suppressions = [], audit_events = [],
     outbox_events = [], crm_targets = [], crm_export_batches = [], crm_export_items = [],
     accounts = [], contacts = [], email_candidates = [], security_incidents = [],
     cyber_events = [], event_participants = [], signals = [], meeting_handoffs = [],
     meeting_prep_packets = [], meeting_follow_up_tasks = [], new_audit_events = [], uuid_seq = 0,
     effects = [], clean_lineage = []\<rparr>"

text \<open>Reading and writing rows by primary key; one group per table.\<close>

definition get_sequence :: "string \<Rightarrow> db \<Rightarrow> Sequence option" where
  "get_sequence k db = row_get seq_id k (sequences db)"

definition put_sequence :: "Sequence \<Rightarrow> db \<Rightarrow> db" where
  "put_sequence r db = db\<lparr>sequences := row_put seq_id r (sequences db)\<rparr>"

definition add_sequence :: "Sequence \<Rightarrow> db \<Rightarrow> db" where
  "add_sequence r db = db\<lparr>sequences := sequences db @ [r]\<rparr>"

definition get_step :: "string \<Rightarrow> db \<Rightarrow> SequenceStep option" where
  "get_step k db = row_get step_id k (sequence_steps db)"

definition put_step :: "SequenceStep \<Rightarrow> db \<Rightarrow> db" where
  "put_step r db = db\<lparr>sequence_steps := row_put step_id r (sequence_steps db)\<rparr>"

definition add_step :: "SequenceStep \<Rightarrow> db \<Rightarrow> db" where
  "add_step r db = db\<lparr>sequence_steps := sequence_steps db @ [r]\<rparr>"

definition get_enrollment :: "string \<Rightarrow> db \<Rightarrow> SequenceEnrollment option" where
  "get_enrollment k db = row_get enr_id k (sequence_enrollments db)"

definition put_enrollment :: "SequenceEnrollment \<Rightarrow> db \<Rightarrow> db" where
  "put_enrollment r db = db\<lparr>sequence_enrollments := row_put enr_id r (sequence_enrollments db)\<rparr>"

definition add_enrollment :: "SequenceEnrollment \<Rightarrow> db \<Rightarrow> db" where
  "add_enrollment r db = db\<lparr>sequence_enrollments := sequence_enrollments db @ [r]\<rparr>"

definition get_activity :: "string \<Rightarrow> db \<Rightarrow> SequenceStepActivity option" where
  "get_activity k db = row_get act_id k (sequence_step_activities db)"

definition put_activity :: "SequenceStepActivity \<Rightarrow> db \<Rightarrow> db" where
  "put_activity r db = db\<lparr>sequence_step_activities := row_put act_id r (sequence_step_activities db)\<rparr>"

definition add_activity :: "SequenceStepActivity \<Rightarrow> db \<Rightarrow> db" where
  "add_activity r db = db\<lparr>sequence_step_activities := sequence_step_activities db @ [r]\<rparr>"

definition get_outbound :: "string \<Rightarrow> db \<Rightarrow> OutboundEmail option" where
  "get_outbound k db = row_get out_id k (outbound_emails db)"

definition put_outbound :: "OutboundEmail \<Rightarrow> db \<Rightarrow> db" where
  "put_outbound r db = db\<lparr>outbound_emails := row_put out_id r (outbound_emails db)\<rparr>"

definition add_outbound :: "OutboundEmail \<Rightarrow> db \<Rightarrow> db" where
  "add_outbound r db = db\<lparr>outbound_emails := outbound_emails db @ [r]\<rparr>"

definition get_inbound :: "string \<Rightarrow> db \<Rightarrow> InboundEmailEvent option" where
  "get_inbound k db = row_get inb_id k (inbound_email_events db)"

definition put_inbound :: "InboundEmailEvent \<Rightarrow> db \<Rightarrow> db" where
  "put_inbound r db = db\<lparr>inbound_email_events := row_put inb_id r (inbound_email_events db)\<rparr>"

definition add_inbound :: "InboundEmailEvent \<Rightarrow> db \<Rightarrow> db" where
  "add_inbound r db = db\<lparr>inbound_email_events := inbound_email_events db @ [r]\<rparr>"

definition get_suppression_event :: "string \<Rightarrow> db \<Rightarrow> SequenceSuppressionEvent option" where
  "get_suppression_event k db = row_get sse_id k (sequence_suppression_events db)"

definition put_suppression_event :: "SequenceSuppressionEvent \<Rightarrow> db \<Rightarrow> db" where
  "put_suppression_event r db = db\<lparr>sequence_suppression_events := row_put sse_id r (sequence_suppression_events db)\<rparr>"

definition add_suppression_event :: "SequenceSuppressionEvent \<Rightarrow> db \<Rightarrow> db" where
  "add_suppression_event r db = db\<lparr>sequence_suppression_events := sequence_suppression_events db @ [r]\<rparr>"

definition get_alert :: "string \<Rightarrow> db \<Rightarrow> SequenceEmailAlert option" where
  "get_alert k db = row_get alr_id k (sequence_email_alerts db)"

definition put_alert :: "SequenceEmailAlert \<Rightarrow> db \<Rightarrow> db" where
  "put_alert r db = db\<lparr>sequence_email_alerts := row_put alr_id r (sequence_email_alerts db)\<rparr>"

definition add_alert :: "SequenceEmailAlert \<Rightarrow> db \<Rightarrow> db" where
  "add_alert r db = db\<lparr>sequence_email_alerts := sequence_email_alerts db @ [r]\<rparr>"

definition get_review_candidate :: "string \<Rightarrow> db \<Rightarrow> ReviewCandidate option" where
  "get_review_candidate k db = row_get rc_id k (review_candidates db)"

definition put_review_candidate :: "ReviewCandidate \<Rightarrow> db \<Rightarrow> db" where
  "put_review_candidate r db = db\<lparr>review_candidates := row_put rc_id r (review_candidates db)\<rparr>"

definition add_review_candidate :: "ReviewCandidate \<Rightarrow> db \<Rightarrow> db" where
  "add_review_candidate r db = db\<lparr>review_candidates := review_candidates db @ [r]\<rparr>"

definition get_candidate_score :: "string \<Rightarrow> db \<Rightarrow> CandidateScore option" where
  "get_candidate_score k db = row_get cs_id k (candidate_scores db)"

definition put_candidate_score :: "CandidateScore \<Rightarrow> db \<Rightarrow> db" where
  "put_candidate_score r db = db\<lparr>candidate_scores := row_put cs_id r (candidate_scores db)\<rparr>"

definition add_candidate_score :: "CandidateScore \<Rightarrow> db \<Rightarrow> db" where
  "add_candidate_score r db = db\<lparr>candidate_scores := candidate_scores db @ [r]\<rparr>"

definition get_review_decision :: "string \<Rightarrow> db \<Rightarrow> ReviewDecision option" where
  "get_review_decision k db = row_get rd_id k (review_decisions db)"

definition put_review_decision :: "ReviewDecision \<Rightarrow> db \<Rightarrow> db" where
  "put_review_decision r db = db\<lparr>review_decisions := row_put rd_id r (review_decisions db)\<rparr>"

definition add_review_decision :: "ReviewDecision \<Rightarrow> db \<Rightarrow> db" where
  "add_review_decision r db = db\<lparr>review_decisions := review_decisions db @ [r]\<rparr>"

definition get_suppression :: "string \<Rightarrow> db \<Rightarrow> Suppression option" where
  "get_suppression k db = row_get sup_id k (suppressions db)"

definition put_suppression :: "Suppression \<Rightarrow> db \<Rightarrow> db" where
  "put_suppression r db = db\<lparr>suppressions := row_put sup_id r (suppressions db)\<rparr>"

definition add_suppression :: "Suppression \<Rightarrow> db \<Rightarrow> db" where
  "add_suppression r db = db\<lparr>suppressions := suppressions db @ [r]\<rparr>"

definition get_outbox :: "string \<Rightarrow> db \<Rightarrow> OutboxEvent option" where
  "get_outbox k db = row_get obx_id k (outbox_events db)"

definition put_outbox :: "OutboxEvent \<Rightarrow> db \<Rightarrow> db" where
  "put_outbox r db = db\<lparr>outbox_events := row_put obx_id r (outbox_events db)\<rparr>"

definition add_outbox :: "OutboxEvent \<Rightarrow> db \<Rightarrow> db" where
  "add_outbox r db = db\<lparr>outbox_events := outbox_events db @ [r]\<rparr>"

definition get_crm_target :: "string \<Rightarrow> db \<Rightarrow> CrmTarget option" where
  "get_crm_target k db = row_get tgt_id k (crm_targets db)"

definition put_crm_target :: "CrmTarget \<Rightarrow> db \<Rightarrow> db" where
  "put_crm_target r db = db\<lparr>crm_targets := row_put tgt_id r (crm_targets db)\<rparr>"

definition add_crm_target :: "CrmTarget \<Rightarrow> db \<Rightarrow> db" where
  "add_crm_target r db = db\<lparr>crm_targets := crm_targets db @ [r]\<rparr>"

definition get_batch :: "string \<Rightarrow> db \<Rightarrow> CrmExportBatch option" where
  "get_batch k db = row_get bat_id k (crm_export_batches db)"

definition put_batch :: "CrmExportBatch \<Rightarrow> db \<Rightarrow> db" where
  "put_batch r db = db\<lparr>crm_export_batches := row_put bat_id r (crm_export_batches db)\<rparr>"

definition add_batch :: "CrmExportBatch \<Rightarrow> db \<Rightarrow> db" where
  "add_batch r db = db\<lparr>crm_export_batches := crm_export_batches db @ [r]\<rparr>"

definition get_item :: "string \<Rightarrow> db \<Rightarrow> CrmExportItem option" where
  "get_item k db = row_get itm_id k (crm_export_items db)"

definition put_item :: "CrmExportItem \<Rightarrow> db \<Rightarrow> db" where
  "put_item r db = db\<lparr>crm_export_items := row_put itm_id r (crm_export_items db)\<rparr>"

definition add_item :: "CrmExportItem \<Rightarrow> db \<Rightarrow> db" where
  "add_item r db = db\<lparr>crm_export_items := crm_export_items db @ [r]\<rparr>"

definition get_account :: "string \<Rightarrow> db \<Rightarrow> Account option" where
  "get_account k db = row_get acc_id k (accounts db)"

definition put_account :: "Account \<Rightarrow> db \<Rightarrow> db" where
  "put_account r db = db\<lparr>accounts := row_put acc_id r (accounts db)\<rparr>"

definition add_account :: "Account \<Rightarrow> db \<Rightarrow> db" where
  "add_account r db = db\<lparr>accounts := accounts db @ [r]\<rparr>"

definition get_contact :: "string \<Rightarrow> db \<Rightarrow> Contact option" where
  "get_contact k db = row_get con_id k (contacts db)"

definition put_contact :: "Contact \<Rightarrow> db \<Rightarrow> db" where
  "put_contact r db = db\<lparr>contacts := row_put con_id r (contacts db)\<rparr>"

definition add_contact :: "Contact \<Rightarrow> db \<Rightarrow> db" where
  "add_contact r db = db\<lparr>contacts := contacts db @ [r]\<rparr>"

definition get_email_candidate :: "string \<Rightarrow> db \<Rightarrow> EmailCandidateRecord option" where
  "get_email_candidate k db = row_get ecr_id k (email_candidates db)"

definition put_email_candidate :: "EmailCandidateRecord \<Rightarrow> db \<Rightarrow> db" where
  "put_email_candidate r db = db\<lparr>email_candidates := row_put ecr_id r (email_candidates db)\<rparr>"

definition add_email_candidate :: "EmailCandidateRecord \<Rightarrow> db \<Rightarrow> db" where
  "add_email_candidate r db = db\<lparr>email_candidates := email_candidates db @ [r]\<rparr>"

definition get_incident :: "string \<Rightarrow> db \<Rightarrow> SecurityIncident option" where
  "get_incident k db = row_get inc_id k (security_incidents db)"

definition put_incident :: "SecurityIncident \<Rightarrow> db \<Rightarrow> db" where
  "put_incident r db = db\<lparr>security_incidents := row_put inc_id r (security_incidents db)\<rparr>"

definition add_incident :: "SecurityIncident \<Rightarrow> db \<Rightarrow> db" where
  "add_incident r db = db\<lparr>security_incidents := security_incidents db @ [r]\<rparr>"

definition get_cyber_event :: "string \<Rightarrow> db \<Rightarrow> CyberEvent option" where
  "get_cyber_event k db = row_get evt_id k (cyber_events db)"

definition put_cyber_event :: "CyberEvent \<Rightarrow> db \<Rightarrow> db" where
  "put_cyber_event r db = db\<lparr>cyber_events := row_put evt_id r (cyber_events db)\<rparr>"

definition add_cyber_event :: "CyberEvent \<Rightarrow> db \<Rightarrow> db" where
  "add_cyber_event r db = db\<lparr>cyber_events := cyber_events db @ [r]\<rparr>"

definition get_participant :: "string \<Rightarrow> db \<Rightarrow> EventParticipant option" where
  "get_participant k db = row_get evp_id k (event_participants db)"

definition put_participant :: "EventParticipant \<Rightarrow> db \<Rightarrow> db" where
  "put_participant r db = db\<lparr>event_participants := row_put evp_id r (event_participants db)\<rparr>"

definition add_participant :: "EventParticipant \<Rightarrow> db \<Rightarrow> db" where
  "add_participant r db = db\<lparr>event_participants := event_participants db @ [r]\<rparr>"

definition get_meeting :: "string \<Rightarrow> db \<Rightarrow> MeetingHandoff option" where
  "get_meeting k db = row_get mtg_id k (meeting_handoffs db)"

definition put_meeting :: "MeetingHandoff \<Rightarrow> db \<Rightarrow> db" where
  "put_meeting r db = db\<lparr>meeting_handoffs := row_put mtg_id r (meeting_handoffs db)\<rparr>"

definition add_meeting :: "MeetingHandoff \<Rightarrow> db \<Rightarrow> db" where
  "add_meeting r db = db\<lparr>meeting_handoffs := meeting_handoffs db @ [r]\<rparr>"

definition get_prep_packet :: "string \<Rightarrow> db \<Rightarrow> MeetingPrepPacket option" where
  "get_prep_packet k db = row_get mpp_id k (meeting_prep_packets db)"

definition put_prep_packet :: "MeetingPrepPacket \<Rightarrow> db \<Rightarrow> db" where
  "put_prep_packet r db = db\<lparr>meeting_prep_packets := row_put mpp_id r (meeting_prep_packets db)\<rparr>"

definition add_prep_packet :: "MeetingPrepPacket \<Rightarrow> db \<Rightarrow> db" where
  "add_prep_packet r db = db\<lparr>meeting_prep_packets := meeting_prep_packets db @ [r]\<rparr>"

definition get_follow_up_task :: "string \<Rightarrow> db \<Rightarrow> MeetingFollowUpTask option" where
  "get_follow_up_task k db = row_get mft_id k (meeting_follow_up_tasks db)"

definition put_follow_up_task :: "MeetingFollowUpTask \<Rightarrow> db \<Rightarrow> db" where
  "put_follow_up_task r db = db\<lparr>meeting_follow_up_tasks := row_put mft_id r (meeting_follow_up_tasks db)\<rparr>"

definition add_follow_up_task :: "MeetingFollowUpTask \<Rightarrow> db \<Rightarrow> db" where
  "add_follow_up_task r db = db\<lparr>meeting_follow_up_tasks := meeting_follow_up_tasks db @ [r]\<rparr>"

section \<open>Constraints of the schema\<close>

text \<open>NULL never collides, so a nullable unique column constrains only its values.\<close>

definition con_account_email :: "Contact \<Rightarrow> (string \<times> string) option" where
  "con_account_email c =
     (case (con_account_id c, con_email c) of
        (Some a, Some e) \<Rightarrow> Some (a, e)
      | _ \<Rightarrow> None)"

definition constraints_ok :: "db \<Rightarrow> bool" where
  "constraints_ok db \<longleftrightarrow>
     distinct (map seq_id (sequences db))
   \<and> distinct (List.map_filter seq_idempotency_key (sequences db))
   \<and> distinct (map step_id (sequence_steps db))
   \<and> distinct (map (\<lambda>r. (step_sequence_id r, step_definition_version r, step_step_order r)) (sequence_steps db))
   \<and> distinct (map enr_id (sequence_enrollments db))
   \<and> distinct (map enr_idempotency_key (sequence_enrollments db))
   \<and> distinct (map act_id (sequence_step_activities db))
   \<and> distinct (map act_idempotency_key (sequence_step_activities db))
   \<and> distinct (map out_id (outbound_emails db))
   \<and> distinct (map out_idempotency_key (outbound_emails db))
   \<and> distinct (map inb_id (inbound_email_events db))
   \<and> distinct (map inb_idempotency_key (inbound_email_events db))
   \<and> distinct (map sse_id (sequence_suppression_events db))
   \<and> distinct (map alr_id (sequence_email_alerts db))
   \<and> distinct (map alr_idempotency_key (sequence_email_alerts db))
   \<and> distinct (map rc_id (review_candidates db))
   \<and> distinct (map rc_idempotency_key (review_candidates db))
   \<and> distinct (map cs_id (candidate_scores db))
   \<and> distinct (map cs_idempotency_key (candidate_scores db))
   \<and> distinct (map rd_id (review_decisions db))
   \<and> distinct (map rd_idempotency_key (review_decisions db))
   \<and> distinct (map sup_id (suppressions db))
   \<and> distinct (List.map_filter sup_idempotency_key (suppressions db))
   \<and> distinct (map aud_id (audit_events db))
   \<and> distinct (List.map_filter aud_idempotency_key (audit_events db))
   \<and> distinct (map obx_id (outbox_events db))
   \<and> distinct (map obx_idempotency_key (outbox_events db))
   \<and> distinct (map tgt_id (crm_targets db))
   \<and> distinct (map tgt_idempotency_key (crm_targets db))
   \<and> distinct (map bat_id (crm_export_batches db))
   \<and> distinct (map bat_idempotency_key (crm_export_batches db))
   \<and> distinct (map itm_id (crm_export_items db))
   \<and> distinct (map (\<lambda>r. (itm_batch_id r, itm_crm_target_id r)) (crm_export_items db))
   \<and> distinct (map acc_id (accounts db))
   \<and> distinct (List.map_filter acc_crm_account_id (accounts db))
   \<and> distinct (map con_id (contacts db))
   \<and> distinct (List.map_filter con_account_email (contacts db))
   \<and> distinct (List.map_filter con_crm_contact_id (contacts db))
   \<and> distinct (List.map_filter con_idempotency_key (contacts db))
   \<and> distinct (map ecr_id (email_candidates db))
   \<and> distinct (List.map_filter ecr_idempotency_key (email_candidates db))
   \<and> distinct (map inc_id (security_incidents db))
   \<and> distinct (map inc_dedupe_key (security_incidents db))
   \<and> distinct (map evt_id (cyber_events db))
   \<and> distinct (map evt_dedupe_key (cyber_events db))
   \<and> distinct (map evp_id (event_participants db))
   \<and> distinct (map evp_dedupe_key (event_participants db))
   \<and> distinct (map sgl_id (signals db))
   \<and> distinct (map mtg_id (meeting_handoffs db))
   \<and> distinct (map mtg_idempotency_key (meeting_handoffs db))
   \<and> distinct (map mpp_id (meeting_prep_packets db))
   \<and> distinct (List.map_filter mpp_idempotency_key (meeting_prep_packets db))
   \<and> distinct (map mft_id (meeting_follow_up_tasks db))
   \<and> distinct (List.map_filter mft_idempotency_key (meeting_follow_up_tasks db))"

section \<open>Repositories\<close>

lemmas table_defs =
  get_sequence_def put_sequence_def add_sequence_def
  get_step_def put_step_def add_step_def
  get_enrollment_def put_enrollment_def add_enrollment_def
  get_activity_def put_activity_def add_activity_def
  get_outbound_def put_outbound_def add_outbound_def
  get_inbound_def put_inbound_def add_inbound_def
  get_suppression_event_def put_suppression_event_def add_suppression_event_def
  get_alert_def put_alert_def add_alert_def
  get_review_candidate_def put_review_candidate_def add_review_candidate_def
  get_candidate_score_def put_candidate_score_def add_candidate_score_def
  get_review_decision_def put_review_decision_def add_review_decision_def
  get_suppression_def put_suppression_def add_suppression_def
  get_outbox_def put_outbox_def add_outbox_def
  get_crm_target_def put_crm_target_def add_crm_target_def
  get_batch_def put_batch_def add_batch_def
  get_item_def put_item_def add_item_def
  get_account_def put_account_def add_account_def
  get_contact_def put_contact_def add_contact_def
  get_email_candidate_def put_email_candidate_def add_email_candidate_def
  get_incident_def put_incident_def add_incident_def
  get_cyber_event_def put_cyber_event_def add_cyber_event_def
  get_participant_def put_participant_def add_participant_def
  get_meeting_def put_meeting_def add_meeting_def
  get_prep_packet_def put_prep_packet_def add_prep_packet_def
  get_follow_up_task_def put_follow_up_task_def add_follow_up_task_def

interpretation sequence_repo: repository get_sequence put_sequence add_sequence seq_id
  by unfold_locales (auto simp: get_sequence_def put_sequence_def add_sequence_def table_simps
    intro: row_get_key row_get_append_old)

interpretation step_repo: repository get_step put_step add_step step_id
  by unfold_locales (auto simp: get_step_def put_step_def add_step_def table_simps
    intro: row_get_key row_get_append_old)

interpretation enrollment_repo: repository get_enrollment put_enrollment add_enrollment enr_id
  by unfold_locales (auto simp: get_enrollment_def put_enrollment_def add_enrollment_def table_simps
    intro: row_get_key row_get_append_old)

interpretation activity_repo: repository get_activity put_activity add_activity act_id
  by unfold_locales (auto simp: get_activity_def put_activity_def add_activity_def table_simps
    intro: row_get_key row_get_append_old)

interpretation outbound_repo: repository get_outbound put_outbound add_outbound out_id
  by unfold_locales (auto simp: get_outbound_def put_outbound_def add_outbound_def table_simps
    intro: row_get_key row_get_append_old)

interpretation inbound_repo: repository get_inbound put_inbound add_inbound inb_id
  by unfold_locales (auto simp: get_inbound_def put_inbound_def add_inbound_def table_simps
    intro: row_get_key row_get_append_old)

interpretation suppression_event_repo: repository get_suppression_event put_suppression_event add_suppression_event sse_id
  by unfold_locales (auto simp: get_suppression_event_def put_suppression_event_def add_suppression_event_def table_simps
    intro: row_get_key row_get_append_old)

interpretation alert_repo: repository get_alert put_alert add_alert alr_id
  by unfold_locales (auto simp: get_alert_def put_alert_def add_alert_def table_simps
    intro: row_get_key row_get_append_old)

interpretation review_candidate_repo: repository get_review_candidate put_review_candidate add_review_candidate rc_id
  by unfold_locales (auto simp: get_review_candidate_def put_review_candidate_def add_review_candidate_def table_simps
    intro: row_get_key row_get_append_old)

interpretation candidate_score_repo: repository get_candidate_score put_candidate_score add_candidate_score cs_id
  by unfold_locales (auto simp: get_candidate_score_def put_candidate_score_def add_candidate_score_def table_simps
    intro: row_get_key row_get_append_old)

interpretation review_decision_repo: repository get_review_decision put_review_decision add_review_decision rd_id
  by unfold_locales (auto simp: get_review_decision_def put_review_decision_def add_review_decision_def table_simps
    intro: row_get_key row_get_append_old)

interpretation suppression_repo: repository get_suppression put_suppression add_suppression sup_id
  by unfold_locales (auto simp: get_suppression_def put_suppression_def add_suppression_def table_simps
    intro: row_get_key row_get_append_old)

interpretation outbox_repo: repository get_outbox put_outbox add_outbox obx_id
  by unfold_locales (auto simp: get_outbox_def put_outbox_def add_outbox_def table_simps
    intro: row_get_key row_get_append_old)

interpretation crm_target_repo: repository get_crm_target put_crm_target add_crm_target tgt_id
  by unfold_locales (auto simp: get_crm_target_def put_crm_target_def add_crm_target_def table_simps
    intro: row_get_key row_get_append_old)

interpretation batch_repo: repository get_batch put_batch add_batch bat_id
  by unfold_locales (auto simp: get_batch_def put_batch_def add_batch_def table_simps
    intro: row_get_key row_get_append_old)

interpretation item_repo: repository get_item put_item add_item itm_id
  by unfold_locales (auto simp: get_item_def put_item_def add_item_def table_simps
    intro: row_get_key row_get_append_old)

interpretation account_repo: repository get_account put_account add_account acc_id
  by unfold_locales (auto simp: get_account_def put_account_def add_account_def table_simps
    intro: row_get_key row_get_append_old)

interpretation contact_repo: repository get_contact put_contact add_contact con_id
  by unfold_locales (auto simp: get_contact_def put_contact_def add_contact_def table_simps
    intro: row_get_key row_get_append_old)

interpretation email_candidate_repo: repository get_email_candidate put_email_candidate add_email_candidate ecr_id
  by unfold_locales (auto simp: get_email_candidate_def put_email_candidate_def add_email_candidate_def table_simps
    intro: row_get_key row_get_append_old)

interpretation incident_repo: repository get_incident put_incident add_incident inc_id
  by unfold_locales (auto simp: get_incident_def put_incident_def add_incident_def table_simps
    intro: row_get_key row_get_append_old)

interpretation cyber_event_repo: repository get_cyber_event put_cyber_event add_cyber_event evt_id
  by unfold_locales (auto simp: get_cyber_event_def put_cyber_event_def add_cyber_event_def table_simps
    intro: row_get_key row_get_append_old)

interpretation participant_repo: repository get_participant put_participant add_participant evp_id
  by unfold_locales (auto simp: get_participant_def put_participant_def add_participant_def table_simps
    intro: row_get_key row_get_append_old)

interpretation meeting_repo: repository get_meeting put_meeting add_meeting mtg_id
  by unfold_locales (auto simp: get_meeting_def put_meeting_def add_meeting_def table_simps
    intro: row_get_key row_get_append_old)

interpretation prep_packet_repo: repository get_prep_packet put_prep_packet add_prep_packet mpp_id
  by unfold_locales (auto simp: get_prep_packet_def put_prep_packet_def add_prep_packet_def table_simps
    intro: row_get_key row_get_append_old)

interpretation follow_up_task_repo: repository get_follow_up_task put_follow_up_task add_follow_up_task mft_id
  by unfold_locales (auto simp: get_follow_up_task_def put_follow_up_task_def add_follow_up_task_def table_simps
    intro: row_get_key row_get_append_old)

section \<open>The synthetic-lineage guard\<close>

definition PROHIBITED_SYNTHETIC_MARKERS :: "string set" where
  "PROHIBITED_SYNTHETIC_MARKERS =
     {''demo'', ''synthetic_demo'', ''demo_inferred'', ''local_demo'', ''local-demo''}"

text \<open>The guarded columns of the store: class, column, row and value.\<close>

definition lineage :: "db \<Rightarrow> (string \<times> string \<times> string \<times> string) list" where
  "lineage db =
     map (\<lambda>s. (''Suppression'', ''source'', sup_id s, sup_source s)) (suppressions db)
   @ map (\<lambda>b. (''CrmExportBatch'', ''provider'', bat_id b, bat_provider b)) (crm_export_batches db)
   @ List.map_filter
       (\<lambda>e. map_option (\<lambda>v. (''CyberEvent'', ''geocode_provider'', evt_id e, v)) (evt_geocode_provider e))
       (cyber_events db)
   @ map (\<lambda>m. (''MeetingHandoff'', ''calendar_provider'', mtg_id m, mtg_calendar_provider m)) (meeting_handoffs db)"

definition reject_synthetic_lineage :: "env \<Rightarrow> db \<Rightarrow> error option" where
  "reject_synthetic_lineage env db =
     (if \<not> strict_runtime (env_settings env) then None
      else case List.find (\<lambda>x. x \<notin> set (clean_lineage db)
                  \<and> py_lower (py_strip (snd (snd (snd x)))) \<in> PROHIBITED_SYNTHETIC_MARKERS)
                (lineage db) of
             None \<Rightarrow> None
           | Some x \<Rightarrow> Some (SyntheticPersistenceError (fst x) (fst (snd x))))"

section \<open>The audit listener\<close>

definition REDACTED :: string where
  "REDACTED = ''[redacted]''"

definition SENSITIVE :: "string set" where
  "SENSITIVE =
     {''authorization'', ''cookie'', ''token'', ''access_token'', ''refresh_token'', ''id_token'',
      ''password'', ''secret'', ''otp'', ''code'', ''email_body'', ''provider_payload'', ''private_key''}"

function redact :: "json \<Rightarrow> json" where
  "redact (JObj kvs) =
     JObj (map (\<lambda>kv. (fst kv, if py_lower (fst kv) \<in> SENSITIVE then JStr REDACTED else snd kv))
             (sort_key fst (map (\<lambda>kv. (fst kv, redact (snd kv))) kvs)))"
| "redact (JArr xs) = JArr (map redact xs)"
| "redact (JTime t) = JStr (take 256 (isoformat_sep '' '' t))"
| "redact JNull = JNull"
| "redact (JBool b) = JBool b"
| "redact (JInt i) = JInt i"
| "redact (JFloat r t) = JFloat r t"
| "redact (JStr s) = JStr s"
  by pat_completeness auto
termination
  by (relation "measure size") (auto dest!: size_json_member)

definition redact_dict :: "dict \<Rightarrow> dict" where
  "redact_dict d = (case redact (JObj d) of JObj kvs \<Rightarrow> kvs | _ \<Rightarrow> [])"

definition opt_str :: "string option \<Rightarrow> json" where
  "opt_str x = (case x of None \<Rightarrow> JNull | Some s \<Rightarrow> JStr s)"

definition opt_time :: "int option \<Rightarrow> json" where
  "opt_time x = (case x of None \<Rightarrow> JNull | Some t \<Rightarrow> JTime t)"

definition opt_int :: "int option \<Rightarrow> json" where
  "opt_int x = (case x of None \<Rightarrow> JNull | Some i \<Rightarrow> JInt i)"

definition integrity_hmac :: "env \<Rightarrow> AuditEvent \<Rightarrow> string \<Rightarrow> string" where
  "integrity_hmac env r key =
     env_hmac_sha256 env key (dumps (JObj
       [(''actor'', JStr (aud_actor r)), (''action'', JStr (aud_action r)),
        (''operation'', opt_str (aud_operation r)), (''permission'', opt_str (aud_permission r)),
        (''decision'', opt_str (aud_decision r)), (''entity_type'', JStr (aud_entity_type r)),
        (''entity_id'', JStr (aud_entity_id r)), (''correlation_id'', opt_str (aud_correlation_id r)),
        (''payload'', JObj (redact_dict (aud_payload r)))]))"

definition identify_audit :: "IdentityContext option \<Rightarrow> string option \<Rightarrow> AuditEvent \<Rightarrow> AuditEvent" where
  "identify_audit identity operation r =
     (case identity of
        None \<Rightarrow> r
      | Some i \<Rightarrow>
          r\<lparr>aud_actor := idn_actor_label i,
            aud_human_subject := (if idn_type i = HUMAN then Some (represented_subject i) else None),
            aud_service_subject := idn_calling_service i,
            aud_on_behalf_of_subject := idn_on_behalf_of_subject i,
            aud_identity_type := Some (identity_type_value (idn_type i)),
            aud_operation := operation,
            aud_assurance := Some (assurance_value (idn_assurance i)),
            aud_policy_version := Some (idn_permission_policy_version i),
            aud_mapping_version := Some (idn_claim_mapping_version i),
            aud_environment := Some (idn_environment i),
            aud_request_id := Some (idn_request_id i),
            aud_correlation_id := Some (idn_correlation_id i)\<rparr>)"

definition secure_audit_event :: "env \<Rightarrow> AuditEvent \<Rightarrow> AuditEvent" where
  "secure_audit_event env r0 =
     (let r1 = r0\<lparr>aud_payload := redact_dict (aud_payload r0),
                  aud_network_metadata := redact_dict (aud_network_metadata r0)\<rparr>;
          r2 = identify_audit (env_identity env) (env_operation env) r1;
          r3 = r2\<lparr>aud_decision := Some (str_or (aud_decision r2) ''allowed'')\<rparr>;
          key = str_or (cfg_audit_hmac_key (env_settings env)) []
      in if key = [] then r3 else r3\<lparr>aud_integrity_hmac := Some (integrity_hmac env r3 key)\<rparr>)"

definition has_security_context :: "env \<Rightarrow> bool" where
  "has_security_context env = (env_identity env \<noteq> None \<and> env_operation env \<noteq> None)"

definition secure_audit_events :: "env \<Rightarrow> AuditEvent list \<Rightarrow> error + AuditEvent list" where
  "secure_audit_events env records =
     (if records \<noteq> [] \<and> strict_runtime (env_settings env)
         \<and> (\<not> has_security_context env \<or> str_or (cfg_audit_hmac_key (env_settings env)) [] = [])
      then Inl (RuntimeError ''verified audit context is unavailable'')
      else Inr (map (secure_audit_event env) records))"

section \<open>Sessions\<close>

definition flush :: "env \<Rightarrow> db \<Rightarrow> error + db" where
  "flush env db =
     (case reject_synthetic_lineage env db of
        Some e \<Rightarrow> Inl e
      | None \<Rightarrow>
          (case secure_audit_events env (new_audit_events db) of
             Inl e \<Rightarrow> Inl e
           | Inr rows \<Rightarrow>
               (let db' = db\<lparr>audit_events := audit_events db @ rows, new_audit_events := [],
                             clean_lineage := lineage db\<rparr>
                in if constraints_ok db' then Inr db' else Inl IntegrityError)))"

definition begin_session :: "db \<Rightarrow> db" where
  "begin_session db = db\<lparr>new_audit_events := [], clean_lineage := lineage db\<rparr>"

definition end_session :: "db \<Rightarrow> db \<Rightarrow> db" where
  "end_session db0 db =
     db\<lparr>new_audit_events := new_audit_events db0, clean_lineage := clean_lineage db0\<rparr>"

definition rollback :: "db \<Rightarrow> db \<Rightarrow> db" where
  "rollback db0 db = db0\<lparr>uuid_seq := uuid_seq db, effects := effects db\<rparr>"

definition session_scope :: "env \<Rightarrow> 'a op \<Rightarrow> 'a op" where
  "session_scope env body db =
     (if strict_runtime (env_settings env) \<and> \<not> has_security_context env
      then (Inl (PermissionError ''verified database security context is required''), db)
      else case body (begin_session db) of
             (Inl e, db1) \<Rightarrow> (Inl e, rollback db db1)
           | (Inr r, db1) \<Rightarrow>
               (case flush env db1 of
                  Inl e \<Rightarrow> (Inl e, rollback db db1)
                | Inr db2 \<Rightarrow> (Inr r, end_session db db2)))"

section \<open>Identifiers, events and audit rows\<close>

definition draw_uuid :: "env \<Rightarrow> db \<Rightarrow> string \<times> db" where
  "draw_uuid env db = (env_uuid4 env (uuid_seq db), db\<lparr>uuid_seq := Suc (uuid_seq db)\<rparr>)"

datatype EventName =
    ACCOUNT_INGESTED
  | ACCOUNT_ENRICHED
  | CONTACT_DISCOVERED
  | EMAIL_CANDIDATE_GENERATED
  | EMAIL_VERIFIED
  | LEAD_SCORED
  | APPROVAL_REQUESTED
  | REVIEW_APPROVED
  | REVIEW_REJECTED
  | CRM_TARGET_CREATED
  | CRM_EXPORT_BATCH_STARTED
  | CRM_EXPORT_ITEM_SUCCEEDED
  | CRM_EXPORT_ITEM_FAILED
  | CRM_EXPORT_BATCH_COMPLETED
  | SUPPRESSION_CREATED
  | SEQUENCE_ENROLLED
  | SEQUENCE_PAUSED
  | SEQUENCE_COMPLETED
  | EMAIL_SENT
  | REPLY_RECEIVED
  | BOUNCE_RECEIVED
  | UNSUBSCRIBE_RECEIVED
  | MEETING_BOOKED
  | MEETING_PREP_PACKET_GENERATED
  | MEETING_OUTCOME_RECORDED
  | MEETING_FOLLOW_UP_TASK_CREATED
  | CRM_SYNCED
  | SOURCE_FETCH_SUCCEEDED
  | SOURCE_FETCH_FAILED
  | SOURCE_ITEM_INGESTED
  | CYBER_EVENT_DISCOVERED
  | EVENT_PARTICIPANT_DISCOVERED
  | NEWS_ARTICLE_INGESTED
  | SECURITY_INCIDENT_DETECTED
  | SECURITY_INCIDENT_CORROBORATED
  | WATCH_TARGET_CREATED
  | JOB_FAILED

fun event_value :: "EventName \<Rightarrow> string" where
  "event_value ACCOUNT_INGESTED = ''account.ingested''"
| "event_value ACCOUNT_ENRICHED = ''account.enriched''"
| "event_value CONTACT_DISCOVERED = ''contact.discovered''"
| "event_value EMAIL_CANDIDATE_GENERATED = ''email.candidate_generated''"
| "event_value EMAIL_VERIFIED = ''email.verified''"
| "event_value LEAD_SCORED = ''lead.scored''"
| "event_value APPROVAL_REQUESTED = ''approval.requested''"
| "event_value REVIEW_APPROVED = ''review.approved''"
| "event_value REVIEW_REJECTED = ''review.rejected''"
| "event_value CRM_TARGET_CREATED = ''crm_target.created''"
| "event_value CRM_EXPORT_BATCH_STARTED = ''crm_export.batch_started''"
| "event_value CRM_EXPORT_ITEM_SUCCEEDED = ''crm_export.item_succeeded''"
| "event_value CRM_EXPORT_ITEM_FAILED = ''crm_export.item_failed''"
| "event_value CRM_EXPORT_BATCH_COMPLETED = ''crm_export.batch_completed''"
| "event_value SUPPRESSION_CREATED = ''suppression.created''"
| "event_value SEQUENCE_ENROLLED = ''sequence.enrolled''"
| "event_value SEQUENCE_PAUSED = ''sequence.paused''"
| "event_value SEQUENCE_COMPLETED = ''sequence.completed''"
| "event_value EMAIL_SENT = ''email.sent''"
| "event_value REPLY_RECEIVED = ''reply.received''"
| "event_value BOUNCE_RECEIVED = ''bounce.received''"
| "event_value UNSUBSCRIBE_RECEIVED = ''unsubscribe.received''"
| "event_value MEETING_BOOKED = ''meeting.booked''"
| "event_value MEETING_PREP_PACKET_GENERATED = ''meeting.prep_packet_generated''"
| "event_value MEETING_OUTCOME_RECORDED = ''meeting.outcome_recorded''"
| "event_value MEETING_FOLLOW_UP_TASK_CREATED = ''meeting.follow_up_task_created''"
| "event_value CRM_SYNCED = ''crm.synced''"
| "event_value SOURCE_FETCH_SUCCEEDED = ''source.fetch_succeeded''"
| "event_value SOURCE_FETCH_FAILED = ''source.fetch_failed''"
| "event_value SOURCE_ITEM_INGESTED = ''source.item_ingested''"
| "event_value CYBER_EVENT_DISCOVERED = ''cyber_event.discovered''"
| "event_value EVENT_PARTICIPANT_DISCOVERED = ''event_participant.discovered''"
| "event_value NEWS_ARTICLE_INGESTED = ''news_article.ingested''"
| "event_value SECURITY_INCIDENT_DETECTED = ''security_incident.detected''"
| "event_value SECURITY_INCIDENT_CORROBORATED = ''security_incident.corroborated''"
| "event_value WATCH_TARGET_CREATED = ''watch_target.created''"
| "event_value JOB_FAILED = ''job.failed''"

record EventEnvelope =
  evn_event_id :: string
  evn_event_name :: EventName
  evn_schema_version :: string
  evn_producer :: "string option"
  evn_aggregate_type :: string
  evn_aggregate_id :: string
  evn_idempotency_key :: string
  evn_occurred_at :: int
  evn_correlation_id :: string
  evn_source_service :: string
  evn_source_definition_id :: "string option"
  evn_source_item_ids :: "string list"
  evn_payload :: dict

text \<open>
  \<open>new_event\<close> with the arguments the services pass: they give the idempotency key and
  leave the correlation id and the schema version to their defaults.
\<close>

definition new_event ::
  "env \<Rightarrow> EventName \<Rightarrow> string \<Rightarrow> string \<Rightarrow> string \<Rightarrow> dict \<Rightarrow> string option \<Rightarrow> string option \<Rightarrow> string list
     \<Rightarrow> db \<Rightarrow> EventEnvelope \<times> db" where
  "new_event env name aggregate_type aggregate_id source_service payload key source_definition_id
       source_item_ids db =
     (let (event_id, db1) = draw_uuid env db;
          (correlation_id, db2) = draw_uuid env db1
      in (\<lparr>evn_event_id = event_id, evn_event_name = name, evn_schema_version = ''1.0'',
           evn_producer = Some source_service, evn_aggregate_type = aggregate_type,
           evn_aggregate_id = aggregate_id,
           evn_idempotency_key =
             str_or key (event_value name @ '':'' @ aggregate_type @ '':'' @ aggregate_id),
           evn_occurred_at = env_now env, evn_correlation_id = correlation_id,
           evn_source_service = source_service, evn_source_definition_id = source_definition_id,
           evn_source_item_ids = source_item_ids, evn_payload = payload\<rparr>, db2))"

text \<open>\<open>model_dump(mode="json")\<close>: datetimes are printed in ISO form with the suffix \<open>Z\<close>.\<close>

definition iso_z :: "int \<Rightarrow> string" where
  "iso_z t = (let s = isoformat t in take (length s - 6) s @ ''Z'')"

function dump_json :: "json \<Rightarrow> json" where
  "dump_json (JTime t) = JStr (iso_z t)"
| "dump_json (JObj kvs) = JObj (map (\<lambda>kv. (fst kv, dump_json (snd kv))) kvs)"
| "dump_json (JArr xs) = JArr (map dump_json xs)"
| "dump_json JNull = JNull"
| "dump_json (JBool b) = JBool b"
| "dump_json (JInt i) = JInt i"
| "dump_json (JFloat r t) = JFloat r t"
| "dump_json (JStr s) = JStr s"
  by pat_completeness auto
termination
  by (relation "measure size") (auto dest!: size_json_member)

definition model_dump :: "EventEnvelope \<Rightarrow> dict" where
  "model_dump e =
     [(''event_id'', JStr (evn_event_id e)), (''event_name'', JStr (event_value (evn_event_name e))),
      (''schema_version'', JStr (evn_schema_version e)), (''producer'', opt_str (evn_producer e)),
      (''aggregate_type'', JStr (evn_aggregate_type e)),
      (''aggregate_id'', JStr (evn_aggregate_id e)),
      (''idempotency_key'', JStr (evn_idempotency_key e)),
      (''occurred_at'', JStr (iso_z (evn_occurred_at e))),
      (''correlation_id'', JStr (evn_correlation_id e)),
      (''source_service'', JStr (evn_source_service e)),
      (''source_definition_id'', opt_str (evn_source_definition_id e)),
      (''source_item_ids'', JArr (map JStr (evn_source_item_ids e))),
      (''payload'', dump_json (JObj (evn_payload e)))]"

definition enqueue_event :: "env \<Rightarrow> EventEnvelope \<Rightarrow> db \<Rightarrow> db" where
  "enqueue_event env e db =
     (let (row_id, db1) = draw_uuid env db
      in add_outbox
           \<lparr>obx_id = row_id, obx_event_name = event_value (evn_event_name e),
            obx_aggregate_type = evn_aggregate_type e, obx_aggregate_id = evn_aggregate_id e,
            obx_idempotency_key = evn_idempotency_key e, obx_payload = model_dump e,
            obx_published_at = None, obx_created_at = env_now env\<rparr> db1)"

text \<open>\<open>_enqueue_event(session, new_event(...))\<close>, the form every service uses.\<close>

definition emit ::
  "env \<Rightarrow> EventName \<Rightarrow> string \<Rightarrow> string \<Rightarrow> string \<Rightarrow> dict \<Rightarrow> string \<Rightarrow> string option \<Rightarrow> string list
     \<Rightarrow> db \<Rightarrow> db" where
  "emit env name aggregate_type aggregate_id source_service payload key sdef sitems db =
     (let (e, db1) = new_event env name aggregate_type aggregate_id source_service payload
                       (Some key) sdef sitems db
      in enqueue_event env e db1)"

definition audit ::
  "env \<Rightarrow> string \<Rightarrow> string \<Rightarrow> string \<Rightarrow> string \<Rightarrow> string \<Rightarrow> dict \<Rightarrow> db \<Rightarrow> db" where
  "audit env actor action entity_type entity_id key payload db =
     (let (row_id, db1) = draw_uuid env db
      in db1\<lparr>new_audit_events := new_audit_events db1 @
           [\<lparr>aud_id = row_id, aud_actor = actor, aud_human_subject = None, aud_service_subject = None,
             aud_on_behalf_of_subject = None, aud_identity_type = None, aud_action = action,
             aud_operation = None, aud_permission = None, aud_decision = None,
             aud_denial_category = None, aud_assurance = None, aud_policy_version = None,
             aud_mapping_version = None, aud_environment = None, aud_request_id = None,
             aud_correlation_id = None, aud_entity_type = entity_type, aud_entity_id = entity_id,
             aud_idempotency_key = Some key, aud_payload = json_safe_dict payload,
             aud_network_metadata = [], aud_integrity_hmac = None,
             aud_created_at = env_now env\<rparr>]\<rparr>)"

section \<open>Laws of sessions\<close>

text \<open>The tables of two states are the same: what a roll-back guarantees.\<close>

definition same_tables :: "db \<Rightarrow> db \<Rightarrow> bool" where
  "same_tables db0 db = (db = rollback db0 db)"

lemma same_tables_refl [simp]: "same_tables db db"
  by (simp add: same_tables_def rollback_def)

lemma same_tables_rollback [simp]: "same_tables db0 (rollback db0 db)"
  by (simp add: same_tables_def rollback_def)

lemma constraints_ok_cong:
  "constraints_ok (rollback db0 db) = constraints_ok db0"
  "constraints_ok (end_session db0 db) = constraints_ok db"
  "constraints_ok (begin_session db) = constraints_ok db"
  "constraints_ok (db\<lparr>clean_lineage := x\<rparr>) = constraints_ok db"
  by (simp_all add: constraints_ok_def rollback_def end_session_def begin_session_def)

lemma same_tables_constraints: "same_tables db0 db \<Longrightarrow> constraints_ok db = constraints_ok db0"
  unfolding same_tables_def using constraints_ok_cong(1) [of db0 db] by simp

lemma find_fresh_in_self: "List.find (\<lambda>x. x \<notin> set xs \<and> P x) xs = None"
  by (auto simp: find_None_iff_ball)

lemma lineage_begin_session [simp]: "lineage (begin_session db) = lineage db"
  by (simp add: lineage_def begin_session_def)

lemma flush_clean:
  assumes "constraints_ok db"
  shows "flush env (begin_session db) = Inr (begin_session db)"
proof -
  have "reject_synthetic_lineage env (begin_session db) = None"
    unfolding reject_synthetic_lineage_def lineage_begin_session
    by (simp add: begin_session_def find_fresh_in_self)
  moreover have "new_audit_events (begin_session db) = []" by (simp add: begin_session_def)
  moreover have "(begin_session db)\<lparr>audit_events := audit_events (begin_session db) @ [],
      new_audit_events := [], clean_lineage := lineage (begin_session db)\<rparr> = begin_session db"
    unfolding lineage_begin_session by (simp add: begin_session_def)
  ultimately show ?thesis
    using assms by (simp add: flush_def secure_audit_events_def constraints_ok_cong Let_def)
qed

lemma flush_constraints: "flush env db = Inr db' \<Longrightarrow> constraints_ok db'"
  by (auto simp: flush_def Let_def split: option.splits sum.splits if_splits)

lemma end_begin_session [simp]: "end_session db (begin_session db) = db"
  by (simp add: end_session_def begin_session_def)

definition admitted :: "env \<Rightarrow> bool" where
  "admitted env = (strict_runtime (env_settings env) \<longrightarrow> has_security_context env)"

lemma session_scope_denied:
  "\<not> admitted env \<Longrightarrow>
     session_scope env body db
       = (Inl (PermissionError ''verified database security context is required''), db)"
  by (simp add: session_scope_def admitted_def)

lemma session_scope_error:
  assumes "session_scope env body db = (Inl e, db')"
  shows "same_tables db db'"
  using assms by (auto simp: session_scope_def split: if_splits prod.splits sum.splits)

lemma session_scope_ok:
  assumes "session_scope env body db = (Inr r, db')"
  obtains db1 db2 where "body (begin_session db) = (Inr r, db1)" and "flush env db1 = Inr db2"
    and "db' = end_session db db2" and "admitted env"
  using assms by (auto simp: session_scope_def admitted_def split: if_splits prod.splits sum.splits)

lemma session_scope_raises:
  assumes "admitted env" and "body (begin_session db) = (Inl e, db1)"
  shows "session_scope env body db = (Inl e, rollback db db1)"
  using assms by (auto simp: session_scope_def admitted_def)

lemma session_scope_read:
  assumes "admitted env" and "constraints_ok db"
    and "body (begin_session db) = (Inr r, begin_session db)"
  shows "session_scope env body db = (Inr r, db)"
  using assms by (auto simp: session_scope_def admitted_def flush_clean)

lemma session_scope_constraints:
  assumes "constraints_ok db"
  shows "constraints_ok (snd (session_scope env body db))"
proof (cases "session_scope env body db")
  case (Pair r db')
  show ?thesis
  proof (cases r)
    case (Inl e)
    with Pair have "same_tables db db'" by (simp add: session_scope_error)
    with assms Pair show ?thesis by (simp add: same_tables_constraints)
  next
    case (Inr v)
    with Pair obtain db1 db2 where "flush env db1 = Inr db2" and "db' = end_session db db2"
      by (auto elim: session_scope_ok)
    with Pair show ?thesis by (simp add: constraints_ok_cong flush_constraints)
  qed
qed

text \<open>
  The contract of a service call: an error leaves the tables alone, and the constraints of
  the schema are kept.  Every operation that runs in a session has it.
\<close>

locale transactional =
  fixes run :: "'a op"
  assumes error_keeps_tables: "run db = (Inl e, db') \<Longrightarrow> same_tables db db'"
    and keeps_constraints: "constraints_ok db \<Longrightarrow> constraints_ok (snd (run db))"
begin

lemma constraints_after: "constraints_ok db \<Longrightarrow> run db = (r, db') \<Longrightarrow> constraints_ok db'"
  using keeps_constraints [of db] by simp

lemma changed_imp_ok: "run db = (r, db') \<Longrightarrow> \<not> same_tables db db' \<Longrightarrow> \<exists>v. r = Inr v"
  using error_keeps_tables by (cases r) auto

end

interpretation session: transactional "session_scope env body" for env and body
  by unfold_locales (fact session_scope_error, fact session_scope_constraints)

text \<open>Drawing identifiers, enqueuing an event and recording an audit row touch only their own
  parts of the state.\<close>

lemma draw_uuid_parts [simp]:
  "fst (draw_uuid env db) = env_uuid4 env (uuid_seq db)"
  "snd (draw_uuid env db) = db\<lparr>uuid_seq := Suc (uuid_seq db)\<rparr>"
  by (simp_all add: draw_uuid_def)

lemma emit_frame [simp]:
  "sequences (emit env n aty ai ss p k sd si db) = sequences db"
  "sequence_steps (emit env n aty ai ss p k sd si db) = sequence_steps db"
  "sequence_enrollments (emit env n aty ai ss p k sd si db) = sequence_enrollments db"
  "sequence_step_activities (emit env n aty ai ss p k sd si db) = sequence_step_activities db"
  "outbound_emails (emit env n aty ai ss p k sd si db) = outbound_emails db"
  "inbound_email_events (emit env n aty ai ss p k sd si db) = inbound_email_events db"
  "sequence_suppression_events (emit env n aty ai ss p k sd si db) = sequence_suppression_events db"
  "sequence_email_alerts (emit env n aty ai ss p k sd si db) = sequence_email_alerts db"
  "review_candidates (emit env n aty ai ss p k sd si db) = review_candidates db"
  "candidate_scores (emit env n aty ai ss p k sd si db) = candidate_scores db"
  "review_decisions (emit env n aty ai ss p k sd si db) = review_decisions db"
  "suppressions (emit env n aty ai ss p k sd si db) = suppressions db"
  "audit_events (emit env n aty ai ss p k sd si db) = audit_events db"
  "crm_targets (emit env n aty ai ss p k sd si db) = crm_targets db"
  "crm_export_batches (emit env n aty ai ss p k sd si db) = crm_export_batches db"
  "crm_export_items (emit env n aty ai ss p k sd si db) = crm_export_items db"
  "accounts (emit env n aty ai ss p k sd si db) = accounts db"
  "contacts (emit env n aty ai ss p k sd si db) = contacts db"
  "email_candidates (emit env n aty ai ss p k sd si db) = email_candidates db"
  "security_incidents (emit env n aty ai ss p k sd si db) = security_incidents db"
  "cyber_events (emit env n aty ai ss p k sd si db) = cyber_events db"
  "event_participants (emit env n aty ai ss p k sd si db) = event_participants db"
  "signals (emit env n aty ai ss p k sd si db) = signals db"
  "meeting_handoffs (emit env n aty ai ss p k sd si db) = meeting_handoffs db"
  "meeting_prep_packets (emit env n aty ai ss p k sd si db) = meeting_prep_packets db"
  "meeting_follow_up_tasks (emit env n aty ai ss p k sd si db) = meeting_follow_up_tasks db"
  "new_audit_events (emit env n aty ai ss p k sd si db) = new_audit_events db"
  "effects (emit env n aty ai ss p k sd si db) = effects db"
  "clean_lineage (emit env n aty ai ss p k sd si db) = clean_lineage db"
  by (simp_all add: emit_def new_event_def enqueue_event_def draw_uuid_def add_outbox_def Let_def)

lemma audit_frame [simp]:
  "sequences (audit env actor action et ei k p db) = sequences db"
  "sequence_steps (audit env actor action et ei k p db) = sequence_steps db"
  "sequence_enrollments (audit env actor action et ei k p db) = sequence_enrollments db"
  "sequence_step_activities (audit env actor action et ei k p db) = sequence_step_activities db"
  "outbound_emails (audit env actor action et ei k p db) = outbound_emails db"
  "inbound_email_events (audit env actor action et ei k p db) = inbound_email_events db"
  "sequence_suppression_events (audit env actor action et ei k p db) = sequence_suppression_events db"
  "sequence_email_alerts (audit env actor action et ei k p db) = sequence_email_alerts db"
  "review_candidates (audit env actor action et ei k p db) = review_candidates db"
  "candidate_scores (audit env actor action et ei k p db) = candidate_scores db"
  "review_decisions (audit env actor action et ei k p db) = review_decisions db"
  "suppressions (audit env actor action et ei k p db) = suppressions db"
  "audit_events (audit env actor action et ei k p db) = audit_events db"
  "outbox_events (audit env actor action et ei k p db) = outbox_events db"
  "crm_targets (audit env actor action et ei k p db) = crm_targets db"
  "crm_export_batches (audit env actor action et ei k p db) = crm_export_batches db"
  "crm_export_items (audit env actor action et ei k p db) = crm_export_items db"
  "accounts (audit env actor action et ei k p db) = accounts db"
  "contacts (audit env actor action et ei k p db) = contacts db"
  "email_candidates (audit env actor action et ei k p db) = email_candidates db"
  "security_incidents (audit env actor action et ei k p db) = security_incidents db"
  "cyber_events (audit env actor action et ei k p db) = cyber_events db"
  "event_participants (audit env actor action et ei k p db) = event_participants db"
  "signals (audit env actor action et ei k p db) = signals db"
  "meeting_handoffs (audit env actor action et ei k p db) = meeting_handoffs db"
  "meeting_prep_packets (audit env actor action et ei k p db) = meeting_prep_packets db"
  "meeting_follow_up_tasks (audit env actor action et ei k p db) = meeting_follow_up_tasks db"
  "effects (audit env actor action et ei k p db) = effects db"
  "clean_lineage (audit env actor action et ei k p db) = clean_lineage db"
  by (simp_all add: audit_def draw_uuid_def Let_def)

text \<open>What a successful flush leaves in the store.\<close>

definition written :: "env \<Rightarrow> db \<Rightarrow> db" where
  "written env db =
     db\<lparr>audit_events := audit_events db @ map (secure_audit_event env) (new_audit_events db),
        new_audit_events := [], clean_lineage := lineage db\<rparr>"

lemma flush_Inr:
  "flush env db = Inr db' \<longleftrightarrow>
     reject_synthetic_lineage env db = None
   \<and> (\<exists>rows. secure_audit_events env (new_audit_events db) = Inr rows)
   \<and> db' = written env db \<and> constraints_ok db'"
  by (auto simp: flush_def written_def secure_audit_events_def Let_def split: option.splits if_splits)

lemma flush_written: "flush env db = Inr db' \<Longrightarrow> db' = written env db \<and> constraints_ok db'"
  unfolding flush_Inr by blast

lemma written_frame [simp]:
  "sequences (written env db) = sequences db"
  "sequence_steps (written env db) = sequence_steps db"
  "sequence_enrollments (written env db) = sequence_enrollments db"
  "sequence_step_activities (written env db) = sequence_step_activities db"
  "outbound_emails (written env db) = outbound_emails db"
  "inbound_email_events (written env db) = inbound_email_events db"
  "sequence_suppression_events (written env db) = sequence_suppression_events db"
  "sequence_email_alerts (written env db) = sequence_email_alerts db"
  "review_candidates (written env db) = review_candidates db"
  "candidate_scores (written env db) = candidate_scores db"
  "review_decisions (written env db) = review_decisions db"
  "suppressions (written env db) = suppressions db"
  "outbox_events (written env db) = outbox_events db"
  "crm_targets (written env db) = crm_targets db"
  "crm_export_batches (written env db) = crm_export_batches db"
  "crm_export_items (written env db) = crm_export_items db"
  "accounts (written env db) = accounts db"
  "contacts (written env db) = contacts db"
  "email_candidates (written env db) = email_candidates db"
  "security_incidents (written env db) = security_incidents db"
  "cyber_events (written env db) = cyber_events db"
  "event_participants (written env db) = event_participants db"
  "signals (written env db) = signals db"
  "meeting_handoffs (written env db) = meeting_handoffs db"
  "meeting_prep_packets (written env db) = meeting_prep_packets db"
  "meeting_follow_up_tasks (written env db) = meeting_follow_up_tasks db"
  "uuid_seq (written env db) = uuid_seq db"
  "effects (written env db) = effects db"
  "new_audit_events (written env db) = []"
  by (simp_all add: written_def)

lemma audit_events_written [simp]:
  "audit_events (written env db) = audit_events db @ map (secure_audit_event env) (new_audit_events db)"
  by (simp add: written_def)

lemma written_begin_session [simp]: "written env (begin_session db) = begin_session db"
  unfolding written_def lineage_begin_session by (simp add: begin_session_def)

lemma rollback_begin_session [simp]: "rollback db (begin_session db) = db"
  by (simp add: rollback_def begin_session_def)

lemma session_scope_unchanged:
  assumes "session_scope env body db = (y, db')"
    and "body (begin_session db) = (x, begin_session db)"
  shows "db' = db"
  using assms
  by (auto simp: session_scope_def dest!: flush_written split: sum.splits if_splits)

text \<open>A call either is refused before it starts, or raises after its body ran and keeps only what
  lies outside the database, or commits what its body wrote.\<close>

lemma session_cases:
  assumes "session_scope env body db = (r, db')"
  obtains (refused) e where "r = Inl e" and "db' = db"
    | (raised) e x db1 where "r = Inl e" and "body (begin_session db) = (x, db1)" and "db' = rollback db db1"
    | (committed) v db1 where "r = Inr v" and "body (begin_session db) = (Inr v, db1)"
        and "db' = end_session db (written env db1)" and "constraints_ok (written env db1)"
proof (cases "strict_runtime (env_settings env) \<and> \<not> has_security_context env")
  case True
  with assms refused show thesis by (auto simp: session_scope_def)
next
  case False
  obtain x db1 where run: "body (begin_session db) = (x, db1)" by fastforce
  show thesis
  proof (cases r)
    case (Inl e)
    with assms False run have "db' = rollback db db1"
      by (auto simp: session_scope_def split: sum.splits)
    then show thesis using raised [OF Inl run] by blast
  next
    case (Inr v)
    with assms False run obtain db2 where "x = Inr v" and "flush env db1 = Inr db2" and "db' = end_session db db2"
      by (auto simp: session_scope_def split: sum.splits)
    with flush_Inr [of env db1 db2] run Inr show thesis by (intro committed) auto
  qed
qed

lemma end_session_frame [simp]:
  "sequences (end_session db0 db) = sequences db"
  "sequence_steps (end_session db0 db) = sequence_steps db"
  "sequence_enrollments (end_session db0 db) = sequence_enrollments db"
  "sequence_step_activities (end_session db0 db) = sequence_step_activities db"
  "outbound_emails (end_session db0 db) = outbound_emails db"
  "inbound_email_events (end_session db0 db) = inbound_email_events db"
  "sequence_suppression_events (end_session db0 db) = sequence_suppression_events db"
  "sequence_email_alerts (end_session db0 db) = sequence_email_alerts db"
  "review_candidates (end_session db0 db) = review_candidates db"
  "candidate_scores (end_session db0 db) = candidate_scores db"
  "review_decisions (end_session db0 db) = review_decisions db"
  "suppressions (end_session db0 db) = suppressions db"
  "audit_events (end_session db0 db) = audit_events db"
  "outbox_events (end_session db0 db) = outbox_events db"
  "crm_targets (end_session db0 db) = crm_targets db"
  "crm_export_batches (end_session db0 db) = crm_export_batches db"
  "crm_export_items (end_session db0 db) = crm_export_items db"
  "accounts (end_session db0 db) = accounts db"
  "contacts (end_session db0 db) = contacts db"
  "email_candidates (end_session db0 db) = email_candidates db"
  "security_incidents (end_session db0 db) = security_incidents db"
  "cyber_events (end_session db0 db) = cyber_events db"
  "event_participants (end_session db0 db) = event_participants db"
  "signals (end_session db0 db) = signals db"
  "meeting_handoffs (end_session db0 db) = meeting_handoffs db"
  "meeting_prep_packets (end_session db0 db) = meeting_prep_packets db"
  "meeting_follow_up_tasks (end_session db0 db) = meeting_follow_up_tasks db"
  "uuid_seq (end_session db0 db) = uuid_seq db"
  "effects (end_session db0 db) = effects db"
  by (simp_all add: end_session_def)

lemma begin_session_frame [simp]:
  "sequences (begin_session db) = sequences db"
  "sequence_steps (begin_session db) = sequence_steps db"
  "sequence_enrollments (begin_session db) = sequence_enrollments db"
  "sequence_step_activities (begin_session db) = sequence_step_activities db"
  "outbound_emails (begin_session db) = outbound_emails db"
  "inbound_email_events (begin_session db) = inbound_email_events db"
  "sequence_suppression_events (begin_session db) = sequence_suppression_events db"
  "sequence_email_alerts (begin_session db) = sequence_email_alerts db"
  "review_candidates (begin_session db) = review_candidates db"
  "candidate_scores (begin_session db) = candidate_scores db"
  "review_decisions (begin_session db) = review_decisions db"
  "suppressions (begin_session db) = suppressions db"
  "audit_events (begin_session db) = audit_events db"
  "outbox_events (begin_session db) = outbox_events db"
  "crm_targets (begin_session db) = crm_targets db"
  "crm_export_batches (begin_session db) = crm_export_batches db"
  "crm_export_items (begin_session db) = crm_export_items db"
  "accounts (begin_session db) = accounts db"
  "contacts (begin_session db) = contacts db"
  "email_candidates (begin_session db) = email_candidates db"
  "security_incidents (begin_session db) = security_incidents db"
  "cyber_events (begin_session db) = cyber_events db"
  "event_participants (begin_session db) = event_participants db"
  "signals (begin_session db) = signals db"
  "meeting_handoffs (begin_session db) = meeting_handoffs db"
  "meeting_prep_packets (begin_session db) = meeting_prep_packets db"
  "meeting_follow_up_tasks (begin_session db) = meeting_follow_up_tasks db"
  "uuid_seq (begin_session db) = uuid_seq db"
  "effects (begin_session db) = effects db"
  by (simp_all add: begin_session_def)

lemma rollback_frame [simp]:
  "sequences (rollback db0 db) = sequences db0"
  "sequence_steps (rollback db0 db) = sequence_steps db0"
  "sequence_enrollments (rollback db0 db) = sequence_enrollments db0"
  "sequence_step_activities (rollback db0 db) = sequence_step_activities db0"
  "outbound_emails (rollback db0 db) = outbound_emails db0"
  "inbound_email_events (rollback db0 db) = inbound_email_events db0"
  "sequence_suppression_events (rollback db0 db) = sequence_suppression_events db0"
  "sequence_email_alerts (rollback db0 db) = sequence_email_alerts db0"
  "review_candidates (rollback db0 db) = review_candidates db0"
  "candidate_scores (rollback db0 db) = candidate_scores db0"
  "review_decisions (rollback db0 db) = review_decisions db0"
  "suppressions (rollback db0 db) = suppressions db0"
  "audit_events (rollback db0 db) = audit_events db0"
  "outbox_events (rollback db0 db) = outbox_events db0"
  "crm_targets (rollback db0 db) = crm_targets db0"
  "crm_export_batches (rollback db0 db) = crm_export_batches db0"
  "crm_export_items (rollback db0 db) = crm_export_items db0"
  "accounts (rollback db0 db) = accounts db0"
  "contacts (rollback db0 db) = contacts db0"
  "email_candidates (rollback db0 db) = email_candidates db0"
  "security_incidents (rollback db0 db) = security_incidents db0"
  "cyber_events (rollback db0 db) = cyber_events db0"
  "event_participants (rollback db0 db) = event_participants db0"
  "signals (rollback db0 db) = signals db0"
  "meeting_handoffs (rollback db0 db) = meeting_handoffs db0"
  "meeting_prep_packets (rollback db0 db) = meeting_prep_packets db0"
  "meeting_follow_up_tasks (rollback db0 db) = meeting_follow_up_tasks db0"
  "effects (rollback db0 db) = effects db"
  "uuid_seq (rollback db0 db) = uuid_seq db"
  by (simp_all add: rollback_def)

lemma outbox_emit [simp]:
  "map obx_idempotency_key (outbox_events (emit env n aty ai ss p k sd si db))
     = map obx_idempotency_key (outbox_events db)
       @ [str_or (Some k) (event_value n @ '':'' @ aty @ '':'' @ ai)]"
  by (simp add: emit_def new_event_def enqueue_event_def draw_uuid_def add_outbox_def Let_def)

lemma new_audit_events_audit:
  "\<exists>r. new_audit_events (audit env actor action et ei k p db) = new_audit_events db @ [r]
     \<and> aud_actor r = actor \<and> aud_action r = action \<and> aud_entity_id r = ei
     \<and> aud_idempotency_key r = Some k"
  by (simp add: audit_def draw_uuid_def Let_def)

section \<open>Idempotent operations\<close>

text \<open>
  The contract of an operation that takes an idempotency key: a call whose key is already
  recorded returns the recorded result and changes nothing, whatever the rest of the request
  says, and a call that changed the store recorded its result under its key.
\<close>

locale idempotent_op =
  fixes run :: "env \<Rightarrow> 'q \<Rightarrow> string \<Rightarrow> 'r op"
    and recorded :: "string \<Rightarrow> db \<Rightarrow> 'r option"
  assumes transaction: "transactional (run env q key)"
    and replay: "admitted env \<Longrightarrow> constraints_ok db \<Longrightarrow> recorded key db = Some r
      \<Longrightarrow> run env q key db = (Inr r, db)"
    and records: "run env q key db = (Inr r, db') \<Longrightarrow> db' \<noteq> db \<Longrightarrow> recorded key db' = Some r"
begin

lemma exactly_once:
  assumes "constraints_ok db" and "run env q key db = (Inr r, db')" and "db' \<noteq> db"
    and "admitted env'"
  shows "run env' q' key db' = (Inr r, db')"
proof (rule replay [OF assms(4)])
  show "constraints_ok db'"
    using transactional.constraints_after [OF transaction assms(1,2)] .
  show "recorded key db' = Some r"
    using records [OF assms(2,3)] .
qed

end

text \<open>
  The rule the services use: the operation is a session whose body first looks its key up,
  and whose body otherwise records its result.
\<close>

lemma idempotent_session:
  assumes run: "\<And>env q key. run env q key = session_scope env (body env q key)"
    and known: "\<And>env q key db r. recorded key db = Some r
      \<Longrightarrow> body env q key (begin_session db) = (Inr r, begin_session db)"
    and new: "\<And>env q key db r db1. recorded key db = None
      \<Longrightarrow> body env q key (begin_session db) = (Inr r, db1)
      \<Longrightarrow> end_session db (written env db1) \<noteq> db
      \<Longrightarrow> recorded key (end_session db (written env db1)) = Some r"
  shows "idempotent_op run recorded"
proof
  fix env q key db e db'
  show "run env q key db = (Inl e, db') \<Longrightarrow> same_tables db db'"
    by (simp add: run session_scope_error)
  show "constraints_ok db \<Longrightarrow> constraints_ok (snd (run env q key db))"
    by (simp add: run session_scope_constraints)
next
  fix env q key db r
  assume "admitted env" "constraints_ok db" "recorded key db = Some r"
  then show "run env q key db = (Inr r, db)"
    by (simp add: run session_scope_read known)
next
  fix env q key db r db'
  assume ok: "run env q key db = (Inr r, db')" and changed: "db' \<noteq> db"
  show "recorded key db' = Some r"
  proof (cases "recorded key db")
    case None
    from ok obtain db1 where "body env q key (begin_session db) = (Inr r, db1)"
        and "db' = end_session db (written env db1)"
      by (auto simp: run elim!: session_scope_ok dest!: flush_written)
    with new [OF None] changed show ?thesis by simp
  next
    case (Some r0)
    with ok known have "db' = db" by (auto simp: run dest: session_scope_unchanged)
    with changed show ?thesis by simp
  qed
qed

text \<open>How a keyed lookup sees an append.\<close>

lemma find_key_append:
  "List.find P rows = None \<Longrightarrow> P r \<Longrightarrow> List.find P (rows @ [r]) = Some r"
  by simp

section \<open>Observing outcomes\<close>

definition succeeds :: "(error + 'a) \<times> db \<Rightarrow> ('a \<Rightarrow> db \<Rightarrow> bool) \<Rightarrow> bool" where
  "succeeds out P = (case out of (Inr r, db) \<Rightarrow> P r db | (Inl _, _) \<Rightarrow> False)"

definition fails :: "(error + 'a) \<times> db \<Rightarrow> (error \<Rightarrow> db \<Rightarrow> bool) \<Rightarrow> bool" where
  "fails out P = (case out of (Inl e, db) \<Rightarrow> P e db | (Inr _, _) \<Rightarrow> False)"

lemma succeedsE:
  assumes "succeeds out P"
  obtains r db where "out = (Inr r, db)" and "P r db"
  using assms by (auto simp: succeeds_def split: prod.splits sum.splits)

lemma failsE:
  assumes "fails out P"
  obtains e db where "out = (Inl e, db)" and "P e db"
  using assms by (auto simp: fails_def split: prod.splits sum.splits)

section \<open>A concrete environment\<close>

text \<open>Used by the examples: a local profile, numbered identifiers, and the identity as hash.\<close>

definition example_settings :: Settings where
  "example_settings =
     \<lparr>cfg_profile = LOCAL, cfg_audit_hmac_key = None, cfg_crm_provider = LOCAL_DEMO,
      cfg_attio_access_token = None,
      cfg_attio_events_list_api_slug = ''ghostrecon-cyber-events'',
      cfg_attio_event_participants_list_api_slug = ''ghostrecon-event-participants'',
      cfg_attio_incidents_list_api_slug = ''ghostrecon-security-incidents'',
      cfg_attio_companies_list_api_slug = ''ghostrecon-companies'',
      cfg_attio_incident_contacts_list_api_slug = ''ghostrecon-incident-contacts'',
      cfg_smtp_from_address = ''prospecting@example.com'', cfg_smtp_host = Some ''smtp.example.com'',
      cfg_sequence_domain_daily_limit = 50, cfg_sequence_sender_daily_limit = 200,
      cfg_sequence_channel_daily_limit = 500, cfg_sequence_retry_after_seconds = 300,
      cfg_calendar_provider = FAKE, cfg_google_calendar_id = None, cfg_google_client_email = None,
      cfg_google_private_key = None, cfg_google_calendar_send_updates = True,
      cfg_attio_meetings_list_api_slug = ''meetings''\<rparr>"

definition example_env :: env where
  "example_env =
     \<lparr>env_now = 1700000000000000, env_uuid4 = (\<lambda>n. replicate (Suc n) (CHR ''u'')), env_sha256 = (\<lambda>s. ''h'' @ s),
      env_hmac_sha256 = (\<lambda>k s. k @ s), env_identity = None, env_operation = None,
      env_settings = example_settings,
      env_email_str = (\<lambda>s. if CHR ''@'' \<in> set s then Some s else None),
      env_format_field = (\<lambda>values name conv spec. Inl (ValueError ''unsupported field''))\<rparr>"

lemma admitted_example [simp]: "admitted example_env"
  by (simp add: admitted_def strict_runtime_def example_env_def example_settings_def)

lemma constraints_empty [simp]: "constraints_ok empty_db"
  by (simp add: constraints_ok_def empty_db_def List.map_filter_def)

end
