(* ===== verification/Scoring.thy ===== *)
theory Scoring
  imports Datastore
begin

text \<open>
  Candidate scoring and routing (\<open>services/scoring/*.py\<close>,
  \<open>models/api/scoring.py\<close>): the component scores and their reasons, the weighted
  composite in double arithmetic, the policy blockers, the route, and the persisted score
  with the review it requests.
\<close>

section \<open>Requests and results\<close>

datatype OriginType = CYBER_EVENT | EVENT_PARTICIPANT | SECURITY_INCIDENT | MANUAL

fun origin_value :: "OriginType \<Rightarrow> string" where
  "origin_value CYBER_EVENT = ''cyber_event''"
| "origin_value EVENT_PARTICIPANT = ''event_participant''"
| "origin_value SECURITY_INCIDENT = ''security_incident''"
| "origin_value MANUAL = ''manual''"

datatype CandidateScoreRoute = REJECTED | NEEDS_REVIEW | CRM_TARGET_REVIEW

fun route_value :: "CandidateScoreRoute \<Rightarrow> string" where
  "route_value REJECTED = ''rejected''"
| "route_value NEEDS_REVIEW = ''needs_review''"
| "route_value CRM_TARGET_REVIEW = ''crm_target_review''"

record ScoreRequest =
  srq_account :: dict
  srq_contact :: "dict option"
  srq_signals :: "dict list"

record ScoreResult =
  srs_fit_score :: int
  srs_intent_score :: int
  srs_composite_score :: int
  srs_threshold_met :: bool
  srs_reasons :: "string list"

record CandidateScoreRequest =
  csr_target_type :: string
  csr_target_id :: string
  csr_origin_type :: "OriginType option"
  csr_origin_id :: "string option"
  csr_account :: dict
  csr_contact :: "dict option"
  csr_signals :: "dict list"
  csr_evidence :: dict
  csr_source_definition_id :: "string option"
  csr_source_item_ids :: "string list"
  csr_policy_snapshot :: dict

record CandidateScoreOut =
  cso_target_type :: string
  cso_target_id :: string
  cso_origin_type :: "OriginType option"
  cso_origin_id :: "string option"
  cso_config_version :: string
  cso_fit_score :: int
  cso_relevance_score :: int
  cso_recency_score :: int
  cso_confidence_score :: int
  cso_evidence_score :: int
  cso_composite_score :: int
  cso_route :: CandidateScoreRoute
  cso_reasons :: "string list"
  cso_policy_blockers :: "string list"
  cso_policy_snapshot_hash :: string

text \<open>The \<open>Field(ge=0, le=100)\<close> bounds pydantic checks when a result is built.\<close>

definition in_score_range :: "int \<Rightarrow> bool" where
  "in_score_range i = (0 \<le> i \<and> i \<le> 100)"

definition ScoreResult_init :: "ScoreResult \<Rightarrow> error + ScoreResult" where
  "ScoreResult_init r =
     (if in_score_range (srs_fit_score r) \<and> in_score_range (srs_intent_score r)
         \<and> in_score_range (srs_composite_score r)
      then Inr r else Inl ValidationError)"

definition CandidateScoreOut_init :: "CandidateScoreOut \<Rightarrow> error + CandidateScoreOut" where
  "CandidateScoreOut_init r =
     (if in_score_range (cso_fit_score r) \<and> in_score_range (cso_relevance_score r)
         \<and> in_score_range (cso_recency_score r) \<and> in_score_range (cso_confidence_score r)
         \<and> in_score_range (cso_evidence_score r) \<and> in_score_range (cso_composite_score r)
      then Inr r else Inl ValidationError)"

section \<open>Coercions\<close>

definition optional_int :: "json \<Rightarrow> int option \<Rightarrow> int option" where
  "optional_int v dflt =
     (if v = JNull then dflt
      else case py_int v of Inl _ \<Rightarrow> dflt | Inr i \<Rightarrow> Some i)"

definition int_or_default :: "json \<Rightarrow> int \<Rightarrow> int" where
  "int_or_default v dflt =
     (case optional_int v (Some dflt) of None \<Rightarrow> dflt | Some i \<Rightarrow> i)"

definition clamp :: "int \<Rightarrow> int" where
  "clamp v = min (max v 0) 100"

text \<open>Membership of a JSON value in a set of strings; an unhashable value raises.\<close>

definition in_str_set :: "json \<Rightarrow> string set \<Rightarrow> error + bool" where
  "in_str_set v S =
     (case v of
        JArr _ \<Rightarrow> Inl (TypeError ''unhashable type: list'')
      | JObj _ \<Rightarrow> Inl (TypeError ''unhashable type: dict'')
      | JStr s \<Rightarrow> Inr (s \<in> S)
      | _ \<Rightarrow> Inr False)"

section \<open>Policy\<close>

definition SCORING_CONFIG_VERSION :: string where
  "SCORING_CONFIG_VERSION = ''sprint7.v1''"

datatype component = Fit | Relevance | Recency | Confidence | Evidence

text \<open>The weights as written in decimal; the program holds the nearest doubles.\<close>

fun weight :: "component \<Rightarrow> rat" where
  "weight Fit = 25 / 100"
| "weight Relevance = 25 / 100"
| "weight Recency = 15 / 100"
| "weight Confidence = 15 / 100"
| "weight Evidence = 20 / 100"

definition SCORING_WEIGHTS :: "component \<Rightarrow> rat" where
  "SCORING_WEIGHTS c = fl (weight c)"

definition policy_snapshot_hash :: "env \<Rightarrow> dict \<Rightarrow> string" where
  "policy_snapshot_hash env snapshot = env_sha256 env (dumps (JObj snapshot))"

definition lowered :: "dict \<Rightarrow> string \<Rightarrow> string" where
  "lowered d k = py_lower (py_str (py_or (dict_get d k) (JStr [])))"

text \<open>The blockers a score and a review share: lineage, reuse, suppression, lawful basis and
  retention, in the order both modules test them.\<close>

definition lineage_blockers :: "string option \<Rightarrow> bool \<Rightarrow> string list" where
  "lineage_blockers source_definition_id has_items =
     (if str_or source_definition_id [] = [] \<or> \<not> has_items then [''missing_source_lineage''] else [])"

definition snapshot_blockers :: "dict \<Rightarrow> string list" where
  "snapshot_blockers snapshot =
     (let reuse = lowered snapshot ''participant_reuse_state'';
          retention = lowered snapshot ''retention_state''
      in (if reuse \<in> {''unknown'', ''prohibited''} then [''participant_reuse_'' @ reuse] else [])
       @ (if dict_get snapshot ''suppressed'' = JBool True
             \<or> dict_get snapshot ''suppression_allowed'' = JBool False
          then [''suppression_active''] else [])
       @ (if truthy (dict_get_default snapshot ''lawful_basis_required'' (JBool True))
             \<and> \<not> truthy (dict_get snapshot ''lawful_basis'')
          then [''missing_lawful_basis''] else [])
       @ (if retention \<in> {''missing'', ''expired''} then [''retention_'' @ retention] else []))"

definition METHODS :: "string set" where
  "METHODS = {''authoritative_disclosure'', ''independent_sources'', ''analyst_decision''}"

definition policy_blockers_for_score :: "CandidateScoreRequest \<Rightarrow> error + string list" where
  "policy_blockers_for_score r =
     (let snapshot = csr_policy_snapshot r;
          evidence = csr_evidence r;
          early = lineage_blockers (csr_source_definition_id r) (csr_source_item_ids r \<noteq> [])
                  @ snapshot_blockers snapshot
      in case py_int (py_or (dict_get snapshot ''max_evidence_age_days'') (JInt 90)) of
           Inl e \<Rightarrow> Inl e
         | Inr max_age \<Rightarrow>
             (let freshness_days = optional_int (dict_get evidence ''evidence_freshness_days'') None;
                  stale = (dict_get snapshot ''stale_evidence'' = JBool True
                           \<or> (case freshness_days of None \<Rightarrow> False | Some d \<Rightarrow> d > max_age));
                  is_incident = (csr_origin_type r = Some SECURITY_INCIDENT);
                  incident_status = py_str (py_or (dict_get snapshot ''incident_status'')
                    (py_or (dict_get evidence ''incident_status'') (JStr [])));
                  corroboration_method = py_str (py_or (dict_get snapshot ''corroboration_method'')
                    (py_or (dict_get evidence ''corroboration_method'') (JStr [])))
              in Inr (early
                   @ (if stale then [''stale_evidence''] else [])
                   @ (if is_incident \<and> incident_status \<noteq> ''corroborated''
                         \<and> corroboration_method \<notin> METHODS
                      then [''incident_not_corroborated''] else []))))"

section \<open>Component scores\<close>

definition award :: "bool \<Rightarrow> int \<Rightarrow> string \<Rightarrow> int \<times> string list \<Rightarrow> int \<times> string list" where
  "award cond points reason acc =
     (if cond then (fst acc + points, snd acc @ [reason]) else acc)"

definition fit_component :: "CandidateScoreRequest \<Rightarrow> error + int \<times> string list" where
  "fit_component r =
     (let account = csr_account r;
          contact = (case csr_contact r of None \<Rightarrow> [] | Some c \<Rightarrow> c);
          a1 = award (truthy (dict_get account ''named_account_flag'')) 30 ''Named account'' (0, []);
          a2 = award (int_or_default (dict_get account ''employee_count'') 0 \<ge> 250) 20
                 ''Employee count matches target segment'' a1;
          a3 = award (truthy (py_or (dict_get account ''security_stack'') (dict_get account ''tech_stack'')))
                 20 ''Technographic context available'' a2;
          a4 = award (truthy (dict_get account ''industry'')) 15 ''Industry context available'' a3
      in case in_str_set (dict_get contact ''role_scope'') {''security'', ''it'', ''risk'', ''communications''} of
           Inl e \<Rightarrow> Inl e
         | Inr scoped \<Rightarrow>
             Inr (award scoped 15 ''Contact role is in permitted business scope'' a4))"

definition signal_step :: "int \<times> string list \<Rightarrow> dict \<Rightarrow> int \<times> string list" where
  "signal_step acc signal =
     (let strength = int_or_default (dict_get signal ''signal_strength'') 0
      in (fst acc + min (max strength 0) 20,
          if truthy (dict_get signal ''signal_type'')
          then snd acc @ [''Relevant signal: '' @ py_str (dict_get signal ''signal_type'')]
          else snd acc))"

definition relevance_component :: "CandidateScoreRequest \<Rightarrow> int \<times> string list" where
  "relevance_component r =
     (let evidence = csr_evidence r;
          o1 = (if csr_origin_type r = Some SECURITY_INCIDENT then (35, [''Security incident origin''])
                else if csr_origin_type r \<in> {Some CYBER_EVENT, Some EVENT_PARTICIPANT}
                then (25, [''Cyber event origin'']) else (0, []));
          o2 = award (truthy (py_or (dict_get evidence ''attack_vector'') (dict_get evidence ''incident_type'')))
                 25 ''Incident context is present'' o1
      in foldl signal_step o2 (csr_signals r))"

definition confidence_component :: "CandidateScoreRequest \<Rightarrow> int \<times> string list" where
  "confidence_component r =
     (let contact = (case csr_contact r of None \<Rightarrow> [] | Some c \<Rightarrow> c);
          confidence = max (int_or_default (dict_get (csr_evidence r) ''confidence'') 0)
                      (max (int_or_default (dict_get (csr_account r) ''source_confidence'') 0)
                           (int_or_default (dict_get contact ''source_confidence'') 0))
      in (confidence,
          if confidence \<ge> 70 then [''Source confidence is strong'']
          else if confidence = 0 then [''Source confidence missing''] else []))"

definition evidence_component :: "CandidateScoreRequest \<Rightarrow> int \<times> string list" where
  "evidence_component r =
     (let evidence = csr_evidence r;
          sources = int_or_default (dict_get evidence ''independent_source_count'') 0;
          e1 = award (truthy (dict_get evidence ''authoritative'')) 60 ''Authoritative evidence'' (0, []);
          e2 = (if sources \<ge> 2 then award True 50 ''Independent evidence threshold met'' e1
                else award (sources = 1) 25 ''Single independent evidence family'' e1)
      in award (truthy (dict_get evidence ''evidence_ids'') \<or> csr_source_item_ids r \<noteq> []) 20
           ''Evidence lineage is present'' e2)"

definition recency_component :: "CandidateScoreRequest \<Rightarrow> int \<times> string list" where
  "recency_component r =
     (case optional_int (dict_get (csr_evidence r) ''evidence_freshness_days'') None of
        None \<Rightarrow> (30, [''Evidence recency missing''])
      | Some d \<Rightarrow>
          if d \<le> 7 then (100, [''Evidence is very recent''])
          else if d \<le> 30 then (75, [])
          else if d \<le> 90 then (45, [])
          else (10, [''Evidence is stale'']))"

definition component_scores ::
  "CandidateScoreRequest \<Rightarrow> error + (component \<Rightarrow> int) \<times> string list" where
  "component_scores r =
     (case fit_component r of
        Inl e \<Rightarrow> Inl e
      | Inr fit \<Rightarrow>
          (let relevance = relevance_component r;
               confidence = confidence_component r;
               evidence = evidence_component r;
               recency = recency_component r
           in Inr (\<lambda>c. clamp (case c of
                       Fit \<Rightarrow> fst fit | Relevance \<Rightarrow> fst relevance | Recency \<Rightarrow> fst recency
                     | Confidence \<Rightarrow> fst confidence | Evidence \<Rightarrow> fst evidence),
                   snd fit @ snd relevance @ snd confidence @ snd evidence @ snd recency)))"

section \<open>Composite scores\<close>

text \<open>\<open>n * w\<close> and \<open>x + y\<close> of the program: exact result, rounded to a double.\<close>

definition fmul :: "int \<Rightarrow> rat \<Rightarrow> rat" where
  "fmul n w = fl (of_int n * w)"

definition fadd :: "rat \<Rightarrow> rat \<Rightarrow> rat" where
  "fadd x y = fl (x + y)"

definition composite_float :: "(component \<Rightarrow> int) \<Rightarrow> rat" where
  "composite_float s =
     fadd (fadd (fadd (fadd (fmul (s Fit) (SCORING_WEIGHTS Fit))
                            (fmul (s Relevance) (SCORING_WEIGHTS Relevance)))
                      (fmul (s Recency) (SCORING_WEIGHTS Recency)))
                (fmul (s Confidence) (SCORING_WEIGHTS Confidence)))
          (fmul (s Evidence) (SCORING_WEIGHTS Evidence))"

definition route_for_score :: "int \<Rightarrow> string list \<Rightarrow> CandidateScoreRoute" where
  "route_for_score score blockers =
     (if blockers \<noteq> [] \<or> score < 40 then REJECTED
      else if score < 70 then NEEDS_REVIEW else CRM_TARGET_REVIEW)"

definition score_candidate_preview :: "env \<Rightarrow> CandidateScoreRequest \<Rightarrow> error + CandidateScoreOut" where
  "score_candidate_preview env r =
     (case component_scores r of
        Inl e \<Rightarrow> Inl e
      | Inr (scores, reasons) \<Rightarrow>
          (case policy_blockers_for_score r of
             Inl e \<Rightarrow> Inl e
           | Inr blockers \<Rightarrow>
               (let composite = py_round (composite_float scores);
                    route = route_for_score composite blockers;
                    reasons' = reasons @ map (\<lambda>b. ''Policy blocker: '' @ b) blockers
                      @ (if route = REJECTED \<and> blockers = []
                         then [''Composite score below review threshold'']
                         else if route = NEEDS_REVIEW
                         then [''Composite score requires analyst review'']
                         else if route = CRM_TARGET_REVIEW
                         then [''Composite score is ready for CRM-target review''] else [])
                in CandidateScoreOut_init
                     \<lparr>cso_target_type = csr_target_type r, cso_target_id = csr_target_id r,
                      cso_origin_type = csr_origin_type r, cso_origin_id = csr_origin_id r,
                      cso_config_version = SCORING_CONFIG_VERSION,
                      cso_fit_score = scores Fit, cso_relevance_score = scores Relevance,
                      cso_recency_score = scores Recency, cso_confidence_score = scores Confidence,
                      cso_evidence_score = scores Evidence, cso_composite_score = composite,
                      cso_route = route, cso_reasons = reasons', cso_policy_blockers = blockers,
                      cso_policy_snapshot_hash = policy_snapshot_hash env (csr_policy_snapshot r)\<rparr>)))"

section \<open>Lead scores\<close>

definition LEAD_SIGNALS :: "string set" where
  "LEAD_SIGNALS = {''kev'', ''cve'', ''intent_surge''}"

fun lead_signals :: "dict list \<Rightarrow> int \<Rightarrow> string list \<Rightarrow> error + int \<times> string list" where
  "lead_signals [] intent reasons = Inr (intent, reasons)"
| "lead_signals (signal # rest) intent reasons =
     (case py_int (dict_get_default signal ''signal_strength'' (JInt 0)) of
        Inl e \<Rightarrow> Inl e
      | Inr strength \<Rightarrow>
          (case in_str_set (dict_get signal ''signal_type'') LEAD_SIGNALS of
             Inl e \<Rightarrow> Inl e
           | Inr relevant \<Rightarrow>
               lead_signals rest (intent + min (max strength 0) 35)
                 (if relevant
                  then reasons @ [''Relevant signal: '' @ py_str (dict_get signal ''signal_type'')]
                  else reasons)))"

definition employee_check :: "dict \<Rightarrow> error + bool" where
  "employee_check account =
     (if truthy (dict_get account ''employee_count'')
      then case py_int (dict_get account ''employee_count'') of
             Inl e \<Rightarrow> Inl e | Inr n \<Rightarrow> Inr (n \<ge> 250)
      else Inr False)"

definition lead_composite :: "int \<Rightarrow> int \<Rightarrow> int" where
  "lead_composite fit intent =
     py_round (fadd (fmul fit (fl (55 / 100))) (fmul intent (fl (45 / 100))))"

definition score_lead :: "ScoreRequest \<Rightarrow> error + ScoreResult" where
  "score_lead r =
     (let account = srq_account r;
          a1 = award (truthy (dict_get account ''named_account_flag'')) 30 ''Named account'' (0, [])
      in case employee_check account of
           Inl e \<Rightarrow> Inl e
         | Inr large \<Rightarrow>
             (let a2 = award large 20 ''Employee count matches target segment'' a1;
                  a3 = award (truthy (py_or (dict_get account ''security_stack'')
                                            (dict_get account ''tech_stack''))) 20
                         ''Technographic context available'' a2;
                  a4 = award (truthy (dict_get account ''industry'')) 20 ''Industry present'' a3
              in case lead_signals (srq_signals r) 0 (snd a4) of
                   Inl e \<Rightarrow> Inl e
                 | Inr (intent0, reasons) \<Rightarrow>
                     (let fit = min (fst a4) 100;
                          intent = min intent0 100;
                          composite = lead_composite fit intent;
                          met = (composite \<ge> 60)
                      in ScoreResult_init
                           \<lparr>srs_fit_score = fit, srs_intent_score = intent,
                            srs_composite_score = composite, srs_threshold_met = met,
                            srs_reasons = (if met then reasons
                               else reasons @ [''Composite score below routing threshold''])\<rparr>)))"

section \<open>Persisted scores\<close>

definition score_with_key :: "string \<Rightarrow> db \<Rightarrow> CandidateScore option" where
  "score_with_key key db = List.find (\<lambda>s. cs_idempotency_key s = key) (candidate_scores db)"

definition review_with_key :: "string \<Rightarrow> db \<Rightarrow> ReviewCandidate option" where
  "review_with_key key db = List.find (\<lambda>c. rc_idempotency_key c = key) (review_candidates db)"

fun int_components :: "dict \<Rightarrow> string list \<Rightarrow> error + json list" where
  "int_components d [] = Inr []"
| "int_components d (k # ks) =
     (case py_int (dict_get_default d k (JInt 0)) of
        Inl e \<Rightarrow> Inl e
      | Inr i \<Rightarrow> (case int_components d ks of Inl e \<Rightarrow> Inl e | Inr js \<Rightarrow> Inr (JInt i # js)))"

definition candidate_score_to_api :: "CandidateScore \<Rightarrow> error + dict" where
  "candidate_score_to_api s =
     (case int_components (cs_component_scores s)
             [''fit'', ''relevance'', ''recency'', ''confidence'', ''evidence''] of
        Inl e \<Rightarrow> Inl e
      | Inr ints \<Rightarrow>
          Inr ([(''id'', JStr (cs_id s)), (''target_type'', JStr (cs_target_type s)),
                (''target_id'', JStr (cs_target_id s)), (''origin_type'', opt_str (cs_origin_type s)),
                (''origin_id'', opt_str (cs_origin_id s)),
                (''config_version'', JStr (cs_config_version s))]
               @ zip [''fit_score'', ''relevance_score'', ''recency_score'', ''confidence_score'',
                      ''evidence_score''] ints
               @ [(''composite_score'', JInt (cs_composite_score s)), (''route'', JStr (cs_route s)),
                  (''reasons'', JArr (cs_reasons s)),
                  (''policy_blockers'', dict_get_default (cs_component_scores s) ''policy_blockers'' (JArr [])),
                  (''policy_snapshot_hash'', JStr (cs_policy_snapshot_hash s)),
                  (''created_at'', JTime (cs_created_at s))]))"

definition review_reason_code :: "CandidateScoreRoute \<Rightarrow> string" where
  "review_reason_code route =
     (if route = CRM_TARGET_REVIEW then ''score_ready_for_crm_target_review''
      else ''score_requires_review'')"

definition score_review_row ::
  "env \<Rightarrow> CandidateScoreRequest \<Rightarrow> CandidateScore \<Rightarrow> CandidateScoreOut \<Rightarrow> string \<Rightarrow> ReviewCandidate" where
  "score_review_row env r score preview row_id =
     (let reason_code = review_reason_code (cso_route preview)
      in \<lparr>rc_id = row_id, rc_candidate_type = ''scoring'',
          rc_target_type = csr_target_type r, rc_target_id = csr_target_id r,
          rc_origin_type = map_option origin_value (csr_origin_type r),
          rc_origin_id = csr_origin_id r,
          rc_source_definition_id = csr_source_definition_id r,
          rc_source_item_ids = map JStr (csr_source_item_ids r),
          rc_status = ''open'', rc_reason_code = reason_code,
          rc_reason = Some ''Candidate score requires analyst review before CRM target creation.'',
          rc_evidence_summary =
            [(''candidate_score_id'', JStr (cs_id score)),
             (''composite_score'', JInt (cso_composite_score preview)),
             (''route'', JStr (route_value (cso_route preview))),
             (''reasons'', JArr (map JStr (cso_reasons preview)))],
          rc_policy_snapshot = csr_policy_snapshot r,
          rc_policy_snapshot_hash = Some (cso_policy_snapshot_hash preview),
          rc_sla_due_at = None,
          rc_idempotency_key = ''review:scoring:'' @ cs_id score @ '':'' @ reason_code,
          rc_version = 1, rc_created_at = env_now env, rc_updated_at = env_now env\<rparr>)"

definition approval_requested_payload :: "ReviewCandidate \<Rightarrow> CandidateScore \<Rightarrow> dict" where
  "approval_requested_payload review score =
     [(''review_candidate_id'', JStr (rc_id review)),
      (''candidate_score_id'', JStr (cs_id score)),
      (''candidate_type'', JStr (rc_candidate_type review)),
      (''target_type'', JStr (rc_target_type review)),
      (''target_id'', JStr (rc_target_id review)),
      (''reason_code'', JStr (rc_reason_code review))]"

definition request_score_review ::
  "env \<Rightarrow> CandidateScoreRequest \<Rightarrow> CandidateScore \<Rightarrow> CandidateScoreOut \<Rightarrow> ReviewCandidate op" where
  "request_score_review env r score preview db =
     (case review_with_key
             (''review:scoring:'' @ cs_id score @ '':'' @ review_reason_code (cso_route preview)) db of
        Some existing \<Rightarrow> (Inr existing, db)
      | None \<Rightarrow>
          (let (review_id, db1) = draw_uuid env db;
               review = score_review_row env r score preview review_id
           in case flush env (add_review_candidate review db1) of
                Inl e \<Rightarrow> (Inl e, db1)
              | Inr db2 \<Rightarrow>
                  (Inr review,
                   emit env APPROVAL_REQUESTED ''review_candidate'' (rc_id review)
                     ''scoring-routing-service'' (approval_requested_payload review score)
                     (''approval.requested:'' @ rc_id review)
                     (csr_source_definition_id r) (csr_source_item_ids r) db2)))"

definition score_row ::
  "env \<Rightarrow> CandidateScoreRequest \<Rightarrow> CandidateScoreOut \<Rightarrow> string \<Rightarrow> string \<Rightarrow> CandidateScore" where
  "score_row env r preview key row_id =
     \<lparr>cs_id = row_id, cs_target_type = cso_target_type preview, cs_target_id = cso_target_id preview,
      cs_origin_type = map_option origin_value (cso_origin_type preview),
      cs_origin_id = cso_origin_id preview,
      cs_source_definition_id = csr_source_definition_id r,
      cs_source_item_ids = map JStr (csr_source_item_ids r),
      cs_config_version = cso_config_version preview,
      cs_component_scores =
        [(''fit'', JInt (cso_fit_score preview)), (''relevance'', JInt (cso_relevance_score preview)),
         (''recency'', JInt (cso_recency_score preview)),
         (''confidence'', JInt (cso_confidence_score preview)),
         (''evidence'', JInt (cso_evidence_score preview)),
         (''policy_blockers'', JArr (map JStr (cso_policy_blockers preview)))],
      cs_composite_score = cso_composite_score preview,
      cs_route = route_value (cso_route preview),
      cs_reasons = map JStr (cso_reasons preview),
      cs_policy_snapshot = csr_policy_snapshot r,
      cs_policy_snapshot_hash = cso_policy_snapshot_hash preview,
      cs_idempotency_key = key, cs_created_at = env_now env\<rparr>"

definition create_candidate_score_body ::
  "env \<Rightarrow> CandidateScoreRequest \<Rightarrow> string \<Rightarrow> CandidateScore op" where
  "create_candidate_score_body env r key db =
     (case score_with_key key db of
        Some existing \<Rightarrow> (Inr existing, db)
      | None \<Rightarrow>
          (case score_candidate_preview env r of
             Inl e \<Rightarrow> (Inl e, db)
           | Inr preview \<Rightarrow>
               (let (row_id, db1) = draw_uuid env db;
                    score = score_row env r preview key row_id
                in case flush env (add_candidate_score score db1) of
                     Inl e \<Rightarrow> (Inl e, db1)
                   | Inr db2 \<Rightarrow>
                       (case candidate_score_to_api score of
                          Inl e \<Rightarrow> (Inl e, db2)
                        | Inr api \<Rightarrow>
                            (let db3 = emit env LEAD_SCORED ''candidate_score'' (cs_id score)
                                   ''scoring-routing-service'' api (''lead.scored:'' @ cs_id score)
                                   (csr_source_definition_id r) (csr_source_item_ids r) db2
                             in if cso_route preview \<noteq> REJECTED
                                then case request_score_review env r score preview db3 of
                                       (Inl e, db4) \<Rightarrow> (Inl e, db4)
                                     | (Inr _, db4) \<Rightarrow> (Inr score, db4)
                                else (Inr score, db3))))))"

definition create_candidate_score :: "env \<Rightarrow> CandidateScoreRequest \<Rightarrow> string \<Rightarrow> CandidateScore op" where
  "create_candidate_score env r key = session_scope env (create_candidate_score_body env r key)"

section \<open>Accuracy and monotonicity of the composite\<close>

definition exact_composite :: "(component \<Rightarrow> int) \<Rightarrow> rat" where
  "exact_composite s =
     weight Fit * of_int (s Fit) + weight Relevance * of_int (s Relevance)
   + weight Recency * of_int (s Recency) + weight Confidence * of_int (s Confidence)
   + weight Evidence * of_int (s Evidence)"

lemma clamp_range [simp]: "in_score_range (clamp v)"
  by (simp add: in_score_range_def clamp_def)

lemma fl_close: "0 \<le> r \<Longrightarrow> r \<le> 256 \<Longrightarrow> \<bar>fl r - r\<bar> \<le> 1 / 2 ^ 45"
  using fl_err [of r] by simp

lemma weight_range: "0 \<le> weight c" "weight c \<le> 1"
  by (cases c; simp)+

lemma SCORING_WEIGHTS_close: "\<bar>SCORING_WEIGHTS c - weight c\<bar> \<le> 1 / 2 ^ 53"
  unfolding SCORING_WEIGHTS_def using fl_err [of "weight c"] weight_range [of c] by simp

lemma SCORING_WEIGHTS_nonneg [simp]: "0 \<le> SCORING_WEIGHTS c"
  by (simp add: SCORING_WEIGHTS_def weight_range)

lemma fmul_nonneg: "0 \<le> n \<Longrightarrow> 0 \<le> w \<Longrightarrow> 0 \<le> fmul n w"
  by (simp add: fmul_def)

lemma fmul_close:
  assumes n: "in_score_range n" and w: "\<bar>W - w\<bar> \<le> 1 / 2 ^ 53" "0 \<le> W" "w \<le> 1"
  shows "\<bar>fmul n W - w * of_int n\<bar> \<le> 1 / 2 ^ 44"
proof -
  have r: "0 \<le> (of_int n :: rat)" "(of_int n :: rat) \<le> 100"
    using n by (simp_all add: in_score_range_def)
  have "of_int n * W - w * of_int n = of_int n * (W - w)" by (simp add: algebra_simps)
  then have "\<bar>of_int n * W - w * of_int n\<bar> = of_int n * \<bar>W - w\<bar>"
    using r by (simp add: abs_mult)
  also have "\<dots> \<le> 100 * (1 / 2 ^ 53)" using r w by (intro mult_mono) auto
  finally have 1: "\<bar>of_int n * W - w * of_int n\<bar> \<le> 100 / 2 ^ 53" by simp
  have "w * of_int n \<le> 1 * 100" using r w(3) by (intro mult_mono) auto
  moreover have u: "(100 :: rat) / 2 ^ 53 \<le> 1" "(100 :: rat) / 2 ^ 53 + 1 / 2 ^ 45 \<le> 1 / 2 ^ 44"
    by simp_all
  ultimately have "of_int n * W \<le> 256" using 1 unfolding abs_le_iff by linarith
  then have "\<bar>fl (of_int n * W) - of_int n * W\<bar> \<le> 1 / 2 ^ 45"
    using r w by (intro fl_close) simp_all
  with 1 u(2) show ?thesis unfolding fmul_def abs_le_iff by linarith
qed

lemma fadd_close:
  assumes "\<bar>x - a\<bar> \<le> d" and "\<bar>y - b\<bar> \<le> e" and "0 \<le> x" "0 \<le> y" and "a + b + d + e \<le> 256"
  shows "\<bar>fadd x y - (a + b)\<bar> \<le> d + e + 1 / 2 ^ 45"
proof -
  have "\<bar>fl (x + y) - (x + y)\<bar> \<le> 1 / 2 ^ 45"
    using assms unfolding abs_le_iff by (intro fl_close [unfolded abs_le_iff]) linarith+
  with assms(1,2) show ?thesis unfolding fadd_def abs_le_iff by linarith
qed

lemma fadd_nonneg: "0 \<le> x \<Longrightarrow> 0 \<le> y \<Longrightarrow> 0 \<le> fadd x y"
  by (simp add: fadd_def)

lemma composite_close:
  assumes s: "\<And>c. in_score_range (s c)"
  shows "\<bar>composite_float s - exact_composite s\<bar> \<le> 1 / 2 ^ 41"
proof -
  have tm: "\<bar>fmul (s c) (SCORING_WEIGHTS c) - weight c * of_int (s c)\<bar> \<le> 1 / 2 ^ 44"
    and pos: "0 \<le> fmul (s c) (SCORING_WEIGHTS c)"
    and small: "weight c * of_int (s c) \<le> 25" for c
  proof -
    show "\<bar>fmul (s c) (SCORING_WEIGHTS c) - weight c * of_int (s c)\<bar> \<le> 1 / 2 ^ 44"
      by (rule fmul_close [OF s SCORING_WEIGHTS_close]) (simp_all add: weight_range)
    show "0 \<le> fmul (s c) (SCORING_WEIGHTS c)"
      using s [of c] by (intro fmul_nonneg) (simp_all add: in_score_range_def)
    show "weight c * of_int (s c) \<le> 25"
      using s [of c] by (cases c) (simp_all add: in_score_range_def)
  qed
  have u: "(1 :: rat) / 2 ^ 44 \<le> 1" "(1 :: rat) / 2 ^ 45 \<le> 1" by simp_all
  note t = fadd_close [OF _ tm _ pos]
  have 1: "\<bar>fadd (fmul (s Fit) (SCORING_WEIGHTS Fit)) (fmul (s Relevance) (SCORING_WEIGHTS Relevance))
      - (weight Fit * of_int (s Fit) + weight Relevance * of_int (s Relevance))\<bar>
      \<le> 1 / 2 ^ 44 + 1 / 2 ^ 44 + 1 / 2 ^ 45"
    using small [of Fit] small [of Relevance] by (intro t tm pos) simp
  note 2 = t [OF 1 fadd_nonneg [OF pos pos], of Recency]
  note 3 = t [OF 2 fadd_nonneg [OF fadd_nonneg [OF pos pos] pos], of Confidence]
  note 4 = t [OF 3 fadd_nonneg [OF fadd_nonneg [OF fadd_nonneg [OF pos pos] pos] pos], of Evidence]
  have "\<bar>composite_float s - exact_composite s\<bar>
      \<le> 1 / 2 ^ 44 + 1 / 2 ^ 44 + 1 / 2 ^ 45 + 1 / 2 ^ 44 + 1 / 2 ^ 45 + 1 / 2 ^ 44 + 1 / 2 ^ 45
        + 1 / 2 ^ 44 + 1 / 2 ^ 45"
    unfolding composite_float_def exact_composite_def
    by (rule 4) (use u small [of Fit] small [of Relevance] small [of Recency] small [of Confidence]
        small [of Evidence] in linarith)+
  then show ?thesis by simp
qed

lemma exact_composite_range:
  assumes "\<And>c. in_score_range (s c)"
  shows "0 \<le> exact_composite s" and "exact_composite s \<le> 100"
proof -
  have "0 \<le> (of_int (s c) :: rat)" and "(of_int (s c) :: rat) \<le> 100" for c
    using assms [of c] by (simp_all add: in_score_range_def)
  note b = this [of Fit] this [of Relevance] this [of Recency] this [of Confidence] this [of Evidence]
  show "0 \<le> exact_composite s" and "exact_composite s \<le> 100"
    using b by (simp_all add: exact_composite_def)
qed

lemma composite_range:
  assumes "\<And>c. in_score_range (s c)"
  shows "in_score_range (py_round (composite_float s))"
proof -
  have "\<bar>composite_float s - exact_composite s\<bar> \<le> 1 / 2 ^ 41"
    and "0 \<le> exact_composite s" "exact_composite s \<le> 100"
    using assms by (rule composite_close exact_composite_range)+
  moreover have "(1 :: rat) / 2 ^ 41 \<le> 1 / 4" by simp
  ultimately have "of_int 0 - 1 / 2 < composite_float s \<and> composite_float s < of_int 100 + 1 / 2"
    unfolding abs_le_iff of_int_0 of_int_numeral by linarith
  then show ?thesis
    by (simp only: in_score_range_def py_round_ge py_round_le)
qed

text \<open>Rounding is stable away from ties: the exact composite is a multiple of 1/20, and the
  double result is much closer to it than that.\<close>

lemma py_round_stable:
  assumes k: "y = of_int k / 20" "k mod 20 \<noteq> 10" and xy: "\<bar>x - y\<bar> < 1 / 40"
  shows "py_round x = py_round y"
proof -
  define n where "n = py_round y"
  have "of_int (20 * n) \<le> (of_int (k + 10) :: rat)" and "(of_int (k - 10) :: rat) \<le> of_int (20 * n)"
    using py_round_upper [of y] py_round_lower [of y] by (simp_all add: k n_def)
  then have "20 * n \<le> k + 10" and "k - 10 \<le> 20 * n" by (simp_all only: of_int_le_iff)
  moreover have "20 * n \<noteq> k + 10" and "20 * n \<noteq> k - 10" using k(2) by presburger+
  ultimately have "20 * n \<le> k + 9" and "k - 9 \<le> 20 * n" by linarith+
  then have "(of_int (20 * n) :: rat) \<le> of_int (k + 9)" and "(of_int (k - 9) :: rat) \<le> of_int (20 * n)"
    by (simp_all only: of_int_le_iff)
  then have "of_int n - 1 / 2 < x" and "x < of_int n + 1 / 2"
    using xy unfolding k abs_less_iff by simp_all
  then show ?thesis
    using py_round_ge [of n x] py_round_le [of x n] by (simp add: n_def)
qed

lemma exact_composite_twentieths:
  "exact_composite s
     = of_int (5 * s Fit + 5 * s Relevance + 3 * s Recency + 3 * s Confidence + 4 * s Evidence) / 20"
  by (simp add: exact_composite_def field_simps)

lemma composite_float_mono:
  assumes "\<And>c. 0 \<le> s c" and "\<And>c. s c \<le> s' c"
  shows "composite_float s \<le> composite_float s'"
proof -
  have m: "0 \<le> fmul (s c) (SCORING_WEIGHTS c)"
      "fmul (s c) (SCORING_WEIGHTS c) \<le> fmul (s' c) (SCORING_WEIGHTS c)" for c
    using assms by (auto simp: fmul_def intro!: fl_mono mult_right_mono)
  have a: "0 \<le> x \<Longrightarrow> x \<le> x' \<Longrightarrow> fadd x (fmul (s c) (SCORING_WEIGHTS c))
             \<le> fadd x' (fmul (s' c) (SCORING_WEIGHTS c))" for x x' c
    using m [of c] unfolding fadd_def by (intro fl_mono) auto
  show ?thesis
    unfolding composite_float_def by (intro a fadd_nonneg m)
qed

section \<open>Results stay in range\<close>

lemma component_scores_range:
  "component_scores r = Inr (s, reasons) \<Longrightarrow> in_score_range (s c)"
  by (auto simp: component_scores_def Let_def split: sum.splits)

lemma py_int_error: "py_int v = Inl e \<Longrightarrow> e \<noteq> ValidationError"
  by (auto simp: py_int_def split: json.splits option.splits)

lemma in_str_set_error: "in_str_set v S = Inl e \<Longrightarrow> e \<noteq> ValidationError"
  by (auto simp: in_str_set_def split: json.splits)

lemma component_scores_error: "component_scores r = Inl e \<Longrightarrow> e \<noteq> ValidationError"
  by (auto simp: component_scores_def fit_component_def Let_def dest: in_str_set_error split: sum.splits)

lemma policy_blockers_error: "policy_blockers_for_score r = Inl e \<Longrightarrow> e \<noteq> ValidationError"
  by (auto simp: policy_blockers_for_score_def Let_def dest: py_int_error split: sum.splits)

lemma preview_cases:
  assumes "component_scores r = Inr (s, reasons)" and "policy_blockers_for_score r = Inr blockers"
  obtains out where "score_candidate_preview env r = Inr out"
    and "cso_composite_score out = py_round (composite_float s)"
    and "cso_policy_blockers out = blockers"
    and "cso_route out = route_for_score (py_round (composite_float s)) blockers"
    and "cso_fit_score out = s Fit" "cso_relevance_score out = s Relevance"
      "cso_recency_score out = s Recency" "cso_confidence_score out = s Confidence"
      "cso_evidence_score out = s Evidence"
    and "cso_policy_snapshot_hash out = policy_snapshot_hash env (csr_policy_snapshot r)"
    and "cso_target_type out = csr_target_type r" "cso_target_id out = csr_target_id r"
proof -
  have "in_score_range (s c)" for c by (rule component_scores_range [OF assms(1)])
  moreover from this have "in_score_range (py_round (composite_float s))" by (rule composite_range)
  ultimately show thesis
    using assms that
    by (simp add: score_candidate_preview_def CandidateScoreOut_init_def Let_def split: if_splits)
qed

lemma preview_Inr:
  assumes "score_candidate_preview env r = Inr out"
  obtains s reasons where "component_scores r = Inr (s, reasons)"
    and "policy_blockers_for_score r = Inr (cso_policy_blockers out)"
    and "cso_composite_score out = py_round (composite_float s)"
    and "cso_route out = route_for_score (cso_composite_score out) (cso_policy_blockers out)"
    and "cso_policy_snapshot_hash out = policy_snapshot_hash env (csr_policy_snapshot r)"
    and "cso_target_type out = csr_target_type r" "cso_target_id out = csr_target_id r"
  using assms
  by (auto simp: score_candidate_preview_def CandidateScoreOut_init_def Let_def
      split: sum.splits prod.splits if_split_asm)

lemma lead_signals_nonneg:
  "lead_signals sigs i rs = Inr (i', rs') \<Longrightarrow> 0 \<le> i \<Longrightarrow> 0 \<le> i'"
  by (induction sigs i rs rule: lead_signals.induct) (auto split: sum.splits if_splits)

lemma lead_signals_error: "lead_signals sigs i rs = Inl e \<Longrightarrow> e \<noteq> ValidationError"
  by (induction sigs i rs rule: lead_signals.induct)
    (auto dest: py_int_error in_str_set_error split: sum.splits if_splits)

lemma lead_composite_range:
  assumes "in_score_range f" and "in_score_range i"
  shows "in_score_range (lead_composite f i)"
proof -
  have w: "\<bar>fl (55 / 100) - 55 / 100\<bar> \<le> 1 / 2 ^ 53" "\<bar>fl (45 / 100) - 45 / 100\<bar> \<le> 1 / 2 ^ 53"
    using fl_err [of "55 / 100"] fl_err [of "45 / 100"] by simp_all
  have r: "0 \<le> (of_int f :: rat)" "(of_int f :: rat) \<le> 100" "0 \<le> (of_int i :: rat)" "(of_int i :: rat) \<le> 100"
    using assms by (simp_all add: in_score_range_def)
  have "\<bar>fadd (fmul f (fl (55 / 100))) (fmul i (fl (45 / 100)))
          - (55 / 100 * of_int f + 45 / 100 * of_int i)\<bar> \<le> 1 / 2 ^ 44 + 1 / 2 ^ 44 + 1 / 2 ^ 45"
    using assms r by (intro fadd_close fmul_close w fmul_nonneg) (simp_all add: in_score_range_def)
  moreover have "(1 :: rat) / 2 ^ 44 + 1 / 2 ^ 44 + 1 / 2 ^ 45 \<le> 1 / 4" by simp
  ultimately have "of_int 0 - 1 / 2 < fadd (fmul f (fl (55 / 100))) (fmul i (fl (45 / 100)))
      \<and> fadd (fmul f (fl (55 / 100))) (fmul i (fl (45 / 100))) < of_int 100 + 1 / 2"
    using r unfolding abs_le_iff of_int_0 of_int_numeral by linarith
  then show ?thesis
    by (simp only: in_score_range_def lead_composite_def py_round_ge py_round_le)
qed

lemma fst_award: "fst (award c n s acc) = fst acc + (if c then n else 0)"
  by (simp add: award_def)

lemma employee_check_error: "employee_check a = Inl e \<Longrightarrow> e \<noteq> ValidationError"
  by (auto simp: employee_check_def dest: py_int_error split: sum.splits if_splits)

lemma preview_valid: "score_candidate_preview env r \<noteq> Inl ValidationError"
proof (cases "component_scores r")
  case (Inr c)
  then obtain s reasons where c: "component_scores r = Inr (s, reasons)" by (cases c) auto
  show ?thesis
  proof (cases "policy_blockers_for_score r")
    case (Inr b)
    show ?thesis by (rule preview_cases [OF c Inr, of env]) simp
  qed (auto simp: score_candidate_preview_def c dest: policy_blockers_error)
qed (auto simp: score_candidate_preview_def dest: component_scores_error)

lemma ScoreResult_init_ok:
  assumes "0 \<le> f" and "0 \<le> i"
  shows "ScoreResult_init \<lparr>srs_fit_score = min f 100, srs_intent_score = min i 100,
    srs_composite_score = lead_composite (min f 100) (min i 100), srs_threshold_met = t,
    srs_reasons = rs\<rparr> \<noteq> Inl e"
proof -
  have "in_score_range (min f 100)" and "in_score_range (min i 100)"
    using assms by (simp_all add: in_score_range_def)
  then show ?thesis
    using lead_composite_range by (simp add: ScoreResult_init_def)
qed

lemma award_nonneg: "0 \<le> fst acc \<Longrightarrow> 0 \<le> n \<Longrightarrow> 0 \<le> fst (award c n s acc)"
  by (simp add: fst_award)

lemma score_lead_valid: "score_lead q \<noteq> Inl ValidationError"
proof (cases "employee_check (srq_account q)")
  case (Inl e)
  then show ?thesis by (auto simp: score_lead_def Let_def dest: employee_check_error)
next
  case emp: (Inr large)
  show ?thesis
    unfolding score_lead_def Let_def emp sum.case
    by (auto split: sum.split dest: lead_signals_error)
      (erule notE [OF ScoreResult_init_ok, rotated -1]; auto intro!: award_nonneg dest: lead_signals_nonneg)+
qed

text \<open>The bounds 0 to 100 that the result models declare are never violated by a
  computed score: neither the candidate preview nor the lead score can end in a validation
  error, whatever the request holds; only a value that cannot be read as an integer or hashed
  makes them raise.\<close>

theorem scores_always_valid:
  "score_candidate_preview env r \<noteq> Inl ValidationError \<and> score_lead q \<noteq> Inl ValidationError"
  by (simp add: preview_valid score_lead_valid)

section \<open>The composite against exact arithmetic\<close>

text \<open>A concrete request for the examples: a corroborated incident at a named account.\<close>

definition sample_request :: CandidateScoreRequest where
  "sample_request =
     \<lparr>csr_target_type = ''contact'', csr_target_id = ''c1'', csr_origin_type = Some SECURITY_INCIDENT,
      csr_origin_id = Some ''i1'',
      csr_account = [(''named_account_flag'', JBool True), (''employee_count'', JInt 900),
        (''industry'', JStr ''energy'')],
      csr_contact = Some [(''role_scope'', JStr ''security''), (''source_confidence'', JInt 83)],
      csr_signals = [[(''signal_strength'', JInt 17), (''signal_type'', JStr ''kev'')]],
      csr_evidence = [(''independent_source_count'', JInt 2), (''evidence_freshness_days'', JInt 12)],
      csr_source_definition_id = Some ''sd1'', csr_source_item_ids = [''si1''],
      csr_policy_snapshot = [(''lawful_basis'', JStr ''legitimate_interest''),
        (''incident_status'', JStr ''corroborated'')]\<rparr>"

text \<open>C18: The composite score is the weighted mean of the component scores
  rounded to the nearest integer: the double arithmetic moves it by at most 2^-41 beyond the
  half unit of rounding, and when the exact weighted mean is not half-way between two integers
  the score is exactly its rounding.\<close>

theorem composite_accuracy:
  assumes "component_scores r = Inr (s, reasons)" and "score_candidate_preview env r = Inr out"
  shows "\<bar>of_int (cso_composite_score out) - exact_composite s\<bar> \<le> 1 / 2 + 1 / 2 ^ 41
    \<and> ((5 * s Fit + 5 * s Relevance + 3 * s Recency + 3 * s Confidence + 4 * s Evidence) mod 20 \<noteq> 10
       \<longrightarrow> cso_composite_score out = py_round (exact_composite s))"
proof -
  have out: "cso_composite_score out = py_round (composite_float s)"
    using assms by (auto elim!: preview_Inr)
  have close: "\<bar>composite_float s - exact_composite s\<bar> \<le> 1 / 2 ^ 41"
    by (rule composite_close) (rule component_scores_range [OF assms(1)])
  moreover have "(1 :: rat) / 2 ^ 41 < 1 / 40" by simp
  ultimately have "\<bar>composite_float s - exact_composite s\<bar> < 1 / 40" by linarith
  with close py_round_err [of "composite_float s"] show ?thesis
    unfolding out abs_le_iff
    by (intro conjI impI py_round_stable [OF exact_composite_twentieths]) linarith+
qed

theorem composite_accuracy_witness:
  "\<exists>s reasons out. component_scores sample_request = Inr (s, reasons)
     \<and> score_candidate_preview example_env sample_request = Inr out
     \<and> \<bar>of_int (cso_composite_score out) - exact_composite s\<bar> \<le> 1 / 2 + 1 / 2 ^ 41"
proof -
  have "\<not> isl (component_scores sample_request)" and b: "policy_blockers_for_score sample_request = Inr []"
    by code_simp+
  then obtain s reasons where c: "component_scores sample_request = Inr (s, reasons)"
    by (cases "component_scores sample_request") auto
  obtain out where p: "score_candidate_preview example_env sample_request = Inr out"
    by (rule preview_cases [OF c b, of example_env])
  show ?thesis using composite_accuracy [OF c p] c p by blast
qed

text \<open>Raising component scores never lowers the composite, and with the
  same policy blockers it never turns a candidate ready for CRM-target review into a lesser
  route nor one worth a review into a rejected one, in spite of double rounding.\<close>

theorem composite_monotone:
  assumes "\<And>c. 0 \<le> s c" and "\<And>c. s c \<le> s' c"
  shows "py_round (composite_float s) \<le> py_round (composite_float s')
    \<and> (route_for_score (py_round (composite_float s)) b = CRM_TARGET_REVIEW
        \<longrightarrow> route_for_score (py_round (composite_float s')) b = CRM_TARGET_REVIEW)
    \<and> (route_for_score (py_round (composite_float s)) b \<noteq> REJECTED
        \<longrightarrow> route_for_score (py_round (composite_float s')) b \<noteq> REJECTED)"
proof -
  have "py_round (composite_float s) \<le> py_round (composite_float s')"
    using assms by (intro py_round_mono composite_float_mono)
  then show ?thesis by (auto simp: route_for_score_def)
qed

theorem composite_monotone_witness:
  "py_round (composite_float (\<lambda>_. 10)) \<le> py_round (composite_float (\<lambda>_. 90))"
  using composite_monotone [of "\<lambda>_. 10" "\<lambda>_. 90" "[]"] by simp

section \<open>Persisted scores\<close>

lemma score_review_row_fields [simp]:
  "rc_status (score_review_row env r score preview i) = ''open''"
  "rc_version (score_review_row env r score preview i) = 1"
  "rc_target_type (score_review_row env r score preview i) = csr_target_type r"
  "rc_target_id (score_review_row env r score preview i) = csr_target_id r"
  "rc_policy_snapshot (score_review_row env r score preview i) = csr_policy_snapshot r"
  "rc_policy_snapshot_hash (score_review_row env r score preview i) = Some (cso_policy_snapshot_hash preview)"
  "rc_reason_code (score_review_row env r score preview i) = review_reason_code (cso_route preview)"
  "rc_id (score_review_row env r score preview i) = i"
  "rc_idempotency_key (score_review_row env r score preview i)
     = ''review:scoring:'' @ cs_id score @ '':'' @ review_reason_code (cso_route preview)"
  by (simp_all add: score_review_row_def Let_def)

lemma score_row_fields [simp]:
  "cs_id (score_row env r preview key i) = i"
  "cs_idempotency_key (score_row env r preview key i) = key"
  "cs_composite_score (score_row env r preview key i) = cso_composite_score preview"
  by (simp_all add: score_row_def)

lemma request_score_review_new:
  assumes "request_score_review env r score preview db = (Inr review, db')"
    and "review_with_key (''review:scoring:'' @ cs_id score @ '':'' @ review_reason_code (cso_route preview)) db
           = None"
  shows "\<exists>i. review = score_review_row env r score preview i
    \<and> review_candidates db' = review_candidates db @ [review]"
  using assms
  by (auto simp: request_score_review_def draw_uuid_def Let_def add_review_candidate_def
      dest!: flush_written split: sum.splits)

lemma request_score_review_scores:
  "request_score_review env r score preview db = (x, db') \<Longrightarrow> candidate_scores db' = candidate_scores db"
  by (auto simp: request_score_review_def draw_uuid_def Let_def add_review_candidate_def
      dest!: flush_written split: sum.splits option.splits)

lemma create_candidate_score_body_new:
  assumes "create_candidate_score_body env r key db = (Inr s, db')"
    and "score_with_key key db = None"
  obtains preview db2 where "score_candidate_preview env r = Inr preview"
    and "s = score_row env r preview key (env_uuid4 env (uuid_seq db))"
    and "candidate_scores db2 = candidate_scores db @ [s]"
    and "review_candidates db2 = review_candidates db"
    and "if cso_route preview \<noteq> REJECTED
         then \<exists>review. request_score_review env r s preview db2 = (Inr review, db')
         else db' = db2"
proof -
  from assms obtain preview where p: "score_candidate_preview env r = Inr preview"
    by (auto simp: create_candidate_score_body_def split: sum.splits)
  define s0 where "s0 = score_row env r preview key (env_uuid4 env (uuid_seq db))"
  define db1 where "db1 = add_candidate_score s0 (db\<lparr>uuid_seq := Suc (uuid_seq db)\<rparr>)"
  from assms p obtain db2 where f: "flush env db1 = Inr db2"
    by (auto simp: create_candidate_score_body_def draw_uuid_def Let_def db1_def s0_def split: sum.splits)
  with assms p obtain api where api: "candidate_score_to_api s0 = Inr api"
    by (auto simp: create_candidate_score_body_def draw_uuid_def Let_def db1_def s0_def split: sum.splits)
  define db3 where "db3 = emit env LEAD_SCORED ''candidate_score'' (cs_id s0)
      ''scoring-routing-service'' api (''lead.scored:'' @ cs_id s0)
      (csr_source_definition_id r) (csr_source_item_ids r) db2"
  have "s = s0 \<and> (if cso_route preview \<noteq> REJECTED
       then \<exists>review. request_score_review env r s0 preview db3 = (Inr review, db')
       else db' = db3)"
    using assms p f api unfolding db3_def db1_def s0_def create_candidate_score_body_def
    by (auto simp: draw_uuid_def Let_def split: if_splits prod.splits sum.splits)
  moreover have "candidate_scores db3 = candidate_scores db @ [s0]"
    and "review_candidates db3 = review_candidates db"
    using flush_written [OF f] by (simp_all add: db3_def db1_def add_candidate_score_def)
  ultimately show thesis
    unfolding s0_def by (intro that [OF p, of db3]) auto
qed

text \<open>The score operation is idempotent in its key.\<close>

lemma score_with_key_frame [simp]:
  "score_with_key key (begin_session db) = score_with_key key db"
  "score_with_key key (end_session db0 db) = score_with_key key db"
  "score_with_key key (written env db) = score_with_key key db"
  by (simp_all add: score_with_key_def)

lemma create_candidate_score_body_stores:
  assumes "create_candidate_score_body env r key db = (Inr s, db')" and "score_with_key key db = None"
  shows "candidate_scores db' = candidate_scores db @ [s] \<and> cs_idempotency_key s = key"
proof -
  obtain preview db2 where s: "s = score_row env r preview key (env_uuid4 env (uuid_seq db))"
      and db2: "candidate_scores db2 = candidate_scores db @ [s]"
      and q: "if cso_route preview \<noteq> REJECTED
         then \<exists>review. request_score_review env r s preview db2 = (Inr review, db')
         else db' = db2"
    by (rule create_candidate_score_body_new [OF assms])
  from q have "candidate_scores db' = candidate_scores db2"
    by (cases "cso_route preview = REJECTED") (auto dest: request_score_review_scores)
  with db2 s show ?thesis by simp
qed

lemma create_candidate_score_new:
  assumes "create_candidate_score env r key db = (Inr s, db')" and "score_with_key key db = None"
  obtains preview db2 where "score_candidate_preview env r = Inr preview"
    and "s = score_row env r preview key (env_uuid4 env (uuid_seq db))"
    and "candidate_scores db' = candidate_scores db @ [s]"
    and "review_candidates db2 = review_candidates db"
    and "if cso_route preview \<noteq> REJECTED
         then \<exists>review db1. request_score_review env r s preview db2 = (Inr review, db1)
                \<and> review_candidates db' = review_candidates db1
         else review_candidates db' = review_candidates db"
proof -
  obtain db1 where b: "create_candidate_score_body env r key (begin_session db) = (Inr s, db1)"
      and db': "db' = end_session db (written env db1)"
    using assms(1) unfolding create_candidate_score_def
    by (auto elim!: session_scope_ok dest!: flush_written)
  from assms(2) have "score_with_key key (begin_session db) = None" by simp
  from create_candidate_score_body_new [OF b this] obtain preview db2 where
      p: "score_candidate_preview env r = Inr preview"
    and s: "s = score_row env r preview key (env_uuid4 env (uuid_seq (begin_session db)))"
    and cs: "candidate_scores db2 = candidate_scores (begin_session db) @ [s]"
    and rc: "review_candidates db2 = review_candidates (begin_session db)"
    and q: "if cso_route preview \<noteq> REJECTED
         then \<exists>review. request_score_review env r s preview db2 = (Inr review, db1)
         else db1 = db2" .
  from q have "candidate_scores db1 = candidate_scores db2"
    by (auto split: if_splits dest: request_score_review_scores)
  with cs q rc s show thesis
    by (intro that [OF p, of db2]) (auto simp: db' split: if_splits)
qed

interpretation candidate_score: idempotent_op create_candidate_score score_with_key
proof (rule idempotent_session [OF create_candidate_score_def])
  fix env r key db s
  assume "score_with_key key db = Some s"
  then show "create_candidate_score_body env r key (begin_session db) = (Inr s, begin_session db)"
    by (simp add: create_candidate_score_body_def)
next
  fix env r key db s db1
  assume "score_with_key key db = None"
    and "create_candidate_score_body env r key (begin_session db) = (Inr s, db1)"
  then show "score_with_key key (end_session db (written env db1)) = Some s"
    using create_candidate_score_body_stores [of env r key "begin_session db" s db1]
    by (simp add: score_with_key_def)
qed

text \<open>Scoring a candidate is exactly-once in its idempotency key: when a
  call with a key changed the store, every later call with that key, whatever request it
  carries, returns the score of the first call and leaves the store as it is.\<close>

theorem score_idempotent:
  assumes "constraints_ok db" and "create_candidate_score env r key db = (Inr s, db')"
    and "db' \<noteq> db" and "admitted env'"
  shows "create_candidate_score env' r' key db' = (Inr s, db')"
  using assms by (rule candidate_score.exactly_once)

theorem score_idempotent_witness:
  "\<exists>s db'. create_candidate_score example_env sample_request ''k1'' empty_db = (Inr s, db')
     \<and> create_candidate_score example_env (sample_request\<lparr>csr_target_id := ''c2''\<rparr>) ''k1'' db' = (Inr s, db')"
proof -
  have "succeeds (create_candidate_score example_env sample_request ''k1'' empty_db)
      (\<lambda>s db'. candidate_scores db' \<noteq> [])" by code_simp
  then obtain s db' where run: "create_candidate_score example_env sample_request ''k1'' empty_db = (Inr s, db')"
      and "candidate_scores db' \<noteq> []" by (rule succeedsE)
  then have "db' \<noteq> empty_db" by (auto simp: empty_db_def)
  from score_idempotent [OF constraints_empty run this admitted_example] run show ?thesis by blast
qed

text \<open>C16: A new score is stored under its key, and it opens a review exactly when
  it may go on: no policy blocker applies and the composite reaches 40.  The review is open, at
  version 1, about the request's target and carries the policy snapshot the score was computed
  from; in every other case the review queue is untouched.  The key of the review names the
  score, whose id is drawn for it: the theorem asks that no review is stored under a key of that
  new id.\<close>

theorem score_opens_review:
  assumes run: "create_candidate_score env r key db = (Inr s, db')"
    and new: "score_with_key key db = None"
    and fresh: "\<forall>reason. review_with_key (''review:scoring:'' @ cs_id s @ '':'' @ reason) db = None"
  shows "candidate_scores db' = candidate_scores db @ [s] \<and> cs_idempotency_key s = key
    \<and> (if policy_blockers_for_score r = Inr [] \<and> 40 \<le> cs_composite_score s
       then \<exists>c. review_candidates db' = review_candidates db @ [c]
              \<and> rc_idempotency_key c = ''review:scoring:'' @ cs_id s @ '':'' @ rc_reason_code c
              \<and> rc_status c = ''open'' \<and> rc_version c = 1
              \<and> rc_target_type c = csr_target_type r \<and> rc_target_id c = csr_target_id r
              \<and> rc_policy_snapshot c = csr_policy_snapshot r
              \<and> rc_policy_snapshot_hash c = Some (policy_snapshot_hash env (csr_policy_snapshot r))
       else review_candidates db' = review_candidates db)"
proof -
  from create_candidate_score_new [OF run new] obtain preview db2 where
      p: "score_candidate_preview env r = Inr preview"
    and s: "s = score_row env r preview key (env_uuid4 env (uuid_seq db))"
    and cs: "candidate_scores db' = candidate_scores db @ [s]"
    and rc: "review_candidates db2 = review_candidates db"
    and q: "if cso_route preview \<noteq> REJECTED
         then \<exists>review db1. request_score_review env r s preview db2 = (Inr review, db1)
                \<and> review_candidates db' = review_candidates db1
         else review_candidates db' = review_candidates db" .
  have "policy_blockers_for_score r = Inr (cso_policy_blockers preview)"
    and "cso_route preview = route_for_score (cso_composite_score preview) (cso_policy_blockers preview)"
    and hash: "cso_policy_snapshot_hash preview = policy_snapshot_hash env (csr_policy_snapshot r)"
    by (rule preview_Inr [OF p], assumption)+
  then have route: "cso_route preview \<noteq> REJECTED \<longleftrightarrow>
      policy_blockers_for_score r = Inr [] \<and> 40 \<le> cs_composite_score s"
    by (auto simp: s route_for_score_def)
  have "review_with_key (''review:scoring:'' @ cs_id s @ '':'' @ x) db2 = None" for x
    using fresh rc by (simp add: review_with_key_def)
  with q rc have "cso_route preview \<noteq> REJECTED \<Longrightarrow>
      \<exists>i. review_candidates db' = review_candidates db @ [score_review_row env r s preview i]"
    by (auto dest!: request_score_review_new)
  with q cs show ?thesis
    unfolding route [symmetric] hash [symmetric]
    by (cases "cso_route preview = REJECTED") (auto simp: s)
qed

end
