(* ===== verification/Governance.thy ===== *)
theory Governance
  imports Scoring
begin

text \<open>
  Governance (\<open>services/governance/*.py\<close>): suppression rules and their store, the review
  decisions that turn a scored candidate into a CRM target, bulk decisions, decisions on
  security incidents, and the editing of CRM targets.
\<close>

section \<open>Requests\<close>

record SuppressionCreate =
  scr_email :: "string option"
  scr_domain :: "string option"
  scr_contact_id :: "string option"
  scr_channel :: string
  scr_target_type :: "string option"
  scr_target_id :: "string option"
  scr_reason :: string
  scr_source :: string
  scr_active :: bool
  scr_expires_at :: "int option"
  scr_policy_snapshot :: dict

record SuppressionCheckRequest =
  sck_email :: "string option"
  sck_domain :: "string option"
  sck_contact_id :: "string option"
  sck_channel :: string

record SuppressionCheckResult =
  scx_allowed :: bool
  scx_reason :: "string option"

datatype CorroborationMethod = AUTHORITATIVE_DISCLOSURE | INDEPENDENT_SOURCES | ANALYST_DECISION | NO_METHOD

fun method_value :: "CorroborationMethod \<Rightarrow> string" where
  "method_value AUTHORITATIVE_DISCLOSURE = ''authoritative_disclosure''"
| "method_value INDEPENDENT_SOURCES = ''independent_sources''"
| "method_value ANALYST_DECISION = ''analyst_decision''"
| "method_value NO_METHOD = ''none''"

record IncidentDecisionRequest =
  idr_version :: int
  idr_method :: CorroborationMethod
  idr_reason_code :: string
  idr_reason :: "string option"
  idr_evidence_snapshot :: dict
  idr_policy_snapshot :: dict

record ReviewDecisionRequest =
  rdr_version :: int
  rdr_reason_code :: string
  rdr_reason :: "string option"
  rdr_policy_snapshot_hash :: "string option"
  rdr_evidence_snapshot :: dict
  rdr_target_scope :: string

datatype ReviewDecisionAction = APPROVED | REJECT

fun action_value :: "ReviewDecisionAction \<Rightarrow> string" where
  "action_value APPROVED = ''approved''"
| "action_value REJECT = ''rejected''"

record BulkReviewDecisionRequest =
  bdr_candidate_ids :: "string list"
  bdr_decision :: ReviewDecisionAction
  bdr_candidate_versions :: "(string \<times> int) list"
  bdr_reason_code :: string
  bdr_reason :: "string option"
  bdr_policy_snapshot_hash :: "string option"
  bdr_evidence_snapshot :: dict

datatype CrmTargetStatus = PENDING_EXPORT | INVALIDATED | EXPORTED

fun crm_target_status_value :: "CrmTargetStatus \<Rightarrow> string" where
  "crm_target_status_value PENDING_EXPORT = ''pending_export''"
| "crm_target_status_value INVALIDATED = ''invalidated''"
| "crm_target_status_value EXPORTED = ''exported''"

text \<open>A text field of the update is absent from \<open>model_fields_set\<close> (\<open>None\<close>) or set to a value
  or to null.\<close>

record CrmTargetUpdateRequest =
  ctu_name :: "string option option"
  ctu_company :: "string option option"
  ctu_email :: "string option option"
  ctu_status :: "CrmTargetStatus option"
  ctu_export_status :: "string option"

section \<open>Policy\<close>

definition ROLE_BASED_PREFIXES :: "string set" where
  "ROLE_BASED_PREFIXES =
     {''admin'', ''abuse'', ''billing'', ''contact'', ''info'', ''privacy'', ''sales'', ''support''}"

definition SUPPORTED_CHANNELS :: "string set" where
  "SUPPORTED_CHANNELS = {''email'', ''task'', ''call'', ''linkedin''}"

definition CORROBORATION_METHODS :: "string set" where
  "CORROBORATION_METHODS = {''authoritative_disclosure'', ''independent_sources'', ''analyst_decision''}"

definition current_policy_hash :: "env \<Rightarrow> ReviewCandidate \<Rightarrow> string" where
  "current_policy_hash env c =
     str_or (rc_policy_snapshot_hash c) (policy_snapshot_hash env (rc_policy_snapshot c))"

definition review_policy_blockers :: "ReviewCandidate \<Rightarrow> string list" where
  "review_policy_blockers c =
     (let snapshot = rc_policy_snapshot c
      in lineage_blockers (rc_source_definition_id c) (rc_source_item_ids c \<noteq> [])
       @ snapshot_blockers snapshot
       @ (if dict_get snapshot ''stale_evidence'' = JBool True then [''stale_evidence''] else [])
       @ (if rc_origin_type c = Some ''security_incident''
             \<and> lowered snapshot ''incident_status'' \<noteq> ''corroborated''
             \<and> lowered snapshot ''corroboration_method'' \<notin> CORROBORATION_METHODS
          then [''incident_not_corroborated''] else []))"

section \<open>Suppressions\<close>

definition allowed_result :: SuppressionCheckResult where
  "allowed_result = \<lparr>scx_allowed = True, scx_reason = None\<rparr>"

definition blocked_result :: "string \<Rightarrow> SuppressionCheckResult" where
  "blocked_result reason = \<lparr>scx_allowed = False, scx_reason = Some reason\<rparr>"

definition evaluate_suppression :: "SuppressionCheckRequest \<Rightarrow> SuppressionCheckResult" where
  "evaluate_suppression q =
     (let email = str_or (sck_email q) []
      in if email \<noteq> [] \<and> py_lower (before_first (CHR ''@'') email) \<in> ROLE_BASED_PREFIXES
         then blocked_result ''Role-based address requires explicit approval before outreach''
         else if py_lower (sck_channel q) \<notin> SUPPORTED_CHANNELS
         then blocked_result ''Unsupported outreach channel''
         else allowed_result)"

text \<open>The \<open>or_(*matches)\<close> clause of the query: a criterion of the request that is present and
  equals the column.\<close>

definition suppression_matches :: "SuppressionCheckRequest \<Rightarrow> Suppression \<Rightarrow> bool" where
  "suppression_matches q s =
     ((str_or (sck_email q) [] \<noteq> [] \<and> sup_email s = Some (py_lower (str_or (sck_email q) [])))
    \<or> (str_or (sck_domain q) [] \<noteq> [] \<and> sup_domain s = Some (py_lower (str_or (sck_domain q) [])))
    \<or> (str_or (sck_contact_id q) [] \<noteq> [] \<and> sup_contact_id s = Some (str_or (sck_contact_id q) [])))"

definition has_criterion :: "SuppressionCheckRequest \<Rightarrow> bool" where
  "has_criterion q =
     (str_or (sck_email q) [] \<noteq> [] \<or> str_or (sck_domain q) [] \<noteq> [] \<or> str_or (sck_contact_id q) [] \<noteq> [])"

definition suppression_in_force :: "int \<Rightarrow> string \<Rightarrow> Suppression \<Rightarrow> bool" where
  "suppression_in_force now channel s =
     (sup_active s \<and> sup_channel s = channel
      \<and> (case sup_expires_at s of None \<Rightarrow> True | Some t \<Rightarrow> t > now))"

definition stored_suppression :: "env \<Rightarrow> SuppressionCheckRequest \<Rightarrow> db \<Rightarrow> Suppression option" where
  "stored_suppression env q db =
     List.find (\<lambda>s. suppression_in_force (env_now env) (py_lower (sck_channel q)) s
                    \<and> suppression_matches q s) (suppressions db)"

definition evaluate_suppression_with_store ::
  "env \<Rightarrow> SuppressionCheckRequest \<Rightarrow> SuppressionCheckResult op" where
  "evaluate_suppression_with_store env q db =
     (let baseline = evaluate_suppression q
      in if \<not> scx_allowed baseline then (Inr baseline, db)
         else if \<not> has_criterion q then (Inr baseline, db)
         else session_scope env
                (\<lambda>db. (Inr (case stored_suppression env q db of
                              None \<Rightarrow> baseline
                            | Some s \<Rightarrow> blocked_result (sup_reason s)), db)) db)"

definition suppression_with_key :: "string \<Rightarrow> db \<Rightarrow> Suppression option" where
  "suppression_with_key key db = List.find (\<lambda>s. sup_idempotency_key s = Some key) (suppressions db)"

definition suppression_to_api :: "Suppression \<Rightarrow> dict" where
  "suppression_to_api s =
     [(''id'', JStr (sup_id s)), (''email'', opt_str (sup_email s)), (''domain'', opt_str (sup_domain s)),
      (''contact_id'', opt_str (sup_contact_id s)), (''channel'', JStr (sup_channel s)),
      (''target_type'', opt_str (sup_target_type s)), (''target_id'', opt_str (sup_target_id s)),
      (''reason'', JStr (sup_reason s)), (''source'', JStr (sup_source s)),
      (''active'', JBool (sup_active s)), (''expires_at'', opt_time (sup_expires_at s)),
      (''policy_snapshot'', JObj (sup_policy_snapshot s)), (''created_at'', JTime (sup_created_at s))]"

definition lower_or_none :: "string option \<Rightarrow> string option" where
  "lower_or_none x = (case x of Some s \<Rightarrow> if s = [] then None else Some (py_lower s) | None \<Rightarrow> None)"

definition suppression_row :: "env \<Rightarrow> SuppressionCreate \<Rightarrow> string \<Rightarrow> string \<Rightarrow> Suppression" where
  "suppression_row env q key row_id =
     \<lparr>sup_id = row_id, sup_email = lower_or_none (scr_email q), sup_domain = lower_or_none (scr_domain q),
      sup_contact_id = scr_contact_id q, sup_channel = py_lower (scr_channel q),
      sup_target_type = scr_target_type q, sup_target_id = scr_target_id q,
      sup_reason = scr_reason q, sup_source = scr_source q, sup_active = scr_active q,
      sup_expires_at = scr_expires_at q, sup_policy_snapshot = scr_policy_snapshot q,
      sup_idempotency_key = Some key, sup_created_at = env_now env\<rparr>"

definition create_suppression_body :: "env \<Rightarrow> SuppressionCreate \<times> string \<Rightarrow> string \<Rightarrow> Suppression op" where
  "create_suppression_body env q key db =
     (case suppression_with_key key db of
        Some existing \<Rightarrow> (Inr existing, db)
      | None \<Rightarrow>
          (let (row_id, db1) = draw_uuid env db;
               s = suppression_row env (fst q) key row_id
           in case flush env (add_suppression s db1) of
                Inl e \<Rightarrow> (Inl e, db1)
              | Inr db2 \<Rightarrow>
                  (let db3 = audit env (snd q) ''suppression.created'' ''suppression'' (sup_id s)
                               (''audit:'' @ key) (suppression_to_api s) db2
                   in (Inr s, emit env SUPPRESSION_CREATED ''suppression'' (sup_id s)
                               ''governance-service'' (suppression_to_api s)
                               (''suppression.created:'' @ sup_id s) None [] db3))))"

text \<open>The operations that take an idempotency key also take the acting user; the two parts of
  the call that the key does not identify are the pair of the request and the actor.\<close>

definition create_suppression :: "env \<Rightarrow> SuppressionCreate \<times> string \<Rightarrow> string \<Rightarrow> Suppression op" where
  "create_suppression env q key = session_scope env (create_suppression_body env q key)"

section \<open>Review decisions\<close>

definition review_decision_to_api :: "ReviewDecision \<Rightarrow> dict" where
  "review_decision_to_api d =
     [(''id'', JStr (rd_id d)), (''review_candidate_id'', opt_str (rd_review_candidate_id d)),
      (''target_type'', JStr (rd_target_type d)), (''target_id'', JStr (rd_target_id d)),
      (''decision'', JStr (rd_decision d)), (''actor'', JStr (rd_actor d)),
      (''reason_code'', JStr (rd_reason_code d)), (''reason'', opt_str (rd_reason d)),
      (''policy_snapshot_hash'', opt_str (rd_policy_snapshot_hash d)),
      (''created_at'', JTime (rd_created_at d))]"

definition decision_row ::
  "env \<Rightarrow> string option \<Rightarrow> string \<Rightarrow> string \<Rightarrow> string \<Rightarrow> string \<Rightarrow> string \<Rightarrow> string option \<Rightarrow> dict \<Rightarrow> dict
     \<Rightarrow> string \<Rightarrow> string \<Rightarrow> ReviewDecision" where
  "decision_row env candidate_id target_type target_id decision actor reason_code reason evidence
       policy key row_id =
     \<lparr>rd_id = row_id, rd_review_candidate_id = candidate_id, rd_target_type = target_type,
      rd_target_id = target_id, rd_decision = decision, rd_actor = actor,
      rd_reason_code = reason_code, rd_reason = reason,
      rd_evidence_snapshot = json_safe_dict evidence, rd_policy_snapshot = json_safe_dict policy,
      rd_policy_snapshot_hash = Some (policy_snapshot_hash env policy),
      rd_idempotency_key = key, rd_created_at = env_now env\<rparr>"

definition create_decision ::
  "env \<Rightarrow> string option \<Rightarrow> string \<Rightarrow> string \<Rightarrow> string \<Rightarrow> string \<Rightarrow> string \<Rightarrow> string option \<Rightarrow> dict \<Rightarrow> dict
     \<Rightarrow> string \<Rightarrow> db \<Rightarrow> ReviewDecision \<times> db" where
  "create_decision env candidate_id target_type target_id decision actor reason_code reason evidence
       policy key db =
     (let (row_id, db1) = draw_uuid env db;
          d = decision_row env candidate_id target_type target_id decision actor reason_code reason
                evidence policy key row_id
      in (d, add_review_decision d db1))"

definition existing_decision :: "string \<Rightarrow> db \<Rightarrow> ReviewDecision option" where
  "existing_decision key db = List.find (\<lambda>d. rd_idempotency_key d = key) (review_decisions db)"

definition validate_candidate_decision ::
  "env \<Rightarrow> ReviewCandidate \<Rightarrow> ReviewDecisionRequest \<Rightarrow> error option" where
  "validate_candidate_decision env c q =
     (if rc_status c \<noteq> ''open'' then Some (ValueError ''review candidate is not open'')
      else if rc_version c \<noteq> rdr_version q then Some (ValueError ''stale optimistic version'')
      else if str_or (rdr_policy_snapshot_hash q) [] \<noteq> []
              \<and> str_or (rdr_policy_snapshot_hash q) [] \<noteq> current_policy_hash env c
      then Some (ValueError ''policy snapshot hash mismatch'')
      else None)"

definition decide_candidate :: "env \<Rightarrow> string \<Rightarrow> ReviewCandidate \<Rightarrow> ReviewCandidate" where
  "decide_candidate env status c =
     c\<lparr>rc_status := status, rc_version := rc_version c + 1, rc_updated_at := env_now env\<rparr>"

section \<open>CRM targets\<close>

definition crm_target_to_api :: "CrmTarget \<Rightarrow> dict" where
  "crm_target_to_api t =
     (let approval = tgt_approval_snapshot t; policy = tgt_policy_snapshot t
      in [(''id'', JStr (tgt_id t)), (''review_candidate_id'', opt_str (tgt_review_candidate_id t)),
          (''review_decision_id'', opt_str (tgt_review_decision_id t)),
          (''target_type'', JStr (tgt_target_type t)), (''target_id'', JStr (tgt_target_id t)),
          (''display_name'', py_or (dict_get approval ''name'') (dict_get policy ''name'')),
          (''company_name'', py_or (dict_get approval ''company'') (dict_get policy ''company'')),
          (''email'', py_or (dict_get approval ''email'') (dict_get policy ''email'')),
          (''origin_type'', opt_str (tgt_origin_type t)), (''origin_id'', opt_str (tgt_origin_id t)),
          (''source_definition_id'', opt_str (tgt_source_definition_id t)),
          (''source_item_ids'', JArr (tgt_source_item_ids t)), (''status'', JStr (tgt_status t)),
          (''export_status'', JStr (tgt_export_status t)), (''policy_snapshot'', JObj policy),
          (''approval_snapshot'', JObj approval), (''version'', JInt (tgt_version t)),
          (''created_at'', JTime (tgt_created_at t)), (''updated_at'', JTime (tgt_updated_at t))])"

definition crm_target_row ::
  "env \<Rightarrow> ReviewCandidate \<Rightarrow> ReviewDecision \<Rightarrow> string \<Rightarrow> CrmTarget" where
  "crm_target_row env c d row_id =
     \<lparr>tgt_id = row_id, tgt_review_candidate_id = Some (rc_id c), tgt_review_decision_id = Some (rd_id d),
      tgt_target_type = rc_target_type c, tgt_target_id = rc_target_id c,
      tgt_origin_type = rc_origin_type c, tgt_origin_id = rc_origin_id c,
      tgt_source_definition_id = rc_source_definition_id c, tgt_source_item_ids = rc_source_item_ids c,
      tgt_status = ''pending_export'', tgt_export_status = ''not_exported'',
      tgt_policy_snapshot = json_safe_dict (rc_policy_snapshot c),
      tgt_approval_snapshot =
        [(''review_decision_id'', JStr (rd_id d)), (''approved_by'', JStr (rd_actor d)),
         (''reason_code'', JStr (rd_reason_code d)),
         (''approved_at'', JStr (isoformat (rd_created_at d)))],
      tgt_idempotency_key = ''crm-target:'' @ rd_id d, tgt_version = 1,
      tgt_created_at = env_now env, tgt_updated_at = env_now env\<rparr>"

definition create_crm_target ::
  "env \<Rightarrow> ReviewCandidate \<Rightarrow> ReviewDecision \<Rightarrow> db \<Rightarrow> CrmTarget \<times> db" where
  "create_crm_target env c d db =
     (let (row_id, db1) = draw_uuid env db;
          t = crm_target_row env c d row_id
      in (t, add_crm_target t db1))"

definition set_or_remove :: "string \<Rightarrow> string option \<Rightarrow> dict \<Rightarrow> dict" where
  "set_or_remove k v d = (if v = None \<or> v = Some [] then dict_pop k d else dict_set k (opt_str v) d)"

definition edit_field :: "string \<Rightarrow> string option option \<Rightarrow> dict \<Rightarrow> dict" where
  "edit_field k v d = (case v of None \<Rightarrow> d | Some x \<Rightarrow> set_or_remove k x d)"

definition edit_fields :: "CrmTargetUpdateRequest \<Rightarrow> dict \<Rightarrow> dict" where
  "edit_fields q d =
     edit_field ''email'' (ctu_email q) (edit_field ''company'' (ctu_company q) (edit_field ''name'' (ctu_name q) d))"

definition updated_target :: "env \<Rightarrow> CrmTargetUpdateRequest \<Rightarrow> string \<Rightarrow> CrmTarget \<Rightarrow> CrmTarget" where
  "updated_target env q actor t =
     t\<lparr>tgt_status := (case ctu_status q of None \<Rightarrow> tgt_status t | Some s \<Rightarrow> crm_target_status_value s),
       tgt_export_status := (case ctu_export_status q of None \<Rightarrow> tgt_export_status t | Some s \<Rightarrow> s),
       tgt_approval_snapshot :=
         dict_set ''updated_at'' (JStr (isoformat (env_now env)))
           (dict_set ''updated_by'' (JStr actor) (edit_fields q (tgt_approval_snapshot t))),
       tgt_policy_snapshot := edit_fields q (tgt_policy_snapshot t),
       tgt_version := tgt_version t + 1, tgt_updated_at := env_now env\<rparr>"

definition update_crm_target_body ::
  "env \<Rightarrow> string \<Rightarrow> CrmTargetUpdateRequest \<Rightarrow> string \<Rightarrow> CrmTarget option op" where
  "update_crm_target_body env target_id q actor db =
     (case get_crm_target target_id db of
        None \<Rightarrow> (Inr None, db)
      | Some t \<Rightarrow>
          (let t' = updated_target env q actor t;
               db1 = audit env actor ''crm_target.updated'' ''crm_target'' (tgt_id t')
                       (''crm-target.update:'' @ tgt_id t' @ '':'' @ show_int (tgt_version t'))
                       (crm_target_to_api t') (put_crm_target t' db)
           in case flush env db1 of
                Inl e \<Rightarrow> (Inl e, db1)
              | Inr db2 \<Rightarrow> (Inr (Some t'), db2)))"

definition update_crm_target ::
  "env \<Rightarrow> string \<Rightarrow> CrmTargetUpdateRequest \<Rightarrow> string \<Rightarrow> CrmTarget option op" where
  "update_crm_target env target_id q actor = session_scope env (update_crm_target_body env target_id q actor)"

text \<open>\<open>order_by(created_at.desc()).limit(n)\<close>; rows of the same instant in insertion order.\<close>

definition list_crm_targets ::
  "env \<Rightarrow> string option \<Rightarrow> string option \<Rightarrow> nat \<Rightarrow> CrmTarget list op" where
  "list_crm_targets env status target_type limit =
     session_scope env (\<lambda>db.
       (Inr (take limit (sort_key (\<lambda>t. - tgt_created_at t)
               (filter (\<lambda>t. (str_or status [] = [] \<or> tgt_status t = str_or status [])
                          \<and> (str_or target_type [] = [] \<or> tgt_target_type t = str_or target_type []))
                 (crm_targets db)))), db))"

section \<open>Approving and rejecting\<close>

definition decision_evidence :: "ReviewDecisionRequest \<Rightarrow> ReviewCandidate \<Rightarrow> dict" where
  "decision_evidence q c =
     (if rdr_evidence_snapshot q \<noteq> [] then rdr_evidence_snapshot q else rc_evidence_summary c)"

definition item_texts :: "json list \<Rightarrow> string list" where
  "item_texts items = map py_str items"

definition approve_review_candidate_in_session ::
  "env \<Rightarrow> ReviewCandidate \<Rightarrow> ReviewDecisionRequest \<Rightarrow> string \<Rightarrow> string \<Rightarrow> ReviewDecision op" where
  "approve_review_candidate_in_session env c q actor key db =
     (case validate_candidate_decision env c q of
        Some e \<Rightarrow> (Inl e, db)
      | None \<Rightarrow>
          if review_policy_blockers c \<noteq> []
          then (Inl (ValueError (''policy blockers: '' @ join '', '' (review_policy_blockers c))), db)
          else
            (let (d, db1) = create_decision env (Some (rc_id c)) (rc_target_type c) (rc_target_id c)
                   ''approved'' actor (rdr_reason_code q) (rdr_reason q) (decision_evidence q c)
                   (rc_policy_snapshot c) key db;
                 c' = decide_candidate env ''approved'' c
             in case flush env (put_review_candidate c' db1) of
                  Inl e \<Rightarrow> (Inl e, db1)
                | Inr db2 \<Rightarrow>
                    (let db3 = audit env actor ''review.approved'' ''review_candidate'' (rc_id c')
                           (''audit:'' @ key) (review_decision_to_api d) db2;
                         db4 = emit env REVIEW_APPROVED ''review_candidate'' (rc_id c')
                           ''governance-service'' (review_decision_to_api d)
                           (''review.approved:'' @ rd_id d) (rc_source_definition_id c')
                           (item_texts (rc_source_item_ids c')) db3;
                         (t, db5) = create_crm_target env c' d db4
                     in case flush env db5 of
                          Inl e \<Rightarrow> (Inl e, db5)
                        | Inr db6 \<Rightarrow>
                            (Inr d, emit env CRM_TARGET_CREATED ''crm_target'' (tgt_id t)
                               ''governance-service'' (crm_target_to_api t)
                               (''crm_target.created:'' @ tgt_id t) (rc_source_definition_id c')
                               (item_texts (rc_source_item_ids c')) db6))))"

definition reject_review_candidate_in_session ::
  "env \<Rightarrow> ReviewCandidate \<Rightarrow> ReviewDecisionRequest \<Rightarrow> string \<Rightarrow> string \<Rightarrow> ReviewDecision op" where
  "reject_review_candidate_in_session env c q actor key db =
     (case validate_candidate_decision env c q of
        Some e \<Rightarrow> (Inl e, db)
      | None \<Rightarrow>
          (let (d, db1) = create_decision env (Some (rc_id c)) (rc_target_type c) (rc_target_id c)
                 ''rejected'' actor (rdr_reason_code q) (rdr_reason q) (decision_evidence q c)
                 (rc_policy_snapshot c) key db;
               c' = decide_candidate env ''rejected'' c
           in case flush env (put_review_candidate c' db1) of
                Inl e \<Rightarrow> (Inl e, db1)
              | Inr db2 \<Rightarrow>
                  (let db3 = audit env actor ''review.rejected'' ''review_candidate'' (rc_id c')
                         (''audit:'' @ key) (review_decision_to_api d) db2
                   in (Inr d, emit env REVIEW_REJECTED ''review_candidate'' (rc_id c')
                         ''governance-service'' (review_decision_to_api d)
                         (''review.rejected:'' @ rd_id d) (rc_source_definition_id c')
                         (item_texts (rc_source_item_ids c')) db3))))"

definition decide_in_session ::
  "ReviewDecisionAction \<Rightarrow> env \<Rightarrow> ReviewCandidate \<Rightarrow> ReviewDecisionRequest \<Rightarrow> string \<Rightarrow> string
     \<Rightarrow> ReviewDecision op" where
  "decide_in_session action =
     (if action = APPROVED then approve_review_candidate_in_session
      else reject_review_candidate_in_session)"

text \<open>\<open>approve_review_candidate\<close> and \<open>reject_review_candidate\<close>: the same body around the
  two decisions.\<close>

record decision_call =
  dcl_candidate_id :: string
  dcl_request :: ReviewDecisionRequest
  dcl_actor :: string

definition decide_candidate_body ::
  "ReviewDecisionAction \<Rightarrow> env \<Rightarrow> decision_call \<Rightarrow> string \<Rightarrow> ReviewDecision option op" where
  "decide_candidate_body action env q key db =
     (case existing_decision key db of
        Some d \<Rightarrow> (Inr (Some d), db)
      | None \<Rightarrow>
          (case get_review_candidate (dcl_candidate_id q) db of
             None \<Rightarrow> (Inr None, db)
           | Some c \<Rightarrow>
               (case decide_in_session action env c (dcl_request q) (dcl_actor q) key db of
                  (Inl e, db') \<Rightarrow> (Inl e, db')
                | (Inr d, db') \<Rightarrow> (Inr (Some d), db'))))"

definition approve_review_candidate :: "env \<Rightarrow> decision_call \<Rightarrow> string \<Rightarrow> ReviewDecision option op" where
  "approve_review_candidate env q key = session_scope env (decide_candidate_body APPROVED env q key)"

definition reject_review_candidate :: "env \<Rightarrow> decision_call \<Rightarrow> string \<Rightarrow> ReviewDecision option op" where
  "reject_review_candidate env q key = session_scope env (decide_candidate_body REJECT env q key)"

section \<open>Bulk decisions\<close>

fun bulk_loop ::
  "env \<Rightarrow> BulkReviewDecisionRequest \<Rightarrow> string \<Rightarrow> string \<Rightarrow> ReviewCandidate list \<Rightarrow> ReviewDecision list op" where
  "bulk_loop env q actor key [] db = (Inr [], db)"
| "bulk_loop env q actor key (c # cs) db =
     (case map_of (bdr_candidate_versions q) (rc_id c) of
        None \<Rightarrow> (Inl (ValueError ''bulk decision missing candidate version''), db)
      | Some version \<Rightarrow>
          (let request = \<lparr>rdr_version = version, rdr_reason_code = bdr_reason_code q,
                 rdr_reason = bdr_reason q, rdr_policy_snapshot_hash = bdr_policy_snapshot_hash q,
                 rdr_evidence_snapshot = bdr_evidence_snapshot q, rdr_target_scope = ''crm_export''\<rparr>;
               child_key = key @ '':'' @ rc_id c
           in case existing_decision child_key db of
                Some d \<Rightarrow>
                  (case bulk_loop env q actor key cs db of
                     (Inl e, db') \<Rightarrow> (Inl e, db')
                   | (Inr ds, db') \<Rightarrow> (Inr (d # ds), db'))
              | None \<Rightarrow>
                  (case decide_in_session (bdr_decision q) env c request actor child_key db of
                     (Inl e, db1) \<Rightarrow> (Inl e, db1)
                   | (Inr d, db1) \<Rightarrow>
                       (case bulk_loop env q actor key cs db1 of
                          (Inl e, db') \<Rightarrow> (Inl e, db')
                        | (Inr ds, db') \<Rightarrow> (Inr (d # ds), db')))))"

definition bulk_candidates :: "BulkReviewDecisionRequest \<Rightarrow> db \<Rightarrow> ReviewCandidate list" where
  "bulk_candidates q db = filter (\<lambda>c. rc_id c \<in> set (bdr_candidate_ids q)) (review_candidates db)"

definition bulk_check :: "env \<Rightarrow> BulkReviewDecisionRequest \<Rightarrow> ReviewCandidate list \<Rightarrow> error option" where
  "bulk_check env q cs =
     (let hashes = remdups (map (current_policy_hash env) cs)
      in if length cs \<noteq> length (remdups (bdr_candidate_ids q))
         then Some (ValueError ''bulk decision includes unknown review candidate'')
         else if length (remdups (map rc_candidate_type cs)) \<noteq> 1
         then Some (ValueError ''bulk decision requires one candidate type'')
         else if list_ex (\<lambda>c. rc_status c \<noteq> ''open'') cs
         then Some (ValueError ''bulk decision only supports open candidates'')
         else if length hashes \<noteq> 1
         then Some (ValueError ''bulk decision requires one policy snapshot hash'')
         else if str_or (bdr_policy_snapshot_hash q) [] \<noteq> []
                 \<and> hashes \<noteq> [str_or (bdr_policy_snapshot_hash q) []]
         then Some (ValueError ''bulk decision policy snapshot hash mismatch'')
         else None)"

definition bulk_decide_body ::
  "env \<Rightarrow> BulkReviewDecisionRequest \<Rightarrow> string \<Rightarrow> string \<Rightarrow> ReviewDecision list op" where
  "bulk_decide_body env q actor key db =
     (let cs = bulk_candidates q db
      in case bulk_check env q cs of
           Some e \<Rightarrow> (Inl e, db)
         | None \<Rightarrow> bulk_loop env q actor key cs db)"

definition bulk_decide_review_candidates ::
  "env \<Rightarrow> BulkReviewDecisionRequest \<Rightarrow> string \<Rightarrow> string \<Rightarrow> ReviewDecision list op" where
  "bulk_decide_review_candidates env q actor key = session_scope env (bulk_decide_body env q actor key)"

section \<open>Incident decisions\<close>

record incident_call =
  icl_incident_id :: string
  icl_request :: IncidentDecisionRequest
  icl_actor :: string

text \<open>The common frame of the three incident operations: replay, load, version check.\<close>

definition incident_session ::
  "(SecurityIncident \<Rightarrow> db \<Rightarrow> (error + ReviewDecision) \<times> db) \<Rightarrow> incident_call \<Rightarrow> string
     \<Rightarrow> ReviewDecision option op" where
  "incident_session act q key db =
     (case existing_decision key db of
        Some d \<Rightarrow> (Inr (Some d), db)
      | None \<Rightarrow>
          (case get_incident (icl_incident_id q) db of
             None \<Rightarrow> (Inr None, db)
           | Some i \<Rightarrow>
               if inc_version i \<noteq> idr_version (icl_request q)
               then (Inl (ValueError ''stale optimistic version''), db)
               else (case act i db of
                       (Inl e, db') \<Rightarrow> (Inl e, db')
                     | (Inr d, db') \<Rightarrow> (Inr (Some d), db'))))"

definition incident_decision ::
  "env \<Rightarrow> incident_call \<Rightarrow> string \<Rightarrow> string \<Rightarrow> SecurityIncident \<Rightarrow> db \<Rightarrow> ReviewDecision \<times> db" where
  "incident_decision env q key decision i db =
     (let r = icl_request q
      in create_decision env None ''security_incident'' (inc_id i) decision (icl_actor q)
           (idr_reason_code r) (idr_reason r) (idr_evidence_snapshot r) (idr_policy_snapshot r) key db)"

definition method_check :: "IncidentDecisionRequest \<Rightarrow> error option" where
  "method_check r =
     (if method_value (idr_method r) \<notin> CORROBORATION_METHODS
      then Some (ValueError ''unsupported incident corroboration method'')
      else if idr_method r = INDEPENDENT_SOURCES
      then (case py_int (py_or (dict_get (idr_evidence_snapshot r) ''independent_source_count'') (JInt 0)) of
              Inl e \<Rightarrow> Some e
            | Inr n \<Rightarrow>
                if n < 2
                then Some (ValueError ''independent-source corroboration requires at least two sources'')
                else None)
      else None)"

definition set_incident ::
  "env \<Rightarrow> string \<Rightarrow> string \<Rightarrow> SecurityIncident \<Rightarrow> SecurityIncident" where
  "set_incident env status method i =
     i\<lparr>inc_status := status, inc_corroboration_method := method,
       inc_version := inc_version i + 1, inc_updated_at := env_now env\<rparr>"

definition corroborate_act ::
  "env \<Rightarrow> incident_call \<Rightarrow> string \<Rightarrow> SecurityIncident \<Rightarrow> ReviewDecision op" where
  "corroborate_act env q key i db =
     (case method_check (icl_request q) of
        Some e \<Rightarrow> (Inl e, db)
      | None \<Rightarrow>
          (let i1 = set_incident env ''corroborated'' (method_value (idr_method (icl_request q))) i;
               (d, db1) = incident_decision env q key ''approved'' i1 (put_incident i1 db)
           in case flush env db1 of
                Inl e \<Rightarrow> (Inl e, db1)
              | Inr db2 \<Rightarrow>
                  (let i2 = i1\<lparr>inc_analyst_decision_ref := Some (rd_id d)\<rparr>;
                       db3 = audit env (icl_actor q) ''security_incident.corroborated''
                         ''security_incident'' (inc_id i2) (''audit:'' @ key)
                         (review_decision_to_api d) (put_incident i2 db2)
                   in (Inr d, emit env SECURITY_INCIDENT_CORROBORATED ''security_incident'' (inc_id i2)
                         ''governance-service''
                         [(''incident_id'', JStr (inc_id i2)),
                          (''method'', JStr (inc_corroboration_method i2)),
                          (''review_decision_id'', JStr (rd_id d))]
                         (''security_incident.corroborated:'' @ rd_id d) None [] db3))))"

definition reject_act ::
  "env \<Rightarrow> incident_call \<Rightarrow> string \<Rightarrow> SecurityIncident \<Rightarrow> ReviewDecision op" where
  "reject_act env q key i db =
     (let i1 = set_incident env ''rejected'' (inc_corroboration_method i) i;
          (d, db1) = incident_decision env q key ''rejected'' i1 (put_incident i1 db)
      in case flush env db1 of
           Inl e \<Rightarrow> (Inl e, db1)
         | Inr db2 \<Rightarrow>
             (let db3 = audit env (icl_actor q) ''security_incident.rejected'' ''security_incident''
                    (inc_id i1) (''audit:'' @ key) (review_decision_to_api d) db2
              in (Inr d, emit env REVIEW_REJECTED ''security_incident'' (inc_id i1)
                    ''governance-service'' (review_decision_to_api d)
                    (''review.rejected:'' @ rd_id d) None [] db3)))"

definition revert_act ::
  "env \<Rightarrow> incident_call \<Rightarrow> string \<Rightarrow> SecurityIncident \<Rightarrow> ReviewDecision op" where
  "revert_act env q key i db =
     (if inc_status i \<noteq> ''corroborated''
      then (Inl (ValueError ''only corroborated incidents can be reverted''), db)
      else
        (let i1 = set_incident env ''candidate'' ''none'' i;
             (d, db1) = incident_decision env q key ''rejected'' i1 (put_incident i1 db)
         in case flush env db1 of
              Inl e \<Rightarrow> (Inl e, db1)
            | Inr db2 \<Rightarrow>
                (let i2 = i1\<lparr>inc_analyst_decision_ref := Some (rd_id d)\<rparr>;
                     db3 = audit env (icl_actor q) ''security_incident.reverted'' ''security_incident''
                       (inc_id i2) (''audit:'' @ key) (review_decision_to_api d) (put_incident i2 db2)
                 in (Inr d, emit env REVIEW_REJECTED ''security_incident'' (inc_id i2)
                       ''governance-service''
                       (review_decision_to_api d @ [(''reverted_from'', JStr ''corroborated'')])
                       (''security_incident.reverted:'' @ rd_id d) None [] db3))))"

definition corroborate_incident :: "env \<Rightarrow> incident_call \<Rightarrow> string \<Rightarrow> ReviewDecision option op" where
  "corroborate_incident env q key =
     session_scope env (incident_session (corroborate_act env q key) q key)"

definition reject_incident :: "env \<Rightarrow> incident_call \<Rightarrow> string \<Rightarrow> ReviewDecision option op" where
  "reject_incident env q key = session_scope env (incident_session (reject_act env q key) q key)"

definition revert_incident :: "env \<Rightarrow> incident_call \<Rightarrow> string \<Rightarrow> ReviewDecision option op" where
  "revert_incident env q key = session_scope env (incident_session (revert_act env q key) q key)"

section \<open>What a decision does to the store\<close>

lemma decision_row_fields [simp]:
  "rd_id (decision_row env ci tt ti d a rc r ev p k i) = i"
  "rd_idempotency_key (decision_row env ci tt ti d a rc r ev p k i) = k"
  "rd_decision (decision_row env ci tt ti d a rc r ev p k i) = d"
  "rd_target_type (decision_row env ci tt ti d a rc r ev p k i) = tt"
  "rd_target_id (decision_row env ci tt ti d a rc r ev p k i) = ti"
  "rd_review_candidate_id (decision_row env ci tt ti d a rc r ev p k i) = ci"
  "rd_actor (decision_row env ci tt ti d a rc r ev p k i) = a"
  by (simp_all add: decision_row_def)

lemma crm_target_row_fields [simp]:
  "tgt_id (crm_target_row env c d i) = i"
  "tgt_review_candidate_id (crm_target_row env c d i) = Some (rc_id c)"
  "tgt_review_decision_id (crm_target_row env c d i) = Some (rd_id d)"
  "tgt_target_type (crm_target_row env c d i) = rc_target_type c"
  "tgt_target_id (crm_target_row env c d i) = rc_target_id c"
  "tgt_status (crm_target_row env c d i) = ''pending_export''"
  "tgt_export_status (crm_target_row env c d i) = ''not_exported''"
  by (simp_all add: crm_target_row_def)

lemma decide_candidate_fields [simp]:
  "rc_id (decide_candidate env s c) = rc_id c"
  "rc_status (decide_candidate env s c) = s"
  "rc_version (decide_candidate env s c) = rc_version c + 1"
  "rc_target_type (decide_candidate env s c) = rc_target_type c"
  "rc_target_id (decide_candidate env s c) = rc_target_id c"
  by (simp_all add: decide_candidate_def)

lemmas decision_defs = create_decision_def create_crm_target_def draw_uuid_def Let_def
  add_review_decision_def add_crm_target_def put_review_candidate_def put_incident_def

lemma approve_in_session_Inr:
  assumes "approve_review_candidate_in_session env c q actor key db = (Inr d, db')"
  shows "validate_candidate_decision env c q = None" and "review_policy_blockers c = []"
    and "rd_decision d = ''approved''" and "rd_idempotency_key d = key"
    and "rd_review_candidate_id d = Some (rc_id c)" and "rd_actor d = actor"
    and "rd_target_type d = rc_target_type c" and "rd_target_id d = rc_target_id c"
    and "review_decisions db' = review_decisions db @ [d]"
    and "review_candidates db' = row_put rc_id (decide_candidate env ''approved'' c) (review_candidates db)"
    and "\<exists>i. crm_targets db' = crm_targets db @ [crm_target_row env (decide_candidate env ''approved'' c) d i]"
    and "suppressions db' = suppressions db" and "security_incidents db' = security_incidents db"
  using assms
  by (auto simp: approve_review_candidate_in_session_def decision_defs dest!: flush_written
      split: option.splits if_splits sum.splits)

lemma reject_in_session_Inr:
  assumes "reject_review_candidate_in_session env c q actor key db = (Inr d, db')"
  shows "validate_candidate_decision env c q = None"
    and "rd_decision d = ''rejected''" and "rd_idempotency_key d = key"
    and "rd_review_candidate_id d = Some (rc_id c)" and "rd_actor d = actor"
    and "rd_target_type d = rc_target_type c" and "rd_target_id d = rc_target_id c"
    and "review_decisions db' = review_decisions db @ [d]"
    and "review_candidates db' = row_put rc_id (decide_candidate env ''rejected'' c) (review_candidates db)"
    and "crm_targets db' = crm_targets db"
    and "suppressions db' = suppressions db" and "security_incidents db' = security_incidents db"
  using assms
  by (auto simp: reject_review_candidate_in_session_def decision_defs dest!: flush_written
      split: option.splits if_splits sum.splits)

lemma decide_in_session_Inr:
  assumes "decide_in_session action env c q actor key db = (Inr d, db')"
  shows "validate_candidate_decision env c q = None"
    and "action = APPROVED \<Longrightarrow> review_policy_blockers c = []"
    and "rd_decision d = action_value action" and "rd_idempotency_key d = key"
    and "rd_review_candidate_id d = Some (rc_id c)" and "rd_actor d = actor"
    and "rd_target_type d = rc_target_type c" and "rd_target_id d = rc_target_id c"
    and "review_decisions db' = review_decisions db @ [d]"
    and "review_candidates db' = row_put rc_id (decide_candidate env (action_value action) c) (review_candidates db)"
    and "action = APPROVED \<Longrightarrow>
      \<exists>i. crm_targets db' = crm_targets db @ [crm_target_row env (decide_candidate env ''approved'' c) d i]"
    and "action = REJECT \<Longrightarrow> crm_targets db' = crm_targets db"
  using assms approve_in_session_Inr [of env c q actor key db d db']
    reject_in_session_Inr [of env c q actor key db d db']
  by (cases action; simp add: decide_in_session_def)+

lemma validate_None:
  "validate_candidate_decision env c q = None \<Longrightarrow> rc_status c = ''open'' \<and> rc_version c = rdr_version q"
  by (simp add: validate_candidate_decision_def split: if_splits)

lemma get_review_candidate_frame [simp]:
  "get_review_candidate k (begin_session db) = get_review_candidate k db"
  "get_review_candidate k (end_session db0 db) = get_review_candidate k db"
  "get_review_candidate k (written env db) = get_review_candidate k db"
  by (simp_all add: get_review_candidate_def)

lemma existing_decision_frame [simp]:
  "existing_decision k (begin_session db) = existing_decision k db"
  "existing_decision k (end_session db0 db) = existing_decision k db"
  "existing_decision k (written env db) = existing_decision k db"
  by (simp_all add: existing_decision_def)

lemma decide_candidate_body_new:
  assumes "decide_candidate_body action env q key db = (Inr r, db')" and "existing_decision key db = None"
  shows "(get_review_candidate (dcl_candidate_id q) db = None \<and> r = None \<and> db' = db)
    \<or> (\<exists>c d. get_review_candidate (dcl_candidate_id q) db = Some c \<and> r = Some d
         \<and> decide_in_session action env c (dcl_request q) (dcl_actor q) key db = (Inr d, db'))"
  using assms by (auto simp: decide_candidate_body_def split: option.splits prod.splits sum.splits)

lemma decide_idempotent:
  assumes "\<And>env q key. run env q key = session_scope env (decide_candidate_body action env q key)"
  shows "idempotent_op run (\<lambda>key db. map_option Some (existing_decision key db))"
proof (rule idempotent_session [OF assms])
  fix env q key db r
  assume "map_option Some (existing_decision key db) = Some r"
  then show "decide_candidate_body action env q key (begin_session db) = (Inr r, begin_session db)"
    by (auto simp: decide_candidate_body_def)
next
  fix env q key db r db1
  assume none: "map_option Some (existing_decision key db) = None"
    and run: "decide_candidate_body action env q key (begin_session db) = (Inr r, db1)"
    and changed: "end_session db (written env db1) \<noteq> db"
  from none have "existing_decision key (begin_session db) = None" by simp
  from decide_candidate_body_new [OF run this] changed obtain c d where "r = Some d"
      and "decide_in_session action env c (dcl_request q) (dcl_actor q) key (begin_session db) = (Inr d, db1)"
    by auto
  with decide_in_session_Inr(4,9) [OF this(2)] none
  show "map_option Some (existing_decision key (end_session db (written env db1))) = Some r"
    by (simp add: existing_decision_def)
qed

interpretation approve: idempotent_op approve_review_candidate
  "\<lambda>key db. map_option Some (existing_decision key db)"
  by (rule decide_idempotent [OF approve_review_candidate_def])

interpretation reject: idempotent_op reject_review_candidate
  "\<lambda>key db. map_option Some (existing_decision key db)"
  by (rule decide_idempotent [OF reject_review_candidate_def])

text \<open>A decision that was made: the candidate was open at the version the reviewer saw.\<close>

lemma session_decide_new:
  assumes "session_scope env (decide_candidate_body action env q key) db = (Inr (Some d), db')"
    and "existing_decision key db = None"
  obtains c db1 where "get_review_candidate (dcl_candidate_id q) db = Some c"
    and "decide_in_session action env c (dcl_request q) (dcl_actor q) key (begin_session db) = (Inr d, db1)"
    and "review_decisions db' = review_decisions db1" "review_candidates db' = review_candidates db1"
      "crm_targets db' = crm_targets db1"
proof -
  from assms(1) obtain db1 where run: "decide_candidate_body action env q key (begin_session db) = (Inr (Some d), db1)"
      and db': "db' = end_session db (written env db1)"
    by (auto elim!: session_scope_ok dest!: flush_written)
  from assms(2) have "existing_decision key (begin_session db) = None" by simp
  from decide_candidate_body_new [OF run this] show thesis
    by (auto simp: db' intro: that)
qed

lemma get_put_decided:
  assumes "get_review_candidate k db = Some c"
    and "review_candidates db' = row_put rc_id (decide_candidate env s c) (review_candidates db)"
  shows "get_review_candidate k db' = Some (decide_candidate env s c)"
proof -
  have "get_review_candidate k db' = get_review_candidate k (put_review_candidate (decide_candidate env s c) db)"
    by (simp add: get_review_candidate_def put_review_candidate_def assms(2))
  also have "\<dots> = Some (decide_candidate env s c)"
    by (rule review_candidate_repo.get_assign [OF assms(1)]) simp
  finally show ?thesis .
qed

text \<open>C19: An approval that goes through was of an open candidate, at the
  version the reviewer saw, with no policy blocker; it records one decision, ''approved'', on that
  candidate by the acting user, closes the candidate as approved at the next version, and creates exactly one CRM target, still
  to be exported, that points back to the candidate and the decision.\<close>

theorem approval_creates_target:
  assumes run: "approve_review_candidate env q key db = (Inr (Some d), db')"
    and new: "existing_decision key db = None"
  shows "\<exists>c t. get_review_candidate (dcl_candidate_id q) db = Some c
    \<and> rc_status c = ''open'' \<and> rc_version c = rdr_version (dcl_request q)
    \<and> review_policy_blockers c = []
    \<and> get_review_candidate (dcl_candidate_id q) db' = Some (decide_candidate env ''approved'' c)
    \<and> review_decisions db' = review_decisions db @ [d] \<and> rd_actor d = dcl_actor q
    \<and> rd_decision d = ''approved'' \<and> rd_review_candidate_id d = Some (rc_id c)
    \<and> rd_target_type d = rc_target_type c \<and> rd_target_id d = rc_target_id c
    \<and> crm_targets db' = crm_targets db @ [t]
    \<and> tgt_review_decision_id t = Some (rd_id d) \<and> tgt_review_candidate_id t = Some (rc_id c)
    \<and> tgt_target_type t = rc_target_type c \<and> tgt_target_id t = rc_target_id c
    \<and> tgt_status t = ''pending_export'' \<and> tgt_export_status t = ''not_exported''"
proof -
  obtain c db1 where c: "get_review_candidate (dcl_candidate_id q) db = Some c"
    and dec: "decide_in_session APPROVED env c (dcl_request q) (dcl_actor q) key (begin_session db) = (Inr d, db1)"
    and db': "review_decisions db' = review_decisions db1" "review_candidates db' = review_candidates db1"
      "crm_targets db' = crm_targets db1"
    by (rule session_decide_new [OF run [unfolded approve_review_candidate_def] new])
  note ok = decide_in_session_Inr [OF dec]
  have "get_review_candidate (dcl_candidate_id q) db' = Some (decide_candidate env ''approved'' c)"
    using ok(10) by (intro get_put_decided [OF c]) (simp add: db')
  moreover obtain i where "crm_targets db1
      = crm_targets db @ [crm_target_row env (decide_candidate env ''approved'' c) d i]"
    using ok(11) by auto
  ultimately show ?thesis
    using c ok(2,3,5-9) validate_None [OF ok(1)] by (auto simp: db')
qed

lemma decide_not_open:
  assumes "get_review_candidate (dcl_candidate_id q) db = Some c" and "rc_status c \<noteq> ''open''"
    and "existing_decision key db = None" and "admitted env"
  shows "session_scope env (decide_candidate_body action env q key) db
           = (Inl (ValueError ''review candidate is not open''), db)"
proof -
  have "decide_candidate_body action env q key (begin_session db)
      = (Inl (ValueError ''review candidate is not open''), begin_session db)"
    using assms
    by (auto simp: decide_candidate_body_def decide_in_session_def validate_candidate_decision_def
        approve_review_candidate_in_session_def reject_review_candidate_in_session_def)
  with assms(4) show ?thesis by (simp add: session_scope_raises)
qed

text \<open>A review candidate is decided at most once: after an approval or a rejection
  went through, every further decision on the candidate, by anyone, with any request and any
  unused key, fails because the candidate is no longer open, and changes nothing.\<close>

theorem decided_once:
  assumes "approve_review_candidate env q key db = (Inr (Some d), db')
         \<or> reject_review_candidate env q key db = (Inr (Some d), db')"
    and "existing_decision key db = None"
    and "dcl_candidate_id q' = dcl_candidate_id q"
    and "existing_decision key' db' = None" and "admitted env'"
  shows "approve_review_candidate env' q' key' db' = (Inl (ValueError ''review candidate is not open''), db')
    \<and> reject_review_candidate env' q' key' db' = (Inl (ValueError ''review candidate is not open''), db')"
proof -
  obtain action where "session_scope env (decide_candidate_body action env q key) db = (Inr (Some d), db')"
    using assms(1) by (auto simp: approve_review_candidate_def reject_review_candidate_def)
  then obtain c db1 where c: "get_review_candidate (dcl_candidate_id q) db = Some c"
    and dec: "decide_in_session action env c (dcl_request q) (dcl_actor q) key (begin_session db) = (Inr d, db1)"
    and db': "review_candidates db' = review_candidates db1"
    by (rule session_decide_new [OF _ assms(2)])
  have "get_review_candidate (dcl_candidate_id q') db'
      = Some (decide_candidate env (action_value action) c)"
    unfolding assms(3)
    using decide_in_session_Inr(10) [OF dec] by (intro get_put_decided [OF c]) (simp add: db')
  moreover have "rc_status (decide_candidate env (action_value action) c) \<noteq> ''open''"
    by (cases action) simp_all
  ultimately show ?thesis
    unfolding approve_review_candidate_def reject_review_candidate_def
    by (intro conjI decide_not_open [OF _ _ assms(4,5)])
qed

text \<open>A candidate with a policy blocker is never approved: an otherwise valid
  approval raises an error that lists the blockers, and the tables stay as they are; the same
  candidate can still be rejected.\<close>

theorem blocked_not_approved:
  assumes "get_review_candidate (dcl_candidate_id q) db = Some c"
    and "validate_candidate_decision env c (dcl_request q) = None"
    and "review_policy_blockers c \<noteq> []" and "existing_decision key db = None" and "admitted env"
  shows "approve_review_candidate env q key db
      = (Inl (ValueError (''policy blockers: '' @ join '', '' (review_policy_blockers c))), db)"
proof -
  have "decide_candidate_body APPROVED env q key (begin_session db)
      = (Inl (ValueError (''policy blockers: '' @ join '', '' (review_policy_blockers c))), begin_session db)"
    using assms
    by (simp add: decide_candidate_body_def decide_in_session_def approve_review_candidate_in_session_def)
  with assms(5) show ?thesis
    by (simp only: approve_review_candidate_def session_scope_raises rollback_begin_session)
qed

section \<open>CRM targets come from approved reviews\<close>

definition target_backed :: "ReviewDecision list \<Rightarrow> ReviewCandidate list \<Rightarrow> CrmTarget \<Rightarrow> bool" where
  "target_backed ds cs t \<longleftrightarrow>
     (\<exists>d \<in> set ds. \<exists>c \<in> set cs. tgt_review_decision_id t = Some (rd_id d)
        \<and> rd_decision d = ''approved'' \<and> rd_review_candidate_id d = Some (rc_id c)
        \<and> tgt_review_candidate_id t = Some (rc_id c) \<and> rc_status c = ''approved''
        \<and> rd_target_type d = tgt_target_type t \<and> rd_target_id d = tgt_target_id t)"

definition targets_backed :: "db \<Rightarrow> bool" where
  "targets_backed db \<longleftrightarrow>
     list_all (target_backed (review_decisions db) (review_candidates db)) (crm_targets db)"

lemma targets_backed_frame [simp]:
  "targets_backed (begin_session db) = targets_backed db"
  "targets_backed (end_session db0 db) = targets_backed db"
  "targets_backed (written env db) = targets_backed db"
  "targets_backed (rollback db db0) = targets_backed db"
  by (simp_all add: targets_backed_def rollback_def)

lemma target_backed_mono:
  assumes "target_backed ds cs t" and "set ds \<subseteq> set ds'"
    and "\<And>c. c \<in> set cs \<Longrightarrow> rc_status c = ''approved'' \<Longrightarrow> c \<in> set cs'"
  shows "target_backed ds' cs' t"
  using assms unfolding target_backed_def by blast

lemma approved_kept:
  assumes "distinct (map rc_id cs)" and "c \<in> set cs" and "rc_status c = ''open''"
    and "rc_id c' = rc_id c" and "x \<in> set cs" and "rc_status x = ''approved''"
  shows "x \<in> set (row_put rc_id c' cs)"
proof -
  have "rc_id x \<noteq> rc_id c"
    using unique_row [OF assms(1,5,2)] assms(3,6) by auto
  with assms(4,5) show ?thesis
    unfolding row_put_def by (auto intro: image_eqI [of _ _ x])
qed

lemma decide_keeps_backed:
  assumes run: "decide_in_session action env c q actor key db = (Inr d, db')"
    and c: "get_review_candidate (rc_id c) db = Some c"
    and dist: "distinct (map rc_id (review_candidates db))" and backed: "targets_backed db"
  shows "targets_backed db' \<and> distinct (map rc_id (review_candidates db'))"
proof
  note ok = decide_in_session_Inr [OF run]
  let ?c = "decide_candidate env (action_value action) c"
  have mem: "c \<in> set (review_candidates db)" and open_c: "rc_status c = ''open''"
    using c validate_None [OF ok(1)] by (auto simp: get_review_candidate_def dest: row_get_mem)
  have new: "?c \<in> set (review_candidates db')"
    unfolding ok(10) using c by (intro row_put_self) (simp add: get_review_candidate_def)
  have old: "target_backed (review_decisions db') (review_candidates db') t" if "t \<in> set (crm_targets db)" for t
  proof (rule target_backed_mono)
    show "target_backed (review_decisions db) (review_candidates db) t"
      using backed that by (simp add: targets_backed_def list_all_iff)
    show "set (review_decisions db) \<subseteq> set (review_decisions db')" using ok(9) by auto
    show "x \<in> set (review_candidates db')"
      if "x \<in> set (review_candidates db)" "rc_status x = ''approved''" for x
      unfolding ok(10) by (rule approved_kept [OF dist mem open_c _ that]) simp
  qed
  show "targets_backed db'"
  proof (cases action)
    case APPROVED
    then obtain i where "crm_targets db' = crm_targets db @ [crm_target_row env ?c d i]"
      using ok(11) by auto
    moreover have "target_backed (review_decisions db') (review_candidates db') (crm_target_row env ?c d i)"
      unfolding target_backed_def using new APPROVED ok(3,5,7,8,9) by (intro bexI [of _ d] bexI [of _ ?c]) auto
    ultimately show ?thesis using old by (auto simp: targets_backed_def list_all_iff)
  next
    case REJECT
    then show ?thesis using old ok(12) by (auto simp: targets_backed_def list_all_iff)
  qed
  show "distinct (map rc_id (review_candidates db'))"
    using dist by (simp add: ok(10) keys_row_put)
qed

lemma put_get_same:
  assumes "get_review_candidate k db = Some c"
  shows "get_review_candidate (rc_id c) db = Some c"
  using review_candidate_repo.get_key [OF assms] assms by simp

lemma constraints_review_ids: "constraints_ok db \<Longrightarrow> distinct (map rc_id (review_candidates db))"
  by (simp add: constraints_ok_def)

text \<open>An operation keeps the backing of the targets when its body does, from the start of a
  session to a successful end.\<close>

lemma session_keeps_backed:
  assumes body: "\<And>r db1. body (begin_session db) = (Inr r, db1) \<Longrightarrow> targets_backed db1"
    and "targets_backed db" and run: "session_scope env body db = (x, db')"
  shows "targets_backed db'"
proof (cases x)
  case (Inl e)
  with run have "same_tables db db'" by (simp add: session_scope_error)
  with assms(2) show ?thesis by (metis same_tables_def targets_backed_frame(4))
next
  case (Inr r)
  with run obtain db1 where "body (begin_session db) = (Inr r, db1)" and "db' = end_session db (written env db1)"
    by (auto elim!: session_scope_ok dest!: flush_written)
  with body show ?thesis by simp
qed

lemma decide_candidate_body_backed:
  assumes "decide_candidate_body action env q key db = (Inr r, db')"
    and "targets_backed db" and "distinct (map rc_id (review_candidates db))"
  shows "targets_backed db'"
  using assms
  by (auto simp: decide_candidate_body_def split: option.splits prod.splits sum.splits
      dest: decide_keeps_backed [OF _ put_get_same])

text \<open>In a bulk decision every candidate still to come is untouched by the earlier ones.\<close>

lemma decide_leaves_others:
  assumes "decide_in_session action env c q actor key db = (Inr d, db')" and "rc_id c' \<noteq> rc_id c"
  shows "get_review_candidate (rc_id c') db' = get_review_candidate (rc_id c') db"
  using decide_in_session_Inr(10) [OF assms(1)] assms(2)
  by (simp add: get_review_candidate_def row_get_put_other)

definition bulk_request :: "BulkReviewDecisionRequest \<Rightarrow> int \<Rightarrow> ReviewDecisionRequest" where
  "bulk_request q version =
     \<lparr>rdr_version = version, rdr_reason_code = bdr_reason_code q, rdr_reason = bdr_reason q,
      rdr_policy_snapshot_hash = bdr_policy_snapshot_hash q,
      rdr_evidence_snapshot = bdr_evidence_snapshot q, rdr_target_scope = ''crm_export''\<rparr>"

lemma bulk_loop_Cons:
  assumes "bulk_loop env q actor key (c # cs) db = (Inr ds, db')"
  obtains (replayed) d ds' where "existing_decision (key @ '':'' @ rc_id c) db = Some d"
      and "ds = d # ds'" and "bulk_loop env q actor key cs db = (Inr ds', db')"
    | (decided) version d db1 ds' where "existing_decision (key @ '':'' @ rc_id c) db = None"
      and "map_of (bdr_candidate_versions q) (rc_id c) = Some version"
      and "decide_in_session (bdr_decision q) env c (bulk_request q version) actor
             (key @ '':'' @ rc_id c) db = (Inr d, db1)"
      and "ds = d # ds'" and "bulk_loop env q actor key cs db1 = (Inr ds', db')"
  using assms unfolding bulk_loop.simps Let_def bulk_request_def [symmetric]
  by (auto split: option.splits prod.splits sum.splits)

lemma bulk_loop_invariant:
  assumes step: "\<And>c v k db d db1. I db \<Longrightarrow> get_review_candidate (rc_id c) db = Some c
      \<Longrightarrow> decide_in_session (bdr_decision q) env c (bulk_request q v) actor k db = (Inr d, db1) \<Longrightarrow> I db1"
    and "bulk_loop env q actor key cs db = (Inr ds, db')" and "I db"
    and "distinct (map rc_id cs)" and "\<forall>c \<in> set cs. get_review_candidate (rc_id c) db = Some c"
  shows "I db'"
  using assms(2-)
proof (induction cs arbitrary: db ds)
  case (Cons c cs)
  from Cons.prems(1) show ?case
  proof (cases rule: bulk_loop_Cons)
    case (replayed d ds')
    with Cons show ?thesis by simp
  next
    case (decided version d db1 ds')
    have "I db1" using step [OF Cons.prems(2) _ decided(3)] Cons.prems(4) by simp
    moreover have "\<forall>x \<in> set cs. get_review_candidate (rc_id x) db1 = Some x"
    proof
      fix x assume x: "x \<in> set cs"
      then have "rc_id x \<noteq> rc_id c" using Cons.prems(3) by (auto simp: image_iff)
      with x Cons.prems(4) show "get_review_candidate (rc_id x) db1 = Some x"
        by (simp add: decide_leaves_others [OF decided(3)])
    qed
    ultimately show ?thesis using Cons.IH [OF decided(5)] Cons.prems(3) by simp
  qed
qed simp

lemma bulk_candidates_loaded:
  assumes "distinct (map rc_id (review_candidates db))"
  shows "distinct (map rc_id (bulk_candidates q db))"
    and "\<forall>c \<in> set (bulk_candidates q db). get_review_candidate (rc_id c) db = Some c"
proof -
  show "distinct (map rc_id (bulk_candidates q db))"
    using assms by (simp add: bulk_candidates_def distinct_map_filter)
  show "\<forall>c \<in> set (bulk_candidates q db). get_review_candidate (rc_id c) db = Some c"
    using assms by (auto simp: bulk_candidates_def get_review_candidate_def row_get_unique)
qed

lemma bulk_decide_body_backed:
  assumes "bulk_decide_body env q actor key db = (Inr ds, db')"
    and "targets_backed db" and "distinct (map rc_id (review_candidates db))"
  shows "targets_backed db'"
proof -
  have run: "bulk_loop env q actor key (bulk_candidates q db) db = (Inr ds, db')"
    using assms(1) by (simp add: bulk_decide_body_def Let_def split: option.splits)
  have "targets_backed db' \<and> distinct (map rc_id (review_candidates db'))"
    by (rule bulk_loop_invariant [OF _ run _ bulk_candidates_loaded [OF assms(3)]])
      (use assms(2,3) decide_keeps_backed in blast)+
  then show ?thesis by simp
qed

lemma update_crm_target_body_backed:
  assumes "update_crm_target_body env k q actor db = (Inr r, db')" and "targets_backed db"
  shows "targets_backed db'"
proof (cases "get_crm_target k db")
  case (Some t)
  let ?t = "updated_target env q actor t"
  have same: "target_backed ds cs ?t = target_backed ds cs t" for ds cs
    by (simp add: target_backed_def updated_target_def)
  have "t \<in> set (crm_targets db)" using Some by (auto simp: get_crm_target_def dest: row_get_mem)
  with assms(2) have "target_backed (review_decisions db) (review_candidates db) ?t"
    by (simp add: targets_backed_def list_all_iff same)
  moreover have "review_decisions db' = review_decisions db" "review_candidates db' = review_candidates db"
      "crm_targets db' = row_put tgt_id ?t (crm_targets db)"
    using assms(1) Some
    by (auto simp: update_crm_target_body_def Let_def put_crm_target_def dest!: flush_written split: sum.splits)
  ultimately show ?thesis
    using assms(2) by (auto simp: targets_backed_def list_all_iff dest: mem_row_put)
qed (use assms in \<open>simp add: update_crm_target_body_def\<close>)

lemma decisions_only_backed:
  assumes "targets_backed db" and "set (review_decisions db) \<subseteq> set (review_decisions db')"
    and "set (review_candidates db) \<subseteq> set (review_candidates db')" and "crm_targets db' = crm_targets db"
  shows "targets_backed db'"
  using assms unfolding targets_backed_def list_all_iff by (auto intro: target_backed_mono)

section \<open>Incident decisions\<close>

lemma set_incident_fields [simp]:
  "inc_id (set_incident env s m i) = inc_id i"
  "inc_status (set_incident env s m i) = s"
  "inc_corroboration_method (set_incident env s m i) = m"
  "inc_version (set_incident env s m i) = inc_version i + 1"
  by (simp_all add: set_incident_def)

lemma get_incident_frame [simp]:
  "get_incident k (begin_session db) = get_incident k db"
  "get_incident k (end_session db0 db) = get_incident k db"
  "get_incident k (written env db) = get_incident k db"
  by (simp_all add: get_incident_def)

lemmas incident_defs = incident_decision_def create_decision_def draw_uuid_def Let_def
  add_review_decision_def put_incident_def

text \<open>What a successful incident operation leaves: the loaded incident moved to the new status
  at the next version, one new decision under the key, nothing else of the review tables.\<close>

definition incident_moved ::
  "string \<Rightarrow> string \<Rightarrow> string \<Rightarrow> SecurityIncident \<Rightarrow> ReviewDecision \<Rightarrow> db \<Rightarrow> db \<Rightarrow> bool" where
  "incident_moved key status method i d db db' \<longleftrightarrow>
     (\<exists>i'. security_incidents db' = row_put inc_id i' (security_incidents db)
        \<and> inc_id i' = inc_id i \<and> inc_status i' = status
        \<and> inc_corroboration_method i' = method \<and> inc_version i' = inc_version i + 1)
   \<and> review_decisions db' = review_decisions db @ [d] \<and> rd_idempotency_key d = key
   \<and> rd_target_id d = inc_id i
   \<and> review_candidates db' = review_candidates db \<and> crm_targets db' = crm_targets db"

lemma corroborate_act_Inr:
  assumes "corroborate_act env q key i db = (Inr d, db')"
  shows "method_check (icl_request q) = None"
    and "incident_moved key ''corroborated'' (method_value (idr_method (icl_request q))) i d db db'"
  using assms
  by (auto simp: corroborate_act_def incident_defs incident_moved_def row_put_row_put
      dest!: flush_written split: option.splits sum.splits)

lemma reject_act_Inr:
  assumes "reject_act env q key i db = (Inr d, db')"
  shows "incident_moved key ''rejected'' (inc_corroboration_method i) i d db db'"
  using assms
  by (auto simp: reject_act_def incident_defs incident_moved_def row_put_row_put
      dest!: flush_written split: option.splits sum.splits)

lemma revert_act_Inr:
  assumes "revert_act env q key i db = (Inr d, db')"
  shows "inc_status i = ''corroborated''" and "incident_moved key ''candidate'' ''none'' i d db db'"
  using assms
  by (auto simp: revert_act_def incident_defs incident_moved_def row_put_row_put
      dest!: flush_written split: option.splits sum.splits if_splits)

text \<open>The three operations as one family, by the action they take on the loaded incident.\<close>

datatype incident_action = CORROBORATE | REJECT_INCIDENT | REVERT

fun incident_act ::
  "incident_action \<Rightarrow> env \<Rightarrow> incident_call \<Rightarrow> string \<Rightarrow> SecurityIncident \<Rightarrow> ReviewDecision op" where
  "incident_act CORROBORATE = corroborate_act"
| "incident_act REJECT_INCIDENT = reject_act"
| "incident_act REVERT = revert_act"

fun new_status :: "incident_action \<Rightarrow> string" where
  "new_status CORROBORATE = ''corroborated''"
| "new_status REJECT_INCIDENT = ''rejected''"
| "new_status REVERT = ''candidate''"

definition decide_incident_body ::
  "env \<Rightarrow> incident_action \<times> incident_call \<Rightarrow> string \<Rightarrow> ReviewDecision option op" where
  "decide_incident_body env q key = incident_session (incident_act (fst q) env (snd q) key) (snd q) key"

definition decide_incident ::
  "env \<Rightarrow> incident_action \<times> incident_call \<Rightarrow> string \<Rightarrow> ReviewDecision option op" where
  "decide_incident env q key = session_scope env (decide_incident_body env q key)"

lemma decide_incident_operations:
  "corroborate_incident env q key = decide_incident env (CORROBORATE, q) key"
  "reject_incident env q key = decide_incident env (REJECT_INCIDENT, q) key"
  "revert_incident env q key = decide_incident env (REVERT, q) key"
  by (simp_all add: corroborate_incident_def reject_incident_def revert_incident_def
      decide_incident_def decide_incident_body_def)

lemma incident_act_moved:
  assumes "incident_act a env q key i db = (Inr d, db')"
  obtains m where "incident_moved key (new_status a) m i d db db'"
  using assms by (cases a) (auto dest: corroborate_act_Inr reject_act_Inr revert_act_Inr)

lemma incident_session_new:
  assumes "incident_session act q key db = (Inr r, db')" and "existing_decision key db = None"
  shows "(get_incident (icl_incident_id q) db = None \<and> r = None \<and> db' = db)
    \<or> (\<exists>i d. get_incident (icl_incident_id q) db = Some i \<and> inc_version i = idr_version (icl_request q)
         \<and> r = Some d \<and> act i db = (Inr d, db'))"
  using assms by (auto simp: incident_session_def split: option.splits prod.splits sum.splits if_splits)

interpretation incident: idempotent_op decide_incident
  "\<lambda>key db. map_option Some (existing_decision key db)"
proof (rule idempotent_session [OF decide_incident_def])
  fix env q key db r
  assume "map_option Some (existing_decision key db) = Some r"
  then show "decide_incident_body env q key (begin_session db) = (Inr r, begin_session db)"
    by (auto simp: decide_incident_body_def incident_session_def)
next
  fix env q key db r db1
  assume none: "map_option Some (existing_decision key db) = None"
    and run: "decide_incident_body env q key (begin_session db) = (Inr r, db1)"
    and changed: "end_session db (written env db1) \<noteq> db"
  from none have "existing_decision key (begin_session db) = None" by simp
  from incident_session_new [OF run [unfolded decide_incident_body_def] this] changed obtain i d where
      "r = Some d" and "incident_act (fst q) env (snd q) key i (begin_session db) = (Inr d, db1)"
    by auto
  moreover from this(2) obtain m where "incident_moved key (new_status (fst q)) m i d (begin_session db) db1"
    by (rule incident_act_moved)
  ultimately show "map_option Some (existing_decision key (end_session db (written env db1))) = Some r"
    using none by (simp add: existing_decision_def incident_moved_def)
qed

text \<open>
  Optimistic locking: an operation names the version its caller saw.  With a stale version it
  fails and changes nothing; when it goes through the version was the current one and moves on.
\<close>

locale optimistic_lock = idempotent_op run recorded
  for run :: "env \<Rightarrow> 'q \<Rightarrow> string \<Rightarrow> 'r op" and recorded :: "string \<Rightarrow> db \<Rightarrow> 'r option" +
  fixes version_of :: "string \<Rightarrow> db \<Rightarrow> int option"
    and entity :: "'q \<Rightarrow> string"
    and expected :: "'q \<Rightarrow> int"
  assumes stale: "admitted env \<Longrightarrow> recorded key db = None \<Longrightarrow> version_of (entity q) db = Some v
      \<Longrightarrow> v \<noteq> expected q \<Longrightarrow> run env q key db = (Inl (ValueError ''stale optimistic version''), db)"
    and bump: "run env q key db = (Inr r, db') \<Longrightarrow> recorded key db = None \<Longrightarrow> db' \<noteq> db
      \<Longrightarrow> version_of (entity q) db = Some (expected q) \<and> version_of (entity q) db' = Some (expected q + 1)"
begin

text \<open>Of two callers that saw the same version, the second loses.\<close>

lemma no_lost_update:
  assumes "run env q key db = (Inr r, db')" and "recorded key db = None" and "db' \<noteq> db"
    and "entity q' = entity q" and "expected q' = expected q"
    and "recorded key' db' = None" and "admitted env'"
  shows "run env' q' key' db' = (Inl (ValueError ''stale optimistic version''), db')"
  using bump [OF assms(1-3)] assms(4-7) by (intro stale) auto

end

definition incident_version :: "string \<Rightarrow> db \<Rightarrow> int option" where
  "incident_version k db = map_option inc_version (get_incident k db)"

interpretation incident_lock: optimistic_lock decide_incident
  "\<lambda>key db. map_option Some (existing_decision key db)" incident_version
  "\<lambda>q. icl_incident_id (snd q)" "\<lambda>q. idr_version (icl_request (snd q))"
proof
  fix env key db v and q :: "incident_action \<times> incident_call"
  assume a: "admitted env" "map_option Some (existing_decision key db) = None"
    "incident_version (icl_incident_id (snd q)) db = Some v" "v \<noteq> idr_version (icl_request (snd q))"
  then have "decide_incident_body env q key (begin_session db)
      = (Inl (ValueError ''stale optimistic version''), begin_session db)"
    by (auto simp: decide_incident_body_def incident_session_def incident_version_def)
  with a(1) show "decide_incident env q key db = (Inl (ValueError ''stale optimistic version''), db)"
    by (simp add: decide_incident_def session_scope_raises)
next
  fix env q key db r db'
  assume run: "decide_incident env q key db = (Inr r, db')"
    and none: "map_option Some (existing_decision key db) = None" and changed: "db' \<noteq> db"
  obtain db1 where body: "decide_incident_body env q key (begin_session db) = (Inr r, db1)"
      and db': "db' = end_session db (written env db1)"
    using run by (auto simp: decide_incident_def elim!: session_scope_ok dest!: flush_written)
  from none have "existing_decision key (begin_session db) = None" by simp
  from incident_session_new [OF body [unfolded decide_incident_body_def] this] changed
  obtain i d where i: "get_incident (icl_incident_id (snd q)) db = Some i"
      and v: "inc_version i = idr_version (icl_request (snd q))"
      and act: "incident_act (fst q) env (snd q) key i (begin_session db) = (Inr d, db1)"
    by (auto simp: db')
  from act obtain m where moved: "incident_moved key (new_status (fst q)) m i d (begin_session db) db1"
    by (rule incident_act_moved)
  then obtain i' where "security_incidents db1 = row_put inc_id i' (security_incidents db)"
      and "inc_id i' = inc_id i" "inc_version i' = inc_version i + 1"
    by (auto simp: incident_moved_def)
  moreover have "inc_id i = icl_incident_id (snd q)" by (rule incident_repo.get_key [OF i])
  ultimately show "incident_version (icl_incident_id (snd q)) db = Some (idr_version (icl_request (snd q)))
      \<and> incident_version (icl_incident_id (snd q)) db' = Some (idr_version (icl_request (snd q)) + 1)"
    using i v by (simp add: incident_version_def get_incident_def row_get_row_put db')
qed

text \<open>Two analysts who looked at the same version of an incident cannot
  both decide it: once a corroboration, rejection or reversal went through, any of the three
  with the same version and a new key fails as stale and changes nothing.\<close>

theorem incident_no_lost_update:
  assumes "decide_incident env q key db = (Inr r, db')" and "existing_decision key db = None"
    and "db' \<noteq> db" and "icl_incident_id (snd q') = icl_incident_id (snd q)"
    and "idr_version (icl_request (snd q')) = idr_version (icl_request (snd q))"
    and "existing_decision key' db' = None" and "admitted env'"
  shows "decide_incident env' q' key' db' = (Inl (ValueError ''stale optimistic version''), db')"
  using incident_lock.no_lost_update [of env q key db r db' q' key' env'] assms by simp

lemma decide_incident_moved:
  assumes "decide_incident env (a, q) key db = (Inr (Some d), db')" and "existing_decision key db = None"
  obtains i db1 where "get_incident (icl_incident_id q) db = Some i"
    and "inc_version i = idr_version (icl_request q)"
    and "incident_act a env q key i (begin_session db) = (Inr d, db1)"
    and "security_incidents db' = security_incidents db1"
proof -
  obtain db1 where body: "decide_incident_body env (a, q) key (begin_session db) = (Inr (Some d), db1)"
      and db': "db' = end_session db (written env db1)"
    using assms(1) by (auto simp: decide_incident_def elim!: session_scope_ok dest!: flush_written)
  from assms(2) have "existing_decision key (begin_session db) = None" by simp
  from incident_session_new [OF body [unfolded decide_incident_body_def fst_conv snd_conv] this] show thesis
    by (auto simp: db' intro: that)
qed

lemma incident_moved_get:
  assumes "incident_moved key st m i d db0 db1" and "get_incident k db = Some i"
    and "security_incidents db0 = security_incidents db" and "security_incidents db' = security_incidents db1"
  shows "\<exists>i'. get_incident k db' = Some i' \<and> inc_status i' = st \<and> inc_corroboration_method i' = m
    \<and> inc_version i' = inc_version i + 1"
proof -
  from assms(1,3) obtain i' where "security_incidents db1 = row_put inc_id i' (security_incidents db)"
      and "inc_id i' = inc_id i" "inc_status i' = st" "inc_corroboration_method i' = m"
        "inc_version i' = inc_version i + 1"
    by (auto simp: incident_moved_def)
  moreover have "inc_id i = k" by (rule incident_repo.get_key [OF assms(2)])
  ultimately show ?thesis
    using assms(2) by (simp add: get_incident_def row_get_row_put assms(4))
qed

text \<open>An incident becomes corroborated only through a supported method, and
  through independent sources only with at least two of them counted in the evidence; the
  incident then carries the method and the next version.  Only a corroborated incident can be
  reverted, and reverting makes it a candidate again with no method.\<close>

theorem corroboration_guarded:
  assumes "existing_decision key db = None"
  shows "(corroborate_incident env q key db = (Inr (Some d), db') \<longrightarrow>
      method_value (idr_method (icl_request q)) \<in> CORROBORATION_METHODS
      \<and> (idr_method (icl_request q) = INDEPENDENT_SOURCES \<longrightarrow>
           (\<exists>n \<ge> 2. py_int (py_or (dict_get (idr_evidence_snapshot (icl_request q))
              ''independent_source_count'') (JInt 0)) = Inr n))
      \<and> (\<exists>i'. get_incident (icl_incident_id q) db' = Some i' \<and> inc_status i' = ''corroborated''
           \<and> inc_corroboration_method i' = method_value (idr_method (icl_request q))
           \<and> inc_version i' = idr_version (icl_request q) + 1))
    \<and> (revert_incident env q key db = (Inr (Some d), db') \<longrightarrow>
      (\<exists>i. get_incident (icl_incident_id q) db = Some i \<and> inc_status i = ''corroborated'')
      \<and> (\<exists>i'. get_incident (icl_incident_id q) db' = Some i' \<and> inc_status i' = ''candidate''
           \<and> inc_corroboration_method i' = ''none'' \<and> inc_version i' = idr_version (icl_request q) + 1))"
proof (intro conjI impI)
  assume "corroborate_incident env q key db = (Inr (Some d), db')"
  then obtain i db1 where i: "get_incident (icl_incident_id q) db = Some i"
      and v: "inc_version i = idr_version (icl_request q)"
      and act: "corroborate_act env q key i (begin_session db) = (Inr d, db1)"
      and db': "security_incidents db' = security_incidents db1"
    by (auto simp: decide_incident_operations elim: decide_incident_moved [OF _ assms])
  from corroborate_act_Inr(1) [OF act]
  show "method_value (idr_method (icl_request q)) \<in> CORROBORATION_METHODS"
    and "idr_method (icl_request q) = INDEPENDENT_SOURCES \<Longrightarrow>
      \<exists>n \<ge> 2. py_int (py_or (dict_get (idr_evidence_snapshot (icl_request q))
        ''independent_source_count'') (JInt 0)) = Inr n"
    by (auto simp: method_check_def split: if_splits sum.splits)
  from incident_moved_get [OF corroborate_act_Inr(2) [OF act] i _ db'] v
  show "\<exists>i'. get_incident (icl_incident_id q) db' = Some i' \<and> inc_status i' = ''corroborated''
      \<and> inc_corroboration_method i' = method_value (idr_method (icl_request q))
      \<and> inc_version i' = idr_version (icl_request q) + 1" by simp
next
  assume "revert_incident env q key db = (Inr (Some d), db')"
  then obtain i db1 where i: "get_incident (icl_incident_id q) db = Some i"
      and v: "inc_version i = idr_version (icl_request q)"
      and act: "revert_act env q key i (begin_session db) = (Inr d, db1)"
      and db': "security_incidents db' = security_incidents db1"
    by (auto simp: decide_incident_operations elim: decide_incident_moved [OF _ assms])
  from revert_act_Inr(1) [OF act] i
  show "\<exists>i. get_incident (icl_incident_id q) db = Some i \<and> inc_status i = ''corroborated''" by simp
  from incident_moved_get [OF revert_act_Inr(2) [OF act] i _ db'] v
  show "\<exists>i'. get_incident (icl_incident_id q) db' = Some i' \<and> inc_status i' = ''candidate''
      \<and> inc_corroboration_method i' = ''none'' \<and> inc_version i' = idr_version (icl_request q) + 1" by simp
qed

section \<open>Suppressions\<close>

lemma stored_suppression_frame [simp]:
  "stored_suppression env q (begin_session db) = stored_suppression env q db"
  "stored_suppression env q (end_session db0 db) = stored_suppression env q db"
  "stored_suppression env q (written env' db) = stored_suppression env q db"
  by (simp_all add: stored_suppression_def)

lemma suppression_with_key_frame [simp]:
  "suppression_with_key k (begin_session db) = suppression_with_key k db"
  "suppression_with_key k (end_session db0 db) = suppression_with_key k db"
  "suppression_with_key k (written env db) = suppression_with_key k db"
  by (simp_all add: suppression_with_key_def)

lemma evaluate_with_store:
  assumes "admitted env" and "constraints_ok db"
  shows "evaluate_suppression_with_store env q db =
    (Inr (if scx_allowed (evaluate_suppression q) \<and> has_criterion q
          then (case stored_suppression env q db of
                  None \<Rightarrow> evaluate_suppression q | Some s \<Rightarrow> blocked_result (sup_reason s))
          else evaluate_suppression q), db)"
  unfolding evaluate_suppression_with_store_def Let_def
  by (auto intro!: session_scope_read [OF assms])

lemma no_criterion_no_match: "\<not> has_criterion q \<Longrightarrow> \<not> suppression_matches q s"
  by (simp add: has_criterion_def suppression_matches_def)

lemma evaluate_allowed_iff:
  assumes "admitted env" and "constraints_ok db"
  shows "\<exists>res. evaluate_suppression_with_store env q db = (Inr res, db)
    \<and> (scx_allowed res \<longleftrightarrow>
        \<not> (str_or (sck_email q) [] \<noteq> []
           \<and> py_lower (before_first (CHR ''@'') (str_or (sck_email q) [])) \<in> ROLE_BASED_PREFIXES)
        \<and> py_lower (sck_channel q) \<in> SUPPORTED_CHANNELS
        \<and> \<not> (\<exists>s \<in> set (suppressions db).
              suppression_in_force (env_now env) (py_lower (sck_channel q)) s \<and> suppression_matches q s))"
proof -
  have "stored_suppression env q db = None \<longleftrightarrow>
      \<not> (\<exists>s \<in> set (suppressions db).
          suppression_in_force (env_now env) (py_lower (sck_channel q)) s \<and> suppression_matches q s)"
    by (auto simp: stored_suppression_def find_None_iff_ball)
  moreover have "has_criterion q \<or> stored_suppression env q db = None"
    by (auto simp: stored_suppression_def find_None_iff_ball dest: no_criterion_no_match)
  ultimately show ?thesis
    unfolding evaluate_with_store [OF assms]
    by (auto simp: evaluate_suppression_def allowed_result_def blocked_result_def Let_def split: option.splits)
qed

text \<open>A suppression check never changes the store, and it allows outreach
  exactly when the address is not role-based, the channel is a supported one, and no active,
  unexpired suppression of that channel matches the address, the domain or the contact.\<close>

theorem suppression_decision:
  assumes "admitted env" and "constraints_ok db"
  shows "\<exists>res. evaluate_suppression_with_store env q db = (Inr res, db)
    \<and> (scx_allowed res \<longleftrightarrow>
        \<not> (str_or (sck_email q) [] \<noteq> []
           \<and> py_lower (before_first (CHR ''@'') (str_or (sck_email q) [])) \<in> ROLE_BASED_PREFIXES)
        \<and> py_lower (sck_channel q) \<in> SUPPORTED_CHANNELS
        \<and> \<not> (\<exists>s \<in> set (suppressions db).
              suppression_in_force (env_now env) (py_lower (sck_channel q)) s \<and> suppression_matches q s))"
  using assms by (rule evaluate_allowed_iff)

lemma create_suppression_body_new:
  assumes "create_suppression_body env q key db = (Inr s, db')" and "suppression_with_key key db = None"
  shows "suppressions db' = suppressions db @ [s] \<and> (\<exists>i. s = suppression_row env (fst q) key i)"
  using assms
  by (auto simp: create_suppression_body_def draw_uuid_def Let_def add_suppression_def
      dest!: flush_written split: sum.splits)

lemma suppression_row_key [simp]: "sup_idempotency_key (suppression_row env q key i) = Some key"
  by (simp add: suppression_row_def)

interpretation suppression: idempotent_op create_suppression suppression_with_key
proof (rule idempotent_session [OF create_suppression_def])
  fix env q key db s
  assume "suppression_with_key key db = Some s"
  then show "create_suppression_body env q key (begin_session db) = (Inr s, begin_session db)"
    by (simp add: create_suppression_body_def)
next
  fix env q key db s db1
  assume none: "suppression_with_key key db = None"
    and run: "create_suppression_body env q key (begin_session db) = (Inr s, db1)"
  then show "suppression_with_key key (end_session db (written env db1)) = Some s"
    using create_suppression_body_new [OF run] by (auto simp: suppression_with_key_def)
qed

lemma create_suppression_new:
  assumes "create_suppression env q key db = (Inr s, db')" and "suppression_with_key key db = None"
  shows "suppressions db' = suppressions db @ [s]" and "\<exists>i. s = suppression_row env (fst q) key i"
proof -
  obtain db1 where run: "create_suppression_body env q key (begin_session db) = (Inr s, db1)"
      and db': "db' = end_session db (written env db1)"
    using assms(1) by (auto simp: create_suppression_def elim!: session_scope_ok dest!: flush_written)
  from create_suppression_body_new [OF run] assms(2)
  show "suppressions db' = suppressions db @ [s]" and "\<exists>i. s = suppression_row env (fst q) key i"
    by (simp_all add: db')
qed

text \<open>A suppression takes effect as soon as it is stored: while it is
  active and unexpired, every later check for its address on its channel, in any letter case,
  is refused.\<close>

theorem suppression_takes_effect:
  assumes run: "create_suppression env (c, actor) key db = (Inr s, db')"
    and new: "suppression_with_key key db = None"
    and "scr_active c" and "case scr_expires_at c of None \<Rightarrow> True | Some t \<Rightarrow> t > env_now env'"
    and "scr_email c = Some e" and "e \<noteq> []"
    and "str_or (sck_email q) [] = e'" and "py_lower e' = py_lower e"
    and "py_lower (sck_channel q) = py_lower (scr_channel c)"
    and "constraints_ok db" and "admitted env'"
  shows "\<exists>res. evaluate_suppression_with_store env' q db' = (Inr res, db') \<and> \<not> scx_allowed res"
proof -
  obtain i where s: "s = suppression_row env c key i" and mem: "s \<in> set (suppressions db')"
    using create_suppression_new [OF run new] by auto
  have "e' \<noteq> []" using assms(6,8) py_lower_Nil_iff by metis
  then have "suppression_matches q s"
    using assms(5-8) by (simp add: s suppression_matches_def suppression_row_def lower_or_none_def)
  moreover have "suppression_in_force (env_now env') (py_lower (sck_channel q)) s"
    using assms(3,4,9) by (simp add: s suppression_in_force_def suppression_row_def)
  moreover have "constraints_ok db'"
    using assms(10) run session.constraints_after unfolding create_suppression_def by blast
  ultimately show ?thesis
    using evaluate_allowed_iff [OF assms(11), of db' q] mem by blast
qed

section \<open>Bulk decisions\<close>

lemma existing_decision_append_other:
  "review_decisions db' = review_decisions db @ [d] \<Longrightarrow> rd_idempotency_key d \<noteq> key
     \<Longrightarrow> existing_decision key db' = existing_decision key db"
  by (cases "existing_decision key db") (auto simp: existing_decision_def)

text \<open>With fresh child keys, the loop decides every candidate it is given.\<close>

lemma bulk_loop_decides:
  assumes "bulk_loop env q actor key cs db = (Inr ds, db')"
    and "distinct (map rc_id cs)" and "\<forall>c \<in> set cs. get_review_candidate (rc_id c) db = Some c"
    and "\<forall>c \<in> set cs. existing_decision (key @ '':'' @ rc_id c) db = None"
  shows "length ds = length cs
    \<and> (\<forall>c \<in> set cs. get_review_candidate (rc_id c) db'
           = Some (decide_candidate env (action_value (bdr_decision q)) c))
    \<and> (\<forall>k. k \<notin> rc_id ` set cs \<longrightarrow> get_review_candidate k db' = get_review_candidate k db)
    \<and> review_decisions db' = review_decisions db @ ds"
  using assms
proof (induction cs arbitrary: db ds)
  case (Cons c cs)
  let ?k = "key @ '':'' @ rc_id c"
  obtain version d db1 ds' where
      dec: "decide_in_session (bdr_decision q) env c (bulk_request q version) actor ?k db = (Inr d, db1)"
      and ds: "ds = d # ds'" and rest: "bulk_loop env q actor key cs db1 = (Inr ds', db')"
    by (rule bulk_loop_Cons [OF Cons.prems(1)]) (use Cons.prems(4) in auto)
  note ok = decide_in_session_Inr [OF dec]
  have others: "rc_id x \<noteq> rc_id c" if "x \<in> set cs" for x
    using that Cons.prems(2) by (auto simp: image_iff)
  have loaded: "\<forall>x \<in> set cs. get_review_candidate (rc_id x) db1 = Some x"
    using Cons.prems(3) others by (simp add: decide_leaves_others [OF dec])
  have fresh: "\<forall>x \<in> set cs. existing_decision (key @ '':'' @ rc_id x) db1 = None"
  proof
    fix x assume x: "x \<in> set cs"
    from others [OF x] have "rd_idempotency_key d \<noteq> key @ '':'' @ rc_id x" by (auto simp: ok(4))
    from existing_decision_append_other [OF ok(9) this] x Cons.prems(4)
    show "existing_decision (key @ '':'' @ rc_id x) db1 = None" by simp
  qed
  have "distinct (map rc_id cs)" and c: "rc_id c \<notin> rc_id ` set cs" using Cons.prems(2) by simp_all
  note IH = Cons.IH [OF rest this(1) loaded fresh]
  have "get_review_candidate (rc_id c) db1 = Some (decide_candidate env (action_value (bdr_decision q)) c)"
    using Cons.prems(3) ok(10) by (intro get_put_decided) simp_all
  moreover have "get_review_candidate k db1 = get_review_candidate k db" if "k \<noteq> rc_id c" for k
    using that ok(10) by (simp add: get_review_candidate_def row_get_put_other)
  ultimately show ?case
    using IH c ds ok(9) by simp
qed simp

lemma bulk_decide_Inr:
  assumes "bulk_decide_review_candidates env q actor key db = (Inr ds, db')"
  obtains db1 where "bulk_check env q (bulk_candidates q db) = None"
    and "bulk_loop env q actor key (bulk_candidates q db) (begin_session db) = (Inr ds, db1)"
    and "db' = end_session db (written env db1)"
proof -
  obtain db1 where "bulk_decide_body env q actor key (begin_session db) = (Inr ds, db1)"
      and "db' = end_session db (written env db1)"
    using assms by (auto simp: bulk_decide_review_candidates_def elim!: session_scope_ok dest!: flush_written)
  moreover have "bulk_candidates q (begin_session db) = bulk_candidates q db"
    by (simp add: bulk_candidates_def)
  ultimately show thesis
    using that by (auto simp: bulk_decide_body_def Let_def split: option.splits)
qed

text \<open>Every id of an accepted request names a loaded candidate.\<close>

lemma bulk_ids_loaded:
  assumes "bulk_check env q (bulk_candidates q db) = None"
    and "distinct (map rc_id (review_candidates db))"
  shows "rc_id ` set (bulk_candidates q db) = set (bdr_candidate_ids q)"
proof (rule card_subset_eq)
  have "card (rc_id ` set (bulk_candidates q db)) = length (bulk_candidates q db)"
    using bulk_candidates_loaded(1) [OF assms(2), of q] distinct_card by fastforce
  also have "\<dots> = length (remdups (bdr_candidate_ids q))"
    using assms(1) by (auto simp: bulk_check_def Let_def split: if_splits)
  finally show "card (rc_id ` set (bulk_candidates q db)) = card (set (bdr_candidate_ids q))"
    by (simp add: length_remdups_card_conv)
qed (auto simp: bulk_candidates_def)

lemma bulk_decided:
  assumes run: "bulk_decide_review_candidates env q actor key db = (Inr ds, db')" and "constraints_ok db"
    and fresh: "\<forall>k \<in> set (bdr_candidate_ids q). existing_decision (key @ '':'' @ k) db = None"
    and k: "k \<in> set (bdr_candidate_ids q)"
  shows "length ds = length (remdups (bdr_candidate_ids q)) \<and> review_decisions db' = review_decisions db @ ds
    \<and> (\<exists>c. get_review_candidate k db = Some c \<and> rc_status c = ''open''
         \<and> get_review_candidate k db' = Some (decide_candidate env (action_value (bdr_decision q)) c))"
proof -
  obtain db1 where chk: "bulk_check env q (bulk_candidates q db) = None"
    and loop: "bulk_loop env q actor key (bulk_candidates q db) (begin_session db) = (Inr ds, db1)"
    and db': "db' = end_session db (written env db1)"
    by (rule bulk_decide_Inr [OF run])
  have dist: "distinct (map rc_id (review_candidates db))" using assms(2) by (rule constraints_review_ids)
  note loaded = bulk_candidates_loaded [OF dist, of q]
  note ids = bulk_ids_loaded [OF chk dist]
  have "\<forall>c \<in> set (bulk_candidates q db). existing_decision (key @ '':'' @ rc_id c) (begin_session db) = None"
    using fresh ids by auto
  note all = bulk_loop_decides [OF loop loaded(1) _ this]
  from k have "k \<in> rc_id ` set (bulk_candidates q db)" by (simp only: ids)
  then obtain c where c: "c \<in> set (bulk_candidates q db)" "rc_id c = k" by blast
  moreover have "rc_status c = ''open''" and "length (bulk_candidates q db) = length (remdups (bdr_candidate_ids q))"
    using chk c(1) by (auto simp: bulk_check_def Let_def list_ex_iff split: if_splits)
  ultimately show ?thesis
    using all loaded(2) by (auto simp: db')
qed

text \<open>A bulk decision is all or nothing.  If it goes through, every candidate it
  names was open and is now decided the same way at its next version, with one decision per
  candidate; if it fails, the tables are as before.\<close>

theorem bulk_decides_all:
  assumes "constraints_ok db"
    and "\<forall>k \<in> set (bdr_candidate_ids q). existing_decision (key @ '':'' @ k) db = None"
  shows "case bulk_decide_review_candidates env q actor key db of
      (Inr ds, db') \<Rightarrow> \<forall>k \<in> set (bdr_candidate_ids q).
         length ds = length (remdups (bdr_candidate_ids q)) \<and> review_decisions db' = review_decisions db @ ds
         \<and> (\<exists>c. get_review_candidate k db = Some c \<and> rc_status c = ''open''
              \<and> get_review_candidate k db' = Some (decide_candidate env (action_value (bdr_decision q)) c))
    | (Inl e, db') \<Rightarrow> same_tables db db'"
  using bulk_decided [OF _ assms]
  by (auto simp: bulk_decide_review_candidates_def dest: session.error_keeps_tables
      split: prod.splits sum.splits)

text \<open>The columns a decision leaves alone.\<close>

lemma decide_keeps_columns:
  assumes "decide_in_session action env c q actor key db = (Inr d, db')"
    and "get_review_candidate (rc_id c) db = Some c"
    and "distinct (map rc_id (review_candidates db))"
  shows "map (\<lambda>c. (rc_id c, rc_candidate_type c)) (review_candidates db')
    = map (\<lambda>c. (rc_id c, rc_candidate_type c)) (review_candidates db)"
  unfolding decide_in_session_Inr(10) [OF assms(1)]
  using assms(2,3) by (intro column_row_put [of _ _ _ c]) (simp_all add: get_review_candidate_def decide_candidate_def)

lemma filter_columns:
  assumes "map (\<lambda>c. (rc_id c, rc_candidate_type c)) cs = map (\<lambda>c. (rc_id c, rc_candidate_type c)) cs'"
  shows "map rc_id (filter (\<lambda>c. rc_id c \<in> K) cs) = map rc_id (filter (\<lambda>c. rc_id c \<in> K) cs')
    \<and> map rc_candidate_type (filter (\<lambda>c. rc_id c \<in> K) cs)
      = map rc_candidate_type (filter (\<lambda>c. rc_id c \<in> K) cs')"
  using assms by (induction cs cs' rule: list_induct2') auto

text \<open>C21: Unlike the single decisions, a bulk decision cannot be replayed: repeating a
  call that went through raises, because the candidates are no longer open when the check runs,
  before any idempotency key is looked at.  The tables are untouched.\<close>

theorem bulk_replay_raises:
  assumes run: "bulk_decide_review_candidates env q actor key db = (Inr ds, db')" and ok: "constraints_ok db"
    and fresh: "\<forall>k \<in> set (bdr_candidate_ids q). existing_decision (key @ '':'' @ k) db = None"
    and "admitted env'"
  shows "bulk_decide_review_candidates env' q actor key db'
    = (Inl (ValueError ''bulk decision only supports open candidates''), db')"
proof -
  obtain db1 where chk: "bulk_check env q (bulk_candidates q db) = None"
    and loop: "bulk_loop env q actor key (bulk_candidates q db) (begin_session db) = (Inr ds, db1)"
    and db': "db' = end_session db (written env db1)"
    by (rule bulk_decide_Inr [OF run])
  have dist: "distinct (map rc_id (review_candidates db))" using ok by (rule constraints_review_ids)
  let ?cols = "\<lambda>db. map (\<lambda>c. (rc_id c, rc_candidate_type c)) (review_candidates db)"
  have "?cols db1 = ?cols db \<and> distinct (map rc_id (review_candidates db1))"
  proof (rule bulk_loop_invariant [OF _ loop _ bulk_candidates_loaded(1) [OF dist]])
    fix c v k dbx d dby
    assume I: "?cols dbx = ?cols db \<and> distinct (map rc_id (review_candidates dbx))"
      and c: "get_review_candidate (rc_id c) dbx = Some c"
      and dec: "decide_in_session (bdr_decision q) env c (bulk_request q v) actor k dbx = (Inr d, dby)"
    have "map rc_id (review_candidates dby) = map rc_id (review_candidates dbx)"
      by (simp add: decide_in_session_Inr(10) [OF dec] keys_row_put)
    with I decide_keeps_columns [OF dec c]
    show "?cols dby = ?cols db \<and> distinct (map rc_id (review_candidates dby))" by simp
  qed (use dist bulk_candidates_loaded(2) [OF dist] in simp_all)
  then have cols: "?cols db' = ?cols db" by (simp add: db')
  have ids: "map rc_id (bulk_candidates q db') = map rc_id (bulk_candidates q db)"
    and types: "map rc_candidate_type (bulk_candidates q db') = map rc_candidate_type (bulk_candidates q db)"
    using filter_columns [OF cols, of "set (bdr_candidate_ids q)"] by (simp_all add: bulk_candidates_def)
  from chk have "bulk_candidates q db \<noteq> []"
    by (auto simp: bulk_check_def Let_def split: if_splits)
  with ids obtain c where c: "c \<in> set (bulk_candidates q db')"
    by (cases "bulk_candidates q db'") auto
  have "constraints_ok db'"
    using session.constraints_after [OF ok run [unfolded bulk_decide_review_candidates_def]] .
  then have "get_review_candidate (rc_id c) db' = Some c"
    using c by (simp add: bulk_candidates_loaded constraints_review_ids)
  moreover have "rc_id c \<in> set (bdr_candidate_ids q)" using c by (simp add: bulk_candidates_def)
  ultimately have "rc_status c \<noteq> ''open''"
    using bulk_decided [OF run ok fresh] by (cases "bdr_decision q") fastforce+
  with c have "list_ex (\<lambda>c. rc_status c \<noteq> ''open'') (bulk_candidates q db')" by (auto simp: list_ex_iff)
  moreover have "length (bulk_candidates q db') = length (bulk_candidates q db)"
    using ids map_eq_imp_length_eq by blast
  ultimately have "bulk_check env' q (bulk_candidates q db')
      = Some (ValueError ''bulk decision only supports open candidates'')"
    using chk types by (auto simp: bulk_check_def Let_def split: if_splits)
  then have "bulk_decide_body env' q actor key (begin_session db')
      = (Inl (ValueError ''bulk decision only supports open candidates''), begin_session db')"
    by (simp add: bulk_decide_body_def bulk_candidates_def)
  with assms(4) show ?thesis
    by (simp add: bulk_decide_review_candidates_def session_scope_raises)
qed

section \<open>Histories of the review pipeline\<close>

text \<open>One call of the scoring and governance services, with whatever outcome.\<close>

inductive review_step :: "db \<Rightarrow> db \<Rightarrow> bool" where
  score: "create_candidate_score env r key db = (x, db') \<Longrightarrow> review_step db db'"
| approve: "approve_review_candidate env q key db = (x, db') \<Longrightarrow> review_step db db'"
| reject: "reject_review_candidate env q key db = (x, db') \<Longrightarrow> review_step db db'"
| bulk: "bulk_decide_review_candidates env b actor key db = (x, db') \<Longrightarrow> review_step db db'"
| edit: "update_crm_target env k u actor db = (x, db') \<Longrightarrow> review_step db db'"
| incident: "decide_incident env i key db = (x, db') \<Longrightarrow> review_step db db'"
| suppress: "create_suppression env s key db = (x, db') \<Longrightarrow> review_step db db'"

lemma request_score_review_tables:
  assumes "request_score_review env r s p db = (x, db')"
  shows "review_decisions db' = review_decisions db \<and> crm_targets db' = crm_targets db
    \<and> set (review_candidates db) \<subseteq> set (review_candidates db')"
  using assms
  by (auto simp: request_score_review_def draw_uuid_def Let_def add_review_candidate_def
      dest!: flush_written split: sum.splits option.splits)

lemma create_candidate_score_body_tables:
  assumes "create_candidate_score_body env r key db = (Inr s, db')"
  shows "review_decisions db' = review_decisions db" and "crm_targets db' = crm_targets db"
    and "set (review_candidates db) \<subseteq> set (review_candidates db')"
  using assms
  by (auto simp: create_candidate_score_body_def draw_uuid_def Let_def add_candidate_score_def
      dest!: flush_written request_score_review_tables split: sum.splits option.splits if_splits prod.splits)

lemma create_candidate_score_body_backed:
  assumes "create_candidate_score_body env r key db = (Inr s, db')" and "targets_backed db"
  shows "targets_backed db'"
  using create_candidate_score_body_tables [OF assms(1)]
  by (intro decisions_only_backed [OF assms(2)]) simp_all

lemma create_suppression_body_backed:
  assumes "create_suppression_body env q key db = (Inr s, db')" and "targets_backed db"
  shows "targets_backed db'"
  using assms
  by (auto simp: create_suppression_body_def draw_uuid_def Let_def add_suppression_def targets_backed_def
      dest!: flush_written split: sum.splits option.splits)

lemma decide_incident_body_backed:
  assumes "decide_incident_body env q key db = (Inr r, db')" and "targets_backed db"
  shows "targets_backed db'"
proof (cases "existing_decision key db")
  case None
  from incident_session_new [OF assms(1) [unfolded decide_incident_body_def] None] show ?thesis
  proof (elim disjE conjE exE)
    fix i d assume "incident_act (fst q) env (snd q) key i db = (Inr d, db')"
    then obtain m where "incident_moved key (new_status (fst q)) m i d db db'" by (rule incident_act_moved)
    then show ?thesis
      by (intro decisions_only_backed [OF assms(2)]) (auto simp: incident_moved_def)
  qed (use assms(2) in simp)
qed (use assms in \<open>simp add: decide_incident_body_def incident_session_def\<close>)

interpretation review_history: step_system review_step "\<lambda>db. constraints_ok db \<and> targets_backed db"
proof
  fix db db'
  assume step: "review_step db db'" and inv: "constraints_ok db \<and> targets_backed db"
  have dist: "distinct (map rc_id (review_candidates (begin_session db)))"
    using inv by (simp add: constraints_review_ids)
  from step show "constraints_ok db' \<and> targets_backed db'"
  proof cases
    case (score env r key x)
    with inv show ?thesis
      by (auto simp: create_candidate_score_def dest: session.constraints_after
          intro!: session_keeps_backed [OF _ _ score(1) [unfolded create_candidate_score_def]]
          elim: create_candidate_score_body_backed)
  next
    case (approve env q key x)
    with inv dist show ?thesis
      by (auto simp: approve_review_candidate_def dest: session.constraints_after
          intro!: session_keeps_backed [OF _ _ approve(1) [unfolded approve_review_candidate_def]]
          elim: decide_candidate_body_backed)
  next
    case (reject env q key x)
    with inv dist show ?thesis
      by (auto simp: reject_review_candidate_def dest: session.constraints_after
          intro!: session_keeps_backed [OF _ _ reject(1) [unfolded reject_review_candidate_def]]
          elim: decide_candidate_body_backed)
  next
    case (bulk env b actor key x)
    with inv dist show ?thesis
      by (auto simp: bulk_decide_review_candidates_def dest: session.constraints_after
          intro!: session_keeps_backed [OF _ _ bulk(1) [unfolded bulk_decide_review_candidates_def]]
          elim: bulk_decide_body_backed)
  next
    case (edit env k u actor x)
    with inv show ?thesis
      by (auto simp: update_crm_target_def dest: session.constraints_after
          intro!: session_keeps_backed [OF _ _ edit(1) [unfolded update_crm_target_def]]
          elim: update_crm_target_body_backed)
  next
    case (incident env i key x)
    with inv show ?thesis
      by (auto simp: decide_incident_def dest: session.constraints_after
          intro!: session_keeps_backed [OF _ _ incident(1) [unfolded decide_incident_def]]
          elim: decide_incident_body_backed)
  next
    case (suppress env s key x)
    with inv show ?thesis
      by (auto simp: create_suppression_def dest: session.constraints_after
          intro!: session_keeps_backed [OF _ _ suppress(1) [unfolded create_suppression_def]]
          elim: create_suppression_body_backed)
  qed
qed

text \<open>C20: Nothing reaches the CRM queue without a human approval: from a state where
  this holds, after any sequence of scoring and governance calls with any outcomes, every CRM
  target points to a recorded approval of its own target and to a review candidate that stands
  approved.\<close>

theorem targets_always_backed:
  assumes "review_step\<^sup>*\<^sup>* db db'" and "constraints_ok db" and "targets_backed db"
  shows "\<forall>t \<in> set (crm_targets db'). \<exists>d \<in> set (review_decisions db'). \<exists>c \<in> set (review_candidates db').
    tgt_review_decision_id t = Some (rd_id d) \<and> rd_decision d = ''approved''
    \<and> rd_review_candidate_id d = Some (rc_id c) \<and> tgt_review_candidate_id t = Some (rc_id c)
    \<and> rc_status c = ''approved'' \<and> rd_target_type d = tgt_target_type t \<and> rd_target_id d = tgt_target_id t"
  using review_history.inv_history [OF assms(1)] assms(2,3)
  by (simp add: targets_backed_def list_all_iff target_backed_def)

end
