(* ===== verification/Governance_Examples.thy ===== *)
theory Governance_Examples
  imports Governance
begin

text \<open>
  Concrete runs of the governance operations: each theorem of the component is applied to a
  small store where its hypotheses hold.
\<close>

section \<open>Examples\<close>

definition sample_candidate :: "string \<Rightarrow> ReviewCandidate" where
  "sample_candidate i =
     \<lparr>rc_id = i, rc_candidate_type = ''scoring'', rc_target_type = ''contact'', rc_target_id = ''c1'',
      rc_origin_type = None, rc_origin_id = None, rc_source_definition_id = Some ''sd1'',
      rc_source_item_ids = [JStr ''si1''], rc_status = ''open'', rc_reason_code = ''score_requires_review'',
      rc_reason = None, rc_evidence_summary = [],
      rc_policy_snapshot = [(''lawful_basis'', JStr ''legitimate_interest'')],
      rc_policy_snapshot_hash = None, rc_sla_due_at = None, rc_idempotency_key = ''rk-'' @ i,
      rc_version = 1, rc_created_at = 0, rc_updated_at = 0\<rparr>"

definition sample_incident :: SecurityIncident where
  "sample_incident =
     \<lparr>inc_id = ''i1'', inc_status = ''candidate'', inc_title = ''breach'', inc_incident_group_key = None,
      inc_primary_affected_company = None, inc_primary_affected_domain = None,
      inc_affected_companies = [], inc_affected_domains = [], inc_incident_type = None,
      inc_attack_vector = None, inc_first_observed_at = None, inc_last_observed_at = None,
      inc_geography = [], inc_languages = [], inc_confidence = 0, inc_evidence_article_ids = [],
      inc_evidence_source_item_ids = [], inc_evidence_families = [], inc_evidence_urls = [],
      inc_corroboration_method = ''none'', inc_analyst_decision_ref = None,
      inc_canonical_state = ''canonical'', inc_dedupe_key = ''dk1'', inc_source_definition_id = None,
      inc_source_item_ids = [], inc_version = 1, inc_created_at = 0, inc_updated_at = 0\<rparr>"

definition review_db :: db where
  "review_db = empty_db
     \<lparr>review_candidates := [sample_candidate ''r1'', sample_candidate ''r2'',
        (sample_candidate ''r3'')\<lparr>rc_source_definition_id := None\<rparr>],
      security_incidents := [sample_incident]\<rparr>"

definition sample_decision :: "string \<Rightarrow> decision_call" where
  "sample_decision i =
     \<lparr>dcl_candidate_id = i,
      dcl_request = \<lparr>rdr_version = 1, rdr_reason_code = ''fit'', rdr_reason = None,
        rdr_policy_snapshot_hash = None, rdr_evidence_snapshot = [], rdr_target_scope = ''crm_export''\<rparr>,
      dcl_actor = ''alex''\<rparr>"

definition sample_bulk :: BulkReviewDecisionRequest where
  "sample_bulk =
     \<lparr>bdr_candidate_ids = [''r1'', ''r2''], bdr_decision = APPROVED,
      bdr_candidate_versions = [(''r1'', 1), (''r2'', 1)], bdr_reason_code = ''fit'', bdr_reason = None,
      bdr_policy_snapshot_hash = None, bdr_evidence_snapshot = []\<rparr>"

definition sample_incident_call :: incident_call where
  "sample_incident_call =
     \<lparr>icl_incident_id = ''i1'',
      icl_request = \<lparr>idr_version = 1, idr_method = INDEPENDENT_SOURCES, idr_reason_code = ''two-sources'',
        idr_reason = None, idr_evidence_snapshot = [(''independent_source_count'', JInt 2)],
        idr_policy_snapshot = []\<rparr>,
      icl_actor = ''alex''\<rparr>"

definition sample_suppression :: SuppressionCreate where
  "sample_suppression =
     \<lparr>scr_email = Some ''Dana@Example.com'', scr_domain = None, scr_contact_id = None, scr_channel = ''email'',
      scr_target_type = None, scr_target_id = None, scr_reason = ''opt-out'', scr_source = ''governance'',
      scr_active = True, scr_expires_at = None, scr_policy_snapshot = []\<rparr>"

text \<open>A store that holds the review of an earlier score.\<close>

definition scored_db :: db where
  "scored_db = empty_db
     \<lparr>review_candidates := [(sample_candidate ''r1'')
        \<lparr>rc_idempotency_key := ''review:scoring:s0:score_requires_review''\<rparr>]\<rparr>"

theorem score_opens_review_witness:
  "\<exists>s db' c. create_candidate_score example_env sample_request ''k1'' scored_db = (Inr s, db')
     \<and> review_candidates db' = review_candidates scored_db @ [c] \<and> rc_status c = ''open'' \<and> rc_target_id c = ''c1''
     \<and> rc_idempotency_key c = ''review:scoring:u:'' @ rc_reason_code c"
proof -
  have "succeeds (create_candidate_score example_env sample_request ''k1'' scored_db)
      (\<lambda>s db'. 40 \<le> cs_composite_score s \<and> cs_id s = ''u'')"
    and b: "policy_blockers_for_score sample_request = Inr []" by code_simp+
  then obtain s db' where run: "create_candidate_score example_env sample_request ''k1'' scored_db = (Inr s, db')"
      and c: "40 \<le> cs_composite_score s" and s: "cs_id s = ''u''" by (auto elim!: succeedsE)
  have new: "score_with_key ''k1'' scored_db = None"
    and fresh: "\<forall>reason. review_with_key (''review:scoring:'' @ cs_id s @ '':'' @ reason) scored_db = None"
    by (simp_all add: score_with_key_def scored_db_def empty_db_def review_with_key_def s)
  from score_opens_review [OF run new fresh] run b c s show ?thesis
    by (auto simp: sample_request_def)
qed

lemma review_db_ok: "constraints_ok review_db" and review_db_backed: "targets_backed review_db"
  and review_db_keys: "existing_decision key review_db = None" "suppression_with_key key review_db = None"
  by (simp_all add: constraints_ok_def review_db_def empty_db_def sample_candidate_def sample_incident_def
      List.map_filter_def targets_backed_def existing_decision_def suppression_with_key_def)

lemma sample_approval:
  obtains d db' where "approve_review_candidate example_env (sample_decision ''r1'') ''k1'' review_db = (Inr (Some d), db')"
    and "existing_decision ''k2'' db' = None"
proof -
  have "succeeds (approve_review_candidate example_env (sample_decision ''r1'') ''k1'' review_db)
      (\<lambda>r db'. r \<noteq> None \<and> existing_decision ''k2'' db' = None)" by code_simp
  then show thesis using that by (auto elim!: succeedsE)
qed

theorem approval_creates_target_witness:
  "\<exists>d db' t. approve_review_candidate example_env (sample_decision ''r1'') ''k1'' review_db = (Inr (Some d), db')
     \<and> crm_targets db' = [t] \<and> tgt_review_decision_id t = Some (rd_id d) \<and> tgt_target_id t = ''c1''"
proof -
  obtain d db' where run: "approve_review_candidate example_env (sample_decision ''r1'') ''k1'' review_db = (Inr (Some d), db')"
    by (rule sample_approval)
  from approval_creates_target [OF run review_db_keys(1)] run show ?thesis
    by (auto simp: review_db_def empty_db_def get_review_candidate_def row_get_def sample_decision_def
        sample_candidate_def)
qed

theorem decided_once_witness:
  "\<exists>d db'. approve_review_candidate example_env (sample_decision ''r1'') ''k1'' review_db = (Inr (Some d), db')
     \<and> reject_review_candidate example_env (sample_decision ''r1'') ''k2'' db'
         = (Inl (ValueError ''review candidate is not open''), db')"
proof -
  obtain d db' where run: "approve_review_candidate example_env (sample_decision ''r1'') ''k1'' review_db = (Inr (Some d), db')"
      and k2: "existing_decision ''k2'' db' = None" by (rule sample_approval)
  from decided_once [OF disjI1 [OF run] review_db_keys(1) refl k2 admitted_example] run show ?thesis by blast
qed

theorem blocked_not_approved_witness:
  "approve_review_candidate example_env (sample_decision ''r3'') ''k1'' review_db
     = (Inl (ValueError ''policy blockers: missing_source_lineage''), review_db)"
proof -
  let ?c = "(sample_candidate ''r3'')\<lparr>rc_source_definition_id := None\<rparr>"
  have c: "get_review_candidate (dcl_candidate_id (sample_decision ''r3'')) review_db = Some ?c"
    by (simp add: get_review_candidate_def row_get_def review_db_def sample_decision_def sample_candidate_def)
  have v: "validate_candidate_decision example_env ?c (dcl_request (sample_decision ''r3'')) = None"
    and b: "review_policy_blockers ?c = [''missing_source_lineage'']" by code_simp+
  from blocked_not_approved [OF c v _ review_db_keys(1) admitted_example, of "''k1''"] show ?thesis
    by (simp add: b join_def)
qed

theorem incident_no_lost_update_witness:
  "\<exists>r db'. decide_incident example_env (CORROBORATE, sample_incident_call) ''k1'' review_db = (Inr r, db')
     \<and> decide_incident example_env (REJECT_INCIDENT, sample_incident_call) ''k2'' db'
         = (Inl (ValueError ''stale optimistic version''), db')"
proof -
  have "succeeds (decide_incident example_env (CORROBORATE, sample_incident_call) ''k1'' review_db)
      (\<lambda>r db'. review_decisions db' \<noteq> [] \<and> existing_decision ''k2'' db' = None)" by code_simp
  then obtain r db' where run: "decide_incident example_env (CORROBORATE, sample_incident_call) ''k1'' review_db = (Inr r, db')"
      and "review_decisions db' \<noteq> []" and k2: "existing_decision ''k2'' db' = None" by (auto elim: succeedsE)
  then have "db' \<noteq> review_db" by (auto simp: review_db_def empty_db_def)
  from incident_no_lost_update [OF run review_db_keys(1) this _ _ k2 admitted_example,
      of "(REJECT_INCIDENT, sample_incident_call)"] run
  show ?thesis by auto
qed

theorem corroboration_guarded_witness:
  "\<exists>d db' i. corroborate_incident example_env sample_incident_call ''k1'' review_db = (Inr (Some d), db')
     \<and> get_incident ''i1'' db' = Some i \<and> inc_status i = ''corroborated'' \<and> inc_version i = 2"
proof -
  have "succeeds (corroborate_incident example_env sample_incident_call ''k1'' review_db) (\<lambda>r db'. r \<noteq> None)"
    by code_simp
  then obtain d db' where run: "corroborate_incident example_env sample_incident_call ''k1'' review_db = (Inr (Some d), db')"
    by (auto elim!: succeedsE)
  with corroboration_guarded [of "''k1''" review_db example_env sample_incident_call d db', OF review_db_keys(1)]
  show ?thesis
    by (auto simp: sample_incident_call_def)
qed

definition sample_check :: SuppressionCheckRequest where
  "sample_check = \<lparr>sck_email = Some ''dana@example.COM'', sck_domain = None, sck_contact_id = None,
     sck_channel = ''Email''\<rparr>"

theorem suppression_decision_witness:
  "\<exists>res. evaluate_suppression_with_store example_env sample_check review_db = (Inr res, review_db)
     \<and> scx_allowed res"
proof -
  have "\<not> (str_or (sck_email sample_check) [] \<noteq> []
        \<and> py_lower (before_first (CHR ''@'') (str_or (sck_email sample_check) [])) \<in> ROLE_BASED_PREFIXES)
      \<and> py_lower (sck_channel sample_check) \<in> SUPPORTED_CHANNELS \<and> suppressions review_db = []"
    by code_simp
  with suppression_decision [OF admitted_example review_db_ok, of sample_check] show ?thesis by auto
qed

theorem suppression_takes_effect_witness:
  "\<exists>s db' res. create_suppression example_env (sample_suppression, ''alex'') ''k1'' review_db = (Inr s, db')
     \<and> evaluate_suppression_with_store example_env sample_check db' = (Inr res, db') \<and> \<not> scx_allowed res"
proof -
  have "succeeds (create_suppression example_env (sample_suppression, ''alex'') ''k1'' review_db) (\<lambda>s db'. True)"
    by code_simp
  then obtain s db' where run: "create_suppression example_env (sample_suppression, ''alex'') ''k1'' review_db = (Inr s, db')"
    by (rule succeedsE)
  have l: "py_lower ''dana@example.COM'' = py_lower ''Dana@Example.com''"
    and ch: "py_lower (sck_channel sample_check) = py_lower (scr_channel sample_suppression)"
    and e: "str_or (sck_email sample_check) [] = ''dana@example.COM''" by code_simp+
  show ?thesis
    using suppression_takes_effect [OF run review_db_keys(2) _ _ _ _ e l ch review_db_ok admitted_example] run
    by (auto simp: sample_suppression_def)
qed

lemma sample_bulk_fresh:
  "\<forall>k \<in> set (bdr_candidate_ids sample_bulk). existing_decision (''k1'' @ '':'' @ k) review_db = None"
  by (simp add: review_db_keys)

lemma sample_bulk_runs:
  obtains ds db' where "bulk_decide_review_candidates example_env sample_bulk ''alex'' ''k1'' review_db = (Inr ds, db')"
proof -
  have "succeeds (bulk_decide_review_candidates example_env sample_bulk ''alex'' ''k1'' review_db) (\<lambda>s db'. True)"
    by code_simp
  then show thesis using that by (auto elim!: succeedsE)
qed

theorem bulk_decides_all_witness:
  "\<exists>ds db' c. bulk_decide_review_candidates example_env sample_bulk ''alex'' ''k1'' review_db = (Inr ds, db')
     \<and> length ds = 2 \<and> get_review_candidate ''r2'' db' = Some c \<and> rc_status c = ''approved''"
proof -
  obtain ds db' where run: "bulk_decide_review_candidates example_env sample_bulk ''alex'' ''k1'' review_db = (Inr ds, db')"
    by (rule sample_bulk_runs)
  from bulk_decides_all [OF review_db_ok sample_bulk_fresh, of example_env "''alex''"] run show ?thesis
    by (auto simp: sample_bulk_def)
qed

theorem bulk_replay_raises_witness:
  "\<exists>ds db'. bulk_decide_review_candidates example_env sample_bulk ''alex'' ''k1'' review_db = (Inr ds, db')
     \<and> bulk_decide_review_candidates example_env sample_bulk ''alex'' ''k1'' db'
         = (Inl (ValueError ''bulk decision only supports open candidates''), db')"
proof -
  obtain ds db' where run: "bulk_decide_review_candidates example_env sample_bulk ''alex'' ''k1'' review_db = (Inr ds, db')"
    by (rule sample_bulk_runs)
  from bulk_replay_raises [OF run review_db_ok sample_bulk_fresh admitted_example] run show ?thesis by blast
qed

theorem targets_always_backed_witness:
  "\<exists>db' t d. review_step\<^sup>*\<^sup>* review_db db' \<and> t \<in> set (crm_targets db') \<and> d \<in> set (review_decisions db')
     \<and> tgt_review_decision_id t = Some (rd_id d) \<and> rd_decision d = ''approved''"
proof -
  have "succeeds (approve_review_candidate example_env (sample_decision ''r1'') ''k1'' review_db)
      (\<lambda>r db'. crm_targets db' \<noteq> [])" by code_simp
  then obtain r db' where run: "approve_review_candidate example_env (sample_decision ''r1'') ''k1'' review_db = (Inr r, db')"
      and "crm_targets db' \<noteq> []" by (auto elim: succeedsE)
  then obtain t where t: "t \<in> set (crm_targets db')" by (cases "crm_targets db'") auto
  have h: "review_step\<^sup>*\<^sup>* review_db db'" by (rule r_into_rtranclp) (rule review_step.approve [OF run])
  from targets_always_backed [OF h review_db_ok review_db_backed] t h show ?thesis by blast
qed

end
