(* ===== verification/Templating.thy ===== *)
theory Templating
  imports Governance
begin

text \<open>
  The text helpers of the sequencing service (\<open>services/sequencing/templating.py\<close> and the
  fuzzy filter of \<open>services/sequencing/eligibility.py\<close>), with what they use of Python's
  format strings and of the database's \<open>ILIKE\<close>.

  A template is parsed the way \<open>string.Formatter().parse\<close> does: literal text with doubled
  braces, and replacement fields with an optional conversion and format specification.  A
  field that is a plain name is looked up in the values of the contact and the account, a
  missing one being the empty text.  What \<open>str.format_map\<close> makes of a field with an
  attribute or index, a conversion or a format specification is the parameter
  \<open>env_format_field\<close> of the environment.

  Shown here: a parsed template is exactly its text (nothing of a template is lost or
  duplicated), text without braces is sent as it is, a template with named fields only always
  renders, and the fuzzy filter is a case-insensitive substring test for text without the
  pattern characters.
\<close>

section \<open>Domains and summaries\<close>

definition domain_from_email :: "string option \<Rightarrow> string option" where
  "domain_from_email email =
     (let e = str_or email []
      in if e = [] \<or> CHR ''@'' \<notin> set e then None else Some (py_lower (after_last (CHR ''@'') e)))"

definition replace_char :: "char \<Rightarrow> char \<Rightarrow> string \<Rightarrow> string" where
  "replace_char a b s = map (\<lambda>c. if c = a then b else c) s"

text \<open>The separator is a middle dot between spaces, in UTF-8.\<close>

definition crm_target_summary :: "CrmTarget option \<Rightarrow> string option" where
  "crm_target_summary target =
     (case target of
        None \<Rightarrow> None
      | Some t \<Rightarrow>
          (let parts = [replace_char (CHR ''_'') (CHR '' '') (tgt_target_type t), tgt_target_id t]
                 @ (let origin = str_or (tgt_origin_type t) []
                    in if origin = [] then []
                       else [''from '' @ replace_char (CHR ''_'') (CHR '' '') origin])
           in Some (join [CHR '' '', CHR 0xC2, CHR 0xB7, CHR '' ''] (filter (\<lambda>p. p \<noteq> []) parts))))"

section \<open>The fuzzy filter\<close>

text \<open>\<open>LIKE\<close> of the database: \<open>%\<close> any text, \<open>_\<close> any one character, a backslash quotes the
  next pattern character.  \<open>ILIKE\<close> compares in lower case.\<close>

fun like :: "string \<Rightarrow> string \<Rightarrow> bool" where
  "like [] s = (s = [])"
| "like (c # p) [] = (c = CHR ''%'' \<and> like p [])"
| "like (c # p) (d # s) =
     (if c = CHR ''%'' then like p (d # s) \<or> like (c # p) s
      else if c = CHR ''_'' then like p s
      else if c = CHR 0x5C \<and> p \<noteq> [] then d = hd p \<and> like (tl p) s
      else d = c \<and> like p s)"

definition ilike :: "string \<Rightarrow> string \<Rightarrow> bool" where
  "ilike pattern s = like (py_lower pattern) (py_lower s)"

definition fuzzy :: "string \<Rightarrow> string option \<Rightarrow> bool" where
  "fuzzy column value = ilike (''%'' @ py_strip (str_or value []) @ ''%'') column"

section \<open>Format strings\<close>

datatype piece =
    Lit string
  | Field string "char option" string

definition quoted :: "char \<Rightarrow> string" where
  "quoted c = [CHR 0x27, c, CHR 0x27]"

text \<open>
  The scan of a field name, after the opening brace: up to a closing brace, a colon or an
  exclamation mark, skipping what stands between square brackets.  It returns the name, the
  character that ended it and the rest of the text.
\<close>

fun scan_name :: "bool \<Rightarrow> string \<Rightarrow> error + string \<times> char option \<times> string" where
  "scan_name inside [] = Inr ([], None, [])"
| "scan_name inside (c # s) =
     (if inside then
        (case scan_name (c \<noteq> CHR '']'') s of
           Inl e \<Rightarrow> Inl e
         | Inr (n, k, r) \<Rightarrow> Inr (c # n, k, r))
      else if c = CHR ''{''
      then Inl (ValueError (''unexpected '' @ quoted (CHR ''{'') @ '' in field name''))
      else if c = CHR ''}'' \<or> c = CHR '':'' \<or> c = CHR ''!'' then Inr ([], Some c, s)
      else case scan_name (c = CHR ''['') s of
             Inl e \<Rightarrow> Inl e
           | Inr (n, k, r) \<Rightarrow> Inr (c # n, k, r))"

text \<open>A format specification runs to the brace that balances the opening one.\<close>

fun scan_spec :: "nat \<Rightarrow> string \<Rightarrow> (string \<times> string) option" where
  "scan_spec d [] = None"
| "scan_spec d (c # s) =
     (if c = CHR ''}'' \<and> d = 0 then Some ([], s)
      else map_option (\<lambda>(sp, r). (c # sp, r))
             (scan_spec (if c = CHR ''{'' then Suc d else if c = CHR ''}'' then d - 1 else d) s))"

definition finish_spec :: "string \<Rightarrow> char option \<Rightarrow> string \<Rightarrow> error + piece \<times> string" where
  "finish_spec name conv s =
     (case scan_spec 0 s of
        None \<Rightarrow> Inl (ValueError (''unmatched '' @ quoted (CHR ''{'') @ '' in format spec''))
      | Some (sp, r) \<Rightarrow> Inr (Field name conv sp, r))"

definition parse_field :: "string \<Rightarrow> error + piece \<times> string" where
  "parse_field s =
     (case scan_name False s of
        Inl e \<Rightarrow> Inl e
      | Inr (name, None, r) \<Rightarrow>
          Inl (ValueError (''expected '' @ quoted (CHR ''}'') @ '' before end of string''))
      | Inr (name, Some c, r) \<Rightarrow>
          if c = CHR ''}'' then Inr (Field name None [], r)
          else if c = CHR '':'' then finish_spec name None r
          else case r of
                 [] \<Rightarrow> Inl (ValueError ''end of string while looking for conversion specifier'')
               | [v] \<Rightarrow> finish_spec name (Some v) []
               | v # k # r' \<Rightarrow>
                   if k = CHR ''}'' then Inr (Field name (Some v) [], r')
                   else if k = CHR '':'' then finish_spec name (Some v) r'
                   else Inl (ValueError (''expected '' @ quoted (CHR '':'')
                               @ '' after conversion specifier'')))"

lemma scan_name_shorter: "scan_name b s = Inr (n, k, r) \<Longrightarrow> length r \<le> length s"
  by (induction b s arbitrary: n k r rule: scan_name.induct)
     (auto split: if_splits sum.splits prod.splits intro: le_SucI)

lemma scan_spec_shorter: "scan_spec d s = Some (sp, r) \<Longrightarrow> length r \<le> length s"
  by (induction d s arbitrary: sp r rule: scan_spec.induct)
     (auto split: if_splits intro: le_SucI)

lemma finish_spec_shorter: "finish_spec n v s = Inr (f, r) \<Longrightarrow> length r \<le> length s"
  by (auto simp: finish_spec_def dest: scan_spec_shorter split: option.splits)

lemma parse_field_shorter: "parse_field s = Inr (f, r) \<Longrightarrow> length r \<le> length s"
  by (auto simp: parse_field_def dest!: scan_name_shorter finish_spec_shorter
      split: sum.splits prod.splits option.splits if_splits list.splits)

definition is_brace :: "char \<Rightarrow> bool" where
  "is_brace c = (c = CHR ''{'' \<or> c = CHR ''}'')"

definition lit_piece :: "string \<Rightarrow> piece list" where
  "lit_piece t = (if t = [] then [] else [Lit t])"

text \<open>\<open>Formatter().parse\<close>.\<close>

function parse_format :: "string \<Rightarrow> error + piece list" where
  "parse_format s =
     (let lit = takeWhile (\<lambda>c. \<not> is_brace c) s
      in case dropWhile (\<lambda>c. \<not> is_brace c) s of
           [] \<Rightarrow> Inr (lit_piece lit)
         | [c] \<Rightarrow> Inl (ValueError (''Single '' @ quoted c @ '' encountered in format string''))
         | c # d # r \<Rightarrow>
             if c = d then
               (case parse_format r of Inl e \<Rightarrow> Inl e | Inr ps \<Rightarrow> Inr (Lit (lit @ [c]) # ps))
             else if c = CHR ''}''
             then Inl (ValueError (''Single '' @ quoted c @ '' encountered in format string''))
             else (case parse_field (d # r) of
                     Inl e \<Rightarrow> Inl e
                   | Inr (f, r') \<Rightarrow>
                       (case parse_format r' of
                          Inl e \<Rightarrow> Inl e
                        | Inr ps \<Rightarrow> Inr (lit_piece lit @ f # ps))))"
  by pat_completeness auto
termination
proof (relation "measure length")
  fix s x c t d r
  assume "dropWhile (\<lambda>c. \<not> is_brace c) s = c # t" and "t = d # r"
  then show "(r, s) \<in> measure length"
    using length_dropWhile_le [of "\<lambda>c. \<not> is_brace c" s] by simp
next
  fix s x c t d r b f r'
  assume "dropWhile (\<lambda>c. \<not> is_brace c) s = c # t" and "t = d # r"
    and "parse_field (d # r) = Inr b" and "(f, r') = b"
  then show "(r', s) \<in> measure length"
    using length_dropWhile_le [of "\<lambda>c. \<not> is_brace c" s] parse_field_shorter [of "d # r" f r']
    by simp
qed auto

declare parse_format.simps [simp del]

text \<open>One replacement field of \<open>format_map(_SafeFormat(values))\<close>.\<close>

definition format_piece :: "env \<Rightarrow> (string \<times> string) list \<Rightarrow> piece \<Rightarrow> error + string" where
  "format_piece env values p =
     (case p of
        Lit t \<Rightarrow> Inr t
      | Field name conv spec \<Rightarrow>
          (let first = takeWhile (\<lambda>c. c \<noteq> CHR ''.'' \<and> c \<noteq> CHR ''['') name
           in if list_all is_digit first
              then Inl (ValueError ''Format string contains positional fields'')
              else if first = name \<and> conv = None \<and> spec = []
              then Inr (case map_of values name of None \<Rightarrow> [] | Some v \<Rightarrow> v)
              else env_format_field env values name conv spec))"

definition template_values :: "Contact \<Rightarrow> Account option \<Rightarrow> (string \<times> string) list" where
  "template_values contact account =
     [(''contact_full_name'', con_full_name contact),
      (''contact_first_name'', before_first (CHR '' '') (con_full_name contact)),
      (''contact_title'', str_or (con_title contact) []),
      (''account_company_name'', case account of None \<Rightarrow> [] | Some a \<Rightarrow> acc_company_name a),
      (''account_domain'', case account of None \<Rightarrow> [] | Some a \<Rightarrow> acc_domain a)]"

fun is_named_field :: "piece \<Rightarrow> bool" where
  "is_named_field (Lit _) = False"
| "is_named_field (Field name _ _) = (name \<noteq> [])"

definition render_template :: "env \<Rightarrow> string \<Rightarrow> Contact \<Rightarrow> Account option \<Rightarrow> error + string" where
  "render_template env template contact account =
     (case parse_format template of
        Inl e \<Rightarrow> Inl e
      | Inr ps \<Rightarrow>
          if \<not> list_ex is_named_field ps then Inr template
          else case collect (map (format_piece env (template_values contact account)) ps) of
                 Inl e \<Rightarrow> Inl e
               | Inr texts \<Rightarrow> Inr (concat texts))"

section \<open>Writing and rendering templates\<close>

text \<open>
  The template an author writes for a list of pieces: braces of the text doubled, fields as
  bare names.  The parser may cut the text differently, so parses are compared through the
  text they stand for.
\<close>

datatype token = Chr char | Fld string "char option" string

fun tokens :: "piece \<Rightarrow> token list" where
  "tokens (Lit t) = map Chr t"
| "tokens (Field n c sp) = [Fld n c sp]"

definition token_parse :: "string \<Rightarrow> error + token list" where
  "token_parse s = (case parse_format s of Inl e \<Rightarrow> Inl e | Inr ps \<Rightarrow> Inr (concat (map tokens ps)))"

definition prepend :: "token \<Rightarrow> error + token list \<Rightarrow> error + token list" where
  "prepend t x = (case x of Inl e \<Rightarrow> Inl e | Inr ts \<Rightarrow> Inr (t # ts))"

lemma prepend_simps [simp]: "prepend t (Inl e) = Inl e" "prepend t (Inr ts) = Inr (t # ts)"
  by (simp_all add: prepend_def)

definition escape :: "string \<Rightarrow> string" where
  "escape t = concat (map (\<lambda>c. if is_brace c then [c, c] else [c]) t)"

fun write_piece :: "piece \<Rightarrow> string" where
  "write_piece (Lit t) = escape t"
| "write_piece (Field n _ _) = ''{'' @ n @ ''}''"

definition plain_name :: "string \<Rightarrow> bool" where
  "plain_name n = (list_all (\<lambda>c. c \<notin> set ''{}[]:!.'') n \<and> \<not> list_all is_digit n)"

fun plain_piece :: "piece \<Rightarrow> bool" where
  "plain_piece (Lit _) = True"
| "plain_piece (Field n c sp) = (plain_name n \<and> c = None \<and> sp = [])"

lemma token_parse_Nil [simp]: "token_parse [] = Inr []"
  by (simp add: token_parse_def parse_format.simps [of "[]"] lit_piece_def)

lemma tokens_lit_piece [simp]: "concat (map tokens (lit_piece t)) = map Chr t"
  by (simp add: lit_piece_def)

definition prepends :: "token list \<Rightarrow> error + token list \<Rightarrow> error + token list" where
  "prepends ts x = foldr prepend ts x"

lemma prepends_Inr [simp]: "prepends ts (Inr us) = Inr (ts @ us)"
  by (induction ts) (simp_all add: prepends_def)

lemma prepends_simps [simp]:
  "prepends [] x = x" "prepends (t # ts) x = prepend t (prepends ts x)" "prepends ts (Inl e) = Inl e"
proof -
  show "prepends ts (Inl e) = Inl e" by (induction ts) (simp_all add: prepends_def)
qed (simp_all add: prepends_def)

lemma token_parse_unfold:
  "token_parse s =
     (let lit = takeWhile (\<lambda>c. \<not> is_brace c) s
      in case dropWhile (\<lambda>c. \<not> is_brace c) s of
           [] \<Rightarrow> Inr (map Chr lit)
         | [c] \<Rightarrow> Inl (ValueError (''Single '' @ quoted c @ '' encountered in format string''))
         | c # d # r \<Rightarrow>
             if c = d then prepends (map Chr lit) (prepend (Chr c) (token_parse r))
             else if c = CHR ''}''
             then Inl (ValueError (''Single '' @ quoted c @ '' encountered in format string''))
             else (case parse_field (d # r) of
                     Inl e \<Rightarrow> Inl e
                   | Inr (f, r') \<Rightarrow> prepends (map Chr lit @ tokens f) (token_parse r')))"
  by (subst token_parse_def, subst parse_format.simps)
     (simp add: Let_def token_parse_def del: dropWhile_eq_Cons_conv dropWhile_eq_Nil_conv
       split: list.split sum.split prod.split)

lemma token_parse_char:
  assumes "\<not> is_brace c"
  shows "token_parse (c # s) = prepend (Chr c) (token_parse s)"
  using assms
  by (subst (1 2) token_parse_unfold)
     (simp add: Let_def del: dropWhile_eq_Cons_conv dropWhile_eq_Nil_conv
       split: list.split sum.split prod.split)

lemma token_parse_brace:
  assumes "is_brace c"
  shows "token_parse (c # c # s) = prepend (Chr c) (token_parse s)"
  using assms by (subst token_parse_unfold) (simp add: Let_def)

lemma scan_plain:
  "list_all (\<lambda>c. c \<notin> set ''{}[]:!.'') n \<Longrightarrow> scan_name False (n @ ''}'' @ s) = Inr (n, Some (CHR ''}''), s)"
  by (induction n) auto

lemma token_parse_field:
  assumes "plain_name n"
  shows "token_parse (''{'' @ n @ ''}'' @ s) = prepend (Fld n None []) (token_parse s)"
proof -
  obtain d m where n: "n = d # m" using assms by (cases n) (auto simp: plain_name_def)
  with assms have "d \<noteq> CHR ''{''" by (auto simp: plain_name_def)
  moreover have "parse_field (d # m @ ''}'' @ s) = Inr (Field n None [], s)"
    using scan_plain [of n s] assms by (simp add: parse_field_def plain_name_def n)
  ultimately show ?thesis
    by (subst token_parse_unfold) (simp add: n Let_def is_brace_def)
qed

lemma token_parse_escape: "token_parse (escape t @ s) = prepends (map Chr t) (token_parse s)"
  by (induction t) (auto simp: escape_def prepends_def token_parse_char token_parse_brace)

lemma token_parse_write:
  "list_all plain_piece ps \<Longrightarrow>
     token_parse (concat (map write_piece ps)) = Inr (concat (map tokens ps))"
proof (induction ps)
  case (Cons p ps)
  then show ?case
    by (cases p) (auto simp: token_parse_escape token_parse_field [simplified])
qed simp

text \<open>Rendering depends on a parse only through its tokens.\<close>

fun format_token :: "env \<Rightarrow> (string \<times> string) list \<Rightarrow> token \<Rightarrow> error + string" where
  "format_token env values (Chr c) = Inr [c]"
| "format_token env values (Fld n c sp) = format_piece env values (Field n c sp)"

definition joined :: "(error + string) list \<Rightarrow> error + string" where
  "joined xs = (case collect xs of Inl e \<Rightarrow> Inl e | Inr ts \<Rightarrow> Inr (concat ts))"

lemma joined_Nil [simp]: "joined [] = Inr []"
  by (simp add: joined_def)

lemma joined_Cons:
  "joined (x # xs) = (case x of Inl e \<Rightarrow> Inl e
     | Inr t \<Rightarrow> (case joined xs of Inl e \<Rightarrow> Inl e | Inr u \<Rightarrow> Inr (t @ u)))"
  by (auto simp: joined_def split: sum.splits)

lemma joined_chars:
  "joined (map (format_token env values) (map Chr t) @ xs)
     = (case joined xs of Inl e \<Rightarrow> Inl e | Inr u \<Rightarrow> Inr (t @ u))"
  by (induction t) (auto simp: joined_Cons split: sum.splits)

lemma joined_tokens:
  "joined (map (format_piece env values) ps) = joined (map (format_token env values) (concat (map tokens ps)))"
proof (induction ps)
  case (Cons p ps)
  then show ?case
    by (cases p) (auto simp: joined_Cons joined_chars [simplified] format_piece_def split: sum.splits)
qed simp

fun is_named_token :: "token \<Rightarrow> bool" where
  "is_named_token (Chr _) = False"
| "is_named_token (Fld n _ _) = (n \<noteq> [])"

lemma named_field_tokens:
  "list_ex is_named_field ps = list_ex is_named_token (concat (map tokens ps))"
proof (induction ps)
  case (Cons p ps)
  then show ?case by (cases p) (auto simp: list_ex_iff)
qed simp

lemma render_template_joined:
  "render_template env template contact account =
     (case parse_format template of
        Inl e \<Rightarrow> Inl e
      | Inr ps \<Rightarrow> if \<not> list_ex is_named_field ps then Inr template
                  else joined (map (format_piece env (template_values contact account)) ps))"
  by (simp add: render_template_def joined_def cong: sum.case_cong if_cong)

lemma render_template_tokens:
  "render_template env template contact account =
     (case token_parse template of
        Inl e \<Rightarrow> Inl e
      | Inr ts \<Rightarrow>
          if \<not> list_ex is_named_token ts then Inr template
          else joined (map (format_token env (template_values contact account)) ts))"
  by (simp add: render_template_joined token_parse_def named_field_tokens joined_tokens split: sum.split)

fun piece_text :: "(string \<times> string) list \<Rightarrow> piece \<Rightarrow> string" where
  "piece_text values (Lit t) = t"
| "piece_text values (Field n _ _) = (case map_of values n of None \<Rightarrow> [] | Some v \<Rightarrow> v)"

lemma format_plain: "plain_piece p \<Longrightarrow> format_piece env values p = Inr (piece_text values p)"
proof (cases p)
  case (Field n c sp)
  moreover assume "plain_piece p"
  ultimately have "list_all (\<lambda>c. c \<notin> set ''{}[]:!.'') n" "\<not> list_all is_digit n" "c = None" "sp = []"
    by (auto simp: plain_name_def)
  moreover from this(1) have "takeWhile (\<lambda>c. c \<noteq> CHR ''.'' \<and> c \<noteq> CHR ''['') n = n"
    by (auto simp: takeWhile_eq_all_conv list_all_iff)
  ultimately show ?thesis using Field
    by (simp add: format_piece_def Let_def del: takeWhile_eq_all_conv)
qed (simp add: format_piece_def)

lemma joined_all_ok: "joined (map (\<lambda>p. Inr (f p)) ps) = Inr (concat (map f ps))"
  by (induction ps) (auto simp: joined_Cons)

text \<open>A template written from literal text (its braces doubled, as in Python
  format strings) and named fields always renders.  When it has a field, the mail is the
  text and the values of the contact and account in order, an unknown name giving nothing.
  When it has no field the template is sent as it was written, so doubled braces stay doubled.\<close>

theorem template_renders:
  assumes "list_all plain_piece ps"
  shows "render_template env (concat (map write_piece ps)) contact account =
     Inr (if list_ex is_named_field ps
          then concat (map (piece_text (template_values contact account)) ps)
          else concat (map write_piece ps))"
proof -
  have "map (format_piece env (template_values contact account)) ps
      = map (\<lambda>p. Inr (piece_text (template_values contact account) p)) ps"
    using assms by (auto simp: format_plain list_all_iff)
  then have "joined (map (format_piece env (template_values contact account)) ps)
      = Inr (concat (map (piece_text (template_values contact account)) ps))"
    by (simp only: joined_all_ok)
  then show ?thesis
    by (simp add: render_template_tokens token_parse_write [OF assms] named_field_tokens
        joined_tokens [symmetric])
qed

definition sample_contact :: Contact where
  "sample_contact =
     \<lparr>con_id = ''p1'', con_crm_contact_id = None, con_account_id = None, con_full_name = ''Dana Reyes'',
      con_title = Some ''CISO'', con_seniority = None, con_function = None,
      con_email = Some ''dana@acme.io'', con_email_status = Some ''verified'', con_phone = None,
      con_linkedin_url = None, con_timezone = None, con_persona_type = None, con_buying_role = None,
      con_last_enriched_at = None, con_do_not_contact_flag = False,
      con_lawful_basis = Some ''legitimate_interest'', con_source_vendor = None,
      con_source_confidence = 80, con_source_url = None, con_source_definition_id = None,
      con_source_item_ids = [], con_origin_type = None, con_origin_id = None,
      con_source_policy_snapshot = [], con_review_status = ''approved'', con_review_reason = None,
      con_idempotency_key = None, con_version = 1, con_created_at = 0, con_updated_at = 0\<rparr>"

theorem template_renders_witness:
  "render_template example_env ''Hi {contact_first_name} {{team}}'' sample_contact None = Inr ''Hi Dana {team}''
   \<and> render_template example_env ''Hi {{team}}'' sample_contact None = Inr ''Hi {{team}}''"
proof -
  let ?ps = "[Lit ''Hi '', Field ''contact_first_name'' None [], Lit '' {team}'']"
  have ps: "list_all plain_piece ?ps" and w: "concat (map write_piece ?ps) = ''Hi {contact_first_name} {{team}}''"
    and t: "concat (map (piece_text (template_values sample_contact None)) ?ps) = ''Hi Dana {team}''"
    by code_simp+
  have qs: "list_all plain_piece [Lit ''Hi {team}'']" and v: "concat (map write_piece [Lit ''Hi {team}'']) = ''Hi {{team}}''"
    by code_simp+
  show ?thesis
    using template_renders [OF ps, of example_env sample_contact None]
      template_renders [OF qs, of example_env sample_contact None]
    unfolding w t v by simp
qed

section \<open>The fuzzy filter is a substring test\<close>

definition plain_text :: "string \<Rightarrow> bool" where
  "plain_text t = list_all (\<lambda>c. c \<noteq> CHR ''%'' \<and> c \<noteq> CHR ''_'' \<and> c \<noteq> CHR 0x5C) t"

lemma like_any [simp]: "like ''%'' s"
  by (induction s) auto

lemma like_prefix: "plain_text t \<Longrightarrow> like (t @ ''%'') s \<longleftrightarrow> take (length t) s = t"
proof (induction t arbitrary: s)
  case (Cons c t)
  then show ?case by (cases s) (auto simp: plain_text_def)
qed simp

lemma like_substring: "plain_text t \<Longrightarrow> like (''%'' @ t @ ''%'') s \<longleftrightarrow> is_substring t s"
proof (induction s)
  case Nil
  then show ?case using like_prefix [of t "[]"] by (cases t) (auto simp: plain_text_def)
next
  case (Cons d s)
  then show ?case using like_prefix [of t "d # s"] by simp
qed

text \<open>A list filter whose text has no pattern character keeps exactly the rows
  whose column contains the trimmed text, letter case aside.\<close>

theorem fuzzy_substring:
  assumes "plain_text (py_lower (py_strip (str_or value [])))"
  shows "fuzzy column value = is_substring (py_lower (py_strip (str_or value []))) (py_lower column)"
proof -
  have "py_lower ''%'' = ''%''" by code_simp
  then show ?thesis
    using like_substring [OF assms, of "py_lower column"]
    unfolding fuzzy_def ilike_def py_lower_append by simp
qed

theorem fuzzy_substring_witness:
  "fuzzy ''pending_approval'' (Some '' Pending '') \<and> \<not> fuzzy ''active'' (Some ''paused'')"
proof -
  have a: "plain_text (py_lower (py_strip (str_or (Some '' Pending '') [])))"
    and b: "plain_text (py_lower (py_strip (str_or (Some ''paused'') [])))"
    and c: "is_substring (py_lower (py_strip (str_or (Some '' Pending '') []))) (py_lower ''pending_approval'')"
    and d: "\<not> is_substring (py_lower (py_strip (str_or (Some ''paused'') []))) (py_lower ''active'')"
    by code_simp+
  show ?thesis
    using fuzzy_substring [OF a, of "''pending_approval''"] fuzzy_substring [OF b, of "''active''"] c d
    by blast
qed

end
