(* ===== verification/Sequencing.thy ===== *)
theory Sequencing
  imports Templating
begin

text \<open>
  Outreach sequences (\<open>services/sequencing\<close>: \<open>common.py\<close>, \<open>eligibility.py\<close>, \<open>policy.py\<close>,
  \<open>queries.py\<close>, \<open>state.py\<close>, \<open>definitions.py\<close>, \<open>enrollments.py\<close>, \<open>scheduler.py\<close>): the
  definition of a sequence and its versions, the enrollment of a contact, and the scheduler
  that prepares the next step of every due enrollment.

  An attribute assignment on a loaded enrollment is \<open>put_enrollment\<close> of the changed row, and
  the helpers that change it return it.  A response model is the dictionary it is built from;
  the checks of the model that can fail on a stored row (the enumerated columns and the
  addresses) are written out and raise \<open>ValidationError\<close>.
\<close>

section \<open>Requests and responses\<close>

datatype SequenceStatus = SS_ACTIVE | SS_PAUSED | SS_ARCHIVED

fun sequence_status_value :: "SequenceStatus \<Rightarrow> string" where
  "sequence_status_value SS_ACTIVE = ''active''"
| "sequence_status_value SS_PAUSED = ''paused''"
| "sequence_status_value SS_ARCHIVED = ''archived''"

datatype SequenceChannel = EMAIL | CALL | GOOGLE_MEET

fun channel_value :: "SequenceChannel \<Rightarrow> string" where
  "channel_value EMAIL = ''email''"
| "channel_value CALL = ''call''"
| "channel_value GOOGLE_MEET = ''google_meet''"

text \<open>The values of the enumerations that response models check.\<close>

definition SequenceStatuses :: "string set" where
  "SequenceStatuses = {''active'', ''paused'', ''archived''}"

definition SequenceChannels :: "string set" where
  "SequenceChannels = {''email'', ''call'', ''google_meet''}"

definition SequenceEnrollmentStatuses :: "string set" where
  "SequenceEnrollmentStatuses =
     {''active'', ''paused'', ''completed'', ''canceled'', ''suppressed'', ''failed''}"

definition OutboundEmailStatuses :: "string set" where
  "OutboundEmailStatuses =
     {''pending'', ''pending_approval'', ''sent'', ''failed_retryable'', ''failed_terminal'',
      ''skipped_policy''}"

definition SequenceActivityStatuses :: "string set" where
  "SequenceActivityStatuses =
     {''pending_approval'', ''pending'', ''approved'', ''completed'', ''scheduled'', ''canceled'',
      ''failed''}"

record SequenceEligibilityRequest =
  elq_contact :: dict
  elq_score :: ScoreResult
  elq_suppression :: SuppressionCheckResult

record SequenceEligibilityResult =
  elr_eligible :: bool
  elr_next_action :: string
  elr_requires_approval :: bool
  elr_reasons :: "string list"

record SequenceStepCreate =
  stc_step_order :: "int option"
  stc_delay_seconds :: int
  stc_subject_template :: "string option"
  stc_body_template :: "string option"
  stc_channel :: SequenceChannel
  stc_requires_approval :: "bool option"
  stc_step_metadata :: dict

definition validate_channel_content :: "SequenceStepCreate \<Rightarrow> error option" where
  "validate_channel_content q =
     (if stc_channel q = EMAIL then
        (if py_strip (str_or (stc_subject_template q) []) = []
         then Some (ValueError ''email sequence steps require a subject template'')
         else if py_strip (str_or (stc_body_template q) []) = []
         then Some (ValueError ''email sequence steps require a body template'')
         else None)
      else None)"

definition SequenceStepCreate_init :: "SequenceStepCreate \<Rightarrow> error option" where
  "SequenceStepCreate_init q =
     (if (case stc_step_order q of None \<Rightarrow> False | Some i \<Rightarrow> i < 1) \<or> stc_delay_seconds q < 0
         \<or> (case stc_subject_template q of None \<Rightarrow> False | Some t \<Rightarrow> 512 < length t)
      then Some ValidationError else validate_channel_content q)"

record SequenceCreateRequest =
  scq_name :: string
  scq_owner_id :: "string option"
  scq_channel :: SequenceChannel
  scq_rate_limit_policy :: dict
  scq_steps :: "SequenceStepCreate list"

definition SequenceCreateRequest_ok :: "SequenceCreateRequest \<Rightarrow> bool" where
  "SequenceCreateRequest_ok q =
     (1 \<le> length (scq_name q) \<and> length (scq_name q) \<le> 255
      \<and> 1 \<le> length (scq_steps q) \<and> length (scq_steps q) \<le> 20
      \<and> list_all (\<lambda>s. SequenceStepCreate_init s = None) (scq_steps q))"

record SequenceUpdateRequest =
  suq_name :: "string option"
  suq_owner_id :: "string option"
  suq_channel :: "SequenceChannel option"
  suq_status :: "SequenceStatus option"
  suq_rate_limit_policy :: "dict option"
  suq_steps :: "SequenceStepCreate list option"
  suq_expected_version :: "int option"

record SequenceEnrollmentCreateRequest =
  ecq_sequence_id :: string
  ecq_crm_target_id :: string
  ecq_contact_id :: "string option"
  ecq_account_id :: "string option"
  ecq_start_at :: "int option"
  ecq_outreach_approved :: bool
  ecq_approval_reason :: string
  ecq_policy_snapshot :: dict

record SequenceEnrollmentActionRequest =
  eaq_reason :: string

section \<open>Shared names\<close>

definition SEQUENCING_SERVICE_NAME :: string where
  "SEQUENCING_SERVICE_NAME = ''sequencing-service''"

definition ACTIVE_ENROLLMENT_STATUSES :: "string set" where
  "ACTIVE_ENROLLMENT_STATUSES = {''active''}"

definition TERMINAL_ENROLLMENT_STATUSES :: "string set" where
  "TERMINAL_ENROLLMENT_STATUSES = {''completed'', ''canceled'', ''suppressed'', ''failed''}"

definition seconds :: "int \<Rightarrow> int" where
  "seconds s = s * usec_per_sec"

definition truthy_str :: "string option \<Rightarrow> bool" where
  "truthy_str x = (str_or x [] \<noteq> [])"

text \<open>The outbox helper of the service.\<close>

definition sequencing_event ::
  "env \<Rightarrow> EventName \<Rightarrow> string \<Rightarrow> string \<Rightarrow> dict \<Rightarrow> string \<Rightarrow> db \<Rightarrow> db" where
  "sequencing_event env name aggregate_type aggregate_id payload key db =
     emit env name aggregate_type aggregate_id SEQUENCING_SERVICE_NAME payload key None [] db"

section \<open>Eligibility\<close>

definition evaluate_sequence_eligibility :: "SequenceEligibilityRequest \<Rightarrow> SequenceEligibilityResult" where
  "evaluate_sequence_eligibility q =
     (if \<not> scx_allowed (elq_suppression q) then
        \<lparr>elr_eligible = False, elr_next_action = ''suppress'', elr_requires_approval = False,
         elr_reasons = [str_or (scx_reason (elq_suppression q)) ''Suppression rule blocked outreach'']\<rparr>
      else if \<not> srs_threshold_met (elq_score q) then
        \<lparr>elr_eligible = False, elr_next_action = ''nurture'', elr_requires_approval = False,
         elr_reasons = srs_reasons (elq_score q)\<rparr>
      else
        (let requires_approval =
               (truthy (dict_get (elq_contact q) ''strategic_account'')
                \<or> 85 \<le> srs_composite_score (elq_score q))
         in \<lparr>elr_eligible = True,
             elr_next_action = (if requires_approval then ''request_approval'' else ''enroll''),
             elr_requires_approval = requires_approval,
             elr_reasons = (if requires_approval
               then [''Strategic or high-score contact requires human approval'']
               else [''Eligible for sequence enrollment''])\<rparr>))"

section \<open>Serializers\<close>

definition sequence_step_to_model :: "SequenceStep \<Rightarrow> error + dict" where
  "sequence_step_to_model s =
     (if step_channel s \<notin> SequenceChannels then Inl ValidationError
      else Inr
        [(''id'', JStr (step_id s)), (''sequence_id'', JStr (step_sequence_id s)),
         (''step_order'', JInt (step_step_order s)), (''channel'', JStr (step_channel s)),
         (''delay_seconds'', JInt (step_delay_seconds s)),
         (''subject_template'', opt_str (step_subject_template s)),
         (''body_template'', opt_str (step_body_template s)),
         (''requires_approval'', JBool (step_requires_approval s)),
         (''step_metadata'', JObj (step_step_metadata s)),
         (''definition_version'', JInt (step_definition_version s)),
         (''active'', JBool (step_active s)), (''created_at'', JTime (step_created_at s)),
         (''updated_at'', JTime (step_updated_at s))])"

definition sequence_to_model :: "Sequence \<Rightarrow> SequenceStep list \<Rightarrow> error + dict" where
  "sequence_to_model s steps =
     (case collect (map sequence_step_to_model steps) of
        Inl e \<Rightarrow> Inl e
      | Inr models \<Rightarrow>
          if seq_channel s \<notin> SequenceChannels \<or> seq_status s \<notin> SequenceStatuses
          then Inl ValidationError
          else Inr
            [(''id'', JStr (seq_id s)), (''name'', JStr (seq_name s)),
             (''owner_id'', opt_str (seq_owner_id s)), (''channel'', JStr (seq_channel s)),
             (''status'', JStr (seq_status s)),
             (''rate_limit_policy'', JObj (seq_rate_limit_policy s)),
             (''definition_version'', JInt (seq_definition_version s)),
             (''created_at'', JTime (seq_created_at s)), (''updated_at'', JTime (seq_updated_at s)),
             (''steps'', JArr (map JObj models))])"

definition outbound_email_to_api :: "OutboundEmail \<Rightarrow> dict" where
  "outbound_email_to_api o' =
     [(''id'', JStr (out_id o')), (''enrollment_id'', JStr (out_enrollment_id o')),
      (''sequence_step_id'', JStr (out_sequence_step_id o')),
      (''contact_id'', JStr (out_contact_id o')), (''channel'', JStr (out_channel o')),
      (''to_email'', JStr (out_to_email o')), (''from_email'', JStr (out_from_email o')),
      (''subject'', JStr (out_subject o')), (''status'', JStr (out_status o')),
      (''provider_message_id'', opt_str (out_provider_message_id o')),
      (''attempt_count'', JInt (out_attempt_count o')), (''last_error'', opt_str (out_last_error o')),
      (''retry_after_seconds'', opt_int (out_retry_after_seconds o')),
      (''scheduled_at'', JTime (out_scheduled_at o')), (''sent_at'', opt_time (out_sent_at o')),
      (''created_at'', JTime (out_created_at o')), (''updated_at'', JTime (out_updated_at o'))]"

text \<open>\<open>OutboundEmailOut\<close>: the status is checked, both addresses are validated and normalised.\<close>

definition outbound_email_model :: "env \<Rightarrow> OutboundEmail \<Rightarrow> error + dict" where
  "outbound_email_model env o' =
     (case (env_email_str env (out_to_email o'), env_email_str env (out_from_email o')) of
        (Some to_email, Some from_email) \<Rightarrow>
          if out_status o' \<notin> OutboundEmailStatuses then Inl ValidationError
          else Inr (outbound_email_to_api (o'\<lparr>out_to_email := to_email, out_from_email := from_email\<rparr>))
      | _ \<Rightarrow> Inl ValidationError)"

definition sequence_enrollment_to_api :: "SequenceEnrollment \<Rightarrow> dict" where
  "sequence_enrollment_to_api e =
     [(''id'', JStr (enr_id e)), (''sequence_id'', JStr (enr_sequence_id e)),
      (''crm_target_id'', JStr (enr_crm_target_id e)), (''contact_id'', JStr (enr_contact_id e)),
      (''account_id'', opt_str (enr_account_id e)), (''status'', JStr (enr_status e)),
      (''approval_actor'', JStr (enr_approval_actor e)),
      (''approval_reason'', JStr (enr_approval_reason e)),
      (''current_step_order'', JInt (enr_current_step_order e)),
      (''definition_version'', JInt (enr_definition_version e)),
      (''next_step_at'', opt_time (enr_next_step_at e)),
      (''pause_reason'', opt_str (enr_pause_reason e)),
      (''policy_snapshot'', JObj (enr_policy_snapshot e)), (''version'', JInt (enr_version e)),
      (''created_at'', JTime (enr_created_at e)), (''updated_at'', JTime (enr_updated_at e)),
      (''completed_at'', opt_time (enr_completed_at e))]"

definition sequence_enrollment_to_model ::
  "env \<Rightarrow> SequenceEnrollment \<Rightarrow> OutboundEmail list \<Rightarrow> dict \<Rightarrow> error + dict" where
  "sequence_enrollment_to_model env e emails display =
     (if enr_status e \<notin> SequenceEnrollmentStatuses then Inl ValidationError
      else case collect (map (outbound_email_model env) emails) of
             Inl err \<Rightarrow> Inl err
           | Inr models \<Rightarrow>
               Inr (dict_set ''outbound_emails'' (JArr (map JObj models))
                      (dict_update (sequence_enrollment_to_api e) display)))"

definition sequence_activity_to_api :: "SequenceStepActivity \<Rightarrow> dict" where
  "sequence_activity_to_api a =
     [(''id'', JStr (act_id a)), (''enrollment_id'', JStr (act_enrollment_id a)),
      (''sequence_step_id'', JStr (act_sequence_step_id a)),
      (''outbound_email_id'', opt_str (act_outbound_email_id a)),
      (''meeting_handoff_id'', opt_str (act_meeting_handoff_id a)),
      (''step_order'', JInt (act_step_order a)), (''channel'', JStr (act_channel a)),
      (''status'', JStr (act_status a)), (''due_at'', opt_time (act_due_at a)),
      (''approved_by'', opt_str (act_approved_by a)), (''approved_at'', opt_time (act_approved_at a)),
      (''completed_by'', opt_str (act_completed_by a)),
      (''completed_at'', opt_time (act_completed_at a)),
      (''metadata'', JObj (act_metadata_payload a)), (''created_at'', JTime (act_created_at a)),
      (''updated_at'', JTime (act_updated_at a))]"

text \<open>\<open>session.get(...) if the foreign key is set else None\<close>.\<close>

definition account_of :: "SequenceEnrollment \<Rightarrow> db \<Rightarrow> Account option" where
  "account_of e db = (if truthy_str (enr_account_id e) then get_account (str_or (enr_account_id e) []) db else None)"

definition name_or_null :: "('r \<Rightarrow> string) \<Rightarrow> 'r option \<Rightarrow> json" where
  "name_or_null f x = (case x of None \<Rightarrow> JNull | Some r \<Rightarrow> JStr (f r))"

definition activity_to_model_with_display :: "SequenceStepActivity \<Rightarrow> db \<Rightarrow> error + dict" where
  "activity_to_model_with_display a db =
     (let enrollment = get_enrollment (act_enrollment_id a) db;
          sequence = Option.bind enrollment (\<lambda>e. get_sequence (enr_sequence_id e) db);
          contact = Option.bind enrollment (\<lambda>e. get_contact (enr_contact_id e) db);
          account = Option.bind enrollment (\<lambda>e. account_of e db)
      in if act_channel a \<notin> SequenceChannels \<or> act_status a \<notin> SequenceActivityStatuses
         then Inl ValidationError
         else Inr (dict_update (sequence_activity_to_api a)
           [(''sequence_id'', name_or_null seq_id sequence),
            (''sequence_name'', name_or_null seq_name sequence),
            (''contact_name'', name_or_null con_full_name contact),
            (''contact_email'', case contact of None \<Rightarrow> JNull | Some c \<Rightarrow> opt_str (con_email c)),
            (''account_name'', name_or_null acc_company_name account)]))"

section \<open>Queries\<close>

definition sequence_steps_of :: "string \<Rightarrow> int option \<Rightarrow> db \<Rightarrow> SequenceStep list" where
  "sequence_steps_of sequence_id definition_version db =
     (let version = (case definition_version of
            Some v \<Rightarrow> v
          | None \<Rightarrow> (case get_sequence sequence_id db of
                       Some s \<Rightarrow> seq_definition_version s
                     | None \<Rightarrow> 1))
      in sort_key step_step_order
           (filter (\<lambda>s. step_sequence_id s = sequence_id \<and> step_definition_version s = version
                        \<and> step_active s) (sequence_steps db)))"

definition requires_approval :: "string \<Rightarrow> bool option \<Rightarrow> bool" where
  "requires_approval channel explicit = (case explicit of Some b \<Rightarrow> b | None \<Rightarrow> channel = ''email'')"

definition activity_key :: "SequenceEnrollment \<Rightarrow> SequenceStep \<Rightarrow> string" where
  "activity_key e s = ''sequence_activity:'' @ enr_id e @ '':'' @ step_id s"

definition activity_row ::
  "env \<Rightarrow> SequenceEnrollment \<Rightarrow> SequenceStep \<Rightarrow> string \<Rightarrow> string option \<Rightarrow> string \<Rightarrow> SequenceStepActivity" where
  "activity_row env e s status outbound_email_id row_id =
     \<lparr>act_id = row_id, act_enrollment_id = enr_id e, act_sequence_step_id = step_id s,
      act_outbound_email_id = outbound_email_id, act_meeting_handoff_id = None,
      act_step_order = step_step_order s, act_channel = step_channel s, act_status = status,
      act_due_at = Some (env_now env), act_approved_by = None, act_approved_at = None,
      act_completed_by = None, act_completed_at = None,
      act_metadata_payload = step_step_metadata s, act_idempotency_key = activity_key e s,
      act_created_at = env_now env, act_updated_at = env_now env\<rparr>"

definition activity_for_step ::
  "env \<Rightarrow> SequenceEnrollment \<Rightarrow> SequenceStep \<Rightarrow> string \<Rightarrow> string option \<Rightarrow> SequenceStepActivity op" where
  "activity_for_step env e s status outbound_email_id db =
     (case List.find (\<lambda>a. act_idempotency_key a = activity_key e s) (sequence_step_activities db) of
        Some a \<Rightarrow>
          (if truthy_str outbound_email_id \<and> \<not> truthy_str (act_outbound_email_id a)
           then let a' = a\<lparr>act_outbound_email_id := outbound_email_id, act_updated_at := env_now env\<rparr>
                in (Inr a', put_activity a' db)
           else (Inr a, db))
      | None \<Rightarrow>
          (let (row_id, db1) = draw_uuid env db;
               a = activity_row env e s status outbound_email_id row_id
           in case flush env (add_activity a db1) of
                Inl err \<Rightarrow> (Inl err, db1)
              | Inr db2 \<Rightarrow> (Inr a, db2)))"

definition enrollment_to_model_with_emails :: "env \<Rightarrow> SequenceEnrollment \<Rightarrow> db \<Rightarrow> error + dict" where
  "enrollment_to_model_with_emails env e db =
     (let emails = sort_key out_created_at
            (filter (\<lambda>o'. out_enrollment_id o' = enr_id e) (outbound_emails db));
          sequence = get_sequence (enr_sequence_id e) db;
          contact = get_contact (enr_contact_id e) db;
          account = account_of e db;
          target = get_crm_target (enr_crm_target_id e) db
      in sequence_enrollment_to_model env e emails
           [(''sequence_name'', name_or_null seq_name sequence),
            (''contact_name'', name_or_null con_full_name contact),
            (''contact_email'', case contact of None \<Rightarrow> JNull | Some c \<Rightarrow> opt_str (con_email c)),
            (''account_name'', name_or_null acc_company_name account),
            (''account_domain'', name_or_null acc_domain account),
            (''crm_target_summary'', opt_str (crm_target_summary target))])"

definition set_status ::
  "env \<Rightarrow> string \<Rightarrow> string \<Rightarrow> SequenceEnrollment \<Rightarrow> SequenceEnrollment" where
  "set_status env status reason e =
     (let e' = e\<lparr>enr_status := status, enr_pause_reason := Some reason,
                 enr_version := enr_version e + 1, enr_updated_at := env_now env\<rparr>
      in if status \<in> TERMINAL_ENROLLMENT_STATUSES then e'\<lparr>enr_completed_at := Some (env_now env)\<rparr> else e')"

definition set_enrollment_status_body ::
  "env \<Rightarrow> string \<Rightarrow> string \<Rightarrow> string \<Rightarrow> EventName option \<Rightarrow> dict option op" where
  "set_enrollment_status_body env enrollment_id status reason event_name db =
     (case get_enrollment enrollment_id db of
        None \<Rightarrow> (Inr None, db)
      | Some e \<Rightarrow>
          if enr_status e \<in> TERMINAL_ENROLLMENT_STATUSES \<and> status \<noteq> enr_status e
          then (Inl (ValueError (''cannot change '' @ enr_status e @ '' enrollment'')), db)
          else
            (let e' = set_status env status reason e;
                 db1 = put_enrollment e' db;
                 db2 = (case event_name of
                          None \<Rightarrow> db1
                        | Some n \<Rightarrow> sequencing_event env n ''sequence_enrollment'' (enr_id e')
                                     (sequence_enrollment_to_api e')
                                     (event_value n @ '':'' @ enr_id e' @ '':'' @ show_int (enr_version e')) db1)
             in case enrollment_to_model_with_emails env e' db2 of
                  Inl err \<Rightarrow> (Inl err, db2)
                | Inr m \<Rightarrow> (Inr (Some m), db2)))"

definition set_enrollment_status ::
  "env \<Rightarrow> string \<Rightarrow> string \<Rightarrow> string \<Rightarrow> EventName option \<Rightarrow> dict option op" where
  "set_enrollment_status env enrollment_id status reason event_name =
     session_scope env (set_enrollment_status_body env enrollment_id status reason event_name)"

definition contact_for_target :: "CrmTarget \<Rightarrow> string option \<Rightarrow> db \<Rightarrow> error + Contact" where
  "contact_for_target t requested db =
     (if truthy_str requested then
        (case get_contact (str_or requested []) db of
           None \<Rightarrow> Inl (ValueError ''contact not found'')
         | Some c \<Rightarrow> Inr c)
      else
        (let direct = (if tgt_target_type t \<in> {''contact'', ''incident_contact''}
               then get_contact (tgt_target_id t) db else None);
             derived = (if tgt_target_type t = ''email_candidate'' then
               (case get_email_candidate (tgt_target_id t) db of
                  None \<Rightarrow> None
                | Some ec \<Rightarrow> (if truthy_str (ecr_contact_id ec)
                              then get_contact (str_or (ecr_contact_id ec) []) db else None))
               else None)
         in case direct of
              Some c \<Rightarrow> Inr c
            | None \<Rightarrow> (case derived of
                         Some c \<Rightarrow> Inr c
                       | None \<Rightarrow> Inl (ValueError ''sequence enrollment requires a contact''))))"

definition require_sendable_contact :: "Contact \<Rightarrow> error option" where
  "require_sendable_contact c =
     (if con_do_not_contact_flag c then Some (ValueError ''contact is marked do-not-contact'')
      else if \<not> truthy_str (con_email c) then Some (ValueError ''contact has no email'')
      else if con_email_status c \<noteq> Some ''verified''
      then Some (ValueError ''contact email must be verified before outreach'')
      else if \<not> truthy_str (con_lawful_basis c) then Some (ValueError ''contact is missing lawful basis'')
      else None)"

text \<open>\<open>SuppressionCheckRequest(...)\<close> validates the address; the query compares the address as it
  was given.\<close>

definition suppression_request ::
  "env \<Rightarrow> string option \<Rightarrow> string option \<Rightarrow> string option \<Rightarrow> string \<Rightarrow> error + SuppressionCheckRequest" where
  "suppression_request env email domain contact_id channel =
     (case email of
        None \<Rightarrow> Inr \<lparr>sck_email = None, sck_domain = domain, sck_contact_id = contact_id, sck_channel = channel\<rparr>
      | Some a \<Rightarrow>
          (case env_email_str env a of
             None \<Rightarrow> Inl ValidationError
           | Some a' \<Rightarrow> Inr \<lparr>sck_email = Some a', sck_domain = domain, sck_contact_id = contact_id,
                             sck_channel = channel\<rparr>))"

text \<open>The query of the check itself: \<open>matches\<close> is the list of the comparisons whose criterion is
  given, and the row read is the first in force on the channel that satisfies one of them.\<close>

definition sequence_matches :: "string option \<Rightarrow> string option \<Rightarrow> string option \<Rightarrow> (Suppression \<Rightarrow> bool) list" where
  "sequence_matches email domain contact_id =
     (case email of None \<Rightarrow> [] | Some a \<Rightarrow> if a = [] then [] else [\<lambda>s. sup_email s = Some (py_lower a)])
   @ (case domain of None \<Rightarrow> [] | Some d \<Rightarrow> if d = [] then [] else [\<lambda>s. sup_domain s = Some (py_lower d)])
   @ (case contact_id of None \<Rightarrow> [] | Some i \<Rightarrow> if i = [] then [] else [\<lambda>s. sup_contact_id s = Some i])"

definition blocking_suppression :: "env \<Rightarrow> string \<Rightarrow> (Suppression \<Rightarrow> bool) list \<Rightarrow> db \<Rightarrow> Suppression option" where
  "blocking_suppression env channel matches db =
     (let active = filter sup_active (suppressions db);
          on_channel = filter (\<lambda>s. sup_channel s = py_lower channel) active;
          unexpired = filter (\<lambda>s. sup_expires_at s = None \<or> the (sup_expires_at s) > env_now env) on_channel
      in case filter (\<lambda>s. list_ex (\<lambda>matches_row. matches_row s) matches) unexpired of
           [] \<Rightarrow> None
         | s # _ \<Rightarrow> Some s)"

definition suppression_allowed ::
  "env \<Rightarrow> string option \<Rightarrow> string option \<Rightarrow> string option \<Rightarrow> string \<Rightarrow> db \<Rightarrow> error + SuppressionCheckResult" where
  "suppression_allowed env email domain contact_id channel db =
     (case suppression_request env email domain contact_id channel of
        Inl e \<Rightarrow> Inl e
      | Inr q \<Rightarrow>
          (let baseline = evaluate_suppression q;
               matches = sequence_matches email domain contact_id
           in if \<not> scx_allowed baseline then Inr baseline
              else if matches = [] then Inr baseline
              else case blocking_suppression env channel matches db of
                     None \<Rightarrow> Inr baseline
                   | Some s \<Rightarrow> Inr (baseline\<lparr>scx_allowed := False, scx_reason := Some (sup_reason s)\<rparr>)))"

definition step_for_order :: "string \<Rightarrow> int \<Rightarrow> int option \<Rightarrow> db \<Rightarrow> SequenceStep option" where
  "step_for_order sequence_id step_order definition_version db =
     (let steps = filter (\<lambda>s. step_sequence_id s = sequence_id \<and> step_step_order s = step_order
                              \<and> step_active s) (sequence_steps db)
      in case definition_version of
           Some v \<Rightarrow> List.find (\<lambda>s. step_definition_version s = v) steps
         | None \<Rightarrow> List.find (\<lambda>_. True) (sort_key (\<lambda>s. - step_definition_version s) steps))"

definition outbound_key :: "SequenceEnrollment \<Rightarrow> SequenceStep \<Rightarrow> string" where
  "outbound_key e s = ''sequence_email:'' @ enr_id e @ '':'' @ step_id s"

definition outbound_row ::
  "env \<Rightarrow> SequenceEnrollment \<Rightarrow> SequenceStep \<Rightarrow> Contact \<Rightarrow> string \<Rightarrow> string \<Rightarrow> string \<Rightarrow> string \<Rightarrow> OutboundEmail" where
  "outbound_row env e s contact from_email subject body row_id =
     \<lparr>out_id = row_id, out_enrollment_id = enr_id e, out_sequence_step_id = step_id s,
      out_contact_id = con_id contact, out_channel = step_channel s,
      out_to_email = py_lower (str_or (con_email contact) []), out_from_email = from_email,
      out_subject = subject, out_body = body, out_status = ''pending'',
      out_provider_message_id = None, out_idempotency_key = outbound_key e s,
      out_attempt_count = 0, out_last_error = None, out_retry_after_seconds = None,
      out_scheduled_at = (case enr_next_step_at e of None \<Rightarrow> env_now env | Some t \<Rightarrow> t),
      out_sent_at = None, out_created_at = env_now env, out_updated_at = env_now env\<rparr>"

text \<open>The contact has an address wherever this is called; the model reads a missing one as
  empty.\<close>

definition outbound_for_step ::
  "env \<Rightarrow> SequenceEnrollment \<Rightarrow> SequenceStep \<Rightarrow> Contact \<Rightarrow> Account option \<Rightarrow> string \<Rightarrow> OutboundEmail op" where
  "outbound_for_step env e s contact account from_email db =
     (case List.find (\<lambda>o'. out_idempotency_key o' = outbound_key e s) (outbound_emails db) of
        Some o' \<Rightarrow> (Inr o', db)
      | None \<Rightarrow>
          (case render_template env (str_or (step_subject_template s) []) contact account of
             Inl err \<Rightarrow> (Inl err, db)
           | Inr subject \<Rightarrow>
               (case render_template env (str_or (step_body_template s) []) contact account of
                  Inl err \<Rightarrow> (Inl err, db)
                | Inr body \<Rightarrow>
                    (let (row_id, db1) = draw_uuid env db;
                         o' = outbound_row env e s contact from_email subject body row_id
                     in case flush env (add_outbound o' db1) of
                          Inl err \<Rightarrow> (Inl err, db1)
                        | Inr db2 \<Rightarrow> (Inr o', db2)))))"

section \<open>Enrollment state\<close>

definition completed_enrollment :: "env \<Rightarrow> SequenceEnrollment \<Rightarrow> SequenceEnrollment" where
  "completed_enrollment env e =
     e\<lparr>enr_status := ''completed'', enr_next_step_at := None, enr_pause_reason := None,
       enr_completed_at := Some (env_now env), enr_version := enr_version e + 1,
       enr_updated_at := env_now env\<rparr>"

definition enrollment_event :: "env \<Rightarrow> EventName \<Rightarrow> SequenceEnrollment \<Rightarrow> db \<Rightarrow> db" where
  "enrollment_event env name e db =
     sequencing_event env name ''sequence_enrollment'' (enr_id e) (sequence_enrollment_to_api e)
       (event_value name @ '':'' @ enr_id e @ '':'' @ show_int (enr_version e)) db"

definition complete_enrollment :: "env \<Rightarrow> SequenceEnrollment \<Rightarrow> db \<Rightarrow> db" where
  "complete_enrollment env e db =
     (let e' = completed_enrollment env e
      in enrollment_event env SEQUENCE_COMPLETED e' (put_enrollment e' db))"

definition advanced_enrollment :: "env \<Rightarrow> SequenceStep \<Rightarrow> SequenceEnrollment \<Rightarrow> SequenceEnrollment" where
  "advanced_enrollment env next_step e =
     e\<lparr>enr_current_step_order := step_step_order next_step,
       enr_next_step_at := Some (env_now env + seconds (step_delay_seconds next_step)),
       enr_version := enr_version e + 1, enr_updated_at := env_now env\<rparr>"

definition advance_enrollment :: "env \<Rightarrow> SequenceEnrollment \<Rightarrow> SequenceStep \<Rightarrow> db \<Rightarrow> db" where
  "advance_enrollment env e current_step db =
     (let steps = sequence_steps_of (enr_sequence_id e) (Some (enr_definition_version e)) db
      in case filter (\<lambda>s. step_step_order s > step_step_order current_step) steps of
           [] \<Rightarrow> complete_enrollment env e db
         | next_step # _ \<Rightarrow> put_enrollment (advanced_enrollment env next_step e) db)"

definition paused_enrollment :: "env \<Rightarrow> string \<Rightarrow> SequenceEnrollment \<Rightarrow> SequenceEnrollment" where
  "paused_enrollment env reason e =
     e\<lparr>enr_status := ''paused'', enr_pause_reason := Some reason, enr_version := enr_version e + 1,
       enr_updated_at := env_now env\<rparr>"

definition pause_for_policy :: "env \<Rightarrow> SequenceEnrollment \<Rightarrow> string \<Rightarrow> db \<Rightarrow> db" where
  "pause_for_policy env e reason db =
     (let e' = paused_enrollment env reason e
      in enrollment_event env SEQUENCE_PAUSED e' (put_enrollment e' db))"

definition suppressed_enrollment :: "env \<Rightarrow> string option \<Rightarrow> SequenceEnrollment \<Rightarrow> SequenceEnrollment" where
  "suppressed_enrollment env reason e =
     e\<lparr>enr_status := ''suppressed'', enr_pause_reason := Some (str_or reason ''suppression blocks outreach''),
       enr_completed_at := Some (env_now env), enr_version := enr_version e + 1,
       enr_updated_at := env_now env\<rparr>"

definition suppress_enrollment ::
  "env \<Rightarrow> SequenceEnrollment \<Rightarrow> Contact \<Rightarrow> string option \<Rightarrow> db \<Rightarrow> db" where
  "suppress_enrollment env e contact reason db =
     (let e' = suppressed_enrollment env reason e;
          (row_id, db1) = draw_uuid env (put_enrollment e' db);
          db2 = add_suppression_event
            \<lparr>sse_id = row_id, sse_enrollment_id = Some (enr_id e'), sse_suppression_id = None,
             sse_email = lower_or_none (con_email contact), sse_domain = domain_from_email (con_email contact),
             sse_channel = ''email'', sse_reason = str_or reason ''suppression blocks outreach'',
             sse_source_event_id = None, sse_created_at = env_now env\<rparr> db1
      in enrollment_event env SEQUENCE_PAUSED e' db2)"

section \<open>Rate limits\<close>

definition daily_limit :: "dict \<Rightarrow> string \<Rightarrow> int \<Rightarrow> error + int" where
  "daily_limit policy name configured = py_int (py_or (dict_get policy name) (JInt configured))"

text \<open>The mails of the channel sent during the last day.\<close>

definition recently_sent :: "env \<Rightarrow> string \<Rightarrow> db \<Rightarrow> OutboundEmail list" where
  "recently_sent env channel db =
     filter (\<lambda>o'. out_status o' = ''sent'' \<and> out_channel o' = channel
        \<and> (case out_sent_at o' of None \<Rightarrow> False | Some t \<Rightarrow> t \<ge> env_now env - seconds 86400))
       (outbound_emails db)"

definition to_domain :: "string option \<Rightarrow> OutboundEmail \<Rightarrow> bool" where
  "to_domain domain o' = (domain_from_email (Some (out_to_email o')) = domain)"

definition from_sender :: "string \<Rightarrow> OutboundEmail \<Rightarrow> bool" where
  "from_sender from_email o' = (py_lower (out_from_email o') = py_lower from_email)"

definition count_of :: "('a \<Rightarrow> bool) \<Rightarrow> 'a list \<Rightarrow> int" where
  "count_of P xs = int (length (filter P xs))"

definition rate_limit_blocker ::
  "env \<Rightarrow> string \<Rightarrow> string \<Rightarrow> string \<Rightarrow> Sequence \<Rightarrow> db \<Rightarrow> error + string option" where
  "rate_limit_blocker env to_email from_email channel sequence db =
     (let policy = seq_rate_limit_policy sequence; cfg = env_settings env
      in case daily_limit policy ''domain_daily_limit'' (cfg_sequence_domain_daily_limit cfg) of
           Inl e \<Rightarrow> Inl e
         | Inr domain_limit \<Rightarrow>
             (case daily_limit policy ''sender_daily_limit'' (cfg_sequence_sender_daily_limit cfg) of
                Inl e \<Rightarrow> Inl e
              | Inr sender_limit \<Rightarrow>
                  (case daily_limit policy ''channel_daily_limit'' (cfg_sequence_channel_daily_limit cfg) of
                     Inl e \<Rightarrow> Inl e
                   | Inr channel_limit \<Rightarrow>
                       (let domain = domain_from_email (Some to_email);
                            sent = recently_sent env channel db
                        in Inr (if count_of (to_domain domain) sent \<ge> domain_limit
                                then Some (''domain daily rate limit reached for ''
                                           @ (case domain of None \<Rightarrow> ''None'' | Some d \<Rightarrow> d))
                                else if count_of (from_sender from_email) sent \<ge> sender_limit
                                then Some (''sender daily rate limit reached for '' @ from_email)
                                else if int (length sent) \<ge> channel_limit
                                then Some (''channel daily rate limit reached for '' @ channel)
                                else None)))))"

section \<open>Sequence definitions\<close>

definition step_row ::
  "env \<Rightarrow> string \<Rightarrow> int \<Rightarrow> int \<Rightarrow> SequenceStepCreate \<Rightarrow> string \<Rightarrow> SequenceStep" where
  "step_row env sequence_id version index q row_id =
     \<lparr>step_id = row_id, step_sequence_id = sequence_id,
      step_step_order = (case stc_step_order q of None \<Rightarrow> index | Some i \<Rightarrow> if i = 0 then index else i),
      step_channel = channel_value (stc_channel q), step_delay_seconds = stc_delay_seconds q,
      step_subject_template = stc_subject_template q, step_body_template = stc_body_template q,
      step_requires_approval = requires_approval (channel_value (stc_channel q)) (stc_requires_approval q),
      step_step_metadata = stc_step_metadata q, step_definition_version = version,
      step_active = True, step_created_at = env_now env, step_updated_at = env_now env\<rparr>"

fun add_steps ::
  "env \<Rightarrow> string \<Rightarrow> int \<Rightarrow> int \<Rightarrow> SequenceStepCreate list \<Rightarrow> db \<Rightarrow> SequenceStep list \<times> db" where
  "add_steps env sequence_id version index [] db = ([], db)"
| "add_steps env sequence_id version index (q # qs) db =
     (let (row_id, db1) = draw_uuid env db;
          s = step_row env sequence_id version index q row_id;
          (ss, db2) = add_steps env sequence_id version (index + 1) qs (add_step s db1)
      in (s # ss, db2))"

definition sequence_row :: "env \<Rightarrow> SequenceCreateRequest \<Rightarrow> string option \<Rightarrow> string \<Rightarrow> Sequence" where
  "sequence_row env q key row_id =
     \<lparr>seq_id = row_id, seq_name = scq_name q, seq_owner_id = scq_owner_id q,
      seq_channel = channel_value (scq_channel q), seq_status = ''active'',
      seq_rate_limit_policy = scq_rate_limit_policy q, seq_definition_version = 1,
      seq_idempotency_key = key, seq_created_at = env_now env, seq_updated_at = env_now env\<rparr>"

definition sequence_with_key :: "string option \<Rightarrow> db \<Rightarrow> Sequence option" where
  "sequence_with_key key db =
     (if truthy_str key then List.find (\<lambda>s. seq_idempotency_key s = key) (sequences db) else None)"

definition create_sequence_body :: "env \<Rightarrow> SequenceCreateRequest \<Rightarrow> string option \<Rightarrow> dict op" where
  "create_sequence_body env q key db =
     (case sequence_with_key key db of
        Some s \<Rightarrow> (sequence_to_model s (sequence_steps_of (seq_id s) None db), db)
      | None \<Rightarrow>
          (let (row_id, db1) = draw_uuid env db;
               s = sequence_row env q key row_id
           in case flush env (add_sequence s db1) of
                Inl e \<Rightarrow> (Inl e, db1)
              | Inr db2 \<Rightarrow>
                  (let (steps, db3) = add_steps env (seq_id s) (seq_definition_version s) 1 (scq_steps q) db2
                   in case flush env db3 of
                        Inl e \<Rightarrow> (Inl e, db3)
                      | Inr db4 \<Rightarrow> (sequence_to_model s (sort_key step_step_order steps), db4))))"

definition create_sequence :: "env \<Rightarrow> SequenceCreateRequest \<Rightarrow> string option \<Rightarrow> dict op" where
  "create_sequence env q key = session_scope env (create_sequence_body env q key)"

definition status_filter :: "('r \<Rightarrow> string) \<Rightarrow> string option \<Rightarrow> 'r \<Rightarrow> bool" where
  "status_filter f value r = (truthy_str value \<longrightarrow> fuzzy (f r) value)"

definition newest :: "('r \<Rightarrow> int) \<Rightarrow> nat \<Rightarrow> 'r list \<Rightarrow> 'r list" where
  "newest created limit rows = take limit (sort_key (\<lambda>r. - created r) rows)"

definition list_sequences :: "env \<Rightarrow> string option \<Rightarrow> nat \<Rightarrow> dict list op" where
  "list_sequences env status limit =
     session_scope env (\<lambda>db.
       (collect (map (\<lambda>s. sequence_to_model s (sequence_steps_of (seq_id s) None db))
          (newest seq_created_at limit (filter (status_filter seq_status status) (sequences db)))), db))"

definition get_sequence_definition :: "env \<Rightarrow> string \<Rightarrow> dict option op" where
  "get_sequence_definition env sequence_id =
     session_scope env (\<lambda>db.
       case get_sequence sequence_id db of
         None \<Rightarrow> (Inr None, db)
       | Some s \<Rightarrow>
           (case sequence_to_model s (sequence_steps_of (seq_id s) None db) of
              Inl e \<Rightarrow> (Inl e, db)
            | Inr m \<Rightarrow> (Inr (Some m), db)))"

definition archive_sequence :: "env \<Rightarrow> string \<Rightarrow> dict option op" where
  "archive_sequence env sequence_id =
     session_scope env (\<lambda>db.
       case get_sequence sequence_id db of
         None \<Rightarrow> (Inr None, db)
       | Some s \<Rightarrow>
           (let s' = s\<lparr>seq_status := ''archived'', seq_updated_at := env_now env\<rparr>;
                db1 = put_sequence s' db
            in case sequence_to_model s' (sequence_steps_of (seq_id s') None db1) of
                 Inl e \<Rightarrow> (Inl e, db1)
               | Inr m \<Rightarrow> (Inr (Some m), db1)))"

definition edited_sequence :: "SequenceUpdateRequest \<Rightarrow> Sequence \<Rightarrow> Sequence" where
  "edited_sequence q s =
     (let s = (case suq_name q of None \<Rightarrow> s | Some n \<Rightarrow> s\<lparr>seq_name := n\<rparr>);
          s = (case suq_owner_id q of None \<Rightarrow> s | Some o' \<Rightarrow> s\<lparr>seq_owner_id := Some o'\<rparr>);
          s = (case suq_channel q of None \<Rightarrow> s | Some c \<Rightarrow> s\<lparr>seq_channel := channel_value c\<rparr>);
          s = (case suq_status q of None \<Rightarrow> s | Some t \<Rightarrow> s\<lparr>seq_status := sequence_status_value t\<rparr>);
          s = (case suq_rate_limit_policy q of None \<Rightarrow> s | Some p \<Rightarrow> s\<lparr>seq_rate_limit_policy := p\<rparr>)
      in s)"

definition version_conflict :: "SequenceUpdateRequest \<Rightarrow> Sequence \<Rightarrow> bool" where
  "version_conflict q s =
     (case suq_expected_version q of None \<Rightarrow> False | Some v \<Rightarrow> v \<noteq> seq_definition_version s)"

definition update_sequence_body :: "env \<Rightarrow> string \<Rightarrow> SequenceUpdateRequest \<Rightarrow> dict option op" where
  "update_sequence_body env sequence_id q db =
     (case get_sequence sequence_id db of
        None \<Rightarrow> (Inr None, db)
      | Some s \<Rightarrow>
          if suq_steps q \<noteq> None \<and> version_conflict q s
          then (Inl (ValueError ''sequence definition version conflict''),
                put_sequence (edited_sequence q s) db)
          else
            (let s1 = edited_sequence q s;
                 s2 = (if suq_steps q = None then s1
                       else s1\<lparr>seq_definition_version := seq_definition_version s1 + 1\<rparr>);
                 db1 = (case suq_steps q of
                          None \<Rightarrow> db
                        | Some steps \<Rightarrow> snd (add_steps env (seq_id s2) (seq_definition_version s2) 1 steps db));
                 s3 = s2\<lparr>seq_updated_at := env_now env\<rparr>
             in case flush env (put_sequence s3 db1) of
                  Inl e \<Rightarrow> (Inl e, db1)
                | Inr db2 \<Rightarrow>
                    (case sequence_to_model s3 (sequence_steps_of (seq_id s3) None db2) of
                       Inl e \<Rightarrow> (Inl e, db2)
                     | Inr m \<Rightarrow> (Inr (Some m), db2))))"

definition update_sequence :: "env \<Rightarrow> string \<Rightarrow> SequenceUpdateRequest \<Rightarrow> dict option op" where
  "update_sequence env sequence_id q = session_scope env (update_sequence_body env sequence_id q)"

section \<open>Enrollments\<close>

definition enrollment_with_key :: "string \<Rightarrow> db \<Rightarrow> SequenceEnrollment option" where
  "enrollment_with_key key db = List.find (\<lambda>e. enr_idempotency_key e = key) (sequence_enrollments db)"

text \<open>What the service requires before it enrolls: the active sequence with its steps, the
  exported target, and a contact that may be written to.\<close>

definition suppression_error :: "env \<Rightarrow> Contact \<Rightarrow> string \<Rightarrow> db \<Rightarrow> error option" where
  "suppression_error env c channel db =
     (case suppression_allowed env (con_email c) (domain_from_email (con_email c)) (Some (con_id c)) channel db of
        Inl e \<Rightarrow> Some e
      | Inr r \<Rightarrow> if scx_allowed r then None
                 else Some (ValueError (str_or (scx_reason r) ''suppression blocks outreach'')))"

definition enrollment_subject ::
  "env \<Rightarrow> SequenceEnrollmentCreateRequest \<Rightarrow> db \<Rightarrow> error + Sequence \<times> SequenceStep \<times> CrmTarget \<times> Contact" where
  "enrollment_subject env q db =
     (case get_sequence (ecq_sequence_id q) db of
        None \<Rightarrow> Inl (ValueError ''active sequence not found'')
      | Some s \<Rightarrow>
          if seq_status s \<noteq> ''active'' then Inl (ValueError ''active sequence not found'')
          else case sequence_steps_of (seq_id s) None db of
            [] \<Rightarrow> Inl (ValueError ''sequence has no active steps'')
          | step # _ \<Rightarrow>
              (case get_crm_target (ecq_crm_target_id q) db of
                 None \<Rightarrow> Inl (ValueError ''crm target not found'')
               | Some t \<Rightarrow>
                   if tgt_status t \<noteq> ''exported'' \<or> tgt_export_status t \<noteq> ''exported''
                   then Inl (ValueError ''crm target must be exported before sequence enrollment'')
                   else case contact_for_target t (ecq_contact_id q) db of
                     Inl e \<Rightarrow> Inl e
                   | Inr c \<Rightarrow>
                       (case require_sendable_contact c of
                          Some e \<Rightarrow> Inl e
                        | None \<Rightarrow>
                            (case suppression_error env c (seq_channel s) db of
                               Some e \<Rightarrow> Inl e
                             | None \<Rightarrow> Inr (s, step, t, c)))))"

definition enrollment_row ::
  "env \<Rightarrow> SequenceEnrollmentCreateRequest \<Rightarrow> string \<Rightarrow> string \<Rightarrow> Sequence \<Rightarrow> SequenceStep \<Rightarrow> CrmTarget \<Rightarrow> Contact
     \<Rightarrow> string \<Rightarrow> SequenceEnrollment" where
  "enrollment_row env q actor key s step t c row_id =
     \<lparr>enr_id = row_id, enr_sequence_id = seq_id s, enr_crm_target_id = tgt_id t,
      enr_contact_id = con_id c,
      enr_account_id = (if truthy_str (ecq_account_id q) then ecq_account_id q else con_account_id c),
      enr_status = ''active'', enr_approval_actor = actor, enr_approval_reason = ecq_approval_reason q,
      enr_current_step_order = step_step_order step,
      enr_definition_version = seq_definition_version s,
      enr_next_step_at = Some (case ecq_start_at q of None \<Rightarrow> env_now env | Some t' \<Rightarrow> t'),
      enr_pause_reason = None,
      enr_policy_snapshot = dict_update (tgt_policy_snapshot t) (ecq_policy_snapshot q),
      enr_idempotency_key = key, enr_version = 1, enr_created_at = env_now env,
      enr_updated_at = env_now env, enr_completed_at = None\<rparr>"

definition create_enrollment_body ::
  "env \<Rightarrow> SequenceEnrollmentCreateRequest \<Rightarrow> string \<Rightarrow> string \<Rightarrow> dict op" where
  "create_enrollment_body env q actor key db =
     (case enrollment_with_key key db of
        Some e \<Rightarrow> (enrollment_to_model_with_emails env e db, db)
      | None \<Rightarrow>
          (case enrollment_subject env q db of
             Inl e \<Rightarrow> (Inl e, db)
           | Inr (s, step, t, c) \<Rightarrow>
               (let (row_id, db1) = draw_uuid env db;
                    e = enrollment_row env q actor key s step t c row_id
                in case flush env (add_enrollment e db1) of
                     Inl err \<Rightarrow> (Inl err, db1)
                   | Inr db2 \<Rightarrow>
                       (let db3 = sequencing_event env SEQUENCE_ENROLLED ''sequence_enrollment'' (enr_id e)
                              (sequence_enrollment_to_api e) (''sequence.enrolled:'' @ enr_id e) db2
                        in (enrollment_to_model_with_emails env e db3, db3)))))"

definition create_sequence_enrollment ::
  "env \<Rightarrow> SequenceEnrollmentCreateRequest \<Rightarrow> string \<Rightarrow> string \<Rightarrow> dict op" where
  "create_sequence_enrollment env q actor key db =
     (if \<not> ecq_outreach_approved q then (Inl (ValueError ''separate outreach approval is required''), db)
      else session_scope env (create_enrollment_body env q actor key) db)"

definition get_sequence_enrollment :: "env \<Rightarrow> string \<Rightarrow> dict option op" where
  "get_sequence_enrollment env enrollment_id =
     session_scope env (\<lambda>db.
       case get_enrollment enrollment_id db of
         None \<Rightarrow> (Inr None, db)
       | Some e \<Rightarrow>
           (case enrollment_to_model_with_emails env e db of
              Inl err \<Rightarrow> (Inl err, db)
            | Inr m \<Rightarrow> (Inr (Some m), db)))"

definition list_sequence_enrollments :: "env \<Rightarrow> string option \<Rightarrow> nat \<Rightarrow> dict list op" where
  "list_sequence_enrollments env status limit =
     session_scope env (\<lambda>db.
       (collect (map (\<lambda>e. enrollment_to_model_with_emails env e db)
          (newest enr_created_at limit
             (filter (status_filter enr_status status) (sequence_enrollments db)))), db))"

definition list_sequence_activities :: "env \<Rightarrow> string option \<Rightarrow> string option \<Rightarrow> nat \<Rightarrow> dict list op" where
  "list_sequence_activities env status channel limit =
     session_scope env (\<lambda>db.
       (collect (map (\<lambda>a. activity_to_model_with_display a db)
          (newest act_created_at limit
             (filter (\<lambda>a. status_filter act_status status a \<and> status_filter act_channel channel a)
                (sequence_step_activities db)))), db))"

definition pause_sequence_enrollment ::
  "env \<Rightarrow> string \<Rightarrow> SequenceEnrollmentActionRequest \<Rightarrow> dict option op" where
  "pause_sequence_enrollment env enrollment_id q =
     set_enrollment_status env enrollment_id ''paused'' (eaq_reason q) (Some SEQUENCE_PAUSED)"

definition cancel_sequence_enrollment ::
  "env \<Rightarrow> string \<Rightarrow> SequenceEnrollmentActionRequest \<Rightarrow> dict option op" where
  "cancel_sequence_enrollment env enrollment_id q =
     set_enrollment_status env enrollment_id ''canceled'' (eaq_reason q) None"

definition resumed_enrollment :: "env \<Rightarrow> SequenceEnrollment \<Rightarrow> SequenceEnrollment" where
  "resumed_enrollment env e =
     e\<lparr>enr_status := ''active'', enr_pause_reason := None,
       enr_next_step_at := Some (case enr_next_step_at e of None \<Rightarrow> env_now env | Some t \<Rightarrow> t),
       enr_version := enr_version e + 1, enr_updated_at := env_now env\<rparr>"

definition resume_enrollment_body :: "env \<Rightarrow> string \<Rightarrow> dict option op" where
  "resume_enrollment_body env enrollment_id db =
     (case get_enrollment enrollment_id db of
        None \<Rightarrow> (Inr None, db)
      | Some e \<Rightarrow>
          if enr_status e \<in> TERMINAL_ENROLLMENT_STATUSES
          then (Inl (ValueError (''cannot resume '' @ enr_status e @ '' enrollment'')), db)
          else
            (let e' = resumed_enrollment env e; db1 = put_enrollment e' db
             in case enrollment_to_model_with_emails env e' db1 of
                  Inl err \<Rightarrow> (Inl err, db1)
                | Inr m \<Rightarrow> (Inr (Some m), db1)))"

definition resume_sequence_enrollment :: "env \<Rightarrow> string \<Rightarrow> dict option op" where
  "resume_sequence_enrollment env enrollment_id = session_scope env (resume_enrollment_body env enrollment_id)"

section \<open>The scheduler\<close>

definition step_outcome :: "SequenceEnrollment \<Rightarrow> string \<Rightarrow> dict" where
  "step_outcome e status = [(''enrollment_id'', JStr (enr_id e)), (''status'', JStr status)]"

definition due_later :: "env \<Rightarrow> string \<Rightarrow> SequenceEnrollment \<Rightarrow> SequenceEnrollment" where
  "due_later env reason e =
     e\<lparr>enr_next_step_at := Some (env_now env + seconds (cfg_sequence_retry_after_seconds (env_settings env))),
       enr_pause_reason := Some reason, enr_updated_at := env_now env\<rparr>"

definition waiting_enrollment :: "env \<Rightarrow> SequenceEnrollment \<Rightarrow> SequenceEnrollment" where
  "waiting_enrollment env e = e\<lparr>enr_next_step_at := None, enr_updated_at := env_now env\<rparr>"

definition sender_address :: "env \<Rightarrow> string" where
  "sender_address env = py_lower (cfg_smtp_from_address (env_settings env))"

text \<open>A step on another channel than e-mail becomes a task.\<close>

definition prepare_task :: "env \<Rightarrow> SequenceEnrollment \<Rightarrow> SequenceStep \<Rightarrow> dict op" where
  "prepare_task env e step db =
     (case activity_for_step env e step ''pending'' None db of
        (Inl err, db1) \<Rightarrow> (Inl err, db1)
      | (Inr a, db1) \<Rightarrow>
          (Inr [(''enrollment_id'', JStr (enr_id e)), (''activity_id'', JStr (act_id a)),
                (''status'', JStr (act_status a)), (''channel'', JStr (act_channel a))],
           put_enrollment (waiting_enrollment env e) db1))"

text \<open>An e-mail step becomes a draft that waits for approval, unless a rate limit defers it.\<close>

definition draft_email ::
  "env \<Rightarrow> SequenceEnrollment \<Rightarrow> SequenceStep \<Rightarrow> Contact \<Rightarrow> dict op" where
  "draft_email env e step contact db =
     (case outbound_for_step env e step contact (account_of e db) (sender_address env) db of
        (Inl err, db1) \<Rightarrow> (Inl err, db1)
      | (Inr o', db1) \<Rightarrow>
          (let db2 = put_outbound (o'\<lparr>out_status := ''pending_approval'', out_updated_at := env_now env\<rparr>) db1
           in case activity_for_step env e step ''pending_approval'' (Some (out_id o')) db2 of
                (Inl err, db3) \<Rightarrow> (Inl err, db3)
              | (Inr a, db3) \<Rightarrow>
                  (Inr [(''enrollment_id'', JStr (enr_id e)), (''outbound_email_id'', JStr (out_id o')),
                        (''activity_id'', JStr (act_id a)), (''status'', JStr (act_status a))],
                   put_enrollment (waiting_enrollment env e) db3)))"

definition prepare_email ::
  "env \<Rightarrow> SequenceEnrollment \<Rightarrow> Sequence \<Rightarrow> SequenceStep \<Rightarrow> Contact \<Rightarrow> dict op" where
  "prepare_email env e sequence step contact db =
     (case rate_limit_blocker env (str_or (con_email contact) []) (sender_address env) (step_channel step)
             sequence db of
        Inl err \<Rightarrow> (Inl err, db)
      | Inr (Some reason) \<Rightarrow>
          (Inr (step_outcome e ''rate_limited'' @ [(''reason'', JStr reason)]),
           put_enrollment (due_later env reason e) db)
      | Inr None \<Rightarrow> draft_email env e step contact db)"

definition prepare_step ::
  "env \<Rightarrow> SequenceEnrollment \<Rightarrow> Sequence \<Rightarrow> SequenceStep \<Rightarrow> Contact \<Rightarrow> dict op" where
  "prepare_step env e sequence step contact db =
     (case require_sendable_contact contact of
        Some err \<Rightarrow>
          (Inr (step_outcome e ''paused'' @ [(''reason'', JStr (error_text err))]),
           pause_for_policy env e (error_text err) db)
      | None \<Rightarrow>
          (case suppression_allowed env (con_email contact) (domain_from_email (con_email contact))
                  (Some (con_id contact)) (step_channel step) db of
             Inl err \<Rightarrow> (Inl err, db)
           | Inr r \<Rightarrow>
               if \<not> scx_allowed r then
                 (Inr (step_outcome e ''suppressed'' @ [(''reason'', opt_str (scx_reason r))]),
                  suppress_enrollment env e contact (scx_reason r) db)
               else if step_channel step \<noteq> ''email'' then prepare_task env e step db
               else prepare_email env e sequence step contact db))"

definition send_next_body :: "env \<Rightarrow> string \<Rightarrow> dict op" where
  "send_next_body env enrollment_id db =
     (case get_enrollment enrollment_id db of
        None \<Rightarrow> (Inl (ValueError ''sequence enrollment not found''), db)
      | Some e \<Rightarrow>
          if enr_status e \<noteq> ''active'' then (Inr (step_outcome e (enr_status e)), db)
          else case get_sequence (enr_sequence_id e) db of
            None \<Rightarrow> (Inr (step_outcome e ''paused''), pause_for_policy env e ''sequence is not active'' db)
          | Some sequence \<Rightarrow>
              if seq_status sequence \<noteq> ''active''
              then (Inr (step_outcome e ''paused''), pause_for_policy env e ''sequence is not active'' db)
              else case step_for_order (enr_sequence_id e) (enr_current_step_order e)
                          (Some (enr_definition_version e)) db of
                None \<Rightarrow> (Inr (step_outcome e ''completed''), complete_enrollment env e db)
              | Some step \<Rightarrow>
                  (case get_contact (enr_contact_id e) db of
                     None \<Rightarrow> (Inr (step_outcome e ''paused''),
                              pause_for_policy env e ''contact no longer exists'' db)
                   | Some contact \<Rightarrow> prepare_step env e sequence step contact db))"

definition send_next_sequence_step :: "env \<Rightarrow> string \<Rightarrow> dict op" where
  "send_next_sequence_step env enrollment_id = session_scope env (send_next_body env enrollment_id)"

definition is_due :: "env \<Rightarrow> SequenceEnrollment \<Rightarrow> bool" where
  "is_due env e =
     (enr_status e \<in> ACTIVE_ENROLLMENT_STATUSES
      \<and> (case enr_next_step_at e of None \<Rightarrow> False | Some t \<Rightarrow> t \<le> env_now env))"

definition due_enrollment_ids :: "env \<Rightarrow> nat \<Rightarrow> string list op" where
  "due_enrollment_ids env limit =
     session_scope env (\<lambda>db.
       (Inr (map enr_id (take limit
          (sort_key (\<lambda>e. case enr_next_step_at e of None \<Rightarrow> 0 | Some t \<Rightarrow> t)
             (filter (is_due env) (sequence_enrollments db))))), db))"

fun send_each :: "env \<Rightarrow> string list \<Rightarrow> dict list op" where
  "send_each env [] db = (Inr [], db)"
| "send_each env (i # is) db =
     (case send_next_sequence_step env i db of
        (Inl e, db1) \<Rightarrow> (Inl e, db1)
      | (Inr outcome, db1) \<Rightarrow>
          (case send_each env is db1 of
             (Inl e, db2) \<Rightarrow> (Inl e, db2)
           | (Inr outcomes, db2) \<Rightarrow> (Inr (outcome # outcomes), db2)))"

definition process_due_sequence_steps :: "env \<Rightarrow> nat \<Rightarrow> dict op" where
  "process_due_sequence_steps env limit db =
     (case due_enrollment_ids env limit db of
        (Inl e, db1) \<Rightarrow> (Inl e, db1)
      | (Inr ids, db1) \<Rightarrow>
          (case send_each env ids db1 of
             (Inl e, db2) \<Rightarrow> (Inl e, db2)
           | (Inr outcomes, db2) \<Rightarrow>
               (Inr [(''processed'', JInt (int (length outcomes))),
                     (''outcomes'', JArr (map JObj outcomes))], db2)))"

section \<open>Laws of the helpers\<close>

lemmas event_defs = sequencing_event_def enrollment_event_def

lemma row_ids [simp]:
  "enr_id (completed_enrollment env e) = enr_id e" "enr_id (advanced_enrollment env s e) = enr_id e"
  "enr_id (paused_enrollment env r e) = enr_id e" "enr_id (suppressed_enrollment env rs e) = enr_id e"
  "enr_id (due_later env r e) = enr_id e" "enr_id (waiting_enrollment env e) = enr_id e"
  "enr_id (resumed_enrollment env e) = enr_id e" "enr_id (set_status env st r e) = enr_id e"
  by (simp_all add: completed_enrollment_def advanced_enrollment_def paused_enrollment_def
      suppressed_enrollment_def due_later_def waiting_enrollment_def resumed_enrollment_def
      set_status_def Let_def)

text \<open>A query at the start of a session reads the committed store.\<close>

lemma gets_begin [simp]:
  "get_sequence i (begin_session db) = get_sequence i db" "get_step i (begin_session db) = get_step i db"
  "get_enrollment i (begin_session db) = get_enrollment i db"
  "get_activity i (begin_session db) = get_activity i db" "get_outbound i (begin_session db) = get_outbound i db"
  "get_contact i (begin_session db) = get_contact i db" "get_account i (begin_session db) = get_account i db"
  "get_crm_target i (begin_session db) = get_crm_target i db"
  "get_email_candidate i (begin_session db) = get_email_candidate i db"
  by (simp_all add: table_defs)

lemma queries_begin [simp]:
  "blocking_suppression env ch ms (begin_session db) = blocking_suppression env ch ms db"
  "recently_sent env ch (begin_session db) = recently_sent env ch db"
  "sequence_steps_of x v (begin_session db) = sequence_steps_of x v db"
  "step_for_order x k v (begin_session db) = step_for_order x k v db"
  "contact_for_target t rq (begin_session db) = contact_for_target t rq db"
  by (simp_all add: blocking_suppression_def recently_sent_def sequence_steps_of_def step_for_order_def
      contact_for_target_def cong: option.case_cong if_cong)

lemma checks_begin [simp]:
  "suppression_allowed env m d c ch (begin_session db) = suppression_allowed env m d c ch db"
  "suppression_error env k ch (begin_session db) = suppression_error env k ch db"
  "rate_limit_blocker env t f ch s (begin_session db) = rate_limit_blocker env t f ch s db"
  by (simp_all add: suppression_allowed_def suppression_error_def rate_limit_blocker_def
      cong: option.case_cong sum.case_cong if_cong)

text \<open>Which tables a helper leaves alone.\<close>

lemma state_frame [simp]:
  "outbound_emails (complete_enrollment env e db) = outbound_emails db"
  "outbound_emails (pause_for_policy env e r db) = outbound_emails db"
  "outbound_emails (suppress_enrollment env e c rs db) = outbound_emails db"
  "outbound_emails (advance_enrollment env e s db) = outbound_emails db"
  "effects (complete_enrollment env e db) = effects db"
  "effects (pause_for_policy env e r db) = effects db"
  "effects (suppress_enrollment env e c rs db) = effects db"
  "effects (advance_enrollment env e s db) = effects db"
  by (simp_all add: complete_enrollment_def pause_for_policy_def suppress_enrollment_def
      advance_enrollment_def event_defs Let_def draw_uuid_def put_enrollment_def
      add_suppression_event_def split: list.split)

lemma state_enrollments [simp]:
  "sequence_enrollments (complete_enrollment env e db)
     = row_put enr_id (completed_enrollment env e) (sequence_enrollments db)"
  "sequence_enrollments (pause_for_policy env e r db)
     = row_put enr_id (paused_enrollment env r e) (sequence_enrollments db)"
  "sequence_enrollments (suppress_enrollment env e c rs db)
     = row_put enr_id (suppressed_enrollment env rs e) (sequence_enrollments db)"
  by (simp_all add: complete_enrollment_def pause_for_policy_def suppress_enrollment_def
      event_defs Let_def draw_uuid_def put_enrollment_def add_suppression_event_def)

section \<open>The two suppression checks agree\<close>

lemma allowed_result_simps [simp]:
  "scx_allowed allowed_result"
  "allowed_result\<lparr>scx_allowed := False, scx_reason := Some r\<rparr> = blocked_result r"
  by (simp_all add: allowed_result_def blocked_result_def)

text \<open>The query of the sequencing service is the query of the governance service
  (\<open>stored_suppression\<close>), written once more: the same row is found.\<close>

lemma sequence_matches_row:
  "list_ex (\<lambda>m. m s) (sequence_matches email domain contact_id)
     = suppression_matches \<lparr>sck_email = email, sck_domain = domain, sck_contact_id = contact_id, sck_channel = ch\<rparr> s"
  by (auto simp: sequence_matches_def suppression_matches_def str_or_def split: option.splits)

lemma sequence_matches_Nil:
  "sequence_matches email domain contact_id = []
     \<longleftrightarrow> \<not> has_criterion \<lparr>sck_email = email, sck_domain = domain, sck_contact_id = contact_id, sck_channel = ch\<rparr>"
  by (auto simp: sequence_matches_def has_criterion_def str_or_def split: option.splits)

lemma first_of_filter: "(case filter P xs of [] \<Rightarrow> None | x # _ \<Rightarrow> Some x) = List.find P xs"
  by (induction xs) simp_all

lemma find_filter: "List.find P (filter Q xs) = List.find (\<lambda>x. Q x \<and> P x) xs"
  by (induction xs) simp_all

lemma blocking_is_stored:
  "blocking_suppression env ch (sequence_matches email domain contact_id) db
     = stored_suppression env \<lparr>sck_email = email, sck_domain = domain, sck_contact_id = contact_id, sck_channel = ch\<rparr> db"
proof -
  let ?q = "\<lparr>sck_email = email, sck_domain = domain, sck_contact_id = contact_id, sck_channel = ch\<rparr>"
  have "(suppression_in_force (env_now env) (py_lower ch) s \<and> suppression_matches ?q s)
      = (((sup_active s \<and> sup_channel s = py_lower ch) \<and> (sup_expires_at s = None \<or> the (sup_expires_at s) > env_now env))
         \<and> list_ex (\<lambda>m. m s) (sequence_matches email domain contact_id))" for s
    unfolding sequence_matches_row [where ch = ch] by (auto simp: suppression_in_force_def split: option.splits)
  then show ?thesis
    by (simp add: blocking_suppression_def stored_suppression_def Let_def first_of_filter find_filter conj_assoc)
qed

lemma suppression_allowed_stored:
  "suppression_allowed env email domain contact_id channel db =
     (case suppression_request env email domain contact_id channel of
        Inl e \<Rightarrow> Inl e
      | Inr q \<Rightarrow>
          (let baseline = evaluate_suppression q;
               criteria = \<lparr>sck_email = email, sck_domain = domain, sck_contact_id = contact_id, sck_channel = channel\<rparr>
           in if \<not> scx_allowed baseline then Inr baseline
              else if \<not> has_criterion criteria then Inr baseline
              else case stored_suppression env criteria db of
                     None \<Rightarrow> Inr baseline
                   | Some s \<Rightarrow> Inr (baseline\<lparr>scx_allowed := False, scx_reason := Some (sup_reason s)\<rparr>)))"
  by (cases "suppression_request env email domain contact_id channel")
     (simp_all add: suppression_allowed_def Let_def sequence_matches_Nil [where ch = channel] blocking_is_stored)

text \<open>So the sequencing service and the governance service answer the same:
  for an address that pydantic accepts, normalising at most letter case, the sequencing check
  inside a session gives the result of the governance check on the committed store.\<close>

lemma suppression_checks_agree:
  assumes "env_email_str env a = Some a'" and "py_lower a' = py_lower a" and "a \<noteq> []"
    and "admitted env" and "constraints_ok db"
  shows "evaluate_suppression_with_store env
           \<lparr>sck_email = Some a', sck_domain = domain, sck_contact_id = contact_id, sck_channel = channel\<rparr> db
         = (suppression_allowed env (Some a) domain contact_id channel db, db)"
proof -
  let ?q = "\<lparr>sck_email = Some a', sck_domain = domain, sck_contact_id = contact_id, sck_channel = channel\<rparr>"
  let ?c = "\<lparr>sck_email = Some a, sck_domain = domain, sck_contact_id = contact_id, sck_channel = channel\<rparr>"
  have ne: "a' \<noteq> []" using assms(2,3) by (metis py_lower_Nil_iff)
  have req: "suppression_request env (Some a) domain contact_id channel = Inr ?q"
    using assms(1) by (simp add: suppression_request_def)
  have "suppression_matches ?q = suppression_matches ?c" and crit: "has_criterion ?q" "has_criterion ?c"
    using assms(2,3) ne by (auto simp: suppression_matches_def has_criterion_def str_or_def fun_eq_iff)
  then have stored: "stored_suppression env ?q db = stored_suppression env ?c db"
    by (simp add: stored_suppression_def)
  have base: "scx_allowed (evaluate_suppression ?q) \<Longrightarrow> evaluate_suppression ?q = allowed_result"
    by (auto simp: evaluate_suppression_def Let_def blocked_result_def allowed_result_def split: if_splits)
  show ?thesis
  proof (cases "scx_allowed (evaluate_suppression ?q)")
    case False
    then show ?thesis by (simp add: evaluate_suppression_with_store_def suppression_allowed_stored req Let_def)
  next
    case True
    then have b: "evaluate_suppression ?q = allowed_result" by (rule base)
    have "session_scope env (\<lambda>db. (Inr (case stored_suppression env ?q db of None \<Rightarrow> allowed_result
        | Some s \<Rightarrow> blocked_result (sup_reason s)), db)) db
      = (Inr (case stored_suppression env ?q db of None \<Rightarrow> allowed_result
        | Some s \<Rightarrow> blocked_result (sup_reason s)), db)"
      using assms(4,5) by (intro session_scope_read) (simp_all add: stored_suppression_def)
    then show ?thesis
      by (simp add: evaluate_suppression_with_store_def suppression_allowed_stored req crit Let_def stored b
          split: option.split)
  qed
qed

section \<open>The enrollment gate\<close>

lemma enrollment_subject_Inr:
  assumes "enrollment_subject env q db = Inr (s, step, t, c)"
  shows "get_sequence (ecq_sequence_id q) db = Some s \<and> seq_status s = ''active''
    \<and> (\<exists>rest. sequence_steps_of (seq_id s) None db = step # rest)
    \<and> get_crm_target (ecq_crm_target_id q) db = Some t \<and> tgt_status t = ''exported''
    \<and> tgt_export_status t = ''exported'' \<and> contact_for_target t (ecq_contact_id q) db = Inr c
    \<and> require_sendable_contact c = None \<and> suppression_error env c (seq_channel s) db = None"
  using assms
  by (auto simp: enrollment_subject_def split: option.splits list.splits if_splits sum.splits)

lemma create_enrollment_new:
  assumes "create_enrollment_body env q actor key db = (Inr m, db')" and "enrollment_with_key key db = None"
  shows "\<exists>s step t c row_id. enrollment_subject env q db = Inr (s, step, t, c)
    \<and> sequence_enrollments db' = sequence_enrollments db @ [enrollment_row env q actor key s step t c row_id]
    \<and> outbound_emails db' = outbound_emails db \<and> effects db' = effects db
    \<and> enrollment_to_model_with_emails env (enrollment_row env q actor key s step t c row_id) db' = Inr m"
  using assms
  by (auto simp: create_enrollment_body_def draw_uuid_def Let_def add_enrollment_def event_defs
      dest!: flush_written split: sum.splits prod.splits)

lemma enrollment_subject_begin [simp]:
  "enrollment_subject env q (begin_session db) = enrollment_subject env q db"
  by (simp add: enrollment_subject_def cong: option.case_cong list.case_cong sum.case_cong if_cong)

lemma require_sendable_None:
  "require_sendable_contact c = None \<longleftrightarrow>
     \<not> con_do_not_contact_flag c \<and> truthy_str (con_email c) \<and> con_email_status c = Some ''verified''
     \<and> truthy_str (con_lawful_basis c)"
  by (simp add: require_sendable_contact_def)

lemma contact_for_target_stored:
  "contact_for_target t requested db = Inr c \<Longrightarrow> get_contact (con_id c) db = Some c"
  by (auto simp: contact_for_target_def Let_def contact_repo.get_key split: if_splits option.splits)

text \<open>C5: A contact is enrolled only with a separate outreach approval, into an active
  sequence that has steps, from a target the CRM has confirmed exported, when the contact (the
  stored one that the request names, or that stands behind the target) may be written to (not
  marked do-not-contact, a verified address, a lawful basis) and no suppression is in force.  The new enrollment is active at the first step of the current
  version of the sequence; no mail is prepared or sent.\<close>

theorem enrollment_gate:
  assumes "create_sequence_enrollment env q actor key db = (Inr m, db')"
    and "enrollment_with_key key db = None"
  shows "ecq_outreach_approved q
    \<and> (\<exists>s step rest t c row_id.
        get_sequence (ecq_sequence_id q) db = Some s \<and> seq_status s = ''active''
      \<and> sequence_steps_of (seq_id s) None db = step # rest
      \<and> get_crm_target (ecq_crm_target_id q) db = Some t
      \<and> tgt_status t = ''exported'' \<and> tgt_export_status t = ''exported''
      \<and> contact_for_target t (ecq_contact_id q) db = Inr c \<and> get_contact (con_id c) db = Some c
      \<and> \<not> con_do_not_contact_flag c \<and> truthy_str (con_email c)
      \<and> con_email_status c = Some ''verified'' \<and> truthy_str (con_lawful_basis c)
      \<and> suppression_error env c (seq_channel s) db = None
      \<and> sequence_enrollments db' = sequence_enrollments db @ [enrollment_row env q actor key s step t c row_id])
    \<and> outbound_emails db' = outbound_emails db \<and> effects db' = effects db"
proof -
  from assms(1) have ok: "ecq_outreach_approved q"
    and run: "session_scope env (create_enrollment_body env q actor key) db = (Inr m, db')"
    by (auto simp: create_sequence_enrollment_def split: if_splits)
  from run obtain db1 where body: "create_enrollment_body env q actor key (begin_session db) = (Inr m, db1)"
      and db': "db' = end_session db (written env db1)"
    by (auto elim!: session_scope_ok dest!: flush_written)
  have "enrollment_with_key key (begin_session db) = None"
    using assms(2) by (simp add: enrollment_with_key_def)
  from create_enrollment_new [OF body this] obtain s step t c row_id
    where subject: "enrollment_subject env q db = Inr (s, step, t, c)"
      and rows: "sequence_enrollments db1 = sequence_enrollments db @ [enrollment_row env q actor key s step t c row_id]"
      and rest: "outbound_emails db1 = outbound_emails db" "effects db1 = effects db"
    by auto
  have stored: "get_contact (con_id c) db = Some c"
    using enrollment_subject_Inr [OF subject] contact_for_target_stored by blast
  from enrollment_subject_Inr [OF subject] show ?thesis
    using ok rows rest stored by (auto simp: db' require_sendable_None)
qed

section \<open>Definition versions\<close>

lemma add_steps_rows:
  "add_steps env sid v i qs db = (ss, db')
   \<Longrightarrow> sequence_steps db' = sequence_steps db @ ss \<and> sequences db' = sequences db
     \<and> list_all (\<lambda>s. step_sequence_id s = sid \<and> step_definition_version s = v \<and> step_active s) ss"
  by (induction env sid v i qs db arbitrary: ss db' rule: add_steps.induct)
     (auto simp: draw_uuid_def Let_def add_step_def step_row_def split: prod.splits)

lemma edited_sequence_keeps [simp]:
  "seq_id (edited_sequence q s) = seq_id s"
  "seq_definition_version (edited_sequence q s) = seq_definition_version s"
  by (simp_all add: edited_sequence_def Let_def split: option.split)

lemma update_sequence_steps:
  assumes "update_sequence_body env sid q db = (Inr r, db')" and "get_sequence sid db = Some s"
  shows "\<exists>ss. sequence_steps db' = sequence_steps db @ ss
    \<and> list_all (\<lambda>st. step_sequence_id st = seq_id s \<and> step_definition_version st = seq_definition_version s + 1
        \<and> step_active st) ss"
proof (cases "suq_steps q")
  case None
  with assms show ?thesis
    by (auto simp: update_sequence_body_def Let_def put_sequence_def dest!: flush_written
        split: sum.splits if_splits)
next
  case (Some steps)
  obtain ss db1 where rows: "add_steps env (seq_id s) (seq_definition_version s + 1) 1 steps db = (ss, db1)"
    by fastforce
  with assms Some have "sequence_steps db' = sequence_steps db1"
    by (auto simp: update_sequence_body_def Let_def put_sequence_def dest!: flush_written
        split: sum.splits if_splits)
  with add_steps_rows [OF rows] show ?thesis by auto
qed

text \<open>Editing a sequence never changes what a running enrollment will do: after
  \<open>update_sequence\<close> the steps of every version up to the one that was current, and of every
  other sequence, are what they were, and so is the step found for an enrollment on them.\<close>

theorem versions_frozen:
  assumes "update_sequence env sid q db = (Inr r, db')" and "get_sequence sid db = Some s"
    and "x \<noteq> sid \<or> v \<le> seq_definition_version s"
  shows "sequence_steps_of x (Some v) db' = sequence_steps_of x (Some v) db
    \<and> step_for_order x k (Some v) db' = step_for_order x k (Some v) db"
proof -
  from assms(1) obtain db1 where "update_sequence_body env sid q (begin_session db) = (Inr r, db1)"
      and db': "db' = end_session db (written env db1)"
    by (auto simp: update_sequence_def elim!: session_scope_ok dest!: flush_written)
  moreover have "get_sequence sid (begin_session db) = Some s" using assms(2) by (simp add: get_sequence_def)
  ultimately obtain ss where rows: "sequence_steps db1 = sequence_steps db @ ss"
      and new: "list_all (\<lambda>st. step_sequence_id st = seq_id s
        \<and> step_definition_version st = seq_definition_version s + 1 \<and> step_active st) ss"
    using update_sequence_steps by fastforce
  have "seq_id s = sid" using assms(2) by (rule sequence_repo.get_key)
  with new assms(3) have none: "st \<in> set ss \<Longrightarrow> step_sequence_id st = x \<Longrightarrow> step_definition_version st \<noteq> v" for st
    by (auto simp: list_all_iff)
  then have "filter (\<lambda>st. step_sequence_id st = x \<and> step_definition_version st = v \<and> step_active st) ss = []"
    by (auto simp: filter_empty_conv)
  moreover have "List.find (\<lambda>st. step_definition_version st = v)
      (filter (\<lambda>st. step_sequence_id st = x \<and> step_step_order st = k \<and> step_active st) ss) = None"
    using none by (auto simp: find_None_iff_ball)
  moreover have "List.find P (xs @ ys) = List.find P xs" if "List.find P ys = None" for P and xs ys :: "SequenceStep list"
    using that by (cases "List.find P xs") simp_all
  ultimately show ?thesis
    by (simp add: db' rows sequence_steps_of_def step_for_order_def)
qed

section \<open>The scheduler only prepares\<close>

text \<open>The contract of an operation that may prepare mails but never sends one.\<close>

definition no_new_sent :: "db \<Rightarrow> db \<Rightarrow> bool" where
  "no_new_sent db db' =
     (effects db' = effects db
      \<and> (\<forall>o' \<in> set (outbound_emails db'). out_status o' = ''sent'' \<longrightarrow> o' \<in> set (outbound_emails db)))"

lemma no_new_sent_refl [simp]: "no_new_sent db db"
  by (simp add: no_new_sent_def)

lemma no_new_sent_trans: "no_new_sent db1 db2 \<Longrightarrow> no_new_sent db2 db3 \<Longrightarrow> no_new_sent db1 db3"
  by (auto simp: no_new_sent_def)

lemma no_new_sent_cong:
  "outbound_emails db1 = outbound_emails db2 \<Longrightarrow> effects db1 = effects db2
     \<Longrightarrow> no_new_sent db db1 = no_new_sent db db2"
  by (simp add: no_new_sent_def)

lemma no_new_sent_same: "outbound_emails db' = outbound_emails db \<Longrightarrow> effects db' = effects db \<Longrightarrow> no_new_sent db db'"
  by (simp add: no_new_sent_def)

lemma activity_for_step_frame:
  "activity_for_step env e s st oid db = (r, db') \<Longrightarrow>
     outbound_emails db' = outbound_emails db \<and> effects db' = effects db
   \<and> sequence_enrollments db' = sequence_enrollments db"
  by (auto simp: activity_for_step_def draw_uuid_def Let_def put_activity_def add_activity_def
      dest!: flush_written split: option.splits sum.splits if_splits)

lemma outbound_for_step_drafts:
  "outbound_for_step env e s c a f db = (r, db') \<Longrightarrow>
     effects db' = effects db \<and> sequence_enrollments db' = sequence_enrollments db
   \<and> (\<forall>o' \<in> set (outbound_emails db'). o' \<in> set (outbound_emails db) \<or> out_status o' = ''pending'')"
  by (auto simp: outbound_for_step_def draw_uuid_def Let_def add_outbound_def outbound_row_def
      dest!: flush_written split: option.splits sum.splits)

lemma prepare_task_prepares: "prepare_task env e s db = (r, db') \<Longrightarrow> no_new_sent db db'"
  by (auto simp: prepare_task_def put_enrollment_def no_new_sent_def dest!: activity_for_step_frame
      split: prod.splits sum.splits)

lemma put_draft:
  assumes "x \<in> set (row_put out_id (o'\<lparr>out_status := ''pending_approval'', out_updated_at := n\<rparr>) rows)"
    and "out_status x = ''sent''" and "\<forall>y \<in> set rows. y \<in> S \<or> out_status y = ''pending''"
  shows "x \<in> S"
  using mem_row_put [OF assms(1)] assms(2,3) by auto

lemma draft_email_prepares: "draft_email env e s c db = (r, db') \<Longrightarrow> no_new_sent db db'"
  by (auto simp: draft_email_def Let_def put_enrollment_def put_outbound_def no_new_sent_def
      dest!: activity_for_step_frame outbound_for_step_drafts split: prod.splits sum.splits)
    (erule (2) put_draft)+

lemma prepare_step_prepares: "prepare_step env e q s c db = (r, db') \<Longrightarrow> no_new_sent db db'"
  by (auto simp: prepare_step_def prepare_email_def put_enrollment_def
      intro: no_new_sent_same prepare_task_prepares draft_email_prepares
      split: option.splits sum.splits if_splits)

lemma send_next_prepares:
  assumes "send_next_sequence_step env i db = (r, db')"
  shows "no_new_sent db db'"
proof -
  have body: "send_next_body env i db1 = (x, db2) \<Longrightarrow> no_new_sent db1 db2" for db1 x db2
    by (auto simp: send_next_body_def intro: no_new_sent_same prepare_step_prepares
        split: option.splits if_splits)
  from assms show ?thesis
    unfolding send_next_sequence_step_def
  proof (cases rule: session_cases)
    case (raised e x db1)
    with body [OF raised(2)] show ?thesis by (simp add: no_new_sent_def)
  next
    case (committed v db1)
    with body [OF committed(2)] show ?thesis by (simp add: no_new_sent_def)
  qed simp
qed

lemma send_each_prepares: "send_each env is db = (r, db') \<Longrightarrow> no_new_sent db db'"
proof (induction "is" arbitrary: db r db')
  case (Cons i "is")
  obtain x db1 where step: "send_next_sequence_step env i db = (x, db1)" by fastforce
  note first = send_next_prepares [OF step]
  show ?case
  proof (cases x)
    case (Inl e)
    with Cons.prems step first show ?thesis by simp
  next
    case (Inr m)
    obtain y db2 where rest: "send_each env is db1 = (y, db2)" by fastforce
    with Cons.prems step Inr have "db' = db2" by (auto split: sum.splits)
    with Cons.IH [OF rest] first show ?thesis by (blast intro: no_new_sent_trans)
  qed
qed simp

lemma due_enrollment_ids_prepares: "due_enrollment_ids env limit db = (r, db') \<Longrightarrow> no_new_sent db db'"
  unfolding due_enrollment_ids_def by (erule session_cases) (auto simp: no_new_sent_def)

text \<open>The scheduler sends nothing on its own: whatever a run of
  \<open>process_due_sequence_steps\<close> does, no message is handed to the mail server and no mail
  becomes sent.  A mail leaves only through an approved activity.\<close>

theorem scheduler_never_sends:
  assumes "process_due_sequence_steps env limit db = (r, db')"
  shows "effects db' = effects db
    \<and> (\<forall>o' \<in> set (outbound_emails db'). out_status o' = ''sent'' \<longrightarrow> o' \<in> set (outbound_emails db))"
proof -
  obtain x db1 where due: "due_enrollment_ids env limit db = (x, db1)" by fastforce
  note first = due_enrollment_ids_prepares [OF due]
  show ?thesis
  proof (cases x)
    case (Inl e)
    with assms due first show ?thesis by (simp add: process_due_sequence_steps_def no_new_sent_def)
  next
    case (Inr ids)
    obtain y db2 where rest: "send_each env ids db1 = (y, db2)" by fastforce
    with assms due Inr have "db' = db2" by (auto simp: process_due_sequence_steps_def split: sum.splits)
    with no_new_sent_trans [OF first send_each_prepares [OF rest]] show ?thesis
      by (simp add: no_new_sent_def)
  qed
qed

section \<open>One bad enrollment stops a run\<close>

text \<open>C25: An error while preparing one enrollment is not contained: the run
  raises it, keeps what the enrollments before it did, and never reaches the ones after it.
  With the enrollment still due, the next run meets it again.\<close>

theorem scheduler_stops_at_error:
  assumes "due_enrollment_ids env limit db = (Inr (before @ bad # after), db1)"
    and "send_each env before db1 = (Inr outcomes, db2)"
    and "send_next_sequence_step env bad db2 = (Inl e, db3)"
  shows "process_due_sequence_steps env limit db = (Inl e, db3) \<and> same_tables db2 db3"
proof -
  have "send_each env (before @ bad # after) db1 = (Inl e, db3)"
    using assms(2,3)
  proof (induction before arbitrary: db1 outcomes)
    case (Cons i before)
    then show ?case by (auto split: prod.splits sum.splits)
  qed simp
  moreover have "same_tables db2 db3"
    using assms(3) unfolding send_next_sequence_step_def by (rule session_scope_error)
  ultimately show ?thesis using assms(1) by (simp add: process_due_sequence_steps_def)
qed

section \<open>Creating and reading a sequence\<close>

definition steps_owned :: "db \<Rightarrow> bool" where
  "steps_owned db = (\<forall>st \<in> set (sequence_steps db). get_sequence (step_sequence_id st) db \<noteq> None)"

lemma create_sequence_new:
  assumes "create_sequence_body env q key db = (Inr m, db')" and "sequence_with_key key db = None"
  shows "\<exists>s ss. sequences db' = sequences db @ [s] \<and> sequence_steps db' = sequence_steps db @ ss
    \<and> s = sequence_row env q key (seq_id s)
    \<and> list_all (\<lambda>st. step_sequence_id st = seq_id s \<and> step_definition_version st = 1 \<and> step_active st) ss
    \<and> sequence_to_model s (sort_key step_step_order ss) = Inr m"
  using assms
  by (auto simp: create_sequence_body_def draw_uuid_def Let_def add_sequence_def sequence_row_def
      dest!: flush_written add_steps_rows split: sum.splits prod.splits)

lemma sequence_model_id: "sequence_to_model s steps = Inr m \<Longrightarrow> dict_get m ''id'' = JStr (seq_id s)"
  by (auto simp: sequence_to_model_def dict_get_def split: sum.splits if_splits)

text \<open>What \<open>create_sequence\<close> answers is what a later read of the sequence
  answers: the definition round-trips through the store, its steps in the order of their
  step numbers.\<close>

theorem sequence_reads_back:
  assumes "create_sequence env q key db = (Inr m, db')" and "sequence_with_key key db = None"
    and "steps_owned db" and "admitted env'"
  shows "\<exists>i. dict_get m ''id'' = JStr i \<and> get_sequence_definition env' i db' = (Inr (Some m), db')"
proof -
  from assms(1) obtain db1 where body: "create_sequence_body env q key (begin_session db) = (Inr m, db1)"
      and db': "db' = end_session db (written env db1)" and ok: "constraints_ok (written env db1)"
    unfolding create_sequence_def by (cases rule: session_cases) auto
  have "sequence_with_key key (begin_session db) = None"
    using assms(2) by (simp add: sequence_with_key_def split: if_splits)
  from create_sequence_new [OF body this] obtain s ss
    where rows: "sequences db1 = sequences db @ [s]" "sequence_steps db1 = sequence_steps db @ ss"
      and s: "s = sequence_row env q key (seq_id s)"
      and ss: "list_all (\<lambda>st. step_sequence_id st = seq_id s \<and> step_definition_version st = 1 \<and> step_active st) ss"
      and model: "sequence_to_model s (sort_key step_step_order ss) = Inr m" by auto
  have fresh: "seq_id s \<notin> seq_id ` set (sequences db)"
    using ok rows by (auto simp: constraints_ok_def)
  then have absent: "row_get seq_id (seq_id s) (sequences db) = None"
    unfolding row_get_def find_None_iff_ball by (metis imageI)
  then have found: "row_get seq_id (seq_id s) (sequences db @ [s]) = Some s" by (rule row_get_append_new)
  have "seq_definition_version s = 1" by (subst s) (simp add: sequence_row_def)
  moreover have "filter (\<lambda>st. step_sequence_id st = seq_id s \<and> step_definition_version st = 1 \<and> step_active st)
      (sequence_steps db) = []"
    using assms(3) absent by (auto simp: steps_owned_def get_sequence_def filter_empty_conv)
  moreover have "filter (\<lambda>st. step_sequence_id st = seq_id s \<and> step_definition_version st = 1 \<and> step_active st) ss = ss"
    using ss by (auto simp: list_all_iff filter_id_conv)
  ultimately have "sequence_steps_of (seq_id s) None (begin_session db') = sort_key step_step_order ss"
    by (simp add: sequence_steps_of_def get_sequence_def db' rows found)
  then have "get_sequence_definition env' (seq_id s) db' = (Inr (Some m), db')"
    unfolding get_sequence_definition_def using assms(4) ok found
    by (intro session_scope_read) (simp_all add: get_sequence_def db' rows constraints_ok_cong model)
  with sequence_model_id [OF model] show ?thesis by blast
qed

end
