(* ===== verification/Outreach.thy ===== *)
theory Outreach
  imports Sequencing
begin

text \<open>
  What leaves the system and what comes back (\<open>services/sequencing\<close>: \<open>email_delivery.py\<close>,
  \<open>activities.py\<close>, \<open>alerts.py\<close>, \<open>inbound.py\<close>, the inbound part of \<open>policy.py\<close>, and
  \<open>services/sequence_adapters.py\<close>): sending an approved mail, completing a task, alert mails,
  and the replies, bounces and unsubscribes that a mailbox delivers.

  A mail server is a record: the text the adapter check inspects and the outcome of a send.
  The standard sender of the service is \<open>stdlib_sender\<close>; the delivery through \<open>smtplib\<close> is its
  parameter.  Every call of a sender is recorded in \<open>effects\<close>, which no roll-back undoes.
\<close>

section \<open>Requests and adapters\<close>

datatype InboundEmailEventType = REPLY | BOUNCE | UNSUBSCRIBE

fun inbound_type_value :: "InboundEmailEventType \<Rightarrow> string" where
  "inbound_type_value REPLY = ''reply''"
| "inbound_type_value BOUNCE = ''bounce''"
| "inbound_type_value UNSUBSCRIBE = ''unsubscribe''"

record InboundEmailEventCreate =
  iec_event_type :: InboundEmailEventType
  iec_from_email :: "string option"
  iec_to_email :: "string option"
  iec_message_id :: "string option"
  iec_provider_message_id :: "string option"
  iec_provider_payload :: dict
  iec_occurred_at :: "int option"

record UnsubscribeRequest =
  usr_email :: string
  usr_domain :: "string option"
  usr_channel :: string
  usr_reason :: string
  usr_provider_payload :: dict

record SequenceActivityActionRequest =
  saq_reason :: "string option"
  saq_metadata :: dict

record SequenceEmailAlertCreate =
  eac_recipient_email :: string
  eac_subject :: string
  eac_body :: string
  eac_send_at :: "int option"

record SmtpSender =
  sender_identity :: string
  sender_send :: "SmtpSendRequest \<Rightarrow> error + string"

definition SYNTHETIC_ADAPTER_MARKERS :: "string list" where
  "SYNTHETIC_ADAPTER_MARKERS = [''disabled'', ''fake'', ''localdemo'', ''local_demo'', ''local-demo'']"

definition assert_adapter_allowed :: "Settings \<Rightarrow> string \<Rightarrow> string \<Rightarrow> error option" where
  "assert_adapter_allowed cfg identity capability =
     (if strict_runtime cfg \<and> list_ex (\<lambda>m. is_substring m (py_lower identity)) SYNTHETIC_ADAPTER_MARKERS
      then Some (RuntimeError (''configuration validation failed: '' @ capability
             @ '': synthetic_adapter (inject a live provider adapter)''))
      else None)"

text \<open>\<open>StdlibSmtpSender\<close>: refused without a host; the provider's message id is the one sent.\<close>

definition stdlib_sender :: "Settings \<Rightarrow> (SmtpSendRequest \<Rightarrow> error option) \<Rightarrow> error + SmtpSender" where
  "stdlib_sender cfg transport =
     (if str_or (cfg_smtp_host cfg) [] = []
      then Inl (ValueError ''GHOSTRECON_SMTP_HOST is required for SMTP sends'')
      else Inr \<lparr>sender_identity = ''StdlibSmtpSender ghostrecon.services.sequence_adapters  '',
                sender_send = (\<lambda>m. case transport m of Some e \<Rightarrow> Inl e | None \<Rightarrow> Inr (smtp_message_id m))\<rparr>)"

text \<open>\<open>sender or StdlibSmtpSender(resolved)\<close>, then the adapter check.\<close>

definition resolve_sender ::
  "env \<Rightarrow> (SmtpSendRequest \<Rightarrow> error option) \<Rightarrow> SmtpSender option \<Rightarrow> error + SmtpSender" where
  "resolve_sender env transport given =
     (case (case given of Some s \<Rightarrow> Inr s | None \<Rightarrow> stdlib_sender (env_settings env) transport) of
        Inl e \<Rightarrow> Inl e
      | Inr s \<Rightarrow> (case assert_adapter_allowed (env_settings env) (sender_identity s) ''smtp_provider'' of
                    Some e \<Rightarrow> Inl e
                  | None \<Rightarrow> Inr s))"

definition smtp_call :: "SmtpSender \<Rightarrow> SmtpSendRequest \<Rightarrow> db \<Rightarrow> (error + string) \<times> db" where
  "smtp_call sender m db = (sender_send sender m, db\<lparr>effects := effects db @ [SmtpSend m]\<rparr>)"

text \<open>The classification of a message that the mailbox poller found.\<close>

definition classify_inbound :: "string \<Rightarrow> string option \<Rightarrow> InboundEmailEventType" where
  "classify_inbound subject from_email =
     (let normalized = py_lower subject; sender = py_lower (str_or from_email [])
      in if is_substring ''unsubscribe'' normalized then UNSUBSCRIBE
         else if is_substring ''undeliver'' normalized \<or> is_substring ''delivery status'' normalized
                 \<or> is_substring ''mailer-daemon'' sender then BOUNCE
         else REPLY)"

definition some_text :: "string \<Rightarrow> string option" where
  "some_text s = (if s = [] then None else Some s)"

definition extract_address :: "string option \<Rightarrow> string option" where
  "extract_address raw =
     (let r = str_or raw []
      in if r = [] then None
         else if CHR ''<'' \<in> set r \<and> CHR ''>'' \<in> set r
         then some_text (py_lower (py_strip (before_first (CHR ''>'') (tl (dropWhile (\<lambda>c. c \<noteq> CHR ''<'') r)))))
         else some_text (py_lower (py_strip r)))"

section \<open>Sending an approved mail\<close>

definition send_message :: "OutboundEmail \<Rightarrow> SmtpSendRequest" where
  "send_message o' =
     \<lparr>smtp_from_email = out_from_email o', smtp_to_email = out_to_email o', smtp_subject = out_subject o',
      smtp_body = out_body o', smtp_message_id = ''<ghostrecon-'' @ out_id o' @ ''@local>''\<rparr>"

definition attempted_outbound :: "env \<Rightarrow> OutboundEmail \<Rightarrow> OutboundEmail" where
  "attempted_outbound env o' =
     o'\<lparr>out_attempt_count := out_attempt_count o' + 1, out_status := ''pending'', out_last_error := None,
        out_retry_after_seconds := None, out_updated_at := env_now env\<rparr>"

definition failed_outbound :: "env \<Rightarrow> string \<Rightarrow> OutboundEmail \<Rightarrow> OutboundEmail" where
  "failed_outbound env msg o' =
     o'\<lparr>out_status := ''failed_retryable'', out_last_error := Some msg,
        out_retry_after_seconds := Some (cfg_sequence_retry_after_seconds (env_settings env)),
        out_updated_at := env_now env\<rparr>"

definition sent_outbound :: "env \<Rightarrow> string \<Rightarrow> OutboundEmail \<Rightarrow> OutboundEmail" where
  "sent_outbound env provider_id o' =
     o'\<lparr>out_status := ''sent'', out_provider_message_id := Some provider_id,
        out_sent_at := Some (env_now env), out_updated_at := env_now env\<rparr>"

definition failed_activity :: "env \<Rightarrow> string \<Rightarrow> SequenceStepActivity \<Rightarrow> SequenceStepActivity" where
  "failed_activity env msg a =
     a\<lparr>act_status := ''failed'',
       act_metadata_payload := dict_set ''last_error'' (JStr msg) (act_metadata_payload a),
       act_updated_at := env_now env\<rparr>"

definition sent_activity :: "env \<Rightarrow> string \<Rightarrow> SequenceStepActivity \<Rightarrow> SequenceStepActivity" where
  "sent_activity env actor a =
     a\<lparr>act_status := ''completed'', act_approved_by := Some actor, act_approved_at := Some (env_now env),
       act_completed_by := Some actor, act_completed_at := Some (env_now env),
       act_updated_at := env_now env\<rparr>"

definition retry_enrollment :: "env \<Rightarrow> SequenceEnrollment \<Rightarrow> SequenceEnrollment" where
  "retry_enrollment env e =
     e\<lparr>enr_next_step_at := Some (env_now env + seconds (cfg_sequence_retry_after_seconds (env_settings env))),
       enr_updated_at := env_now env\<rparr>"

definition respond_activity :: "SequenceStepActivity \<Rightarrow> db \<Rightarrow> (error + dict option) \<times> db" where
  "respond_activity a db =
     (case activity_to_model_with_display a db of Inl e \<Rightarrow> (Inl e, db) | Inr m \<Rightarrow> (Inr (Some m), db))"

text \<open>The mail is attempted, and either recorded as sent, which moves the enrollment on, or as a
  retryable failure.\<close>

definition deliver ::
  "env \<Rightarrow> SmtpSender \<Rightarrow> string \<Rightarrow> SequenceStepActivity \<Rightarrow> SequenceEnrollment \<Rightarrow> SequenceStep \<Rightarrow> OutboundEmail
     \<Rightarrow> dict option op" where
  "deliver env sender actor a e step o0 db =
     (let o1 = attempted_outbound env o0
      in case smtp_call sender (send_message o1) (put_outbound o1 db) of
           (Inl exc, db1) \<Rightarrow>
             (let msg = error_text exc;
                  a' = failed_activity env msg a
              in respond_activity a'
                   (put_enrollment (retry_enrollment env e)
                      (put_activity a' (put_outbound (failed_outbound env msg o1) db1))))
         | (Inr provider_id, db1) \<Rightarrow>
             (let o2 = sent_outbound env provider_id o1;
                  db2 = sequencing_event env EMAIL_SENT ''outbound_email'' (out_id o2) (outbound_email_to_api o2)
                          (''email.sent:'' @ out_id o2 @ '':'' @ show_int (out_attempt_count o2))
                          (put_outbound o2 db1);
                  a' = sent_activity env actor a
              in respond_activity a' (put_activity a' (advance_enrollment env e step db2))))"

definition find_draft ::
  "env \<Rightarrow> SequenceStepActivity \<Rightarrow> SequenceEnrollment \<Rightarrow> SequenceStep \<Rightarrow> Contact \<Rightarrow> OutboundEmail op" where
  "find_draft env a e step contact db =
     (if truthy_str (act_outbound_email_id a) then
        (case get_outbound (str_or (act_outbound_email_id a) []) db of
           Some o' \<Rightarrow> (Inr o', db)
         | None \<Rightarrow> (Inl (AttributeError ''attempt_count''), db))
      else outbound_for_step env e step contact (account_of e db) (sender_address env) db)"

text \<open>The checks made again at the moment of approval.  What they change is lost, because every
  one of them raises.\<close>

definition send_checks ::
  "env \<Rightarrow> SequenceEnrollment \<Rightarrow> SequenceStep \<Rightarrow> db \<Rightarrow> error \<times> db + Sequence \<times> Contact" where
  "send_checks env e step db =
     (case get_sequence (enr_sequence_id e) db of
        None \<Rightarrow> Inl (ValueError ''sequence is not active'', pause_for_policy env e ''sequence is not active'' db)
      | Some sequence \<Rightarrow>
          if seq_status sequence \<noteq> ''active''
          then Inl (ValueError ''sequence is not active'', pause_for_policy env e ''sequence is not active'' db)
          else case get_contact (enr_contact_id e) db of
            None \<Rightarrow> Inl (ValueError ''contact no longer exists'',
                         pause_for_policy env e ''contact no longer exists'' db)
          | Some contact \<Rightarrow>
              (case require_sendable_contact contact of
                 Some err \<Rightarrow> Inl (err, db)
               | None \<Rightarrow>
                   (case suppression_allowed env (con_email contact) (domain_from_email (con_email contact))
                           (Some (con_id contact)) (step_channel step) db of
                      Inl err \<Rightarrow> Inl (err, db)
                    | Inr r \<Rightarrow>
                        if \<not> scx_allowed r
                        then Inl (ValueError (str_or (scx_reason r) ''suppression blocks outreach''),
                                  suppress_enrollment env e contact (scx_reason r) db)
                        else case rate_limit_blocker env (str_or (con_email contact) []) (sender_address env)
                                    (step_channel step) sequence db of
                          Inl err \<Rightarrow> Inl (err, db)
                        | Inr (Some reason) \<Rightarrow>
                            Inl (ValueError reason, put_enrollment (due_later env reason e) db)
                        | Inr None \<Rightarrow> Inr (sequence, contact))))"

definition send_approved_body ::
  "env \<Rightarrow> SmtpSender \<Rightarrow> string \<Rightarrow> string \<Rightarrow> dict option op" where
  "send_approved_body env sender activity_id actor db =
     (case get_activity activity_id db of
        None \<Rightarrow> (Inr None, db)
      | Some a \<Rightarrow>
          if act_channel a \<noteq> ''email'' then (Inl (ValueError ''activity is not an email approval''), db)
          else if act_status a \<notin> {''pending_approval'', ''approved''}
          then (Inl (ValueError (''cannot approve '' @ act_status a @ '' activity'')), db)
          else case (get_enrollment (act_enrollment_id a) db, get_step (act_sequence_step_id a) db) of
            (Some e, Some step) \<Rightarrow>
              if enr_status e \<noteq> ''active'' then (Inl (ValueError ''sequence enrollment is not active''), db)
              else (case send_checks env e step db of
                      Inl (err, db1) \<Rightarrow> (Inl err, db1)
                    | Inr (sequence, contact) \<Rightarrow>
                        (case find_draft env a e step contact db of
                           (Inl err, db1) \<Rightarrow> (Inl err, db1)
                         | (Inr o', db1) \<Rightarrow> deliver env sender actor a e step o' db1))
          | _ \<Rightarrow> (Inl (ValueError ''activity is missing sequence context''), db))"

definition send_approved_sequence_email ::
  "env \<Rightarrow> (SmtpSendRequest \<Rightarrow> error option) \<Rightarrow> SmtpSender option \<Rightarrow> string \<Rightarrow> string \<Rightarrow> dict option op" where
  "send_approved_sequence_email env transport given activity_id actor db =
     (case resolve_sender env transport given of
        Inl e \<Rightarrow> (Inl e, db)
      | Inr sender \<Rightarrow> session_scope env (send_approved_body env sender activity_id actor) db)"

section \<open>Tasks\<close>

definition get_sequence_activity :: "env \<Rightarrow> string \<Rightarrow> dict option op" where
  "get_sequence_activity env activity_id =
     session_scope env (\<lambda>db.
       case get_activity activity_id db of
         None \<Rightarrow> (Inr None, db)
       | Some a \<Rightarrow> respond_activity a db)"

definition completed_activity ::
  "env \<Rightarrow> SequenceActivityActionRequest \<Rightarrow> string \<Rightarrow> SequenceStepActivity \<Rightarrow> SequenceStepActivity" where
  "completed_activity env q actor a =
     a\<lparr>act_status := ''completed'', act_completed_by := Some actor, act_completed_at := Some (env_now env),
       act_metadata_payload :=
         dict_set ''completion_reason'' (opt_str (saq_reason q))
           (dict_update (act_metadata_payload a) (saq_metadata q)),
       act_updated_at := env_now env\<rparr>"

definition complete_activity_body ::
  "env \<Rightarrow> string \<Rightarrow> SequenceActivityActionRequest \<Rightarrow> string \<Rightarrow> dict option op" where
  "complete_activity_body env activity_id q actor db =
     (case get_activity activity_id db of
        None \<Rightarrow> (Inr None, db)
      | Some a \<Rightarrow>
          if act_status a \<notin> {''pending'', ''scheduled''}
          then (Inl (ValueError (''cannot complete '' @ act_status a @ '' activity'')), db)
          else case (get_enrollment (act_enrollment_id a) db, get_step (act_sequence_step_id a) db) of
            (Some e, Some step) \<Rightarrow>
              (let a' = completed_activity env q actor a
               in respond_activity a' (advance_enrollment env e step (put_activity a' db)))
          | _ \<Rightarrow> (Inl (ValueError ''activity is missing sequence context''), db))"

definition complete_sequence_activity ::
  "env \<Rightarrow> string \<Rightarrow> SequenceActivityActionRequest \<Rightarrow> string \<Rightarrow> dict option op" where
  "complete_sequence_activity env activity_id q actor =
     session_scope env (complete_activity_body env activity_id q actor)"

section \<open>Alert mails\<close>

definition sequence_email_alert_to_api :: "SequenceEmailAlert \<Rightarrow> dict" where
  "sequence_email_alert_to_api a =
     [(''id'', JStr (alr_id a)), (''enrollment_id'', JStr (alr_enrollment_id a)),
      (''recipient_email'', JStr (alr_recipient_email a)), (''subject'', JStr (alr_subject a)),
      (''body'', JStr (alr_body a)), (''send_at'', JTime (alr_send_at a)),
      (''status'', JStr (alr_status a)), (''actor'', JStr (alr_actor a)),
      (''provider_message_id'', opt_str (alr_provider_message_id a)),
      (''last_error'', opt_str (alr_last_error a)), (''sent_at'', opt_time (alr_sent_at a)),
      (''created_at'', JTime (alr_created_at a)), (''updated_at'', JTime (alr_updated_at a))]"

definition sequence_email_alert_to_model :: "env \<Rightarrow> SequenceEmailAlert \<Rightarrow> error + dict" where
  "sequence_email_alert_to_model env a =
     (case env_email_str env (alr_recipient_email a) of
        None \<Rightarrow> Inl ValidationError
      | Some r \<Rightarrow> Inr (sequence_email_alert_to_api (a\<lparr>alr_recipient_email := r\<rparr>)))"

definition alert_with_key :: "string \<Rightarrow> db \<Rightarrow> SequenceEmailAlert option" where
  "alert_with_key key db = List.find (\<lambda>a. alr_idempotency_key a = key) (sequence_email_alerts db)"

definition alert_row ::
  "env \<Rightarrow> SequenceEnrollment \<Rightarrow> SequenceEmailAlertCreate \<Rightarrow> string \<Rightarrow> string \<Rightarrow> string \<Rightarrow> SequenceEmailAlert" where
  "alert_row env e q actor key row_id =
     \<lparr>alr_id = row_id, alr_enrollment_id = enr_id e, alr_recipient_email = py_lower (eac_recipient_email q),
      alr_subject = eac_subject q, alr_body = eac_body q,
      alr_send_at = (case eac_send_at q of None \<Rightarrow> env_now env | Some t \<Rightarrow> t), alr_status = ''pending'',
      alr_actor = actor, alr_provider_message_id = None, alr_last_error = None, alr_sent_at = None,
      alr_idempotency_key = key, alr_created_at = env_now env, alr_updated_at = env_now env\<rparr>"

definition create_alert_body ::
  "env \<Rightarrow> string \<Rightarrow> SequenceEmailAlertCreate \<Rightarrow> string \<Rightarrow> string \<Rightarrow> dict option op" where
  "create_alert_body env enrollment_id q actor key db =
     (case get_enrollment enrollment_id db of
        None \<Rightarrow> (Inr None, db)
      | Some e \<Rightarrow>
          (case alert_with_key key db of
             Some a \<Rightarrow> (map_sum id Some (sequence_email_alert_to_model env a), db)
           | None \<Rightarrow>
               (let (row_id, db1) = draw_uuid env db;
                    a = alert_row env e q actor key row_id
                in case flush env (add_alert a db1) of
                     Inl err \<Rightarrow> (Inl err, db1)
                   | Inr db2 \<Rightarrow> (map_sum id Some (sequence_email_alert_to_model env a), db2))))"

definition create_sequence_email_alert ::
  "env \<Rightarrow> string \<Rightarrow> SequenceEmailAlertCreate \<Rightarrow> string \<Rightarrow> string \<Rightarrow> dict option op" where
  "create_sequence_email_alert env enrollment_id q actor key =
     session_scope env (create_alert_body env enrollment_id q actor key)"

definition alert_message :: "env \<Rightarrow> SequenceEmailAlert \<Rightarrow> SmtpSendRequest" where
  "alert_message env a =
     \<lparr>smtp_from_email = sender_address env, smtp_to_email = alr_recipient_email a,
      smtp_subject = alr_subject a, smtp_body = alr_body a,
      smtp_message_id = ''<ghostrecon-alert-'' @ alr_id a @ ''@local>''\<rparr>"

definition failed_alert :: "env \<Rightarrow> string \<Rightarrow> SequenceEmailAlert \<Rightarrow> SequenceEmailAlert" where
  "failed_alert env msg a =
     a\<lparr>alr_status := ''failed_retryable'', alr_last_error := Some msg, alr_updated_at := env_now env\<rparr>"

definition sent_alert :: "env \<Rightarrow> string \<Rightarrow> SequenceEmailAlert \<Rightarrow> SequenceEmailAlert" where
  "sent_alert env provider_id a =
     a\<lparr>alr_status := ''sent'', alr_provider_message_id := Some provider_id,
       alr_sent_at := Some (env_now env), alr_updated_at := env_now env\<rparr>"

fun send_alerts :: "env \<Rightarrow> SmtpSender \<Rightarrow> SequenceEmailAlert list \<Rightarrow> db \<Rightarrow> dict list \<times> db" where
  "send_alerts env sender [] db = ([], db)"
| "send_alerts env sender (a # as) db =
     (case smtp_call sender (alert_message env a) db of
        (Inl exc, db1) \<Rightarrow>
          (let a' = failed_alert env (error_text exc) a;
               (outs, db2) = send_alerts env sender as (put_alert a' db1)
           in ([(''alert_id'', JStr (alr_id a')), (''status'', JStr (alr_status a')),
                (''reason'', JStr (error_text exc))] # outs, db2))
      | (Inr provider_id, db1) \<Rightarrow>
          (let a' = sent_alert env provider_id a;
               (outs, db2) = send_alerts env sender as (put_alert a' db1)
           in ([(''alert_id'', JStr (alr_id a')), (''status'', JStr (alr_status a'))] # outs, db2)))"

definition alert_due :: "env \<Rightarrow> SequenceEmailAlert \<Rightarrow> bool" where
  "alert_due env a = (alr_status a = ''pending'' \<and> alr_send_at a \<le> env_now env)"

text \<open>\<open>order_by(send_at, id)\<close>: a stable sort by the second key first.\<close>

definition due_alerts :: "env \<Rightarrow> nat \<Rightarrow> db \<Rightarrow> SequenceEmailAlert list" where
  "due_alerts env limit db =
     take limit (sort_key alr_send_at (sort_key alr_id (filter (alert_due env) (sequence_email_alerts db))))"

definition process_alerts_body :: "env \<Rightarrow> SmtpSender \<Rightarrow> nat \<Rightarrow> dict op" where
  "process_alerts_body env sender limit db =
     (let (outs, db1) = send_alerts env sender (due_alerts env limit db) db
      in (Inr [(''processed'', JInt (int (length outs))), (''outcomes'', JArr (map JObj outs))], db1))"

definition process_due_sequence_email_alerts ::
  "env \<Rightarrow> (SmtpSendRequest \<Rightarrow> error option) \<Rightarrow> SmtpSender option \<Rightarrow> nat \<Rightarrow> dict op" where
  "process_due_sequence_email_alerts env transport given limit db =
     (case resolve_sender env transport given of
        Inl e \<Rightarrow> (Inl e, db)
      | Inr sender \<Rightarrow> session_scope env (process_alerts_body env sender limit) db)"

section \<open>Inbound mail\<close>

definition inbound_event_to_api :: "InboundEmailEvent \<Rightarrow> dict" where
  "inbound_event_to_api ev =
     [(''id'', JStr (inb_id ev)), (''enrollment_id'', opt_str (inb_enrollment_id ev)),
      (''outbound_email_id'', opt_str (inb_outbound_email_id ev)), (''event_type'', JStr (inb_event_type ev)),
      (''from_email'', opt_str (inb_from_email ev)), (''to_email'', opt_str (inb_to_email ev)),
      (''message_id'', opt_str (inb_message_id ev)), (''provider_payload'', JObj (inb_provider_payload ev)),
      (''occurred_at'', JTime (inb_occurred_at ev)), (''created_at'', JTime (inb_created_at ev))]"

definition optional_email :: "env \<Rightarrow> string option \<Rightarrow> string option option" where
  "optional_email env x =
     (case x of None \<Rightarrow> Some None
      | Some a \<Rightarrow> (case env_email_str env a of None \<Rightarrow> None | Some a' \<Rightarrow> Some (Some a')))"

definition inbound_event_to_model :: "env \<Rightarrow> InboundEmailEvent \<Rightarrow> error + dict" where
  "inbound_event_to_model env ev =
     (case (optional_email env (inb_from_email ev), optional_email env (inb_to_email ev)) of
        (Some f, Some t) \<Rightarrow>
          if inb_event_type ev \<notin> {''reply'', ''bounce'', ''unsubscribe''} then Inl ValidationError
          else Inr (inbound_event_to_api (ev\<lparr>inb_from_email := f, inb_to_email := t\<rparr>))
      | _ \<Rightarrow> Inl ValidationError)"

text \<open>\<open>order_by(sent_at.desc()).limit(1)\<close>: a row without a time comes first.\<close>

definition latest_sent :: "OutboundEmail list \<Rightarrow> OutboundEmail option" where
  "latest_sent rows =
     (case List.find (\<lambda>o'. out_sent_at o' = None) rows of
        Some o' \<Rightarrow> Some o'
      | None \<Rightarrow> List.find (\<lambda>_. True) (sort_key (\<lambda>o'. - the (out_sent_at o')) rows))"

definition find_outbound_for_inbound :: "InboundEmailEventCreate \<Rightarrow> db \<Rightarrow> OutboundEmail option" where
  "find_outbound_for_inbound q db =
     (let by_id = (if truthy_str (iec_provider_message_id q)
            then latest_sent (filter (\<lambda>o'. out_provider_message_id o' = iec_provider_message_id q) (outbound_emails db))
            else None);
          email = py_lower (str_or (iec_from_email q) [])
      in case by_id of
           Some o' \<Rightarrow> Some o'
         | None \<Rightarrow>
             if email = [] then None
             else latest_sent (filter (\<lambda>o'. out_to_email o' = email \<and> out_status o' = ''sent'') (outbound_emails db)))"

definition find_enrollment_by_email :: "string option \<Rightarrow> db \<Rightarrow> SequenceEnrollment option" where
  "find_enrollment_by_email email db =
     (if \<not> truthy_str email then None
      else case newest out_created_at 1
                  (filter (\<lambda>o'. out_to_email o' = py_lower (str_or email [])) (outbound_emails db)) of
             [] \<Rightarrow> None
           | o' # _ \<Rightarrow> get_enrollment (out_enrollment_id o') db)"

definition active_suppression :: "string \<Rightarrow> string \<Rightarrow> db \<Rightarrow> Suppression option" where
  "active_suppression email channel db =
     List.find (\<lambda>s. sup_email s = Some (py_lower email) \<and> sup_channel s = py_lower channel \<and> sup_active s)
       (suppressions db)"

definition unsubscribe_row ::
  "env \<Rightarrow> string \<Rightarrow> string \<Rightarrow> string \<Rightarrow> InboundEmailEvent \<Rightarrow> string \<Rightarrow> Suppression" where
  "unsubscribe_row env email channel reason ev row_id =
     \<lparr>sup_id = row_id, sup_email = Some (py_lower email), sup_domain = domain_from_email (Some email),
      sup_contact_id = None, sup_channel = py_lower channel, sup_target_type = None, sup_target_id = None,
      sup_reason = reason, sup_source = ''unsubscribe'', sup_active = True, sup_expires_at = None,
      sup_policy_snapshot = [(''source_event_id'', JStr (inb_id ev))],
      sup_idempotency_key = Some (''unsubscribe:'' @ py_lower channel @ '':'' @ py_lower email),
      sup_created_at = env_now env\<rparr>"

definition unsubscribe_payload :: "Suppression \<Rightarrow> dict" where
  "unsubscribe_payload s =
     [(''id'', JStr (sup_id s)), (''email'', opt_str (sup_email s)), (''domain'', opt_str (sup_domain s)),
      (''channel'', JStr (sup_channel s)), (''reason'', JStr (sup_reason s)), (''source'', JStr (sup_source s))]"

definition ensure_suppression ::
  "env \<Rightarrow> string \<Rightarrow> string \<Rightarrow> string \<Rightarrow> InboundEmailEvent \<Rightarrow> Suppression op" where
  "ensure_suppression env email channel reason ev db =
     (case active_suppression email channel db of
        Some s \<Rightarrow> (Inr s, db)
      | None \<Rightarrow>
          (let (row_id, db1) = draw_uuid env db;
               s = unsubscribe_row env email channel reason ev row_id
           in case flush env (add_suppression s db1) of
                Inl err \<Rightarrow> (Inl err, db1)
              | Inr db2 \<Rightarrow>
                  (Inr s, sequencing_event env SUPPRESSION_CREATED ''suppression'' (sup_id s)
                            (unsubscribe_payload s) (''suppression.created:'' @ sup_id s) db2)))"

definition create_unsubscribe_suppression ::
  "env \<Rightarrow> string \<Rightarrow> string \<Rightarrow> string \<Rightarrow> InboundEmailEvent \<Rightarrow> SequenceEnrollment option \<Rightarrow> unit op" where
  "create_unsubscribe_suppression env email channel reason ev enrollment db =
     (case ensure_suppression env email channel reason ev db of
        (Inl err, db1) \<Rightarrow> (Inl err, db1)
      | (Inr s, db1) \<Rightarrow>
          (let (row_id, db2) = draw_uuid env db1
           in (Inr (), add_suppression_event
                 \<lparr>sse_id = row_id, sse_enrollment_id = map_option enr_id enrollment,
                  sse_suppression_id = Some (sup_id s), sse_email = Some (py_lower email),
                  sse_domain = domain_from_email (Some email), sse_channel = py_lower channel,
                  sse_reason = reason, sse_source_event_id = Some (inb_id ev),
                  sse_created_at = env_now env\<rparr> db2)))"

definition inbound_row ::
  "env \<Rightarrow> InboundEmailEventCreate \<Rightarrow> string \<Rightarrow> SequenceEnrollment option \<Rightarrow> OutboundEmail option \<Rightarrow> string
     \<Rightarrow> InboundEmailEvent" where
  "inbound_row env q key enrollment outbound row_id =
     \<lparr>inb_id = row_id, inb_enrollment_id = map_option enr_id enrollment,
      inb_outbound_email_id = map_option out_id outbound,
      inb_event_type = inbound_type_value (iec_event_type q),
      inb_from_email = lower_or_none (iec_from_email q), inb_to_email = lower_or_none (iec_to_email q),
      inb_message_id = iec_message_id q, inb_provider_payload = iec_provider_payload q,
      inb_idempotency_key = key,
      inb_occurred_at = (case iec_occurred_at q of None \<Rightarrow> env_now env | Some t \<Rightarrow> t),
      inb_created_at = env_now env\<rparr>"

definition bounced_outbound :: "env \<Rightarrow> OutboundEmail \<Rightarrow> OutboundEmail" where
  "bounced_outbound env o' =
     o'\<lparr>out_status := ''failed_terminal'', out_last_error := Some ''bounce received'',
        out_updated_at := env_now env\<rparr>"

definition bounced_enrollment :: "env \<Rightarrow> SequenceEnrollment \<Rightarrow> SequenceEnrollment" where
  "bounced_enrollment env e =
     e\<lparr>enr_status := ''paused'', enr_pause_reason := Some ''bounce received'', enr_updated_at := env_now env\<rparr>"

definition unsubscribed_enrollment :: "env \<Rightarrow> SequenceEnrollment \<Rightarrow> SequenceEnrollment" where
  "unsubscribed_enrollment env e =
     e\<lparr>enr_status := ''suppressed'', enr_pause_reason := Some ''unsubscribe'',
       enr_completed_at := Some (env_now env), enr_updated_at := env_now env\<rparr>"

definition when_some :: "('a \<Rightarrow> db \<Rightarrow> db) \<Rightarrow> 'a option \<Rightarrow> db \<Rightarrow> db" where
  "when_some f x db = (case x of None \<Rightarrow> db | Some y \<Rightarrow> f y db)"

definition inbound_event ::
  "env \<Rightarrow> EventName \<Rightarrow> InboundEmailEvent \<Rightarrow> db \<Rightarrow> db" where
  "inbound_event env name ev db =
     sequencing_event env name ''inbound_email_event'' (inb_id ev) (inbound_event_to_api ev)
       (event_value name @ '':'' @ inb_id ev) db"

definition unsubscribe_address :: "InboundEmailEventCreate \<Rightarrow> string" where
  "unsubscribe_address q = py_lower (str_or (iec_from_email q) (str_or (iec_to_email q) []))"

definition payload_text :: "dict \<Rightarrow> string \<Rightarrow> string \<Rightarrow> string" where
  "payload_text payload name other = py_str (py_or (dict_get payload name) (JStr other))"

definition apply_inbound ::
  "env \<Rightarrow> InboundEmailEventCreate \<Rightarrow> InboundEmailEvent \<Rightarrow> SequenceEnrollment option \<Rightarrow> OutboundEmail option
     \<Rightarrow> unit op" where
  "apply_inbound env q ev enrollment outbound db =
     (case iec_event_type q of
        REPLY \<Rightarrow>
          (Inr (), inbound_event env REPLY_RECEIVED ev (when_some (complete_enrollment env) enrollment db))
      | BOUNCE \<Rightarrow>
          (let db1 = when_some (\<lambda>o'. put_outbound (bounced_outbound env o')) outbound db;
               db2 = when_some (\<lambda>e. put_enrollment (bounced_enrollment env e)) enrollment db1
           in (Inr (), inbound_event env BOUNCE_RECEIVED ev db2))
      | UNSUBSCRIBE \<Rightarrow>
          (let email = unsubscribe_address q
           in case (if email = [] then (Inr (), db)
                    else create_unsubscribe_suppression env email
                           (payload_text (iec_provider_payload q) ''channel'' ''email'')
                           (payload_text (iec_provider_payload q) ''reason'' ''unsubscribe'') ev enrollment db) of
                (Inl err, db1) \<Rightarrow> (Inl err, db1)
              | (Inr _, db1) \<Rightarrow>
                  (Inr (), inbound_event env UNSUBSCRIBE_RECEIVED ev
                             (when_some (\<lambda>e. put_enrollment (unsubscribed_enrollment env e)) enrollment db1))))"

definition inbound_with_key :: "string \<Rightarrow> db \<Rightarrow> InboundEmailEvent option" where
  "inbound_with_key key db = List.find (\<lambda>ev. inb_idempotency_key ev = key) (inbound_email_events db)"

definition inbound_enrollment :: "InboundEmailEventCreate \<Rightarrow> db \<Rightarrow> SequenceEnrollment option" where
  "inbound_enrollment q db =
     (case find_outbound_for_inbound q db of
        Some o' \<Rightarrow> get_enrollment (out_enrollment_id o') db
      | None \<Rightarrow> find_enrollment_by_email (iec_from_email q) db)"

definition process_inbound_body :: "env \<Rightarrow> InboundEmailEventCreate \<Rightarrow> string \<Rightarrow> dict op" where
  "process_inbound_body env q key db =
     (case inbound_with_key key db of
        Some ev \<Rightarrow> (inbound_event_to_model env ev, db)
      | None \<Rightarrow>
          (let outbound = find_outbound_for_inbound q db;
               enrollment = inbound_enrollment q db;
               (row_id, db1) = draw_uuid env db;
               ev = inbound_row env q key enrollment outbound row_id
           in case flush env (add_inbound ev db1) of
                Inl err \<Rightarrow> (Inl err, db1)
              | Inr db2 \<Rightarrow>
                  (case apply_inbound env q ev enrollment outbound db2 of
                     (Inl err, db3) \<Rightarrow> (Inl err, db3)
                   | (Inr _, db3) \<Rightarrow> (inbound_event_to_model env ev, db3))))"

definition process_inbound_email_event :: "env \<Rightarrow> InboundEmailEventCreate \<Rightarrow> string \<Rightarrow> dict op" where
  "process_inbound_email_event env q key = session_scope env (process_inbound_body env q key)"

text \<open>The request validates the address again.\<close>

definition process_unsubscribe :: "env \<Rightarrow> UnsubscribeRequest \<Rightarrow> string \<Rightarrow> dict op" where
  "process_unsubscribe env q key db =
     (case env_email_str env (usr_email q) of
        None \<Rightarrow> (Inl ValidationError, db)
      | Some email \<Rightarrow>
          process_inbound_email_event env
            \<lparr>iec_event_type = UNSUBSCRIBE, iec_from_email = Some email, iec_to_email = None,
             iec_message_id = None, iec_provider_message_id = None,
             iec_provider_payload = dict_update (usr_provider_payload q)
               [(''domain'', opt_str (usr_domain q)), (''reason'', JStr (usr_reason q)),
                (''channel'', JStr (usr_channel q))],
             iec_occurred_at = None\<rparr> key db)"

text \<open>One polling round: the events the mailbox delivered, in order; an event without a message
  id gets a random key.\<close>

fun process_polled :: "env \<Rightarrow> InboundEmailEventCreate list \<Rightarrow> json list op" where
  "process_polled env [] db = (Inr [], db)"
| "process_polled env (q # qs) db =
     (let (mid, db1) = (if truthy_str (iec_message_id q) then (str_or (iec_message_id q) [], db)
                        else draw_uuid env db);
          key = ''inbound_email:'' @ inbound_type_value (iec_event_type q) @ '':'' @ mid
      in case process_inbound_email_event env q key db1 of
           (Inl e, db2) \<Rightarrow> (Inl e, db2)
         | (Inr m, db2) \<Rightarrow>
             (case process_polled env qs db2 of
                (Inl e, db3) \<Rightarrow> (Inl e, db3)
              | (Inr ids, db3) \<Rightarrow> (Inr (dict_get m ''id'' # ids), db3)))"

definition poll_inbound_email_events ::
  "env \<Rightarrow> string \<Rightarrow> (nat \<Rightarrow> InboundEmailEventCreate list) \<Rightarrow> nat \<Rightarrow> dict op" where
  "poll_inbound_email_events env poller_identity poll limit db =
     (case assert_adapter_allowed (env_settings env) poller_identity ''imap_provider'' of
        Some e \<Rightarrow> (Inl e, db)
      | None \<Rightarrow>
          (case process_polled env (poll limit) db of
             (Inl e, db1) \<Rightarrow> (Inl e, db1)
           | (Inr ids, db1) \<Rightarrow>
               (Inr [(''processed'', JInt (int (length ids))), (''event_ids'', JArr ids)], db1)))"

section \<open>What a send requires\<close>

lemma smtp_call_frame:
  "smtp_call sender m db = (r, db') \<Longrightarrow> db' = db\<lparr>effects := effects db @ [SmtpSend m]\<rparr> \<and> r = sender_send sender m"
  by (simp add: smtp_call_def)

lemma respond_activity_state [simp]: "snd (respond_activity a db) = db"
  by (simp add: respond_activity_def split: sum.split)

lemma respond_activity_cases: "respond_activity a db = (r, db') \<Longrightarrow> db' = db"
  using respond_activity_state [of a db] by simp

lemma advance_frame [simp]:
  "sequence_step_activities (advance_enrollment env e s db) = sequence_step_activities db"
  by (simp add: advance_enrollment_def complete_enrollment_def event_defs Let_def put_enrollment_def split: list.split)

lemma advance_cases:
  "\<exists>e'. enr_id e' = enr_id e \<and> (enr_status e' = enr_status e \<or> enr_status e' = ''completed'')
    \<and> sequence_enrollments (advance_enrollment env e s db) = row_put enr_id e' (sequence_enrollments db)"
proof (cases "filter (\<lambda>t. step_step_order t > step_step_order s)
    (sequence_steps_of (enr_sequence_id e) (Some (enr_definition_version e)) db)")
  case Nil
  then show ?thesis
    by (intro exI [of _ "completed_enrollment env e"]) (simp add: advance_enrollment_def completed_enrollment_def)
next
  case (Cons n ns)
  then show ?thesis
    by (intro exI [of _ "advanced_enrollment env n e"])
       (simp add: advance_enrollment_def advanced_enrollment_def put_enrollment_def)
qed

text \<open>One call of the mail server, and at most one enrollment row written.\<close>

lemma deliver_effects:
  assumes "deliver env sender actor a e step o0 db = (r, db')"
  shows "effects db' = effects db @ [SmtpSend (send_message (attempted_outbound env o0))]"
  using assms
  by (auto simp: deliver_def Let_def event_defs put_outbound_def put_activity_def put_enrollment_def
      dest!: respond_activity_cases smtp_call_frame split: prod.splits sum.splits)

lemma deliver_enrollments:
  assumes "deliver env sender actor a e step o0 db = (r, db')"
  shows "\<exists>e'. enr_id e' = enr_id e \<and> (enr_status e' = enr_status e \<or> enr_status e' = ''completed'')
    \<and> sequence_enrollments db' = row_put enr_id e' (sequence_enrollments db)"
proof (cases "sender_send sender (send_message (attempted_outbound env o0))")
  case (Inl exc)
  with assms show ?thesis
    by (intro exI [of _ "retry_enrollment env e"])
       (auto simp: deliver_def smtp_call_def Let_def put_outbound_def put_activity_def put_enrollment_def
         retry_enrollment_def dest!: respond_activity_cases)
next
  case (Inr pid)
  with assms obtain x where "sequence_enrollments db' = sequence_enrollments (advance_enrollment env e step x)"
    and "sequence_enrollments x = sequence_enrollments db"
    by (auto simp: deliver_def smtp_call_def Let_def put_outbound_def put_activity_def event_defs
        dest!: respond_activity_cases)
  with advance_cases [of e env step x] show ?thesis by simp
qed

lemma find_draft_frame:
  "find_draft env a e step c db = (r, db') \<Longrightarrow> effects db' = effects db \<and> sequence_enrollments db' = sequence_enrollments db"
  by (auto simp: find_draft_def dest!: outbound_for_step_drafts split: if_splits option.splits)

text \<open>The state in which a send is allowed, as the code checks it at the moment of sending: the rows
  it reads for the activity, and what they must satisfy.  The address that is checked is that of
  the enrollment's contact.\<close>

definition sendable ::
  "env \<Rightarrow> string \<Rightarrow> db \<Rightarrow> SequenceStepActivity \<Rightarrow> SequenceEnrollment \<Rightarrow> SequenceStep \<Rightarrow> Sequence \<Rightarrow> Contact \<Rightarrow> bool" where
  "sendable env activity_id db a e step s c =
     (get_activity activity_id db = Some a \<and> act_channel a = ''email''
      \<and> act_status a \<in> {''pending_approval'', ''approved''}
      \<and> get_enrollment (act_enrollment_id a) db = Some e \<and> enr_status e = ''active''
      \<and> get_step (act_sequence_step_id a) db = Some step
      \<and> get_sequence (enr_sequence_id e) db = Some s \<and> seq_status s = ''active''
      \<and> get_contact (enr_contact_id e) db = Some c \<and> require_sendable_contact c = None
      \<and> suppression_error env c (step_channel step) db = None
      \<and> rate_limit_blocker env (str_or (con_email c) []) (sender_address env) (step_channel step) s db = Inr None)"

definition may_send :: "env \<Rightarrow> string \<Rightarrow> db \<Rightarrow> bool" where
  "may_send env activity_id db = (\<exists>a e step s c. sendable env activity_id db a e step s c)"

text \<open>The draft that is sent: the stored one the activity points to; else the stored one of the
  enrollment and the step; else a new one, rendered from the step and addressed to the contact.\<close>

definition is_draft ::
  "env \<Rightarrow> db \<Rightarrow> SequenceStepActivity \<Rightarrow> SequenceEnrollment \<Rightarrow> SequenceStep \<Rightarrow> Contact \<Rightarrow> OutboundEmail \<Rightarrow> bool" where
  "is_draft env db a e step c o' =
     (if truthy_str (act_outbound_email_id a) then get_outbound (str_or (act_outbound_email_id a) []) db = Some o'
      else case List.find (\<lambda>x. out_idempotency_key x = outbound_key e step) (outbound_emails db) of
             Some x \<Rightarrow> o' = x
           | None \<Rightarrow>
               (\<exists>subject body row_id.
                  render_template env (str_or (step_subject_template step) []) c (account_of e db) = Inr subject
                \<and> render_template env (str_or (step_body_template step) []) c (account_of e db) = Inr body
                \<and> o' = outbound_row env e step c (sender_address env) subject body row_id))"

lemma find_draft_is_draft:
  assumes "find_draft env a e step c db = (Inr o', db')"
  shows "is_draft env db a e step c o'"
  using assms
  by (auto simp: find_draft_def is_draft_def outbound_for_step_def Let_def draw_uuid_def
      split: if_splits option.splits sum.splits)

lemma is_draft_begin [simp]: "is_draft env (begin_session db) a e step c o' = is_draft env db a e step c o'"
  by (simp add: is_draft_def account_of_def cong: option.case_cong if_cong)

lemma send_message_attempted [simp]: "send_message (attempted_outbound env o') = send_message o'"
  by (simp add: send_message_def attempted_outbound_def)

lemma send_checks_Inr:
  "send_checks env e step db = Inr (s, c) \<Longrightarrow>
     get_sequence (enr_sequence_id e) db = Some s \<and> seq_status s = ''active''
   \<and> get_contact (enr_contact_id e) db = Some c \<and> require_sendable_contact c = None
   \<and> suppression_error env c (step_channel step) db = None
   \<and> rate_limit_blocker env (str_or (con_email c) []) (sender_address env) (step_channel step) s db = Inr None"
  by (auto simp: send_checks_def suppression_error_def split: option.splits sum.splits if_splits)

lemma send_checks_ok:
  assumes "get_sequence (enr_sequence_id e) db = Some s" and "seq_status s = ''active''"
    and "get_contact (enr_contact_id e) db = Some c" and "require_sendable_contact c = None"
    and "suppression_error env c (step_channel step) db = None"
    and "rate_limit_blocker env (str_or (con_email c) []) (sender_address env) (step_channel step) s db = Inr None"
  shows "send_checks env e step db = Inr (s, c)"
  using assms by (auto simp: send_checks_def suppression_error_def split: sum.splits if_splits)

text \<open>What left the system during a session stays out, whether the session commits or not.\<close>

lemma session_effects_admitted:
  "admitted env \<Longrightarrow> effects (snd (session_scope env body db)) = effects (snd (body (begin_session db)))"
  by (auto simp: session_scope_def admitted_def dest!: flush_written split: prod.splits sum.splits)

lemma send_checks_Inl: "send_checks env e step db = Inl (err, db') \<Longrightarrow> effects db' = effects db"
  by (auto simp: send_checks_def put_enrollment_def split: option.splits sum.splits if_splits)

text \<open>What a call that sent something has read and sent.\<close>

definition sends :: "env \<Rightarrow> string \<Rightarrow> db \<Rightarrow> db \<Rightarrow> bool" where
  "sends env i db db' =
     (\<exists>a e step s c o'. sendable env i db a e step s c \<and> is_draft env db a e step c o'
        \<and> effects db' = effects db @ [SmtpSend (send_message o')])"

lemma send_approved_effects:
  assumes "send_approved_body env sender i actor db = (r, db')"
  shows "effects db' = effects db \<or> sends env i db db'"
proof (cases "\<exists>a e step s c. get_activity i db = Some a \<and> act_channel a = ''email''
      \<and> act_status a \<in> {''pending_approval'', ''approved''}
      \<and> get_enrollment (act_enrollment_id a) db = Some e \<and> enr_status e = ''active''
      \<and> get_step (act_sequence_step_id a) db = Some step \<and> send_checks env e step db = Inr (s, c)")
  case False
  with assms show ?thesis
    by (auto simp: send_approved_body_def dest!: send_checks_Inl split: option.splits if_splits sum.splits prod.splits)
next
  case True
  then obtain a e step s c where found: "get_activity i db = Some a" "act_channel a = ''email''"
      "act_status a \<in> {''pending_approval'', ''approved''}" "get_enrollment (act_enrollment_id a) db = Some e"
      "enr_status e = ''active''" "get_step (act_sequence_step_id a) db = Some step"
      and checks: "send_checks env e step db = Inr (s, c)" by blast
  have may: "sendable env i db a e step s c"
    using found send_checks_Inr [OF checks] unfolding sendable_def by blast
  obtain x db1 where draft: "find_draft env a e step c db = (x, db1)" by fastforce
  from find_draft_frame [OF draft] have eff: "effects db1 = effects db" by simp
  show ?thesis
  proof (cases x)
    case (Inl err)
    with assms found checks draft eff show ?thesis by (auto simp: send_approved_body_def)
  next
    case (Inr o')
    with assms found checks draft have "deliver env sender actor a e step o' db1 = (r, db')"
      by (auto simp: send_approved_body_def)
    from deliver_effects [OF this] eff have "effects db' = effects db @ [SmtpSend (send_message o')]" by simp
    with may find_draft_is_draft [OF draft [unfolded Inr]] show ?thesis unfolding sends_def by blast
  qed
qed

lemma sendable_begin [simp]: "sendable env i (begin_session db) a e step s c = sendable env i db a e step s c"
  by (simp add: sendable_def)

lemma sends_begin [simp]: "sends env i (begin_session db) db' = sends env i db db'"
  by (simp add: sends_def)

lemma sends_cong: "effects db' = effects db'' \<Longrightarrow> sends env i db db' = sends env i db db''"
  by (simp add: sends_def)

lemma send_effects:
  assumes "send_approved_sequence_email env transport given i actor db = (r, db')"
    and "effects db' \<noteq> effects db"
  shows "sends env i db db'"
proof (cases "resolve_sender env transport given")
  case (Inl e)
  with assms show ?thesis by (simp add: send_approved_sequence_email_def)
next
  case (Inr sender)
  with assms(1) have "session_scope env (send_approved_body env sender i actor) db = (r, db')"
    by (simp add: send_approved_sequence_email_def)
  then show ?thesis
  proof (cases rule: session_cases)
    case (raised e x db1)
    with send_approved_effects [OF raised(2)] assms(2) show ?thesis by (simp cong: sends_cong)
  next
    case (committed v db1)
    with send_approved_effects [OF committed(2)] assms(2) show ?thesis by (simp cong: sends_cong)
  qed (use assms(2) in simp)
qed

text \<open>C1: Approving the mail of an activity sends at most one mail, and only when the activity is an
  e-mail that waits for approval, of an active enrollment in an active sequence, whose contact may
  be written to, with no suppression in force for the contact's address and every daily limit
  respected.  The mail is the activity's draft: its stored sender, recipient, subject and body,
  or, where none is stored yet, one rendered for the contact and addressed to it.  This holds also
  for a call that raises afterwards, since a mail cannot be taken back.  (The alert mails of
  \<open>alerts.py\<close> are not sequence mails and do not pass through here.)\<close>

theorem send_gate:
  assumes "send_approved_sequence_email env transport given i actor db = (r, db')"
    and "effects db' \<noteq> effects db"
  shows "\<exists>a e step s c o'.
      get_activity i db = Some a \<and> act_channel a = ''email'' \<and> act_status a \<in> {''pending_approval'', ''approved''}
    \<and> get_enrollment (act_enrollment_id a) db = Some e \<and> enr_status e = ''active''
    \<and> get_step (act_sequence_step_id a) db = Some step
    \<and> get_sequence (enr_sequence_id e) db = Some s \<and> seq_status s = ''active''
    \<and> get_contact (enr_contact_id e) db = Some c
    \<and> \<not> con_do_not_contact_flag c \<and> truthy_str (con_email c)
    \<and> con_email_status c = Some ''verified'' \<and> truthy_str (con_lawful_basis c)
    \<and> suppression_error env c (step_channel step) db = None
    \<and> rate_limit_blocker env (str_or (con_email c) []) (sender_address env) (step_channel step) s db = Inr None
    \<and> is_draft env db a e step c o'
    \<and> effects db' = effects db @ [SmtpSend
        \<lparr>smtp_from_email = out_from_email o', smtp_to_email = out_to_email o', smtp_subject = out_subject o',
         smtp_body = out_body o', smtp_message_id = ''<ghostrecon-'' @ out_id o' @ ''@local>''\<rparr>]"
  using send_effects [OF assms]
  unfolding sends_def sendable_def require_sendable_None send_message_def by blast

section \<open>Daily limits\<close>

lemma filter_row_put_length:
  "distinct (map key rows) \<Longrightarrow> length (filter P (row_put key r rows)) \<le> Suc (length (filter P rows))"
proof (induction rows)
  case (Cons x rows)
  show ?case
  proof (cases "key x = key r")
    case True
    with Cons.prems have "row_put key r rows = rows"
      by (auto simp: row_put_def map_idI image_iff intro!: map_idI)
    then show ?thesis using True by (simp add: row_put_def)
  next
    case False
    with Cons show ?thesis by (simp add: row_put_def)
  qed
qed (simp add: row_put_def)

lemma deliver_outbound:
  assumes "deliver env sender actor a e step o0 db = (r, db')"
  shows "\<exists>o'. outbound_emails db' = row_put out_id o' (outbound_emails db)"
  using assms
  by (auto simp: deliver_def Let_def event_defs put_outbound_def put_activity_def put_enrollment_def
      row_put_row_put failed_outbound_def sent_outbound_def
      dest!: respond_activity_cases smtp_call_frame split: prod.splits sum.splits)

lemma find_draft_outbounds:
  assumes "find_draft env a e step c db = (Inr o', db')" and "constraints_ok db"
  shows "distinct (map out_id (outbound_emails db')) \<and> recently_sent env ch db' = recently_sent env ch db"
  using assms
  by (auto simp: find_draft_def outbound_for_step_def draw_uuid_def Let_def add_outbound_def outbound_row_def
      recently_sent_def constraints_ok_def dest!: flush_written split: if_splits option.splits sum.splits)

lemma recently_sent_row_put:
  assumes "outbound_emails db' = row_put out_id o' (outbound_emails db)"
    and "distinct (map out_id (outbound_emails db))"
  shows "count_of P (recently_sent env ch db') \<le> count_of P (recently_sent env ch db) + 1"
proof -
  have "int (length (filter Q (outbound_emails db'))) \<le> int (length (filter Q (outbound_emails db))) + 1" for Q
    using filter_row_put_length [OF assms(2), of Q o'] by (simp add: assms(1))
  then show ?thesis by (simp add: count_of_def recently_sent_def)
qed

lemma rate_limit_None:
  assumes "rate_limit_blocker env to_email from_email ch s db = Inr None"
    and "daily_limit (seq_rate_limit_policy s) ''domain_daily_limit'' (cfg_sequence_domain_daily_limit (env_settings env)) = Inr domain_limit"
    and "daily_limit (seq_rate_limit_policy s) ''sender_daily_limit'' (cfg_sequence_sender_daily_limit (env_settings env)) = Inr sender_limit"
    and "daily_limit (seq_rate_limit_policy s) ''channel_daily_limit'' (cfg_sequence_channel_daily_limit (env_settings env)) = Inr channel_limit"
  shows "count_of (to_domain (domain_from_email (Some to_email))) (recently_sent env ch db) < domain_limit
    \<and> count_of (from_sender from_email) (recently_sent env ch db) < sender_limit
    \<and> count_of (\<lambda>_. True) (recently_sent env ch db) < channel_limit"
  using assms by (auto simp: rate_limit_blocker_def Let_def count_of_def split: if_splits)

lemma send_approved_Some:
  assumes "send_approved_body env sender i actor db = (Inr (Some m), db')"
  obtains a e step s c o' db1 where "get_activity i db = Some a" "get_enrollment (act_enrollment_id a) db = Some e"
    "get_step (act_sequence_step_id a) db = Some step" "send_checks env e step db = Inr (s, c)"
    "find_draft env a e step c db = (Inr o', db1)" "deliver env sender actor a e step o' db1 = (Inr (Some m), db')"
    "enr_status e = ''active''"
  using assms
  by (auto simp: send_approved_body_def split: option.splits if_splits sum.splits prod.splits)

text \<open>C22: After an approved send the counts of the last day are within the limits of
  the sequence (or the configured ones): mails to the contact's domain, mails from the sender,
  and mails on the channel.\<close>

theorem daily_limits_respected:
  assumes "send_approved_sequence_email env transport given i actor db = (Inr (Some m), db')"
    and "constraints_ok db" and "get_activity i db = Some a"
    and "get_enrollment (act_enrollment_id a) db = Some e" and "get_step (act_sequence_step_id a) db = Some step"
    and "get_sequence (enr_sequence_id e) db = Some s" and "get_contact (enr_contact_id e) db = Some c"
    and "daily_limit (seq_rate_limit_policy s) ''domain_daily_limit'' (cfg_sequence_domain_daily_limit (env_settings env)) = Inr domain_limit"
    and "daily_limit (seq_rate_limit_policy s) ''sender_daily_limit'' (cfg_sequence_sender_daily_limit (env_settings env)) = Inr sender_limit"
    and "daily_limit (seq_rate_limit_policy s) ''channel_daily_limit'' (cfg_sequence_channel_daily_limit (env_settings env)) = Inr channel_limit"
  shows "count_of (to_domain (domain_from_email (con_email c))) (recently_sent env (step_channel step) db') \<le> domain_limit
    \<and> count_of (from_sender (sender_address env)) (recently_sent env (step_channel step) db') \<le> sender_limit
    \<and> int (length (recently_sent env (step_channel step) db')) \<le> channel_limit"
proof -
  from assms(1) obtain sender db2 where body: "send_approved_body env sender i actor (begin_session db) = (Inr (Some m), db2)"
      and db': "db' = end_session db (written env db2)"
    by (auto simp: send_approved_sequence_email_def elim!: session_scope_ok dest!: flush_written split: sum.splits)
  from body obtain s' c' o' db1 where checks: "send_checks env e step (begin_session db) = Inr (s', c')"
      and draft: "find_draft env a e step c' (begin_session db) = (Inr o', db1)"
      and del: "deliver env sender actor a e step o' db1 = (Inr (Some m), db2)"
    by (rule send_approved_Some) (use assms(3-5) in auto)
  from send_checks_Inr [OF checks] assms(6,7) have sc: "s' = s" "c' = c"
    and free: "rate_limit_blocker env (str_or (con_email c) []) (sender_address env) (step_channel step) s db = Inr None"
    by auto
  from find_draft_outbounds [OF draft, of "step_channel step"] assms(2)
  have d1: "distinct (map out_id (outbound_emails db1))"
    and r1: "recently_sent env (step_channel step) db1 = recently_sent env (step_channel step) db"
    by (simp_all add: constraints_ok_cong)
  obtain o2 where o2: "outbound_emails db' = row_put out_id o2 (outbound_emails db1)"
    using deliver_outbound [OF del] by (auto simp: db')
  have bound: "count_of P (recently_sent env (step_channel step) db')
      \<le> count_of P (recently_sent env (step_channel step) db) + 1" for P
    using recently_sent_row_put [OF o2 d1, of P env "step_channel step"] unfolding r1 .
  have dom: "domain_from_email (Some (str_or (con_email c) [])) = domain_from_email (con_email c)"
    by (simp add: domain_from_email_def str_or_def split: option.split)
  note limits = rate_limit_None [OF free assms(8-10), unfolded dom]
  from limits bound [of "to_domain (domain_from_email (con_email c))"]
  have "count_of (to_domain (domain_from_email (con_email c))) (recently_sent env (step_channel step) db') \<le> domain_limit"
    by linarith
  moreover from limits bound [of "from_sender (sender_address env)"]
  have "count_of (from_sender (sender_address env)) (recently_sent env (step_channel step) db') \<le> sender_limit"
    by linarith
  moreover from limits bound [of "\<lambda>_. True"]
  have "count_of (\<lambda>_. True) (recently_sent env (step_channel step) db') \<le> channel_limit" by linarith
  ultimately show ?thesis by (simp add: count_of_def)
qed

section \<open>Unsubscribing\<close>

lemma ensure_suppression_Inr:
  assumes "ensure_suppression env email ch reason ev db = (Inr s, db')"
  shows "s \<in> set (suppressions db') \<and> sup_email s = Some (py_lower email) \<and> sup_channel s = py_lower ch
    \<and> sup_active s \<and> inbound_email_events db' = inbound_email_events db
    \<and> (case active_suppression email ch db of
         Some s0 \<Rightarrow> s = s0 \<and> suppressions db' = suppressions db
       | None \<Rightarrow> sup_expires_at s = None \<and> suppressions db' = suppressions db @ [s])"
  using assms
  by (auto simp: ensure_suppression_def draw_uuid_def Let_def add_suppression_def unsubscribe_row_def event_defs
      active_suppression_def dest!: flush_written dest: find_Some_iff_mem split: option.splits sum.splits)

lemma when_some_frame:
  assumes "\<And>y db. f (g y db) = f db"
  shows "f (when_some g x db) = f db"
  using assms by (simp add: when_some_def split: option.split)

lemma apply_inbound_frame:
  "apply_inbound env q ev e o' db = (Inr u, db') \<Longrightarrow> inbound_email_events db' = inbound_email_events db"
  by (auto simp: apply_inbound_def create_unsubscribe_suppression_def inbound_event_def when_some_def
      put_enrollment_def put_outbound_def complete_enrollment_def event_defs draw_uuid_def Let_def
      add_suppression_event_def dest!: ensure_suppression_Inr
      split: InboundEmailEventType.splits if_splits option.splits prod.splits sum.splits)

lemma apply_unsubscribe:
  assumes "apply_inbound env q ev e o' db = (Inr u, db')" and "iec_event_type q = UNSUBSCRIBE"
    and "unsubscribe_address q \<noteq> []"
  shows "\<exists>s db1. ensure_suppression env (unsubscribe_address q)
      (payload_text (iec_provider_payload q) ''channel'' ''email'')
      (payload_text (iec_provider_payload q) ''reason'' ''unsubscribe'') ev db = (Inr s, db1)
    \<and> suppressions db' = suppressions db1"
  using assms
  by (auto simp: apply_inbound_def create_unsubscribe_suppression_def inbound_event_def when_some_def
      put_enrollment_def event_defs draw_uuid_def Let_def add_suppression_event_def
      split: option.splits prod.splits sum.splits)

lemma process_inbound_body_new:
  assumes "process_inbound_body env q key db = (Inr m, db2)" and "inbound_with_key key db = None"
  obtains ev db1 where "apply_inbound env q ev (inbound_enrollment q db) (find_outbound_for_inbound q db) db1 = (Inr (), db2)"
    and "inbound_event_to_model env ev = Inr m" and "inb_idempotency_key ev = key"
    and "inbound_email_events db1 = inbound_email_events db @ [ev]"
    and "suppressions db1 = suppressions db" and "sequence_enrollments db1 = sequence_enrollments db"
  using assms
  by (auto simp: process_inbound_body_def draw_uuid_def Let_def add_inbound_def inbound_row_def
      dest!: flush_written split: sum.splits prod.splits)

lemma process_inbound_new:
  assumes "process_inbound_email_event env q key db = (Inr m, db')" and "inbound_with_key key db = None"
  obtains ev db1 db2 where "apply_inbound env q ev (inbound_enrollment q db) (find_outbound_for_inbound q db) db1 = (Inr (), db2)"
    and "db' = end_session db (written env db2)" and "suppressions db1 = suppressions db"
    and "sequence_enrollments db1 = sequence_enrollments db"
proof -
  from assms(1) obtain db2 where body: "process_inbound_body env q key (begin_session db) = (Inr m, db2)"
      and db': "db' = end_session db (written env db2)"
    unfolding process_inbound_email_event_def by (cases rule: session_cases) auto
  have same: "inbound_enrollment q (begin_session db) = inbound_enrollment q db"
    "find_outbound_for_inbound q (begin_session db) = find_outbound_for_inbound q db"
    "inbound_with_key key (begin_session db) = None"
    using assms(2) by (simp_all add: inbound_enrollment_def find_outbound_for_inbound_def
        find_enrollment_by_email_def inbound_with_key_def cong: option.case_cong list.case_cong)
  from process_inbound_body_new [OF body same(3)] same db' that show thesis by simp metis
qed

lemma unsubscribe_recorded:
  assumes "process_inbound_email_event env q key db = (Inr m, db')" and "inbound_with_key key db = None"
    and "iec_event_type q = UNSUBSCRIBE" and "unsubscribe_address q \<noteq> []"
  shows "\<exists>s ch. ch = payload_text (iec_provider_payload q) ''channel'' ''email'' \<and> s \<in> set (suppressions db')
    \<and> sup_email s = Some (unsubscribe_address q) \<and> sup_channel s = py_lower ch \<and> sup_active s
    \<and> (case active_suppression (unsubscribe_address q) ch db of
         Some s0 \<Rightarrow> s = s0 \<and> suppressions db' = suppressions db
       | None \<Rightarrow> sup_expires_at s = None \<and> suppressions db' = suppressions db @ [s])"
proof -
  from assms(1,2) obtain ev db1 db2
    where app: "apply_inbound env q ev (inbound_enrollment q db) (find_outbound_for_inbound q db) db1 = (Inr (), db2)"
      and db': "db' = end_session db (written env db2)" and sup: "suppressions db1 = suppressions db"
    by (rule process_inbound_new)
  from apply_unsubscribe [OF app assms(3,4)] obtain s db3
    where ens: "ensure_suppression env (unsubscribe_address q)
        (payload_text (iec_provider_payload q) ''channel'' ''email'')
        (payload_text (iec_provider_payload q) ''reason'' ''unsubscribe'') ev db1 = (Inr s, db3)"
      and db3: "suppressions db2 = suppressions db3" by blast
  have "active_suppression x ch db1 = active_suppression x ch db" for x ch
    by (simp add: active_suppression_def sup)
  moreover have "py_lower (unsubscribe_address q) = unsubscribe_address q" by (simp add: unsubscribe_address_def)
  ultimately show ?thesis
    using ensure_suppression_Inr [OF ens] by (auto simp: db' db3 sup split: option.splits)
qed

lemma suppression_blocks:
  assumes "s \<in> set (suppressions db)" and "suppression_in_force (env_now env) (py_lower ch) s"
    and "sup_email s = Some (py_lower (str_or (con_email c) []))" and "str_or (con_email c) [] \<noteq> []"
  shows "suppression_error env c ch db \<noteq> None"
proof -
  let ?q = "\<lparr>sck_email = con_email c, sck_domain = domain_from_email (con_email c), sck_contact_id = Some (con_id c), sck_channel = ch\<rparr>"
  have "suppression_matches ?q s" and "has_criterion ?q"
    using assms(3,4) by (auto simp: suppression_matches_def has_criterion_def)
  then obtain s' where "stored_suppression env ?q db = Some s'" and "has_criterion ?q"
    using assms(1,2) by (cases "stored_suppression env ?q db") (auto simp: stored_suppression_def find_None_iff_ball)
  then show ?thesis
    by (auto simp: suppression_error_def suppression_allowed_stored Let_def split: sum.splits)
qed

lemma send_refused:
  assumes "get_activity i db = Some a" and "get_enrollment (act_enrollment_id a) db = Some e"
    and "get_step (act_sequence_step_id a) db = Some step" and "get_contact (enr_contact_id e) db = Some c"
    and "suppression_error env c (step_channel step) db \<noteq> None"
  shows "\<exists>err db'. send_approved_sequence_email env transport given i actor db = (Inl err, db')
    \<and> effects db' = effects db \<and> same_tables db db'"
proof -
  obtain r db' where run: "send_approved_sequence_email env transport given i actor db = (r, db')" by fastforce
  have "\<not> sends env i db db'" using assms by (auto simp: sends_def sendable_def)
  with send_effects [OF run] have eff: "effects db' = effects db" by blast
  have "\<exists>err. r = Inl err"
  proof (cases r)
    case (Inr v)
    with run obtain sender db1 where body: "send_approved_body env sender i actor (begin_session db) = (Inr v, db1)"
      by (auto simp: send_approved_sequence_email_def elim!: session_scope_ok split: sum.splits)
    then obtain m where "v = Some m"
      using assms(1-3) by (cases v) (auto simp: send_approved_body_def deliver_def respond_activity_def Let_def
          split: if_splits sum.splits prod.splits)
    with body have "send_approved_body env sender i actor (begin_session db) = (Inr (Some m), db1)" by simp
    then have False
      by (rule send_approved_Some) (use assms in \<open>auto dest!: send_checks_Inr\<close>)
    then show ?thesis ..
  qed simp
  moreover have "r = Inl err \<Longrightarrow> same_tables db db'" for err
    using run by (auto simp: send_approved_sequence_email_def dest: session_scope_error split: sum.splits)
  ultimately show ?thesis using run eff by blast
qed

text \<open>C23: The address that is checked is the contact's, the address that is
  written to is the draft's.  When the contact's address was changed after the draft was prepared,
  the mail goes to the old address, whatever suppression is in force for it.\<close>

theorem stale_draft_mails_suppressed:
  assumes "sendable env i db a e step s c" and "truthy_str (act_outbound_email_id a)"
    and "get_outbound (str_or (act_outbound_email_id a) []) db = Some o'"
    and "row \<in> set (suppressions db)" and "sup_email row = Some (out_to_email o')"
    and "suppression_in_force (env_now env) (py_lower (step_channel step)) row"
    and "admitted env" and "resolve_sender env transport given = Inr sender"
  shows "py_lower (str_or (con_email c) []) \<noteq> out_to_email o'
    \<and> effects (snd (send_approved_sequence_email env transport given i actor db))
        = effects db @ [SmtpSend (send_message o')] \<and> smtp_to_email (send_message o') = out_to_email o'"
proof -
  let ?b = "begin_session db"
  from assms(1) have "suppression_error env c (step_channel step) db = None" and "str_or (con_email c) [] \<noteq> []"
    by (auto simp: sendable_def require_sendable_None truthy_str_def)
  with suppression_blocks [OF assms(4,6), of c] assms(5) have other: "py_lower (str_or (con_email c) []) \<noteq> out_to_email o'"
    by auto
  have "send_checks env e step ?b = Inr (s, c)"
    using assms(1) by (intro send_checks_ok) (simp_all add: sendable_def)
  moreover have "find_draft env a e step c ?b = (Inr o', ?b)"
    using assms(2,3) by (simp add: find_draft_def)
  ultimately have body: "send_approved_body env sender i actor ?b = deliver env sender actor a e step o' ?b"
    using assms(1) by (simp add: send_approved_body_def sendable_def)
  obtain r db1 where del: "deliver env sender actor a e step o' ?b = (r, db1)" by fastforce
  from deliver_effects [OF del] have eff: "effects db1 = effects db @ [SmtpSend (send_message o')]" by simp
  from session_effects_admitted [OF assms(7), of "send_approved_body env sender i actor" db]
  have "effects (snd (session_scope env (send_approved_body env sender i actor) db)) = effects db1"
    by (simp add: body del)
  with eff other assms(8) show ?thesis
    by (simp add: send_approved_sequence_email_def send_message_def)
qed

text \<open>The suppression that stands after an unsubscribe from e-mail: the new one, which never expires,
  or the one that was already marked active.\<close>

lemma py_lower_email: "py_lower ''email'' = ''email''" by code_simp

lemma unsubscribe_suppresses:
  assumes "process_inbound_email_event env q key db = (Inr m, db')" and "inbound_with_key key db = None"
    and "iec_event_type q = UNSUBSCRIBE" and "unsubscribe_address q \<noteq> []"
    and "py_lower (payload_text (iec_provider_payload q) ''channel'' ''email'') = ''email''"
    and "\<forall>s. active_suppression (unsubscribe_address q) ''email'' db = Some s
           \<longrightarrow> (case sup_expires_at s of None \<Rightarrow> True | Some t \<Rightarrow> t > now)"
  shows "\<exists>s \<in> set (suppressions db'). sup_email s = Some (unsubscribe_address q) \<and> suppression_in_force now ''email'' s"
proof -
  let ?ch = "payload_text (iec_provider_payload q) ''channel'' ''email''"
  have same: "active_suppression (unsubscribe_address q) ?ch db = active_suppression (unsubscribe_address q) ''email'' db"
    by (simp add: active_suppression_def assms(5) py_lower_email)
  from unsubscribe_recorded [OF assms(1-4)] obtain s
    where s: "s \<in> set (suppressions db')" "sup_email s = Some (unsubscribe_address q)" "sup_channel s = ''email''" "sup_active s"
      and cases: "active_suppression (unsubscribe_address q) ''email'' db = Some s \<or> sup_expires_at s = None"
    using assms(5) same by (auto split: option.splits)
  have "case sup_expires_at s of None \<Rightarrow> True | Some t \<Rightarrow> t > now" using cases assms(6) by auto
  with s show ?thesis by (auto simp: suppression_in_force_def)
qed

text \<open>C28: When a suppression of the address on the channel is still marked active,
  an unsubscribe records no new one, whether or not that suppression has expired: every later
  check answers as it did before the unsubscribe.\<close>

theorem unsubscribe_keeps_expired:
  assumes "process_inbound_email_event env q key db = (Inr m, db')" and "inbound_with_key key db = None"
    and "iec_event_type q = UNSUBSCRIBE" and "unsubscribe_address q \<noteq> []"
    and "active_suppression (unsubscribe_address q)
           (payload_text (iec_provider_payload q) ''channel'' ''email'') db = Some s"
  shows "suppressions db' = suppressions db
    \<and> suppression_allowed env' email domain contact_id channel db'
        = suppression_allowed env' email domain contact_id channel db"
proof -
  from unsubscribe_recorded [OF assms(1-4)] assms(5) have sup: "suppressions db' = suppressions db" by auto
  then have "stored_suppression env' x db' = stored_suppression env' x db" for x
    by (simp add: stored_suppression_def)
  with sup show ?thesis by (simp add: suppression_allowed_stored Let_def split: sum.split)
qed

section \<open>An inbound event counts once\<close>

lemma inbound_model_cong:
  "env_email_str env = env_email_str env' \<Longrightarrow> inbound_event_to_model env = inbound_event_to_model env'"
proof -
  assume "env_email_str env = env_email_str env'"
  then have "optional_email env x = optional_email env' x" for x
    by (simp add: optional_email_def split: option.split)
  then show ?thesis by (simp add: inbound_event_to_model_def fun_eq_iff)
qed

definition inbound_answer :: "(string \<Rightarrow> string option) \<Rightarrow> string \<Rightarrow> db \<Rightarrow> dict option" where
  "inbound_answer validate key db =
     (case inbound_with_key key db of
        None \<Rightarrow> None
      | Some ev \<Rightarrow> (case inbound_event_to_model (example_env\<lparr>env_email_str := validate\<rparr>) ev of
                      Inl _ \<Rightarrow> None
                    | Inr m \<Rightarrow> Some m))"

lemma inbound_model_example:
  "inbound_event_to_model (example_env\<lparr>env_email_str := env_email_str env\<rparr>) ev = inbound_event_to_model env ev"
  by (rule fun_cong [OF inbound_model_cong]) simp

lemma session_ignores_validation [simp]:
  "secure_audit_event (env\<lparr>env_email_str := f\<rparr>) = secure_audit_event env"
  "flush (env\<lparr>env_email_str := f\<rparr>) = flush env"
  "session_scope (env\<lparr>env_email_str := f\<rparr>) body = session_scope env body"
proof -
  have mac: "integrity_hmac (env\<lparr>env_email_str := f\<rparr>) = integrity_hmac env"
    by (intro ext) (simp add: integrity_hmac_def)
  show *: "secure_audit_event (env\<lparr>env_email_str := f\<rparr>) = secure_audit_event env"
    by (rule ext) (unfold secure_audit_event_def mac, simp)
  have ctx: "has_security_context (env\<lparr>env_email_str := f\<rparr>) = has_security_context env"
    by (simp add: has_security_context_def)
  have events: "secure_audit_events (env\<lparr>env_email_str := f\<rparr>) = secure_audit_events env"
    by (rule ext) (simp add: secure_audit_events_def * ctx)
  have lin: "reject_synthetic_lineage (env\<lparr>env_email_str := f\<rparr>) = reject_synthetic_lineage env"
    by (rule ext) (simp add: reject_synthetic_lineage_def)
  show **: "flush (env\<lparr>env_email_str := f\<rparr>) = flush env"
    by (intro ext) (unfold flush_def events lin, rule refl)
  show "session_scope (env\<lparr>env_email_str := f\<rparr>) body = session_scope env body"
    by (rule ext) (unfold session_scope_def ** ctx, simp)
qed

interpretation inbound: idempotent_op
  "\<lambda>env. process_inbound_email_event (env\<lparr>env_email_str := validate\<rparr>)" "inbound_answer validate" for validate
proof (rule idempotent_session [where body = "\<lambda>env. process_inbound_body (env\<lparr>env_email_str := validate\<rparr>)"])
  fix env q key
  show "process_inbound_email_event (env\<lparr>env_email_str := validate\<rparr>) q key
      = session_scope env (process_inbound_body (env\<lparr>env_email_str := validate\<rparr>) q key)"
    by (simp add: process_inbound_email_event_def)
next
  fix env q key db r
  assume "inbound_answer validate key db = Some r"
  then show "process_inbound_body (env\<lparr>env_email_str := validate\<rparr>) q key (begin_session db) = (Inr r, begin_session db)"
    using inbound_model_example [of "env\<lparr>env_email_str := validate\<rparr>"]
    by (auto simp: inbound_answer_def process_inbound_body_def inbound_with_key_def split: option.splits sum.splits)
next
  fix env :: env and q key db r db1
  let ?env = "env\<lparr>env_email_str := validate\<rparr>"
  assume none: "inbound_answer validate key db = None"
    and body: "process_inbound_body ?env q key (begin_session db) = (Inr r, db1)"
  have model: "inbound_event_to_model (example_env\<lparr>env_email_str := validate\<rparr>) = inbound_event_to_model ?env"
    using inbound_model_example [of ?env] by (simp add: fun_eq_iff)
  have fresh: "inbound_with_key key (begin_session db) = None"
  proof (cases "inbound_with_key key (begin_session db)")
    case (Some ev)
    with body none show ?thesis
      by (auto simp: inbound_answer_def process_inbound_body_def model inbound_with_key_def split: sum.splits)
  qed simp
  from process_inbound_body_new [OF body fresh] obtain ev where "inbound_event_to_model ?env ev = Inr r"
      and "inb_idempotency_key ev = key" and "inbound_email_events db1 = inbound_email_events db @ [ev]"
    by (metis apply_inbound_frame begin_session_frame(6))
  with fresh show "inbound_answer validate key (end_session db (written env db1)) = Some r"
    by (simp add: inbound_answer_def inbound_with_key_def model)
qed

text \<open>A mailbox may deliver an event more than once, and a webhook may repeat it:
  only the first delivery under a key has an effect.  Every later one, whatever its content,
  returns the first answer and changes nothing.\<close>

theorem inbound_counts_once:
  assumes "process_inbound_email_event env q key db = (Inr m, db')" and "db' \<noteq> db" and "constraints_ok db"
    and "admitted env'" and "env_email_str env' = env_email_str env"
  shows "process_inbound_email_event env' q' key db' = (Inr m, db')"
proof -
  have "env\<lparr>env_email_str := env_email_str env\<rparr> = env" "env'\<lparr>env_email_str := env_email_str env\<rparr> = env'"
    using assms(5) by simp_all
  with inbound.exactly_once [of db "env_email_str env" env q key m db' env' q'] assms(1-4) show ?thesis by simp
qed

section \<open>A failed send is final\<close>

text \<open>The statuses of stored activities are changed by no run of the scheduler.\<close>

definition activities_kept :: "db \<Rightarrow> db \<Rightarrow> bool" where
  "activities_kept db db' =
     (\<forall>i a. get_activity i db = Some a \<longrightarrow> (\<exists>a'. get_activity i db' = Some a' \<and> act_status a' = act_status a))"

lemma activities_kept_same:
  "sequence_step_activities db' = sequence_step_activities db \<Longrightarrow> activities_kept db db'"
  by (simp add: activities_kept_def get_activity_def)

lemma activities_kept_trans:
  "activities_kept db1 db2 \<Longrightarrow> activities_kept db2 db3 \<Longrightarrow> activities_kept db1 db3"
  unfolding activities_kept_def by (metis (full_types))

lemma activity_for_step_keeps:
  assumes "activity_for_step env e s st oid db = (r, db')"
    and unique: "distinct (map act_id (sequence_step_activities db))"
  shows "activities_kept db db'"
proof (cases "List.find (\<lambda>a. act_idempotency_key a = activity_key e s) (sequence_step_activities db)")
  case None
  have old: "get_activity i db = Some a \<Longrightarrow> get_activity i (written env (add_activity x (db\<lparr>uuid_seq := n\<rparr>))) = Some a" for i a x n
    by (simp add: get_activity_def add_activity_def row_get_append_old)
  from None assms(1) show ?thesis
    by (auto simp: activity_for_step_def Let_def draw_uuid_def activities_kept_def old
        dest!: flush_written split: sum.splits) (simp add: get_activity_def)+
next
  case (Some a)
  then have "a \<in> set (sequence_step_activities db)" by (auto dest: find_Some_iff_mem)
  with unique have a: "get_activity (act_id a) db = Some a" by (simp add: get_activity_def row_get_unique)
  have "activities_kept db (put_activity (a\<lparr>act_outbound_email_id := oid, act_updated_at := n\<rparr>) db)" for n
    unfolding activities_kept_def using a by (auto simp: activity_repo.get_put)
  with Some assms(1) show ?thesis
    by (auto simp: activity_for_step_def Let_def intro: activities_kept_same split: if_splits)
qed

lemma outbound_for_step_activities:
  "outbound_for_step env e s c a f db = (r, db') \<Longrightarrow> sequence_step_activities db' = sequence_step_activities db"
  by (auto simp: outbound_for_step_def draw_uuid_def Let_def add_outbound_def
      dest!: flush_written split: option.splits sum.splits)

lemma state_activities [simp]:
  "sequence_step_activities (complete_enrollment env e db) = sequence_step_activities db"
  "sequence_step_activities (pause_for_policy env e rs db) = sequence_step_activities db"
  "sequence_step_activities (suppress_enrollment env e c rso db) = sequence_step_activities db"
  "sequence_step_activities (put_enrollment e db) = sequence_step_activities db"
  "sequence_step_activities (put_outbound o' db) = sequence_step_activities db"
  by (simp_all add: complete_enrollment_def pause_for_policy_def suppress_enrollment_def event_defs Let_def
      draw_uuid_def put_enrollment_def put_outbound_def add_suppression_event_def)

lemma activities_kept_cong:
  "sequence_step_activities db1 = sequence_step_activities db2
     \<Longrightarrow> activities_kept db1 db = activities_kept db2 db"
  by (simp add: activities_kept_def get_activity_def)

lemma prepare_task_keeps:
  assumes "prepare_task env e s db = (r, db')" and "distinct (map act_id (sequence_step_activities db))"
  shows "activities_kept db db'"
proof -
  obtain x db1 where run: "activity_for_step env e s ''pending'' None db = (x, db1)" by fastforce
  with assms(1) have "sequence_step_activities db' = sequence_step_activities db1"
    by (auto simp: prepare_task_def split: sum.splits)
  with activity_for_step_keeps [OF run assms(2)] show ?thesis by (rule activities_kept_trans [OF _ activities_kept_same])
qed

lemma draft_email_keeps:
  assumes "draft_email env e s c db = (r, db')" and "distinct (map act_id (sequence_step_activities db))"
  shows "activities_kept db db'"
proof -
  obtain x db1 where run: "outbound_for_step env e s c (account_of e db) (sender_address env) db = (x, db1)" by fastforce
  note same = outbound_for_step_activities [OF run]
  show ?thesis
  proof (cases x)
    case (Inl err)
    with assms(1) run same show ?thesis by (auto simp: draft_email_def intro: activities_kept_same)
  next
    case (Inr o')
    let ?db2 = "put_outbound (o'\<lparr>out_status := ''pending_approval'', out_updated_at := env_now env\<rparr>) db1"
    obtain y db3 where act: "activity_for_step env e s ''pending_approval'' (Some (out_id o')) ?db2 = (y, db3)" by fastforce
    have db2: "sequence_step_activities ?db2 = sequence_step_activities db" using same by simp
    have "activities_kept ?db2 db3" by (rule activity_for_step_keeps [OF act]) (simp add: same assms(2))
    then have "activities_kept db db3" unfolding activities_kept_cong [OF db2] .
    moreover have "sequence_step_activities db' = sequence_step_activities db3"
      using assms(1) run Inr act by (auto simp: draft_email_def Let_def split: sum.splits)
    ultimately show ?thesis by (rule activities_kept_trans [OF _ activities_kept_same])
  qed
qed

lemma send_next_keeps:
  assumes "send_next_sequence_step env j db = (r, db')" and "constraints_ok db"
  shows "activities_kept db db'"
proof -
  have uniq: "distinct (map act_id (sequence_step_activities (begin_session db)))"
    using assms(2) by (simp add: constraints_ok_def)
  have start: "activities_kept (begin_session db) db1 = activities_kept db db1" for db1
    by (rule activities_kept_cong) simp
  have body: "send_next_body env j (begin_session db) = (x, db1) \<Longrightarrow> activities_kept db db1" for x db1
    using prepare_task_keeps [OF _ uniq, unfolded start] draft_email_keeps [OF _ uniq, unfolded start]
    by (auto simp: send_next_body_def prepare_step_def prepare_email_def
        intro!: activities_kept_same split: option.splits if_splits sum.splits)
  from assms(1) show ?thesis
    unfolding send_next_sequence_step_def
  proof (cases rule: session_cases)
    case (committed v db1)
    then have "sequence_step_activities db' = sequence_step_activities db1" by simp
    with body [OF committed(2)] show ?thesis by (rule activities_kept_trans [OF _ activities_kept_same])
  qed (auto intro: activities_kept_same)
qed

lemma deliver_failure:
  assumes "deliver env sender actor a e step o0 db = (Inr (Some m), db')"
    and "\<forall>q. \<exists>err. sender_send sender q = Inl err"
  shows "\<exists>msg. sequence_step_activities db' = row_put act_id (failed_activity env msg a) (sequence_step_activities db)"
proof -
  obtain err where "sender_send sender (send_message (attempted_outbound env o0)) = Inl err" using assms(2) by blast
  with assms(1) show ?thesis
    by (auto simp: deliver_def smtp_call_def Let_def put_activity_def put_outbound_def put_enrollment_def
        dest!: respond_activity_cases)
qed

lemma find_draft_activities:
  "find_draft env a e step c db = (r, db') \<Longrightarrow> sequence_step_activities db' = sequence_step_activities db"
  by (auto simp: find_draft_def dest!: outbound_for_step_activities split: if_splits option.splits)

text \<open>C26: A mail whose delivery fails once is never retried, although it is recorded as
  a retryable failure: its activity is failed, approving it again raises, and no later run of
  the scheduler on any enrollment brings the activity back.\<close>

theorem send_failure_is_final:
  assumes "send_approved_sequence_email env transport given i actor db = (Inr (Some m), db')"
    and "resolve_sender env transport given = Inr sender"
    and "\<forall>q. \<exists>err. sender_send sender q = Inl err"
    and "constraints_ok db" and "admitted env'" and "resolve_sender env' transport' given' = Inr sender'"
  shows "send_approved_sequence_email env' transport' given' i actor' db'
      = (Inl (ValueError ''cannot approve failed activity''), db')
    \<and> (\<exists>a. get_activity i (snd (send_next_sequence_step env' j db')) = Some a \<and> act_status a = ''failed'')"
proof -
  from assms(1,2) have run: "session_scope env (send_approved_body env sender i actor) db = (Inr (Some m), db')"
    by (simp add: send_approved_sequence_email_def)
  then obtain db2 where body: "send_approved_body env sender i actor (begin_session db) = (Inr (Some m), db2)"
      and db': "db' = end_session db (written env db2)"
    by (cases rule: session_cases) auto
  from body obtain a e step c o' db1 where a: "get_activity i (begin_session db) = Some a"
      and draft: "find_draft env a e step c (begin_session db) = (Inr o', db1)"
      and del: "deliver env sender actor a e step o' db1 = (Inr (Some m), db2)"
    and email: "act_channel a = ''email''"
    by (rule send_approved_Some) (use body in \<open>auto simp: send_approved_body_def split: if_splits\<close>)
  from deliver_failure [OF del assms(3)] find_draft_activities [OF draft] obtain msg
    where "sequence_step_activities db2 = row_put act_id (failed_activity env msg a) (sequence_step_activities db)" by auto
  with a have found: "get_activity i db' = Some (failed_activity env msg a)"
    using activity_repo.get_assign [of i db a "failed_activity env msg a"]
    by (simp add: db' get_activity_def put_activity_def failed_activity_def)
  have ok: "constraints_ok db'" using run assms(4) session.constraints_after by blast
  have "send_approved_body env' sender' i actor' (begin_session db')
      = (Inl (ValueError ''cannot approve failed activity''), begin_session db')"
    using found email by (simp add: send_approved_body_def failed_activity_def)
  with assms(5,6) have "send_approved_sequence_email env' transport' given' i actor' db'
      = (Inl (ValueError ''cannot approve failed activity''), db')"
    by (simp add: send_approved_sequence_email_def session_scope_raises)
  moreover have "activities_kept db' (snd (send_next_sequence_step env' j db'))"
    using ok by (intro send_next_keeps [of env' j db' "fst (send_next_sequence_step env' j db')"]) simp_all
  with found obtain b where "get_activity i (snd (send_next_sequence_step env' j db')) = Some b"
      and "act_status b = act_status (failed_activity env msg a)"
    unfolding activities_kept_def by blast
  ultimately show ?thesis by (simp add: failed_activity_def)
qed

end
