(* ===== verification/Lifecycle.thy ===== *)
theory Lifecycle
  imports Outreach
begin

text \<open>
  The life of an enrollment.  The abstract view of a store is the status of each enrollment; the
  contract is that enrollments start active and that a finished one (completed, canceled,
  suppressed or failed: \<open>TERMINAL_ENROLLMENT_STATUSES\<close>) keeps its status.  The operations of the
  console and of the scheduler implement the contract, which is shown as a simulation; the
  handlers of inbound mail and of completed tasks do not, which is shown too.
\<close>

section \<open>Simulations\<close>

locale simulation =
  fixes conc :: "'s \<Rightarrow> 's \<Rightarrow> bool"
    and abstr :: "'a \<Rightarrow> 'a \<Rightarrow> bool"
    and view :: "'s \<Rightarrow> 'a"
  assumes sim: "conc s s' \<Longrightarrow> abstr (view s) (view s')"
begin

lemma sim_history: "conc\<^sup>*\<^sup>* s s' \<Longrightarrow> abstr\<^sup>*\<^sup>* (view s) (view s')"
  by (induction rule: rtranclp_induct) (auto dest: sim intro: rtranclp.rtrancl_into_rtrancl)

lemma sim_invariant:
  assumes "conc\<^sup>*\<^sup>* s s'" and "I (view s)" and "\<And>a a'. abstr a a' \<Longrightarrow> I a \<Longrightarrow> I a'"
  shows "I (view s')"
  using sim_history [OF assms(1)] assms(2)
  by (induction rule: rtranclp_induct) (auto intro: assms(3))

end

section \<open>The contract\<close>

type_synonym statuses = "string \<rightharpoonup> string"

inductive lifecycle_step :: "statuses \<Rightarrow> statuses \<Rightarrow> bool" where
  stutter: "lifecycle_step m m"
| enroll: "m i = None \<Longrightarrow> lifecycle_step m (m(i \<mapsto> ''active''))"
| move: "m i = Some s \<Longrightarrow> s \<notin> TERMINAL_ENROLLMENT_STATUSES \<Longrightarrow> s' \<in> SequenceEnrollmentStatuses
    \<Longrightarrow> lifecycle_step m (m(i \<mapsto> s'))"

inductive_cases lifecycle_stepE: "lifecycle_step m m'"

definition statuses_of :: "db \<Rightarrow> statuses" where
  "statuses_of db i = map_option enr_status (get_enrollment i db)"

text \<open>The operations of the console on enrollments, the scheduler's step and the approval of a
  mail.\<close>

inductive enrollment_step :: "db \<Rightarrow> db \<Rightarrow> bool" where
  create: "create_sequence_enrollment env q actor key db = (r, db') \<Longrightarrow> enrollment_step db db'"
| pause: "pause_sequence_enrollment env i eq db = (r', db') \<Longrightarrow> enrollment_step db db'"
| resume: "resume_sequence_enrollment env i db = (r', db') \<Longrightarrow> enrollment_step db db'"
| cancel: "cancel_sequence_enrollment env i eq db = (r', db') \<Longrightarrow> enrollment_step db db'"
| schedule: "send_next_sequence_step env i db = (r, db') \<Longrightarrow> enrollment_step db db'"
| approve: "send_approved_sequence_email env transport given i actor db = (r', db') \<Longrightarrow> enrollment_step db db'"

section \<open>Each operation implements the contract\<close>

lemma statuses_same: "sequence_enrollments db' = sequence_enrollments db \<Longrightarrow> statuses_of db' = statuses_of db"
  by (simp add: statuses_of_def get_enrollment_def fun_eq_iff)

lemma statuses_row_put:
  assumes "get_enrollment i db = Some e" and "enr_id e' = enr_id e"
    and "sequence_enrollments db' = row_put enr_id e' (sequence_enrollments db)"
  shows "statuses_of db' = (statuses_of db)(i \<mapsto> enr_status e')"
proof -
  have "sequence_enrollments db' = sequence_enrollments (put_enrollment e' db)"
    using assms(3) by (simp add: put_enrollment_def)
  then have "statuses_of db' = statuses_of (put_enrollment e' db)" by (rule statuses_same)
  with assms(1,2) enrollment_repo.get_key [OF assms(1)] show ?thesis
    by (auto simp: statuses_of_def enrollment_repo.get_put)
qed

lemma assign_moves:
  assumes "get_enrollment i db = Some e" and "enr_id e' = enr_id e"
    and "sequence_enrollments db' = row_put enr_id e' (sequence_enrollments db)"
    and "enr_status e \<notin> TERMINAL_ENROLLMENT_STATUSES \<and> enr_status e' \<in> SequenceEnrollmentStatuses
      \<or> enr_status e' = enr_status e"
  shows "lifecycle_step (statuses_of db) (statuses_of db')"
proof -
  have e: "statuses_of db i = Some (enr_status e)" using assms(1) by (simp add: statuses_of_def)
  show ?thesis
  proof (cases "enr_status e' = enr_status e")
    case True
    with e statuses_row_put [OF assms(1-3)] have "statuses_of db' = statuses_of db" by auto
    then show ?thesis by (simp add: stutter)
  next
    case False
    with assms(4) e statuses_row_put [OF assms(1-3)] show ?thesis by (auto intro: lifecycle_step.move)
  qed
qed

lemma session_lifecycle:
  assumes "session_scope env body db = (r, db')"
    and "\<And>v db1. body (begin_session db) = (Inr v, db1) \<Longrightarrow> constraints_ok (written env db1)
      \<Longrightarrow> lifecycle_step (statuses_of (begin_session db)) (statuses_of db1)"
  shows "lifecycle_step (statuses_of db) (statuses_of db')"
  using assms(1)
proof (cases rule: session_cases)
  case (committed v db1)
  have "statuses_of (begin_session db) = statuses_of db" and "statuses_of (end_session db (written env db1)) = statuses_of db1"
    by (auto intro: statuses_same)
  with assms(2) [OF committed(2,4)] committed(3) show ?thesis by simp
next
  case (raised e x db1)
  then have "statuses_of db' = statuses_of db" by (intro statuses_same) simp
  then show ?thesis by (simp add: stutter)
qed (simp add: stutter)

lemma row_status [simp]:
  "enr_status (completed_enrollment env e) = ''completed''" "enr_status (advanced_enrollment env s e) = enr_status e"
  "enr_status (paused_enrollment env r e) = ''paused''" "enr_status (suppressed_enrollment env rs e) = ''suppressed''"
  "enr_status (due_later env r e) = enr_status e" "enr_status (waiting_enrollment env e) = enr_status e"
  "enr_status (resumed_enrollment env e) = ''active''" "enr_status (set_status env st r e) = st"
  "enr_status (retry_enrollment env e) = enr_status e" "enr_status (bounced_enrollment env e) = ''paused''"
  by (simp_all add: completed_enrollment_def advanced_enrollment_def paused_enrollment_def
      suppressed_enrollment_def due_later_def waiting_enrollment_def resumed_enrollment_def
      set_status_def Let_def retry_enrollment_def bounced_enrollment_def)

lemma known_statuses [simp]:
  "''active'' \<in> SequenceEnrollmentStatuses" "''paused'' \<in> SequenceEnrollmentStatuses"
  "''completed'' \<in> SequenceEnrollmentStatuses" "''canceled'' \<in> SequenceEnrollmentStatuses"
  "''suppressed'' \<in> SequenceEnrollmentStatuses" "''active'' \<notin> TERMINAL_ENROLLMENT_STATUSES"
  by (simp_all add: SequenceEnrollmentStatuses_def TERMINAL_ENROLLMENT_STATUSES_def)

lemma set_status_lifecycle:
  assumes "set_enrollment_status env i st reason ev db = (r, db')" and "st \<in> SequenceEnrollmentStatuses"
  shows "lifecycle_step (statuses_of db) (statuses_of db')"
  using assms(1) unfolding set_enrollment_status_def
proof (rule session_lifecycle)
  fix v db1
  assume run: "set_enrollment_status_body env i st reason ev (begin_session db) = (Inr v, db1)"
  show "lifecycle_step (statuses_of (begin_session db)) (statuses_of db1)"
  proof (cases "get_enrollment i (begin_session db)")
    case None
    with run show ?thesis by (simp add: set_enrollment_status_body_def stutter)
  next
    case (Some e)
    with run have ok: "enr_status e \<notin> TERMINAL_ENROLLMENT_STATUSES \<or> st = enr_status e"
      by (auto simp: set_enrollment_status_body_def split: if_splits)
    with Some run have "sequence_enrollments db1
        = row_put enr_id (set_status env st reason e) (sequence_enrollments (begin_session db))"
      by (auto simp: set_enrollment_status_body_def Let_def event_defs put_enrollment_def split: option.splits sum.splits)
    with ok assms(2) show ?thesis by (intro assign_moves [OF Some]) auto
  qed
qed

lemma resume_lifecycle:
  assumes "resume_sequence_enrollment env i db = (r, db')"
  shows "lifecycle_step (statuses_of db) (statuses_of db')"
  using assms unfolding resume_sequence_enrollment_def
proof (rule session_lifecycle)
  fix v db1
  assume run: "resume_enrollment_body env i (begin_session db) = (Inr v, db1)"
  show "lifecycle_step (statuses_of (begin_session db)) (statuses_of db1)"
  proof (cases "get_enrollment i (begin_session db)")
    case None
    with run show ?thesis by (simp add: resume_enrollment_body_def stutter)
  next
    case (Some e)
    with run have "enr_status e \<notin> TERMINAL_ENROLLMENT_STATUSES"
      and "sequence_enrollments db1 = row_put enr_id (resumed_enrollment env e) (sequence_enrollments (begin_session db))"
      by (auto simp: resume_enrollment_body_def Let_def put_enrollment_def split: if_splits sum.splits)
    then show ?thesis by (intro assign_moves [OF Some]) auto
  qed
qed

lemma create_lifecycle:
  assumes "create_sequence_enrollment env q actor key db = (r, db')"
  shows "lifecycle_step (statuses_of db) (statuses_of db')"
proof (cases "ecq_outreach_approved q")
  case False
  with assms show ?thesis by (simp add: create_sequence_enrollment_def stutter)
next
  case True
  with assms have "session_scope env (create_enrollment_body env q actor key) db = (r, db')"
    by (simp add: create_sequence_enrollment_def)
  then show ?thesis
  proof (rule session_lifecycle)
    fix v db1
    assume run: "create_enrollment_body env q actor key (begin_session db) = (Inr v, db1)"
      and ok: "constraints_ok (written env db1)"
    show "lifecycle_step (statuses_of (begin_session db)) (statuses_of db1)"
    proof (cases "enrollment_with_key key (begin_session db)")
      case (Some e)
      with run show ?thesis by (simp add: create_enrollment_body_def stutter)
    next
      case None
      from create_enrollment_new [OF run None] obtain s step t c row_id
        where rows: "sequence_enrollments db1 = sequence_enrollments (begin_session db)
          @ [enrollment_row env q actor key s step t c row_id]" (is "_ = _ @ [?e]") by blast
      from rows ok have fresh: "enr_id ?e \<notin> enr_id ` set (sequence_enrollments (begin_session db))"
        by (auto simp: constraints_ok_def)
      then have none: "get_enrollment (enr_id ?e) (begin_session db) = None"
        unfolding get_enrollment_def row_get_def by (auto simp: find_None_iff_ball) (metis image_eqI)
      have "statuses_of db1 = statuses_of (add_enrollment ?e (begin_session db))"
        using rows by (intro statuses_same) (simp add: add_enrollment_def)
      also have "\<dots> = (statuses_of (begin_session db))(enr_id ?e \<mapsto> ''active'')"
        using none by (auto simp: statuses_of_def enrollment_repo.get_add enrollment_row_def Let_def)
      finally show ?thesis using none by (simp add: enroll statuses_of_def)
    qed
  qed
qed

section \<open>The scheduler and the approval\<close>

text \<open>A helper that prepares a step keeps the enrollments or assigns the one it was given.\<close>

definition assigns :: "SequenceEnrollment \<Rightarrow> db \<Rightarrow> db \<Rightarrow> bool" where
  "assigns e db db' =
     (sequence_enrollments db' = sequence_enrollments db
      \<or> (\<exists>e'. enr_id e' = enr_id e \<and> enr_status e' \<in> SequenceEnrollmentStatuses
            \<and> sequence_enrollments db' = row_put enr_id e' (sequence_enrollments db)))"

lemma assigns_lifecycle:
  assumes "get_enrollment i db = Some e" and "enr_status e = ''active''" and "assigns e db db'"
  shows "lifecycle_step (statuses_of db) (statuses_of db')"
  using assms(3) unfolding assigns_def
proof (elim disjE exE conjE)
  assume "sequence_enrollments db' = sequence_enrollments db"
  then have "statuses_of db' = statuses_of db" by (rule statuses_same)
  then show ?thesis by (simp add: stutter)
next
  fix e'
  assume "enr_id e' = enr_id e" and "enr_status e' \<in> SequenceEnrollmentStatuses"
    and "sequence_enrollments db' = row_put enr_id e' (sequence_enrollments db)"
  with assms(2) show ?thesis by (intro assign_moves [OF assms(1)]) auto
qed

lemma helper_enrollments:
  "activity_for_step env e s st oid db = (x, db1) \<Longrightarrow> sequence_enrollments db1 = sequence_enrollments db"
  "outbound_for_step env e s c acc f db = (y, db2) \<Longrightarrow> sequence_enrollments db2 = sequence_enrollments db"
  by (auto simp: activity_for_step_def outbound_for_step_def draw_uuid_def Let_def add_activity_def put_activity_def
      add_outbound_def dest!: flush_written split: option.splits sum.splits if_splits)

lemma put_enrollments [simp]:
  "sequence_enrollments (put_enrollment e db) = row_put enr_id e (sequence_enrollments db)"
  "sequence_enrollments (put_outbound o' db) = sequence_enrollments db"
  "sequence_enrollments (put_activity a db) = sequence_enrollments db"
  by (simp_all add: put_enrollment_def put_outbound_def put_activity_def)

lemma prepare_task_assigns:
  assumes "prepare_task env e s db = (r, db')" and "enr_status e = ''active''"
  shows "assigns e db db'"
  using assms unfolding assigns_def prepare_task_def
  by (auto dest: helper_enrollments split: prod.splits sum.splits intro!: exI [of _ "waiting_enrollment env e"])

lemma draft_email_assigns:
  assumes "draft_email env e s c db = (r, db')" and "enr_status e = ''active''"
  shows "assigns e db db'"
  using assms unfolding assigns_def draft_email_def
  by (auto simp: Let_def dest!: helper_enrollments split: prod.splits sum.splits intro!: exI [of _ "waiting_enrollment env e"])

lemma assignsI: "enr_id e' = enr_id e \<Longrightarrow> enr_status e' \<in> SequenceEnrollmentStatuses
    \<Longrightarrow> sequence_enrollments db' = row_put enr_id e' (sequence_enrollments db) \<Longrightarrow> assigns e db db'"
  "assigns e db db"
  unfolding assigns_def by blast+

lemma state_assigns:
  "assigns e db (complete_enrollment env e db)" "assigns e db (pause_for_policy env e r db)"
  "assigns e db (suppress_enrollment env e c rs db)"
  "enr_status e = ''active'' \<Longrightarrow> assigns e db (put_enrollment (due_later env r e) db)"
  by (rule assignsI(1); simp)+

lemma prepare_step_assigns:
  assumes "prepare_step env e sq s c db = (r, db')" and "enr_status e = ''active''"
  shows "assigns e db db'"
  using assms draft_email_assigns [OF _ assms(2)] prepare_task_assigns [OF _ assms(2)]
  by (auto simp: prepare_step_def prepare_email_def assignsI(2) state_assigns
      split: option.splits sum.splits if_splits)

lemma schedule_lifecycle:
  assumes "send_next_sequence_step env i db = (r, db')"
  shows "lifecycle_step (statuses_of db) (statuses_of db')"
  using assms unfolding send_next_sequence_step_def
proof (rule session_lifecycle)
  fix v db1
  assume run: "send_next_body env i (begin_session db) = (Inr v, db1)"
  show "lifecycle_step (statuses_of (begin_session db)) (statuses_of db1)"
  proof (cases "get_enrollment i (begin_session db)")
    case (Some e)
    show ?thesis
    proof (cases "enr_status e = ''active''")
      case True
      with run Some have "assigns e (begin_session db) db1"
        by (auto simp: send_next_body_def state_assigns intro: prepare_step_assigns [OF _ True]
            split: option.splits if_splits)
      then show ?thesis by (rule assigns_lifecycle [OF Some True])
    qed (use run Some in \<open>simp add: send_next_body_def stutter\<close>)
  qed (use run in \<open>simp add: send_next_body_def\<close>)
qed

lemma respond_same: "respond_activity a db = (r, db') \<Longrightarrow> db' = db"
  by (auto simp: respond_activity_def split: sum.splits)

lemma advance_assigns:
  assumes "enr_status e = ''active''" and "sequence_enrollments db1 = sequence_enrollments db"
  shows "\<exists>e'. enr_id e' = enr_id e \<and> enr_status e' \<in> SequenceEnrollmentStatuses
    \<and> sequence_enrollments (advance_enrollment env e step db1) = row_put enr_id e' (sequence_enrollments db)"
proof (cases "filter (\<lambda>s. step_step_order s > step_step_order step)
    (sequence_steps_of (enr_sequence_id e) (Some (enr_definition_version e)) db1)")
  case Nil
  with assms(2) show ?thesis
    by (intro exI [of _ "completed_enrollment env e"]) (simp add: advance_enrollment_def)
next
  case (Cons n ns)
  with assms show ?thesis
    by (intro exI [of _ "advanced_enrollment env n e"]) (simp add: advance_enrollment_def)
qed

lemma deliver_assigns:
  assumes "deliver env sender actor a e step o' db = (r, db')" and "enr_status e = ''active''"
  shows "assigns e db db'"
proof -
  let ?o = "attempted_outbound env o'"
  have id: "enr_id (retry_enrollment env e) = enr_id e" by (simp add: retry_enrollment_def)
  show ?thesis
  proof (cases "sender_send sender (send_message ?o)")
    case (Inl exc)
    with assms(1) have "sequence_enrollments db' = row_put enr_id (retry_enrollment env e) (sequence_enrollments db)"
      by (auto simp: deliver_def smtp_call_def Let_def dest!: respond_same)
    with assms(2) id show ?thesis by (intro assignsI(1)) auto
  next
    case (Inr p)
    let ?s = "sent_outbound env p ?o"
    let ?db1 = "sequencing_event env EMAIL_SENT ''outbound_email'' (out_id ?s) (outbound_email_to_api ?s)
        (''email.sent:'' @ out_id ?s @ '':'' @ show_int (out_attempt_count ?s))
        (put_outbound ?s (snd (smtp_call sender (send_message ?o) (put_outbound ?o db))))"
    have same: "sequence_enrollments ?db1 = sequence_enrollments db" by (simp add: smtp_call_def event_defs)
    from Inr assms(1) have "db' = put_activity (sent_activity env actor a) (advance_enrollment env e step ?db1)"
      by (auto simp: deliver_def smtp_call_def Let_def dest!: respond_same)
    then have "sequence_enrollments db' = sequence_enrollments (advance_enrollment env e step ?db1)" by (simp only: put_enrollments)
    with advance_assigns [OF assms(2) same, of env step] show ?thesis unfolding assigns_def by metis
  qed
qed

lemma approve_lifecycle:
  assumes "send_approved_sequence_email env transport given i actor db = (r, db')"
  shows "lifecycle_step (statuses_of db) (statuses_of db')"
proof (cases "resolve_sender env transport given")
  case (Inl err)
  with assms show ?thesis by (simp add: send_approved_sequence_email_def stutter)
next
  case (Inr sender)
  with assms have "session_scope env (send_approved_body env sender i actor) db = (r, db')"
    by (simp add: send_approved_sequence_email_def)
  then show ?thesis
  proof (rule session_lifecycle)
    fix v db1
    assume run: "send_approved_body env sender i actor (begin_session db) = (Inr v, db1)"
    show "lifecycle_step (statuses_of (begin_session db)) (statuses_of db1)"
    proof (cases v)
      case None
      with run have "sequence_enrollments db1 = sequence_enrollments (begin_session db)"
        by (auto simp: send_approved_body_def deliver_def Let_def respond_activity_def
            split: option.splits if_splits sum.splits prod.splits)
      then have "statuses_of db1 = statuses_of (begin_session db)" by (rule statuses_same)
      then show ?thesis by (simp add: stutter)
    next
      case (Some m)
      from run [unfolded Some] obtain a e step s c o' db2 where e: "get_enrollment (act_enrollment_id a) (begin_session db) = Some e"
          and "enr_status e = ''active''" and draft: "find_draft env a e step c (begin_session db) = (Inr o', db2)"
          and del: "deliver env sender actor a e step o' db2 = (Inr (Some m), db1)"
        by (rule send_approved_Some)
      from draft have "sequence_enrollments db2 = sequence_enrollments (begin_session db)"
        by (auto simp: find_draft_def dest!: helper_enrollments(2) split: if_splits option.splits)
      with deliver_assigns [OF del \<open>enr_status e = ''active''\<close>] have "assigns e (begin_session db) db1"
        by (simp add: assigns_def)
      then show ?thesis by (rule assigns_lifecycle [OF e \<open>enr_status e = ''active''\<close>])
    qed
  qed
qed

section \<open>The contract holds\<close>

interpretation lifecycle: simulation enrollment_step lifecycle_step statuses_of
proof
  fix db db'
  assume "enrollment_step db db'"
  then show "lifecycle_step (statuses_of db) (statuses_of db')"
  proof cases
    case (pause env i eq r)
    then show ?thesis unfolding pause_sequence_enrollment_def by (rule set_status_lifecycle) simp
  next
    case (cancel env i eq r)
    then show ?thesis unfolding cancel_sequence_enrollment_def by (rule set_status_lifecycle) simp
  qed (auto intro: create_lifecycle resume_lifecycle schedule_lifecycle approve_lifecycle)
qed

text \<open>C2: Every history of the console's operations, of scheduler steps and of approved
  sends is, seen through the statuses of the enrollments, a history of the contract: enrollments
  start active, and only one that has not finished changes its status.\<close>

theorem enrollment_lifecycle:
  assumes "enrollment_step\<^sup>*\<^sup>* db db'"
  shows "lifecycle_step\<^sup>*\<^sup>* (statuses_of db) (statuses_of db')"
  using assms by (rule lifecycle.sim_history)

lemma finished_step:
  "lifecycle_step m m' \<Longrightarrow> m i = Some s \<Longrightarrow> s \<in> TERMINAL_ENROLLMENT_STATUSES \<Longrightarrow> m' i = Some s"
  by (auto elim!: lifecycle_stepE)

text \<open>C3: An enrollment that is completed, canceled, suppressed or failed keeps that status
  through every history of these operations, and neither the scheduler nor an approval sends a
  mail for it.\<close>

theorem terminal_is_final:
  assumes "enrollment_step\<^sup>*\<^sup>* db db'" and "get_enrollment i db = Some e"
    and "enr_status e \<in> TERMINAL_ENROLLMENT_STATUSES"
  shows "\<exists>e'. get_enrollment i db' = Some e' \<and> enr_status e' = enr_status e \<and> \<not> is_due env e'
    \<and> (\<forall>k a. get_activity k db' = Some a \<and> act_enrollment_id a = i \<longrightarrow> \<not> may_send env k db')"
proof -
  let ?I = "\<lambda>m. m i = Some (enr_status e)"
  have "?I (statuses_of db')"
    using assms(2,3) by (intro lifecycle.sim_invariant [OF assms(1), of ?I]) (auto simp: statuses_of_def intro: finished_step)
  then obtain e' where e': "get_enrollment i db' = Some e'" "enr_status e' = enr_status e"
    by (auto simp: statuses_of_def)
  with assms(3) have na: "enr_status e' \<noteq> ''active''" by (auto simp: TERMINAL_ENROLLMENT_STATUSES_def)
  then have "\<not> is_due env e'" by (simp add: is_due_def ACTIVE_ENROLLMENT_STATUSES_def)
  moreover have "\<not> may_send env k db'" if "get_activity k db' = Some a" "act_enrollment_id a = i" for k a
    using that e' na by (auto simp: may_send_def sendable_def)
  ultimately show ?thesis using e' by blast
qed

text \<open>The status column stays within the values of \<open>SequenceEnrollmentStatus\<close> through
  every such history, so that the response model of a stored enrollment is never refused for its
  status.\<close>

theorem enrollment_statuses_typed:
  assumes "enrollment_step\<^sup>*\<^sup>* db db'" and "\<forall>j e. get_enrollment j db = Some e \<longrightarrow> enr_status e \<in> SequenceEnrollmentStatuses"
    and "get_enrollment i db' = Some e"
  shows "enr_status e \<in> SequenceEnrollmentStatuses
    \<and> (\<exists>m. sequence_enrollment_to_model env e [] display = Inr m \<and> dict_get (sequence_enrollment_to_api e) ''status'' = JStr (enr_status e))"
proof -
  let ?I = "\<lambda>m :: statuses. \<forall>j s. m j = Some s \<longrightarrow> s \<in> SequenceEnrollmentStatuses"
  have "?I (statuses_of db')"
    using assms(2) by (intro lifecycle.sim_invariant [OF assms(1), of ?I])
      (auto simp: statuses_of_def elim!: lifecycle_stepE split: if_splits)
  with assms(3) have "enr_status e \<in> SequenceEnrollmentStatuses" by (auto simp: statuses_of_def)
  then show ?thesis
    by (simp add: sequence_enrollment_to_model_def sequence_enrollment_to_api_def dict_get_def)
qed

section \<open>Where the contract does not hold\<close>

lemma inbound_enrollment_stored:
  "inbound_enrollment q db = Some e \<Longrightarrow> get_enrollment (enr_id e) db = Some e"
  using enrollment_repo.get_key [of _ db e]
  by (auto simp: inbound_enrollment_def find_enrollment_by_email_def Let_def
      split: option.splits if_splits list.splits)

lemma inbound_enrollment_begin [simp]: "inbound_enrollment q (begin_session db) = inbound_enrollment q db"
  by (simp add: inbound_enrollment_def find_outbound_for_inbound_def find_enrollment_by_email_def Let_def
      cong: option.case_cong list.case_cong if_cong)

lemma bounce_body:
  assumes "process_inbound_body env q key db = (Inr m, db')" and "inbound_with_key key db = None"
    and "iec_event_type q = BOUNCE" and "inbound_enrollment q db = Some e"
  shows "sequence_enrollments db' = row_put enr_id (bounced_enrollment env e) (sequence_enrollments db)"
  using assms
  by (auto simp: process_inbound_body_def apply_inbound_def Let_def draw_uuid_def add_inbound_def when_some_def
      inbound_event_def event_defs dest!: flush_written split: sum.splits option.splits)

text \<open>C27: A bounce does not look at the status of the enrollment: a canceled or suppressed one
  becomes paused, and resuming it then makes it active again.\<close>

theorem bounce_reopens:
  assumes "process_inbound_email_event env q key db = (Inr m, db')" and "inbound_with_key key db = None"
    and "iec_event_type q = BOUNCE" and "inbound_enrollment q db = Some e"
    and "resume_sequence_enrollment env' (enr_id e) db' = (Inr (Some m'), db'')"
  shows "statuses_of db' = (statuses_of db)(enr_id e \<mapsto> ''paused'')
    \<and> statuses_of db'' = (statuses_of db)(enr_id e \<mapsto> ''active'')"
proof -
  from inbound_enrollment_stored [OF assms(4)] have e: "get_enrollment (enr_id e) (begin_session db) = Some e" by simp
  from assms(1) obtain db1 where body: "process_inbound_body env q key (begin_session db) = (Inr m, db1)"
      and db': "db' = end_session db (written env db1)"
    unfolding process_inbound_email_event_def by (cases rule: session_cases) auto
  have "sequence_enrollments db' = row_put enr_id (bounced_enrollment env e) (sequence_enrollments (begin_session db))"
    using bounce_body [OF body] assms(2-4) by (simp add: db' inbound_with_key_def)
  from statuses_row_put [OF e _ this] have paused: "statuses_of db' = (statuses_of db)(enr_id e \<mapsto> ''paused'')"
    by (simp add: bounced_enrollment_def statuses_of_def fun_eq_iff)
  from assms(5) obtain db2 where resume: "resume_enrollment_body env' (enr_id e) (begin_session db') = (Inr (Some m'), db2)"
      and db'': "db'' = end_session db' (written env' db2)"
    unfolding resume_sequence_enrollment_def by (cases rule: session_cases) auto
  then obtain e1 where e1: "get_enrollment (enr_id e) (begin_session db') = Some e1"
      and "sequence_enrollments db2 = row_put enr_id (resumed_enrollment env' e1) (sequence_enrollments (begin_session db'))"
    by (auto simp: resume_enrollment_body_def Let_def split: option.splits if_splits sum.splits)
  with db'' have "sequence_enrollments db'' = row_put enr_id (resumed_enrollment env' e1) (sequence_enrollments (begin_session db'))"
    by simp
  from statuses_row_put [OF e1 _ this] paused show ?thesis by (simp add: statuses_of_def fun_eq_iff)
qed

text \<open>Completing a task does not look at the status of the enrollment either:
  when the task belongs to the last step, a canceled, suppressed or paused enrollment becomes
  completed.\<close>

theorem task_completion_overwrites:
  assumes "complete_sequence_activity env k q actor db = (Inr (Some m), db')" and "get_activity k db = Some a"
    and "get_enrollment (act_enrollment_id a) db = Some e" and "get_step (act_sequence_step_id a) db = Some step"
    and "\<forall>s \<in> set (sequence_steps_of (enr_sequence_id e) (Some (enr_definition_version e)) db).
           step_step_order s \<le> step_step_order step"
  shows "statuses_of db' = (statuses_of db)(act_enrollment_id a \<mapsto> ''completed'')"
proof -
  from assms(1) obtain db1 where body: "complete_activity_body env k q actor (begin_session db) = (Inr (Some m), db1)"
      and db': "db' = end_session db (written env db1)"
    unfolding complete_sequence_activity_def by (cases rule: session_cases) auto
  let ?a = "completed_activity env q actor a"
  from body assms(2-4) have "db1 = advance_enrollment env e step (put_activity ?a (begin_session db))"
    by (auto simp: complete_activity_body_def Let_def dest!: respond_same split: if_splits)
  moreover have "sequence_steps_of x v (put_activity ?a (begin_session db)) = sequence_steps_of x v db" for x v
    by (simp add: sequence_steps_of_def put_activity_def table_defs cong: option.case_cong)
  ultimately have "db1 = complete_enrollment env e (put_activity ?a (begin_session db))"
    using assms(5) by (auto simp: advance_enrollment_def filter_empty_conv not_less split: list.split)
  with db' have rows: "sequence_enrollments db' = row_put enr_id (completed_enrollment env e) (sequence_enrollments db)"
    by simp
  show ?thesis using statuses_row_put [OF assms(3) _ rows] by simp
qed

end
