(* ===== verification/Outreach_History.thy ===== *)
theory Outreach_History
  imports Lifecycle
begin

text \<open>
  Histories of the outreach service: the console's operations on sequences, enrollments, tasks and
  alerts, the scheduler, the approvals, the inbound mail and the suppressions added by hand, in any
  order.  Along every history suppressions are only added, and an activity that was decided stays
  decided: so an unsubscribe keeps its effect, and a mail is sent at most once.
\<close>

section \<open>Histories\<close>

inductive outreach_step :: "db \<Rightarrow> db \<Rightarrow> bool" where
  enrollments: "enrollment_step db db' \<Longrightarrow> outreach_step db db'"
| task: "complete_sequence_activity env k tq actor db = (ro, db') \<Longrightarrow> outreach_step db db'"
| inbound: "process_inbound_email_event env iq key db = (r, db') \<Longrightarrow> outreach_step db db'"
| unsubscribe: "process_unsubscribe env uq key db = (r, db') \<Longrightarrow> outreach_step db db'"
| poll: "poll_inbound_email_events env identity mailbox limit db = (r, db') \<Longrightarrow> outreach_step db db'"
| alert: "create_sequence_email_alert env k alq actor key db = (ro, db') \<Longrightarrow> outreach_step db db'"
| alerts: "process_due_sequence_email_alerts env transport given limit db = (r, db') \<Longrightarrow> outreach_step db db'"
| create_seq: "create_sequence env cq ckey db = (r, db') \<Longrightarrow> outreach_step db db'"
| update_seq: "update_sequence env k uqs db = (ro, db') \<Longrightarrow> outreach_step db db'"
| archive_seq: "archive_sequence env k db = (ro, db') \<Longrightarrow> outreach_step db db'"
| suppress: "create_suppression env sq key db = (rs, db') \<Longrightarrow> outreach_step db db'"

inductive_cases outreach_stepE: "outreach_step db db'"
inductive_cases enrollment_stepE: "enrollment_step db db'"

section \<open>Suppressions only grow\<close>

lemma suppressions_state [simp]:
  "suppressions (complete_enrollment env e db) = suppressions db"
  "suppressions (pause_for_policy env e rs db) = suppressions db"
  "suppressions (suppress_enrollment env e c rso db) = suppressions db"
  "suppressions (advance_enrollment env e s db) = suppressions db"
  "suppressions (put_enrollment e db) = suppressions db" "suppressions (put_outbound o' db) = suppressions db"
  "suppressions (put_activity a db) = suppressions db"
  by (simp_all add: complete_enrollment_def pause_for_policy_def suppress_enrollment_def advance_enrollment_def
      event_defs Let_def draw_uuid_def put_enrollment_def put_outbound_def put_activity_def add_suppression_event_def
      split: list.split)

lemma suppressions_helpers:
  "activity_for_step env e s st oid db = (ra, db1) \<Longrightarrow> suppressions db1 = suppressions db"
  "outbound_for_step env e s c acc f db = (ro, db2) \<Longrightarrow> suppressions db2 = suppressions db"
  by (auto simp: activity_for_step_def outbound_for_step_def draw_uuid_def Let_def add_activity_def put_activity_def
      add_outbound_def dest!: flush_written split: option.splits sum.splits if_splits)

lemma suppressions_find_draft: "find_draft env a e step c db = (r, db') \<Longrightarrow> suppressions db' = suppressions db"
  by (auto simp: find_draft_def dest!: suppressions_helpers split: if_splits option.splits)

lemma suppressions_deliver: "deliver env sender actor a e step o' db = (r, db') \<Longrightarrow> suppressions db' = suppressions db"
  by (auto simp: deliver_def Let_def smtp_call_def event_defs dest!: respond_same split: sum.splits)

lemma suppressions_prepare:
  "prepare_task env e s db = (rt, db1) \<Longrightarrow> suppressions db1 = suppressions db"
  "draft_email env e s c db = (rd, db2) \<Longrightarrow> suppressions db2 = suppressions db"
  by (auto simp: prepare_task_def draft_email_def Let_def dest!: suppressions_helpers split: prod.splits sum.splits)

lemma session_suppressions:
  assumes "session_scope env body db = (r, db')"
    and "\<And>v db1. body (begin_session db) = (Inr v, db1) \<Longrightarrow> set (suppressions (begin_session db)) \<subseteq> set (suppressions db1)"
  shows "set (suppressions db) \<subseteq> set (suppressions db')"
  using assms(1)
proof (cases rule: session_cases)
  case (committed v db1)
  with assms(2) [OF committed(2)] show ?thesis by simp
qed simp_all

text \<open>The bodies of the sessions.\<close>

lemma suppressions_scheduler: "send_next_body env i db = (Inr v, db') \<Longrightarrow> suppressions db' = suppressions db"
  by (auto simp: send_next_body_def prepare_step_def prepare_email_def dest: suppressions_prepare
      split: option.splits if_splits sum.splits)

lemma suppressions_send: "send_approved_body env sender i actor db = (Inr v, db') \<Longrightarrow> suppressions db' = suppressions db"
  by (auto simp: send_approved_body_def dest!: suppressions_deliver suppressions_find_draft
      split: option.splits if_splits sum.splits prod.splits)

lemma suppressions_enrollments:
  "create_enrollment_body env q actor key db = (Inr v, db1) \<Longrightarrow> suppressions db1 = suppressions db"
  "set_enrollment_status_body env i st reason ev db = (Inr w, db2) \<Longrightarrow> suppressions db2 = suppressions db"
  "resume_enrollment_body env i db = (Inr w, db3) \<Longrightarrow> suppressions db3 = suppressions db"
  "complete_activity_body env k tq actor db = (Inr w, db4) \<Longrightarrow> suppressions db4 = suppressions db"
  by (auto simp: create_enrollment_body_def set_enrollment_status_body_def resume_enrollment_body_def complete_activity_body_def
      draw_uuid_def Let_def add_enrollment_def event_defs dest!: flush_written respond_same
      split: option.splits if_splits sum.splits prod.splits)

lemma add_steps_frame [simp]:
  "suppressions (snd (add_steps env sid v i qs db)) = suppressions db"
  "sequence_step_activities (snd (add_steps env sid v i qs db)) = sequence_step_activities db"
  by (induction qs arbitrary: i db) (simp_all add: Let_def add_step_def case_prod_beta)

lemma send_alerts_frame [simp]:
  "suppressions (snd (send_alerts env sender as db)) = suppressions db"
  "sequence_step_activities (snd (send_alerts env sender as db)) = sequence_step_activities db"
  by (induction as arbitrary: db)
     (simp_all add: smtp_call_def Let_def put_alert_def case_prod_beta split: sum.split)

lemma suppressions_sequences:
  "create_sequence_body env cq ckey db = (Inr v, db1) \<Longrightarrow> suppressions db1 = suppressions db"
  "update_sequence_body env k uqs db = (Inr w, db2) \<Longrightarrow> suppressions db2 = suppressions db"
  by (auto simp: create_sequence_body_def update_sequence_body_def draw_uuid_def Let_def add_sequence_def put_sequence_def event_defs
      case_prod_beta dest!: flush_written split: option.splits if_splits sum.splits)

lemma suppressions_ensure:
  "ensure_suppression env email ch reason ev db = (Inr s, db') \<Longrightarrow> set (suppressions db) \<subseteq> set (suppressions db')"
  by (auto dest!: ensure_suppression_Inr split: option.splits)

lemma suppressions_apply:
  "apply_inbound env q ev e o' db = (Inr u, db') \<Longrightarrow> set (suppressions db) \<subseteq> set (suppressions db')"
  by (auto simp: apply_inbound_def create_unsubscribe_suppression_def inbound_event_def when_some_def event_defs
      draw_uuid_def Let_def add_suppression_event_def dest!: suppressions_ensure
      split: InboundEmailEventType.splits if_splits option.splits prod.splits sum.splits)

lemma suppressions_inbound_body:
  "process_inbound_body env q key db = (Inr v, db') \<Longrightarrow> set (suppressions db) \<subseteq> set (suppressions db')"
  by (auto simp: process_inbound_body_def draw_uuid_def Let_def add_inbound_def dest!: flush_written suppressions_apply
      split: option.splits sum.splits prod.splits)

lemma suppressions_inbound:
  "process_inbound_email_event env q key db = (r, db') \<Longrightarrow> set (suppressions db) \<subseteq> set (suppressions db')"
  unfolding process_inbound_email_event_def by (erule session_suppressions) (rule suppressions_inbound_body)

text \<open>A polling round is a sequence of inbound events: what each of them keeps, the round keeps.\<close>

lemma polled_keeps:
  assumes "process_polled env qs db = (r, db')" and "P db"
    and event: "\<And>q key db r db'. process_inbound_email_event env q key db = (r, db') \<Longrightarrow> P db \<Longrightarrow> P db'"
    and drawn: "\<And>db n. P db \<Longrightarrow> P (db\<lparr>uuid_seq := n\<rparr>)"
  shows "P db'"
  using assms(1,2)
proof (induction qs arbitrary: db r db')
  case (Cons q qs)
  let ?p = "if truthy_str (iec_message_id q) then (str_or (iec_message_id q) [], db) else draw_uuid env db"
  let ?key = "''inbound_email:'' @ inbound_type_value (iec_event_type q) @ '':'' @ fst ?p"
  obtain x db2 where run: "process_inbound_email_event env q ?key (snd ?p) = (x, db2)" by fastforce
  have "P (snd ?p)" using Cons.prems(2) drawn by (simp add: draw_uuid_def)
  from event [OF run this] have "P db2" .
  obtain y db3 where rest: "process_polled env qs db2 = (y, db3)" by fastforce
  from Cons.IH [OF rest \<open>P db2\<close>] have "P db3" .
  have "db' = db2 \<or> db' = db3"
    using Cons.prems(1) run rest by (simp add: case_prod_beta Let_def split: sum.splits)
  with \<open>P db2\<close> \<open>P db3\<close> show ?case by blast
qed simp

lemma poll_keeps:
  assumes "poll_inbound_email_events env identity mailbox limit db = (r, db')" and "P db"
    and "\<And>q key db r db'. process_inbound_email_event env q key db = (r, db') \<Longrightarrow> P db \<Longrightarrow> P db'"
    and "\<And>db n. P db \<Longrightarrow> P (db\<lparr>uuid_seq := n\<rparr>)"
  shows "P db'"
proof -
  obtain x db1 where run: "process_polled env (mailbox limit) db = (x, db1)" by fastforce
  from polled_keeps [where P = P, OF run assms(2-4)] have "P db1" .
  moreover have "db' = db \<or> db' = db1"
    using assms(1) run by (auto simp: poll_inbound_email_events_def split: option.splits sum.splits)
  ultimately show ?thesis using assms(2) by blast
qed

text \<open>The operations on enrollments are sessions, or change nothing.\<close>

lemma enrollment_step_session:
  assumes "enrollment_step db db'"
  obtains (same) "db' = db"
    | (create) env q actor key r where "session_scope env (create_enrollment_body env q actor key) db = (r, db')"
    | (status) env i st reason ev r where "session_scope env (set_enrollment_status_body env i st reason ev) db = (r, db')"
    | (resume) env i r where "session_scope env (resume_enrollment_body env i) db = (r, db')"
    | (schedule) env i r where "send_next_sequence_step env i db = (r, db')"
    | (approve) env sender i actor r where "session_scope env (send_approved_body env sender i actor) db = (r, db')"
  using assms
  by (auto elim!: enrollment_stepE simp: create_sequence_enrollment_def pause_sequence_enrollment_def cancel_sequence_enrollment_def
      set_enrollment_status_def resume_sequence_enrollment_def send_approved_sequence_email_def
      split: if_splits sum.splits)

lemma enrollment_step_suppressions:
  assumes "enrollment_step db db'"
  shows "set (suppressions db) \<subseteq> set (suppressions db')"
  using assms
proof (cases rule: enrollment_step_session)
  case create
  then show ?thesis by (rule session_suppressions) (simp add: suppressions_enrollments)
next
  case status
  then show ?thesis by (rule session_suppressions) (simp add: suppressions_enrollments)
next
  case resume
  then show ?thesis by (rule session_suppressions) (simp add: suppressions_enrollments)
next
  case schedule
  then show ?thesis
    unfolding send_next_sequence_step_def by (rule session_suppressions) (simp add: suppressions_scheduler)
next
  case approve
  then show ?thesis by (rule session_suppressions) (simp add: suppressions_send)
qed simp

lemma suppressions_alert:
  "create_alert_body env k alq actor key db = (Inr v, db1) \<Longrightarrow> suppressions db1 = suppressions db"
  "process_alerts_body env sender limit db = (Inr w, db2) \<Longrightarrow> suppressions db2 = suppressions db"
  by (auto simp: create_alert_body_def process_alerts_body_def draw_uuid_def Let_def add_alert_def case_prod_beta
      dest!: flush_written split: option.splits sum.splits)

lemma suppressions_created:
  "create_suppression_body env q key db = (Inr v, db') \<Longrightarrow> set (suppressions db) \<subseteq> set (suppressions db')"
  by (auto simp: create_suppression_body_def draw_uuid_def Let_def add_suppression_def dest!: flush_written
      split: option.splits sum.splits)

lemma outreach_step_suppressions:
  assumes "outreach_step db db'"
  shows "set (suppressions db) \<subseteq> set (suppressions db')"
  using assms
proof (cases rule: outreach_step.cases)
  case task
  then show ?thesis
    unfolding complete_sequence_activity_def by (rule session_suppressions) (simp add: suppressions_enrollments)
next
  case inbound
  then show ?thesis by (rule suppressions_inbound)
next
  case unsubscribe
  then show ?thesis by (auto simp: process_unsubscribe_def dest!: suppressions_inbound split: option.splits)
next
  case poll
  then show ?thesis
    by (rule poll_keeps [where P = "\<lambda>x. set (suppressions db) \<subseteq> set (suppressions x)"]) (auto dest!: suppressions_inbound)
next
  case alert
  then show ?thesis
    unfolding create_sequence_email_alert_def by (rule session_suppressions) (simp add: suppressions_alert)
next
  case (alerts env transport given limit r)
  show ?thesis
  proof (cases "resolve_sender env transport given")
    case (Inr sender)
    with alerts have "session_scope env (process_alerts_body env sender limit) db = (r, db')"
      by (simp add: process_due_sequence_email_alerts_def)
    then show ?thesis by (rule session_suppressions) (simp add: suppressions_alert)
  qed (use alerts in \<open>simp add: process_due_sequence_email_alerts_def\<close>)
next
  case create_seq
  then show ?thesis unfolding create_sequence_def by (rule session_suppressions) (simp add: suppressions_sequences)
next
  case update_seq
  then show ?thesis unfolding update_sequence_def by (rule session_suppressions) (simp add: suppressions_sequences)
next
  case archive_seq
  then show ?thesis
    unfolding archive_sequence_def
    by (rule session_suppressions) (auto simp: Let_def put_sequence_def split: option.splits sum.splits)
next
  case suppress
  then show ?thesis unfolding create_suppression_def by (rule session_suppressions) (rule suppressions_created)
qed (rule enrollment_step_suppressions)

interpretation suppressed: step_system outreach_step "\<lambda>db. T \<subseteq> set (suppressions db)" for T
  by unfold_locales (use outreach_step_suppressions in blast)

text \<open>C4: Once an unsubscribe of an address from e-mail is processed, no approval of a mail for a contact
  with that address, of an activity and a step of the channel e-mail, can send: in every later
  store of the service the attempt raises, nothing leaves and nothing is stored.  The conditions:
  the event is new, it names an address, its payload names no other channel, and the suppression
  of the address that was already marked active, if there is one, has not expired when the mail
  is attempted.  (With one that has expired the unsubscribe records nothing; and a draft prepared for an earlier
  address of a contact is sent to that address: both are shown in \<open>Outreach\<close>.)\<close>

theorem unsubscribe_stops_mail:
  assumes "process_inbound_email_event env q key db = (Inr m, db1)" and "inbound_with_key key db = None"
    and "iec_event_type q = UNSUBSCRIBE" and "unsubscribe_address q \<noteq> []"
    and "py_lower (payload_text (iec_provider_payload q) ''channel'' ''email'') = ''email''"
    and "\<forall>s. active_suppression (unsubscribe_address q) ''email'' db = Some s
           \<longrightarrow> (case sup_expires_at s of None \<Rightarrow> True | Some t \<Rightarrow> t > env_now env')"
    and "outreach_step\<^sup>*\<^sup>* db1 db'"
    and "get_activity i db' = Some a" and "get_enrollment (act_enrollment_id a) db' = Some e"
    and "get_step (act_sequence_step_id a) db' = Some step" and "py_lower (step_channel step) = ''email''"
    and "get_contact (enr_contact_id e) db' = Some c"
    and "py_lower (str_or (con_email c) []) = unsubscribe_address q"
  shows "\<exists>err db''. send_approved_sequence_email env' transport given i actor db' = (Inl err, db'')
    \<and> effects db'' = effects db' \<and> same_tables db' db''"
proof (rule send_refused [OF assms(8-10,12)])
  from unsubscribe_suppresses [OF assms(1-6)] obtain s where s: "s \<in> set (suppressions db1)"
      "sup_email s = Some (unsubscribe_address q)" "suppression_in_force (env_now env') ''email'' s" by blast
  from suppressed.inv_history [OF assms(7), of "{s}"] s(1) have "s \<in> set (suppressions db')" by simp
  moreover have "str_or (con_email c) [] \<noteq> []" using assms(4,13) by (metis py_lower_Nil_iff)
  ultimately show "suppression_error env' c (step_channel step) db' \<noteq> None"
    using s(2,3) assms(11,13) by (intro suppression_blocks) simp_all
qed

section \<open>A decided activity stays decided\<close>

text \<open>An activity whose mail can no longer be approved, because it was completed or has failed.\<close>

definition settled :: "string \<Rightarrow> db \<Rightarrow> bool" where
  "settled k db = (\<exists>a. get_activity k db = Some a \<and> act_status a \<notin> {''pending_approval'', ''approved''})"

lemma settled_same: "sequence_step_activities db' = sequence_step_activities db \<Longrightarrow> settled k db' = settled k db"
  by (simp add: settled_def get_activity_def)

lemma settled_put:
  assumes "settled k db" and "sequence_step_activities db' = row_put act_id a (sequence_step_activities db)"
    and "act_status a \<notin> {''pending_approval'', ''approved''}"
  shows "settled k db'"
proof -
  have "get_activity k db' = get_activity k (put_activity a db)" by (simp add: get_activity_def put_activity_def assms(2))
  with assms(1,3) show ?thesis by (auto simp: settled_def activity_repo.get_put)
qed

lemma settled_kept: "activities_kept db db' \<Longrightarrow> settled k db \<Longrightarrow> settled k db'"
  unfolding activities_kept_def settled_def by metis

lemma session_settled:
  assumes "session_scope env body db = (r, db')" and "settled k db"
    and "\<And>v db1. body (begin_session db) = (Inr v, db1) \<Longrightarrow> settled k (begin_session db) \<Longrightarrow> settled k db1"
  shows "settled k db'"
  using assms(1)
proof (cases rule: session_cases)
  case (raised e x db1)
  with assms(2) show ?thesis by (simp add: settled_def get_activity_def)
next
  case (committed v db1)
  have "settled k (begin_session db)" using assms(2) by (simp add: settled_def get_activity_def)
  from assms(3) [OF committed(2) this] committed show ?thesis by (simp add: settled_def get_activity_def)
qed (use assms in simp)

lemma session_activities_same:
  assumes "session_scope env body db = (r, db')" and "settled k db"
    and "\<And>v db1. body (begin_session db) = (Inr v, db1) \<Longrightarrow> sequence_step_activities db1 = sequence_step_activities (begin_session db)"
  shows "settled k db'"
  using assms(1,2)
proof (rule session_settled)
  fix v db1
  assume "body (begin_session db) = (Inr v, db1)" and ok: "settled k (begin_session db)"
  from settled_same [OF assms(3) [OF this(1)]] ok show "settled k db1" by simp
qed

lemma activities_advance [simp]: "sequence_step_activities (advance_enrollment env e s db) = sequence_step_activities db"
  by (simp add: advance_enrollment_def split: list.split)

lemma deliver_settles:
  assumes "deliver env sender actor a e step o' db = (r, db')"
  shows "\<exists>a'. act_id a' = act_id a \<and> act_status a' \<notin> {''pending_approval'', ''approved''}
    \<and> sequence_step_activities db' = row_put act_id a' (sequence_step_activities db)"
proof (cases "sender_send sender (send_message (attempted_outbound env o'))")
  case (Inl err)
  with assms show ?thesis
    by (intro exI [of _ "failed_activity env (error_text err) a"])
       (auto simp: deliver_def smtp_call_def Let_def put_activity_def put_outbound_def put_enrollment_def failed_activity_def
         dest!: respond_same)
next
  case (Inr pid)
  with assms show ?thesis
    by (intro exI [of _ "sent_activity env actor a"])
       (auto simp: deliver_def smtp_call_def Let_def put_activity_def event_defs sent_activity_def dest!: respond_same)
qed

lemma send_settled:
  assumes "send_approved_body env sender i actor db = (Inr v, db')" and "settled k db"
  shows "settled k db'"
proof (cases v)
  case None
  with assms(1) have "db' = db"
    by (auto simp: send_approved_body_def deliver_def respond_activity_def Let_def split: option.splits if_splits sum.splits prod.splits)
  with assms(2) show ?thesis by simp
next
  case (Some m)
  from assms(1) [unfolded Some] obtain a e step c o' db1 where draft: "find_draft env a e step c db = (Inr o', db1)"
      and del: "deliver env sender actor a e step o' db1 = (Inr (Some m), db')" by (rule send_approved_Some)
  have "settled k db1" using assms(2) by (simp add: settled_same [OF find_draft_activities [OF draft]])
  with deliver_settles [OF del] show ?thesis by (blast intro: settled_put)
qed

lemma activities_bodies:
  "create_enrollment_body env q actor key db = (Inr v, db1) \<Longrightarrow> sequence_step_activities db1 = sequence_step_activities db"
  "set_enrollment_status_body env i st reason ev db = (Inr w, db2) \<Longrightarrow> sequence_step_activities db2 = sequence_step_activities db"
  "resume_enrollment_body env i db = (Inr w, db3) \<Longrightarrow> sequence_step_activities db3 = sequence_step_activities db"
  "create_alert_body env k alq actor key db = (Inr w, db4) \<Longrightarrow> sequence_step_activities db4 = sequence_step_activities db"
  "process_alerts_body env sender limit db = (Inr v, db5) \<Longrightarrow> sequence_step_activities db5 = sequence_step_activities db"
  "create_sequence_body env cq ckey db = (Inr v, db6) \<Longrightarrow> sequence_step_activities db6 = sequence_step_activities db"
  "update_sequence_body env i uqs db = (Inr w, db7) \<Longrightarrow> sequence_step_activities db7 = sequence_step_activities db"
  "create_suppression_body env sq key db = (Inr s, db8) \<Longrightarrow> sequence_step_activities db8 = sequence_step_activities db"
  by (auto simp: create_enrollment_body_def set_enrollment_status_body_def resume_enrollment_body_def
      create_alert_body_def process_alerts_body_def create_sequence_body_def update_sequence_body_def create_suppression_body_def
      draw_uuid_def Let_def add_enrollment_def add_alert_def add_sequence_def put_sequence_def add_suppression_def event_defs case_prod_beta
      dest!: flush_written split: option.splits if_splits sum.splits)

lemma activities_ensure:
  "ensure_suppression env email ch reason ev db = (r, db') \<Longrightarrow> sequence_step_activities db' = sequence_step_activities db"
  by (auto simp: ensure_suppression_def draw_uuid_def Let_def add_suppression_def event_defs
      dest!: flush_written split: option.splits sum.splits)

lemma activities_apply:
  "apply_inbound env q ev e o' db = (Inr u, db') \<Longrightarrow> sequence_step_activities db' = sequence_step_activities db"
  by (auto simp: apply_inbound_def create_unsubscribe_suppression_def inbound_event_def when_some_def event_defs
      draw_uuid_def Let_def add_suppression_event_def dest!: activities_ensure
      split: InboundEmailEventType.splits if_splits option.splits prod.splits sum.splits)

lemma activities_inbound:
  "process_inbound_body env q key db = (Inr v, db') \<Longrightarrow> sequence_step_activities db' = sequence_step_activities db"
  by (auto simp: process_inbound_body_def draw_uuid_def Let_def add_inbound_def dest!: flush_written activities_apply
      split: option.splits sum.splits prod.splits)

lemma inbound_settled:
  "process_inbound_email_event env q key db = (r, db') \<Longrightarrow> settled k db \<Longrightarrow> settled k db'"
  unfolding process_inbound_email_event_def by (erule session_activities_same) (simp_all add: activities_inbound)

lemma enrollment_step_settled:
  assumes "enrollment_step db db'" and "constraints_ok db" and "settled k db"
  shows "settled k db'"
  using assms(1)
proof (cases rule: enrollment_step_session)
  case create
  then show ?thesis using assms(3) by (rule session_activities_same) (simp add: activities_bodies)
next
  case status
  then show ?thesis using assms(3) by (rule session_activities_same) (simp add: activities_bodies)
next
  case resume
  then show ?thesis using assms(3) by (rule session_activities_same) (simp add: activities_bodies)
next
  case schedule
  then show ?thesis using send_next_keeps assms(2,3) settled_kept by blast
next
  case approve
  then show ?thesis using assms(3) by (rule session_settled) (rule send_settled)
qed (use assms in simp)

lemma task_settled:
  assumes "complete_activity_body env j tq actor db = (Inr v, db')" and "settled k db"
  shows "settled k db'"
proof (cases "db' = db")
  case False
  with assms(1) obtain a where "sequence_step_activities db' = row_put act_id (completed_activity env tq actor a) (sequence_step_activities db)"
    by (auto simp: complete_activity_body_def Let_def put_activity_def dest!: respond_same split: option.splits if_splits)
  with assms(2) show ?thesis by (rule settled_put) (simp add: completed_activity_def)
qed (use assms in simp)

lemma outreach_step_settled:
  assumes "outreach_step db db'" and "constraints_ok db" and "settled k db"
  shows "settled k db'"
  using assms(1)
proof (cases rule: outreach_step.cases)
  case enrollments
  then show ?thesis using assms(2,3) by (rule enrollment_step_settled)
next
  case task
  then show ?thesis
    using assms(3) unfolding complete_sequence_activity_def by (rule session_settled) (rule task_settled)
next
  case inbound
  then show ?thesis using assms(3) by (rule inbound_settled)
next
  case unsubscribe
  then show ?thesis using assms(3) by (auto simp: process_unsubscribe_def dest!: inbound_settled split: option.splits)
next
  case poll
  then show ?thesis
    using assms(3) by (rule poll_keeps [where P = "settled k"]) (auto simp: settled_def get_activity_def dest!: inbound_settled)
next
  case alert
  then show ?thesis
    using assms(3) unfolding create_sequence_email_alert_def by (rule session_activities_same) (simp add: activities_bodies)
next
  case (alerts env transport given limit r)
  show ?thesis
  proof (cases "resolve_sender env transport given")
    case (Inr sender)
    with alerts have "session_scope env (process_alerts_body env sender limit) db = (r, db')"
      by (simp add: process_due_sequence_email_alerts_def)
    then show ?thesis using assms(3) by (rule session_activities_same) (simp add: activities_bodies)
  qed (use alerts assms(3) in \<open>simp add: process_due_sequence_email_alerts_def\<close>)
next
  case create_seq
  then show ?thesis using assms(3) unfolding create_sequence_def by (rule session_activities_same) (simp add: activities_bodies)
next
  case update_seq
  then show ?thesis using assms(3) unfolding update_sequence_def by (rule session_activities_same) (simp add: activities_bodies)
next
  case archive_seq
  then show ?thesis
    using assms(3) unfolding archive_sequence_def
    by (rule session_activities_same) (auto simp: Let_def put_sequence_def split: option.splits sum.splits)
next
  case suppress
  then show ?thesis using assms(3) unfolding create_suppression_def by (rule session_activities_same) (simp add: activities_bodies)
qed

section \<open>A mail is sent at most once\<close>

lemma inbound_constraints:
  "process_inbound_email_event env q key db = (r, db') \<Longrightarrow> constraints_ok db \<Longrightarrow> constraints_ok db'"
  unfolding process_inbound_email_event_def using session.constraints_after by blast

lemma enrollment_step_constraints:
  assumes "enrollment_step db db'" and "constraints_ok db"
  shows "constraints_ok db'"
  using assms(1)
  by (cases rule: enrollment_step_session)
     (use assms(2) session.constraints_after in \<open>auto simp: send_next_sequence_step_def\<close>)

lemma poll_constraints:
  assumes "poll_inbound_email_events env identity mailbox limit db = (r, db')" and "constraints_ok db"
  shows "constraints_ok db'"
  using assms by (rule poll_keeps [where P = constraints_ok]) (auto simp: constraints_ok_def dest: inbound_constraints [unfolded constraints_ok_def])

lemma outreach_step_constraints:
  assumes "outreach_step db db'" and "constraints_ok db"
  shows "constraints_ok db'"
  using assms(1)
proof (cases rule: outreach_step.cases)
  case enrollments
  then show ?thesis using assms(2) by (rule enrollment_step_constraints)
next
  case poll
  then show ?thesis using assms(2) by (rule poll_constraints)
qed (use assms(2) session.constraints_after inbound_constraints in
      \<open>auto simp: complete_sequence_activity_def process_unsubscribe_def create_sequence_email_alert_def
         process_due_sequence_email_alerts_def create_sequence_def update_sequence_def archive_sequence_def create_suppression_def
         split: option.splits sum.splits\<close>)

interpretation decided: step_system outreach_step "\<lambda>db. constraints_ok db \<and> settled k db" for k
  by unfold_locales (auto intro: outreach_step_constraints outreach_step_settled)

lemma settled_refused:
  assumes "settled i db"
  shows "\<exists>err. send_approved_sequence_email env transport given i actor db = (Inl err, db)"
proof (cases "resolve_sender env transport given")
  case (Inr sender)
  from assms obtain a where "get_activity i db = Some a" "act_status a \<notin> {''pending_approval'', ''approved''}"
    by (auto simp: settled_def)
  then have "\<exists>err. send_approved_body env sender i actor (begin_session db) = (Inl err, begin_session db)"
    by (cases "act_channel a = ''email''") (simp_all add: send_approved_body_def)
  then have "\<exists>err. session_scope env (send_approved_body env sender i actor) db = (Inl err, db)"
    by (auto simp: session_scope_def)
  with Inr show ?thesis by (simp add: send_approved_sequence_email_def)
qed (simp add: send_approved_sequence_email_def)

lemma sent_settled:
  assumes "send_approved_sequence_email env transport given i actor db = (Inr (Some m), db')"
  shows "settled i db'"
proof -
  from assms obtain sender where "session_scope env (send_approved_body env sender i actor) db = (Inr (Some m), db')"
    by (auto simp: send_approved_sequence_email_def split: sum.splits)
  then obtain db2 where body: "send_approved_body env sender i actor (begin_session db) = (Inr (Some m), db2)"
      and db': "db' = end_session db (written env db2)" by (cases rule: session_cases) auto
  from body obtain a e step c o' db1 where a: "get_activity i (begin_session db) = Some a"
      and draft: "find_draft env a e step c (begin_session db) = (Inr o', db1)"
      and del: "deliver env sender actor a e step o' db1 = (Inr (Some m), db2)" by (rule send_approved_Some)
  from deliver_settles [OF del] obtain a' where a': "act_id a' = act_id a" "act_status a' \<notin> {''pending_approval'', ''approved''}"
      and rows: "sequence_step_activities db2 = row_put act_id a' (sequence_step_activities db1)" by blast
  have "get_activity i db' = get_activity i (put_activity a' (begin_session db))"
    using rows find_draft_activities [OF draft] by (simp add: get_activity_def put_activity_def db')
  also have "\<dots> = Some a'" using activity_repo.get_assign [OF a a'(1)] .
  finally show ?thesis using a'(2) by (auto simp: settled_def)
qed

text \<open>C24: A mail is sent at most once: after an approval returned the activity of the mail, whether the
  delivery succeeded or failed, no later approval of that activity sends anything.  In every later
  store of the service, with any settings, sender and actor, the call raises and changes nothing.
  (A call that raises after its mail has left, because the store refuses the changes, leaves the
  activity as it was: it is not covered.)\<close>

theorem mail_sent_once:
  assumes "send_approved_sequence_email env transport given i actor db = (Inr (Some m), db1)"
    and "constraints_ok db" and "outreach_step\<^sup>*\<^sup>* db1 db'"
  shows "\<exists>err. send_approved_sequence_email env' transport' given' i actor' db' = (Inl err, db')"
proof (rule settled_refused)
  have "outreach_step db db1"
    using assms(1) by (intro outreach_step.enrollments enrollment_step.approve)
  with assms(2) have "constraints_ok db1 \<and> settled i db1" using sent_settled [OF assms(1)] outreach_step_constraints by blast
  from decided.inv_history [OF assms(3) this] show "settled i db'" ..
qed

end
