(* ===== verification/Outreach_Examples.thy ===== *)
theory Outreach_Examples
  imports Outreach_History
begin

text \<open>
  Concrete runs of the outreach operations: each theorem about sequences, enrollments, sends and
  inbound events is applied to a small store where its hypotheses hold.
\<close>

section \<open>A store with one contact in one sequence\<close>

definition sample_sequence :: Sequence where
  "sample_sequence =
     \<lparr>seq_id = ''s1'', seq_name = ''intro'', seq_owner_id = None, seq_channel = ''email'',
      seq_status = ''active'', seq_rate_limit_policy = [(''domain_daily_limit'', JInt 5)],
      seq_definition_version = 1, seq_idempotency_key = Some ''sk1'', seq_created_at = 0, seq_updated_at = 0\<rparr>"

definition sample_step :: "string \<Rightarrow> int \<Rightarrow> string \<Rightarrow> SequenceStep" where
  "sample_step i order subject =
     \<lparr>step_id = i, step_sequence_id = ''s1'', step_step_order = order, step_channel = ''email'',
      step_delay_seconds = 60, step_subject_template = Some subject, step_body_template = Some ''Hello'',
      step_requires_approval = True, step_step_metadata = [], step_definition_version = 1,
      step_active = True, step_created_at = 0, step_updated_at = 0\<rparr>"

definition sample_target :: CrmTarget where
  "sample_target =
     \<lparr>tgt_id = ''t1'', tgt_review_candidate_id = None, tgt_review_decision_id = None,
      tgt_target_type = ''contact'', tgt_target_id = ''p1'', tgt_origin_type = None, tgt_origin_id = None,
      tgt_source_definition_id = None, tgt_source_item_ids = [], tgt_status = ''exported'',
      tgt_export_status = ''exported'', tgt_policy_snapshot = [], tgt_approval_snapshot = [],
      tgt_idempotency_key = ''tk1'', tgt_version = 1, tgt_created_at = 0, tgt_updated_at = 0\<rparr>"

definition sample_enrollment :: SequenceEnrollment where
  "sample_enrollment =
     \<lparr>enr_id = ''e1'', enr_sequence_id = ''s1'', enr_crm_target_id = ''t1'', enr_contact_id = ''p1'',
      enr_account_id = None, enr_status = ''active'', enr_approval_actor = ''alex'',
      enr_approval_reason = ''fit'', enr_current_step_order = 1, enr_definition_version = 1,
      enr_next_step_at = Some 0, enr_pause_reason = None, enr_policy_snapshot = [],
      enr_idempotency_key = ''ek1'', enr_version = 1, enr_created_at = 0, enr_updated_at = 0,
      enr_completed_at = None\<rparr>"

definition sample_outbound :: OutboundEmail where
  "sample_outbound =
     \<lparr>out_id = ''o1'', out_enrollment_id = ''e1'', out_sequence_step_id = ''st1'', out_contact_id = ''p1'',
      out_channel = ''email'', out_to_email = ''dana@acme.io'', out_from_email = ''prospecting@example.com'',
      out_subject = ''Hi'', out_body = ''Hello'', out_status = ''pending_approval'',
      out_provider_message_id = None, out_idempotency_key = ''sequence_email:e1:st1'',
      out_attempt_count = 0, out_last_error = None, out_retry_after_seconds = None,
      out_scheduled_at = 0, out_sent_at = None, out_created_at = 0, out_updated_at = 0\<rparr>"

definition sample_activity :: SequenceStepActivity where
  "sample_activity =
     \<lparr>act_id = ''a1'', act_enrollment_id = ''e1'', act_sequence_step_id = ''st1'',
      act_outbound_email_id = Some ''o1'', act_meeting_handoff_id = None, act_step_order = 1,
      act_channel = ''email'', act_status = ''pending_approval'', act_due_at = None, act_approved_by = None,
      act_approved_at = None, act_completed_by = None, act_completed_at = None, act_metadata_payload = [],
      act_idempotency_key = ''sequence_activity:e1:st1'', act_created_at = 0, act_updated_at = 0\<rparr>"

definition sequence_db :: db where
  "sequence_db = empty_db
     \<lparr>sequences := [sample_sequence], sequence_steps := [sample_step ''st1'' 1 ''Hi'', sample_step ''st2'' 2 ''Again''],
      crm_targets := [sample_target], contacts := [sample_contact]\<rparr>"

definition outreach_db :: db where
  "outreach_db = sequence_db
     \<lparr>sequence_enrollments := [sample_enrollment], outbound_emails := [sample_outbound],
      sequence_step_activities := [sample_activity]\<rparr>"

text \<open>The same store with a template that cannot be parsed, and two enrollments due.\<close>

definition broken_db :: db where
  "broken_db = sequence_db
     \<lparr>sequence_steps := [sample_step ''st1'' 1 ''Hi {'', sample_step ''st2'' 2 ''Again''],
      sequence_enrollments := [sample_enrollment, sample_enrollment
        \<lparr>enr_id := ''e2'', enr_idempotency_key := ''ek2'', enr_current_step_order := 2\<rparr>]\<rparr>"

definition working_sender :: SmtpSender where
  "working_sender = \<lparr>sender_identity = ''relay'', sender_send = (\<lambda>m. Inr (smtp_message_id m))\<rparr>"

definition failing_sender :: SmtpSender where
  "failing_sender = \<lparr>sender_identity = ''relay'', sender_send = (\<lambda>_. Inl (RuntimeError ''connection refused''))\<rparr>"

definition no_transport :: "SmtpSendRequest \<Rightarrow> error option" where
  "no_transport m = Some (RuntimeError ''unreachable'')"

definition sample_enroll :: SequenceEnrollmentCreateRequest where
  "sample_enroll =
     \<lparr>ecq_sequence_id = ''s1'', ecq_crm_target_id = ''t1'', ecq_contact_id = None, ecq_account_id = None,
      ecq_start_at = None, ecq_outreach_approved = True, ecq_approval_reason = ''fit'', ecq_policy_snapshot = []\<rparr>"

definition sample_step_request :: SequenceStepCreate where
  "sample_step_request =
     \<lparr>stc_step_order = None, stc_delay_seconds = 0, stc_subject_template = Some ''Hi'',
      stc_body_template = Some ''Hello'', stc_channel = EMAIL, stc_requires_approval = None,
      stc_step_metadata = []\<rparr>"

definition sample_update :: SequenceUpdateRequest where
  "sample_update =
     \<lparr>suq_name = None, suq_owner_id = None, suq_channel = None, suq_status = None,
      suq_rate_limit_policy = None, suq_steps = Some [sample_step_request], suq_expected_version = Some 1\<rparr>"

definition sample_create :: SequenceCreateRequest where
  "sample_create =
     \<lparr>scq_name = ''intro'', scq_owner_id = None, scq_channel = EMAIL, scq_rate_limit_policy = [],
      scq_steps = [sample_step_request]\<rparr>"

definition sample_unsubscribe :: InboundEmailEventCreate where
  "sample_unsubscribe =
     \<lparr>iec_event_type = UNSUBSCRIBE, iec_from_email = Some ''Dana@Acme.io'', iec_to_email = None,
      iec_message_id = Some ''m1'', iec_provider_message_id = None, iec_provider_payload = [],
      iec_occurred_at = None\<rparr>"

definition raises :: "(error + 'a) \<times> db \<Rightarrow> bool" where
  "raises out = (case out of (Inl _, _) \<Rightarrow> True | (Inr _, _) \<Rightarrow> False)"

lemma raisesE:
  assumes "raises out"
  obtains e db where "out = (Inl e, db)"
  using assms by (auto simp: raises_def split: prod.splits sum.splits)

text \<open>
  Equations for evaluation by rewriting: each continuation is a function that matches on the
  result it is given, so that it is unfolded on concrete stores only.
\<close>

definition answer_with :: "SequenceStepActivity \<Rightarrow> dict option op" where
  "answer_with a db = respond_activity a (put_activity a db)"

definition sent_event :: "env \<Rightarrow> OutboundEmail \<Rightarrow> db \<Rightarrow> db" where
  "sent_event env o' db =
     sequencing_event env EMAIL_SENT ''outbound_email'' (out_id o') (outbound_email_to_api o')
       (''email.sent:'' @ out_id o' @ '':'' @ show_int (out_attempt_count o')) (put_outbound o' db)"

fun conclude_delivery ::
  "env \<Rightarrow> string \<Rightarrow> SequenceStepActivity \<Rightarrow> SequenceEnrollment \<Rightarrow> SequenceStep \<Rightarrow> OutboundEmail
     \<Rightarrow> (error + string) \<times> db \<Rightarrow> (error + dict option) \<times> db" where
  "conclude_delivery env actor a e step o' (Inl exc, db) =
     respond_activity (failed_activity env (error_text exc) a)
       (put_enrollment (retry_enrollment env e)
          (put_activity (failed_activity env (error_text exc) a)
             (put_outbound (failed_outbound env (error_text exc) o') db)))"
| "conclude_delivery env actor a e step o' (Inr provider_id, db) =
     answer_with (sent_activity env actor a)
       (advance_enrollment env e step (sent_event env (sent_outbound env provider_id o') db))"

fun deliver_draft ::
  "env \<Rightarrow> SmtpSender \<Rightarrow> string \<Rightarrow> SequenceStepActivity \<Rightarrow> SequenceEnrollment \<Rightarrow> SequenceStep
     \<Rightarrow> (error + OutboundEmail) \<times> db \<Rightarrow> (error + dict option) \<times> db" where
  "deliver_draft env sender actor a e step (Inl err, db) = (Inl err, db)"
| "deliver_draft env sender actor a e step (Inr o', db) = deliver env sender actor a e step o' db"

lemma deliver_code [code]:
  "deliver env sender actor a e step o' db =
     conclude_delivery env actor a e step (attempted_outbound env o')
       (smtp_call sender (send_message (attempted_outbound env o')) (put_outbound (attempted_outbound env o') db))"
  by (simp add: deliver_def Let_def answer_with_def sent_event_def smtp_call_def split: sum.splits)

lemma send_approved_code [code]:
  "send_approved_body env sender activity_id actor db =
     (case get_activity activity_id db of
        None \<Rightarrow> (Inr None, db)
      | Some a \<Rightarrow>
          if act_channel a \<noteq> ''email'' then (Inl (ValueError ''activity is not an email approval''), db)
          else if act_status a \<notin> {''pending_approval'', ''approved''}
          then (Inl (ValueError (''cannot approve '' @ act_status a @ '' activity'')), db)
          else case (get_enrollment (act_enrollment_id a) db, get_step (act_sequence_step_id a) db) of
            (Some e, Some step) \<Rightarrow>
              if enr_status e \<noteq> ''active'' then (Inl (ValueError ''sequence enrollment is not active''), db)
              else (case send_checks env e step db of
                      Inl (err, db1) \<Rightarrow> (Inl err, db1)
                    | Inr (sequence, contact) \<Rightarrow>
                        deliver_draft env sender actor a e step (find_draft env a e step contact db))
          | _ \<Rightarrow> (Inl (ValueError ''activity is missing sequence context''), db))"
  by (simp add: send_approved_body_def split: option.splits sum.splits prod.splits)

lemma samples_ok:
  "constraints_ok sequence_db" "constraints_ok outreach_db" "constraints_ok broken_db" "steps_owned sequence_db"
  by code_simp+

section \<open>Sequences and enrollments\<close>

lemma suppression_checks_agree_witness:
  "evaluate_suppression_with_store example_env
      \<lparr>sck_email = Some ''Dana@Acme.io'', sck_domain = None, sck_contact_id = None, sck_channel = ''email''\<rparr> outreach_db
    = (suppression_allowed example_env (Some ''Dana@Acme.io'') None None ''email'' outreach_db, outreach_db)"
proof -
  have "env_email_str example_env ''Dana@Acme.io'' = Some ''Dana@Acme.io''" by code_simp
  from suppression_checks_agree [OF this refl _ admitted_example samples_ok(2)] show ?thesis by simp
qed

theorem enrollment_gate_witness:
  "\<exists>m db'. create_sequence_enrollment example_env sample_enroll ''alex'' ''k1'' sequence_db = (Inr m, db')
     \<and> length (sequence_enrollments db') = 1 \<and> effects db' = []"
proof -
  have "succeeds (create_sequence_enrollment example_env sample_enroll ''alex'' ''k1'' sequence_db) (\<lambda>r db'. True)"
    and new: "enrollment_with_key ''k1'' sequence_db = None" by code_simp+
  then obtain m db' where run: "create_sequence_enrollment example_env sample_enroll ''alex'' ''k1'' sequence_db = (Inr m, db')"
    by (auto elim: succeedsE)
  have "sequence_enrollments sequence_db = [] \<and> effects sequence_db = []" by code_simp
  with enrollment_gate [OF run new] run show ?thesis by auto
qed

theorem versions_frozen_witness:
  "\<exists>r db'. update_sequence example_env ''s1'' sample_update outreach_db = (Inr r, db')
     \<and> sequence_steps_of ''s1'' (Some 1) db' = sequence_steps_of ''s1'' (Some 1) outreach_db"
proof -
  have "succeeds (update_sequence example_env ''s1'' sample_update outreach_db) (\<lambda>r db'. True)"
    and s: "get_sequence ''s1'' outreach_db = Some sample_sequence"
    and v: "1 \<le> seq_definition_version sample_sequence" by code_simp+
  then obtain r db' where run: "update_sequence example_env ''s1'' sample_update outreach_db = (Inr r, db')"
    by (auto elim: succeedsE)
  from versions_frozen [OF run s disjI2 [OF v]] run show ?thesis by blast
qed

theorem scheduler_never_sends_witness:
  "effects (snd (process_due_sequence_steps example_env 50 outreach_db)) = effects outreach_db"
  using scheduler_never_sends [of example_env 50 outreach_db, OF prod.collapse [symmetric]] by blast

theorem scheduler_stops_at_error_witness:
  "\<exists>e db1 db3. due_enrollment_ids example_env 50 broken_db = (Inr [''e1'', ''e2''], db1)
     \<and> process_due_sequence_steps example_env 50 broken_db = (Inl e, db3) \<and> outbound_emails db3 = []"
proof -
  have "succeeds (due_enrollment_ids example_env 50 broken_db) (\<lambda>r db1. r = [''e1'', ''e2''] \<and> outbound_emails db1 = []
      \<and> raises (send_next_sequence_step example_env ''e1'' db1))" by code_simp
  then obtain db1 e db3 where due: "due_enrollment_ids example_env 50 broken_db = (Inr ([] @ ''e1'' # [''e2'']), db1)"
      and bad: "send_next_sequence_step example_env ''e1'' db1 = (Inl e, db3)" and none: "outbound_emails db1 = []"
    by (auto elim!: succeedsE raisesE)
  have "send_each example_env [] db1 = (Inr [], db1)" by simp
  note stop = scheduler_stops_at_error [OF due this bad]
  then have "outbound_emails db3 = outbound_emails db1"
    unfolding same_tables_def by (metis rollback_frame(5))
  with stop due none show ?thesis by auto
qed

theorem sequence_reads_back_witness:
  "\<exists>m db' i. create_sequence example_env sample_create (Some ''k1'') sequence_db = (Inr m, db')
     \<and> get_sequence_definition example_env i db' = (Inr (Some m), db')"
proof -
  have "succeeds (create_sequence example_env sample_create (Some ''k1'') sequence_db) (\<lambda>r db'. True)"
    and new: "sequence_with_key (Some ''k1'') sequence_db = None" by code_simp+
  then obtain m db' where run: "create_sequence example_env sample_create (Some ''k1'') sequence_db = (Inr m, db')"
    by (auto elim: succeedsE)
  from sequence_reads_back [OF run new samples_ok(4) admitted_example] run show ?thesis by blast
qed

section \<open>Sending and receiving mail\<close>

lemma sample_send:
  obtains m db' where
    "send_approved_sequence_email example_env no_transport (Some working_sender) ''a1'' ''alex'' outreach_db = (Inr (Some m), db')"
    and "effects db' \<noteq> []"
proof -
  have "succeeds (send_approved_sequence_email example_env no_transport (Some working_sender) ''a1'' ''alex'' outreach_db)
      (\<lambda>r db'. r \<noteq> None \<and> effects db' \<noteq> [])" by code_simp
  then show thesis using that by (auto elim!: succeedsE)
qed

lemma sample_rows:
  "get_activity ''a1'' outreach_db = Some sample_activity"
  "get_enrollment (act_enrollment_id sample_activity) outreach_db = Some sample_enrollment"
  "get_step (act_sequence_step_id sample_activity) outreach_db = Some (sample_step ''st1'' 1 ''Hi'')"
  "get_sequence (enr_sequence_id sample_enrollment) outreach_db = Some sample_sequence"
  "get_contact (enr_contact_id sample_enrollment) outreach_db = Some sample_contact"
  "effects outreach_db = []" "suppressions outreach_db = []" "inbound_with_key ''ik1'' outreach_db = None"
  by code_simp+

theorem send_gate_witness:
  "effects (snd (send_approved_sequence_email example_env no_transport (Some working_sender) ''a1'' ''alex'' outreach_db))
     = [SmtpSend \<lparr>smtp_from_email = ''prospecting@example.com'', smtp_to_email = ''dana@acme.io'', smtp_subject = ''Hi'',
          smtp_body = ''Hello'', smtp_message_id = ''<ghostrecon-o1@local>''\<rparr>]"
proof -
  obtain m db' where run: "send_approved_sequence_email example_env no_transport (Some working_sender) ''a1'' ''alex'' outreach_db
      = (Inr (Some m), db')" and "effects db' \<noteq> []" by (rule sample_send)
  moreover have "truthy_str (act_outbound_email_id sample_activity)"
    "get_outbound (str_or (act_outbound_email_id sample_activity) []) outreach_db = Some sample_outbound" by code_simp+
  ultimately show ?thesis
    using send_gate [OF run] by (auto simp: sample_rows is_draft_def sample_outbound_def)
qed

theorem daily_limits_respected_witness:
  "\<exists>m db'. send_approved_sequence_email example_env no_transport (Some working_sender) ''a1'' ''alex'' outreach_db
       = (Inr (Some m), db')
     \<and> count_of (to_domain (Some ''acme.io'')) (recently_sent example_env ''email'' db') \<le> 5"
proof -
  obtain m db' where run: "send_approved_sequence_email example_env no_transport (Some working_sender) ''a1'' ''alex'' outreach_db
      = (Inr (Some m), db')" by (rule sample_send)
  have limits:
    "daily_limit (seq_rate_limit_policy sample_sequence) ''domain_daily_limit'' (cfg_sequence_domain_daily_limit (env_settings example_env)) = Inr 5"
    "daily_limit (seq_rate_limit_policy sample_sequence) ''sender_daily_limit'' (cfg_sequence_sender_daily_limit (env_settings example_env)) = Inr 200"
    "daily_limit (seq_rate_limit_policy sample_sequence) ''channel_daily_limit'' (cfg_sequence_channel_daily_limit (env_settings example_env)) = Inr 500"
    by code_simp+
  have "domain_from_email (con_email sample_contact) = Some ''acme.io''" and "step_channel (sample_step ''st1'' 1 ''Hi'') = ''email''"
    by code_simp+
  with daily_limits_respected [OF run samples_ok(2) sample_rows(1-5) limits] run show ?thesis by auto
qed

theorem unsubscribe_stops_mail_witness:
  "\<exists>m db1 r db' err db''. process_inbound_email_event example_env sample_unsubscribe ''ik1'' outreach_db = (Inr m, db1)
     \<and> send_next_sequence_step example_env ''e1'' db1 = (Inr r, db')
     \<and> send_approved_sequence_email example_env no_transport (Some working_sender) ''a1'' ''alex'' db' = (Inl err, db'')
     \<and> effects db'' = effects db'"
proof -
  let ?step = "sample_step ''st1'' 1 ''Hi''"
  have "succeeds (process_inbound_email_event example_env sample_unsubscribe ''ik1'' outreach_db)
      (\<lambda>r db1. succeeds (send_next_sequence_step example_env ''e1'' db1)
        (\<lambda>r' db'. get_activity ''a1'' db' = Some sample_activity \<and> get_enrollment ''e1'' db' \<noteq> None
         \<and> get_step ''st1'' db' = Some ?step \<and> get_contact ''p1'' db' = Some sample_contact
         \<and> map_option enr_contact_id (get_enrollment ''e1'' db') = Some ''p1''))" by code_simp
  then obtain m db1 r db' e where run: "process_inbound_email_event example_env sample_unsubscribe ''ik1'' outreach_db = (Inr m, db1)"
    and sched: "send_next_sequence_step example_env ''e1'' db1 = (Inr r, db')"
    and rows: "get_activity ''a1'' db' = Some sample_activity" "get_enrollment (act_enrollment_id sample_activity) db' = Some e"
      "get_step (act_sequence_step_id sample_activity) db' = Some ?step"
      "get_contact (enr_contact_id e) db' = Some sample_contact"
    by (auto elim!: succeedsE simp: sample_activity_def)
  have hist: "outreach_step\<^sup>*\<^sup>* db1 db'"
    by (rule r_into_rtranclp) (rule outreach_step.enrollments [OF enrollment_step.schedule [OF sched]])
  have q: "iec_event_type sample_unsubscribe = UNSUBSCRIBE" "unsubscribe_address sample_unsubscribe \<noteq> []"
      "py_lower (payload_text (iec_provider_payload sample_unsubscribe) ''channel'' ''email'') = ''email''"
    and c: "py_lower (step_channel ?step) = ''email''"
      "py_lower (str_or (con_email sample_contact) []) = unsubscribe_address sample_unsubscribe"
    by code_simp+
  have none: "\<forall>s. active_suppression (unsubscribe_address sample_unsubscribe) ''email'' outreach_db = Some s
      \<longrightarrow> (case sup_expires_at s of None \<Rightarrow> True | Some t \<Rightarrow> t > env_now example_env)"
    by (simp add: active_suppression_def sample_rows)
  from unsubscribe_stops_mail [OF run sample_rows(8) q none hist rows(1-3) c(1) rows(4) c(2), of no_transport "Some working_sender" "''alex''"]
    run sched show ?thesis by blast
qed

definition expired_suppression :: Suppression where
  "expired_suppression =
     \<lparr>sup_id = ''x1'', sup_email = Some ''dana@acme.io'', sup_domain = None, sup_contact_id = None,
      sup_channel = ''email'', sup_target_type = None, sup_target_id = None, sup_reason = ''quarter end'',
      sup_source = ''governance'', sup_active = True, sup_expires_at = Some 1, sup_policy_snapshot = [],
      sup_idempotency_key = None, sup_created_at = 0\<rparr>"

theorem unsubscribe_keeps_expired_witness:
  "\<exists>m db' r. process_inbound_email_event example_env sample_unsubscribe ''ik1''
        (outreach_db\<lparr>suppressions := [expired_suppression]\<rparr>) = (Inr m, db')
     \<and> suppression_allowed example_env (Some ''dana@acme.io'') None None ''email'' db' = Inr r \<and> scx_allowed r"
proof -
  let ?db = "outreach_db\<lparr>suppressions := [expired_suppression]\<rparr>"
  have "succeeds (process_inbound_email_event example_env sample_unsubscribe ''ik1'' ?db) (\<lambda>r db'. True)"
    and old: "suppression_allowed example_env (Some ''dana@acme.io'') None None ''email'' ?db = Inr \<lparr>scx_allowed = True, scx_reason = None\<rparr>"
    by code_simp+
  then obtain m db' where run: "process_inbound_email_event example_env sample_unsubscribe ''ik1'' ?db = (Inr m, db')"
    by (auto elim!: succeedsE)
  have new: "inbound_with_key ''ik1'' ?db = None" and q: "iec_event_type sample_unsubscribe = UNSUBSCRIBE"
      "unsubscribe_address sample_unsubscribe \<noteq> []"
    and s: "active_suppression (unsubscribe_address sample_unsubscribe)
           (payload_text (iec_provider_payload sample_unsubscribe) ''channel'' ''email'') ?db = Some expired_suppression"
    by code_simp+
  from unsubscribe_keeps_expired [OF run new q s, of example_env "Some ''dana@acme.io''" None None "''email''"] run old
  show ?thesis by auto
qed

theorem inbound_counts_once_witness:
  "\<exists>m db'. process_inbound_email_event example_env sample_unsubscribe ''ik1'' outreach_db = (Inr m, db')
     \<and> process_inbound_email_event example_env (sample_unsubscribe\<lparr>iec_event_type := REPLY\<rparr>) ''ik1'' db' = (Inr m, db')"
proof -
  have "succeeds (process_inbound_email_event example_env sample_unsubscribe ''ik1'' outreach_db)
      (\<lambda>r db'. suppressions db' \<noteq> [])" by code_simp
  then obtain m db' where run: "process_inbound_email_event example_env sample_unsubscribe ''ik1'' outreach_db = (Inr m, db')"
    and "suppressions db' \<noteq> []" by (auto elim!: succeedsE)
  then have "db' \<noteq> outreach_db" using sample_rows(7) by auto
  from inbound_counts_once [OF run this samples_ok(2) admitted_example refl] run show ?thesis by blast
qed

theorem send_failure_is_final_witness:
  "\<exists>m db'. send_approved_sequence_email example_env no_transport (Some failing_sender) ''a1'' ''alex'' outreach_db
       = (Inr (Some m), db')
     \<and> send_approved_sequence_email example_env no_transport (Some working_sender) ''a1'' ''alex'' db'
       = (Inl (ValueError ''cannot approve failed activity''), db')"
proof -
  have "succeeds (send_approved_sequence_email example_env no_transport (Some failing_sender) ''a1'' ''alex'' outreach_db)
      (\<lambda>r db'. r \<noteq> None)"
    and s1: "resolve_sender example_env no_transport (Some failing_sender) = Inr failing_sender"
    and s2: "resolve_sender example_env no_transport (Some working_sender) = Inr working_sender"
    by (code_simp, simp_all add: resolve_sender_def assert_adapter_allowed_def example_env_def example_settings_def strict_runtime_def)
  then obtain m db' where run: "send_approved_sequence_email example_env no_transport (Some failing_sender) ''a1'' ''alex'' outreach_db
      = (Inr (Some m), db')" by (auto elim!: succeedsE)
  have "\<forall>q. \<exists>err. sender_send failing_sender q = Inl err" by (simp add: failing_sender_def)
  from send_failure_is_final [OF run s1 this samples_ok(2) admitted_example s2] run show ?thesis by blast
qed

section \<open>The life of an enrollment\<close>

definition canceled_db :: db where
  "canceled_db = outreach_db\<lparr>sequence_enrollments := [sample_enrollment\<lparr>enr_status := ''canceled''\<rparr>]\<rparr>"

lemma canceled_rows:
  "get_enrollment ''e1'' canceled_db = Some (sample_enrollment\<lparr>enr_status := ''canceled''\<rparr>)"
  "enr_status (sample_enrollment\<lparr>enr_status := ''canceled''\<rparr>) \<in> TERMINAL_ENROLLMENT_STATUSES"
  by code_simp+

lemma sample_history: "enrollment_step\<^sup>*\<^sup>* db (snd (resume_sequence_enrollment example_env ''e1'' db))"
  by (rule r_into_rtranclp) (rule enrollment_step.resume [OF prod.collapse [symmetric]])

theorem enrollment_lifecycle_witness:
  "lifecycle_step\<^sup>*\<^sup>* (statuses_of outreach_db)
     (statuses_of (snd (resume_sequence_enrollment example_env ''e1'' outreach_db)))"
  using enrollment_lifecycle [OF sample_history] .

theorem terminal_is_final_witness:
  "\<exists>e'. get_enrollment ''e1'' (snd (resume_sequence_enrollment example_env ''e1'' canceled_db)) = Some e'
     \<and> enr_status e' = ''canceled'' \<and> \<not> is_due example_env e'"
  using terminal_is_final [OF sample_history canceled_rows, of example_env] by auto

theorem enrollment_statuses_typed_witness:
  "\<exists>e. get_enrollment ''e1'' (snd (resume_sequence_enrollment example_env ''e1'' outreach_db)) = Some e
     \<and> enr_status e \<in> SequenceEnrollmentStatuses"
proof -
  have "get_enrollment ''e1'' (snd (resume_sequence_enrollment example_env ''e1'' outreach_db)) \<noteq> None" by code_simp
  then obtain e where e: "get_enrollment ''e1'' (snd (resume_sequence_enrollment example_env ''e1'' outreach_db)) = Some e" by blast
  have "\<forall>x \<in> set (sequence_enrollments outreach_db). enr_status x \<in> SequenceEnrollmentStatuses" by code_simp
  then have "\<forall>j x. get_enrollment j outreach_db = Some x \<longrightarrow> enr_status x \<in> SequenceEnrollmentStatuses"
    by (auto simp: get_enrollment_def dest: row_get_mem)
  from enrollment_statuses_typed [OF sample_history this e] e show ?thesis by blast
qed

definition sample_bounce :: InboundEmailEventCreate where
  "sample_bounce = sample_unsubscribe\<lparr>iec_event_type := BOUNCE, iec_from_email := Some ''dana@acme.io''\<rparr>"

theorem bounce_reopens_witness:
  "\<exists>m db' m' db''. process_inbound_email_event example_env sample_bounce ''ik1'' canceled_db = (Inr m, db')
     \<and> resume_sequence_enrollment example_env ''e1'' db' = (Inr (Some m'), db'')
     \<and> statuses_of canceled_db ''e1'' = Some ''canceled'' \<and> statuses_of db'' ''e1'' = Some ''active''"
proof -
  let ?e = "sample_enrollment\<lparr>enr_status := ''canceled''\<rparr>"
  have "succeeds (process_inbound_email_event example_env sample_bounce ''ik1'' canceled_db)
      (\<lambda>m db'. succeeds (resume_sequence_enrollment example_env ''e1'' db') (\<lambda>r db''. r \<noteq> None))"
    and new: "inbound_with_key ''ik1'' canceled_db = None" and b: "iec_event_type sample_bounce = BOUNCE"
    and e: "inbound_enrollment sample_bounce canceled_db = Some ?e" and i: "enr_id ?e = ''e1''"
    by code_simp+
  then obtain m db' m' db'' where run: "process_inbound_email_event example_env sample_bounce ''ik1'' canceled_db = (Inr m, db')"
      and resume: "resume_sequence_enrollment example_env (enr_id ?e) db' = (Inr (Some m'), db'')"
    by (auto elim!: succeedsE)
  have "statuses_of canceled_db ''e1'' = Some ''canceled''" by code_simp
  with bounce_reopens [OF run new b e resume] run resume show ?thesis by (auto simp: i)
qed

definition task_db :: db where
  "task_db = canceled_db\<lparr>sequence_step_activities :=
     [sample_activity\<lparr>act_status := ''pending'', act_sequence_step_id := ''st2''\<rparr>]\<rparr>"

theorem task_completion_overwrites_witness:
  "\<exists>m db'. complete_sequence_activity example_env ''a1'' \<lparr>saq_reason = None, saq_metadata = []\<rparr> ''alex'' task_db
       = (Inr (Some m), db')
     \<and> statuses_of task_db ''e1'' = Some ''canceled'' \<and> statuses_of db' ''e1'' = Some ''completed''"
proof -
  let ?a = "sample_activity\<lparr>act_status := ''pending'', act_sequence_step_id := ''st2''\<rparr>"
  let ?e = "sample_enrollment\<lparr>enr_status := ''canceled''\<rparr>"
  let ?s = "sample_step ''st2'' 2 ''Again''"
  have "succeeds (complete_sequence_activity example_env ''a1'' \<lparr>saq_reason = None, saq_metadata = []\<rparr> ''alex'' task_db)
      (\<lambda>r db'. r \<noteq> None)"
    and rows: "get_activity ''a1'' task_db = Some ?a" "get_enrollment (act_enrollment_id ?a) task_db = Some ?e"
      "get_step (act_sequence_step_id ?a) task_db = Some ?s"
    and last: "\<forall>s \<in> set (sequence_steps_of (enr_sequence_id ?e) (Some (enr_definition_version ?e)) task_db).
           step_step_order s \<le> step_step_order ?s"
    and i: "act_enrollment_id ?a = ''e1''"
    by code_simp+
  then obtain m db' where run: "complete_sequence_activity example_env ''a1'' \<lparr>saq_reason = None, saq_metadata = []\<rparr> ''alex'' task_db
      = (Inr (Some m), db')" by (auto elim!: succeedsE)
  have "statuses_of task_db ''e1'' = Some ''canceled''" by code_simp
  with task_completion_overwrites [OF run rows last] run show ?thesis by (auto simp: i)
qed

section \<open>Once, and to whom\<close>

theorem mail_sent_once_witness:
  "\<exists>m db1 err. send_approved_sequence_email example_env no_transport (Some working_sender) ''a1'' ''alex'' outreach_db = (Inr (Some m), db1)
     \<and> send_approved_sequence_email example_env no_transport (Some working_sender) ''a1'' ''blake''
         (snd (send_next_sequence_step example_env ''e1'' db1)) = (Inl err, snd (send_next_sequence_step example_env ''e1'' db1))"
proof -
  obtain m db1 where run: "send_approved_sequence_email example_env no_transport (Some working_sender) ''a1'' ''alex'' outreach_db
      = (Inr (Some m), db1)" by (rule sample_send)
  have "outreach_step\<^sup>*\<^sup>* db1 (snd (send_next_sequence_step example_env ''e1'' db1))"
    by (rule r_into_rtranclp) (rule outreach_step.enrollments [OF enrollment_step.schedule [OF prod.collapse [symmetric]]])
  from mail_sent_once [OF run samples_ok(2) this] run show ?thesis by blast
qed

text \<open>The contact has a new address; the draft was prepared for the old one, which is suppressed.\<close>

definition moved_contact :: Contact where
  "moved_contact = sample_contact\<lparr>con_email := Some ''dana@newco.io''\<rparr>"

definition moved_db :: db where
  "moved_db = outreach_db\<lparr>contacts := [moved_contact], suppressions := [expired_suppression\<lparr>sup_expires_at := None\<rparr>]\<rparr>"

theorem stale_draft_mails_suppressed_witness:
  "\<exists>m. effects (snd (send_approved_sequence_email example_env no_transport (Some working_sender) ''a1'' ''alex'' moved_db)) = [SmtpSend m]
     \<and> smtp_to_email m = ''dana@acme.io'' \<and> sup_email (hd (suppressions moved_db)) = Some ''dana@acme.io''"
proof -
  let ?row = "expired_suppression\<lparr>sup_expires_at := None\<rparr>" and ?step = "sample_step ''st1'' 1 ''Hi''"
  have ok: "sendable example_env ''a1'' moved_db sample_activity sample_enrollment ?step sample_sequence moved_contact"
      "truthy_str (act_outbound_email_id sample_activity)"
      "get_outbound (str_or (act_outbound_email_id sample_activity) []) moved_db = Some sample_outbound"
      "?row \<in> set (suppressions moved_db)" "sup_email ?row = Some (out_to_email sample_outbound)"
      "suppression_in_force (env_now example_env) (py_lower (step_channel ?step)) ?row"
    and facts: "effects moved_db = []" "out_to_email sample_outbound = ''dana@acme.io''"
      "sup_email (hd (suppressions moved_db)) = Some ''dana@acme.io''"
    by code_simp+
  have sender: "resolve_sender example_env no_transport (Some working_sender) = Inr working_sender"
    by (simp add: resolve_sender_def assert_adapter_allowed_def example_env_def example_settings_def strict_runtime_def)
  from stale_draft_mails_suppressed [OF ok admitted_example sender, of "''alex''"] facts show ?thesis by auto
qed

end
