(* ===== verification/Crm_Export.thy ===== *)
theory Crm_Export
  imports Outreach
begin

text \<open>
  Export of approved targets to the CRM (\<open>services/crm_exports\<close> and the client of
  \<open>services/crm_attio.py\<close>).  \<open>start_crm_export\<close> records a batch with one item for each target in a
  first session; \<open>process_crm_export_batch\<close> then calls the provider for every pending item in
  a second one.  A call to the provider is an entry of the effects, which no roll-back takes
  back.  What the provider answers is an argument of the model: it may depend on the plan and
  on how many calls were made before, and may be any error.
\<close>

section \<open>Names and requests\<close>

definition CRM_SERVICE_NAME :: string where
  "CRM_SERVICE_NAME = ''crm-service''"

definition EXPORTABLE_TARGET_STATUS :: string where
  "EXPORTABLE_TARGET_STATUS = ''pending_export''"

definition EXPORTABLE_EXPORT_STATUSES :: "string set" where
  "EXPORTABLE_EXPORT_STATUSES = {''not_exported'', ''failed_retryable''}"

definition SUCCESS_ITEM_STATUSES :: "string set" where
  "SUCCESS_ITEM_STATUSES = {''succeeded'', ''reconciled''}"

definition FAILED_ITEM_STATUSES :: "string set" where
  "FAILED_ITEM_STATUSES = {''failed_retryable'', ''failed_terminal'', ''skipped_policy''}"

definition CrmExportBatchStatuses :: "string set" where
  "CrmExportBatchStatuses =
     {''pending'', ''running'', ''partial'', ''succeeded'', ''failed'', ''reconciling''}"

definition CrmExportItemStatuses :: "string set" where
  "CrmExportItemStatuses =
     {''pending'', ''running'', ''succeeded'', ''failed_retryable'', ''failed_terminal'',
      ''skipped_policy'', ''reconciled''}"

definition CrmExportOperations :: "string set" where
  "CrmExportOperations = {''upsert_record'', ''add_to_list''}"

record CrmExportCreateRequest =
  xcr_crm_target_ids :: "string list"
  xcr_provider :: string
  xcr_workspace_id :: "string option"
  xcr_reason :: "string option"

record CrmExportRetryRequest =
  xrr_item_ids :: "string list"

text \<open>\<open>json.dumps(sorted(target_ids), separators=(",", ":"))\<close>, hashed.\<close>

definition selection_hash :: "env \<Rightarrow> string list \<Rightarrow> string" where
  "selection_hash env target_ids = env_sha256 env (dumps (JArr (map JStr (sort target_ids))))"

section \<open>Plans\<close>

definition target_aliases :: "(string \<times> string) list" where
  "target_aliases =
     [(''event'', ''cyber_event''), (''cyber_event'', ''cyber_event''),
      (''incident'', ''security_incident''), (''security_incident'', ''security_incident''),
      (''account'', ''company''), (''company'', ''company''), (''organization'', ''company''),
      (''affected_company'', ''company''), (''contact'', ''contact''),
      (''incident_contact'', ''contact''), (''email_candidate'', ''email_candidate''),
      (''event_participant'', ''event_participant'')]"

definition normalize_target_type :: "string \<Rightarrow> string" where
  "normalize_target_type target_type =
     (case map_of target_aliases target_type of None \<Rightarrow> target_type | Some n \<Rightarrow> n)"

definition provider_object_for_type :: "string \<Rightarrow> string" where
  "provider_object_for_type target_type =
     (let normalized = normalize_target_type target_type
      in if normalized = ''cyber_event'' then ''cyber_events''
         else if normalized = ''security_incident'' then ''security_incidents''
         else if normalized = ''company'' then ''companies''
         else ''people'')"

fun unique_from :: "string list \<Rightarrow> string list \<Rightarrow> string list" where
  "unique_from seen [] = []"
| "unique_from seen (v # vs) =
     (if v \<in> set seen then unique_from seen vs else v # unique_from (v # seen) vs)"

definition unique_ordered :: "string list \<Rightarrow> string list" where
  "unique_ordered values = unique_from [] values"

definition target_lineage :: "CrmTarget \<Rightarrow> dict" where
  "target_lineage t =
     [(''crm_target_id'', JStr (tgt_id t)), (''review_candidate_id'', opt_str (tgt_review_candidate_id t)),
      (''review_decision_id'', opt_str (tgt_review_decision_id t)),
      (''origin_type'', opt_str (tgt_origin_type t)), (''origin_id'', opt_str (tgt_origin_id t)),
      (''source_definition_id'', opt_str (tgt_source_definition_id t)),
      (''source_item_ids'', JArr (tgt_source_item_ids t))]"

definition iso_or_none :: "int option \<Rightarrow> json" where
  "iso_or_none t = (case t of None \<Rightarrow> JNull | Some v \<Rightarrow> JStr (isoformat v))"

definition make_plan ::
  "CrmTarget \<Rightarrow> string \<Rightarrow> string \<Rightarrow> string \<Rightarrow> dict \<Rightarrow> string \<Rightarrow> CrmExportPlan" where
  "make_plan t provider_object match_key matching_attribute values list_slug =
     \<lparr>pln_target_type = tgt_target_type t, pln_target_id = tgt_target_id t,
      pln_provider_object = provider_object, pln_stable_match_key = match_key,
      pln_matching_attribute = matching_attribute, pln_values = values,
      pln_list_api_slug = Some list_slug,
      pln_list_entry_values = [(''export_status'', JStr ''approved'')]\<rparr>"

text \<open>What a person plan is built from: address, name, title, link and list.\<close>

definition person_source ::
  "Settings \<Rightarrow> CrmTarget \<Rightarrow> db
     \<Rightarrow> error + string option \<times> string option \<times> string option \<times> string option \<times> string" where
  "person_source cfg t db =
     (let target_type = normalize_target_type (tgt_target_type t);
          contacts_list = cfg_attio_incident_contacts_list_api_slug cfg;
          skip = Inl (PolicySkip ''people export requires a verified business email'')
      in if target_type = ''email_candidate'' then
           (case get_email_candidate (tgt_target_id t) db of
              None \<Rightarrow> Inl (ValueError ''email-candidate target does not exist'')
            | Some c \<Rightarrow>
                if ecr_verification_status c \<noteq> ''verified'' then skip
                else (let contact = (if truthy_str (ecr_contact_id c)
                                     then get_contact (str_or (ecr_contact_id c) []) db else None)
                      in Inr (Some (ecr_email c), map_option con_full_name contact,
                              Option.bind contact con_title, Option.bind contact con_source_url,
                              contacts_list)))
         else if target_type = ''contact'' then
           (case get_contact (tgt_target_id t) db of
              None \<Rightarrow> Inl (ValueError ''contact target does not exist'')
            | Some c \<Rightarrow>
                if \<not> truthy_str (con_email c) \<or> con_email_status c \<notin> {None, Some ''verified''} then skip
                else Inr (con_email c, Some (con_full_name c), con_title c, con_source_url c, contacts_list))
         else if target_type = ''event_participant'' then
           (case get_participant (tgt_target_id t) db of
              None \<Rightarrow> Inl (ValueError ''event-participant target does not exist'')
            | Some p \<Rightarrow>
                if \<not> evp_crm_export_allowed p
                then Inl (PolicySkip ''participant source policy does not allow CRM export'')
                else Inr (None, Some (evp_published_name p), evp_published_role p, evp_profile_url p,
                          cfg_attio_event_participants_list_api_slug cfg))
         else Inl (ValueError (''unsupported people export target type '' @ repr_str (tgt_target_type t))))"

definition person_plan :: "Settings \<Rightarrow> CrmTarget \<Rightarrow> db \<Rightarrow> error + CrmExportPlan" where
  "person_plan cfg t db =
     (case person_source cfg t db of
        Inl e \<Rightarrow> Inl e
      | Inr (email, full_name, title, source_url, list_slug) \<Rightarrow>
          (let address = py_lower (str_or email []);
               values = [(''ghostrecon_id'', JStr (tgt_target_id t)),
                         (''name'', JStr (str_or full_name (tgt_target_id t))),
                         (''job_title'', opt_str title), (''source_url'', opt_str source_url),
                         (''source_lineage'', JObj (target_lineage t))]
           in Inr (if truthy_str email
                   then make_plan t ''people'' (''email:'' @ address) ''email_addresses''
                          (values @ [(''email_addresses'', JArr [JObj [(''email_address'', JStr address)]])])
                          list_slug
                   else make_plan t ''people'' (''ghostrecon_person:'' @ tgt_id t) ''ghostrecon_id''
                          values list_slug)))"

definition plan_for_target :: "Settings \<Rightarrow> CrmTarget \<Rightarrow> db \<Rightarrow> error + CrmExportPlan" where
  "plan_for_target cfg t db =
     (let target_type = normalize_target_type (tgt_target_type t)
      in if target_type = ''cyber_event'' then
           (case get_cyber_event (tgt_target_id t) db of
              None \<Rightarrow> Inl (ValueError ''event target does not exist'')
            | Some e \<Rightarrow>
                Inr (make_plan t ''cyber_events'' (''ghostrecon_event:'' @ evt_id e) ''ghostrecon_id''
                  [(''ghostrecon_id'', JStr (evt_id e)), (''name'', JStr (evt_name e)),
                   (''event_series_key'', JStr (evt_event_series_key e)),
                   (''starts_at_utc'', iso_or_none (evt_starts_at_utc e)),
                   (''country'', opt_str (evt_country e)), (''source_lineage'', JObj (target_lineage t))]
                  (cfg_attio_events_list_api_slug cfg)))
         else if target_type = ''security_incident'' then
           (case get_incident (tgt_target_id t) db of
              None \<Rightarrow> Inl (ValueError ''incident target does not exist'')
            | Some i \<Rightarrow>
                Inr (make_plan t ''security_incidents'' (''ghostrecon_incident:'' @ inc_id i) ''ghostrecon_id''
                  [(''ghostrecon_id'', JStr (inc_id i)), (''title'', JStr (inc_title i)),
                   (''status'', JStr (inc_status i)), (''attack_vector'', opt_str (inc_attack_vector i)),
                   (''affected_companies'', JArr (inc_affected_companies i)),
                   (''evidence_source_item_ids'', JArr (inc_evidence_source_item_ids i)),
                   (''source_lineage'', JObj (target_lineage t))]
                  (cfg_attio_incidents_list_api_slug cfg)))
         else if target_type = ''company'' then
           (case get_account (tgt_target_id t) db of
              None \<Rightarrow> Inl (ValueError ''company target does not exist'')
            | Some a \<Rightarrow>
                if acc_domain a = [] then Inl (PolicySkip ''company export requires a stable domain'')
                else Inr (make_plan t ''companies'' (''domain:'' @ py_lower (acc_domain a)) ''domains''
                  [(''name'', JStr (acc_company_name a)),
                   (''domains'', JArr [JObj [(''domain'', JStr (py_lower (acc_domain a)))]]),
                   (''ghostrecon_id'', JStr (acc_id a)), (''source_lineage'', JObj (target_lineage t))]
                  (cfg_attio_companies_list_api_slug cfg)))
         else if target_type \<in> {''contact'', ''email_candidate'', ''event_participant'', ''incident_contact''}
         then person_plan cfg t db
         else Inl (ValueError (''unsupported CRM export target type '' @ repr_str (tgt_target_type t))))"

section \<open>Clients\<close>

text \<open>The n-th call of a client; the calls made so far are counted in the effects.\<close>

record CrmClient =
  client_identity :: string
  client_export :: "nat \<Rightarrow> CrmExportPlan \<Rightarrow> error + CrmExportResult"
  client_sync :: "nat \<Rightarrow> CrmSyncPlan \<Rightarrow> error + CrmExportResult"

definition optional_str :: "json \<Rightarrow> string option" where
  "optional_str v = (case v of JStr s \<Rightarrow> (if s = [] then None else Some s) | _ \<Rightarrow> None)"

definition payload_data :: "dict \<Rightarrow> dict" where
  "payload_data payload = (case dict_get payload ''data'' of JObj d \<Rightarrow> d | _ \<Rightarrow> payload)"

definition object_or_empty :: "json \<Rightarrow> dict" where
  "object_or_empty v = (case v of JObj d \<Rightarrow> d | _ \<Rightarrow> [])"

definition record_id :: "dict \<Rightarrow> error + string" where
  "record_id payload =
     (let data = payload_data payload
      in case optional_str (dict_get (object_or_empty (dict_get data ''id'')) ''record_id'') of
           Some r \<Rightarrow> Inr r
         | None \<Rightarrow>
             (case optional_str (dict_get data ''record_id'') of
                Some r \<Rightarrow> Inr r
              | None \<Rightarrow> Inl (CrmProviderError ''Attio response did not include a record ID'' True None)))"

text \<open>\<open>AttioCrmClient._upsert_plan\<close> over \<open>AttioClient.request\<close>, which is the parameter \<open>http\<close>: method,
  path and body to the response or the error it raises.\<close>

definition entry_ids :: "dict \<Rightarrow> string option \<times> string option" where
  "entry_ids entry =
     (let data = payload_data entry; ids = object_or_empty (dict_get data ''id'');
          pick = (\<lambda>k. case optional_str (dict_get ids k) of
                        Some s \<Rightarrow> Some s | None \<Rightarrow> optional_str (dict_get data k))
      in (pick ''list_id'', pick ''entry_id''))"

definition upsert_plan ::
  "(string \<Rightarrow> string \<Rightarrow> dict \<Rightarrow> error + dict) \<Rightarrow> CrmExportPlan \<Rightarrow> error + CrmExportResult" where
  "upsert_plan http p =
     (case http ''PUT'' (''/v2/objects/'' @ pln_provider_object p @ ''/records'')
             [(''data'', JObj [(''values'', JObj (pln_values p))]),
              (''matching_attribute'', JStr (pln_matching_attribute p))] of
        Inl e \<Rightarrow> Inl e
      | Inr record \<Rightarrow>
          (case record_id record of
             Inl e \<Rightarrow> Inl e
           | Inr r \<Rightarrow>
               (let slug = str_or (pln_list_api_slug p) []
                in if slug = [] then
                     Inr \<lparr>res_provider_record_id = r, res_provider_list_id = None,
                          res_provider_list_entry_id = None,
                          res_raw_response = [(''record'', JObj record)]\<rparr>
                   else case http ''PUT'' (''/v2/lists/'' @ slug @ ''/entries'')
                               [(''data'', JObj [(''parent_record_id'', JStr r),
                                  (''parent_object'', JStr (pln_provider_object p)),
                                  (''entry_values'', JObj (pln_list_entry_values p))])] of
                          Inl e \<Rightarrow> Inl e
                        | Inr entry \<Rightarrow>
                            Inr \<lparr>res_provider_record_id = r,
                                 res_provider_list_id = fst (entry_ids entry),
                                 res_provider_list_entry_id = snd (entry_ids entry),
                                 res_raw_response = [(''record'', JObj record), (''entry'', JObj entry)]\<rparr>)))"

text \<open>Both kinds of plan are read through the attributes they share.\<close>

definition plan_of_sync :: "CrmSyncPlan \<Rightarrow> CrmExportPlan" where
  "plan_of_sync p =
     \<lparr>pln_target_type = syn_sync_type p, pln_target_id = syn_target_id p, pln_provider_object = syn_provider_object p,
      pln_stable_match_key = syn_stable_match_key p, pln_matching_attribute = syn_matching_attribute p,
      pln_values = syn_values p, pln_list_api_slug = syn_list_api_slug p,
      pln_list_entry_values = syn_list_entry_values p\<rparr>"

definition attio_client ::
  "Settings \<Rightarrow> (nat \<Rightarrow> string \<Rightarrow> string \<Rightarrow> dict \<Rightarrow> error + dict) \<Rightarrow> error + CrmClient" where
  "attio_client cfg http =
     (if str_or (cfg_attio_access_token cfg) [] = []
      then Inl (ValueError ''GHOSTRECON_ATTIO_ACCESS_TOKEN is required for Attio API calls'')
      else Inr \<lparr>client_identity = ''AttioCrmClient ghostrecon.services.crm_attio  '',
                client_export = (\<lambda>n. upsert_plan (http n)),
                client_sync = (\<lambda>n p. upsert_plan (http n) (plan_of_sync p))\<rparr>)"

definition demo_result :: "env \<Rightarrow> CrmExportPlan \<Rightarrow> CrmExportResult" where
  "demo_result env p =
     (let digest = env_sha256 env (pln_provider_object p @ '':'' @ pln_stable_match_key p);
          slug = str_or (pln_list_api_slug p) []
      in \<lparr>res_provider_record_id = ''demo-'' @ pln_provider_object p @ ''-'' @ take 12 digest,
          res_provider_list_id = (if slug = [] then None else Some (''demo-list-'' @ slug)),
          res_provider_list_entry_id =
            (if slug = [] then None else Some (''demo-entry-'' @ take 12 (drop 12 digest))),
          res_raw_response = [(''provider'', JStr ''local-demo''),
            (''stable_match_key'', JStr (pln_stable_match_key p))]\<rparr>)"

definition demo_client :: "env \<Rightarrow> CrmClient" where
  "demo_client env =
     \<lparr>client_identity = ''LocalDemoCrmClient ghostrecon.services.crm_exports.clients  '',
      client_export = (\<lambda>_ p. Inr (demo_result env p)),
      client_sync = (\<lambda>_ p. Inr (demo_result env (plan_of_sync p)))\<rparr>"

definition allowed_client :: "env \<Rightarrow> CrmClient \<Rightarrow> error + CrmClient" where
  "allowed_client env c =
     (case assert_adapter_allowed (env_settings env) (client_identity c) ''crm_provider'' of
        Some e \<Rightarrow> Inl e
      | None \<Rightarrow> Inr c)"

definition crm_client_for_settings ::
  "env \<Rightarrow> (nat \<Rightarrow> string \<Rightarrow> string \<Rightarrow> dict \<Rightarrow> error + dict) \<Rightarrow> error + CrmClient" where
  "crm_client_for_settings env http =
     (case (case cfg_crm_provider (env_settings env) of
              ATTIO \<Rightarrow> attio_client (env_settings env) http
            | LOCAL_DEMO \<Rightarrow> Inr (demo_client env)
            | CRM_DISABLED \<Rightarrow> Inl (ValueError ''CRM provider is disabled'')) of
        Inl e \<Rightarrow> Inl e
      | Inr c \<Rightarrow> allowed_client env c)"

text \<open>\<open>client or _crm_client_for_settings(resolved)\<close>, then the adapter check.\<close>

definition resolve_client ::
  "env \<Rightarrow> (nat \<Rightarrow> string \<Rightarrow> string \<Rightarrow> dict \<Rightarrow> error + dict) \<Rightarrow> CrmClient option \<Rightarrow> error + CrmClient" where
  "resolve_client env http given =
     (case (case given of Some c \<Rightarrow> Inr c | None \<Rightarrow> crm_client_for_settings env http) of
        Inl e \<Rightarrow> Inl e
      | Inr c \<Rightarrow> allowed_client env c)"

section \<open>Serializers\<close>

definition crm_export_item_to_model :: "CrmExportItem \<Rightarrow> error + dict" where
  "crm_export_item_to_model i =
     (if itm_operation i \<notin> CrmExportOperations \<or> itm_status i \<notin> CrmExportItemStatuses
      then Inl ValidationError
      else Inr
        [(''id'', JStr (itm_id i)), (''batch_id'', JStr (itm_batch_id i)),
         (''crm_target_id'', JStr (itm_crm_target_id i)), (''target_type'', JStr (itm_target_type i)),
         (''target_id'', JStr (itm_target_id i)), (''operation'', JStr (itm_operation i)),
         (''dependency_item_ids'', JArr (itm_dependency_item_ids i)),
         (''provider_object'', JStr (itm_provider_object i)),
         (''provider_record_id'', opt_str (itm_provider_record_id i)),
         (''provider_list_id'', opt_str (itm_provider_list_id i)),
         (''provider_list_entry_id'', opt_str (itm_provider_list_entry_id i)),
         (''stable_match_key'', JStr (itm_stable_match_key i)), (''status'', JStr (itm_status i)),
         (''attempt_count'', JInt (itm_attempt_count i)), (''last_error'', opt_str (itm_last_error i)),
         (''retry_after_seconds'', opt_int (itm_retry_after_seconds i)),
         (''reconciliation_state'', JStr (itm_reconciliation_state i)),
         (''created_at'', JTime (itm_created_at i)), (''updated_at'', JTime (itm_updated_at i))])"

definition crm_export_batch_to_model :: "CrmExportBatch \<Rightarrow> CrmExportItem list \<Rightarrow> error + dict" where
  "crm_export_batch_to_model b items =
     (case collect (map crm_export_item_to_model items) of
        Inl e \<Rightarrow> Inl e
      | Inr models \<Rightarrow>
          if bat_status b \<notin> CrmExportBatchStatuses then Inl ValidationError
          else Inr
            [(''id'', JStr (bat_id b)), (''provider'', JStr (bat_provider b)),
             (''workspace_id'', opt_str (bat_workspace_id b)),
             (''requested_by'', JStr (bat_requested_by b)), (''status'', JStr (bat_status b)),
             (''crm_target_ids'', JArr (bat_crm_target_ids b)),
             (''selection_hash'', JStr (bat_selection_hash b)),
             (''idempotency_key'', JStr (bat_idempotency_key b)), (''counts'', JObj (bat_counts b)),
             (''reconciliation_summary'', JObj (bat_reconciliation_summary b)),
             (''started_at'', opt_time (bat_started_at b)),
             (''completed_at'', opt_time (bat_completed_at b)),
             (''created_at'', JTime (bat_created_at b)), (''updated_at'', JTime (bat_updated_at b)),
             (''items'', JArr (map JObj models))])"

section \<open>Batches and items\<close>

definition batch_with_key :: "string \<Rightarrow> db \<Rightarrow> CrmExportBatch option" where
  "batch_with_key key db = List.find (\<lambda>b. bat_idempotency_key b = key) (crm_export_batches db)"

definition batch_items :: "string \<Rightarrow> db \<Rightarrow> CrmExportItem list" where
  "batch_items batch_id db = sort_key itm_id (filter (\<lambda>i. itm_batch_id i = batch_id) (crm_export_items db))"

definition load_targets :: "string list \<Rightarrow> db \<Rightarrow> CrmTarget list" where
  "load_targets target_ids db = filter (\<lambda>t. tgt_id t \<in> set target_ids) (crm_targets db)"

definition exportable_error :: "CrmTarget \<Rightarrow> error option" where
  "exportable_error t =
     (if tgt_status t \<noteq> EXPORTABLE_TARGET_STATUS
      then Some (ValueError (''crm target '' @ tgt_id t @ '' is not pending export''))
      else if tgt_export_status t \<notin> EXPORTABLE_EXPORT_STATUSES
      then Some (ValueError (''crm target '' @ tgt_id t @ '' has export status '' @ tgt_export_status t))
      else None)"

fun first_error :: "('a \<Rightarrow> error option) \<Rightarrow> 'a list \<Rightarrow> error option" where
  "first_error f [] = None"
| "first_error f (x # xs) = (case f x of None \<Rightarrow> first_error f xs | Some e \<Rightarrow> Some e)"

definition require_exportable_targets :: "string list \<Rightarrow> CrmTarget list \<Rightarrow> error option" where
  "require_exportable_targets target_ids targets =
     (case first_error (\<lambda>i. if row_get tgt_id i targets = None
                            then Some (ValueError (''crm target not found: '' @ i)) else None) target_ids of
        Some e \<Rightarrow> Some e
      | None \<Rightarrow> first_error (\<lambda>i. case row_get tgt_id i targets of
                                    None \<Rightarrow> None | Some t \<Rightarrow> exportable_error t) target_ids)"

definition target_order :: "string \<Rightarrow> nat" where
  "target_order target_type =
     (if normalize_target_type target_type \<in> {''cyber_event'', ''security_incident'', ''company''} then 0 else 1)"

text \<open>\<open>sorted(..., key=(order, id))\<close>: a stable sort by the second key first.\<close>

definition ordered_targets :: "CrmTarget list \<Rightarrow> CrmTarget list" where
  "ordered_targets targets = sort_key (\<lambda>t. target_order (tgt_target_type t)) (sort_key tgt_id targets)"

definition new_item :: "env \<Rightarrow> string \<Rightarrow> CrmTarget \<Rightarrow> string \<Rightarrow> string \<Rightarrow> string \<Rightarrow> CrmExportItem" where
  "new_item env batch_id t provider_object match_key row_id =
     \<lparr>itm_id = row_id, itm_batch_id = batch_id, itm_crm_target_id = tgt_id t,
      itm_target_type = tgt_target_type t, itm_target_id = tgt_target_id t,
      itm_operation = ''upsert_record'', itm_dependency_item_ids = [],
      itm_provider_object = provider_object, itm_provider_record_id = None,
      itm_provider_list_id = None, itm_provider_list_entry_id = None,
      itm_stable_match_key = match_key, itm_status = ''pending'', itm_attempt_count = 0,
      itm_last_error = None, itm_retry_after_seconds = None,
      itm_reconciliation_state = ''not_required'', itm_created_at = env_now env,
      itm_updated_at = env_now env\<rparr>"

text \<open>A target that has no plan yet gets an item all the same (\<open>except (PolicySkip, ValueError)\<close>).\<close>

fun is_value_error :: "error \<Rightarrow> bool" where
  "is_value_error (ValueError _) = True"
| "is_value_error (PolicySkip _) = True"
| "is_value_error _ = False"

definition create_item :: "env \<Rightarrow> string \<Rightarrow> CrmTarget \<Rightarrow> CrmExportItem op" where
  "create_item env batch_id t db =
     (case (case plan_for_target (env_settings env) t db of
              Inr p \<Rightarrow> Inr (pln_provider_object p, pln_stable_match_key p)
            | Inl e \<Rightarrow>
                if is_value_error e
                then Inr (provider_object_for_type (tgt_target_type t),
                          ''ghostrecon:'' @ tgt_target_type t @ '':'' @ tgt_target_id t)
                else Inl e) of
        Inl e \<Rightarrow> (Inl e, db)
      | Inr (provider_object, match_key) \<Rightarrow>
          (let (row_id, db1) = draw_uuid env db
           in (Inr (new_item env batch_id t provider_object match_key row_id), db1)))"

fun add_items :: "env \<Rightarrow> string \<Rightarrow> CrmTarget list \<Rightarrow> CrmExportItem list op" where
  "add_items env batch_id [] db = (Inr [], db)"
| "add_items env batch_id (t # ts) db =
     (case create_item env batch_id t db of
        (Inl e, db1) \<Rightarrow> (Inl e, db1)
      | (Inr i, db1) \<Rightarrow>
          (case add_items env batch_id ts (add_item i db1) of
             (Inl e, db2) \<Rightarrow> (Inl e, db2)
           | (Inr is, db2) \<Rightarrow> (Inr (i # is), db2)))"

section \<open>Outcomes\<close>

definition crm_event :: "env \<Rightarrow> EventName \<Rightarrow> string \<Rightarrow> string \<Rightarrow> dict \<Rightarrow> string \<Rightarrow> db \<Rightarrow> db" where
  "crm_event env name aggregate_type aggregate_id payload key db =
     emit env name aggregate_type aggregate_id CRM_SERVICE_NAME payload key None [] db"

definition item_event :: "env \<Rightarrow> EventName \<Rightarrow> CrmExportItem \<Rightarrow> unit op" where
  "item_event env name i db =
     (case crm_export_item_to_model i of
        Inl e \<Rightarrow> (Inl e, db)
      | Inr m \<Rightarrow>
          (Inr (), crm_event env name ''crm_export_item'' (itm_id i) m
             (event_value name @ '':'' @ itm_id i @ '':'' @ show_int (itm_attempt_count i)) db))"

definition mark_item_failure ::
  "env \<Rightarrow> string \<Rightarrow> bool \<Rightarrow> int option \<Rightarrow> CrmExportItem \<Rightarrow> CrmExportItem" where
  "mark_item_failure env message retryable retry_after i =
     i\<lparr>itm_status := (if retryable then ''failed_retryable'' else ''failed_terminal''),
       itm_last_error := Some message, itm_retry_after_seconds := retry_after,
       itm_updated_at := env_now env\<rparr>"

fun count_statuses :: "dict \<Rightarrow> CrmExportItem list \<Rightarrow> dict" where
  "count_statuses counts [] = counts"
| "count_statuses counts (i # is) =
     count_statuses
       (dict_set (itm_status i)
          (JInt ((case dict_get_default counts (itm_status i) (JInt 0) of JInt n \<Rightarrow> n | _ \<Rightarrow> 0) + 1)) counts) is"

definition item_counts :: "CrmExportItem list \<Rightarrow> dict" where
  "item_counts items = count_statuses [(''total'', JInt (int (length items)))] items"

definition batch_status :: "CrmExportItem list \<Rightarrow> string" where
  "batch_status items =
     (if items = [] then ''failed''
      else if itm_status ` set items \<subseteq> SUCCESS_ITEM_STATUSES then ''succeeded''
      else if itm_status ` set items \<subseteq> FAILED_ITEM_STATUSES then ''failed''
      else ''partial'')"

definition completed_batch :: "env \<Rightarrow> CrmExportItem list \<Rightarrow> CrmExportBatch \<Rightarrow> CrmExportBatch" where
  "completed_batch env items b =
     b\<lparr>bat_counts := item_counts items,
       bat_reconciliation_summary :=
         [(''pending_reconciliation'',
           JInt (int (length (filter (\<lambda>i. itm_reconciliation_state i = ''pending'') items))))],
       bat_status := batch_status items, bat_completed_at := Some (env_now env),
       bat_updated_at := env_now env\<rparr>"

definition complete_batch :: "env \<Rightarrow> CrmExportBatch \<Rightarrow> CrmExportItem list \<Rightarrow> CrmExportBatch op" where
  "complete_batch env b items db =
     (let b' = completed_batch env items b; db1 = put_batch b' db
      in case crm_export_batch_to_model b' items of
           Inl e \<Rightarrow> (Inl e, db1)
         | Inr m \<Rightarrow>
             (Inr b', crm_event env CRM_EXPORT_BATCH_COMPLETED ''crm_export_batch'' (bat_id b') m
                (''crm_export.batch_completed:'' @ bat_id b' @ '':''
                 @ show_int (sum_list (map itm_attempt_count items))) db1))"

section \<open>Processing a batch\<close>

definition crm_call :: "CrmClient \<Rightarrow> CrmExportPlan \<Rightarrow> db \<Rightarrow> (error + CrmExportResult) \<times> db" where
  "crm_call client p db =
     (client_export client (length (effects db)) p, db\<lparr>effects := effects db @ [CrmExport p]\<rparr>)"

definition started_item :: "env \<Rightarrow> CrmExportItem \<Rightarrow> CrmExportItem" where
  "started_item env i =
     i\<lparr>itm_status := ''running'', itm_attempt_count := itm_attempt_count i + 1,
       itm_updated_at := env_now env\<rparr>"

definition skipped_item :: "string \<Rightarrow> CrmExportItem \<Rightarrow> CrmExportItem" where
  "skipped_item message i =
     i\<lparr>itm_status := ''skipped_policy'', itm_last_error := Some message, itm_retry_after_seconds := None\<rparr>"

definition succeeded_item :: "env \<Rightarrow> CrmExportResult \<Rightarrow> CrmExportItem \<Rightarrow> CrmExportItem" where
  "succeeded_item env r i =
     i\<lparr>itm_provider_record_id := Some (res_provider_record_id r),
       itm_provider_list_id := res_provider_list_id r,
       itm_provider_list_entry_id := res_provider_list_entry_id r,
       itm_reconciliation_state := ''not_required'', itm_status := ''succeeded'',
       itm_last_error := None, itm_retry_after_seconds := None, itm_updated_at := env_now env\<rparr>"

definition target_outcome :: "env \<Rightarrow> string \<Rightarrow> CrmTarget \<Rightarrow> CrmTarget" where
  "target_outcome env status t = t\<lparr>tgt_export_status := status, tgt_updated_at := env_now env\<rparr>"

definition exported_target :: "env \<Rightarrow> CrmTarget \<Rightarrow> CrmTarget" where
  "exported_target env t =
     t\<lparr>tgt_status := ''exported'', tgt_export_status := ''exported'', tgt_version := tgt_version t + 1,
       tgt_updated_at := env_now env\<rparr>"

text \<open>The two handlers; any other exception leaves the loop.\<close>

fun export_failed :: "env \<Rightarrow> CrmExportItem \<Rightarrow> CrmTarget \<Rightarrow> error \<Rightarrow> unit op" where
  "export_failed env i t (PolicySkip m) db =
     item_event env CRM_EXPORT_ITEM_FAILED (skipped_item m i)
       (put_crm_target (target_outcome env ''skipped_policy'' t) (put_item (skipped_item m i) db))"
| "export_failed env i t (CrmProviderError m retryable retry_after) db =
     (let i' = mark_item_failure env m retryable retry_after i
      in item_event env CRM_EXPORT_ITEM_FAILED i'
           (put_crm_target (target_outcome env (itm_status i') t) (put_item i' db)))"
| "export_failed env i t e db = (Inl e, db)"

definition export_item :: "env \<Rightarrow> CrmClient \<Rightarrow> CrmExportItem \<Rightarrow> unit op" where
  "export_item env client i0 db0 =
     (let i = started_item env i0; db = put_item i db0
      in case get_crm_target (itm_crm_target_id i) db0 of
           None \<Rightarrow> (Inr (), put_item (mark_item_failure env ''crm target no longer exists'' False None i) db)
         | Some t \<Rightarrow>
             (case plan_for_target (env_settings env) t db of
                Inl e \<Rightarrow> export_failed env i t e db
              | Inr p \<Rightarrow>
                  (case crm_call client p db of
                     (Inl e, db1) \<Rightarrow> export_failed env i t e db1
                   | (Inr r, db1) \<Rightarrow>
                       item_event env CRM_EXPORT_ITEM_SUCCEEDED (succeeded_item env r i)
                         (put_crm_target (exported_target env t)
                            (put_item (succeeded_item env r i) db1)))))"

fun export_items :: "env \<Rightarrow> CrmClient \<Rightarrow> CrmExportItem list \<Rightarrow> unit op" where
  "export_items env client [] db = (Inr (), db)"
| "export_items env client (i # is) db =
     (if itm_status i \<noteq> ''pending'' then export_items env client is db
      else case export_item env client i db of
             (Inl e, db1) \<Rightarrow> (Inl e, db1)
           | (Inr _, db1) \<Rightarrow> export_items env client is db1)"

definition process_batch_body :: "env \<Rightarrow> CrmClient \<Rightarrow> string \<Rightarrow> dict op" where
  "process_batch_body env client batch_id db =
     (case get_batch batch_id db of
        None \<Rightarrow> (Inl (ValueError ''crm export batch not found''), db)
      | Some b \<Rightarrow>
          (let items = batch_items (bat_id b) db
           in if bat_completed_at b \<noteq> None \<and> \<not> (\<exists>i \<in> set items. itm_status i = ''pending'')
              then (crm_export_batch_to_model b items, db)
              else case export_items env client items db of
                (Inl e, db1) \<Rightarrow> (Inl e, db1)
              | (Inr _, db1) \<Rightarrow>
                  (case complete_batch env b (batch_items (bat_id b) db1) db1 of
                     (Inl e, db2) \<Rightarrow> (Inl e, db2)
                   | (Inr b', db2) \<Rightarrow>
                       (crm_export_batch_to_model b' (batch_items (bat_id b) db2), db2))))"

definition process_crm_export_batch ::
  "env \<Rightarrow> (nat \<Rightarrow> string \<Rightarrow> string \<Rightarrow> dict \<Rightarrow> error + dict) \<Rightarrow> CrmClient option \<Rightarrow> string \<Rightarrow> dict op" where
  "process_crm_export_batch env http given batch_id db =
     (case resolve_client env http given of
        Inl e \<Rightarrow> (Inl e, db)
      | Inr client \<Rightarrow> session_scope env (process_batch_body env client batch_id) db)"

section \<open>Starting, reading and retrying a batch\<close>

definition batch_row :: "env \<Rightarrow> CrmExportCreateRequest \<Rightarrow> string \<Rightarrow> string \<Rightarrow> string list \<Rightarrow> string \<Rightarrow> CrmExportBatch" where
  "batch_row env q actor key target_ids row_id =
     \<lparr>bat_id = row_id, bat_provider = xcr_provider q, bat_workspace_id = xcr_workspace_id q,
      bat_requested_by = actor, bat_status = ''running'', bat_crm_target_ids = map JStr target_ids,
      bat_selection_hash = selection_hash env target_ids, bat_idempotency_key = key,
      bat_counts = [(''total'', JInt (int (length target_ids))), (''pending'', JInt (int (length target_ids)))],
      bat_reconciliation_summary = [], bat_started_at = Some (env_now env), bat_completed_at = None,
      bat_created_at = env_now env, bat_updated_at = env_now env\<rparr>"

definition record_batch :: "env \<Rightarrow> CrmExportBatch \<Rightarrow> CrmTarget list \<Rightarrow> (dict + string) op" where
  "record_batch env b targets db =
     (case flush env (add_batch b db) of
        Inl e \<Rightarrow> (Inl e, db)
      | Inr db1 \<Rightarrow>
          (case add_items env (bat_id b) targets db1 of
             (Inl e, db2) \<Rightarrow> (Inl e, db2)
           | (Inr items, db2) \<Rightarrow>
               (case flush env db2 of
                  Inl e \<Rightarrow> (Inl e, db2)
                | Inr db3 \<Rightarrow>
                    (case crm_export_batch_to_model b items of
                       Inl e \<Rightarrow> (Inl e, db3)
                     | Inr m \<Rightarrow>
                         (Inr (Inr (bat_id b)),
                          crm_event env CRM_EXPORT_BATCH_STARTED ''crm_export_batch'' (bat_id b) m
                            (''crm_export.batch_started:'' @ bat_id b) db3)))))"

text \<open>The first session answers with the stored batch (\<open>Inl\<close>) or the id of a new one (\<open>Inr\<close>).\<close>

definition start_export_body ::
  "env \<Rightarrow> CrmExportCreateRequest \<Rightarrow> string \<Rightarrow> string \<Rightarrow> (dict + string) op" where
  "start_export_body env q actor key db =
     (case batch_with_key key db of
        Some b \<Rightarrow>
          (case crm_export_batch_to_model b (batch_items (bat_id b) db) of
             Inl e \<Rightarrow> (Inl e, db)
           | Inr m \<Rightarrow> (Inr (Inl m), db))
      | None \<Rightarrow>
          (let target_ids = unique_ordered (xcr_crm_target_ids q);
               targets = load_targets target_ids db
           in case require_exportable_targets target_ids targets of
                Some e \<Rightarrow> (Inl e, db)
              | None \<Rightarrow>
                  (let (row_id, db1) = draw_uuid env db
                   in record_batch env (batch_row env q actor key target_ids row_id)
                        (ordered_targets targets) db1)))"

definition start_crm_export ::
  "env \<Rightarrow> (nat \<Rightarrow> string \<Rightarrow> string \<Rightarrow> dict \<Rightarrow> error + dict) \<Rightarrow> CrmClient option \<Rightarrow> CrmExportCreateRequest
     \<Rightarrow> string \<Rightarrow> string \<Rightarrow> dict op" where
  "start_crm_export env http given q actor key db =
     (case session_scope env (start_export_body env q actor key) db of
        (Inl e, db1) \<Rightarrow> (Inl e, db1)
      | (Inr (Inl m), db1) \<Rightarrow> (Inr m, db1)
      | (Inr (Inr batch_id), db1) \<Rightarrow> process_crm_export_batch env http given batch_id db1)"

definition get_crm_export_batch :: "env \<Rightarrow> string \<Rightarrow> dict option op" where
  "get_crm_export_batch env batch_id =
     session_scope env (\<lambda>db.
       case get_batch batch_id db of
         None \<Rightarrow> (Inr None, db)
       | Some b \<Rightarrow>
           (case crm_export_batch_to_model b (batch_items (bat_id b) db) of
              Inl e \<Rightarrow> (Inl e, db)
            | Inr m \<Rightarrow> (Inr (Some m), db)))"

definition reset_item :: "env \<Rightarrow> CrmExportItem \<Rightarrow> CrmExportItem" where
  "reset_item env i =
     i\<lparr>itm_status := ''pending'', itm_last_error := None, itm_retry_after_seconds := None,
       itm_updated_at := env_now env\<rparr>"

definition retryable_items :: "string list \<Rightarrow> CrmExportItem list \<Rightarrow> CrmExportItem list" where
  "retryable_items item_ids items =
     filter (\<lambda>i. itm_status i = ''failed_retryable'' \<and> (item_ids = [] \<or> itm_id i \<in> set item_ids)) items"

definition retry_body :: "env \<Rightarrow> string \<Rightarrow> CrmExportRetryRequest option \<Rightarrow> (dict option + unit) op" where
  "retry_body env batch_id q db =
     (case get_batch batch_id db of
        None \<Rightarrow> (Inr (Inl None), db)
      | Some b \<Rightarrow>
          (let items = batch_items (bat_id b) db;
               retryable = retryable_items (case q of None \<Rightarrow> [] | Some r \<Rightarrow> xrr_item_ids r) items
           in if retryable = [] then
                (case crm_export_batch_to_model b items of
                   Inl e \<Rightarrow> (Inl e, db)
                 | Inr m \<Rightarrow> (Inr (Inl (Some m)), db))
              else
                (Inr (Inr ()),
                 put_batch (b\<lparr>bat_status := ''running'', bat_completed_at := None,
                              bat_updated_at := env_now env\<rparr>)
                   (fold (\<lambda>i. put_item (reset_item env i)) retryable db))))"

definition retry_failed_crm_export_items ::
  "env \<Rightarrow> (nat \<Rightarrow> string \<Rightarrow> string \<Rightarrow> dict \<Rightarrow> error + dict) \<Rightarrow> CrmClient option \<Rightarrow> string
     \<Rightarrow> CrmExportRetryRequest option \<Rightarrow> dict option op" where
  "retry_failed_crm_export_items env http given batch_id q db =
     (case session_scope env (retry_body env batch_id q) db of
        (Inl e, db1) \<Rightarrow> (Inl e, db1)
      | (Inr (Inl m), db1) \<Rightarrow> (Inr m, db1)
      | (Inr (Inr _), db1) \<Rightarrow>
          (case process_crm_export_batch env http given batch_id db1 of
             (Inl e, db2) \<Rightarrow> (Inl e, db2)
           | (Inr m, db2) \<Rightarrow> (Inr (Some m), db2)))"

section \<open>What an export step leaves alone\<close>

lemma put_item_frame [simp]:
  "crm_export_items (put_item i db) = row_put itm_id i (crm_export_items db)"
  "crm_export_batches (put_item i db) = crm_export_batches db" "crm_targets (put_item i db) = crm_targets db"
  "contacts (put_item i db) = contacts db" "accounts (put_item i db) = accounts db"
  "email_candidates (put_item i db) = email_candidates db" "cyber_events (put_item i db) = cyber_events db"
  "security_incidents (put_item i db) = security_incidents db"
  "event_participants (put_item i db) = event_participants db" "effects (put_item i db) = effects db"
  by (simp_all add: put_item_def)

lemma put_target_frame [simp]:
  "crm_export_items (put_crm_target t db) = crm_export_items db"
  "crm_export_batches (put_crm_target t db) = crm_export_batches db"
  "crm_targets (put_crm_target t db) = row_put tgt_id t (crm_targets db)"
  "contacts (put_crm_target t db) = contacts db" "accounts (put_crm_target t db) = accounts db"
  "email_candidates (put_crm_target t db) = email_candidates db"
  "cyber_events (put_crm_target t db) = cyber_events db"
  "security_incidents (put_crm_target t db) = security_incidents db"
  "event_participants (put_crm_target t db) = event_participants db" "effects (put_crm_target t db) = effects db"
  by (simp_all add: put_crm_target_def)

lemma item_event_state:
  "item_event env n i db = (r, db') \<Longrightarrow>
     crm_export_items db' = crm_export_items db \<and> crm_export_batches db' = crm_export_batches db
   \<and> crm_targets db' = crm_targets db \<and> effects db' = effects db
   \<and> contacts db' = contacts db \<and> accounts db' = accounts db \<and> email_candidates db' = email_candidates db
   \<and> cyber_events db' = cyber_events db \<and> security_incidents db' = security_incidents db
   \<and> event_participants db' = event_participants db"
  by (auto simp: item_event_def crm_event_def split: sum.splits)

lemma outcome_fields [simp]:
  "itm_id (started_item env i) = itm_id i" "itm_id (skipped_item m i) = itm_id i"
  "itm_id (succeeded_item env r i) = itm_id i" "itm_id (mark_item_failure env m rt ra i) = itm_id i"
  "itm_batch_id (started_item env i) = itm_batch_id i" "itm_batch_id (skipped_item m i) = itm_batch_id i"
  "itm_batch_id (succeeded_item env r i) = itm_batch_id i"
  "itm_batch_id (mark_item_failure env m rt ra i) = itm_batch_id i"
  "itm_crm_target_id (started_item env i) = itm_crm_target_id i"
  "itm_crm_target_id (skipped_item m i) = itm_crm_target_id i"
  "itm_crm_target_id (succeeded_item env r i) = itm_crm_target_id i"
  "itm_crm_target_id (mark_item_failure env m rt ra i) = itm_crm_target_id i"
  "tgt_id (target_outcome env st t) = tgt_id t" "tgt_id (exported_target env t) = tgt_id t"
  by (simp_all add: started_item_def skipped_item_def succeeded_item_def mark_item_failure_def
      target_outcome_def exported_target_def)

lemma outcome_status [simp]:
  "itm_status (skipped_item m i) = ''skipped_policy''" "itm_status (succeeded_item env r i) = ''succeeded''"
  "itm_status (mark_item_failure env m rt ra i) = (if rt then ''failed_retryable'' else ''failed_terminal'')"
  "itm_attempt_count (started_item env i) = itm_attempt_count i + 1"
  "itm_attempt_count (skipped_item m i) = itm_attempt_count i"
  "itm_attempt_count (succeeded_item env r i) = itm_attempt_count i"
  "itm_attempt_count (mark_item_failure env m rt ra i) = itm_attempt_count i"
  by (simp_all add: started_item_def skipped_item_def succeeded_item_def mark_item_failure_def)

text \<open>The part of a target that its plan is made from.\<close>

definition target_core :: "CrmTarget \<Rightarrow> CrmTarget" where
  "target_core t = t\<lparr>tgt_status := [], tgt_export_status := [], tgt_version := 0, tgt_updated_at := 0\<rparr>"

lemma target_core_outcome [simp]:
  "target_core (target_outcome env st t) = target_core t" "target_core (exported_target env t) = target_core t"
  by (simp_all add: target_core_def target_outcome_def exported_target_def)

lemma target_core_fields:
  assumes "target_core t = target_core t'"
  shows "tgt_id t = tgt_id t' \<and> tgt_target_type t = tgt_target_type t' \<and> tgt_target_id t = tgt_target_id t'
    \<and> target_lineage t = target_lineage t'"
  using assms by (cases t, cases t') (simp add: target_core_def target_lineage_def)

definition same_entities :: "db \<Rightarrow> db \<Rightarrow> bool" where
  "same_entities db db' =
     (contacts db' = contacts db \<and> accounts db' = accounts db \<and> email_candidates db' = email_candidates db
      \<and> cyber_events db' = cyber_events db \<and> security_incidents db' = security_incidents db
      \<and> event_participants db' = event_participants db)"

lemma plan_cong:
  assumes "same_entities db db'" and "target_core t' = target_core t"
  shows "plan_for_target cfg t' db' = plan_for_target cfg t db"
proof -
  from target_core_fields [OF assms(2)] have t: "tgt_id t' = tgt_id t" "tgt_target_type t' = tgt_target_type t"
    "tgt_target_id t' = tgt_target_id t" "target_lineage t' = target_lineage t" by auto
  have mk: "make_plan t' = make_plan t" by (simp add: make_plan_def t fun_eq_iff)
  have gets: "get_contact k db' = get_contact k db" "get_email_candidate k db' = get_email_candidate k db"
      "get_participant k db' = get_participant k db" "get_cyber_event k db' = get_cyber_event k db"
      "get_incident k db' = get_incident k db" "get_account k db' = get_account k db" for k
    using assms(1) by (simp_all add: same_entities_def table_defs)
  show ?thesis unfolding plan_for_target_def person_plan_def person_source_def t mk gets ..
qed

text \<open>One step: the item it is given ends in a final status, its target keeps its core, and the
  provider is called at most once, with the plan of the target.\<close>

definition item_done :: "CrmExportItem \<Rightarrow> CrmExportItem \<Rightarrow> bool" where
  "item_done i i' =
     (itm_id i' = itm_id i \<and> itm_batch_id i' = itm_batch_id i \<and> itm_crm_target_id i' = itm_crm_target_id i
      \<and> itm_attempt_count i' = itm_attempt_count i + 1
      \<and> itm_status i' \<in> insert ''succeeded'' FAILED_ITEM_STATUSES)"


lemma export_failed_frame:
  "export_failed env i t e db = (r, db') \<Longrightarrow>
     effects db' = effects db \<and> same_entities db db' \<and> crm_export_batches db' = crm_export_batches db"
  by (cases e) (auto simp: same_entities_def Let_def dest!: item_event_state)

lemma export_failed_Inr:
  assumes "export_failed env (started_item env i) t e db = (Inr u, db')"
  shows "\<exists>i' st. item_done i i' \<and> itm_status i' \<in> FAILED_ITEM_STATUSES
    \<and> crm_export_items db' = row_put itm_id i' (crm_export_items db)
    \<and> crm_targets db' = row_put tgt_id (target_outcome env st t) (crm_targets db)"
proof (cases e)
  case (PolicySkip m)
  with assms show ?thesis
    by (auto simp: item_done_def FAILED_ITEM_STATUSES_def dest!: item_event_state
        intro!: exI [of _ "skipped_item m (started_item env i)"])
next
  case (CrmProviderError m rt ra)
  with assms show ?thesis
    by (auto simp: item_done_def FAILED_ITEM_STATUSES_def Let_def dest!: item_event_state
        intro!: exI [of _ "mark_item_failure env m rt ra (started_item env i)"])
qed (use assms in auto)

lemma entities_trans: "same_entities db1 db2 \<Longrightarrow> same_entities db2 db3 \<Longrightarrow> same_entities db1 db3"
  by (simp add: same_entities_def)

lemma export_item_frame:
  assumes "export_item env client i db = (r, db')"
  shows "same_entities db db' \<and> crm_export_batches db' = crm_export_batches db
    \<and> (effects db' = effects db
       \<or> (\<exists>t p. get_crm_target (itm_crm_target_id i) db = Some t \<and> plan_for_target (env_settings env) t db = Inr p
            \<and> effects db' = effects db @ [CrmExport p]))"
proof (cases "get_crm_target (itm_crm_target_id i) db")
  case None
  with assms show ?thesis by (auto simp: export_item_def Let_def same_entities_def)
next
  case (Some t)
  let ?db = "put_item (started_item env i) db"
  have e: "same_entities db ?db" by (simp add: same_entities_def)
  have plan: "plan_for_target (env_settings env) t ?db = plan_for_target (env_settings env) t db"
    by (rule plan_cong [OF e refl])
  show ?thesis
  proof (cases "plan_for_target (env_settings env) t db")
    case (Inl err)
    with Some assms plan have "export_failed env (started_item env i) t err ?db = (r, db')"
      by (simp add: export_item_def Let_def)
    from export_failed_frame [OF this] e show ?thesis by (auto intro: entities_trans)
  next
    case (Inr p)
    let ?db1 = "snd (crm_call client p ?db)"
    have call: "effects ?db1 = effects db @ [CrmExport p]" "same_entities db ?db1"
      "crm_export_batches ?db1 = crm_export_batches db"
      by (simp_all add: crm_call_def same_entities_def)
    show ?thesis
    proof (cases "client_export client (length (effects db)) p")
      case (Inl err)
      with Some Inr assms plan have "export_failed env (started_item env i) t err ?db1 = (r, db')"
        by (simp add: export_item_def Let_def crm_call_def)
      from export_failed_frame [OF this] call Some Inr show ?thesis by (auto intro: entities_trans)
    next
      case ok: (Inr res)
      with Some Inr assms plan have "item_event env CRM_EXPORT_ITEM_SUCCEEDED (succeeded_item env res (started_item env i))
          (put_crm_target (exported_target env t) (put_item (succeeded_item env res (started_item env i)) ?db1)) = (r, db')"
        by (simp add: export_item_def Let_def crm_call_def)
      from item_event_state [OF this] call Some Inr show ?thesis by (auto simp: same_entities_def)
    qed
  qed
qed

text \<open>What a step that returns has made of the item and its target.\<close>

definition item_settled :: "CrmExportItem \<Rightarrow> db \<Rightarrow> db \<Rightarrow> bool" where
  "item_settled i db db' =
     (\<exists>i'. item_done i i' \<and> crm_export_items db' = row_put itm_id i' (crm_export_items db)
       \<and> (case get_crm_target (itm_crm_target_id i) db of
            None \<Rightarrow> crm_targets db' = crm_targets db \<and> itm_status i' = ''failed_terminal''
          | Some t \<Rightarrow> \<exists>t'. target_core t' = target_core t \<and> crm_targets db' = row_put tgt_id t' (crm_targets db)
              \<and> (itm_status i' = ''succeeded'' \<longrightarrow> tgt_status t' = ''exported'' \<and> tgt_export_status t' = ''exported''
                    \<and> itm_provider_record_id i' \<noteq> None)
              \<and> (itm_status i' \<noteq> ''succeeded'' \<longrightarrow> tgt_status t' = tgt_status t)))"

lemma failed_not_succeeded: "st \<in> FAILED_ITEM_STATUSES \<Longrightarrow> st \<noteq> ''succeeded''"
  by (auto simp: FAILED_ITEM_STATUSES_def)

lemma row_put_item_again:
  "itm_id i' = itm_id i \<Longrightarrow> row_put itm_id i' (row_put itm_id i rows) = row_put itm_id i' rows"
  by (simp add: table_simps)

lemma export_failed_settles:
  assumes "export_failed env (started_item env i) t e db1 = (Inr u, db')"
    and "get_crm_target (itm_crm_target_id i) db = Some t" and "crm_targets db1 = crm_targets db"
    and "crm_export_items db1 = row_put itm_id (started_item env i) (crm_export_items db)"
  shows "item_settled i db db'"
proof -
  from export_failed_Inr [OF assms(1)] obtain i' st where i': "item_done i i'" "itm_status i' \<in> FAILED_ITEM_STATUSES"
      "crm_export_items db' = row_put itm_id i' (crm_export_items db1)"
    and t': "crm_targets db' = row_put tgt_id (target_outcome env st t) (crm_targets db1)" by blast
  moreover have "crm_export_items db' = row_put itm_id i' (crm_export_items db)"
    using i' assms(4) by (simp add: row_put_item_again item_done_def)
  moreover have "tgt_status (target_outcome env st t) = tgt_status t" by (simp add: target_outcome_def)
  ultimately show ?thesis
    unfolding item_settled_def using assms(2,3) failed_not_succeeded [OF i'(2)]
    by (intro exI [of _ i']) (auto intro!: exI [of _ "target_outcome env st t"])
qed

lemma export_item_settles:
  assumes "export_item env client i db = (Inr u, db')"
  shows "item_settled i db db'"
proof (cases "get_crm_target (itm_crm_target_id i) db")
  case None
  let ?i = "mark_item_failure env ''crm target no longer exists'' False None (started_item env i)"
  from None assms have "db' = put_item ?i (put_item (started_item env i) db)" by (simp add: export_item_def Let_def)
  with None show ?thesis
    unfolding item_settled_def
    by (intro exI [of _ ?i]) (simp add: item_done_def FAILED_ITEM_STATUSES_def row_put_item_again)
next
  case (Some t)
  let ?db = "put_item (started_item env i) db"
  show ?thesis
  proof (cases "plan_for_target (env_settings env) t ?db")
    case (Inl err)
    with Some assms have "export_failed env (started_item env i) t err ?db = (Inr u, db')"
      by (simp add: export_item_def Let_def)
    then show ?thesis by (rule export_failed_settles [OF _ Some]) simp_all
  next
    case (Inr p)
    let ?db1 = "snd (crm_call client p ?db)"
    show ?thesis
    proof (cases "client_export client (length (effects db)) p")
      case (Inl err)
      with Some Inr assms have "export_failed env (started_item env i) t err ?db1 = (Inr u, db')"
        by (simp add: export_item_def Let_def crm_call_def)
      then show ?thesis by (rule export_failed_settles [OF _ Some]) (simp_all add: crm_call_def)
    next
      case ok: (Inr res)
      let ?i = "succeeded_item env res (started_item env i)"
      from ok Some Inr assms have "item_event env CRM_EXPORT_ITEM_SUCCEEDED ?i
          (put_crm_target (exported_target env t) (put_item ?i ?db1)) = (Inr u, db')"
        by (simp add: export_item_def Let_def crm_call_def)
      with Some show ?thesis
        unfolding item_settled_def
        by (intro exI [of _ ?i])
          (auto simp: item_done_def crm_call_def row_put_item_again succeeded_item_def [of env res] exported_target_def [of env t]
            target_core_def dest!: item_event_state intro!: exI [of _ "exported_target env t"])
    qed
  qed
qed

section \<open>A whole batch\<close>

lemma settled_cores:
  assumes "item_settled i db db'"
  shows "map_option target_core (get_crm_target k db') = map_option target_core (get_crm_target k db)"
proof (cases "get_crm_target (itm_crm_target_id i) db")
  case None
  with assms show ?thesis by (auto simp: item_settled_def get_crm_target_def)
next
  case (Some t)
  with assms obtain t' where t': "target_core t' = target_core t"
      and rows: "crm_targets db' = row_put tgt_id t' (crm_targets db)"
    by (auto simp: item_settled_def)
  from target_core_fields [OF t'] crm_target_repo.get_key [OF Some] have "tgt_id t' = itm_crm_target_id i" by simp
  with rows Some t' show ?thesis by (auto simp: get_crm_target_def row_get_row_put)
qed

lemma export_item_calls:
  assumes "export_item env client i db = (r, db')"
  shows "\<exists>ps. effects db' = effects db @ map CrmExport ps
    \<and> (\<forall>p \<in> set ps. \<exists>t. get_crm_target (itm_crm_target_id i) db = Some t
         \<and> plan_for_target (env_settings env) t db = Inr p)"
proof (cases "effects db' = effects db")
  case True
  then show ?thesis by (intro exI [of _ "[]"]) simp
next
  case False
  with export_item_frame [OF assms] obtain t p where "get_crm_target (itm_crm_target_id i) db = Some t"
    and "plan_for_target (env_settings env) t db = Inr p" and "effects db' = effects db @ [CrmExport p]" by blast
  then show ?thesis by (intro exI [of _ "[p]"]) simp
qed

lemma export_items_frame:
  assumes "export_items env client items db = (r, db')"
  shows "same_entities db db' \<and> crm_export_batches db' = crm_export_batches db
    \<and> (\<exists>ps. effects db' = effects db @ map CrmExport ps
       \<and> (\<forall>p \<in> set ps. \<exists>i \<in> set items. \<exists>t. itm_status i = ''pending''
             \<and> get_crm_target (itm_crm_target_id i) db = Some t \<and> plan_for_target (env_settings env) t db = Inr p))"
  using assms
proof (induction items arbitrary: db)
  case Nil
  then show ?case by (simp add: same_entities_def)
next
  case (Cons i items)
  show ?case
  proof (cases "itm_status i = ''pending''")
    case False
    with Cons.IH [of db] Cons.prems show ?thesis by fastforce
  next
    case True
    obtain x db1 where step: "export_item env client i db = (x, db1)" by fastforce
    note one = export_item_frame [OF step]
    from export_item_calls [OF step] obtain ps1 where ps1: "effects db1 = effects db @ map CrmExport ps1"
        and p1: "\<And>p. p \<in> set ps1 \<Longrightarrow> \<exists>t. get_crm_target (itm_crm_target_id i) db = Some t
             \<and> plan_for_target (env_settings env) t db = Inr p" by blast
    show ?thesis
    proof (cases x)
      case (Inl e)
      with Cons.prems True step have "db' = db1" by simp
      with one ps1 p1 True show ?thesis by fastforce
    next
      case (Inr u)
      with Cons.prems True step have rest: "export_items env client items db1 = (r, db')" by simp
      from Cons.IH [OF rest] obtain ps2 where e2: "same_entities db1 db'" "crm_export_batches db' = crm_export_batches db1"
          and ps2: "effects db' = effects db1 @ map CrmExport ps2"
          and p2: "\<And>p. p \<in> set ps2 \<Longrightarrow> \<exists>j \<in> set items. \<exists>t. itm_status j = ''pending''
             \<and> get_crm_target (itm_crm_target_id j) db1 = Some t \<and> plan_for_target (env_settings env) t db1 = Inr p"
        by blast
      have "\<exists>j \<in> set items. \<exists>t. itm_status j = ''pending'' \<and> get_crm_target (itm_crm_target_id j) db = Some t
          \<and> plan_for_target (env_settings env) t db = Inr p" if "p \<in> set ps2" for p
      proof -
        from p2 [OF that] obtain j t where j: "j \<in> set items" "itm_status j = ''pending''"
          and t: "get_crm_target (itm_crm_target_id j) db1 = Some t" and p: "plan_for_target (env_settings env) t db1 = Inr p"
          by blast
        from settled_cores [OF export_item_settles [OF step [unfolded Inr]], of "itm_crm_target_id j"] t obtain t0
          where t0: "get_crm_target (itm_crm_target_id j) db = Some t0" "target_core t = target_core t0"
          by (cases "get_crm_target (itm_crm_target_id j) db") auto
        from one plan_cong [OF _ t0(2)] p have "plan_for_target (env_settings env) t0 db = Inr p" by auto
        with j t0 show ?thesis by blast
      qed
      with p1 True have "\<forall>p \<in> set (ps1 @ ps2). \<exists>j \<in> set (i # items). \<exists>t. itm_status j = ''pending''
          \<and> get_crm_target (itm_crm_target_id j) db = Some t \<and> plan_for_target (env_settings env) t db = Inr p"
        by (auto simp: ball_Un)
      moreover have "effects db' = effects db @ map CrmExport (ps1 @ ps2)" using ps1 ps2 by simp
      moreover have "same_entities db db' \<and> crm_export_batches db' = crm_export_batches db"
        using one e2 by (auto intro: entities_trans)
      ultimately show ?thesis by blast
    qed
  qed
qed

text \<open>The state of an item and its target once the loop has returned.\<close>

definition item_final :: "CrmExportItem \<Rightarrow> db \<Rightarrow> bool" where
  "item_final i db =
     (\<exists>i'. item_done i i' \<and> get_item (itm_id i) db = Some i'
       \<and> (itm_status i' = ''succeeded'' \<longrightarrow> itm_provider_record_id i' \<noteq> None
            \<and> (\<exists>t. get_crm_target (itm_crm_target_id i) db = Some t
                 \<and> tgt_status t = ''exported'' \<and> tgt_export_status t = ''exported'')))"

lemma item_settled_final:
  assumes "item_settled i db db'" and "get_item (itm_id i) db = Some i"
  shows "item_final i db'"
proof -
  from assms(1) obtain i' where i': "item_done i i'" "crm_export_items db' = row_put itm_id i' (crm_export_items db)"
    and tgt: "case get_crm_target (itm_crm_target_id i) db of
            None \<Rightarrow> crm_targets db' = crm_targets db \<and> itm_status i' = ''failed_terminal''
          | Some t \<Rightarrow> \<exists>t'. target_core t' = target_core t \<and> crm_targets db' = row_put tgt_id t' (crm_targets db)
              \<and> (itm_status i' = ''succeeded'' \<longrightarrow> tgt_status t' = ''exported'' \<and> tgt_export_status t' = ''exported''
                    \<and> itm_provider_record_id i' \<noteq> None)
              \<and> (itm_status i' \<noteq> ''succeeded'' \<longrightarrow> tgt_status t' = tgt_status t)"
    unfolding item_settled_def by blast
  have got: "get_item (itm_id i) db' = Some i'"
    using i' assms(2) by (simp add: get_item_def row_get_row_put item_done_def)
  show ?thesis
  proof (cases "itm_status i' = ''succeeded''")
    case True
    with tgt obtain t t' where t: "get_crm_target (itm_crm_target_id i) db = Some t" "target_core t' = target_core t"
      and t': "crm_targets db' = row_put tgt_id t' (crm_targets db)" "tgt_status t' = ''exported''"
        "tgt_export_status t' = ''exported''" "itm_provider_record_id i' \<noteq> None"
      by (auto split: option.splits)
    have "get_crm_target (itm_crm_target_id i) db' = Some t'"
      using t(1) t'(1) target_core_fields [OF t(2)] crm_target_repo.get_key [OF t(1)]
      by (simp add: get_crm_target_def row_get_row_put)
    with i' got t' show ?thesis unfolding item_final_def by blast
  next
    case False
    with i' got show ?thesis unfolding item_final_def by blast
  qed
qed

lemma item_settled_other:
  assumes "item_settled j db db'"
  shows "itm_id i \<noteq> itm_id j \<Longrightarrow> get_item (itm_id i) db' = get_item (itm_id i) db"
    and "k \<noteq> itm_crm_target_id j \<Longrightarrow> get_crm_target k db' = get_crm_target k db"
proof -
  from assms show "itm_id i \<noteq> itm_id j \<Longrightarrow> get_item (itm_id i) db' = get_item (itm_id i) db"
    by (auto simp: item_settled_def item_done_def get_item_def row_get_row_put)
  assume k: "k \<noteq> itm_crm_target_id j"
  show "get_crm_target k db' = get_crm_target k db"
  proof (cases "get_crm_target (itm_crm_target_id j) db")
    case None
    with assms show ?thesis by (auto simp: item_settled_def get_crm_target_def)
  next
    case (Some t)
    with assms obtain t' where "target_core t' = target_core t"
        and "crm_targets db' = row_put tgt_id t' (crm_targets db)" by (auto simp: item_settled_def)
    with k crm_target_repo.get_key [OF Some] target_core_fields [of t' t] show ?thesis
      by (auto simp: get_crm_target_def row_get_row_put)
  qed
qed

lemma item_final_other:
  assumes "item_final i db" and "item_settled j db db'" and "itm_id i \<noteq> itm_id j"
    and "itm_crm_target_id i \<noteq> itm_crm_target_id j"
  shows "item_final i db'"
  using assms(1) unfolding item_final_def
    item_settled_other(1) [OF assms(2), of i, OF assms(3)] item_settled_other(2) [OF assms(2,4)] .

lemma export_items_keep:
  assumes "export_items env client items db = (Inr u, db')" and "item_final i db"
    and "itm_id i \<notin> itm_id ` set items" and "itm_crm_target_id i \<notin> itm_crm_target_id ` set items"
  shows "item_final i db'"
  using assms
proof (induction items arbitrary: db)
  case (Cons j items)
  then show ?case
  proof (cases "itm_status j = ''pending''")
    case True
    with Cons.prems obtain v db1 where step: "export_item env client j db = (Inr v, db1)"
        and rest: "export_items env client items db1 = (Inr u, db')"
      by (auto split: prod.splits sum.splits)
    from item_final_other [OF Cons.prems(2) export_item_settles [OF step]] Cons.prems(3,4)
    show ?thesis by (intro Cons.IH [OF rest]) auto
  qed auto
qed auto

lemma export_items_settle:
  assumes "export_items env client items db = (Inr u, db')" and "distinct (map itm_id items)"
    and "distinct (map itm_crm_target_id items)" and "\<forall>i \<in> set items. get_item (itm_id i) db = Some i"
    and "i \<in> set items" and "itm_status i = ''pending''"
  shows "item_final i db'"
  using assms
proof (induction items arbitrary: db)
  case (Cons j items)
  show ?case
  proof (cases "itm_status j = ''pending''")
    case False
    with Cons show ?thesis by auto
  next
    case True
    with Cons.prems(1) obtain v db1 where step: "export_item env client j db = (Inr v, db1)"
        and rest: "export_items env client items db1 = (Inr u, db')"
      by (auto split: prod.splits sum.splits)
    note settled = export_item_settles [OF step]
    show ?thesis
    proof (cases "i = j")
      case True
      with item_settled_final [OF settled] Cons.prems(2-4) show ?thesis
        by (intro export_items_keep [OF rest]) auto
    next
      case False
      have "get_item (itm_id k) db1 = Some k" if "k \<in> set items" for k
      proof -
        from that Cons.prems(2) have "itm_id k \<noteq> itm_id j" by (auto simp: image_iff)
        with item_settled_other(1) [OF settled, of k] Cons.prems(4) that show ?thesis by simp
      qed
      with False Cons.prems(2,3,5,6) show ?thesis by (intro Cons.IH [OF rest]) auto
    qed
  qed
qed simp

section \<open>Provider calls are gated\<close>

lemma first_error_None: "first_error f xs = None \<longleftrightarrow> (\<forall>x \<in> set xs. f x = None)"
  by (induction xs) (auto split: option.splits)

lemma set_unique_from: "set (unique_from seen xs) = set xs - set seen"
  by (induction seen xs rule: unique_from.induct) auto

lemma set_unique_ordered [simp]: "set (unique_ordered xs) = set xs"
  by (simp add: unique_ordered_def set_unique_from)

lemma require_exportable_None:
  assumes "require_exportable_targets ids (load_targets ids db) = None" and "t \<in> set (load_targets ids db)"
    and "distinct (map tgt_id (crm_targets db))"
  shows "exportable_error t = None"
proof -
  have "distinct (map tgt_id (load_targets ids db))"
    using assms(3) by (auto simp: load_targets_def distinct_map inj_on_def)
  then have "row_get tgt_id (tgt_id t) (load_targets ids db) = Some t" using assms(2) by (rule row_get_unique)
  moreover have "tgt_id t \<in> set ids" using assms(2) by (simp add: load_targets_def)
  ultimately show ?thesis
    using assms(1) by (force simp: require_exportable_targets_def first_error_None split: option.splits)
qed

lemma create_item_Inr:
  "create_item env b t db = (Inr i, db') \<Longrightarrow> itm_batch_id i = b \<and> itm_crm_target_id i = tgt_id t
     \<and> itm_status i = ''pending'' \<and> db' = db\<lparr>uuid_seq := Suc (uuid_seq db)\<rparr>"
  by (auto simp: create_item_def new_item_def draw_uuid_def Let_def split: sum.splits prod.splits)

lemma add_items_Inr:
  assumes "add_items env b ts db = (Inr is, db')"
  shows "crm_export_items db' = crm_export_items db @ is \<and> crm_targets db' = crm_targets db
    \<and> crm_export_batches db' = crm_export_batches db \<and> effects db' = effects db \<and> same_entities db db'
    \<and> map itm_crm_target_id is = map tgt_id ts \<and> (\<forall>i \<in> set is. itm_batch_id i = b)"
  using assms
proof (induction ts arbitrary: db "is")
  case Nil
  then show ?case by (simp add: same_entities_def)
next
  case (Cons t ts)
  then obtain i db1 js where step: "create_item env b t db = (Inr i, db1)"
      and rest: "add_items env b ts (add_item i db1) = (Inr js, db')" and "is = i # js"
    by (auto split: prod.splits sum.splits)
  with Cons.IH [OF rest] create_item_Inr [OF step] show ?case by (auto simp: add_item_def same_entities_def)
qed

text \<open>The foreign key of an item.\<close>

definition items_owned :: "db \<Rightarrow> bool" where
  "items_owned db = (\<forall>i \<in> set (crm_export_items db). itm_batch_id i \<in> bat_id ` set (crm_export_batches db))"

lemma record_batch_Inr:
  assumes "record_batch env b ts db = (Inr x, db')"
  shows "\<exists>items. x = Inr (bat_id b) \<and> crm_export_items db' = crm_export_items db @ items
    \<and> map itm_crm_target_id items = map tgt_id ts \<and> bat_id b \<notin> bat_id ` set (crm_export_batches db)
    \<and> crm_targets db' = crm_targets db \<and> effects db' = effects db \<and> same_entities db db'"
proof -
  from assms obtain db1 items db2 db3 m where f1: "flush env (add_batch b db) = Inr db1"
      and add: "add_items env (bat_id b) ts db1 = (Inr items, db2)" and f2: "flush env db2 = Inr db3"
      and x: "x = Inr (bat_id b)"
      and db': "db' = crm_event env CRM_EXPORT_BATCH_STARTED ''crm_export_batch'' (bat_id b) m
        (''crm_export.batch_started:'' @ bat_id b) db3"
    unfolding record_batch_def by (auto split: sum.splits prod.splits)
  have "distinct (map bat_id (crm_export_batches db1))" using flush_constraints [OF f1] by (simp add: constraints_ok_def)
  with flush_written [OF f1] have "bat_id b \<notin> bat_id ` set (crm_export_batches db)" by (auto simp: add_batch_def)
  with flush_written [OF f1] flush_written [OF f2] add_items_Inr [OF add] x show ?thesis
    by (auto simp: db' crm_event_def add_batch_def same_entities_def)
qed

lemma start_export_new:
  assumes "start_export_body env q actor key db = (Inr (Inr b), db')" and "items_owned db"
    and "distinct (map tgt_id (crm_targets db))"
  shows "crm_targets db' = crm_targets db \<and> effects db' = effects db \<and> same_entities db db'
    \<and> (\<forall>i \<in> set (batch_items b db'). \<exists>t \<in> set (crm_targets db). itm_crm_target_id i = tgt_id t
          \<and> tgt_id t \<in> set (xcr_crm_target_ids q) \<and> exportable_error t = None)"
proof -
  let ?ids = "unique_ordered (xcr_crm_target_ids q)"
  let ?ts = "load_targets ?ids db"
  from assms(1) have ok: "require_exportable_targets ?ids ?ts = None"
    and rec: "record_batch env (batch_row env q actor key ?ids (env_uuid4 env (uuid_seq db))) (ordered_targets ?ts)
      (db\<lparr>uuid_seq := Suc (uuid_seq db)\<rparr>) = (Inr (Inr b), db')"
    by (auto simp: start_export_body_def draw_uuid_def Let_def split: option.splits sum.splits)
  from record_batch_Inr [OF rec] obtain items where rows: "crm_export_items db' = crm_export_items db @ items"
      and tgts: "map itm_crm_target_id items = map tgt_id (ordered_targets ?ts)"
      and fresh: "b \<notin> bat_id ` set (crm_export_batches db)"
      and frame: "crm_targets db' = crm_targets db \<and> effects db' = effects db \<and> same_entities db db'"
    by (auto simp: same_entities_def)
  have new: "\<forall>i \<in> set (crm_export_items db). itm_batch_id i \<noteq> b" using assms(2) fresh by (auto simp: items_owned_def)
  have "\<exists>t \<in> set (crm_targets db). itm_crm_target_id i = tgt_id t
      \<and> tgt_id t \<in> set (xcr_crm_target_ids q) \<and> exportable_error t = None" if "i \<in> set (batch_items b db')" for i
  proof -
    from that rows new have "i \<in> set items" by (auto simp: batch_items_def)
    then have "itm_crm_target_id i \<in> set (map itm_crm_target_id items)" by simp
    then obtain t where t: "t \<in> set ?ts" "itm_crm_target_id i = tgt_id t" unfolding tgts by (auto simp: ordered_targets_def)
    with require_exportable_None [OF ok t(1) assms(3)] show ?thesis by (auto simp: load_targets_def)
  qed
  with frame show ?thesis by blast
qed

lemma start_export_stored:
  "start_export_body env q actor key db = (Inr (Inl m), db') \<Longrightarrow> db' = db"
  by (auto simp: start_export_body_def draw_uuid_def Let_def dest: record_batch_Inr split: option.splits sum.splits)

lemma process_body_cases:
  assumes "process_batch_body env client b db = (r, db')"
  obtains (unchanged) "db' = db" "(\<exists>e. r = Inl e) \<or> \<not> (\<exists>i \<in> set (batch_items b db). itm_status i = ''pending'')"
  | (raised) bt e where "get_batch b db = Some bt" "export_items env client (batch_items b db) db = (Inl e, db')"
      "r = Inl e"
  | (completed) bt u db1 y where "get_batch b db = Some bt"
      "export_items env client (batch_items b db) db = (Inr u, db1)"
      "complete_batch env bt (batch_items b db1) db1 = (y, db')" "\<And>e. y = Inl e \<Longrightarrow> r = Inl e"
proof (cases "get_batch b db")
  case None
  with assms have "db' = db" and "\<exists>e. r = Inl e" by (auto simp: process_batch_body_def)
  with unchanged show thesis by blast
next
  case (Some bt)
  have id: "bat_id bt = b" using batch_repo.get_key [OF Some] .
  obtain x db1 where loop: "export_items env client (batch_items b db) db = (x, db1)" by fastforce
  obtain y db2 where comp: "complete_batch env bt (batch_items b db1) db1 = (y, db2)" by fastforce
  show thesis
  proof (cases "bat_completed_at bt \<noteq> None \<and> \<not> (\<exists>i \<in> set (batch_items b db). itm_status i = ''pending'')")
    case True
    with assms Some id unchanged show thesis by (simp add: process_batch_body_def)
  next
    case False
    with assms Some id loop comp have "(case x of Inl e \<Rightarrow> (Inl e, db1)
        | Inr _ \<Rightarrow> (case y of Inl e \<Rightarrow> (Inl e, db2)
            | Inr b' \<Rightarrow> (crm_export_batch_to_model b' (batch_items b db2), db2))) = (r, db')"
      unfolding process_batch_body_def by (cases x; cases y) (auto simp: Let_def split: if_splits)
    with raised [OF Some] completed [OF Some] loop comp show thesis by (cases x; cases y) auto
  qed
qed

lemma complete_batch_state:
  "complete_batch env bt items db = (y, db') \<Longrightarrow>
     crm_export_items db' = crm_export_items db \<and> crm_targets db' = crm_targets db \<and> effects db' = effects db
   \<and> crm_export_batches db' = row_put bat_id (completed_batch env items bt) (crm_export_batches db)"
  by (auto simp: complete_batch_def Let_def crm_event_def put_batch_def split: sum.splits)

lemma process_body_calls:
  assumes "process_batch_body env client b db = (r, db')"
  shows "\<exists>ps. effects db' = effects db @ map CrmExport ps
    \<and> (\<forall>p \<in> set ps. \<exists>i \<in> set (batch_items b db). \<exists>t. itm_status i = ''pending''
         \<and> get_crm_target (itm_crm_target_id i) db = Some t \<and> plan_for_target (env_settings env) t db = Inr p)"
  using assms
proof (cases rule: process_body_cases)
  case unchanged
  then show ?thesis by (intro exI [of _ "[]"]) simp
next
  case (raised bt e)
  from export_items_frame [OF raised(2)] show ?thesis by blast
next
  case (completed bt u db1 y)
  from export_items_frame [OF completed(2)] complete_batch_state [OF completed(3)] show ?thesis by metis
qed

lemma plan_begin [simp]: "plan_for_target cfg t (begin_session db) = plan_for_target cfg t db"
  by (rule plan_cong) (simp_all add: same_entities_def)

lemma batch_items_cong: "crm_export_items db' = crm_export_items db \<Longrightarrow> batch_items b db' = batch_items b db"
  by (simp add: batch_items_def)

lemma process_calls:
  assumes "process_crm_export_batch env http given b db = (r, db')"
  shows "\<exists>ps. effects db' = effects db @ map CrmExport ps
    \<and> (\<forall>p \<in> set ps. \<exists>i \<in> set (batch_items b db). \<exists>t. itm_status i = ''pending''
         \<and> get_crm_target (itm_crm_target_id i) db = Some t \<and> plan_for_target (env_settings env) t db = Inr p)"
proof (cases "resolve_client env http given")
  case (Inl e)
  with assms show ?thesis by (intro exI [of _ "[]"]) (simp add: process_crm_export_batch_def)
next
  case (Inr client)
  have same: "batch_items b (begin_session db) = batch_items b db" by (simp add: batch_items_def)
  have "session_scope env (process_batch_body env client b) db = (r, db')"
    using assms Inr by (simp add: process_crm_export_batch_def)
  then show ?thesis
  proof (cases rule: session_cases)
    case (refused e)
    then show ?thesis by (intro exI [of _ "[]"]) simp
  next
    case (raised e x db1)
    from process_body_calls [OF raised(2)] raised(3) show ?thesis by (simp add: same)
  next
    case (committed v db1)
    from process_body_calls [OF committed(2)] committed(3) show ?thesis by (simp add: same)
  qed
qed

lemma create_item_effects: "create_item env b t db = (r, db') \<Longrightarrow> effects db' = effects db"
  by (auto simp: create_item_def draw_uuid_def Let_def split: sum.splits prod.splits)

lemma add_items_effects: "add_items env b ts db = (r, db') \<Longrightarrow> effects db' = effects db"
proof (induction ts arbitrary: db r)
  case (Cons t ts)
  then show ?case
    by (force simp: add_item_def dest!: create_item_effects split: prod.splits sum.splits)
qed simp

lemma record_batch_effects: "record_batch env b ts db = (r, db') \<Longrightarrow> effects db' = effects db"
  by (auto simp: record_batch_def crm_event_def add_batch_def dest!: flush_written add_items_effects
      split: sum.splits prod.splits)

lemma start_export_effects:
  "start_export_body env q actor key db = (r, db') \<Longrightarrow> effects db' = effects db"
  by (auto simp: start_export_body_def draw_uuid_def Let_def dest!: record_batch_effects split: option.splits sum.splits)

lemma start_session_effects:
  assumes "session_scope env (start_export_body env q actor key) db = (r, db')"
  shows "effects db' = effects db"
  using assms by (cases rule: session_cases) (auto dest: start_export_effects)

text \<open>C34: The CRM is only ever sent what was approved: whatever an export does and however
  it ends, each call it makes to the provider carries the plan of a target of the request that was
  waiting for export when the export began, and a repeated request makes none.\<close>

theorem export_calls_gated:
  assumes "start_crm_export env http given q actor key db = (r, db')" and "constraints_ok db" and "items_owned db"
  shows "\<exists>ps. effects db' = effects db @ map CrmExport ps
    \<and> (batch_with_key key db \<noteq> None \<longrightarrow> ps = [])
    \<and> (\<forall>p \<in> set ps. \<exists>t \<in> set (crm_targets db). tgt_id t \<in> set (xcr_crm_target_ids q)
         \<and> tgt_status t = ''pending_export'' \<and> tgt_export_status t \<in> {''not_exported'', ''failed_retryable''}
         \<and> plan_for_target (env_settings env) t db = Inr p)"
proof -
  obtain x db1 where s: "session_scope env (start_export_body env q actor key) db = (x, db1)" by fastforce
  note eff = start_session_effects [OF s]
  show ?thesis
  proof (cases "\<exists>b. x = Inr (Inr b)")
    case False
    with assms(1) s have "db' = db1" by (auto simp: start_crm_export_def split: sum.splits)
    with eff show ?thesis by (intro exI [of _ "[]"]) simp
  next
    case True
    then obtain b where x: "x = Inr (Inr b)" ..
    with assms(1) s have proc: "process_crm_export_batch env http given b db1 = (r, db')"
      by (simp add: start_crm_export_def)
    from s [unfolded x] obtain db2 where body: "start_export_body env q actor key (begin_session db) = (Inr (Inr b), db2)"
        and db1: "db1 = end_session db (written env db2)" by (cases rule: session_cases) auto
    have dist: "distinct (map tgt_id (crm_targets db))" using assms(2) by (simp add: constraints_ok_def)
    have "items_owned (begin_session db)" using assms(3) by (simp add: items_owned_def)
    from start_export_new [OF body this] dist have rows: "crm_targets db1 = crm_targets db" "same_entities db db1"
        and items: "\<forall>i \<in> set (batch_items b db1). \<exists>t \<in> set (crm_targets db). itm_crm_target_id i = tgt_id t
          \<and> tgt_id t \<in> set (xcr_crm_target_ids q) \<and> exportable_error t = None"
      by (auto simp: db1 same_entities_def batch_items_def)
    from body have none: "batch_with_key key db = None"
      by (auto simp: start_export_body_def batch_with_key_def split: option.splits sum.splits)
    from process_calls [OF proc, unfolded eff] obtain ps where ps: "effects db' = effects db @ map CrmExport ps"
        and calls: "\<forall>p \<in> set ps. \<exists>i \<in> set (batch_items b db1). \<exists>t. get_crm_target (itm_crm_target_id i) db1 = Some t
          \<and> plan_for_target (env_settings env) t db1 = Inr p" by blast
    have "\<exists>t \<in> set (crm_targets db). tgt_id t \<in> set (xcr_crm_target_ids q)
         \<and> tgt_status t = ''pending_export'' \<and> tgt_export_status t \<in> {''not_exported'', ''failed_retryable''}
         \<and> plan_for_target (env_settings env) t db = Inr p" if "p \<in> set ps" for p
    proof -
      from calls that obtain i t where i: "i \<in> set (batch_items b db1)" and t: "get_crm_target (itm_crm_target_id i) db1 = Some t"
        and p: "plan_for_target (env_settings env) t db1 = Inr p" by blast
      from items i obtain t0 where t0: "t0 \<in> set (crm_targets db)" "itm_crm_target_id i = tgt_id t0"
        "tgt_id t0 \<in> set (xcr_crm_target_ids q)" "exportable_error t0 = None" by blast
      with t rows(1) row_get_unique [OF dist t0(1)] have "t = t0" by (simp add: get_crm_target_def)
      with p plan_cong [OF rows(2) refl, of "env_settings env" t0] t0 show ?thesis
        by (auto simp: exportable_error_def EXPORTABLE_TARGET_STATUS_def EXPORTABLE_EXPORT_STATUSES_def split: if_splits)
    qed
    with ps none show ?thesis by blast
  qed
qed

section \<open>What the provider answered\<close>

text \<open>An item records the answer to its own call: the ids of the record the provider returned, or the
  error it raised.  The answer is that of the client to the plan of the item's target, as a call
  that is among the effects from position \<open>lo\<close> on; without a target, or without a plan, no call is
  made and the item records that.\<close>

fun failed_with :: "error \<Rightarrow> CrmExportItem \<Rightarrow> bool" where
  "failed_with (PolicySkip m) i = (itm_status i = ''skipped_policy'' \<and> itm_last_error i = Some m)"
| "failed_with (CrmProviderError m retryable retry_after) i =
     (itm_status i = (if retryable then ''failed_retryable'' else ''failed_terminal'') \<and> itm_last_error i = Some m
      \<and> itm_retry_after_seconds i = retry_after)"
| "failed_with _ i = False"

definition succeeded_with :: "CrmExportResult \<Rightarrow> CrmExportItem \<Rightarrow> bool" where
  "succeeded_with r i =
     (itm_status i = ''succeeded'' \<and> itm_provider_record_id i = Some (res_provider_record_id r)
      \<and> itm_provider_list_id i = res_provider_list_id r \<and> itm_provider_list_entry_id i = res_provider_list_entry_id r
      \<and> itm_last_error i = None)"

definition item_answered :: "env \<Rightarrow> CrmClient \<Rightarrow> db \<Rightarrow> CrmExportItem \<Rightarrow> CrmExportItem \<Rightarrow> nat \<Rightarrow> effect list \<Rightarrow> bool" where
  "item_answered env client db i i' lo es =
     (case get_crm_target (itm_crm_target_id i) db of
        None \<Rightarrow> itm_status i' = ''failed_terminal'' \<and> itm_last_error i' = Some ''crm target no longer exists''
      | Some t \<Rightarrow>
          (case plan_for_target (env_settings env) t db of
             Inl e \<Rightarrow> failed_with e i'
           | Inr p \<Rightarrow>
               (\<exists>n. lo \<le> n \<and> n < length es \<and> es ! n = CrmExport p
                  \<and> (case client_export client n p of Inl e \<Rightarrow> failed_with e i' | Inr r \<Rightarrow> succeeded_with r i'))))"

lemma answer_fields [simp]:
  "itm_last_error (skipped_item m i) = Some m" "itm_last_error (mark_item_failure env m rt ra i) = Some m"
  "itm_retry_after_seconds (mark_item_failure env m rt ra i) = ra"
  by (simp_all add: skipped_item_def mark_item_failure_def)

lemma export_failed_answer:
  assumes "export_failed env (started_item env i) t e db = (Inr u, db')"
  shows "\<exists>i'. itm_id i' = itm_id i \<and> failed_with e i' \<and> crm_export_items db' = row_put itm_id i' (crm_export_items db)"
proof (cases e)
  case (PolicySkip m)
  with assms show ?thesis
    by (auto dest!: item_event_state intro!: exI [of _ "skipped_item m (started_item env i)"])
next
  case (CrmProviderError m rt ra)
  with assms show ?thesis
    by (auto simp: Let_def dest!: item_event_state
        intro!: exI [of _ "mark_item_failure env m rt ra (started_item env i)"])
qed (use assms in auto)

lemma answered_call:
  assumes "get_crm_target (itm_crm_target_id i) db = Some t" and "plan_for_target (env_settings env) t db = Inr p"
    and "effects db' = effects db @ [CrmExport p]"
    and "case client_export client (length (effects db)) p of Inl e \<Rightarrow> failed_with e i' | Inr r \<Rightarrow> succeeded_with r i'"
  shows "item_answered env client db i i' (length (effects db)) (effects db')"
  using assms by (auto simp: item_answered_def intro!: exI [of _ "length (effects db)"])

lemma export_item_answer:
  assumes "export_item env client i db = (Inr u, db')"
  shows "\<exists>i'. itm_id i' = itm_id i \<and> crm_export_items db' = row_put itm_id i' (crm_export_items db)
    \<and> item_answered env client db i i' (length (effects db)) (effects db')"
proof (cases "get_crm_target (itm_crm_target_id i) db")
  case None
  let ?i = "mark_item_failure env ''crm target no longer exists'' False None (started_item env i)"
  from None assms have "db' = put_item ?i (put_item (started_item env i) db)" by (simp add: export_item_def Let_def)
  with None show ?thesis
    by (intro exI [of _ ?i]) (simp add: item_answered_def row_put_item_again)
next
  case (Some t)
  let ?db = "put_item (started_item env i) db"
  have plan: "plan_for_target (env_settings env) t ?db = plan_for_target (env_settings env) t db"
    by (rule plan_cong) (simp_all add: same_entities_def)
  show ?thesis
  proof (cases "plan_for_target (env_settings env) t db")
    case (Inl err)
    with Some assms plan have "export_failed env (started_item env i) t err ?db = (Inr u, db')"
      by (simp add: export_item_def Let_def)
    from export_failed_answer [OF this] Some Inl show ?thesis by (auto simp: item_answered_def row_put_item_again)
  next
    case (Inr p)
    let ?db1 = "snd (crm_call client p ?db)"
    have call: "effects ?db1 = effects db @ [CrmExport p]" by (simp add: crm_call_def)
    show ?thesis
    proof (cases "client_export client (length (effects db)) p")
      case (Inl err)
      with Some Inr assms plan have run: "export_failed env (started_item env i) t err ?db1 = (Inr u, db')"
        by (simp add: export_item_def Let_def crm_call_def)
      then have "effects db' = effects db @ [CrmExport p]" using export_failed_frame [OF run] call by simp
      from answered_call [OF Some Inr this, where client = client] Inl
      have "failed_with err i' \<Longrightarrow> item_answered env client db i i' (length (effects db)) (effects db')" for i' by simp
      with export_failed_answer [OF run] show ?thesis by (auto simp: crm_call_def row_put_item_again)
    next
      case ok: (Inr res)
      let ?i = "succeeded_item env res (started_item env i)"
      from ok Some Inr assms plan have run: "item_event env CRM_EXPORT_ITEM_SUCCEEDED ?i
          (put_crm_target (exported_target env t) (put_item ?i ?db1)) = (Inr u, db')"
        by (simp add: export_item_def Let_def crm_call_def)
      have "effects db' = effects db @ [CrmExport p]" using item_event_state [OF run] call by simp
      moreover have "succeeded_with res ?i" by (simp add: succeeded_with_def succeeded_item_def [of env res])
      ultimately have "item_answered env client db i ?i (length (effects db)) (effects db')"
        using ok by (intro answered_call [OF Some Inr]) simp_all
      with item_event_state [OF run] show ?thesis
        by (intro exI [of _ ?i]) (auto simp: crm_call_def row_put_item_again)
    qed
  qed
qed

lemma item_answered_cong:
  assumes "item_answered env client db1 i i' lo1 es1" and "same_entities db db1"
    and "\<And>k. map_option target_core (get_crm_target k db1) = map_option target_core (get_crm_target k db)"
    and "lo \<le> lo1" and "es = es1 @ tl_es"
  shows "item_answered env client db i i' lo es"
proof (cases "get_crm_target (itm_crm_target_id i) db")
  case None
  with assms(1) assms(3) [of "itm_crm_target_id i"] show ?thesis by (auto simp: item_answered_def split: option.splits)
next
  case (Some t)
  with assms(3) [of "itm_crm_target_id i"] obtain t1 where t1: "get_crm_target (itm_crm_target_id i) db1 = Some t1"
      "target_core t1 = target_core t" by auto
  have plan: "plan_for_target (env_settings env) t1 db1 = plan_for_target (env_settings env) t db"
    by (rule plan_cong [OF assms(2) t1(2)])
  show ?thesis
  proof (cases "plan_for_target (env_settings env) t db")
    case (Inl e)
    with assms(1) Some t1 plan show ?thesis by (simp add: item_answered_def)
  next
    case (Inr p)
    with assms(1) Some t1 plan obtain n where "lo1 \<le> n" "n < length es1" "es1 ! n = CrmExport p"
        "case client_export client n p of Inl e \<Rightarrow> failed_with e i' | Inr r \<Rightarrow> succeeded_with r i'"
      by (auto simp: item_answered_def)
    with Some Inr assms(4,5) show ?thesis by (auto simp: item_answered_def nth_append intro!: exI [of _ n])
  qed
qed

lemma export_items_other:
  assumes "export_items env client items db = (Inr u, db')" and "k \<notin> itm_id ` set items"
  shows "get_item k db' = get_item k db"
  using assms
proof (induction items arbitrary: db)
  case (Cons j items)
  then show ?case
  proof (cases "itm_status j = ''pending''")
    case True
    with Cons.prems obtain v db1 where step: "export_item env client j db = (Inr v, db1)"
        and rest: "export_items env client items db1 = (Inr u, db')"
      by (auto split: prod.splits sum.splits)
    from export_item_answer [OF step] Cons.prems(2) have "get_item k db1 = get_item k db"
      by (auto simp: get_item_def row_get_row_put)
    with Cons.IH [OF rest] Cons.prems(2) show ?thesis by simp
  qed auto
qed simp

lemma export_items_answered:
  assumes "export_items env client items db = (Inr u, db')" and "distinct (map itm_id items)"
    and "\<forall>i \<in> set items. get_item (itm_id i) db = Some i" and "i \<in> set items" and "itm_status i = ''pending''"
  shows "\<exists>i'. get_item (itm_id i) db' = Some i' \<and> item_answered env client db i i' (length (effects db)) (effects db')"
  using assms
proof (induction items arbitrary: db)
  case (Cons j items)
  show ?case
  proof (cases "itm_status j = ''pending''")
    case False
    with Cons show ?thesis by auto
  next
    case True
    with Cons.prems(1) obtain v db1 where step: "export_item env client j db = (Inr v, db1)"
        and rest: "export_items env client items db1 = (Inr u, db')"
      by (auto split: prod.splits sum.splits)
    from export_item_answer [OF step] obtain j' where j': "itm_id j' = itm_id j"
        "crm_export_items db1 = row_put itm_id j' (crm_export_items db)"
        "item_answered env client db j j' (length (effects db)) (effects db1)" by blast
    from export_items_frame [OF rest] obtain es where es: "effects db' = effects db1 @ es" by blast
    show ?thesis
    proof (cases "i = j")
      case True
      have "get_item (itm_id j) db1 = Some j'"
        using j' Cons.prems(3) by (simp add: get_item_def row_get_row_put)
      with export_items_other [OF rest, of "itm_id j"] Cons.prems(2) have "get_item (itm_id i) db' = Some j'"
        by (simp add: True)
      moreover have "item_answered env client db i j' (length (effects db)) (effects db')"
        unfolding True by (rule item_answered_cong [OF j'(3) _ _ _ es]) (simp_all add: same_entities_def)
      ultimately show ?thesis by blast
    next
      case False
      have "get_item (itm_id k) db1 = Some k" if "k \<in> set items" for k
      proof -
        from that Cons.prems(2) have "itm_id k \<noteq> itm_id j" by (auto simp: image_iff)
        with j' Cons.prems(3) that show ?thesis by (simp add: get_item_def row_get_row_put)
      qed
      with False Cons.prems(2,4,5) obtain i' where i': "get_item (itm_id i) db' = Some i'"
          and answered: "item_answered env client db1 i i' (length (effects db1)) (effects db')"
        using Cons.IH [OF rest] by auto
      have "item_answered env client db i i' (length (effects db)) (effects db')"
      proof (rule item_answered_cong [OF answered, where tl_es = "[]"])
        show "same_entities db db1" using export_item_frame [OF step] by blast
        show "map_option target_core (get_crm_target k db1) = map_option target_core (get_crm_target k db)" for k
          by (rule settled_cores [OF export_item_settles [OF step]])
        show "length (effects db) \<le> length (effects db1)" using export_item_calls [OF step] by auto
      qed simp
      with i' show ?thesis by blast
    qed
  qed
qed simp

lemma export_items_call_count:
  assumes "export_items env client items db = (r, db')"
  shows "length (effects db') \<le> length (effects db) + length (filter (\<lambda>i. itm_status i = ''pending'') items)"
  using assms
proof (induction items arbitrary: db)
  case (Cons i items)
  show ?case
  proof (cases "itm_status i = ''pending''")
    case True
    obtain x db1 where step: "export_item env client i db = (x, db1)" by fastforce
    have "length (effects db1) \<le> length (effects db) + 1" using export_item_frame [OF step] by auto
    with Cons.IH [of db1] Cons.prems True step show ?thesis by (cases x) (auto simp: add.commute)
  qed (use Cons in auto)
qed simp

section \<open>A batch settles\<close>

lemma batch_items_stored:
  assumes "constraints_ok db" and "i \<in> set (batch_items b db)"
  shows "get_item (itm_id i) db = Some i \<and> itm_batch_id i = b"
  using assms by (auto simp: batch_items_def constraints_ok_def get_item_def intro: row_get_unique)

lemma batch_items_distinct:
  assumes "constraints_ok db"
  shows "distinct (map itm_id (batch_items b db)) \<and> distinct (map itm_crm_target_id (batch_items b db))"
proof -
  let ?rows = "filter (\<lambda>i. itm_batch_id i = b) (crm_export_items db)"
  have "inj_on itm_id (set (crm_export_items db))" "distinct (crm_export_items db)"
      "inj_on (\<lambda>r. (itm_batch_id r, itm_crm_target_id r)) (set (crm_export_items db))"
    using assms by (auto simp: constraints_ok_def distinct_map)
  then have "inj_on itm_id (set ?rows)" "inj_on itm_crm_target_id (set ?rows)" "distinct ?rows"
    by (auto simp: inj_on_def)
  then show ?thesis by (simp add: batch_items_def distinct_map)
qed

text \<open>C35: When processing a batch returns, the provider was called at most once per waiting item, and every
  item that was waiting records the answer to its own call: succeeded, with the ids of the record
  the client returned for the plan of the item's target, or failed or skipped with the error of
  that call (of the plan, or of the missing target, when there was none to make).  Its attempt
  counter went up by one; its target is marked exported if it succeeded; and the batch is
  completed with the status and the counts of its items.\<close>

theorem export_batch_settles:
  assumes "process_crm_export_batch env http given b db = (Inr m, db')" and "constraints_ok db"
    and "i \<in> set (batch_items b db)" and "itm_status i = ''pending''"
  shows "\<exists>client i'. resolve_client env http given = Inr client \<and> get_item (itm_id i) db' = Some i'
    \<and> item_answered env client db i i' (length (effects db)) (effects db')
    \<and> length (effects db') \<le> length (effects db) + length (filter (\<lambda>i. itm_status i = ''pending'') (batch_items b db))
    \<and> itm_batch_id i' = b \<and> itm_crm_target_id i' = itm_crm_target_id i \<and> itm_attempt_count i' = itm_attempt_count i + 1
    \<and> (itm_status i' = ''succeeded'' \<longrightarrow> (\<exists>t. get_crm_target (itm_crm_target_id i) db' = Some t
          \<and> tgt_status t = ''exported'' \<and> tgt_export_status t = ''exported''))
    \<and> (\<exists>bt. get_batch b db' = Some bt \<and> bat_completed_at bt = Some (env_now env)
         \<and> bat_status bt = batch_status (batch_items b db') \<and> bat_counts bt = item_counts (batch_items b db'))"
proof -
  from assms(1) obtain client where client: "resolve_client env http given = Inr client"
      and run: "session_scope env (process_batch_body env client b) db = (Inr m, db')"
    by (auto simp: process_crm_export_batch_def split: sum.splits)
  from run obtain db1 where body: "process_batch_body env client b (begin_session db) = (Inr m, db1)"
      and db': "db' = end_session db (written env db1)" by (cases rule: session_cases) auto
  let ?db = "begin_session db"
  have ok: "constraints_ok ?db" using assms(2) by (simp add: constraints_ok_cong)
  have same: "batch_items b ?db = batch_items b db" by (simp add: batch_items_def)
  from body show ?thesis
  proof (cases rule: process_body_cases)
    case unchanged
    with assms(3,4) same show ?thesis by auto
  next
    case (raised bt e)
    then show ?thesis by simp
  next
    case (completed bt u db2 y)
    note loop = completed(2)
    have stored: "\<forall>j \<in> set (batch_items b ?db). get_item (itm_id j) ?db = Some j"
      using batch_items_stored [OF ok] by blast
    have i: "i \<in> set (batch_items b ?db)" using assms(3) by (simp add: same)
    note dist = batch_items_distinct [OF ok, of b]
    have final: "item_final i db2" using dist stored i assms(4) by (intro export_items_settle [OF loop]) auto
    from export_items_answered [OF loop conjunct1 [OF dist] stored i assms(4)] obtain i'
      where i': "get_item (itm_id i) db2 = Some i'"
        and ans: "item_answered env client ?db i i' (length (effects ?db)) (effects db2)" by blast
    note after = complete_batch_state [OF completed(3)]
    have frame: "crm_export_items db' = crm_export_items db2" "crm_targets db' = crm_targets db2" "effects db' = effects db2"
      using after by (simp_all add: db')
    then have items: "batch_items b db' = batch_items b db2" by (simp add: batch_items_def)
    have "item_answered env client db i i' (length (effects db)) (effects db')"
      using ans frame by (intro item_answered_cong [OF ans, where tl_es = "[]"]) (simp_all add: same_entities_def get_crm_target_def)
    moreover from final i' have "item_done i i' \<and> (itm_status i' = ''succeeded'' \<longrightarrow> (\<exists>t. get_crm_target (itm_crm_target_id i) db' = Some t
          \<and> tgt_status t = ''exported'' \<and> tgt_export_status t = ''exported''))"
      by (auto simp: item_final_def get_crm_target_def frame)
    moreover have "get_item (itm_id i) db' = Some i'" using i' by (simp add: get_item_def frame)
    moreover have "itm_batch_id i = b" using batch_items_stored [OF assms(2,3)] by simp
    moreover have "length (effects db') \<le> length (effects db) + length (filter (\<lambda>i. itm_status i = ''pending'') (batch_items b db))"
      using export_items_call_count [OF loop] by (simp add: frame same)
    moreover have "get_batch b db' = Some (completed_batch env (batch_items b db') bt)"
    proof -
      have id: "bat_id bt = b" using batch_repo.get_key [OF completed(1)] .
      have "crm_export_batches db' = row_put bat_id (completed_batch env (batch_items b db') bt) (crm_export_batches db)"
        unfolding items using after export_items_frame [OF loop] by (simp add: db')
      with completed(1) id show ?thesis by (simp add: get_batch_def row_get_row_put completed_batch_def)
    qed
    ultimately show ?thesis using client by (auto simp: item_done_def completed_batch_def)
  qed
qed

section \<open>A target without a plan\<close>

lemma export_items_core:
  assumes "export_items env client items db = (Inr u, db')"
  shows "map_option target_core (get_crm_target k db') = map_option target_core (get_crm_target k db)"
  using assms
proof (induction items arbitrary: db)
  case (Cons i items)
  then show ?case
  proof (cases "itm_status i = ''pending''")
    case True
    with Cons.prems obtain v db1 where step: "export_item env client i db = (Inr v, db1)"
        and rest: "export_items env client items db1 = (Inr u, db')"
      by (auto split: prod.splits sum.splits)
    from Cons.IH [OF rest] settled_cores [OF export_item_settles [OF step]] show ?thesis by simp
  qed auto
qed simp

lemma export_items_append:
  "export_items env client (xs @ ys) db =
     (case export_items env client xs db of
        (Inl e, db1) \<Rightarrow> (Inl e, db1)
      | (Inr _, db1) \<Rightarrow> export_items env client ys db1)"
  by (induction xs arbitrary: db) (auto split: prod.splits sum.splits)

lemma export_items_stuck:
  assumes "i \<in> set items" and "itm_status i = ''pending''" and "get_crm_target (itm_crm_target_id i) db = Some t"
    and "plan_for_target (env_settings env) t db = Inl (ValueError m)"
  shows "\<exists>e db'. export_items env client items db = (Inl e, db')"
proof -
  from assms(1) obtain xs ys where items: "items = xs @ i # ys" by (auto dest: split_list)
  obtain x db1 where pre: "export_items env client xs db = (x, db1)" by fastforce
  show ?thesis
  proof (cases x)
    case (Inl e)
    with pre items show ?thesis by (simp add: export_items_append)
  next
    case (Inr u)
    from export_items_core [OF pre [unfolded Inr], of "itm_crm_target_id i"] assms(3) obtain t1
      where t1: "get_crm_target (itm_crm_target_id i) db1 = Some t1" "target_core t1 = target_core t" by auto
    let ?db2 = "put_item (started_item env i) db1"
    have "same_entities db ?db2" using export_items_frame [OF pre] by (simp add: same_entities_def)
    from plan_cong [OF this t1(2)] assms(4) have "plan_for_target (env_settings env) t1 ?db2 = Inl (ValueError m)" by simp
    with t1(1) have "export_item env client i db1 = (Inl (ValueError m), ?db2)" by (simp add: export_item_def Let_def)
    with pre Inr items assms(2) show ?thesis by (simp add: export_items_append)
  qed
qed

text \<open>C36: One target without a plan (its contact, account, event or incident is gone,
  or its type is not known) blocks its whole batch: whatever the provider answers, processing
  raises, nothing is recorded, and the batch stays as it was, so that a later attempt raises again.
  The calls made for the items before it are not taken back.\<close>

theorem broken_target_blocks_batch:
  assumes "get_batch b db = Some bt" and "i \<in> set (batch_items b db)" and "itm_status i = ''pending''"
    and "get_crm_target (itm_crm_target_id i) db = Some t"
    and "plan_for_target (env_settings env) t db = Inl (ValueError m)"
  shows "\<exists>e db'. process_crm_export_batch env http given b db = (Inl e, db') \<and> same_tables db db'"
proof (cases "resolve_client env http given")
  case (Inl e)
  then show ?thesis by (simp add: process_crm_export_batch_def)
next
  case (Inr client)
  have id: "bat_id bt = b" using batch_repo.get_key [OF assms(1)] .
  have items: "batch_items b (begin_session db) = batch_items b db" by (simp add: batch_items_def)
  have "\<exists>e db1. export_items env client (batch_items b db) (begin_session db) = (Inl e, db1)"
    using assms(4,5) by (intro export_items_stuck [OF assms(2,3)]) simp_all
  then obtain e db1 where loop: "export_items env client (batch_items b db) (begin_session db) = (Inl e, db1)" by blast
  have "process_batch_body env client b (begin_session db) = (Inl e, db1)"
    using assms(1-3) loop by (auto simp: process_batch_body_def get_batch_def id items Let_def)
  then have "\<exists>err db'. session_scope env (process_batch_body env client b) db = (Inl err, db')"
    by (simp add: session_scope_def)
  with Inr show ?thesis by (auto simp: process_crm_export_batch_def dest: session_scope_error)
qed

end
