(* ===== verification/Crm_Export_Examples.thy ===== *)
theory Crm_Export_Examples
  imports Crm_Export
begin

text \<open>
  Concrete exports: each theorem about CRM exports is applied to a small store where its
  hypotheses hold.
\<close>

definition waiting_target :: "string \<Rightarrow> string \<Rightarrow> CrmTarget" where
  "waiting_target i contact =
     \<lparr>tgt_id = i, tgt_review_candidate_id = None, tgt_review_decision_id = None,
      tgt_target_type = ''contact'', tgt_target_id = contact, tgt_origin_type = None, tgt_origin_id = None,
      tgt_source_definition_id = None, tgt_source_item_ids = [], tgt_status = ''pending_export'',
      tgt_export_status = ''not_exported'', tgt_policy_snapshot = [], tgt_approval_snapshot = [],
      tgt_idempotency_key = ''tk-'' @ i, tgt_version = 1, tgt_created_at = 0, tgt_updated_at = 0\<rparr>"

definition waiting_db :: db where
  "waiting_db = empty_db\<lparr>crm_targets := [waiting_target ''t1'' ''p1'', waiting_target ''t2'' ''gone''],
     contacts := [sample_contact]\<rparr>"

definition sample_export :: CrmExportCreateRequest where
  "sample_export = \<lparr>xcr_crm_target_ids = [''t1'', ''t1''], xcr_provider = ''attio'', xcr_workspace_id = None,
     xcr_reason = None\<rparr>"

definition no_http :: "nat \<Rightarrow> string \<Rightarrow> string \<Rightarrow> dict \<Rightarrow> error + dict" where
  "no_http n method path body = Inl (RuntimeError ''unreachable'')"

definition sample_batch :: "string list \<Rightarrow> CrmExportBatch" where
  "sample_batch ids =
     \<lparr>bat_id = ''b1'', bat_provider = ''attio'', bat_workspace_id = None, bat_requested_by = ''alex'',
      bat_status = ''running'', bat_crm_target_ids = map JStr ids, bat_selection_hash = ''h'',
      bat_idempotency_key = ''bk1'', bat_counts = [], bat_reconciliation_summary = [],
      bat_started_at = Some 0, bat_completed_at = None, bat_created_at = 0, bat_updated_at = 0\<rparr>"

definition sample_item :: "string \<Rightarrow> string \<Rightarrow> CrmExportItem" where
  "sample_item i target = new_item example_env ''b1'' (waiting_target target ''p1'') ''people'' ''k'' i"

definition batch_db :: db where
  "batch_db = waiting_db\<lparr>crm_export_batches := [sample_batch [''t1'']], crm_export_items := [sample_item ''x1'' ''t1'']\<rparr>"

definition broken_batch_db :: db where
  "broken_batch_db = waiting_db\<lparr>crm_export_batches := [sample_batch [''t1'', ''t2'']],
     crm_export_items := [sample_item ''x1'' ''t1'', sample_item ''x2'' ''t2'']\<rparr>"

theorem export_calls_gated_witness:
  "\<exists>ps. effects (snd (start_crm_export example_env no_http None sample_export ''alex'' ''k1'' waiting_db)) = map CrmExport ps
     \<and> ps \<noteq> [] \<and> (\<forall>p \<in> set ps. plan_for_target example_settings (waiting_target ''t1'' ''p1'') waiting_db = Inr p)"
proof -
  let ?run = "start_crm_export example_env no_http None sample_export ''alex'' ''k1'' waiting_db"
  have called: "effects (snd ?run) \<noteq> []" by code_simp
  have ok: "constraints_ok waiting_db" "items_owned waiting_db" and none: "effects waiting_db = []"
    and ids: "\<forall>t \<in> set (crm_targets waiting_db). tgt_id t \<in> set (xcr_crm_target_ids sample_export) \<longrightarrow> t = waiting_target ''t1'' ''p1''"
    and cfg: "env_settings example_env = example_settings"
    by code_simp+
  show ?thesis
    using export_calls_gated [OF prod.collapse [symmetric] ok, of example_env no_http None sample_export "''alex''" "''k1''"]
      called none ids unfolding cfg by (metis (no_types, lifting) append_Nil list.map_disc_iff)
qed

theorem export_batch_settles_witness:
  "\<exists>m db' client i'. process_crm_export_batch example_env no_http None ''b1'' batch_db = (Inr m, db')
     \<and> resolve_client example_env no_http None = Inr client \<and> get_item ''x1'' db' = Some i'
     \<and> item_answered example_env client batch_db (sample_item ''x1'' ''t1'') i' 0 (effects db')
     \<and> length (effects db') \<le> 1 \<and> itm_attempt_count i' = 1"
proof -
  have "succeeds (process_crm_export_batch example_env no_http None ''b1'' batch_db) (\<lambda>r db'. True)"
    and ok: "constraints_ok batch_db" and i: "sample_item ''x1'' ''t1'' \<in> set (batch_items ''b1'' batch_db)"
      "itm_status (sample_item ''x1'' ''t1'') = ''pending''"
    and facts: "effects batch_db = []" "itm_id (sample_item ''x1'' ''t1'') = ''x1''" "itm_attempt_count (sample_item ''x1'' ''t1'') = 0"
      "length (filter (\<lambda>i. itm_status i = ''pending'') (batch_items ''b1'' batch_db)) = 1"
    by code_simp+
  then obtain m db' where run: "process_crm_export_batch example_env no_http None ''b1'' batch_db = (Inr m, db')"
    by (auto elim: succeedsE)
  from export_batch_settles [OF run ok i] run show ?thesis unfolding facts by auto
qed

theorem broken_target_blocks_batch_witness:
  "\<exists>e db'. process_crm_export_batch example_env no_http None ''b1'' broken_batch_db = (Inl e, db')
     \<and> crm_export_items db' = crm_export_items broken_batch_db \<and> effects db' \<noteq> []"
proof -
  have b: "get_batch ''b1'' broken_batch_db = Some (sample_batch [''t1'', ''t2''])"
    and i: "sample_item ''x2'' ''t2'' \<in> set (batch_items ''b1'' broken_batch_db)"
      "itm_status (sample_item ''x2'' ''t2'') = ''pending''"
    and t: "get_crm_target (itm_crm_target_id (sample_item ''x2'' ''t2'')) broken_batch_db = Some (waiting_target ''t2'' ''gone'')"
    and p: "plan_for_target (env_settings example_env) (waiting_target ''t2'' ''gone'') broken_batch_db
      = Inl (ValueError ''contact target does not exist'')"
    and called: "effects (snd (process_crm_export_batch example_env no_http None ''b1'' broken_batch_db)) \<noteq> []"
    by code_simp+
  from broken_target_blocks_batch [OF b i t p, of no_http None] obtain e db'
    where run: "process_crm_export_batch example_env no_http None ''b1'' broken_batch_db = (Inl e, db')"
      and same: "same_tables broken_batch_db db'" by blast
  from same have "crm_export_items db' = crm_export_items broken_batch_db"
    unfolding same_tables_def by (metis rollback_frame(17))
  with run called show ?thesis by auto
qed

end
