(* ===== verification/Access_Control.thy ===== *)
theory Access_Control
  imports Datastore "HOL-Library.Sublist"
begin

text \<open>
  Who may call what over HTTP: the policy of every operation and the registry of policies
  (\<open>security/operations.py\<close>), the route class that enforces them
  (\<open>security/routing.py\<close>), the error responses (\<open>security/perimeter.py\<close>) and the
  request rate limit (\<open>security/rate_limit.py\<close>).

  A request carries the identity its authentication resolved.  A handler is a function of
  the request, the two context variables of \<open>security/context.py\<close> and the state of the
  service behind it; forwarding to the service that owns an operation is a parameter, since
  it leaves the process.
\<close>

section \<open>Operation policies\<close>

datatype AuthenticationMode =
    AUTH_PUBLIC | AUTH_HUMAN | AUTH_SERVICE | AUTH_HUMAN_OR_SERVICE | AUTH_SERVICE_WITH_OBO

fun authentication_value :: "AuthenticationMode \<Rightarrow> string" where
  "authentication_value AUTH_PUBLIC = ''public''"
| "authentication_value AUTH_HUMAN = ''human''"
| "authentication_value AUTH_SERVICE = ''service''"
| "authentication_value AUTH_HUMAN_OR_SERVICE = ''human_or_service''"
| "authentication_value AUTH_SERVICE_WITH_OBO = ''service_with_obo''"

datatype Exposure = EXPOSED_PUBLIC | EXPOSED_GATEWAY | EXPOSED_CLUSTER | EXPOSED_DISABLED

fun exposure_value :: "Exposure \<Rightarrow> string" where
  "exposure_value EXPOSED_PUBLIC = ''public''"
| "exposure_value EXPOSED_GATEWAY = ''gateway''"
| "exposure_value EXPOSED_CLUSTER = ''cluster''"
| "exposure_value EXPOSED_DISABLED = ''disabled''"

datatype RateClass =
    RATE_EXEMPT | RATE_AUTH | RATE_SESSION | RATE_READ | RATE_EXPENSIVE_READ | RATE_MUTATION
  | RATE_BULK_EXPORT | RATE_OWNER

fun rate_class_value :: "RateClass \<Rightarrow> string" where
  "rate_class_value RATE_EXEMPT = ''exempt''"
| "rate_class_value RATE_AUTH = ''auth''"
| "rate_class_value RATE_SESSION = ''session''"
| "rate_class_value RATE_READ = ''read''"
| "rate_class_value RATE_EXPENSIVE_READ = ''expensive_read''"
| "rate_class_value RATE_MUTATION = ''mutation''"
| "rate_class_value RATE_BULK_EXPORT = ''bulk_export''"
| "rate_class_value RATE_OWNER = ''owner''"

record OperationPolicy =
  pol_operation_id :: string
  pol_owner :: string
  pol_permission :: "Permission option"
  pol_authentication :: AuthenticationMode
  pol_assurance :: "AssuranceLevel option"
  pol_rls :: bool
  pol_audit :: bool
  pol_csrf :: bool
  pol_rate_class :: RateClass
  pol_maximum_body_bytes :: int
  pol_exposure :: Exposure
  pol_allowed_callers :: "string set"
  pol_maximum_authentication_age_seconds :: "int option"
  pol_resource :: string
  pol_test_ids :: "string list"

text \<open>\<open>OperationPolicy.as_dict\<close>: the enumerations by value, the callers sorted.\<close>

definition opt_json :: "('a \<Rightarrow> json) \<Rightarrow> 'a option \<Rightarrow> json" where
  "opt_json f x = (case x of None \<Rightarrow> JNull | Some v \<Rightarrow> f v)"

definition policy_as_dict :: "OperationPolicy \<Rightarrow> dict" where
  "policy_as_dict p =
     [(''operation_id'', JStr (pol_operation_id p)), (''owner'', JStr (pol_owner p)),
      (''permission'', opt_json (\<lambda>x. JStr (permission_value x)) (pol_permission p)),
      (''authentication'', JStr (authentication_value (pol_authentication p))),
      (''assurance'', opt_json (\<lambda>x. JStr (assurance_value x)) (pol_assurance p)),
      (''rls'', JBool (pol_rls p)), (''audit'', JBool (pol_audit p)), (''csrf'', JBool (pol_csrf p)),
      (''rate_class'', JStr (rate_class_value (pol_rate_class p))),
      (''maximum_body_bytes'', JInt (pol_maximum_body_bytes p)),
      (''exposure'', JStr (exposure_value (pol_exposure p))),
      (''allowed_callers'', JArr (map JStr (sorted_list_of_set (pol_allowed_callers p)))),
      (''maximum_authentication_age_seconds'', opt_json JInt (pol_maximum_authentication_age_seconds p)),
      (''resource'', JStr (pol_resource p)), (''test_ids'', JArr (map JStr (pol_test_ids p)))]"

definition DEFAULT_BODY_BYTES :: int where
  "DEFAULT_BODY_BYTES = 1024 * 1024"

text \<open>The positional constructor of the first table, with the defaults of the dataclass.\<close>

definition security_operation ::
  "string \<Rightarrow> string \<Rightarrow> Permission option \<Rightarrow> AuthenticationMode \<Rightarrow> AssuranceLevel option
   \<Rightarrow> bool \<Rightarrow> bool \<Rightarrow> bool \<Rightarrow> RateClass \<Rightarrow> int \<Rightarrow> Exposure \<Rightarrow> string set \<Rightarrow> OperationPolicy" where
  "security_operation i owner permission authentication assurance rls audited csrf rate body exposure callers =
     \<lparr>pol_operation_id = i, pol_owner = owner, pol_permission = permission, pol_authentication = authentication,
      pol_assurance = assurance, pol_rls = rls, pol_audit = audited, pol_csrf = csrf, pol_rate_class = rate,
      pol_maximum_body_bytes = body, pol_exposure = exposure, pol_allowed_callers = callers,
      pol_maximum_authentication_age_seconds = None, pol_resource = ''application'', pol_test_ids = []\<rparr>"

definition SECURITY_OPERATIONS :: "OperationPolicy list" where
  "SECURITY_OPERATIONS =
     [security_operation ''auth.login'' ''gateway-service'' None AUTH_PUBLIC None
        False True False RATE_AUTH 0 EXPOSED_GATEWAY {},
      security_operation ''auth.callback'' ''gateway-service'' None AUTH_PUBLIC None
        False True False RATE_AUTH 0 EXPOSED_GATEWAY {},
      security_operation ''auth.session.read'' ''gateway-service'' (Some SESSION_SELF_READ) AUTH_HUMAN (Some EMAIL_OTP)
        True False False RATE_SESSION 0 EXPOSED_GATEWAY {},
      security_operation ''auth.logout'' ''gateway-service'' (Some SESSION_SELF_REVOKE) AUTH_HUMAN (Some EMAIL_OTP)
        True True True RATE_SESSION 0 EXPOSED_GATEWAY {},
      security_operation ''security.users.manage'' ''gateway-service'' (Some SECURITY_ADMIN) AUTH_HUMAN
        (Some PHISHING_RESISTANT) True True True RATE_MUTATION (64 * 1024) EXPOSED_GATEWAY {},
      security_operation ''security.audit.read'' ''gateway-service'' (Some SECURITY_AUDIT_READ) AUTH_HUMAN
        (Some PHISHING_RESISTANT) True True False RATE_EXPENSIVE_READ 0 EXPOSED_GATEWAY {},
      security_operation ''system.health.read'' ''all'' None AUTH_PUBLIC None
        False False False RATE_EXEMPT 0 EXPOSED_PUBLIC {},
      security_operation ''system.readiness.read'' ''all'' None AUTH_SERVICE (Some WORKLOAD)
        False False False RATE_OWNER 0 EXPOSED_CLUSTER {''kubernetes-probe''},
      security_operation ''system.metrics.read'' ''all'' (Some METRICS_READ) AUTH_SERVICE (Some WORKLOAD)
        False True False RATE_OWNER 0 EXPOSED_CLUSTER {''metrics-collector''},
      security_operation ''system.docs.read'' ''all'' (Some DOCS_READ) AUTH_HUMAN (Some PHISHING_RESISTANT)
        False True False RATE_READ 0 EXPOSED_DISABLED {}]"

definition extra_security_operation ::
  "string \<Rightarrow> Permission option \<Rightarrow> AuthenticationMode \<Rightarrow> AssuranceLevel option \<Rightarrow> bool \<Rightarrow> bool \<Rightarrow> RateClass \<Rightarrow> OperationPolicy" where
  "extra_security_operation i permission authentication assurance csrf audited rate =
     \<lparr>pol_operation_id = i, pol_owner = ''gateway-service'', pol_permission = permission,
      pol_authentication = authentication, pol_assurance = assurance, pol_rls = (permission \<noteq> None),
      pol_audit = audited, pol_csrf = csrf, pol_rate_class = rate,
      pol_maximum_body_bytes = (if csrf then 64 * 1024 else 0), pol_exposure = EXPOSED_GATEWAY,
      pol_allowed_callers = {},
      pol_maximum_authentication_age_seconds = (if assurance = Some PHISHING_RESISTANT then Some 900 else None),
      pol_resource = ''security'', pol_test_ids = [''route:'' @ i]\<rparr>"

definition EXTRA_SECURITY_OPERATIONS :: "OperationPolicy list" where
  "EXTRA_SECURITY_OPERATIONS =
     [extra_security_operation ''auth.claims.refresh'' (Some SESSION_SELF_READ) AUTH_HUMAN (Some EMAIL_OTP) False True RATE_AUTH,
      extra_security_operation ''auth.step_up'' (Some SESSION_SELF_READ) AUTH_HUMAN (Some EMAIL_OTP) False True RATE_AUTH,
      extra_security_operation ''auth.provider_logout.callback'' None AUTH_PUBLIC None False True RATE_AUTH,
      extra_security_operation ''auth.sessions.list'' (Some SESSION_SELF_READ) AUTH_HUMAN (Some EMAIL_OTP) False False RATE_SESSION,
      extra_security_operation ''auth.sessions.revoke'' (Some SESSION_SELF_REVOKE) AUTH_HUMAN (Some EMAIL_OTP) True True RATE_SESSION,
      extra_security_operation ''auth.logout_all'' (Some SESSION_SELF_REVOKE) AUTH_HUMAN (Some EMAIL_OTP) True True RATE_SESSION,
      extra_security_operation ''auth.bootstrap_proof'' (Some SECURITY_ADMIN) AUTH_HUMAN (Some PHISHING_RESISTANT) True True RATE_MUTATION,
      extra_security_operation ''security.users.list'' (Some SECURITY_ADMIN) AUTH_HUMAN (Some PHISHING_RESISTANT) False True RATE_READ,
      extra_security_operation ''security.users.read'' (Some SECURITY_ADMIN) AUTH_HUMAN (Some PHISHING_RESISTANT) False True RATE_READ,
      extra_security_operation ''security.users.sessions.list'' (Some SECURITY_ADMIN) AUTH_HUMAN (Some PHISHING_RESISTANT) False True RATE_READ,
      extra_security_operation ''security.users.sessions.revoke'' (Some SECURITY_ADMIN) AUTH_HUMAN (Some PHISHING_RESISTANT) True True RATE_MUTATION,
      extra_security_operation ''security.emergency_grants.proof'' (Some SECURITY_ADMIN) AUTH_HUMAN (Some PHISHING_RESISTANT) True True RATE_MUTATION]"

section \<open>The registry\<close>

text \<open>The dictionary of \<open>OperationRegistry\<close> in insertion order; its keys are the operation ids of its values.\<close>

type_synonym registry = "OperationPolicy list"

definition registry_get :: "string \<Rightarrow> registry \<Rightarrow> OperationPolicy option" where
  "registry_get i reg = row_get pol_operation_id i reg"

definition registry_register :: "OperationPolicy \<Rightarrow> registry \<Rightarrow> error + registry" where
  "registry_register p reg =
     (if registry_get (pol_operation_id p) reg \<noteq> None
      then Inl (ValueError (''duplicate operation id: '' @ pol_operation_id p))
      else Inr (reg @ [p]))"

fun registry_init :: "OperationPolicy list \<Rightarrow> registry \<Rightarrow> error + registry" where
  "registry_init [] reg = Inr reg"
| "registry_init (p # ps) reg =
     (case registry_register p reg of Inl e \<Rightarrow> Inl e | Inr reg' \<Rightarrow> registry_init ps reg')"

definition registry_require :: "string \<Rightarrow> registry \<Rightarrow> error + OperationPolicy" where
  "registry_require i reg =
     (case registry_get i reg of None \<Rightarrow> Inl (KeyError (''unclassified operation: '' @ i)) | Some p \<Rightarrow> Inr p)"

definition registry_ensure :: "OperationPolicy \<Rightarrow> registry \<Rightarrow> error + registry" where
  "registry_ensure p reg =
     (case registry_get (pol_operation_id p) reg of
        None \<Rightarrow> Inr (reg @ [p])
      | Some existing \<Rightarrow>
          if existing \<noteq> p
          then Inl (ValueError (''conflicting classification for operation id: '' @ pol_operation_id p))
          else Inr reg)"

definition registry_matrix :: "registry \<Rightarrow> dict list" where
  "registry_matrix reg = map policy_as_dict (sort_key pol_operation_id reg)"

definition OPERATIONS :: "error + registry" where
  "OPERATIONS = registry_init (SECURITY_OPERATIONS @ EXTRA_SECURITY_OPERATIONS) []"

section \<open>Classification of the domain routes\<close>

definition READ_NAMES :: "string set" where
  "READ_NAMES =
     {''intelligence_events'', ''intelligence_event_detail'', ''intelligence_event_participants'',
      ''intelligence_participants'', ''intelligence_incidents'', ''intelligence_incident_detail'',
      ''intelligence_watch_targets'', ''intelligence_watch_target_detail'',
      ''enrichment_entity_resolutions'', ''enrichment_contact_candidates'',
      ''sequence_activity_list'', ''sequence_activity_detail'', ''sequence_list'', ''sequence_detail'',
      ''sequence_crm_prospect_list'', ''sequence_enrollment_list'', ''sequence_enrollment_detail'',
      ''meeting_list'', ''meeting_detail'', ''crm_export_detail'', ''source_health'', ''service_map''}"

definition starts_with_any :: "string list \<Rightarrow> string \<Rightarrow> bool" where
  "starts_with_any ps s = list_ex (\<lambda>p. prefix p s) ps"

definition ends_with_any :: "string list \<Rightarrow> string \<Rightarrow> bool" where
  "ends_with_any ps s = list_ex (\<lambda>p. suffix p s) ps"

definition read_or :: "string \<Rightarrow> Permission \<Rightarrow> Permission" where
  "read_or name write = (if name \<in> READ_NAMES then CANONICAL_READ else write)"

text \<open>The chain of name tests: the permission and the owning service.\<close>

definition classify_name :: "string \<Rightarrow> string \<Rightarrow> Permission \<times> string" where
  "classify_name name method =
     (if prefix ''reporting_'' name \<or> name = ''kpi_catalog'' then (REPORTING_READ, ''reporting-service'')
      else if starts_with_any [''review_'', ''governance_'', ''suppression_''] name then
        (if method = ''GET'' then GOVERNANCE_READ
         else if ends_with_any [''approve'', ''reject'', ''bulk_decision''] name \<or> prefix ''governance_'' name
         then GOVERNANCE_DECIDE
         else GOVERNANCE_ANNOTATE, ''governance-service'')
      else if prefix ''sequence_'' name then (read_or name SEQUENCE_WRITE, ''sequencing-service'')
      else if starts_with_any [''meeting_'', ''calendar_'', ''prep_packet''] name
      then (read_or name MEETING_WRITE, ''meeting-handoff-service'')
      else if prefix ''crm_'' name then (read_or name CRM_EXPORT, ''crm-service'')
      else if starts_with_any [''enrichment_'', ''email_''] name
      then (read_or name ENRICHMENT_WRITE,
            if prefix ''email_'' name then ''email-intelligence-service'' else ''enrichment-service'')
      else if name \<in> {''candidate_score'', ''lead_score''} then (SCORING_WRITE, ''scoring-routing-service'')
      else if is_substring ''incident'' name \<or> is_substring ''watch_target'' name
      then (read_or name INTELLIGENCE_WRITE, ''incident-intelligence-service'')
      else (read_or name INTELLIGENCE_WRITE, ''event-intelligence-service''))"

definition privileged :: "Permission \<Rightarrow> bool" where
  "privileged p = (p \<in> {GOVERNANCE_DECIDE, GOVERNANCE_OVERRIDE, SECURITY_ADMIN})"

definition domain_policy :: "string \<Rightarrow> string \<Rightarrow> string \<Rightarrow> Permission \<Rightarrow> string \<Rightarrow> OperationPolicy" where
  "domain_policy name path method permission owner =
     \<lparr>pol_operation_id = ''domain.'' @ name, pol_owner = owner, pol_permission = Some permission,
      pol_authentication = AUTH_HUMAN_OR_SERVICE,
      pol_assurance = Some (if privileged permission then PHISHING_RESISTANT else EMAIL_OTP),
      pol_rls = True, pol_audit = (method \<noteq> ''GET'' \<or> privileged permission),
      pol_csrf = (method \<notin> {''GET'', ''HEAD'', ''OPTIONS''}),
      pol_rate_class = (if method = ''GET'' then RATE_READ else RATE_MUTATION),
      pol_maximum_body_bytes = (if method = ''GET'' then 0 else DEFAULT_BODY_BYTES),
      pol_exposure = EXPOSED_GATEWAY, pol_allowed_callers = {''gateway-service'', ''console-service''},
      pol_maximum_authentication_age_seconds = (if privileged permission then Some 900 else None),
      pol_resource = path, pol_test_ids = [''contract:'' @ method @ '':'' @ path]\<rparr>"

text \<open>\<open>sorted(methods - {"HEAD", "OPTIONS"})[0]\<close> raises on an empty list.\<close>

definition classify_domain_operation :: "string \<Rightarrow> string \<Rightarrow> string list \<Rightarrow> error + OperationPolicy" where
  "classify_domain_operation name path methods =
     (case sort (remdups (filter (\<lambda>x. x \<notin> {''HEAD'', ''OPTIONS''}) methods)) of
        [] \<Rightarrow> Inl (IndexError ''list index out of range'')
      | method # _ \<Rightarrow>
          (case classify_name name method of (permission, owner) \<Rightarrow>
             Inr (domain_policy name path method permission owner)))"

section \<open>Resolving a request to an operation\<close>

text \<open>
  \<open>re.sub(r"\{[^/]+\}", r"[^/]+", template)\<close>, then \<open>re.fullmatch\<close>.  The pattern is kept as a
  list of pieces: a literal character, or one or more characters other than the slash.  A
  parameter reaches to the last closing brace of its path segment, as the greedy match
  does.  The characters the route templates use outside parameters (letters, digits, slash,
  hyphen and underscore) have no special meaning in a pattern.
\<close>

datatype path_piece = PathChar char | PathSegment

definition brace_end :: "string \<Rightarrow> string option" where
  "brace_end s =
     (let run = takeWhile (\<lambda>c. c \<noteq> CHR ''/'') s; tail = dropWhile (\<lambda>c. c \<noteq> CHR ''}'') (rev run)
      in if length tail \<le> 1 then None else Some (drop (length tail) s))"

lemma brace_end_shorter: "brace_end s = Some t \<Longrightarrow> length t \<le> length s"
  by (auto simp: brace_end_def Let_def split: if_splits)

function template_pieces :: "string \<Rightarrow> path_piece list" where
  "template_pieces [] = []"
| "template_pieces (c # s) =
     (if c = CHR ''{'' then
        (case brace_end s of
           Some rest \<Rightarrow> PathSegment # template_pieces rest
         | None \<Rightarrow> PathChar c # template_pieces s)
      else PathChar c # template_pieces s)"
  by pat_completeness auto

termination
  by (relation "measure length") (auto dest: brace_end_shorter)

fun pieces_match :: "path_piece list \<Rightarrow> string \<Rightarrow> bool" where
  "pieces_match [] s = (s = [])"
| "pieces_match (PathChar c # ps) [] = False"
| "pieces_match (PathChar c # ps) (x # s) = (x = c \<and> pieces_match ps s)"
| "pieces_match (PathSegment # ps) [] = False"
| "pieces_match (PathSegment # ps) (x # s) =
     (x \<noteq> CHR ''/'' \<and> (pieces_match ps s \<or> pieces_match (PathSegment # ps) s))"

definition template_matches :: "string \<Rightarrow> string \<Rightarrow> bool" where
  "template_matches template path = pieces_match (template_pieces template) path"

definition serves_request :: "string \<Rightarrow> string \<Rightarrow> OperationPolicy \<Rightarrow> bool" where
  "serves_request method path p =
     (prefix ''domain.'' (pol_operation_id p)
      \<and> prefix (''contract:'' @ map char_upper method @ '':'') (case pol_test_ids p of [] \<Rightarrow> [] | t # _ \<Rightarrow> t)
      \<and> template_matches (pol_resource p) path)"

definition operation_id_for_request :: "string \<Rightarrow> string \<Rightarrow> registry \<Rightarrow> error + string" where
  "operation_id_for_request method path reg =
     (case filter (serves_request method path) reg of
        [p] \<Rightarrow> Inr (pol_operation_id p)
      | _ \<Rightarrow> Inl (KeyError (''request has no unique operation policy: '' @ method @ '' '' @ path)))"

section \<open>Requests, responses and the security context\<close>

text \<open>
  A request as the route sees it after the middlewares: its headers by lower-case name, the
  address of the client, the identity the authentication stored on it (if any) and the
  correlation id the perimeter gave it.
\<close>

record HttpRequest =
  rq_method :: string
  rq_path :: string
  rq_headers :: "(string \<times> string) list"
  rq_client :: "string option"
  rq_identity :: "IdentityContext option"
  rq_correlation_id :: string

record HttpResponse =
  rs_status :: nat
  rs_is_json :: bool
  rs_body :: json
  rs_headers :: "(string \<times> string) list"

text \<open>What a handler may raise: an \<open>HTTPException\<close>, or any other exception.\<close>

datatype failure = HTTPException nat string | Raised error

record sec_context =
  current_identity :: "IdentityContext option"
  current_operation :: "string option"

text \<open>A handler reads and writes the context variables and the state \<open>'s\<close> behind it.\<close>

type_synonym 's handler = "HttpRequest \<Rightarrow> sec_context \<times> 's \<Rightarrow> (failure + HttpResponse) \<times> sec_context \<times> 's"

record app =
  app_settings :: Settings
  app_service_name :: string
  app_csrf_validator :: "(HttpRequest \<Rightarrow> bool) option"

definition header_get :: "string \<Rightarrow> HttpRequest \<Rightarrow> string option" where
  "header_get name q = map_of (rq_headers q) name"

fun set_header :: "string \<Rightarrow> string \<Rightarrow> (string \<times> string) list \<Rightarrow> (string \<times> string) list" where
  "set_header k v [] = [(k, v)]"
| "set_header k v ((k', w) # hs) =
     (if k' = k then (k', v) # filter (\<lambda>h. fst h \<noteq> k) hs else (k', w) # set_header k v hs)"

definition security_error :: "nat \<Rightarrow> string \<Rightarrow> string \<Rightarrow> string \<Rightarrow> HttpResponse" where
  "security_error status code message correlation_id =
     \<lparr>rs_status = status, rs_is_json = True,
      rs_body = JObj [(''code'', JStr code), (''message'', JStr message), (''correlation_id'', JStr correlation_id)],
      rs_headers = []\<rparr>"

section \<open>The secured route\<close>

text \<open>The refusal of a request under a policy, in the order of the checks: \<open>None\<close> lets it through.\<close>

definition caller_refusal :: "OperationPolicy \<Rightarrow> IdentityContext \<Rightarrow> HttpRequest \<Rightarrow> HttpResponse option" where
  "caller_refusal p i q =
     (case idn_calling_service i of
        None \<Rightarrow> None
      | Some caller \<Rightarrow>
          if caller \<notin> pol_allowed_callers p
          then Some (security_error 403 ''caller_not_allowed'' ''calling workload is not permitted'' (rq_correlation_id q))
          else (case map_of (idn_attributes i) ''obo_operation'' of
                  None \<Rightarrow> None
                | Some op \<Rightarrow>
                    if op \<noteq> pol_operation_id p
                    then Some (security_error 403 ''operation_binding_denied'' ''represented operation is not permitted''
                                 (rq_correlation_id q))
                    else None))"

definition permission_refusal :: "OperationPolicy \<Rightarrow> IdentityContext \<Rightarrow> int \<Rightarrow> HttpRequest \<Rightarrow> HttpResponse option" where
  "permission_refusal p i now q =
     (case pol_permission p of
        None \<Rightarrow> None
      | Some permission \<Rightarrow>
          (let decision = authorize i permission (case pol_assurance p of Some a \<Rightarrow> a | None \<Rightarrow> EMAIL_OTP)
                            (pol_maximum_authentication_age_seconds p) now
           in if azd_allowed decision then None
              else Some (security_error 403 (azd_code decision) ''operation is not permitted'' (rq_correlation_id q))))"

definition forwards :: "app \<Rightarrow> OperationPolicy \<Rightarrow> bool" where
  "forwards a p = (strict_runtime (app_settings a) \<and> app_service_name a = ''gateway-service''
     \<and> pol_owner p \<noteq> ''gateway-service'')"

definition csrf_refusal :: "app \<Rightarrow> OperationPolicy \<Rightarrow> IdentityContext \<Rightarrow> HttpRequest \<Rightarrow> HttpResponse option" where
  "csrf_refusal a p i q =
     (if pol_csrf p \<and> idn_calling_service i = None \<and> rq_method q \<notin> {''GET'', ''HEAD'', ''OPTIONS''}
      then (case app_csrf_validator a of
              None \<Rightarrow> None
            | Some valid \<Rightarrow>
                if valid q then None
                else Some (security_error 403 ''csrf_denied'' ''CSRF validation failed'' (rq_correlation_id q)))
      else None)"

text \<open>The handler under the caller's identity; the context variables are reset whatever it
  does, and a JSON response is marked as not to be stored.\<close>

definition no_store :: "HttpResponse \<Rightarrow> HttpResponse" where
  "no_store r = (if rs_is_json r then r\<lparr>rs_headers := set_header ''cache-control'' ''no-store'' (rs_headers r)\<rparr> else r)"

definition run_as :: "OperationPolicy \<Rightarrow> IdentityContext \<Rightarrow> 's handler \<Rightarrow> 's handler" where
  "run_as p i original q w =
     (case original q (\<lparr>current_identity = Some i, current_operation = Some (pol_operation_id p)\<rparr>, snd w) of
        (r, c, s) \<Rightarrow> (map_sum id no_store r, fst w, s))"

definition secured ::
  "app \<Rightarrow> registry \<Rightarrow> int \<Rightarrow> (OperationPolicy \<Rightarrow> IdentityContext \<Rightarrow> 's handler) \<Rightarrow> string \<Rightarrow> 's handler \<Rightarrow> 's handler" where
  "secured a reg now forward operation_id original q w =
     (case registry_require operation_id reg of
        Inl _ \<Rightarrow> (Inr (security_error 500 ''unclassified_operation'' ''operation policy is unavailable'' (rq_correlation_id q)), w)
      | Inr p \<Rightarrow>
          if pol_authentication p = AUTH_PUBLIC then original q w
          else (case rq_identity q of
                  None \<Rightarrow> (Inr (security_error 401 ''authentication_required'' ''authentication is required'' (rq_correlation_id q)), w)
                | Some i \<Rightarrow>
                    (case caller_refusal p i q of
                       Some r \<Rightarrow> (Inr r, w)
                     | None \<Rightarrow>
                         (case permission_refusal p i now q of
                            Some r \<Rightarrow> (Inr r, w)
                          | None \<Rightarrow>
                              if forwards a p then forward p i q w
                              else (case csrf_refusal a p i q of
                                      Some r \<Rightarrow> (Inr r, w)
                                    | None \<Rightarrow> run_as p i original q w)))))"

text \<open>\<open>get_route_handler\<close>: registering a route classifies it and secures its handler.\<close>

record route =
  rt_name :: string
  rt_path :: string
  rt_methods :: "string list"
  rt_operation_id :: "string option"

definition route_operation :: "route \<Rightarrow> string" where
  "route_operation r = str_or (rt_operation_id r) (''domain.'' @ rt_name r)"

definition add_route :: "route \<Rightarrow> registry \<Rightarrow> error + registry" where
  "add_route r reg =
     (case classify_domain_operation (rt_name r) (rt_path r) (rt_methods r) of
        Inl e \<Rightarrow> Inl e
      | Inr p \<Rightarrow> registry_ensure p reg)"

fun add_routes :: "route list \<Rightarrow> registry \<Rightarrow> error + registry" where
  "add_routes [] reg = Inr reg"
| "add_routes (r # rs) reg = (case add_route r reg of Inl e \<Rightarrow> Inl e | Inr reg' \<Rightarrow> add_routes rs reg')"

section \<open>The rate limit\<close>

text \<open>\<open>_LIMITS\<close>: the limit, the window in seconds, and whether a failing counter refuses the request.\<close>

definition LIMITS :: "(string \<times> nat \<times> int \<times> bool) list" where
  "LIMITS =
     [(''auth'', 5, 60, True), (''callback'', 20, 60, True), (''session'', 60, 60, True), (''read'', 300, 60, False),
      (''mutation'', 60, 60, True), (''bulk'', 10, 60, True), (''owner'', 600, 60, True)]"

definition rate_classify :: "string \<Rightarrow> HttpRequest \<Rightarrow> string" where
  "rate_classify service q =
     (if rq_path q = ''/auth/callback'' then ''callback''
      else if prefix ''/auth/'' (rq_path q) then (if prefix ''/auth/session'' (rq_path q) then ''session'' else ''auth'')
      else if is_substring ''bulk'' (rq_path q) \<or> is_substring ''export'' (rq_path q) then ''bulk''
      else if service \<noteq> ''gateway-service'' then ''owner''
      else if rq_method q \<in> {''GET'', ''HEAD'', ''OPTIONS''} then ''read'' else ''mutation'')"

definition rate_subject :: "HttpRequest \<Rightarrow> string" where
  "rate_subject q =
     (case rq_identity q of
        Some i \<Rightarrow> represented_subject i
      | None \<Rightarrow> (case rq_client q of Some host \<Rightarrow> host | None \<Rightarrow> ''unknown''))"

text \<open>
  Both counters map a key to its count and the time it expires: the shared one in Redis,
  which the script increments, and the process's own, used when Redis fails and the class
  does not fail closed.  Each request reads three clocks: \<open>int(time.time())\<close>, the clock of
  the Redis server and the monotonic clock of the process; \<open>arr_redis_up\<close> says whether the
  call succeeds.
\<close>

record arrival =
  arr_request :: HttpRequest
  arr_time :: int
  arr_redis_clock :: int
  arr_monotonic :: int
  arr_redis_up :: bool

type_synonym counters = "string \<Rightarrow> (nat \<times> int) option"

record limiter =
  lim_redis :: counters
  lim_local :: counters

definition bump :: "counters \<Rightarrow> string \<Rightarrow> int \<Rightarrow> int \<Rightarrow> nat \<times> counters" where
  "bump cs key now ttl =
     (case cs key of
        Some (n, expires) \<Rightarrow> if expires \<le> now then (1, cs(key \<mapsto> (1, now + ttl))) else (Suc n, cs(key \<mapsto> (Suc n, expires)))
      | None \<Rightarrow> (1, cs(key \<mapsto> (1, now + ttl))))"

definition rate_bucket :: "int \<Rightarrow> int \<Rightarrow> int" where
  "rate_bucket time window = time div window"

definition rate_key :: "string \<Rightarrow> string \<Rightarrow> int \<Rightarrow> string" where
  "rate_key rate_class subject bucket = ''ghostrecon:rate:'' @ rate_class @ '':'' @ subject @ '':'' @ show_int bucket"

definition over_limit :: "int \<Rightarrow> HttpRequest \<Rightarrow> HttpResponse" where
  "over_limit window q =
     (security_error 429 ''rate_limit_exceeded'' ''request rate limit exceeded'' (rq_correlation_id q))
       \<lparr>rs_headers := [(''retry-after'', show_int window)]\<rparr>"

text \<open>The decision on one request: a refusal, or \<open>None\<close> to go on.\<close>

definition rate_decision :: "app \<Rightarrow> arrival \<Rightarrow> limiter \<Rightarrow> HttpResponse option \<times> limiter" where
  "rate_decision a x lm =
     (let q = arr_request x
      in if \<not> strict_runtime (app_settings a) \<or> rq_path q = ''/healthz'' then (None, lm)
         else (let rate_class = rate_classify (app_service_name a) q in
           case map_of LIMITS rate_class of
             None \<Rightarrow> (None, lm)
           | Some (limit, window, fail_closed) \<Rightarrow>
               (let key = rate_key rate_class (rate_subject q) (rate_bucket (arr_time x) window) in
                if arr_redis_up x then
                  (case bump (lim_redis lm) key (arr_redis_clock x) (window + 1) of (count, cs) \<Rightarrow>
                     (if count > limit then Some (over_limit window q) else None, lm\<lparr>lim_redis := cs\<rparr>))
                else if fail_closed then
                  (Some (security_error 503 ''rate_limit_unavailable''
                           ''security rate limiting is temporarily unavailable'' (rq_correlation_id q)), lm)
                else
                  (case bump (lim_local lm) key (arr_monotonic x) window of (count, cs) \<Rightarrow>
                     (if count > limit then Some (over_limit window q) else None, lm\<lparr>lim_local := cs\<rparr>)))))"

definition rate_limited :: "app \<Rightarrow> 's handler \<Rightarrow> arrival \<Rightarrow> limiter \<Rightarrow> sec_context \<times> 's \<Rightarrow> (failure + HttpResponse) \<times> limiter \<times> sec_context \<times> 's" where
  "rate_limited a call_next x lm w =
     (case rate_decision a x lm of
        (Some r, lm') \<Rightarrow> (Inr r, lm', w)
      | (None, lm') \<Rightarrow> (case call_next (arr_request x) w of (r, w') \<Rightarrow> (r, lm', w')))"

section \<open>Laws of the registry\<close>

text \<open>What a route relies on: a policy that was accepted is found under its own id and is never replaced.\<close>

locale policy_store =
  fixes key :: "'p \<Rightarrow> 'k" and get :: "'k \<Rightarrow> 's \<Rightarrow> 'p option" and ensure :: "'p \<Rightarrow> 's \<Rightarrow> 'e + 's"
  assumes get_ensured: "ensure p s = Inr s' \<Longrightarrow> get (key p) s' = Some p"
    and get_kept: "ensure p s = Inr s' \<Longrightarrow> get k s = Some v \<Longrightarrow> get k s' = Some v"
begin

fun ensure_all :: "'p list \<Rightarrow> 's \<Rightarrow> 'e + 's" where
  "ensure_all [] s = Inr s"
| "ensure_all (p # ps) s = (case ensure p s of Inl e \<Rightarrow> Inl e | Inr s' \<Rightarrow> ensure_all ps s')"

lemma all_kept: "ensure_all ps s = Inr s' \<Longrightarrow> get k s = Some v \<Longrightarrow> get k s' = Some v"
  by (induction ps arbitrary: s) (auto split: sum.splits dest: get_kept)

lemma all_ensured: "ensure_all ps s = Inr s' \<Longrightarrow> p \<in> set ps \<Longrightarrow> get (key p) s' = Some p"
  by (induction ps arbitrary: s) (auto split: sum.splits dest: get_ensured all_kept)

end

interpretation policies: policy_store pol_operation_id registry_get registry_ensure
proof
  fix p reg reg'
  assume "registry_ensure p reg = Inr reg'"
  then show "registry_get (pol_operation_id p) reg' = Some p"
    by (cases "registry_get (pol_operation_id p) reg")
      (auto simp: registry_ensure_def registry_get_def row_get_append_new split: if_splits)
next
  fix p reg reg' k v
  assume "registry_ensure p reg = Inr reg'" and "registry_get k reg = Some v"
  then show "registry_get k reg' = Some v"
    by (auto simp: registry_ensure_def registry_get_def row_get_append_old split: option.splits if_splits)
qed

lemma add_routes_policies:
  assumes "add_routes rs reg = Inr reg'"
  obtains ps where "list_all2 (\<lambda>r p. classify_domain_operation (rt_name r) (rt_path r) (rt_methods r) = Inr p) rs ps"
    and "policies.ensure_all ps reg = Inr reg'"
  using assms
proof (induction rs arbitrary: reg thesis)
  case (Cons r rs)
  from Cons.prems(2) obtain p reg1 where p: "classify_domain_operation (rt_name r) (rt_path r) (rt_methods r) = Inr p"
      and e: "registry_ensure p reg = Inr reg1" and rest: "add_routes rs reg1 = Inr reg'"
    by (auto simp: add_route_def split: sum.splits)
  from Cons.IH [OF _ rest] obtain ps
    where "list_all2 (\<lambda>r p. classify_domain_operation (rt_name r) (rt_path r) (rt_methods r) = Inr p) rs ps"
      and "policies.ensure_all ps reg1 = Inr reg'" by blast
  with p e show ?case by (intro Cons.prems(1) [of "p # ps"]) auto
qed simp

lemma classified_domain:
  assumes "classify_domain_operation name path methods = Inr p"
  obtains verb where "verb \<in> set methods" and "verb \<notin> {''HEAD'', ''OPTIONS''}"
    and "p = domain_policy name path verb (fst (classify_name name verb)) (snd (classify_name name verb))"
proof -
  let ?ms = "sort (remdups (filter (\<lambda>x. x \<notin> {''HEAD'', ''OPTIONS''}) methods))"
  from assms obtain m ms where ms: "?ms = m # ms"
    by (auto simp: classify_domain_operation_def split: list.splits)
  then have "m \<in> set ?ms" by simp
  then have "m \<in> set methods" "m \<notin> {''HEAD'', ''OPTIONS''}" by auto
  moreover have "p = domain_policy name path m (fst (classify_name name m)) (snd (classify_name name m))"
    using assms ms by (simp add: classify_domain_operation_def split: prod.splits)
  ultimately show ?thesis using that by blast
qed

lemma add_routes_classified:
  assumes "add_routes rs reg = Inr reg'" and "r \<in> set rs" and "rt_operation_id r = None"
  obtains p where "classify_domain_operation (rt_name r) (rt_path r) (rt_methods r) = Inr p"
    and "registry_get (route_operation r) reg' = Some p"
proof -
  from assms(1) obtain ps
    where l: "list_all2 (\<lambda>r p. classify_domain_operation (rt_name r) (rt_path r) (rt_methods r) = Inr p) rs ps"
      and e: "policies.ensure_all ps reg = Inr reg'" by (rule add_routes_policies)
  from l assms(2) obtain p where p: "p \<in> set ps" "classify_domain_operation (rt_name r) (rt_path r) (rt_methods r) = Inr p"
    by (induction rule: list_all2_induct) auto
  have "pol_operation_id p = route_operation r"
    using p(2) assms(3) by (auto elim!: classified_domain simp: domain_policy_def route_operation_def str_or_def)
  with policies.all_ensured [OF e p(1)] p(2) that show ?thesis by simp
qed

section \<open>What a secured route lets through\<close>

text \<open>The condition a policy puts on the caller.\<close>

definition admits :: "OperationPolicy \<Rightarrow> IdentityContext \<Rightarrow> int \<Rightarrow> bool" where
  "admits p i now =
     ((\<forall>caller. idn_calling_service i = Some caller \<longrightarrow> caller \<in> pol_allowed_callers p
         \<and> map_of (idn_attributes i) ''obo_operation'' \<in> {None, Some (pol_operation_id p)})
      \<and> (\<forall>permission. pol_permission p = Some permission \<longrightarrow>
           permission_value permission \<in> idn_permissions i
           \<and> assurance_satisfies (idn_assurance i) (case pol_assurance p of Some a \<Rightarrow> a | None \<Rightarrow> EMAIL_OTP)
           \<and> (\<forall>m. pol_maximum_authentication_age_seconds p = Some m \<longrightarrow> authentication_age_seconds i now \<le> of_int m)))"

lemma refusals_None: "caller_refusal p i q = None \<and> permission_refusal p i now q = None \<longleftrightarrow> admits p i now"
  by (auto simp: caller_refusal_def permission_refusal_def admits_def authorize_def Let_def
      split: option.splits if_splits)

lemma refusal_status:
  "caller_refusal p i q = Some r \<Longrightarrow> rs_status r = 403"
  "permission_refusal p i now q = Some r \<Longrightarrow> rs_status r = 403"
  "csrf_refusal a p i q = Some r \<Longrightarrow> rs_status r = 403"
  by (auto simp: caller_refusal_def permission_refusal_def csrf_refusal_def security_error_def Let_def
      split: option.splits if_splits)

lemma secured_cases [consumes 1, case_names unknown public refused forwarded handled]:
  assumes "secured a reg now fw op h q w = (r, w')"
  obtains (unknown) resp where "registry_get op reg = None" and "r = Inr resp" and "rs_status resp = 500" and "w' = w"
    | (public) p where "registry_get op reg = Some p" and "pol_authentication p = AUTH_PUBLIC" and "h q w = (r, w')"
    | (refused) p resp where "registry_get op reg = Some p" and "r = Inr resp" and "rs_status resp \<in> {401, 403}" and "w' = w"
    | (forwarded) p i where "registry_get op reg = Some p" and "rq_identity q = Some i" and "admits p i now"
        and "forwards a p" and "fw p i q w = (r, w')"
    | (handled) p i where "registry_get op reg = Some p" and "rq_identity q = Some i" and "admits p i now"
        and "\<not> forwards a p" and "csrf_refusal a p i q = None" and "run_as p i h q w = (r, w')"
proof (cases "registry_get op reg")
  case None
  with assms show ?thesis by (intro unknown) (auto simp: secured_def registry_require_def security_error_def)
next
  case (Some p)
  have eq: "secured a reg now fw op h q w =
    (if pol_authentication p = AUTH_PUBLIC then h q w else
      (case rq_identity q of
         None \<Rightarrow> (Inr (security_error 401 ''authentication_required'' ''authentication is required'' (rq_correlation_id q)), w)
       | Some i \<Rightarrow> (case caller_refusal p i q of Some r \<Rightarrow> (Inr r, w) | None \<Rightarrow>
           (case permission_refusal p i now q of Some r \<Rightarrow> (Inr r, w) | None \<Rightarrow>
             if forwards a p then fw p i q w
             else (case csrf_refusal a p i q of Some r \<Rightarrow> (Inr r, w) | None \<Rightarrow> run_as p i h q w)))))"
    using Some by (simp add: secured_def registry_require_def)
  show ?thesis
  proof (cases "pol_authentication p = AUTH_PUBLIC")
    case True
    with eq assms Some show ?thesis by (intro public) auto
  next
    case priv: False
    show ?thesis
    proof (cases "rq_identity q")
      case None
      with eq priv assms Some show ?thesis by (intro refused) (auto simp: security_error_def)
    next
      case id: (Some i)
      show ?thesis
      proof (cases "admits p i now")
        case False
        with refusals_None [of p i q now] eq priv id assms Some show ?thesis
          by (auto split: option.splits dest: refusal_status intro: refused)
      next
        case True
        with refusals_None [of p i q now] have "caller_refusal p i q = None" "permission_refusal p i now q = None" by auto
        with True eq priv id assms Some show ?thesis
          by (auto split: option.splits if_splits dest: refusal_status intro: refused forwarded handled)
      qed
    qed
  qed
qed

text \<open>A request that is forwarded is forwarded whatever the CSRF validator would say of it.\<close>

lemma forwarded_unchecked:
  assumes "registry_get op reg = Some p" and "forwards a p"
  shows "secured (a\<lparr>app_csrf_validator := v\<rparr>) reg now fw op h q w = secured a reg now fw op h q w"
proof -
  have "forwards (a\<lparr>app_csrf_validator := v\<rparr>) p" using assms(2) by (simp add: forwards_def)
  with assms show ?thesis by (simp add: secured_def registry_require_def split: option.split)
qed

text \<open>C10: A domain route fails closed: through a route registered with the secured route class, a
  request reaches the handler, or the service that owns the operation, only with an identity
  that holds the permission the route's name is classified under, at a human assurance level,
  for a privileged permission phishing-resistant and authenticated within fifteen minutes; a
  calling workload must be the gateway or the console and bound to this very operation.  Where
  the process serves the request itself, a change asked for by a browser also passes the CSRF
  check; where the gateway forwards the request, no CSRF check is made: the outcome is the same
  whatever the validator.  Every other request gets 401 or 403 and changes nothing.\<close>

theorem secured_gate:
  assumes "add_routes rs reg0 = Inr reg" and "rt \<in> set rs" and "rt_operation_id rt = None"
    and "secured a reg now fw (route_operation rt) h q w = (r, w')"
  shows "(\<exists>resp. r = Inr resp \<and> rs_status resp \<in> {401, 403} \<and> w' = w)
    \<or> (\<exists>i p method. rq_identity q = Some i \<and> method \<in> set (rt_methods rt) - {''HEAD'', ''OPTIONS''}
        \<and> registry_get (route_operation rt) reg = Some p
        \<and> (let permission = fst (classify_name (rt_name rt) method) in
             permission_value permission \<in> idn_permissions i \<and> idn_assurance i \<noteq> WORKLOAD
             \<and> (privileged permission \<longrightarrow> idn_assurance i = PHISHING_RESISTANT \<and> authentication_age_seconds i now \<le> 900))
        \<and> (\<forall>c. idn_calling_service i = Some c \<longrightarrow> c \<in> {''gateway-service'', ''console-service''}
             \<and> map_of (idn_attributes i) ''obo_operation'' \<in> {None, Some (''domain.'' @ rt_name rt)})
        \<and> (if forwards a p
           then fw p i q w = (r, w') \<and> (\<forall>v. secured (a\<lparr>app_csrf_validator := v\<rparr>) reg now fw (route_operation rt) h q w = (r, w'))
           else run_as p i h q w = (r, w')
             \<and> (idn_calling_service i = None \<and> method \<noteq> ''GET'' \<and> rq_method q \<notin> {''GET'', ''HEAD'', ''OPTIONS''}
                  \<longrightarrow> (\<forall>valid. app_csrf_validator a = Some valid \<longrightarrow> valid q))))"
proof -
  from assms(1-3) obtain p where c: "classify_domain_operation (rt_name rt) (rt_path rt) (rt_methods rt) = Inr p"
    and g: "registry_get (route_operation rt) reg = Some p" by (rule add_routes_classified)
  from c obtain m where m: "m \<in> set (rt_methods rt) - {''HEAD'', ''OPTIONS''}"
    and p: "p = domain_policy (rt_name rt) (rt_path rt) m (fst (classify_name (rt_name rt) m)) (snd (classify_name (rt_name rt) m))"
    by (rule classified_domain) auto
  let ?perm = "fst (classify_name (rt_name rt) m)"
  have ok: "permission_value ?perm \<in> idn_permissions i \<and> idn_assurance i \<noteq> WORKLOAD
      \<and> (privileged ?perm \<longrightarrow> idn_assurance i = PHISHING_RESISTANT \<and> authentication_age_seconds i now \<le> 900)
      \<and> (\<forall>c. idn_calling_service i = Some c \<longrightarrow> c \<in> {''gateway-service'', ''console-service''}
           \<and> map_of (idn_attributes i) ''obo_operation'' \<in> {None, Some (''domain.'' @ rt_name rt)})"
    if "admits p i now" for i
    using that by (cases "idn_assurance i") (auto simp: admits_def p domain_policy_def assurance_satisfies_def split: if_splits)
  from assms(4) show ?thesis
  proof (cases rule: secured_cases)
    case (forwarded p' i)
    with g have p': "p' = p" by simp
    have "secured (a\<lparr>app_csrf_validator := v\<rparr>) reg now fw (route_operation rt) h q w = (r, w')" for v
      using forwarded_unchecked [OF g forwarded(4) [unfolded p'], of v now fw h q w] assms(4) by simp
    with forwarded p' g ok [of i] m show ?thesis unfolding Let_def by (intro disjI2 exI [of _ i] exI [of _ p] exI [of _ m]) auto
  next
    case (handled p' i)
    have "\<forall>valid. app_csrf_validator a = Some valid \<longrightarrow> valid q"
      if "idn_calling_service i = None" "m \<noteq> ''GET''" "rq_method q \<notin> {''GET'', ''HEAD'', ''OPTIONS''}"
      using handled(1,5) g that m by (auto simp: csrf_refusal_def p domain_policy_def split: if_splits)
    with handled g ok [of i] m show ?thesis
      unfolding Let_def by (intro disjI2 exI [of _ i] exI [of _ p] exI [of _ m]) auto
  qed (use g p in \<open>auto simp: domain_policy_def\<close>)
qed

section \<open>The rate limit holds\<close>

lemma rate_class_known: "\<exists>limit fail_closed. map_of LIMITS (rate_classify service q) = Some (limit, 60, fail_closed)"
proof -
  have "rate_classify service q \<in> {''auth'', ''callback'', ''session'', ''read'', ''mutation'', ''bulk'', ''owner''}"
    by (simp add: rate_classify_def)
  then show ?thesis by (auto simp: LIMITS_def)
qed

definition counter_value :: "counters \<Rightarrow> string \<Rightarrow> nat" where
  "counter_value cs key = (case cs key of None \<Rightarrow> 0 | Some (n, _) \<Rightarrow> n)"

definition live :: "counters \<Rightarrow> string \<Rightarrow> int \<Rightarrow> bool" where
  "live cs key t = (case cs key of None \<Rightarrow> True | Some (_, expires) \<Rightarrow> t < expires)"

lemma bump_live:
  assumes "live cs key t" and "now \<le> t" and "t < now + ttl"
  obtains cs' where "bump cs key now ttl = (Suc (counter_value cs key), cs')" and "counter_value cs' key = Suc (counter_value cs key)"
    and "live cs' key t"
  using assms by (auto simp: bump_def live_def counter_value_def split: option.splits)

lemma bump_other:
  assumes "bump cs k now ttl = (n, cs')" and "k \<noteq> key"
  shows "counter_value cs' key = counter_value cs key" and "live cs' key t = live cs key t"
  using assms by (auto simp: bump_def live_def counter_value_def split: option.splits if_splits)

text \<open>The requests of a sequence that the limit lets through, in order.\<close>

fun let_through :: "app \<Rightarrow> arrival list \<Rightarrow> limiter \<Rightarrow> arrival list" where
  "let_through a [] lm = []"
| "let_through a (x # xs) lm =
     (case rate_decision a x lm of
        (Some _, lm') \<Rightarrow> let_through a xs lm'
      | (None, lm') \<Rightarrow> x # let_through a xs lm')"

definition arrival_key :: "app \<Rightarrow> arrival \<Rightarrow> string" where
  "arrival_key a x = rate_key (rate_classify (app_service_name a) (arr_request x)) (rate_subject (arr_request x))
     (rate_bucket (arr_time x) 60)"

definition counted :: "app \<Rightarrow> string \<Rightarrow> string \<Rightarrow> int \<Rightarrow> arrival \<Rightarrow> bool" where
  "counted a rate_class subject bucket x =
     (rq_path (arr_request x) \<noteq> ''/healthz'' \<and> rate_classify (app_service_name a) (arr_request x) = rate_class
      \<and> rate_subject (arr_request x) = subject \<and> rate_bucket (arr_time x) 60 = bucket)"

text \<open>Both counters of a key outlive the clocks' view of its bucket.\<close>

definition fresh_until :: "string \<Rightarrow> int \<Rightarrow> int \<Rightarrow> limiter \<Rightarrow> bool" where
  "fresh_until key t m lm = (live (lim_redis lm) key (t + 60) \<and> live (lim_local lm) key (m + 59))"

definition allowance :: "nat \<Rightarrow> bool \<Rightarrow> string \<Rightarrow> limiter \<Rightarrow> nat" where
  "allowance limit fail_closed key lm =
     (limit - counter_value (lim_redis lm) key) + (if fail_closed then 0 else limit - counter_value (lim_local lm) key)"

lemma decision_step:
  assumes "strict_runtime (app_settings a)" and "rq_path (arr_request x) \<noteq> ''/healthz''"
    and "map_of LIMITS (rate_classify (app_service_name a) (arr_request x)) = Some (limit, 60, fail_closed)"
  shows "rate_decision a x lm =
    (if arr_redis_up x then
       (case bump (lim_redis lm) (arrival_key a x) (arr_redis_clock x) 61 of (count, cs) \<Rightarrow>
          (if count > limit then Some (over_limit 60 (arr_request x)) else None, lm\<lparr>lim_redis := cs\<rparr>))
     else if fail_closed then
       (Some (security_error 503 ''rate_limit_unavailable''
                ''security rate limiting is temporarily unavailable'' (rq_correlation_id (arr_request x))), lm)
     else
       (case bump (lim_local lm) (arrival_key a x) (arr_monotonic x) 60 of (count, cs) \<Rightarrow>
          (if count > limit then Some (over_limit 60 (arr_request x)) else None, lm\<lparr>lim_local := cs\<rparr>)))"
  using assms by (simp add: rate_decision_def Let_def arrival_key_def)

lemma step_other_key:
  assumes "rate_decision a x lm = (r, lm')" and "arrival_key a x \<noteq> key"
  shows "fresh_until key t m lm' = fresh_until key t m lm" and "allowance limit fc key lm' = allowance limit fc key lm"
proof -
  have "fresh_until key t m lm' = fresh_until key t m lm \<and> allowance limit fc key lm' = allowance limit fc key lm"
  proof (cases "strict_runtime (app_settings a) \<and> rq_path (arr_request x) \<noteq> ''/healthz''")
    case False
    with assms show ?thesis by (auto simp: rate_decision_def Let_def)
  next
    case True
    from rate_class_known obtain l c
      where "map_of LIMITS (rate_classify (app_service_name a) (arr_request x)) = Some (l, 60, c)" by blast
    from assms(1) [unfolded decision_step [OF conjunct1 [OF True] conjunct2 [OF True] this]] assms(2) show ?thesis
      by (auto simp: fresh_until_def allowance_def bump_other split: if_splits prod.splits)
  qed
  then show "fresh_until key t m lm' = fresh_until key t m lm" and "allowance limit fc key lm' = allowance limit fc key lm"
    by auto
qed

lemma step_same_key:
  assumes "strict_runtime (app_settings a)" and "rq_path (arr_request x) \<noteq> ''/healthz''"
    and "map_of LIMITS (rate_classify (app_service_name a) (arr_request x)) = Some (l, 60, fc)"
    and "rate_decision a x lm = (r, lm')" and "fresh_until (arrival_key a x) t m lm"
    and "t \<le> arr_redis_clock x" "arr_redis_clock x \<le> t + 60" and "m \<le> arr_monotonic x" "arr_monotonic x < m + 60"
  shows "fresh_until (arrival_key a x) t m lm'"
    and "allowance limit fail_closed (arrival_key a x) lm' \<le> allowance limit fail_closed (arrival_key a x) lm"
    and "l = limit \<Longrightarrow> fc = fail_closed \<Longrightarrow> r = None
      \<Longrightarrow> Suc (allowance limit fail_closed (arrival_key a x) lm') \<le> allowance limit fail_closed (arrival_key a x) lm"
proof -
  let ?k = "arrival_key a x"
  note step = assms(4) [unfolded decision_step [OF assms(1-3)]]
  have live: "live (lim_redis lm) ?k (t + 60)" "live (lim_local lm) ?k (m + 59)"
    using assms(5) by (simp_all add: fresh_until_def)
  from bump_live [OF live(1) assms(7), of 61] assms(6) obtain cs
    where shared: "bump (lim_redis lm) ?k (arr_redis_clock x) 61 = (Suc (counter_value (lim_redis lm) ?k), cs)"
      "counter_value cs ?k = Suc (counter_value (lim_redis lm) ?k)" "live cs ?k (t + 60)" by auto
  from bump_live [OF live(2), of "arr_monotonic x" 60] assms(8,9) obtain ds
    where own: "bump (lim_local lm) ?k (arr_monotonic x) 60 = (Suc (counter_value (lim_local lm) ?k), ds)"
      "counter_value ds ?k = Suc (counter_value (lim_local lm) ?k)" "live ds ?k (m + 59)" by auto
  have "fresh_until ?k t m lm' \<and> allowance limit fail_closed ?k lm' \<le> allowance limit fail_closed ?k lm
    \<and> (l = limit \<longrightarrow> fc = fail_closed \<longrightarrow> r = None \<longrightarrow> Suc (allowance limit fail_closed ?k lm') \<le> allowance limit fail_closed ?k lm)"
  proof (cases "arr_redis_up x")
    case True
    with step shared live show ?thesis by (auto simp: fresh_until_def allowance_def split: if_splits)
  next
    case False
    with step own live show ?thesis by (cases fc) (auto simp: fresh_until_def allowance_def split: if_splits)
  qed
  then show "fresh_until ?k t m lm'" and "allowance limit fail_closed ?k lm' \<le> allowance limit fail_closed ?k lm"
    and "l = limit \<Longrightarrow> fc = fail_closed \<Longrightarrow> r = None
      \<Longrightarrow> Suc (allowance limit fail_closed ?k lm') \<le> allowance limit fail_closed ?k lm"
    by auto
qed

text \<open>The clocks' view of the minute of a key: what every request counted under it reads.\<close>

definition within_minute :: "int \<Rightarrow> int \<Rightarrow> arrival \<Rightarrow> bool" where
  "within_minute t m x =
     (t \<le> arr_redis_clock x \<and> arr_redis_clock x \<le> t + 60 \<and> m \<le> arr_monotonic x \<and> arr_monotonic x < m + 60)"

lemma let_through_bound:
  assumes strict: "strict_runtime (app_settings a)" and limit: "map_of LIMITS rate_class = Some (limit, 60, fail_closed)"
    and key: "key = rate_key rate_class subject bucket"
  shows "\<forall>x \<in> set xs. arrival_key a x = key \<longrightarrow> within_minute t m x \<Longrightarrow> fresh_until key t m lm
    \<Longrightarrow> length (filter (counted a rate_class subject bucket) (let_through a xs lm)) \<le> allowance limit fail_closed key lm"
proof (induction xs arbitrary: lm)
  case (Cons x xs)
  obtain r lm' where d: "rate_decision a x lm = (r, lm')" by fastforce
  have IH: "length (filter (counted a rate_class subject bucket) (let_through a xs lm')) \<le> allowance limit fail_closed key lm'"
    if "fresh_until key t m lm'" using Cons.IH [OF _ that] Cons.prems(1) by simp
  show ?case
  proof (cases "arrival_key a x = key \<and> rq_path (arr_request x) \<noteq> ''/healthz''")
    case False
    then have "\<not> counted a rate_class subject bucket x" by (auto simp: counted_def arrival_key_def key)
    moreover have "fresh_until key t m lm' \<and> allowance limit fail_closed key lm' = allowance limit fail_closed key lm"
    proof (cases "arrival_key a x = key")
      case True
      with False d Cons.prems(2) show ?thesis by (simp add: rate_decision_def Let_def)
    next
      case other: False
      from step_other_key [OF d other] Cons.prems(2) show ?thesis by simp
    qed
    ultimately show ?thesis using IH d by (auto split: option.splits)
  next
    case True
    from rate_class_known obtain l c
      where lc: "map_of LIMITS (rate_classify (app_service_name a) (arr_request x)) = Some (l, 60, c)" by blast
    from Cons.prems(1) True have w: "t \<le> arr_redis_clock x" "arr_redis_clock x \<le> t + 60" "m \<le> arr_monotonic x" "arr_monotonic x < m + 60"
      by (auto simp: within_minute_def)
    note s = step_same_key [OF strict conjunct2 [OF True] lc d _ w, unfolded conjunct1 [OF True], OF Cons.prems(2)]
    have "Suc (allowance limit fail_closed key lm') \<le> allowance limit fail_closed key lm"
      if "r = None" "counted a rate_class subject bucket x"
      using s(3) [of limit fail_closed] lc limit that by (auto simp: counted_def)
    with IH [OF s(1)] s(2) [of limit fail_closed] d show ?thesis by (auto split: option.splits)
  qed
qed simp

text \<open>C37: In one minute, at most the limit of its class of requests of one subject go through,
  whatever else arrives and whenever the shared counter fails; only reads, which go on with the
  process's own counter when the shared one fails, can have twice their limit.  The minute starts
  with unused counters, and while it lasts the clocks advance by no more than a minute.\<close>

theorem rate_limit_bounds:
  assumes "strict_runtime (app_settings a)" and "map_of LIMITS rate_class = Some (limit, window, fail_closed)"
    and "lim_redis lm (rate_key rate_class subject bucket) = None" and "lim_local lm (rate_key rate_class subject bucket) = None"
    and "\<forall>x \<in> set xs. arrival_key a x = rate_key rate_class subject bucket \<longrightarrow> within_minute t m x"
  shows "length (filter (counted a rate_class subject bucket) (let_through a xs lm))
    \<le> (if fail_closed then limit else 2 * limit)"
proof -
  have "window = 60" using assms(2) by (auto simp: LIMITS_def split: if_splits)
  with let_through_bound [OF assms(1) _ refl assms(5), of limit fail_closed lm] assms(2-4) show ?thesis
    by (auto simp: fresh_until_def live_def allowance_def counter_value_def)
qed

section \<open>Resolving requests\<close>

text \<open>A request that two policies serve is never resolved, and registering further routes does not help.\<close>

lemma ensure_grows: "registry_ensure p reg = Inr reg' \<Longrightarrow> \<exists>new. reg' = reg @ new"
  by (auto simp: registry_ensure_def split: option.splits if_splits)

lemma add_routes_grow: "add_routes rs reg = Inr reg' \<Longrightarrow> \<exists>new. reg' = reg @ new"
proof (induction rs arbitrary: reg)
  case (Cons r rs)
  then obtain reg1 where "add_route r reg = Inr reg1" and rest: "add_routes rs reg1 = Inr reg'" by (auto split: sum.splits)
  then have "\<exists>new. reg1 = reg @ new" by (auto simp: add_route_def dest: ensure_grows split: sum.splits)
  with Cons.IH [OF rest] show ?case by auto
qed simp

lemma ambiguous_request:
  assumes "p \<in> set reg" and "p' \<in> set reg" and "p \<noteq> p'" and "serves_request method path p" and "serves_request method path p'"
  shows "\<exists>msg. operation_id_for_request method path (reg @ new) = Inl (KeyError msg)"
proof -
  define ms where "ms = filter (serves_request method path) (reg @ new)"
  have "p \<in> set ms" "p' \<in> set ms" using assms by (auto simp: ms_def)
  then have "\<nexists>x. ms = [x]" using assms(3) by auto
  then show ?thesis unfolding operation_id_for_request_def ms_def [symmetric] by (auto split: list.splits)
qed

end
