(* ===== verification/Http_Api.thy ===== *)
theory Http_Api
  imports Access_Control Outreach Crm_Export
begin

text \<open>
  The HTTP endpoints of the modelled services (\<open>service_apps/routers\<close>: \<open>governance.py\<close>,
  \<open>crm.py\<close>, \<open>scoring.py\<close>, \<open>sequence_definitions.py\<close>, \<open>sequence_enrollments.py\<close>,
  \<open>sequence_activities.py\<close>, \<open>dependencies.py\<close>) and their composition with the secured route.

  A route function takes the arguments FastAPI has parsed and the actor of the verified
  identity; it maps the exceptions of the service to HTTP errors.  Parsing a request is a
  parameter: it yields the arguments or the error response's exception.  Response bodies are
  the dictionaries of the response models.

  Not modelled here: the endpoints over the review list and its edits, whose service is not part of the model; those over
  meetings are in \<open>Meetings\<close> and those over prospects in \<open>Prospects\<close>.
\<close>

section \<open>Errors\<close>

text \<open>\<open>except ValueError\<close> also catches its subclasses.\<close>

fun caught_as_value_error :: "error \<Rightarrow> bool" where
  "caught_as_value_error (ValueError _) = True"
| "caught_as_value_error (PolicySkip _) = True"
| "caught_as_value_error ValidationError = True"
| "caught_as_value_error (SyntheticPersistenceError _ _) = True"
| "caught_as_value_error _ = False"

definition conflict :: "error + 'a \<Rightarrow> failure + 'a" where
  "conflict r =
     (case r of
        Inl e \<Rightarrow> Inl (if caught_as_value_error e then HTTPException 409 (error_text e) else Raised e)
      | Inr x \<Rightarrow> Inr x)"

definition uncaught :: "error + 'a \<Rightarrow> failure + 'a" where
  "uncaught r = (case r of Inl e \<Rightarrow> Inl (Raised e) | Inr x \<Rightarrow> Inr x)"

definition or_404 :: "string \<Rightarrow> failure + 'a option \<Rightarrow> failure + 'a" where
  "or_404 message r =
     (case r of
        Inl e \<Rightarrow> Inl e
      | Inr None \<Rightarrow> Inl (HTTPException 404 message)
      | Inr (Some x) \<Rightarrow> Inr x)"

text \<open>The outcome of a service call turned into the outcome of a route function.\<close>

type_synonym 'a reply = "db \<Rightarrow> (failure + 'a) \<times> db"

definition reply :: "(error + 'a \<Rightarrow> failure + 'b) \<Rightarrow> ('b \<Rightarrow> json) \<Rightarrow> 'a op \<Rightarrow> json reply" where
  "reply outcome encode f db = (case f db of (r, db') \<Rightarrow> (map_sum id encode (outcome r), db'))"

section \<open>Governance\<close>

definition decision_json :: "ReviewDecision \<Rightarrow> json" where
  "decision_json d = JObj (review_decision_to_api d)"

definition suppression_create :: "env \<Rightarrow> SuppressionCreate \<Rightarrow> string \<Rightarrow> string \<Rightarrow> json reply" where
  "suppression_create env q key actor = reply uncaught (\<lambda>s. JObj (suppression_to_api s)) (create_suppression env (q, actor) key)"

definition suppression_check :: "env \<Rightarrow> SuppressionCheckRequest \<Rightarrow> json reply" where
  "suppression_check env q =
     reply uncaught (\<lambda>r. JObj [(''allowed'', JBool (scx_allowed r)), (''reason'', opt_str (scx_reason r))])
       (evaluate_suppression_with_store env q)"

definition review_candidate_approve :: "env \<Rightarrow> string \<Rightarrow> ReviewDecisionRequest \<Rightarrow> string \<Rightarrow> string \<Rightarrow> json reply" where
  "review_candidate_approve env candidate_id q key actor =
     reply (\<lambda>r. or_404 ''review candidate not found'' (conflict r)) decision_json
       (approve_review_candidate env \<lparr>dcl_candidate_id = candidate_id, dcl_request = q, dcl_actor = actor\<rparr> key)"

definition review_candidate_reject :: "env \<Rightarrow> string \<Rightarrow> ReviewDecisionRequest \<Rightarrow> string \<Rightarrow> string \<Rightarrow> json reply" where
  "review_candidate_reject env candidate_id q key actor =
     reply (\<lambda>r. or_404 ''review candidate not found'' (conflict r)) decision_json
       (reject_review_candidate env \<lparr>dcl_candidate_id = candidate_id, dcl_request = q, dcl_actor = actor\<rparr> key)"

definition review_candidates_bulk_decision :: "env \<Rightarrow> BulkReviewDecisionRequest \<Rightarrow> string \<Rightarrow> string \<Rightarrow> json reply" where
  "review_candidates_bulk_decision env q key actor =
     reply conflict (\<lambda>ds. JObj [(''decisions'', JArr (map decision_json ds))])
       (bulk_decide_review_candidates env q actor key)"

definition review_crm_targets :: "env \<Rightarrow> string option \<Rightarrow> string option \<Rightarrow> nat \<Rightarrow> json reply" where
  "review_crm_targets env status target_type limit =
     reply uncaught (\<lambda>ts. JObj [(''crm_targets'', JArr (map (\<lambda>t. JObj (crm_target_to_api t)) ts))])
       (list_crm_targets env status target_type limit)"

definition review_crm_target_update :: "env \<Rightarrow> string \<Rightarrow> CrmTargetUpdateRequest \<Rightarrow> string \<Rightarrow> json reply" where
  "review_crm_target_update env target_id q actor =
     reply (\<lambda>r. or_404 ''crm target not found'' (uncaught r)) (\<lambda>t. JObj (crm_target_to_api t))
       (update_crm_target env target_id q actor)"

definition governance_corroborate_incident :: "env \<Rightarrow> string \<Rightarrow> IncidentDecisionRequest \<Rightarrow> string \<Rightarrow> string \<Rightarrow> json reply" where
  "governance_corroborate_incident env incident_id q key actor =
     reply (\<lambda>r. or_404 ''incident not found'' (conflict r)) decision_json
       (corroborate_incident env \<lparr>icl_incident_id = incident_id, icl_request = q, icl_actor = actor\<rparr> key)"

definition governance_reject_incident :: "env \<Rightarrow> string \<Rightarrow> IncidentDecisionRequest \<Rightarrow> string \<Rightarrow> string \<Rightarrow> json reply" where
  "governance_reject_incident env incident_id q key actor =
     reply (\<lambda>r. or_404 ''incident not found'' (conflict r)) decision_json
       (reject_incident env \<lparr>icl_incident_id = incident_id, icl_request = q, icl_actor = actor\<rparr> key)"

definition governance_revert_incident :: "env \<Rightarrow> string \<Rightarrow> IncidentDecisionRequest \<Rightarrow> string \<Rightarrow> string \<Rightarrow> json reply" where
  "governance_revert_incident env incident_id q key actor =
     reply (\<lambda>r. or_404 ''incident not found'' (conflict r)) decision_json
       (revert_incident env \<lparr>icl_incident_id = incident_id, icl_request = q, icl_actor = actor\<rparr> key)"

section \<open>CRM exports and scoring\<close>

definition crm_export_start ::
  "env \<Rightarrow> (nat \<Rightarrow> string \<Rightarrow> string \<Rightarrow> dict \<Rightarrow> error + dict) \<Rightarrow> CrmExportCreateRequest \<Rightarrow> string \<Rightarrow> string \<Rightarrow> json reply" where
  "crm_export_start env http q key actor = reply conflict JObj (start_crm_export env http None q actor key)"

definition crm_export_detail :: "env \<Rightarrow> string \<Rightarrow> json reply" where
  "crm_export_detail env batch_id =
     reply (\<lambda>r. or_404 ''crm export batch not found'' (uncaught r)) JObj (get_crm_export_batch env batch_id)"

definition crm_export_retry_failed ::
  "env \<Rightarrow> (nat \<Rightarrow> string \<Rightarrow> string \<Rightarrow> dict \<Rightarrow> error + dict) \<Rightarrow> string \<Rightarrow> CrmExportRetryRequest option \<Rightarrow> json reply" where
  "crm_export_retry_failed env http batch_id q =
     reply (\<lambda>r. or_404 ''crm export batch not found'' (conflict r)) JObj
       (retry_failed_crm_export_items env http None batch_id q)"

definition lead_score :: "ScoreRequest \<Rightarrow> json reply" where
  "lead_score q =
     reply uncaught
       (\<lambda>s. JObj [(''fit_score'', JInt (srs_fit_score s)), (''intent_score'', JInt (srs_intent_score s)),
          (''composite_score'', JInt (srs_composite_score s)), (''threshold_met'', JBool (srs_threshold_met s)),
          (''reasons'', JArr (map JStr (srs_reasons s)))])
       (\<lambda>db. (score_lead q, db))"

definition candidate_score :: "env \<Rightarrow> CandidateScoreRequest \<Rightarrow> string \<Rightarrow> json reply" where
  "candidate_score env q key db =
     (case create_candidate_score env q key db of
        (Inl e, db') \<Rightarrow> (Inl (Raised e), db')
      | (Inr s, db') \<Rightarrow> (map_sum Raised JObj (candidate_score_to_api s), db'))"

definition sequence_eligibility :: "SequenceEligibilityRequest \<Rightarrow> json reply" where
  "sequence_eligibility q db =
     (let r = evaluate_sequence_eligibility q
      in (Inr (JObj [(''eligible'', JBool (elr_eligible r)), (''next_action'', JStr (elr_next_action r)),
            (''requires_approval'', JBool (elr_requires_approval r)), (''reasons'', JArr (map JStr (elr_reasons r)))]), db))"

section \<open>Sequences\<close>

definition sequence_create :: "env \<Rightarrow> SequenceCreateRequest \<Rightarrow> string option \<Rightarrow> json reply" where
  "sequence_create env q key = reply conflict JObj (create_sequence env q key)"

definition sequence_list :: "env \<Rightarrow> string option \<Rightarrow> nat \<Rightarrow> json reply" where
  "sequence_list env status limit =
     reply uncaught (\<lambda>xs. JObj [(''sequences'', JArr (map JObj xs))]) (list_sequences env status limit)"

definition sequence_unsubscribe :: "env \<Rightarrow> UnsubscribeRequest \<Rightarrow> string \<Rightarrow> json reply" where
  "sequence_unsubscribe env q key = reply uncaught JObj (process_unsubscribe env q key)"

definition sequence_detail :: "env \<Rightarrow> string \<Rightarrow> json reply" where
  "sequence_detail env sequence_id =
     reply (\<lambda>r. or_404 ''sequence not found'' (uncaught r)) JObj (get_sequence_definition env sequence_id)"

definition sequence_update :: "env \<Rightarrow> string \<Rightarrow> SequenceUpdateRequest \<Rightarrow> json reply" where
  "sequence_update env sequence_id q =
     reply (\<lambda>r. or_404 ''sequence not found'' (conflict r)) JObj (update_sequence env sequence_id q)"

definition sequence_delete :: "env \<Rightarrow> string \<Rightarrow> json reply" where
  "sequence_delete env sequence_id =
     reply (\<lambda>r. or_404 ''sequence not found'' (uncaught r)) JObj (archive_sequence env sequence_id)"

definition sequence_enrollment_create :: "env \<Rightarrow> SequenceEnrollmentCreateRequest \<Rightarrow> string \<Rightarrow> string \<Rightarrow> json reply" where
  "sequence_enrollment_create env q key actor = reply conflict JObj (create_sequence_enrollment env q actor key)"

definition sequence_enrollment_list :: "env \<Rightarrow> string option \<Rightarrow> nat \<Rightarrow> json reply" where
  "sequence_enrollment_list env status limit =
     reply uncaught (\<lambda>xs. JObj [(''enrollments'', JArr (map JObj xs))]) (list_sequence_enrollments env status limit)"

definition sequence_enrollment_detail :: "env \<Rightarrow> string \<Rightarrow> json reply" where
  "sequence_enrollment_detail env enrollment_id =
     reply (\<lambda>r. or_404 ''sequence enrollment not found'' (uncaught r)) JObj (get_sequence_enrollment env enrollment_id)"

definition sequence_enrollment_pause :: "env \<Rightarrow> string \<Rightarrow> SequenceEnrollmentActionRequest \<Rightarrow> json reply" where
  "sequence_enrollment_pause env enrollment_id q =
     reply (\<lambda>r. or_404 ''sequence enrollment not found'' (conflict r)) JObj (pause_sequence_enrollment env enrollment_id q)"

definition sequence_enrollment_resume :: "env \<Rightarrow> string \<Rightarrow> json reply" where
  "sequence_enrollment_resume env enrollment_id =
     reply (\<lambda>r. or_404 ''sequence enrollment not found'' (conflict r)) JObj (resume_sequence_enrollment env enrollment_id)"

definition sequence_enrollment_cancel :: "env \<Rightarrow> string \<Rightarrow> SequenceEnrollmentActionRequest \<Rightarrow> json reply" where
  "sequence_enrollment_cancel env enrollment_id q =
     reply (\<lambda>r. or_404 ''sequence enrollment not found'' (conflict r)) JObj (cancel_sequence_enrollment env enrollment_id q)"

definition sequence_enrollment_alert_create ::
  "env \<Rightarrow> string \<Rightarrow> SequenceEmailAlertCreate \<Rightarrow> string \<Rightarrow> string \<Rightarrow> json reply" where
  "sequence_enrollment_alert_create env enrollment_id q key actor =
     reply (\<lambda>r. or_404 ''sequence enrollment not found'' (uncaught r)) JObj
       (create_sequence_email_alert env enrollment_id q actor key)"

definition sequence_activity_list :: "env \<Rightarrow> string option \<Rightarrow> string option \<Rightarrow> nat \<Rightarrow> json reply" where
  "sequence_activity_list env status channel limit =
     reply uncaught (\<lambda>xs. JObj [(''activities'', JArr (map JObj xs))]) (list_sequence_activities env status channel limit)"

definition sequence_activity_detail :: "env \<Rightarrow> string \<Rightarrow> json reply" where
  "sequence_activity_detail env activity_id =
     reply (\<lambda>r. or_404 ''sequence activity not found'' (uncaught r)) JObj (get_sequence_activity env activity_id)"

definition sequence_activity_approve_email :: "env \<Rightarrow> (SmtpSendRequest \<Rightarrow> error option) \<Rightarrow> string \<Rightarrow> string \<Rightarrow> json reply" where
  "sequence_activity_approve_email env transport activity_id actor =
     reply (\<lambda>r. or_404 ''sequence activity not found'' (conflict r)) JObj
       (send_approved_sequence_email env transport None activity_id actor)"

definition sequence_activity_complete :: "env \<Rightarrow> string \<Rightarrow> SequenceActivityActionRequest \<Rightarrow> string \<Rightarrow> json reply" where
  "sequence_activity_complete env activity_id q actor =
     reply (\<lambda>r. or_404 ''sequence activity not found'' (conflict r)) JObj
       (complete_sequence_activity env activity_id q actor)"

section \<open>Endpoints behind the secured route\<close>

definition verified_actor :: "IdentityContext \<Rightarrow> string" where
  "verified_actor i = idn_actor_label i"

definition ok_response :: "json \<Rightarrow> HttpResponse" where
  "ok_response body = \<lparr>rs_status = 200, rs_is_json = True, rs_body = body, rs_headers = []\<rparr>"

text \<open>A service call of the request runs under the context variables the secured route has set.\<close>

definition request_env :: "env \<Rightarrow> sec_context \<Rightarrow> env" where
  "request_env env c = env\<lparr>env_identity := current_identity c, env_operation := current_operation c\<rparr>"

definition endpoint :: "env \<Rightarrow> (HttpRequest \<Rightarrow> failure + 'args) \<Rightarrow> (env \<Rightarrow> 'args \<Rightarrow> string \<Rightarrow> json reply) \<Rightarrow> db handler" where
  "endpoint env parse f q w =
     (case (parse q, rq_identity q) of
        (Inl e, _) \<Rightarrow> (Inl e, w)
      | (Inr args, None) \<Rightarrow> (Inl (Raised (AttributeError ''identity'')), w)
      | (Inr args, Some i) \<Rightarrow>
          (case f (request_env env (fst w)) args (verified_actor i) (snd w) of
             (r, db') \<Rightarrow> (map_sum id ok_response r, fst w, db')))"

definition get_route :: "string \<Rightarrow> string \<Rightarrow> route" where
  "get_route name path = \<lparr>rt_name = name, rt_path = path, rt_methods = [''GET''], rt_operation_id = None\<rparr>"

definition post_route :: "string \<Rightarrow> string \<Rightarrow> route" where
  "post_route name path = \<lparr>rt_name = name, rt_path = path, rt_methods = [''POST''], rt_operation_id = None\<rparr>"

definition patch_route :: "string \<Rightarrow> string \<Rightarrow> route" where
  "patch_route name path = \<lparr>rt_name = name, rt_path = path, rt_methods = [''PATCH''], rt_operation_id = None\<rparr>"

definition delete_route :: "string \<Rightarrow> string \<Rightarrow> route" where
  "delete_route name path = \<lparr>rt_name = name, rt_path = path, rt_methods = [''DELETE''], rt_operation_id = None\<rparr>"

definition APPROVE_ROUTE :: route where
  "APPROVE_ROUTE = post_route ''review_candidate_approve'' ''/v1/review/candidates/{candidate_id}/approve''"

definition GOVERNANCE_ROUTES :: "route list" where
  "GOVERNANCE_ROUTES =
     [post_route ''suppression_create'' ''/v1/suppressions'',
      post_route ''suppression_check'' ''/v1/suppressions/evaluate'',
      get_route ''review_candidates'' ''/v1/review/candidates'',
      get_route ''review_candidate_detail'' ''/v1/review/candidates/{candidate_id}'',
      patch_route ''review_candidate_update'' ''/v1/review/candidates/{candidate_id}'',
      APPROVE_ROUTE,
      post_route ''review_candidate_reject'' ''/v1/review/candidates/{candidate_id}/reject'',
      post_route ''review_candidates_bulk_decision'' ''/v1/review/candidates/bulk-decision'',
      get_route ''review_crm_targets'' ''/v1/review/crm-targets'',
      patch_route ''review_crm_target_update'' ''/v1/review/crm-targets/{crm_target_id}'',
      post_route ''governance_corroborate_incident'' ''/v1/governance/incidents/{incident_id}/corroborate'',
      post_route ''governance_reject_incident'' ''/v1/governance/incidents/{incident_id}/reject'',
      post_route ''governance_revert_incident'' ''/v1/governance/incidents/{incident_id}/revert'']"

definition CRM_ROUTES :: "route list" where
  "CRM_ROUTES =
     [post_route ''crm_sync_account'' ''/v1/crm/sync/account'',
      post_route ''crm_export_start'' ''/v1/crm/exports'',
      get_route ''crm_export_detail'' ''/v1/crm/exports/{batch_id}'',
      post_route ''crm_export_retry_failed'' ''/v1/crm/exports/{batch_id}/retry-failed'']"

definition SCORING_ROUTES :: "route list" where
  "SCORING_ROUTES =
     [post_route ''lead_score'' ''/v1/scoring/lead'', post_route ''candidate_score'' ''/v1/scoring/candidates'',
      post_route ''sequence_eligibility'' ''/v1/sequences/evaluate'']"

definition ACTIVITY_ROUTES :: "route list" where
  "ACTIVITY_ROUTES =
     [get_route ''sequence_activity_list'' ''/v1/sequences/activities'',
      get_route ''sequence_activity_detail'' ''/v1/sequences/activities/{activity_id}'',
      post_route ''sequence_activity_approve_email'' ''/v1/sequences/activities/{activity_id}/approve-email'',
      post_route ''sequence_activity_complete'' ''/v1/sequences/activities/{activity_id}/complete'',
      post_route ''sequence_activity_schedule_meeting'' ''/v1/sequences/activities/{activity_id}/schedule-meeting'']"

definition ENROLLMENT_ROUTES :: "route list" where
  "ENROLLMENT_ROUTES =
     [post_route ''sequence_enrollment_create'' ''/v1/sequences/enrollments'',
      post_route ''sequence_enrollment_import_crm_prospect'' ''/v1/sequences/enrollments/import-crm-prospect'',
      get_route ''sequence_enrollment_list'' ''/v1/sequences/enrollments'',
      get_route ''sequence_enrollment_detail'' ''/v1/sequences/enrollments/{enrollment_id}'',
      post_route ''sequence_enrollment_pause'' ''/v1/sequences/enrollments/{enrollment_id}/pause'',
      post_route ''sequence_enrollment_resume'' ''/v1/sequences/enrollments/{enrollment_id}/resume'',
      post_route ''sequence_enrollment_cancel'' ''/v1/sequences/enrollments/{enrollment_id}/cancel'',
      post_route ''sequence_enrollment_alert_create'' ''/v1/sequences/enrollments/{enrollment_id}/alerts'']"

definition SEQUENCE_ROUTES :: "route list" where
  "SEQUENCE_ROUTES =
     [post_route ''sequence_create'' ''/v1/sequences'', get_route ''sequence_list'' ''/v1/sequences'',
      get_route ''sequence_crm_prospect_list'' ''/v1/sequences/crm-prospects'',
      post_route ''sequence_unsubscribe'' ''/v1/sequences/unsubscribe''] @ ENROLLMENT_ROUTES @
     [get_route ''sequence_detail'' ''/v1/sequences/{sequence_id}'',
      patch_route ''sequence_update'' ''/v1/sequences/{sequence_id}'',
      delete_route ''sequence_delete'' ''/v1/sequences/{sequence_id}'']"

definition MODELLED_ROUTES :: "route list" where
  "MODELLED_ROUTES = CRM_ROUTES @ GOVERNANCE_ROUTES @ SCORING_ROUTES @ ACTIVITY_ROUTES @ SEQUENCE_ROUTES"

section \<open>Approvals over HTTP\<close>

lemma approve_new_target:
  assumes "approve_review_candidate env q key db = (r, db')" and "t \<in> set (crm_targets db')" and "t \<notin> set (crm_targets db)"
  shows "\<exists>d \<in> set (review_decisions db'). rd_decision d = ''approved'' \<and> rd_actor d = dcl_actor q
    \<and> tgt_review_decision_id t = Some (rd_id d) \<and> tgt_review_candidate_id t = rd_review_candidate_id d"
  using assms(1) unfolding approve_review_candidate_def
proof (cases rule: session_cases)
  case (committed x db1)
  then show ?thesis
  proof (cases "existing_decision key db")
    case (Some d)
    with committed assms(2,3) show ?thesis by (auto simp: decide_candidate_body_def)
  next
    case None
    then have "existing_decision key (begin_session db) = None" by simp
    from decide_candidate_body_new [OF committed(2) this] committed assms(2,3) obtain c d
      where dec: "decide_in_session APPROVED env c (dcl_request q) (dcl_actor q) key (begin_session db) = (Inr d, db1)" by auto
    note f = decide_in_session_Inr [OF dec]
    from f(11) committed assms(2,3) obtain i where "t = crm_target_row env (decide_candidate env ''approved'' c) d i" by auto
    with f(3,5,6,9) committed show ?thesis by auto
  qed
qed (use assms(2,3) in auto)

text \<open>C9: End to end, a CRM target comes into being through the approval endpoint only by a caller
  whose identity holds the decision permission, authenticated phishing-resistantly within the last
  fifteen minutes, and the approved decision behind the target carries that caller's name; the
  security context of the process is what it was before the request.  This is the process that owns the
  endpoint: the gateway of a strict deployment forwards it instead.\<close>

theorem approval_over_http:
  assumes "add_routes rs reg0 = Inr reg" and "APPROVE_ROUTE \<in> set rs"
    and "\<not> strict_runtime (app_settings a) \<or> app_service_name a \<noteq> ''gateway-service''"
    and "secured a reg (env_now env) forward (route_operation APPROVE_ROUTE)
      (endpoint env parse (\<lambda>env (candidate_id, body, key) actor. review_candidate_approve env candidate_id body key actor)) q (c, db)
      = (r, c', db')"
    and "t \<in> set (crm_targets db')" and "t \<notin> set (crm_targets db)"
  shows "c' = c \<and> (\<exists>i. rq_identity q = Some i \<and> ''governance.decide'' \<in> idn_permissions i
    \<and> idn_assurance i = PHISHING_RESISTANT \<and> authentication_age_seconds i (env_now env) \<le> 900
    \<and> (\<exists>d \<in> set (review_decisions db'). rd_decision d = ''approved'' \<and> rd_actor d = idn_actor_label i
         \<and> tgt_review_decision_id t = Some (rd_id d) \<and> tgt_review_candidate_id t = rd_review_candidate_id d))"
proof -
  have "rt_operation_id APPROVE_ROUTE = None" by (simp add: APPROVE_ROUTE_def post_route_def)
  with assms(1,2) obtain p
    where cl: "classify_domain_operation (rt_name APPROVE_ROUTE) (rt_path APPROVE_ROUTE) (rt_methods APPROVE_ROUTE) = Inr p"
      and g: "registry_get (route_operation APPROVE_ROUTE) reg = Some p" by (rule add_routes_classified)
  have p: "pol_permission p = Some GOVERNANCE_DECIDE" "pol_assurance p = Some PHISHING_RESISTANT"
    "pol_maximum_authentication_age_seconds p = Some 900" "pol_authentication p \<noteq> AUTH_PUBLIC"
    using cl by (auto elim!: classified_domain simp: APPROVE_ROUTE_def post_route_def classify_name_def domain_policy_def
        privileged_def starts_with_any_def ends_with_any_def suffix_def)
  from assms(4) show ?thesis
  proof (cases rule: secured_cases)
    case (handled p' i)
    then have p': "p' = p" using g by simp
    obtain e cid body key x where e: "approve_review_candidate e \<lparr>dcl_candidate_id = cid, dcl_request = body, dcl_actor = idn_actor_label i\<rparr> key db = (x, db')"
      and c: "c' = c"
      using handled(2,6) assms(5,6)
      by (auto simp: run_as_def endpoint_def review_candidate_approve_def reply_def verified_actor_def split: prod.splits sum.splits)
    from handled(3) have "''governance.decide'' \<in> idn_permissions i" "idn_assurance i = PHISHING_RESISTANT"
      "authentication_age_seconds i (env_now env) \<le> 900"
      using p by (auto simp: p' admits_def assurance_satisfies_def split: if_splits)
    with handled(2) c approve_new_target [OF e assms(5,6)] show ?thesis by simp
  qed (use g p assms(3,5,6) in \<open>auto simp: forwards_def\<close>)
qed

section \<open>The console's requests\<close>

text \<open>C39: The console cannot ask for the lists of enrollments, of activities or of CRM prospects in a
  strict deployment: it binds each request to the one operation whose template matches its path,
  and the template of a single sequence also matches these three paths, so resolving them raises,
  whatever other routes are registered.\<close>

theorem list_pages_unresolved:
  assumes "add_routes rs reg0 = Inr reg" and "set SEQUENCE_ROUTES \<union> set ACTIVITY_ROUTES \<subseteq> set rs"
    and "path \<in> {''/v1/sequences/enrollments'', ''/v1/sequences/activities'', ''/v1/sequences/crm-prospects''}"
  shows "\<exists>message. operation_id_for_request ''GET'' path reg = Inl (KeyError message)"
proof -
  have served: "\<exists>p \<in> set reg. pol_operation_id p = ''domain.'' @ name \<and> serves_request ''GET'' path p"
    if "get_route name template \<in> set rs" "template_matches template path" for name template
  proof -
    have "rt_operation_id (get_route name template) = None" by (simp add: get_route_def)
    with assms(1) that(1) obtain p where p: "classify_domain_operation name template [''GET''] = Inr p"
      "registry_get (route_operation (get_route name template)) reg = Some p"
      by (rule add_routes_classified) (simp add: get_route_def)
    have up: "map char_upper ''GET'' = ''GET''" by code_simp
    from p(1) have eq: "p = domain_policy name template ''GET'' (fst (classify_name name ''GET'')) (snd (classify_name name ''GET''))"
      by (auto elim: classified_domain)
    have "pol_operation_id p = ''domain.'' @ name \<and> serves_request ''GET'' path p"
      unfolding eq serves_request_def up using that(2) by (simp add: domain_policy_def)
    with row_get_mem [OF p(2) [unfolded registry_get_def]] show ?thesis by blast
  qed
  have detail: "get_route ''sequence_detail'' ''/v1/sequences/{sequence_id}'' \<in> set rs"
    using assms(2) by (auto simp: SEQUENCE_ROUTES_def)
  have routes: "get_route ''sequence_enrollment_list'' ''/v1/sequences/enrollments'' \<in> set rs"
    "get_route ''sequence_activity_list'' ''/v1/sequences/activities'' \<in> set rs"
    "get_route ''sequence_crm_prospect_list'' ''/v1/sequences/crm-prospects'' \<in> set rs"
    using assms(2) by (auto simp: SEQUENCE_ROUTES_def ENROLLMENT_ROUTES_def ACTIVITY_ROUTES_def)
  obtain name where listed: "name \<noteq> ''sequence_detail''" "get_route name path \<in> set rs"
    using assms(3)
  proof (elim insertE emptyE)
    assume "path = ''/v1/sequences/enrollments''"
    with routes(1) show thesis by (intro that [of "''sequence_enrollment_list''"]) simp_all
  next
    assume "path = ''/v1/sequences/activities''"
    with routes(2) show thesis by (intro that [of "''sequence_activity_list''"]) simp_all
  next
    assume "path = ''/v1/sequences/crm-prospects''"
    with routes(3) show thesis by (intro that [of "''sequence_crm_prospect_list''"]) simp_all
  qed
  have matches: "template_matches ''/v1/sequences/{sequence_id}'' path" "template_matches path path"
    using assms(3) by (elim insertE emptyE; hypsubst; code_simp)+
  from served [OF detail matches(1)] obtain p where p: "p \<in> set reg" "serves_request ''GET'' path p"
    "pol_operation_id p = ''domain.'' @ ''sequence_detail''" by blast
  from served [OF listed(2) matches(2)] obtain p' where p': "p' \<in> set reg" "serves_request ''GET'' path p'"
    "pol_operation_id p' = ''domain.'' @ name" by blast
  from p(3) p'(3) listed(1) have "p \<noteq> p'" by auto
  from ambiguous_request [OF p(1) p'(1) this p(2) p'(2), of "[]"] show ?thesis by simp
qed

end
