(* ===== verification/Http_Api_Examples.thy ===== *)
theory Http_Api_Examples
  imports Http_Api Governance_Examples
begin

text \<open>
  Concrete requests: the theorems about secured routes, the rate limit and the endpoints are
  applied to small registries and stores where their hypotheses hold.
\<close>

definition registry_of :: "route list \<Rightarrow> registry" where
  "registry_of rs = (case add_routes rs [] of Inr reg \<Rightarrow> reg | Inl _ \<Rightarrow> [])"

lemma registered:
  "add_routes GOVERNANCE_ROUTES [] = Inr (registry_of GOVERNANCE_ROUTES)"
  "add_routes MODELLED_ROUTES [] = Inr (registry_of MODELLED_ROUTES)"
proof -
  have "\<not> isl (add_routes GOVERNANCE_ROUTES [])" "\<not> isl (add_routes MODELLED_ROUTES [])" by code_simp+
  then show "add_routes GOVERNANCE_ROUTES [] = Inr (registry_of GOVERNANCE_ROUTES)"
    and "add_routes MODELLED_ROUTES [] = Inr (registry_of MODELLED_ROUTES)"
    by (auto simp: registry_of_def split: sum.splits)
qed

text \<open>The security operations themselves register without a conflict.\<close>

lemma operations_registered: "\<not> isl OPERATIONS"
  by code_simp

definition sample_identity :: "string \<Rightarrow> IdentityContext" where
  "sample_identity role =
     \<lparr>idn_type = HUMAN, idn_subject = ''alex'', idn_actor_label = ''alex@example.com'', idn_issuer = ''https://id.example.com'',
      idn_audience = [''ghostrecon-gateway''], idn_roles = {role}, idn_permissions = permissions_for_roles {role},
      idn_calling_service = None, idn_on_behalf_of_subject = None, idn_authentication_method = ''oidc'',
      idn_authenticated_at = 1699999999000000, idn_assurance = PHISHING_RESISTANT, idn_session_id = None,
      idn_correlation_id = ''c'', idn_request_id = ''c'', idn_claim_mapping_version = ''oidc.v1'',
      idn_permission_policy_version = POLICY_VERSION, idn_environment = ''local'', idn_workspace_id = ''default'',
      idn_email_verified = Some True, idn_attributes = []\<rparr>"

definition sample_http_request :: "string \<Rightarrow> string \<Rightarrow> string \<Rightarrow> HttpRequest" where
  "sample_http_request method path role =
     \<lparr>rq_method = method, rq_path = path, rq_headers = [], rq_client = Some ''10.0.0.1'',
      rq_identity = Some (sample_identity role), rq_correlation_id = ''c''\<rparr>"

definition owner_app :: app where
  "owner_app = \<lparr>app_settings = example_settings, app_service_name = ''governance-service'', app_csrf_validator = Some (\<lambda>q. True)\<rparr>"

definition no_context :: sec_context where
  "no_context = \<lparr>current_identity = None, current_operation = None\<rparr>"

definition parse_decision :: "HttpRequest \<Rightarrow> failure + string \<times> ReviewDecisionRequest \<times> string" where
  "parse_decision q = Inr (''r1'', dcl_request (sample_decision ''r1''), ''k1'')"

definition approve_request :: "string \<Rightarrow> (failure + HttpResponse) \<times> sec_context \<times> db" where
  "approve_request role =
     secured owner_app (registry_of GOVERNANCE_ROUTES) (env_now example_env) (\<lambda>p i q w. (Inl (Raised (RuntimeError ''no route'')), w))
       (route_operation APPROVE_ROUTE)
       (endpoint example_env parse_decision (\<lambda>env (candidate_id, body, key) actor. review_candidate_approve env candidate_id body key actor))
       (sample_http_request ''POST'' ''/v1/review/candidates/r1/approve'' role) (no_context, review_db)"

theorem approval_over_http_witness:
  "\<exists>r c' db' t. approve_request ''governance_reviewer'' = (r, c', db') \<and> t \<in> set (crm_targets db')
     \<and> (\<exists>d \<in> set (review_decisions db'). rd_actor d = ''alex@example.com'' \<and> tgt_review_decision_id t = Some (rd_id d))"
proof -
  obtain r c' db' where run: "approve_request ''governance_reviewer'' = (r, c', db')" by (cases "approve_request ''governance_reviewer''")
  have "crm_targets (snd (snd (approve_request ''governance_reviewer''))) \<noteq> []" and old: "crm_targets review_db = []" by code_simp+
  with run obtain t where t: "t \<in> set (crm_targets db')" by (cases "crm_targets db'") auto
  have s: "APPROVE_ROUTE \<in> set GOVERNANCE_ROUTES" "\<not> strict_runtime (app_settings owner_app) \<or> app_service_name owner_app \<noteq> ''gateway-service''"
    "idn_actor_label (sample_identity ''governance_reviewer'') = ''alex@example.com''"
    by (simp_all add: GOVERNANCE_ROUTES_def owner_app_def sample_identity_def)
  from approval_over_http [OF registered(1) s(1,2) run [unfolded approve_request_def] t] old s(3) t run show ?thesis
    by (auto simp: sample_http_request_def)
qed

theorem secured_gate_witness:
  "(\<exists>resp. fst (approve_request ''viewer'') = Inr resp \<and> rs_status resp \<in> {401, 403})
     \<and> snd (approve_request ''viewer'') = (no_context, review_db)"
proof -
  obtain r w where run: "approve_request ''viewer'' = (r, w)" by (cases "approve_request ''viewer''")
  have s: "APPROVE_ROUTE \<in> set GOVERNANCE_ROUTES" "rt_operation_id APPROVE_ROUTE = None"
    by (simp_all add: GOVERNANCE_ROUTES_def APPROVE_ROUTE_def post_route_def)
  have no: "permission_value (fst (classify_name (rt_name APPROVE_ROUTE) ''POST'')) \<notin> idn_permissions (sample_identity ''viewer'')"
    and m: "rt_methods APPROVE_ROUTE = [''POST'']" by code_simp+
  from secured_gate [OF registered(1) s run [unfolded approve_request_def]] no m run show ?thesis
    by (auto simp: sample_http_request_def Let_def)
qed

definition gateway_app :: app where
  "gateway_app = \<lparr>app_settings = example_settings\<lparr>cfg_profile := PRODUCTION\<rparr>, app_service_name = ''gateway-service'',
     app_csrf_validator = None\<rparr>"

definition login_arrival :: arrival where
  "login_arrival =
     \<lparr>arr_request = (sample_http_request ''GET'' ''/auth/login'' ''viewer'')\<lparr>rq_identity := None\<rparr>, arr_time = 120,
      arr_redis_clock = 500, arr_monotonic = 7, arr_redis_up = True\<rparr>"

definition idle_limiter :: limiter where
  "idle_limiter = \<lparr>lim_redis = Map.empty, lim_local = Map.empty\<rparr>"

theorem rate_limit_bounds_witness:
  "length (filter (counted gateway_app ''auth'' ''10.0.0.1'' 2) (let_through gateway_app (replicate 9 login_arrival) idle_limiter)) \<le> 5
     \<and> let_through gateway_app (replicate 9 login_arrival) idle_limiter \<noteq> []"
proof -
  have "strict_runtime (app_settings gateway_app)" and "map_of LIMITS ''auth'' = Some (5, 60, True)"
    and some: "let_through gateway_app (replicate 9 login_arrival) idle_limiter \<noteq> []" by code_simp+
  with rate_limit_bounds [of gateway_app "''auth''" 5 60 True idle_limiter "''10.0.0.1''" 2 "replicate 9 login_arrival" 480 0]
  show ?thesis by (auto simp: idle_limiter_def within_minute_def login_arrival_def)
qed

theorem list_pages_unresolved_witness:
  "\<exists>message. operation_id_for_request ''GET'' ''/v1/sequences/enrollments'' (registry_of MODELLED_ROUTES) = Inl (KeyError message)"
proof -
  have "set SEQUENCE_ROUTES \<union> set ACTIVITY_ROUTES \<subseteq> set MODELLED_ROUTES" by (auto simp: MODELLED_ROUTES_def)
  from list_pages_unresolved [OF registered(2) this, of "''/v1/sequences/enrollments''"] show ?thesis by simp
qed

end
