(* ===== verification/User_Sessions.thy ===== *)
theory User_Sessions
  imports Access_Control
begin

text \<open>
  Principals and their revocable sessions (\<open>models/db/security.py\<close>, \<open>security/sessions.py\<close>,
  \<open>security/repositories.py\<close>), the identity middleware (\<open>security/authentication.py\<close>), the
  resolver and the CSRF check the application installs (\<open>service_apps/factory.py\<close>), and the
  endpoints that change sessions and principals (\<open>service_apps/routers/auth.py\<close>).

  Every repository method is one transaction on the security tables: an exception rolls it
  back.  Random values (\<open>uuid4\<close>, \<open>secrets.token_urlsafe\<close>) come from a supply that a
  roll-back does not refill.  The keyed hash is a parameter.  The row-level security settings,
  the exchange with the identity provider and the audit query are not modelled.
\<close>

section \<open>Tables and environment\<close>

record SecurityPrincipal =
  prn_id :: string
  prn_issuer :: string
  prn_subject :: string
  prn_actor_label :: string
  prn_email :: "string option"
  prn_email_verified :: bool
  prn_disabled :: bool
  prn_role_ceiling :: "string list"
  prn_mapping_version :: string
  prn_policy_version :: string
  prn_created_at :: int
  prn_updated_at :: int

record SecurityRoleBinding =
  bnd_id :: string
  bnd_principal_id :: string
  bnd_role :: string
  bnd_granted_by_subject :: string
  bnd_reason :: string
  bnd_expires_at :: "int option"
  bnd_created_at :: int

record SecuritySession =
  ssn_id :: string
  ssn_principal_id :: string
  ssn_identifier_digest :: string
  ssn_csrf_digest :: string
  ssn_authentication_method :: string
  ssn_assurance :: string
  ssn_authenticated_at :: int
  ssn_provider_roles_refreshed_at :: int
  ssn_provider_roles :: "string list"
  ssn_last_seen_at :: int
  ssn_rotate_after :: int
  ssn_idle_expires_at :: int
  ssn_absolute_expires_at :: int
  ssn_remembered :: bool
  ssn_revoked_at :: "int option"
  ssn_revocation_reason :: "string option"
  ssn_mapping_version :: string
  ssn_policy_version :: string
  ssn_created_at :: int

record security_store =
  principals :: "SecurityPrincipal list"
  role_bindings :: "SecurityRoleBinding list"
  user_sessions :: "SecuritySession list"
  drawn :: nat

text \<open>The session settings with the clock, the random supply and the keyed hash.\<close>

record security_env =
  sen_now :: int
  sen_random :: "nat \<Rightarrow> string"
  sen_hmac_sha256 :: "string \<Rightarrow> string \<Rightarrow> string"
  sen_hmac_key :: string
  sen_idle_seconds :: int
  sen_absolute_seconds :: int
  sen_remembered_idle_seconds :: int
  sen_remembered_absolute_seconds :: int
  sen_rotation_seconds :: int
  sen_client_id :: "string option"
  sen_profile :: string

type_synonym 'a sop = "security_store \<Rightarrow> (error + 'a) \<times> security_store"

text \<open>The primary keys and unique constraints of the three tables.\<close>

definition store_ok :: "security_store \<Rightarrow> bool" where
  "store_ok st =
     (distinct (map prn_id (principals st)) \<and> distinct (map (\<lambda>p. (prn_issuer p, prn_subject p)) (principals st))
      \<and> distinct (map bnd_id (role_bindings st)) \<and> distinct (map (\<lambda>b. (bnd_principal_id b, bnd_role b)) (role_bindings st))
      \<and> distinct (map ssn_id (user_sessions st)) \<and> distinct (map ssn_identifier_digest (user_sessions st)))"

text \<open>\<open>async with self.factory.begin()\<close>: commit when the constraints hold, or roll back on an exception.\<close>

definition transaction :: "'a sop \<Rightarrow> 'a sop" where
  "transaction body st =
     (case body st of
        (Inl e, st') \<Rightarrow> (Inl e, st\<lparr>drawn := drawn st'\<rparr>)
      | (Inr x, st') \<Rightarrow> if store_ok st' then (Inr x, st') else (Inl IntegrityError, st\<lparr>drawn := drawn st'\<rparr>))"

definition draw :: "security_env \<Rightarrow> security_store \<Rightarrow> string \<times> security_store" where
  "draw env st = (sen_random env (drawn st), st\<lparr>drawn := Suc (drawn st)\<rparr>)"

definition usec_of_seconds :: "int \<Rightarrow> int" where
  "usec_of_seconds n = n * usec_per_sec"

section \<open>Session secrets\<close>

definition digest_secret :: "security_env \<Rightarrow> string \<Rightarrow> string" where
  "digest_secret env secret = sen_hmac_sha256 env (sen_hmac_key env) secret"

definition verify_secret :: "security_env \<Rightarrow> string option \<Rightarrow> string \<Rightarrow> bool" where
  "verify_secret env secret expected =
     (case secret of None \<Rightarrow> False | Some s \<Rightarrow> s \<noteq> [] \<and> digest_secret env s = expected)"

definition csrf_token_for_session :: "security_env \<Rightarrow> string \<Rightarrow> error + string" where
  "csrf_token_for_session env identifier =
     (if length (sen_hmac_key env) < 32 then Inl (ValueError ''session HMAC key must contain at least 256 bits'')
      else Inr (sen_hmac_sha256 env (sen_hmac_key env) (identifier @ '':csrf'')))"

record SessionSecrets =
  sec_identifier :: string
  sec_identifier_digest :: string
  sec_csrf_token :: string
  sec_csrf_digest :: string

definition create_session_secrets :: "security_env \<Rightarrow> SessionSecrets sop" where
  "create_session_secrets env st =
     (if length (sen_hmac_key env) < 32 then (Inl (ValueError ''session HMAC key must contain at least 256 bits''), st)
      else (let (identifier, st1) = draw env st; (csrf, st2) = draw env st1
            in (Inr \<lparr>sec_identifier = identifier, sec_identifier_digest = digest_secret env identifier,
                     sec_csrf_token = csrf, sec_csrf_digest = digest_secret env csrf\<rparr>, st2)))"

section \<open>Principals\<close>

definition get_principal :: "string \<Rightarrow> security_store \<Rightarrow> SecurityPrincipal option" where
  "get_principal i st = row_get prn_id i (principals st)"

definition put_principal :: "SecurityPrincipal \<Rightarrow> security_store \<Rightarrow> security_store" where
  "put_principal p st = st\<lparr>principals := row_put prn_id p (principals st)\<rparr>"

definition principal_of :: "string \<Rightarrow> string \<Rightarrow> security_store \<Rightarrow> SecurityPrincipal option" where
  "principal_of issuer subject st = List.find (\<lambda>p. prn_issuer p = issuer \<and> prn_subject p = subject) (principals st)"

fun add_bindings :: "security_env \<Rightarrow> string \<Rightarrow> string \<Rightarrow> string \<Rightarrow> string list \<Rightarrow> security_store \<Rightarrow> security_store" where
  "add_bindings env principal_id granted_by reason [] st = st"
| "add_bindings env principal_id granted_by reason (role # roles) st =
     (case draw env st of (i, st1) \<Rightarrow>
        add_bindings env principal_id granted_by reason roles
          (st1\<lparr>role_bindings := role_bindings st1 @
             [\<lparr>bnd_id = i, bnd_principal_id = principal_id, bnd_role = role, bnd_granted_by_subject = granted_by,
               bnd_reason = reason, bnd_expires_at = None, bnd_created_at = sen_now env\<rparr>]\<rparr>))"

text \<open>The identity claims the code reads: issuer, subject, e-mail and whether it is verified.\<close>

definition claim_str :: "dict \<Rightarrow> string \<Rightarrow> error + string" where
  "claim_str claims k = (case map_of claims k of None \<Rightarrow> Inl (KeyError k) | Some v \<Rightarrow> Inr (py_str v))"

definition new_principal :: "security_env \<Rightarrow> dict \<Rightarrow> string \<Rightarrow> string \<Rightarrow> string list \<Rightarrow> string \<Rightarrow> SecurityPrincipal" where
  "new_principal env claims issuer subject roles i =
     \<lparr>prn_id = i, prn_issuer = issuer, prn_subject = subject,
      prn_actor_label = take 255 (py_str (py_or (dict_get claims ''email'') (JStr subject))),
      prn_email = (if truthy (dict_get claims ''email'') then Some (take 320 (py_str (dict_get claims ''email''))) else None),
      prn_email_verified = (dict_get claims ''email_verified'' = JBool True), prn_disabled = False,
      prn_role_ceiling = roles, prn_mapping_version = ''oidc.v1'', prn_policy_version = POLICY_VERSION,
      prn_created_at = sen_now env, prn_updated_at = sen_now env\<rparr>"

definition admit_principal :: "SecurityPrincipal sop \<Rightarrow> SecurityPrincipal sop" where
  "admit_principal f st =
     (case f st of
        (Inl e, st') \<Rightarrow> (Inl e, st')
      | (Inr p, st') \<Rightarrow> (if prn_disabled p then Inl (PermissionError ''principal is disabled'') else Inr p, st'))"

definition find_or_create_principal ::
  "security_env \<Rightarrow> dict \<Rightarrow> string list \<Rightarrow> bool \<Rightarrow> string \<Rightarrow> string \<Rightarrow> SecurityPrincipal sop" where
  "find_or_create_principal env claims provider_roles allow_create issuer subject st =
     (case principal_of issuer subject st of
        Some p \<Rightarrow> (Inr p, st)
      | None \<Rightarrow>
          if \<not> allow_create then (Inl (PermissionError ''principal is not provisioned''), st)
          else (let (i, st1) = draw env st; roles = sort (remdups provider_roles);
                    p = new_principal env claims issuer subject roles i
                in (Inr p, add_bindings env i subject ''initial deterministic local provisioning'' roles
                             (st1\<lparr>principals := principals st1 @ [p]\<rparr>))))"

definition provision_from_claims :: "security_env \<Rightarrow> dict \<Rightarrow> string list \<Rightarrow> bool \<Rightarrow> SecurityPrincipal sop" where
  "provision_from_claims env claims provider_roles allow_create st =
     (case (claim_str claims ''iss'', claim_str claims ''sub'') of
        (Inl e, _) \<Rightarrow> (Inl e, st)
      | (Inr _, Inl e) \<Rightarrow> (Inl e, st)
      | (Inr issuer, Inr subject) \<Rightarrow>
          transaction (admit_principal (find_or_create_principal env claims provider_roles allow_create issuer subject)) st)"

section \<open>Sessions\<close>

definition get_session :: "string \<Rightarrow> security_store \<Rightarrow> SecuritySession option" where
  "get_session i st = row_get ssn_id i (user_sessions st)"

definition put_session :: "SecuritySession \<Rightarrow> security_store \<Rightarrow> security_store" where
  "put_session s st = st\<lparr>user_sessions := row_put ssn_id s (user_sessions st)\<rparr>"

record CreatedSession =
  crs_record_id :: string
  crs_secrets :: SessionSecrets
  crs_idle_expires_at :: int
  crs_absolute_expires_at :: int

definition session_row ::
  "security_env \<Rightarrow> SecurityPrincipal \<Rightarrow> string \<Rightarrow> AssuranceLevel \<Rightarrow> string list \<Rightarrow> bool \<Rightarrow> int \<Rightarrow> SessionSecrets \<Rightarrow> string \<Rightarrow> SecuritySession" where
  "session_row env p authentication_method assurance provider_roles remembered authenticated_at secrets i =
     (let now = sen_now env;
          idle = (if remembered then sen_remembered_idle_seconds env else sen_idle_seconds env);
          absolute = (if remembered then sen_remembered_absolute_seconds env else sen_absolute_seconds env)
      in \<lparr>ssn_id = i, ssn_principal_id = prn_id p, ssn_identifier_digest = sec_identifier_digest secrets,
          ssn_csrf_digest = sec_csrf_digest secrets, ssn_authentication_method = authentication_method,
          ssn_assurance = assurance_value assurance, ssn_authenticated_at = authenticated_at,
          ssn_provider_roles_refreshed_at = now, ssn_provider_roles = sort (remdups provider_roles),
          ssn_last_seen_at = now, ssn_rotate_after = now + usec_of_seconds (sen_rotation_seconds env),
          ssn_idle_expires_at = now + usec_of_seconds idle, ssn_absolute_expires_at = now + usec_of_seconds absolute,
          ssn_remembered = remembered, ssn_revoked_at = None, ssn_revocation_reason = None,
          ssn_mapping_version = prn_mapping_version p, ssn_policy_version = prn_policy_version p, ssn_created_at = now\<rparr>)"

definition add_session :: "security_env \<Rightarrow> (SessionSecrets \<Rightarrow> string \<Rightarrow> SecuritySession) \<Rightarrow> SessionSecrets \<Rightarrow> CreatedSession sop" where
  "add_session env row secrets st =
     (let (i, st1) = draw env st; s = row secrets i
      in (Inr \<lparr>crs_record_id = i, crs_secrets = secrets, crs_idle_expires_at = ssn_idle_expires_at s,
               crs_absolute_expires_at = ssn_absolute_expires_at s\<rparr>,
          st1\<lparr>user_sessions := user_sessions st1 @ [s]\<rparr>))"

text \<open>The principal is the object an earlier transaction returned; it is not read again here.\<close>

definition create_session ::
  "security_env \<Rightarrow> SecurityPrincipal \<Rightarrow> string \<Rightarrow> AssuranceLevel \<Rightarrow> string list \<Rightarrow> bool \<Rightarrow> int \<Rightarrow> CreatedSession sop" where
  "create_session env p authentication_method assurance provider_roles remembered authenticated_at st =
     (case create_session_secrets env st of
        (Inl e, st1) \<Rightarrow> (Inl e, st1)
      | (Inr drawn_secrets, st1) \<Rightarrow>
          (case csrf_token_for_session env (sec_identifier drawn_secrets) of
             Inl e \<Rightarrow> (Inl e, st1)
           | Inr csrf \<Rightarrow>
               transaction (add_session env
                 (session_row env p authentication_method assurance provider_roles remembered authenticated_at)
                 (drawn_secrets\<lparr>sec_csrf_token := csrf, sec_csrf_digest := digest_secret env csrf\<rparr>)) st1))"

text \<open>The join on the digest, which is unique: the session and its principal.\<close>

definition session_with_digest :: "string \<Rightarrow> security_store \<Rightarrow> (SecuritySession \<times> SecurityPrincipal) option" where
  "session_with_digest digest st =
     (case List.find (\<lambda>s. ssn_identifier_digest s = digest \<and> get_principal (ssn_principal_id s) st \<noteq> None) (user_sessions st) of
        None \<Rightarrow> None
      | Some s \<Rightarrow> map_option (Pair s) (get_principal (ssn_principal_id s) st))"

definition session_over :: "security_env \<Rightarrow> SecuritySession \<Rightarrow> SecurityPrincipal \<Rightarrow> bool" where
  "session_over env s p =
     (ssn_revoked_at s \<noteq> None \<or> prn_disabled p \<or> ssn_idle_expires_at s \<le> sen_now env
      \<or> ssn_absolute_expires_at s \<le> sen_now env \<or> ssn_mapping_version s \<noteq> prn_mapping_version p
      \<or> ssn_policy_version s \<noteq> prn_policy_version p)"

definition locally_granted :: "security_env \<Rightarrow> string \<Rightarrow> security_store \<Rightarrow> string set" where
  "locally_granted env principal_id st =
     set (map bnd_role (filter (\<lambda>b. bnd_principal_id b = principal_id
       \<and> (case bnd_expires_at b of None \<Rightarrow> True | Some t \<Rightarrow> t > sen_now env)) (role_bindings st)))"

definition session_roles :: "security_env \<Rightarrow> SecuritySession \<Rightarrow> SecurityPrincipal \<Rightarrow> security_store \<Rightarrow> string set" where
  "session_roles env s p st = locally_granted env (prn_id p) st \<inter> set (ssn_provider_roles s) \<inter> set (prn_role_ceiling p)"

definition seen_session :: "security_env \<Rightarrow> SecuritySession \<Rightarrow> SecuritySession" where
  "seen_session env s =
     s\<lparr>ssn_last_seen_at := sen_now env,
       ssn_idle_expires_at := min (sen_now env + usec_of_seconds (if ssn_remembered s then sen_remembered_idle_seconds env else sen_idle_seconds env))
         (ssn_absolute_expires_at s)\<rparr>"

text \<open>The enum constructor \<open>AssuranceLevel(value)\<close>.\<close>

definition assurance_of :: "string \<Rightarrow> error + AssuranceLevel" where
  "assurance_of raw =
     (case List.find (\<lambda>a. assurance_value a = raw) [EMAIL_OTP, PHISHING_RESISTANT, WORKLOAD] of
        None \<Rightarrow> Inl (ValueError (repr_str raw @ '' is not a valid AssuranceLevel''))
      | Some a \<Rightarrow> Inr a)"

definition session_identity ::
  "security_env \<Rightarrow> SecuritySession \<Rightarrow> SecurityPrincipal \<Rightarrow> string set \<Rightarrow> string \<Rightarrow> error + IdentityContext" where
  "session_identity env s p roles correlation_id =
     (case assurance_of (ssn_assurance s) of
        Inl e \<Rightarrow> Inl e
      | Inr assurance \<Rightarrow> identity_post_init
          \<lparr>idn_type = HUMAN, idn_subject = prn_subject p, idn_actor_label = prn_actor_label p, idn_issuer = prn_issuer p,
           idn_audience = [str_or (sen_client_id env) ''ghostrecon-gateway''], idn_roles = roles,
           idn_permissions = permissions_for_roles roles, idn_calling_service = None, idn_on_behalf_of_subject = None,
           idn_authentication_method = ssn_authentication_method s, idn_authenticated_at = ssn_authenticated_at s,
           idn_assurance = assurance, idn_session_id = Some (ssn_id s), idn_correlation_id = correlation_id,
           idn_request_id = correlation_id, idn_claim_mapping_version = ssn_mapping_version s,
           idn_permission_policy_version = ssn_policy_version s, idn_environment = sen_profile env,
           idn_workspace_id = ''default'', idn_email_verified = Some (prn_email_verified p),
           idn_attributes =
             [(''csrf_digest'', ssn_csrf_digest s), (''idle_expires_at'', isoformat (ssn_idle_expires_at s)),
              (''absolute_expires_at'', isoformat (ssn_absolute_expires_at s)),
              (''provider_roles_refreshed_at'', isoformat (ssn_provider_roles_refreshed_at s))]\<rparr>)"

definition ended_session :: "security_env \<Rightarrow> string \<Rightarrow> SecuritySession \<Rightarrow> SecuritySession" where
  "ended_session env reason s = s\<lparr>ssn_revoked_at := Some (sen_now env), ssn_revocation_reason := Some reason\<rparr>"

definition resolve_body :: "security_env \<Rightarrow> string \<Rightarrow> string \<Rightarrow> IdentityContext option sop" where
  "resolve_body env raw_identifier correlation_id st =
     (case session_with_digest (digest_secret env raw_identifier) st of
        None \<Rightarrow> (Inr None, st)
      | Some (s, p) \<Rightarrow>
          if session_over env s p then
            (Inr None, if ssn_revoked_at s = None then put_session (ended_session env ''expired_or_invalidated'' s) st else st)
          else (case session_identity env (seen_session env s) p (session_roles env s p st) correlation_id of
                  Inl e \<Rightarrow> (Inl e, put_session (seen_session env s) st)
                | Inr i \<Rightarrow> (Inr (Some i), put_session (seen_session env s) st)))"

definition resolve :: "security_env \<Rightarrow> string \<Rightarrow> string \<Rightarrow> IdentityContext option sop" where
  "resolve env raw_identifier correlation_id = transaction (resolve_body env raw_identifier correlation_id)"

text \<open>The bulk updates: every session that meets the condition and is not yet revoked; the row count is returned.\<close>

definition end_where :: "security_env \<Rightarrow> string \<Rightarrow> (SecuritySession \<Rightarrow> bool) \<Rightarrow> nat sop" where
  "end_where env reason cond st =
     (Inr (length (filter (\<lambda>s. cond s \<and> ssn_revoked_at s = None) (user_sessions st))),
      st\<lparr>user_sessions := map (\<lambda>s. if cond s \<and> ssn_revoked_at s = None then ended_session env reason s else s) (user_sessions st)\<rparr>)"

definition revoke :: "security_env \<Rightarrow> string \<Rightarrow> string \<Rightarrow> bool sop" where
  "revoke env session_id reason st =
     apfst (map_sum id (\<lambda>n. n \<noteq> 0)) (transaction (end_where env (take 255 reason) (\<lambda>s. ssn_id s = session_id)) st)"

definition revoke_subject :: "security_env \<Rightarrow> string \<Rightarrow> string \<Rightarrow> nat sop" where
  "revoke_subject env subject reason st =
     transaction (end_where env (take 255 reason)
       (\<lambda>s. ssn_principal_id s \<in> set (map prn_id (filter (\<lambda>p. prn_subject p = subject) (principals st))))) st"

definition revoke_principal_sessions :: "security_env \<Rightarrow> string \<Rightarrow> string \<Rightarrow> nat sop" where
  "revoke_principal_sessions env principal_id reason =
     transaction (end_where env (take 255 reason) (\<lambda>s. ssn_principal_id s = principal_id))"

text \<open>An administrator's change: the new mapping version is \<open>admin-\<close> and a fresh hexadecimal uuid.\<close>

definition changed_principal :: "security_env \<Rightarrow> bool \<Rightarrow> string list \<Rightarrow> string \<Rightarrow> SecurityPrincipal \<Rightarrow> SecurityPrincipal" where
  "changed_principal env disabled roles hex p =
     p\<lparr>prn_disabled := disabled, prn_role_ceiling := sort (remdups roles), prn_mapping_version := ''admin-'' @ hex,
       prn_updated_at := sen_now env\<rparr>"

definition update_principal_body ::
  "security_env \<Rightarrow> string \<Rightarrow> bool \<Rightarrow> string list \<Rightarrow> string \<Rightarrow> string \<Rightarrow> string \<Rightarrow> SecurityPrincipal option sop" where
  "update_principal_body env principal_id disabled roles expected_version actor_subject reason st =
     (case get_principal principal_id st of
        None \<Rightarrow> (Inr None, st)
      | Some p \<Rightarrow>
          if prn_mapping_version p \<noteq> expected_version then (Inl (RuntimeError ''principal version conflict''), st)
          else (let (hex, st1) = draw env st; p' = changed_principal env disabled roles hex p;
                    st2 = put_principal p' st1;
                    st3 = st2\<lparr>role_bindings := filter (\<lambda>b. bnd_principal_id b \<noteq> principal_id) (role_bindings st2)\<rparr>;
                    st4 = add_bindings env principal_id actor_subject (take 512 reason) (sort (remdups roles)) st3
                in (Inr (Some p'), snd (end_where env ''principal_changed'' (\<lambda>s. ssn_principal_id s = principal_id) st4))))"

definition update_principal ::
  "security_env \<Rightarrow> string \<Rightarrow> bool \<Rightarrow> string list \<Rightarrow> string \<Rightarrow> string \<Rightarrow> string \<Rightarrow> SecurityPrincipal option sop" where
  "update_principal env principal_id disabled roles expected_version actor_subject reason =
     transaction (update_principal_body env principal_id disabled roles expected_version actor_subject reason)"

definition list_principals :: "nat \<Rightarrow> security_store \<Rightarrow> SecurityPrincipal list" where
  "list_principals limit st = take (min limit 200) (sort_key (\<lambda>p. - prn_created_at p) (principals st))"

definition principal_sessions :: "string \<Rightarrow> security_store \<Rightarrow> SecuritySession list" where
  "principal_sessions principal_id st =
     take 100 (sort_key (\<lambda>s. - ssn_created_at s) (filter (\<lambda>s. ssn_principal_id s = principal_id) (user_sessions st)))"

definition verify_csrf :: "security_env \<Rightarrow> string option \<Rightarrow> IdentityContext \<Rightarrow> bool" where
  "verify_csrf env token i =
     (case map_of (idn_attributes i) ''csrf_digest'' of None \<Rightarrow> False | Some expected \<Rightarrow> verify_secret env token expected)"

section \<open>Authentication of a request\<close>

text \<open>The resolver of the gateway: the session named by the cookie, if there is one.\<close>

definition resolve_session :: "security_env \<Rightarrow> string option \<Rightarrow> HttpRequest \<Rightarrow> IdentityContext option sop" where
  "resolve_session env cookie q st =
     (case cookie of
        None \<Rightarrow> (Inr None, st)
      | Some raw \<Rightarrow> if raw = [] then (Inr None, st) else resolve env raw (rq_correlation_id q) st)"

definition validate_csrf :: "security_env \<Rightarrow> HttpRequest \<Rightarrow> bool" where
  "validate_csrf env q =
     (case rq_identity q of None \<Rightarrow> False | Some i \<Rightarrow> verify_csrf env (header_get ''x-csrf-token'' q) i)"

definition PUBLIC_PATHS :: "string set" where
  "PUBLIC_PATHS = {''/healthz'', ''/auth/login'', ''/auth/callback'', ''/auth/provider-logout/callback''}"

definition local_identity :: "security_env \<Rightarrow> HttpRequest \<Rightarrow> string \<Rightarrow> IdentityContext" where
  "local_identity env q request_id =
     \<lparr>idn_type = HUMAN, idn_subject = ''local-development-user'', idn_actor_label = ''Local development administrator'',
      idn_issuer = ''urn:ghostrecon:local-oidc'', idn_audience = [''ghostrecon-gateway''],
      idn_roles = {role_value ADMINISTRATOR}, idn_permissions = permissions_for_roles {role_value ADMINISTRATOR},
      idn_calling_service = None, idn_on_behalf_of_subject = None, idn_authentication_method = ''local_oidc'',
      idn_authenticated_at = sen_now env, idn_assurance = PHISHING_RESISTANT,
      idn_session_id = Some ''00000000-0000-0000-0000-000000000001'', idn_correlation_id = rq_correlation_id q,
      idn_request_id = request_id, idn_claim_mapping_version = ''local.v1'',
      idn_permission_policy_version = ''sprint25b.v1'', idn_environment = sen_profile env, idn_workspace_id = ''default'',
      idn_email_verified = Some True, idn_attributes = []\<rparr>"

type_synonym resolver = "HttpRequest \<Rightarrow> IdentityContext option sop"

text \<open>
  \<open>IdentityMiddleware.dispatch\<close>, up to the call of the next handler: the request with its
  identity, or the refusal.  The resolvers are the ones installed on the application; only
  a \<open>ValueError\<close> of a resolver is answered, other exceptions pass.
\<close>

definition refuse_authentication :: "nat \<Rightarrow> string \<Rightarrow> string \<Rightarrow> HttpRequest \<Rightarrow> failure + HttpResponse + HttpRequest" where
  "refuse_authentication status code message q = Inr (Inl (security_error status code message (rq_correlation_id q)))"

definition authenticate ::
  "security_env \<Rightarrow> string \<Rightarrow> bool \<Rightarrow> string \<Rightarrow> resolver option \<Rightarrow> resolver option \<Rightarrow> HttpRequest
   \<Rightarrow> security_store \<Rightarrow> (failure + HttpResponse + HttpRequest) \<times> security_store" where
  "authenticate env backend strict service workload_resolver session_resolver q st =
     (let has_token = (case header_get ''x-ghostrecon-service-authorization'' q of None \<Rightarrow> False | Some v \<Rightarrow> v \<noteq> [])
      in if rq_path q \<in> PUBLIC_PATHS \<and> \<not> has_token then (Inr (Inr q), st)
         else if backend = ''local_oidc'' \<and> \<not> strict then
           (case draw env st of (i, st') \<Rightarrow> (Inr (Inr (q\<lparr>rq_identity := Some (local_identity env q i)\<rparr>)), st'))
         else (case (if service \<noteq> ''gateway-service'' \<or> has_token then workload_resolver else session_resolver) of
                 None \<Rightarrow> (refuse_authentication 503 ''authentication_unavailable'' ''authentication is temporarily unavailable'' q, st)
               | Some resolver \<Rightarrow>
                   (case resolver q st of
                      (Inl e, st') \<Rightarrow>
                        (case e of
                           ValueError _ \<Rightarrow> refuse_authentication 401 ''invalid_authentication'' ''authentication is invalid'' q
                         | _ \<Rightarrow> Inl (Raised e), st')
                    | (Inr None, st') \<Rightarrow>
                        (refuse_authentication 401 ''authentication_required'' ''authentication is required'' q, st')
                    | (Inr (Some i), st') \<Rightarrow> (Inr (Inr (q\<lparr>rq_identity := Some i\<rparr>)), st'))))"

section \<open>Session endpoints\<close>

text \<open>A response body and what it does to the session cookie.\<close>

datatype cookie_change = Keep_Cookie | Delete_Cookie | Set_Cookie string int

type_synonym 'a auth_reply = "security_store \<Rightarrow> (failure + 'a) \<times> security_store"

definition auth_identity :: "HttpRequest \<Rightarrow> failure + IdentityContext" where
  "auth_identity q = (case rq_identity q of None \<Rightarrow> Inl (HTTPException 401 ''authentication required'') | Some i \<Rightarrow> Inr i)"

definition csrf_ok :: "app \<Rightarrow> HttpRequest \<Rightarrow> bool" where
  "csrf_ok a q = (case app_csrf_validator a of None \<Rightarrow> True | Some valid \<Rightarrow> valid q)"

definition csrf_failed :: failure where
  "csrf_failed = HTTPException 403 ''CSRF validation failed''"

text \<open>\<open>str(identity.session_id)\<close>.\<close>

definition session_text :: "IdentityContext \<Rightarrow> string" where
  "session_text i = (case idn_session_id i of None \<Rightarrow> ''None'' | Some s \<Rightarrow> s)"

definition after :: "error + 'a \<Rightarrow> 'b \<Rightarrow> failure + 'b" where
  "after r x = (case r of Inl e \<Rightarrow> Inl (Raised e) | Inr _ \<Rightarrow> Inr x)"

definition revoke_session :: "security_env \<Rightarrow> HttpRequest \<Rightarrow> string \<Rightarrow> (json \<times> cookie_change) auth_reply" where
  "revoke_session env q session_id st =
     (case auth_identity q of
        Inl e \<Rightarrow> (Inl e, st)
      | Inr i \<Rightarrow>
          if session_text i \<noteq> session_id then (Inl (HTTPException 403 ''step-up required for another session''), st)
          else (case revoke env session_id ''self_service'' st of
                  (r, st') \<Rightarrow> (after r (JObj [(''revoked'', JBool True)], Delete_Cookie), st')))"

definition logout :: "security_env \<Rightarrow> app \<Rightarrow> HttpRequest \<Rightarrow> (json \<times> cookie_change) auth_reply" where
  "logout env a q st =
     (case auth_identity q of
        Inl e \<Rightarrow> (Inl e, st)
      | Inr i \<Rightarrow>
          if \<not> csrf_ok a q then (Inl csrf_failed, st)
          else (case idn_session_id i of
                  None \<Rightarrow> (Inr (JObj [(''logged_out'', JBool True)], Delete_Cookie), st)
                | Some s \<Rightarrow> (case revoke env s ''user_logout'' st of
                    (r, st') \<Rightarrow> (after r (JObj [(''logged_out'', JBool True)], Delete_Cookie), st'))))"

definition logout_all :: "security_env \<Rightarrow> app \<Rightarrow> HttpRequest \<Rightarrow> (json \<times> cookie_change) auth_reply" where
  "logout_all env a q st =
     (case auth_identity q of
        Inl e \<Rightarrow> (Inl e, st)
      | Inr i \<Rightarrow>
          if \<not> csrf_ok a q then (Inl csrf_failed, st)
          else (case revoke_subject env (idn_subject i) ''subject_logout_all'' st of
                  (r, st') \<Rightarrow> (after r (JObj [(''logged_out'', JBool True)], Delete_Cookie), st')))"

definition require_admin :: "security_env \<Rightarrow> app \<Rightarrow> bool \<Rightarrow> HttpRequest \<Rightarrow> failure + IdentityContext" where
  "require_admin env a csrf q =
     (case auth_identity q of
        Inl e \<Rightarrow> Inl e
      | Inr i \<Rightarrow>
          (let decision = authorize i SECURITY_ADMIN PHISHING_RESISTANT (Some 900) (sen_now env)
           in if \<not> azd_allowed decision then Inl (HTTPException 403 (azd_code decision))
              else if csrf \<and> \<not> csrf_ok a q then Inl csrf_failed
              else Inr i))"

definition principal_payload :: "SecurityPrincipal \<Rightarrow> json" where
  "principal_payload p =
     JObj [(''id'', JStr (prn_id p)), (''subject'', JStr (prn_subject p)), (''actor_label'', JStr (prn_actor_label p)),
           (''email_verified'', JBool (prn_email_verified p)), (''disabled'', JBool (prn_disabled p)),
           (''role_ceiling'', JArr (map JStr (prn_role_ceiling p))), (''mapping_version'', JStr (prn_mapping_version p)),
           (''policy_version'', JStr (prn_policy_version p))]"

text \<open>The checked body of a principal update: roles, reason, version and the disabled flag.\<close>

definition string_items :: "json list \<Rightarrow> string list option" where
  "string_items xs =
     (if list_all (\<lambda>x. case x of JStr _ \<Rightarrow> True | _ \<Rightarrow> False) xs
      then Some (map (\<lambda>x. case x of JStr s \<Rightarrow> s | _ \<Rightarrow> []) xs) else None)"

definition principal_update :: "dict \<Rightarrow> (string list \<times> string \<times> string \<times> bool) option" where
  "principal_update body =
     (case (dict_get body ''roles'', dict_get body ''reason'', dict_get body ''mapping_version'', dict_get body ''disabled'') of
        (JArr xs, JStr reason, JStr version, JBool disabled) \<Rightarrow>
          (case string_items xs of
             None \<Rightarrow> None
           | Some roles \<Rightarrow>
               if list_all (\<lambda>r. role_of r \<noteq> None) roles \<and> py_strip reason \<noteq> [] then Some (roles, reason, version, disabled) else None)
      | _ \<Rightarrow> None)"

definition security_user_update :: "security_env \<Rightarrow> app \<Rightarrow> HttpRequest \<Rightarrow> string \<Rightarrow> dict \<Rightarrow> json auth_reply" where
  "security_user_update env a q principal_id body st =
     (case require_admin env a True q of
        Inl e \<Rightarrow> (Inl e, st)
      | Inr actor \<Rightarrow>
          (case principal_update body of
             None \<Rightarrow> (Inl (HTTPException 422 ''invalid principal update''), st)
           | Some (roles, reason, version, disabled) \<Rightarrow>
               (case update_principal env principal_id disabled roles version (idn_subject actor) reason st of
                  (Inl (RuntimeError _), st') \<Rightarrow> (Inl (HTTPException 409 ''principal version conflict''), st')
                | (Inl e, st') \<Rightarrow> (Inl (Raised e), st')
                | (Inr None, st') \<Rightarrow> (Inl (HTTPException 404 ''principal not found''), st')
                | (Inr (Some p), st') \<Rightarrow> (Inr (principal_payload p), st'))))"

definition security_user_sessions_revoke :: "security_env \<Rightarrow> app \<Rightarrow> HttpRequest \<Rightarrow> string \<Rightarrow> string \<Rightarrow> json auth_reply" where
  "security_user_sessions_revoke env a q principal_id reason st =
     (case require_admin env a True q of
        Inl e \<Rightarrow> (Inl e, st)
      | Inr _ \<Rightarrow>
          if get_principal principal_id st = None then (Inl (HTTPException 404 ''principal not found''), st)
          else (case revoke_principal_sessions env principal_id reason st of
                  (Inl e, st') \<Rightarrow> (Inl (Raised e), st')
                | (Inr n, st') \<Rightarrow> (Inr (JObj [(''revoked_sessions'', JInt (int n))]), st')))"

definition security_users :: "security_env \<Rightarrow> app \<Rightarrow> HttpRequest \<Rightarrow> nat \<Rightarrow> json auth_reply" where
  "security_users env a q limit st =
     (map_sum id (\<lambda>_. JObj [(''users'', JArr (map principal_payload (list_principals limit st)))]) (require_admin env a False q), st)"

definition security_user :: "security_env \<Rightarrow> app \<Rightarrow> HttpRequest \<Rightarrow> string \<Rightarrow> json auth_reply" where
  "security_user env a q principal_id st =
     (case require_admin env a False q of
        Inl e \<Rightarrow> (Inl e, st)
      | Inr _ \<Rightarrow>
          (case get_principal principal_id st of
             None \<Rightarrow> (Inl (HTTPException 404 ''principal not found''), st)
           | Some p \<Rightarrow> (Inr (principal_payload p), st)))"

text \<open>The sign-in callback after the transaction is consumed and the code exchanged, both at other
  services: their outcomes are arguments.\<close>

record sign_in =
  sgn_claims :: dict
  sgn_authentication_method :: string
  sgn_purpose :: string
  sgn_existing_session_id :: "string option"
  sgn_return_path :: string

definition rejected_sign_in :: "error \<Rightarrow> failure" where
  "rejected_sign_in e =
     (case e of
        KeyError _ \<Rightarrow> HTTPException 401 ''OIDC callback rejected''
      | TypeError _ \<Rightarrow> HTTPException 401 ''OIDC callback rejected''
      | ValueError _ \<Rightarrow> HTTPException 401 ''OIDC callback rejected''
      | PermissionError _ \<Rightarrow> HTTPException 401 ''OIDC callback rejected''
      | _ \<Rightarrow> Raised e)"

definition provider_role_claim :: "string \<Rightarrow> dict \<Rightarrow> error + string list" where
  "provider_role_claim claim claims =
     (case dict_get_default claims claim (JArr []) of
        JArr xs \<Rightarrow> (case string_items xs of None \<Rightarrow> Inl (ValueError ''invalid provider role claim'') | Some rs \<Rightarrow> Inr rs)
      | _ \<Rightarrow> Inl (ValueError ''invalid provider role claim''))"

text \<open>\<open>set(claims.get("amr"))\<close> raises on a list or an object inside the list.\<close>

definition claimed_assurance :: "string list \<Rightarrow> dict \<Rightarrow> error + AssuranceLevel" where
  "claimed_assurance phishing_resistant claims =
     (case dict_get claims ''amr'' of
        JArr xs \<Rightarrow>
          if list_ex (\<lambda>x. case x of JArr _ \<Rightarrow> True | JObj _ \<Rightarrow> True | _ \<Rightarrow> False) xs then Inl (TypeError ''unhashable type'')
          else Inr (if list_ex (\<lambda>m. JStr m \<in> set xs) phishing_resistant then PHISHING_RESISTANT else EMAIL_OTP)
      | _ \<Rightarrow> Inr EMAIL_OTP)"

definition authentication_time :: "dict \<Rightarrow> error + int" where
  "authentication_time claims =
     (case map_of claims ''iat'' of
        None \<Rightarrow> Inl (KeyError ''iat'')
      | Some iat \<Rightarrow> map_sum id usec_of_seconds (py_int (dict_get_default claims ''auth_time'' iat)))"

definition open_session :: "security_env \<Rightarrow> string \<Rightarrow> string list \<Rightarrow> sign_in \<Rightarrow> CreatedSession sop" where
  "open_session env role_claim phishing_resistant x st =
     (case provider_role_claim role_claim (sgn_claims x) of
        Inl e \<Rightarrow> (Inl e, st)
      | Inr roles \<Rightarrow>
          (case provision_from_claims env (sgn_claims x) roles False st of
             (Inl e, st1) \<Rightarrow> (Inl e, st1)
           | (Inr p, st1) \<Rightarrow>
               (case (claimed_assurance phishing_resistant (sgn_claims x), authentication_time (sgn_claims x)) of
                  (Inl e, _) \<Rightarrow> (Inl e, st1)
                | (Inr _, Inl e) \<Rightarrow> (Inl e, st1)
                | (Inr assurance, Inr authenticated_at) \<Rightarrow>
                    create_session env p (sgn_authentication_method x) assurance roles False authenticated_at st1)))"

definition callback :: "security_env \<Rightarrow> string \<Rightarrow> string list \<Rightarrow> error + sign_in \<Rightarrow> (string \<times> cookie_change) auth_reply" where
  "callback env role_claim phishing_resistant exchanged st =
     (case exchanged of
        Inl e \<Rightarrow> (Inl (rejected_sign_in e), st)
      | Inr x \<Rightarrow>
          (case open_session env role_claim phishing_resistant x st of
             (Inl e, st1) \<Rightarrow> (Inl (rejected_sign_in e), st1)
           | (Inr created, st1) \<Rightarrow>
               (let answer = (sgn_return_path x, Set_Cookie (sec_identifier (crs_secrets created))
                      ((crs_absolute_expires_at created - sen_now env) div usec_per_sec))
                in case sgn_existing_session_id x of
                     None \<Rightarrow> (Inr answer, st1)
                   | Some s \<Rightarrow>
                       if s = [] then (Inr answer, st1)
                       else (case revoke env s (''rotated_after_'' @ sgn_purpose x) st1 of (r, st2) \<Rightarrow> (after r answer, st2)))))"

section \<open>Laws of the store\<close>

lemma transaction_cases:
  assumes "transaction body st = (r, st')"
  obtains (rolled_back) e x st1 where "r = Inl e" and "body st = (x, st1)" and "st' = st\<lparr>drawn := drawn st1\<rparr>"
    | (committed) v where "r = Inr v" and "body st = (Inr v, st')" and "store_ok st'"
  using assms by (auto simp: transaction_def split: prod.splits sum.splits if_splits)

lemma add_bindings_frame [simp]:
  "principals (add_bindings env i g why roles st) = principals st"
  "user_sessions (add_bindings env i g why roles st) = user_sessions st"
  by (induction roles arbitrary: st) (simp_all add: draw_def split: prod.splits)

lemma add_bindings_drawn: "drawn st \<le> drawn (add_bindings env i g why roles st)"
proof (induction roles arbitrary: st)
  case (Cons r rs)
  show ?case by (auto simp: draw_def split: prod.splits intro: order.trans [OF _ Cons.IH])
qed simp

text \<open>What never changes about a session, and what only changes one way.\<close>

definition later :: "SecuritySession \<Rightarrow> SecuritySession \<Rightarrow> bool" where
  "later s s' =
     (ssn_id s' = ssn_id s \<and> ssn_principal_id s' = ssn_principal_id s \<and> ssn_identifier_digest s' = ssn_identifier_digest s
      \<and> ssn_absolute_expires_at s' = ssn_absolute_expires_at s \<and> ssn_mapping_version s' = ssn_mapping_version s
      \<and> (ssn_revoked_at s \<noteq> None \<longrightarrow> ssn_revoked_at s' \<noteq> None))"

lemma later_refl [simp]: "later s s"
  by (simp add: later_def)

lemma later_trans: "later s s' \<Longrightarrow> later s' s'' \<Longrightarrow> later s s''"
  by (simp add: later_def)

lemma later_updates [simp]: "later s (ended_session env why s)" "later s (seen_session env s)"
  by (simp_all add: later_def ended_session_def seen_session_def)

definition sessions_kept :: "security_store \<Rightarrow> security_store \<Rightarrow> bool" where
  "sessions_kept st st' = (\<forall>i s. get_session i st = Some s \<longrightarrow> (\<exists>s'. get_session i st' = Some s' \<and> later s s'))"

lemma sessions_kept_same: "user_sessions st' = user_sessions st \<Longrightarrow> sessions_kept st st'"
  by (simp add: sessions_kept_def get_session_def)

lemma row_get_map:
  assumes "\<And>r. key (f r) = key r"
  shows "row_get key i (map f rows) = map_option f (row_get key i rows)"
  using assms by (induction rows) (auto simp: row_get_def)

lemma sessions_kept_map:
  assumes "user_sessions st' = map f (user_sessions st)" and "\<And>s. later s (f s)"
  shows "sessions_kept st st'"
proof -
  have "ssn_id (f s) = ssn_id s" for s using assms(2) [of s] by (simp add: later_def)
  then show ?thesis using assms by (auto simp: sessions_kept_def get_session_def row_get_map)
qed

lemma sessions_kept_put:
  assumes "get_session (ssn_id s) st = Some s" and "later s s'"
  shows "sessions_kept st (put_session s' st)"
  unfolding sessions_kept_def
proof (intro allI impI)
  fix i r
  assume r: "get_session i st = Some r"
  have id: "ssn_id s' = ssn_id s" using assms(2) by (simp add: later_def)
  show "\<exists>r'. get_session i (put_session s' st) = Some r' \<and> later r r'"
  proof (cases "i = ssn_id s")
    case True
    with assms r id show ?thesis by (auto simp: get_session_def put_session_def row_get_row_put)
  next
    case False
    with r id show ?thesis by (auto simp: get_session_def put_session_def row_get_row_put)
  qed
qed

lemma end_where_kept: "sessions_kept st (snd (end_where env why cond st))"
  by (rule sessions_kept_map [where f = "\<lambda>s. if cond s \<and> ssn_revoked_at s = None then ended_session env why s else s"])
    (auto simp: end_where_def)

lemma end_where_frame [simp]:
  "principals (snd (end_where env why cond st)) = principals st" "drawn (snd (end_where env why cond st)) = drawn st"
  by (simp_all add: end_where_def)

lemma session_with_digest_Some:
  assumes "session_with_digest d st = Some (s, p)"
  shows "s \<in> set (user_sessions st)" and "ssn_identifier_digest s = d" and "get_principal (ssn_principal_id s) st = Some p"
  using assms by (auto simp: session_with_digest_def split: option.splits dest: find_Some_iff_mem)

text \<open>What every repository method does to the store: sessions are kept, principals are kept under their
  id, the random supply only advances, and the constraints still hold.\<close>

definition principals_kept :: "(nat \<Rightarrow> string) \<Rightarrow> security_store \<Rightarrow> security_store \<Rightarrow> bool" where
  "principals_kept rnd st st' =
     (\<forall>i p. get_principal i st = Some p \<longrightarrow>
        (\<exists>p'. get_principal i st' = Some p'
           \<and> (prn_mapping_version p' = prn_mapping_version p
              \<or> (\<exists>n \<ge> drawn st. n < drawn st' \<and> prn_mapping_version p' = ''admin-'' @ rnd n))))"

definition store_step :: "(nat \<Rightarrow> string) \<Rightarrow> security_store \<Rightarrow> security_store \<Rightarrow> bool" where
  "store_step rnd st st' =
     (sessions_kept st st' \<and> principals_kept rnd st st' \<and> drawn st \<le> drawn st' \<and> (store_ok st \<longrightarrow> store_ok st'))"

lemma principals_kept_same: "principals st' = principals st \<Longrightarrow> principals_kept rnd st st'"
  by (auto simp: principals_kept_def get_principal_def)

lemma store_step_drawn: "drawn st \<le> n \<Longrightarrow> store_step rnd st (st\<lparr>drawn := n\<rparr>)"
  by (simp add: store_step_def sessions_kept_same principals_kept_same store_ok_def)

lemma store_step_refl [simp]: "store_step rnd st st"
  by (simp add: store_step_def sessions_kept_same principals_kept_same)

lemma transaction_step:
  assumes "transaction body st = (r, st')"
    and "\<And>x st1. body st = (x, st1) \<Longrightarrow> drawn st \<le> drawn st1"
    and "\<And>v st1. body st = (Inr v, st1) \<Longrightarrow> sessions_kept st st1 \<and> principals_kept rnd st st1"
  shows "store_step rnd st st'"
  using assms(1)
proof (cases rule: transaction_cases)
  case (rolled_back e x st1)
  with assms(2) show ?thesis by (simp add: store_step_drawn)
next
  case (committed v)
  with assms(2,3) show ?thesis by (simp add: store_step_def)
qed

lemma provision_step: "provision_from_claims env claims roles allow st = (r, st') \<Longrightarrow> store_step rnd st st'"
proof -
  have body: "drawn st \<le> drawn st1 \<and> sessions_kept st st1 \<and> principals_kept rnd st st1"
    if "admit_principal (find_or_create_principal env claims roles allow issuer subject) st = (x, st1)" for issuer subject x st1
  proof (cases "principal_of issuer subject st")
    case (Some p)
    with that show ?thesis
      by (auto simp: admit_principal_def find_or_create_principal_def sessions_kept_same principals_kept_same split: if_splits)
  next
    case None
    have "sessions_kept st st1 \<and> drawn st \<le> drawn st1"
      using that None add_bindings_drawn
      by (auto simp: admit_principal_def find_or_create_principal_def draw_def Let_def
          intro!: sessions_kept_same order.trans [OF _ add_bindings_drawn] split: if_splits)
    moreover have "\<exists>new. principals st1 = principals st @ new"
      using that None by (auto simp: admit_principal_def find_or_create_principal_def draw_def Let_def split: if_splits)
    then have "principals_kept rnd st st1" by (auto simp: principals_kept_def get_principal_def row_get_def)
    ultimately show ?thesis by simp
  qed
  assume "provision_from_claims env claims roles allow st = (r, st')"
  then show ?thesis
    by (auto simp: provision_from_claims_def split: sum.splits dest: body intro: transaction_step)
qed

lemma create_session_step:
  "create_session env p am assurance roles remembered authenticated st = (r, st') \<Longrightarrow> store_step rnd st st'"
proof -
  have body: "drawn st \<le> drawn st1 \<and> sessions_kept st st1 \<and> principals_kept rnd st st1"
    if "add_session env row secrets st = (x, st1)" for row secrets x and st st1 :: security_store
    using that by (auto simp: add_session_def draw_def Let_def sessions_kept_def get_session_def row_get_def principals_kept_same)
  have trans: "store_step rnd st st'" if "user_sessions st1 = user_sessions st" "principals st1 = principals st"
      "role_bindings st1 = role_bindings st" "drawn st \<le> drawn st1" "store_step rnd st1 st'" for st1
    using that by (auto simp: store_step_def sessions_kept_def principals_kept_def get_session_def get_principal_def store_ok_def)
      (meson le_trans)+
  assume run: "create_session env p am assurance roles remembered authenticated st = (r, st')"
  show ?thesis
  proof (cases "create_session_secrets env st")
    case (Pair x st1)
    then have same: "user_sessions st1 = user_sessions st" "principals st1 = principals st"
      "role_bindings st1 = role_bindings st" "drawn st \<le> drawn st1"
      by (auto simp: create_session_secrets_def draw_def split: if_splits)
    have "store_step rnd st1 st'"
      using run Pair by (auto simp: create_session_def split: sum.splits dest: body intro: transaction_step)
    with same show ?thesis by (rule trans)
  qed
qed

lemma resolve_body_step:
  assumes "store_ok st" and "resolve_body env raw cid st = (x, st1)"
  shows "drawn st1 = drawn st" and "principals st1 = principals st" and "sessions_kept st st1"
proof -
  have "drawn st1 = drawn st \<and> principals st1 = principals st \<and> sessions_kept st st1"
  proof (cases "session_with_digest (digest_secret env raw) st")
    case None
    with assms(2) show ?thesis by (simp add: resolve_body_def sessions_kept_same)
  next
    case (Some sp)
    obtain s p where sp: "sp = (s, p)" by fastforce
    have "distinct (map ssn_id (user_sessions st))" using assms(1) by (simp add: store_ok_def)
    from row_get_unique [OF this session_with_digest_Some(1) [OF Some [unfolded sp]]]
    have g: "get_session (ssn_id s) st = Some s" by (simp add: get_session_def)
    from assms(2) Some sp have "st1 \<in> {st, put_session (ended_session env ''expired_or_invalidated'' s) st, put_session (seen_session env s) st}"
      by (auto simp: resolve_body_def split: if_splits sum.splits)
    with sessions_kept_put [OF g] show ?thesis by (auto simp: put_session_def sessions_kept_same)
  qed
  then show "drawn st1 = drawn st" "principals st1 = principals st" "sessions_kept st st1" by auto
qed

lemma resolve_step: "store_ok st \<Longrightarrow> resolve env raw cid st = (r, st') \<Longrightarrow> store_step rnd st st'"
  unfolding resolve_def by (rule transaction_step) (auto dest: resolve_body_step simp: principals_kept_same)

lemma end_where_step: "transaction (end_where env why cond) st = (r, st') \<Longrightarrow> store_step rnd st st'"
proof (rule transaction_step)
  fix x st1
  assume "end_where env why cond st = (x, st1)"
  then show "drawn st \<le> drawn st1" using end_where_frame [of env why cond st] by simp
next
  fix v st1
  assume "end_where env why cond st = (Inr v, st1)"
  then show "sessions_kept st st1 \<and> principals_kept rnd st st1"
    using end_where_frame [of env why cond st] end_where_kept [of st env why cond] by (simp add: principals_kept_same)
qed

lemma update_body_Inr:
  assumes "update_principal_body env i disabled roles expected actor why st = (Inr (Some p'), st')"
  obtains p where "get_principal i st = Some p" and "prn_mapping_version p = expected"
    and "p' = changed_principal env disabled roles (sen_random env (drawn st)) p"
    and "principals st' = row_put prn_id p' (principals st)" and "drawn st < drawn st'" and "sessions_kept st st'"
proof -
  from assms obtain p where p: "get_principal i st = Some p" "prn_mapping_version p = expected"
    by (auto simp: update_principal_body_def split: option.splits if_splits)
  let ?p = "changed_principal env disabled roles (sen_random env (drawn st)) p"
  let ?st3 = "put_principal ?p (st\<lparr>drawn := Suc (drawn st)\<rparr>)
    \<lparr>role_bindings := filter (\<lambda>b. bnd_principal_id b \<noteq> i) (role_bindings st)\<rparr>"
  let ?st4 = "add_bindings env i actor (take 512 why) (sort (remdups roles)) ?st3"
  have eq: "p' = ?p" "st' = snd (end_where env ''principal_changed'' (\<lambda>s. ssn_principal_id s = i) ?st4)"
    using assms p by (auto simp: update_principal_body_def draw_def Let_def put_principal_def)
  have "sessions_kept ?st4 st'" unfolding eq by (rule end_where_kept)
  then have "sessions_kept st st'" by (simp add: sessions_kept_def get_session_def put_principal_def)
  moreover have "principals st' = row_put prn_id ?p (principals st)" unfolding eq by (simp add: put_principal_def)
  moreover have "drawn st < drawn st'"
    using add_bindings_drawn [of ?st3 env i actor "take 512 why" "sort (remdups roles)"] unfolding eq
    by (simp add: put_principal_def)
  ultimately show ?thesis using p eq(1) that by blast
qed

lemma update_principal_step:
  assumes "update_principal env i disabled roles expected actor why st = (r, st')" and "sen_random env = rnd"
  shows "store_step rnd st st'"
proof -
  let ?body = "update_principal_body env i disabled roles expected actor why"
  have none: "st1 = st" if "?body st = (Inr None, st1)" for st1
    using that by (auto simp: update_principal_body_def Let_def split: option.splits if_splits prod.splits)
  have err: "st1 = st" if "?body st = (Inl e, st1)" for e st1
    using that by (auto simp: update_principal_body_def Let_def split: option.splits if_splits prod.splits)
  have kept: "drawn st < drawn st1 \<and> sessions_kept st st1 \<and> principals_kept rnd st st1" if "?body st = (Inr (Some p'), st1)" for p' st1
    using that
  proof (rule update_body_Inr)
    fix p
    assume p: "get_principal i st = Some p" "p' = changed_principal env disabled roles (sen_random env (drawn st)) p"
      "principals st1 = row_put prn_id p' (principals st)" "drawn st < drawn st1" "sessions_kept st st1"
    then have "prn_id p' = prn_id p" "prn_mapping_version p' = ''admin-'' @ rnd (drawn st)"
      using assms(2) by (simp_all add: changed_principal_def)
    with p show ?thesis by (auto simp: principals_kept_def get_principal_def row_get_row_put)
  qed
  have body: "drawn st \<le> drawn st1 \<and> sessions_kept st st1 \<and> principals_kept rnd st st1" if "?body st = (x, st1)" for x st1
  proof (cases x)
    case (Inl e)
    with that err show ?thesis by (simp add: sessions_kept_same principals_kept_same)
  next
    case (Inr v)
    with that none kept show ?thesis by (cases v) (auto simp: sessions_kept_same principals_kept_same less_imp_le)
  qed
  show ?thesis
    by (rule transaction_step [OF assms(1) [unfolded update_principal_def]]) (use body in auto)
qed

section \<open>Histories of the repository\<close>

text \<open>Any call of a repository method that can change the tables, and a history of such calls in the order of their clocks.\<close>

inductive repository_call :: "security_env \<Rightarrow> security_store \<Rightarrow> security_store \<Rightarrow> bool" for env where
  provisioned: "provision_from_claims env claims roles allow st = (r, st') \<Longrightarrow> repository_call env st st'"
| created: "create_session env p am assurance roles remembered authenticated st = (r, st') \<Longrightarrow> repository_call env st st'"
| resolved: "resolve env raw cid st = (r, st') \<Longrightarrow> repository_call env st st'"
| revoked: "revoke env i why st = (r, st') \<Longrightarrow> repository_call env st st'"
| subject_revoked: "revoke_subject env subject why st = (r', st') \<Longrightarrow> repository_call env st st'"
| principal_revoked: "revoke_principal_sessions env i why st = (r', st') \<Longrightarrow> repository_call env st st'"
| updated: "update_principal env i disabled roles expected actor why st = (r'', st') \<Longrightarrow> repository_call env st st'"

inductive session_step :: "(nat \<Rightarrow> string) \<Rightarrow> int \<times> security_store \<Rightarrow> int \<times> security_store \<Rightarrow> bool" for rnd where
  "repository_call env st st' \<Longrightarrow> sen_random env = rnd \<Longrightarrow> t \<le> sen_now env \<Longrightarrow> session_step rnd (t, st) (sen_now env, st')"

inductive_cases session_stepE: "session_step rnd x y"

lemma repository_call_step: "repository_call env st st' \<Longrightarrow> store_ok st \<Longrightarrow> store_step (sen_random env) st st'"
proof (induction rule: repository_call.induct)
  case (revoked i why st r st')
  then show ?case
    by (cases "transaction (end_where env (take 255 why) (\<lambda>s. ssn_id s = i)) st") (auto simp: revoke_def dest: end_where_step)
qed (auto simp: revoke_subject_def revoke_principal_sessions_def
    intro: provision_step create_session_step resolve_step end_where_step update_principal_step)

lemma session_step_step: "session_step rnd (t, st) (t', st') \<Longrightarrow> store_ok st \<Longrightarrow> store_step rnd st st' \<and> t \<le> t'"
  by (erule session_stepE) (auto dest: repository_call_step)

text \<open>A session that is over for good: revoked, or past its absolute end.\<close>

definition ended :: "string \<Rightarrow> int \<times> security_store \<Rightarrow> bool" where
  "ended i x =
     (store_ok (snd x) \<and> (\<exists>s. get_session i (snd x) = Some s \<and> (ssn_revoked_at s \<noteq> None \<or> ssn_absolute_expires_at s \<le> fst x)))"

interpretation ended_sessions: step_system "session_step rnd" "ended i" for rnd i
proof
  fix x y
  assume step: "session_step rnd x y" and e: "ended i x"
  obtain t st t' st' where xy: "x = (t, st)" "y = (t', st')" by fastforce
  from e obtain s where ok: "store_ok st" and s: "get_session i st = Some s" "ssn_revoked_at s \<noteq> None \<or> ssn_absolute_expires_at s \<le> t"
    by (auto simp: ended_def xy)
  from session_step_step [OF step [unfolded xy] ok] have k: "store_step rnd st st'" "t \<le> t'" by auto
  from k(1) s(1) obtain s' where "get_session i st' = Some s'" "later s s'" by (auto simp: store_step_def sessions_kept_def)
  with s(2) k ok show "ended i y" by (auto simp: ended_def xy store_step_def later_def)
qed

text \<open>A principal whose mapping version was drawn at or after a point of the random supply.\<close>

definition changed_since :: "(nat \<Rightarrow> string) \<Rightarrow> nat \<Rightarrow> string \<Rightarrow> int \<times> security_store \<Rightarrow> bool" where
  "changed_since rnd k i x =
     (store_ok (snd x) \<and> k \<le> drawn (snd x)
      \<and> (\<exists>p n. get_principal i (snd x) = Some p \<and> k \<le> n \<and> prn_mapping_version p = ''admin-'' @ rnd n))"

interpretation changed_principals: step_system "session_step rnd" "changed_since rnd k i" for rnd k i
proof
  fix x y
  assume step: "session_step rnd x y" and c: "changed_since rnd k i x"
  obtain t st t' st' where xy: "x = (t, st)" "y = (t', st')" by fastforce
  from c obtain p n where ok: "store_ok st" and d: "k \<le> drawn st"
    and p: "get_principal i st = Some p" "k \<le> n" "prn_mapping_version p = ''admin-'' @ rnd n" by (auto simp: changed_since_def xy)
  from session_step_step [OF step [unfolded xy] ok] have s: "store_step rnd st st'" by simp
  then have ok': "store_ok st'" "k \<le> drawn st'" using ok d by (auto simp: store_step_def)
  from s p(1) obtain p' where p': "get_principal i st' = Some p'"
    "prn_mapping_version p' = prn_mapping_version p \<or> (\<exists>m \<ge> drawn st. m < drawn st' \<and> prn_mapping_version p' = ''admin-'' @ rnd m)"
    unfolding store_step_def principals_kept_def by blast
  from p'(2) have "\<exists>m \<ge> k. prn_mapping_version p' = ''admin-'' @ rnd m" using p(2,3) d by (auto intro: order.trans)
  with p'(1) ok' show "changed_since rnd k i y" by (auto simp: changed_since_def xy)
qed

section \<open>What a session cookie is worth\<close>

lemma session_identity_fields:
  assumes "session_identity env s p roles cid = Inr i"
  shows "idn_session_id i = Some (ssn_id s)" and "idn_subject i = prn_subject p" and "idn_permissions i = permissions_for_roles roles"
    and "idn_authenticated_at i = ssn_authenticated_at s" and "idn_calling_service i = None"
    and "assurance_value (idn_assurance i) = ssn_assurance s"
proof -
  from assms obtain a where a: "assurance_of (ssn_assurance s) = Inr a" by (auto simp: session_identity_def split: sum.splits)
  then have "assurance_value a = ssn_assurance s"
    by (auto simp: assurance_of_def split: option.splits if_splits)
  with assms a show "idn_session_id i = Some (ssn_id s)" "idn_subject i = prn_subject p" "idn_permissions i = permissions_for_roles roles"
    "idn_authenticated_at i = ssn_authenticated_at s" "idn_calling_service i = None" "assurance_value (idn_assurance i) = ssn_assurance s"
    by (auto simp: session_identity_def identity_post_init_def split: if_splits)
qed

lemma resolve_Some:
  assumes "resolve env raw cid st = (Inr (Some i), st')" and "store_ok st"
  obtains s p where "get_session (ssn_id s) st = Some s" and "ssn_identifier_digest s = digest_secret env raw"
    and "get_principal (ssn_principal_id s) st = Some p" and "\<not> session_over env s p"
    and "session_identity env (seen_session env s) p (session_roles env s p st) cid = Inr i" and "st' = put_session (seen_session env s) st"
proof -
  from assms(1) have body: "resolve_body env raw cid st = (Inr (Some i), st')"
    unfolding resolve_def by (cases rule: transaction_cases) auto
  then obtain s p where sp: "session_with_digest (digest_secret env raw) st = Some (s, p)" and o: "\<not> session_over env s p"
    and i: "session_identity env (seen_session env s) p (session_roles env s p st) cid = Inr i" "st' = put_session (seen_session env s) st"
    by (auto simp: resolve_body_def split: option.splits if_splits sum.splits)
  note f = session_with_digest_Some [OF sp]
  have "distinct (map ssn_id (user_sessions st))" using assms(2) by (simp add: store_ok_def)
  from row_get_unique [OF this f(1)] have "get_session (ssn_id s) st = Some s" by (simp add: get_session_def)
  with f(2,3) o i that show ?thesis by blast
qed

lemma seen_session_id [simp]: "ssn_id (seen_session env s) = ssn_id s"
  by (simp add: seen_session_def)

text \<open>C14: A cookie authenticates only as the session it is the secret of, while that session is
  neither revoked nor past its idle or absolute end and its principal is enabled and unchanged;
  every permission of the identity comes from a role that is granted to the principal and not
  expired, that the identity provider reported at sign-in, and that lies within the principal's ceiling; and using
  the session never moves its idle end past its absolute end.\<close>

theorem session_authority_bounded:
  assumes "resolve env raw cid st = (Inr (Some i), st')" and "store_ok st"
  shows "\<exists>s p. get_session (ssn_id s) st = Some s \<and> idn_session_id i = Some (ssn_id s)
    \<and> ssn_identifier_digest s = digest_secret env raw \<and> get_principal (ssn_principal_id s) st = Some p
    \<and> idn_subject i = prn_subject p \<and> \<not> prn_disabled p \<and> ssn_mapping_version s = prn_mapping_version p
    \<and> ssn_revoked_at s = None \<and> sen_now env < ssn_idle_expires_at s \<and> sen_now env < ssn_absolute_expires_at s
    \<and> (\<forall>permission \<in> idn_permissions i. \<exists>role. permission \<in> permissions_for_roles {role}
         \<and> role \<in> locally_granted env (prn_id p) st \<and> role \<in> set (ssn_provider_roles s) \<and> role \<in> set (prn_role_ceiling p))
    \<and> (\<exists>s'. get_session (ssn_id s) st' = Some s' \<and> ssn_idle_expires_at s' \<le> ssn_absolute_expires_at s'
         \<and> ssn_absolute_expires_at s' = ssn_absolute_expires_at s)"
  using assms
proof (rule resolve_Some)
  fix s p
  assume s: "get_session (ssn_id s) st = Some s" "ssn_identifier_digest s = digest_secret env raw"
      "get_principal (ssn_principal_id s) st = Some p" "\<not> session_over env s p"
    and i: "session_identity env (seen_session env s) p (session_roles env s p st) cid = Inr i" "st' = put_session (seen_session env s) st"
  note f = session_identity_fields [OF i(1)]
  have "get_session (ssn_id s) st' = Some (seen_session env s)"
    using s(1) by (simp add: i(2) get_session_def put_session_def row_get_row_put)
  moreover have "ssn_idle_expires_at (seen_session env s) \<le> ssn_absolute_expires_at (seen_session env s)"
    "ssn_absolute_expires_at (seen_session env s) = ssn_absolute_expires_at s" by (simp_all add: seen_session_def)
  moreover have "\<exists>role. permission \<in> permissions_for_roles {role}
      \<and> role \<in> locally_granted env (prn_id p) st \<and> role \<in> set (ssn_provider_roles s) \<and> role \<in> set (prn_role_ceiling p)"
    if "permission \<in> idn_permissions i" for permission
    using that by (auto simp: f(3) session_roles_def permissions_for_roles_def)
  moreover have "\<not> prn_disabled p" "ssn_mapping_version s = prn_mapping_version p" "ssn_revoked_at s = None"
    "sen_now env < ssn_idle_expires_at s" "sen_now env < ssn_absolute_expires_at s" using s(4) by (auto simp: session_over_def)
  ultimately show ?thesis using s(1-3) f(1,2) by - (rule exI [of _ s], rule exI [of _ p], auto)
qed

text \<open>C12: Once a session is revoked (by logout, by an administrator, by a change of its principal or by
  being found invalid) or past its absolute end, no later request is authenticated by it, through
  every history of sign-ins, requests, revocations and changes.\<close>

theorem ended_sessions_stay_ended:
  assumes "(session_step rnd)\<^sup>*\<^sup>* (t, st) (t', st')" and "store_ok st" and "get_session i st = Some s"
    and "ssn_revoked_at s \<noteq> None \<or> ssn_absolute_expires_at s \<le> t"
    and "resolve env raw cid st' = (Inr (Some identity), st'')" and "t' \<le> sen_now env"
  shows "idn_session_id identity \<noteq> Some i"
proof
  assume id: "idn_session_id identity = Some i"
  have "ended i (t, st)" using assms(2-4) by (auto simp: ended_def)
  then have "ended i (t', st')" by (rule ended_sessions.inv_history [OF assms(1)])
  then have ok: "store_ok st'" and e: "\<exists>s'. get_session i st' = Some s' \<and> (ssn_revoked_at s' \<noteq> None \<or> ssn_absolute_expires_at s' \<le> t')"
    by (auto simp: ended_def)
  from assms(5) ok show False
  proof (rule resolve_Some)
    fix s' p
    assume s': "get_session (ssn_id s') st' = Some s'" "\<not> session_over env s' p"
      and i: "session_identity env (seen_session env s') p (session_roles env s' p st') cid = Inr identity"
    from session_identity_fields(1) [OF i] id have "ssn_id s' = i" by simp
    with s' e assms(6) show False by (auto simp: session_over_def)
  qed
qed

text \<open>C13: A change of a principal by an administrator ends every session that was opened from the
  principal as it was: no later request is authenticated by one, not even when a concurrent sign-in read the
  principal before the change and stored its session after it.  The versions the change draws are
  new ones.\<close>

theorem principal_change_ends_sessions:
  assumes "update_principal env p disabled roles expected actor why st = (Inr (Some changed), st1)"
    and "store_ok st" and "sen_random env = rnd" and "\<forall>n \<ge> drawn st. expected \<noteq> ''admin-'' @ rnd n"
    and "(session_step rnd)\<^sup>*\<^sup>* (sen_now env, st1) (t, st2)"
    and "get_session i st2 = Some s" and "ssn_principal_id s = p" and "ssn_mapping_version s = expected"
    and "resolve env2 raw cid st2 = (Inr (Some identity), st3)"
  shows "idn_session_id identity \<noteq> Some i"
proof
  assume id: "idn_session_id identity = Some i"
  have body: "update_principal_body env p disabled roles expected actor why st = (Inr (Some changed), st1)" and ok1: "store_ok st1"
    using assms(1) unfolding update_principal_def by (cases rule: transaction_cases; simp)+
  from body have "changed_since rnd (drawn st) p (sen_now env, st1)"
  proof (rule update_body_Inr)
    fix p0
    assume "get_principal p st = Some p0" "changed = changed_principal env disabled roles (sen_random env (drawn st)) p0"
      "principals st1 = row_put prn_id changed (principals st)" "drawn st < drawn st1"
    moreover from this(1) have "prn_id p0 = p" by (auto simp: get_principal_def dest: row_get_key)
    ultimately show ?thesis using ok1 assms(3)
      by (auto simp: changed_since_def changed_principal_def get_principal_def row_get_row_put)
  qed
  then have "changed_since rnd (drawn st) p (t, st2)" by (rule changed_principals.inv_history [OF assms(5)])
  then obtain q n where ok: "store_ok st2" and q: "get_principal p st2 = Some q" "drawn st \<le> n" "prn_mapping_version q = ''admin-'' @ rnd n"
    by (auto simp: changed_since_def)
  from assms(9) ok show False
  proof (rule resolve_Some)
    fix s' p'
    assume s': "get_session (ssn_id s') st2 = Some s'" "get_principal (ssn_principal_id s') st2 = Some p'" "\<not> session_over env2 s' p'"
      and i: "session_identity env2 (seen_session env2 s') p' (session_roles env2 s' p' st2) cid = Inr identity"
    from session_identity_fields(1) [OF i] id have "ssn_id s' = i" by simp
    with s' assms(6-8) q assms(4) show False by (auto simp: session_over_def)
  qed
qed

end
