(* ===== verification/User_Sessions_Examples.thy ===== *)
theory User_Sessions_Examples
  imports User_Sessions
begin

text \<open>
  A principal with two sessions, one of them revoked: the theorems about sessions are applied
  to requests, a sign-in and an administrator's change on this store.
\<close>

definition desk_env :: security_env where
  "desk_env =
     \<lparr>sen_now = 1700000000000000, sen_random = (\<lambda>n. replicate (Suc n) (CHR ''u'')), sen_hmac_sha256 = (\<lambda>k s. ''h:'' @ s),
      sen_hmac_key = replicate 32 (CHR ''k''), sen_idle_seconds = 28800, sen_absolute_seconds = 86400,
      sen_remembered_idle_seconds = 604800, sen_remembered_absolute_seconds = 2592000, sen_rotation_seconds = 900,
      sen_client_id = None, sen_profile = ''production''\<rparr>"

definition desk_principal :: SecurityPrincipal where
  "desk_principal =
     \<lparr>prn_id = ''p1'', prn_issuer = ''https://id.example.com'', prn_subject = ''alex'', prn_actor_label = ''alex'', prn_email = None,
      prn_email_verified = True, prn_disabled = False, prn_role_ceiling = [''analyst'', ''viewer''],
      prn_mapping_version = ''oidc.v1'', prn_policy_version = POLICY_VERSION, prn_created_at = 0, prn_updated_at = 0\<rparr>"

definition desk_binding :: SecurityRoleBinding where
  "desk_binding =
     \<lparr>bnd_id = ''b1'', bnd_principal_id = ''p1'', bnd_role = ''analyst'', bnd_granted_by_subject = ''root'', bnd_reason = ''joined'',
      bnd_expires_at = None, bnd_created_at = 0\<rparr>"

definition desk_session :: "string \<Rightarrow> string \<Rightarrow> SecuritySession" where
  "desk_session i secret =
     session_row desk_env desk_principal ''oidc'' EMAIL_OTP [''analyst''] False 1699999999000000
       \<lparr>sec_identifier = secret, sec_identifier_digest = ''h:'' @ secret, sec_csrf_token = ''t'', sec_csrf_digest = ''h:t''\<rparr> i"

definition desk_store :: security_store where
  "desk_store =
     \<lparr>principals = [desk_principal], role_bindings = [desk_binding],
      user_sessions = [ended_session desk_env ''user_logout'' (desk_session ''s1'' ''old''), desk_session ''s2'' ''new''], drawn = 0\<rparr>"

lemma desk_store_ok: "store_ok desk_store"
  by code_simp

definition signed_in :: "(error + IdentityContext option) \<times> security_store \<Rightarrow> bool" where
  "signed_in x = (case fst x of Inr (Some _) \<Rightarrow> True | _ \<Rightarrow> False)"

lemma signed_inE:
  assumes "signed_in x"
  obtains i st' where "x = (Inr (Some i), st')"
  using assms by (cases x) (auto simp: signed_in_def split: sum.splits option.splits)

theorem session_authority_bounded_witness:
  "\<exists>i st'. resolve desk_env ''new'' ''c'' desk_store = (Inr (Some i), st') \<and> idn_subject i = ''alex''"
proof -
  have "signed_in (resolve desk_env ''new'' ''c'' desk_store)" by code_simp
  then obtain i st' where run: "resolve desk_env ''new'' ''c'' desk_store = (Inr (Some i), st')" by (rule signed_inE)
  have "prn_subject p = ''alex''" if "get_principal k desk_store = Some p" for k p
    using that by (auto simp: get_principal_def row_get_def desk_store_def desk_principal_def split: if_splits)
  with session_authority_bounded [OF run desk_store_ok] run show ?thesis by auto
qed

theorem ended_sessions_stay_ended_witness:
  "\<exists>i st'. resolve desk_env ''new'' ''c'' (snd (resolve desk_env ''new'' ''c'' desk_store)) = (Inr (Some i), st')
     \<and> idn_session_id i \<noteq> Some ''s1''"
proof -
  let ?st = "snd (resolve desk_env ''new'' ''c'' desk_store)"
  have "signed_in (resolve desk_env ''new'' ''c'' ?st)" by code_simp
  then obtain i st' where run: "resolve desk_env ''new'' ''c'' ?st = (Inr (Some i), st')" by (rule signed_inE)
  have "session_step (sen_random desk_env) (0, desk_store) (sen_now desk_env, ?st)"
    by (intro session_step.intros repository_call.resolved [of desk_env "''new''" "''c''" desk_store "fst (resolve desk_env ''new'' ''c'' desk_store)"])
      (simp_all add: desk_env_def)
  then have steps: "(session_step (sen_random desk_env))\<^sup>*\<^sup>* (0, desk_store) (sen_now desk_env, ?st)" by blast
  have s: "get_session ''s1'' desk_store = Some (ended_session desk_env ''user_logout'' (desk_session ''s1'' ''old''))"
    by (simp add: get_session_def row_get_def desk_store_def ended_session_def desk_session_def session_row_def Let_def)
  have "idn_session_id i \<noteq> Some ''s1''"
    using ended_sessions_stay_ended [OF steps desk_store_ok s _ run] by (simp add: ended_session_def)
  with run show ?thesis by blast
qed

definition changed_store :: security_store where
  "changed_store = snd (update_principal desk_env ''p1'' False [''viewer''] ''oidc.v1'' ''root'' ''moved team'' desk_store)"

text \<open>Two sign-ins after the change: one from the principal as it was before, one from the changed principal.\<close>

definition stale_store :: security_store where
  "stale_store = snd (create_session desk_env desk_principal ''oidc'' EMAIL_OTP [''viewer''] False 1699999999000000 changed_store)"

definition reopened_store :: security_store where
  "reopened_store = snd (create_session desk_env (changed_principal desk_env False [''viewer''] (sen_random desk_env 0) desk_principal)
     ''oidc'' EMAIL_OTP [''viewer''] False 1699999999000000 stale_store)"

theorem principal_change_ends_sessions_witness:
  "\<exists>i st'. resolve desk_env (sen_random desk_env 5) ''c'' reopened_store = (Inr (Some i), st')
     \<and> idn_session_id i \<noteq> Some (sen_random desk_env 4)"
proof -
  let ?upd = "update_principal desk_env ''p1'' False [''viewer''] ''oidc.v1'' ''root'' ''moved team'' desk_store"
  have "(case fst ?upd of Inr (Some _) \<Rightarrow> True | _ \<Rightarrow> False)" by code_simp
  then obtain p where upd: "?upd = (Inr (Some p), changed_store)"
    unfolding changed_store_def by (cases ?upd) (auto split: sum.splits option.splits)
  have "session_step (sen_random desk_env) (sen_now desk_env, changed_store) (sen_now desk_env, stale_store)"
    unfolding stale_store_def
    by (intro session_step.intros repository_call.created
        [where r = "fst (create_session desk_env desk_principal ''oidc'' EMAIL_OTP [''viewer''] False 1699999999000000 changed_store)"]) auto
  moreover have "session_step (sen_random desk_env) (sen_now desk_env, stale_store) (sen_now desk_env, reopened_store)"
    unfolding reopened_store_def
    by (intro session_step.intros repository_call.created
        [where r = "fst (create_session desk_env (changed_principal desk_env False [''viewer''] (sen_random desk_env 0) desk_principal)
           ''oidc'' EMAIL_OTP [''viewer''] False 1699999999000000 stale_store)"]) auto
  ultimately have steps: "(session_step (sen_random desk_env))\<^sup>*\<^sup>* (sen_now desk_env, changed_store) (sen_now desk_env, reopened_store)"
    by (rule converse_rtranclp_into_rtranclp [OF _ r_into_rtranclp])
  have "\<exists>s. get_session (sen_random desk_env 4) reopened_store = Some s \<and> ssn_principal_id s = ''p1'' \<and> ssn_mapping_version s = ''oidc.v1''"
    if "(case get_session (sen_random desk_env 4) reopened_store of
           None \<Rightarrow> False | Some s \<Rightarrow> ssn_principal_id s = ''p1'' \<and> ssn_mapping_version s = ''oidc.v1'')"
    using that by (auto split: option.splits)
  moreover have "case get_session (sen_random desk_env 4) reopened_store of
      None \<Rightarrow> False | Some s \<Rightarrow> ssn_principal_id s = ''p1'' \<and> ssn_mapping_version s = ''oidc.v1''" by code_simp
  ultimately obtain s where s: "get_session (sen_random desk_env 4) reopened_store = Some s" "ssn_principal_id s = ''p1''"
    "ssn_mapping_version s = ''oidc.v1''" by blast
  have "signed_in (resolve desk_env (sen_random desk_env 5) ''c'' reopened_store)" by code_simp
  then obtain i st' where run: "resolve desk_env (sen_random desk_env 5) ''c'' reopened_store = (Inr (Some i), st')" by (rule signed_inE)
  have "\<forall>n \<ge> drawn desk_store. ''oidc.v1'' \<noteq> ''admin-'' @ sen_random desk_env n" by simp
  from principal_change_ends_sessions [OF upd desk_store_ok refl this steps s run] run show ?thesis by blast
qed

end
