(* ===== verification/Workload_Identity.thy ===== *)
theory Workload_Identity
  imports User_Sessions
begin

text \<open>
  Signed tokens between the processes (\<open>security/jwt.py\<close>, \<open>security/workload.py\<close>,
  \<open>security/tasks.py\<close>, the replay detector of \<open>security/transactions.py\<close>): a workload signs who it is and
  on whose behalf it calls, the receiver verifies both tokens and builds the identity of the
  request; a worker verifies the signature on a task before it starts.

  A token is given by what its three segments decode to, the signature being absent when it does not
  decode; a string that does not split, or whose first two segments do not decode, is \<open>Garbage\<close>.  The Ed25519 operations are parameters, as are the key files: the trust
  bundle is an argument.  The replay markers in Redis are a map from keys to the time they
  expire.
\<close>

section \<open>Tokens\<close>

datatype token = Token json json "string option" | Garbage

record 'k signatures =
  sig_sign :: "'k \<Rightarrow> json \<times> json \<Rightarrow> string"
  sig_verify :: "'k \<Rightarrow> string \<Rightarrow> json \<times> json \<Rightarrow> bool"

text \<open>\<open>TokenValidationError\<close> is a \<open>ValueError\<close>.\<close>

definition token_error :: "string \<Rightarrow> error" where
  "token_error message = ValueError message"

definition sign_eddsa :: "'k signatures \<Rightarrow> dict \<Rightarrow> 'k \<Rightarrow> string \<Rightarrow> string \<Rightarrow> token" where
  "sign_eddsa sg claims key kid token_type =
     (let header = JObj [(''alg'', JStr ''EdDSA''), (''kid'', JStr kid), (''typ'', JStr token_type)]
      in Token header (JObj claims) (Some (sig_sign sg key (header, JObj claims))))"

text \<open>\<open>int(now.timestamp())\<close> of a time after 1970.\<close>

definition unix_seconds :: "int \<Rightarrow> int" where
  "unix_seconds now = now div usec_per_sec"

record VerifiedToken =
  vtk_header :: dict
  vtk_claims :: dict

text \<open>The signature part: purpose, key and signature.\<close>

definition check_signature ::
  "'k signatures \<Rightarrow> token \<Rightarrow> (string \<times> 'k) list \<Rightarrow> string \<Rightarrow> error + VerifiedToken" where
  "check_signature sg tok keys expected_type =
     (case tok of
        Token (JObj header) (JObj claims) signature \<Rightarrow>
          if dict_get header ''alg'' \<noteq> JStr ''EdDSA'' \<or> dict_get header ''typ'' \<noteq> JStr expected_type
          then Inl (token_error ''invalid token purpose'')
          else (case dict_get header ''kid'' of
                  JStr kid \<Rightarrow>
                    (case map_of keys kid of
                       None \<Rightarrow> Inl (token_error ''unknown signing key'')
                     | Some key \<Rightarrow>
                         (case signature of
                            None \<Rightarrow> Inl (token_error ''invalid token encoding'')
                          | Some sign \<Rightarrow>
                              if sig_verify sg key sign (JObj header, JObj claims)
                              then Inr \<lparr>vtk_header = header, vtk_claims = claims\<rparr>
                              else Inl (token_error ''invalid token signature'')))
                | _ \<Rightarrow> Inl (token_error ''unknown signing key''))
      | _ \<Rightarrow> Inl (token_error ''invalid token''))"

definition audience_list :: "json \<Rightarrow> json list option" where
  "audience_list v = (case v of JStr s \<Rightarrow> Some [JStr s] | JArr xs \<Rightarrow> Some xs | _ \<Rightarrow> None)"

definition check_identity :: "string \<Rightarrow> string \<Rightarrow> string option \<Rightarrow> dict \<Rightarrow> error option" where
  "check_identity issuer audience subject claims =
     (if dict_get claims ''iss'' \<noteq> JStr issuer \<or> (case dict_get claims ''sub'' of JStr s \<Rightarrow> s = [] | _ \<Rightarrow> True)
      then Some (token_error ''invalid token identity'')
      else if (case subject of None \<Rightarrow> False | Some s \<Rightarrow> dict_get claims ''sub'' \<noteq> JStr s)
      then Some (token_error ''invalid token identity'')
      else (case audience_list (dict_get claims ''aud'') of
              None \<Rightarrow> Some (token_error ''invalid token audience'')
            | Some xs \<Rightarrow> if JStr audience \<in> set xs then None else Some (token_error ''invalid token audience'')))"

text \<open>\<open>int(claims[k])\<close>, whose exceptions are answered alike.\<close>

definition claim_int :: "dict \<Rightarrow> string \<Rightarrow> int option" where
  "claim_int claims k =
     (case map_of claims k of
        None \<Rightarrow> None
      | Some v \<Rightarrow> (case py_int v of Inl _ \<Rightarrow> None | Inr n \<Rightarrow> Some n))"

definition CLOCK_SKEW_SECONDS :: int where
  "CLOCK_SKEW_SECONDS = 30"

definition check_times :: "int \<Rightarrow> int \<Rightarrow> dict \<Rightarrow> error option" where
  "check_times maximum_lifetime current claims =
     (case (claim_int claims ''iat'', claim_int claims ''nbf'', claim_int claims ''exp'') of
        (Some iat, Some nbf, Some expires) \<Rightarrow>
          if iat > current + CLOCK_SKEW_SECONDS \<or> nbf > current + CLOCK_SKEW_SECONDS then Some (token_error ''token is not active'')
          else if expires \<le> current - CLOCK_SKEW_SECONDS then Some (token_error ''token expired'')
          else if expires \<le> iat \<or> expires - iat > maximum_lifetime then Some (token_error ''invalid token lifetime'')
          else None
      | _ \<Rightarrow> Some (token_error ''invalid token time claims''))"

definition verify_eddsa ::
  "'k signatures \<Rightarrow> int \<Rightarrow> token \<Rightarrow> (string \<times> 'k) list \<Rightarrow> string \<Rightarrow> string \<Rightarrow> string \<Rightarrow> string option \<Rightarrow> int \<Rightarrow> error + VerifiedToken" where
  "verify_eddsa sg now tok keys expected_type issuer audience subject maximum_lifetime =
     (case check_signature sg tok keys expected_type of
        Inl e \<Rightarrow> Inl e
      | Inr v \<Rightarrow>
          (case check_identity issuer audience subject (vtk_claims v) of
             Some e \<Rightarrow> Inl e
           | None \<Rightarrow>
               (case check_times maximum_lifetime (unix_seconds now) (vtk_claims v) of
                  Some e \<Rightarrow> Inl e
                | None \<Rightarrow>
                    (case dict_get (vtk_claims v) ''jti'' of
                       JStr jti \<Rightarrow> if jti = [] then Inl (token_error ''missing token identifier'') else Inr v
                     | _ \<Rightarrow> Inl (token_error ''missing token identifier'')))))"

definition workload_urn :: "string \<Rightarrow> string \<Rightarrow> string" where
  "workload_urn environment workload = ''urn:ghostrecon:'' @ environment @ '':workload:'' @ workload"

definition service_urn :: "string \<Rightarrow> string \<Rightarrow> string" where
  "service_urn environment service = ''urn:ghostrecon:'' @ environment @ '':service:'' @ service"

definition service_claims :: "string \<Rightarrow> string \<Rightarrow> string \<Rightarrow> int \<Rightarrow> int \<Rightarrow> string \<Rightarrow> error + dict" where
  "service_claims workload environment receiver lifetime issued jti =
     (if \<not> (1 \<le> lifetime \<and> lifetime \<le> 300)
      then Inl (ValueError ''service token lifetime must be between 1 and 300 seconds'')
      else Inr [(''iss'', JStr (workload_urn environment workload)), (''sub'', JStr (workload_urn environment workload)),
                (''aud'', JStr (service_urn environment receiver)), (''iat'', JInt (unix_seconds issued)),
                (''nbf'', JInt (unix_seconds (issued - usec_of_seconds 1))),
                (''exp'', JInt (unix_seconds (issued + usec_of_seconds lifetime))), (''jti'', JStr jti)])"

definition obo_claims :: "string \<Rightarrow> IdentityContext \<Rightarrow> string \<Rightarrow> string \<Rightarrow> int \<Rightarrow> string \<Rightarrow> dict" where
  "obo_claims gateway_principal i audience operation issued jti =
     [(''iss'', JStr gateway_principal), (''sub'', JStr (represented_subject i)), (''azp'', JStr gateway_principal),
      (''aud'', JStr audience), (''operation'', JStr operation), (''correlation_id'', JStr (idn_correlation_id i)),
      (''assurance'', JStr (assurance_value (idn_assurance i))),
      (''authentication_method'', JStr (idn_authentication_method i)),
      (''authenticated_at'', JInt (unix_seconds (idn_authenticated_at i))),
      (''mapping_version'', JStr (idn_claim_mapping_version i)), (''policy_version'', JStr (idn_permission_policy_version i)),
      (''iat'', JInt (unix_seconds issued)), (''nbf'', JInt (unix_seconds (issued - usec_of_seconds 1))),
      (''exp'', JInt (unix_seconds (issued + usec_of_seconds 45))), (''jti'', JStr jti)]"

section \<open>Signing\<close>

text \<open>The credentials of a process: its name, its key and the key's id, from its settings and files.\<close>

record 'k signer =
  sgr_environment :: string
  sgr_identity :: string
  sgr_key :: 'k
  sgr_kid :: string
  sgr_lifetime :: int

definition SERVICE_JWT_PURPOSE :: string where
  "SERVICE_JWT_PURPOSE = ''ghostrecon-service+jwt''"

definition OBO_JWT_PURPOSE :: string where
  "OBO_JWT_PURPOSE = ''ghostrecon-obo+jwt''"

definition service_token :: "'k signatures \<Rightarrow> 'k signer \<Rightarrow> int \<Rightarrow> string \<Rightarrow> string \<Rightarrow> error + token" where
  "service_token sg s now jti receiver =
     (case service_claims (sgr_identity s) (sgr_environment s) receiver (sgr_lifetime s) now jti of
        Inl e \<Rightarrow> Inl e
      | Inr claims \<Rightarrow> Inr (sign_eddsa sg claims (sgr_key s) (sgr_kid s) SERVICE_JWT_PURPOSE))"

definition obo_token :: "'k signatures \<Rightarrow> 'k signer \<Rightarrow> int \<Rightarrow> string \<Rightarrow> IdentityContext \<Rightarrow> string \<Rightarrow> string \<Rightarrow> token" where
  "obo_token sg s now jti i owner operation =
     (let claims = obo_claims (workload_urn (sgr_environment s) (sgr_identity s)) i (service_urn (sgr_environment s) owner) operation now jti
      in sign_eddsa sg (claims @ [(''roles'', JArr (map JStr (sorted_list_of_set (idn_roles i)))),
                                  (''permissions'', JArr (map JStr (sorted_list_of_set (idn_permissions i))))])
           (sgr_key s) (sgr_kid s) OBO_JWT_PURPOSE)"

section \<open>Replay markers\<close>

type_synonym markers = "string \<Rightarrow> int option"

text \<open>\<open>SET key 1 EX seconds NX\<close>: succeeds when the key is absent or expired.\<close>

definition set_if_absent :: "int \<Rightarrow> string \<Rightarrow> int \<Rightarrow> markers \<Rightarrow> bool \<times> markers" where
  "set_if_absent now key ttl ms =
     (case ms key of
        Some expires \<Rightarrow> if now < expires then (False, ms) else (True, ms(key \<mapsto> now + usec_of_seconds ttl))
      | None \<Rightarrow> (True, ms(key \<mapsto> now + usec_of_seconds ttl)))"

definition replay_consume :: "int \<Rightarrow> string \<Rightarrow> string \<Rightarrow> int \<Rightarrow> markers \<Rightarrow> bool \<times> markers" where
  "replay_consume now purpose jti ttl ms =
     (if purpose = [] \<or> jti = [] \<or> ttl \<le> 0 then (False, ms)
      else set_if_absent now (''ghostrecon:security:replay:'' @ purpose @ '':'' @ jti) ttl ms)"

text \<open>\<open>max(1, int(claims["exp"]) - int(datetime.now(UTC).timestamp()))\<close>.\<close>

definition marker_ttl :: "int \<Rightarrow> dict \<Rightarrow> int" where
  "marker_ttl now claims = max 1 ((case claim_int claims ''exp'' of Some n \<Rightarrow> n | None \<Rightarrow> 0) - unix_seconds now)"

section \<open>Verification by the receiver\<close>

record 'k TrustedWorkload =
  twl_issuer :: string
  twl_public_keys :: "(string \<times> 'k) list"

type_synonym 'k trust_bundle = "(string \<times> 'k TrustedWorkload) list"

record receiver =
  rcv_environment :: string
  rcv_service_name :: string

fun verify_service :: "'k signatures \<Rightarrow> int \<Rightarrow> string \<Rightarrow> token \<Rightarrow> 'k trust_bundle \<Rightarrow> error + VerifiedToken \<times> string" where
  "verify_service sg now audience tok [] = Inl (token_error ''untrusted workload'')"
| "verify_service sg now audience tok ((caller, trusted) # rest) =
     (case verify_eddsa sg now tok (twl_public_keys trusted) SERVICE_JWT_PURPOSE (twl_issuer trusted) audience None 300 of
        Inr v \<Rightarrow> Inr (v, caller)
      | Inl _ \<Rightarrow> verify_service sg now audience tok rest)"

definition string_list :: "json \<Rightarrow> error + string list" where
  "string_list v =
     (case v of
        JArr xs \<Rightarrow> (case string_items xs of None \<Rightarrow> Inl (token_error ''invalid represented identity'') | Some ss \<Rightarrow> Inr ss)
      | _ \<Rightarrow> Inl (token_error ''invalid represented identity''))"

text \<open>The claims are read in order; the first that is missing or malformed is the exception raised.\<close>

definition andthen :: "error + 'a \<Rightarrow> ('a \<Rightarrow> error + 'b) \<Rightarrow> error + 'b" where
  "andthen r f = (case r of Inl e \<Rightarrow> Inl e | Inr x \<Rightarrow> f x)"

definition claim_number :: "dict \<Rightarrow> string \<Rightarrow> error + int" where
  "claim_number claims k = (case map_of claims k of None \<Rightarrow> Inl (KeyError k) | Some v \<Rightarrow> py_int v)"

definition service_identity :: "receiver \<Rightarrow> dict \<Rightarrow> string \<Rightarrow> HttpRequest \<Rightarrow> error + IdentityContext" where
  "service_identity rcv claims caller q =
     andthen (claim_number claims ''iat'') (\<lambda>iat. andthen (claim_str claims ''sub'') (\<lambda>subject.
     andthen (claim_str claims ''iss'') (\<lambda>issuer. andthen (claim_str claims ''aud'') (\<lambda>audience. identity_post_init
       \<lparr>idn_type = SERVICE, idn_subject = subject, idn_actor_label = caller, idn_issuer = issuer, idn_audience = [audience],
        idn_roles = {}, idn_permissions = permissions_for_roles {}, idn_calling_service = Some caller,
        idn_on_behalf_of_subject = None, idn_authentication_method = ''eddsa_workload_jwt'',
        idn_authenticated_at = usec_of_seconds iat, idn_assurance = WORKLOAD, idn_session_id = None,
        idn_correlation_id = rq_correlation_id q, idn_request_id = rq_correlation_id q,
        idn_claim_mapping_version = ''workload.v1'', idn_permission_policy_version = ''sprint25b.v1'',
        idn_environment = rcv_environment rcv, idn_workspace_id = ''default'', idn_email_verified = None, idn_attributes = []\<rparr>))))"

definition represented_identity ::
  "receiver \<Rightarrow> dict \<Rightarrow> string \<Rightarrow> string \<Rightarrow> HttpRequest \<Rightarrow> error + IdentityContext" where
  "represented_identity rcv claims caller audience q =
     andthen (claim_str claims ''sub'') (\<lambda>subject. andthen (claim_str claims ''iss'') (\<lambda>issuer.
     andthen (string_list (dict_get claims ''roles'')) (\<lambda>roles. andthen (string_list (dict_get claims ''permissions'')) (\<lambda>permissions.
     andthen (claim_str claims ''authentication_method'') (\<lambda>authentication. andthen (claim_number claims ''authenticated_at'') (\<lambda>authenticated.
     andthen (andthen (claim_str claims ''assurance'') assurance_of) (\<lambda>assurance. andthen (claim_str claims ''correlation_id'') (\<lambda>correlation.
     andthen (claim_str claims ''mapping_version'') (\<lambda>mapping. andthen (claim_str claims ''policy_version'') (\<lambda>policy.
     andthen (claim_str claims ''operation'') (\<lambda>operation. identity_post_init
       \<lparr>idn_type = HUMAN, idn_subject = subject, idn_actor_label = subject, idn_issuer = issuer, idn_audience = [audience],
        idn_roles = set roles, idn_permissions = set permissions, idn_calling_service = Some caller,
        idn_on_behalf_of_subject = Some subject, idn_authentication_method = authentication,
        idn_authenticated_at = usec_of_seconds authenticated, idn_assurance = assurance, idn_session_id = None,
        idn_correlation_id = correlation, idn_request_id = rq_correlation_id q,
        idn_claim_mapping_version = mapping, idn_permission_policy_version = policy,
        idn_environment = rcv_environment rcv, idn_workspace_id = ''default'', idn_email_verified = None,
        idn_attributes = [(''obo_operation'', operation)]\<rparr>)))))))))))"

definition resolve_represented ::
  "'k signatures \<Rightarrow> receiver \<Rightarrow> int \<Rightarrow> 'k TrustedWorkload \<Rightarrow> string \<Rightarrow> token \<Rightarrow> HttpRequest \<Rightarrow> markers \<Rightarrow> (error + IdentityContext option) \<times> markers" where
  "resolve_represented sg rcv now trusted caller tok q ms =
     (let audience = service_urn (rcv_environment rcv) (rcv_service_name rcv) in
      case verify_eddsa sg now tok (twl_public_keys trusted) OBO_JWT_PURPOSE (twl_issuer trusted) audience None 45 of
        Inl e \<Rightarrow> (Inl e, ms)
      | Inr v \<Rightarrow>
          (case replay_consume now ''obo'' (py_str (dict_get_default (vtk_claims v) ''jti'' (JStr []))) (marker_ttl now (vtk_claims v)) ms of
             (False, ms') \<Rightarrow> (Inl (token_error ''replayed represented identity''), ms')
           | (True, ms') \<Rightarrow> (map_sum id Some (represented_identity rcv (vtk_claims v) caller audience q), ms')))"

definition resolve_workload ::
  "'k signatures \<Rightarrow> receiver \<Rightarrow> int \<Rightarrow> 'k trust_bundle \<Rightarrow> token option \<Rightarrow> token option \<Rightarrow> HttpRequest \<Rightarrow> markers
   \<Rightarrow> (error + IdentityContext option) \<times> markers" where
  "resolve_workload sg rcv now trust service obo q ms =
     (case service of
        None \<Rightarrow> (Inr None, ms)
      | Some tok \<Rightarrow>
          (case verify_service sg now (service_urn (rcv_environment rcv) (rcv_service_name rcv)) tok trust of
             Inl e \<Rightarrow> (Inl e, ms)
           | Inr (v, caller) \<Rightarrow>
               (case obo of
                  None \<Rightarrow> (map_sum id Some (service_identity rcv (vtk_claims v) caller q), ms)
                | Some obo_tok \<Rightarrow>
                    (case map_of trust caller of
                       None \<Rightarrow> (Inl (KeyError caller), ms)
                     | Some trusted \<Rightarrow> resolve_represented sg rcv now trusted caller obo_tok q ms))))"

section \<open>Signed tasks\<close>

definition TASK_HEADER :: string where
  "TASK_HEADER = ''ghostrecon-task-authorization''"

definition TASK_JWT_PURPOSE :: string where
  "TASK_JWT_PURPOSE = ''ghostrecon-task+jwt''"

definition TASK_QUEUES :: "(string \<times> string) list" where
  "TASK_QUEUES =
     [(''ghostrecon.fetch_source'', ''source-fetch''), (''ghostrecon.fetch_event_source'', ''source-fetch''),
      (''ghostrecon.fetch_incident_source'', ''source-fetch''), (''ghostrecon.parse_pending_event_items'', ''event-parser''),
      (''ghostrecon.parse_pending_incident_items'', ''incident-parser''), (''ghostrecon.monitor_watch_targets'', ''watch-monitor''),
      (''ghostrecon.crawl_company_domain'', ''enrichment''), (''ghostrecon.resolve_entity'', ''enrichment''),
      (''ghostrecon.enrich_contact_candidate'', ''enrichment''), (''ghostrecon.generate_email_candidates'', ''email-intelligence''),
      (''ghostrecon.persist_email_candidates'', ''email-intelligence''),
      (''ghostrecon.verify_email_candidates_batch'', ''email-intelligence''), (''ghostrecon.evaluate_suppression'', ''governance''),
      (''ghostrecon.process_crm_export_batch'', ''crm-export''), (''ghostrecon.process_due_sequence_steps'', ''sequencing''),
      (''ghostrecon.poll_sequence_inbound_email'', ''sequencing''), (''ghostrecon.process_due_sequence_email_alerts'', ''sequencing''),
      (''ghostrecon.retry_meeting_crm_sync'', ''meeting-sync'')]"

definition canonical_argument_digest :: "(string \<Rightarrow> string) \<Rightarrow> json \<Rightarrow> json \<Rightarrow> string" where
  "canonical_argument_digest sha256 args kwargs = sha256 (dumps (JObj [(''args'', args), (''kwargs'', kwargs)]))"

definition worker_urn :: "string \<Rightarrow> string \<Rightarrow> string" where
  "worker_urn environment queue = ''urn:ghostrecon:'' @ environment @ '':worker:'' @ queue"

definition task_claims :: "'k signer \<Rightarrow> string \<Rightarrow> string \<Rightarrow> string \<Rightarrow> string \<Rightarrow> string \<Rightarrow> int \<Rightarrow> string \<Rightarrow> dict" where
  "task_claims s task_name digest queue correlation_id causation_id now jti =
     [(''iss'', JStr (workload_urn (sgr_environment s) (sgr_identity s))), (''sub'', JStr (workload_urn (sgr_environment s) (sgr_identity s))),
      (''aud'', JStr (worker_urn (sgr_environment s) queue)), (''task'', JStr task_name), (''args_digest'', JStr digest),
      (''queue'', JStr queue), (''correlation_id'', JStr correlation_id), (''causation_id'', JStr causation_id),
      (''iat'', JInt (unix_seconds now)), (''nbf'', JInt (unix_seconds (now - usec_of_seconds 1))),
      (''exp'', JInt (unix_seconds (now + usec_of_seconds 45))), (''jti'', JStr jti)]"

definition signed_task_headers ::
  "'k signatures \<Rightarrow> (string \<Rightarrow> string) \<Rightarrow> 'k signer \<Rightarrow> string \<Rightarrow> json \<Rightarrow> json \<Rightarrow> string \<Rightarrow> string \<Rightarrow> string \<Rightarrow> int \<Rightarrow> string
   \<Rightarrow> error + (string \<times> token) list" where
  "signed_task_headers sg sha256 s task_name args kwargs queue correlation_id causation_id now jti =
     (if map_of TASK_QUEUES task_name \<noteq> Some queue then Inl (ValueError ''task queue does not match the operation registry'')
      else if sgr_identity s = [] \<or> sgr_kid s = [] then Inl (RuntimeError ''task publisher identity is not configured'')
      else Inr [(TASK_HEADER, sign_eddsa sg
             (task_claims s task_name (canonical_argument_digest sha256 args kwargs) queue correlation_id causation_id now jti)
             (sgr_key s) (sgr_kid s) TASK_JWT_PURPOSE)])"

fun verify_publisher :: "'k signatures \<Rightarrow> int \<Rightarrow> string \<Rightarrow> token \<Rightarrow> 'k trust_bundle \<Rightarrow> error + VerifiedToken" where
  "verify_publisher sg now audience tok [] = Inl (token_error ''untrusted task publisher'')"
| "verify_publisher sg now audience tok ((caller, trusted) # rest) =
     (case verify_eddsa sg now tok (twl_public_keys trusted) TASK_JWT_PURPOSE (twl_issuer trusted) audience None 45 of
        Inr v \<Rightarrow> Inr v
      | Inl _ \<Rightarrow> verify_publisher sg now audience tok rest)"

definition worker_identity :: "string \<Rightarrow> string option \<Rightarrow> string \<Rightarrow> string \<Rightarrow> int \<Rightarrow> dict \<Rightarrow> error + IdentityContext" where
  "worker_identity environment service queue task_id now claims =
     andthen (claim_str claims ''sub'') (\<lambda>subject. andthen (claim_str claims ''iss'') (\<lambda>issuer.
     andthen (claim_str claims ''aud'') (\<lambda>audience. andthen (claim_str claims ''correlation_id'') (\<lambda>correlation. identity_post_init
       \<lparr>idn_type = WORKER, idn_subject = subject, idn_actor_label = queue, idn_issuer = issuer, idn_audience = [audience],
        idn_roles = {}, idn_permissions = {''workload.execute''}, idn_calling_service = service,
        idn_on_behalf_of_subject = None, idn_authentication_method = ''signed_celery_task'', idn_authenticated_at = now,
        idn_assurance = WORKLOAD, idn_session_id = None, idn_correlation_id = correlation, idn_request_id = task_id,
        idn_claim_mapping_version = ''workload.v1'', idn_permission_policy_version = ''sprint25b.v1'',
        idn_environment = environment, idn_workspace_id = ''default'', idn_email_verified = None, idn_attributes = []\<rparr>))))"

record worker =
  wrk_strict :: bool
  wrk_environment :: string
  wrk_service_identity :: "string option"

text \<open>\<open>SignedTask.before_start\<close>: what the delivery is checked for; \<open>Inr None\<close> is a start without checks
  outside a strict deployment, \<open>Inr (Some i)\<close> a start under the worker's identity.\<close>

definition task_altered :: "(string \<Rightarrow> string) \<Rightarrow> string \<Rightarrow> string \<Rightarrow> json \<Rightarrow> json \<Rightarrow> dict \<Rightarrow> bool" where
  "task_altered sha256 task_name queue args kwargs claims =
     (dict_get claims ''task'' \<noteq> JStr task_name \<or> dict_get claims ''queue'' \<noteq> JStr queue
      \<or> dict_get claims ''args_digest'' \<noteq> JStr (canonical_argument_digest sha256 args kwargs))"

definition before_start ::
  "'k signatures \<Rightarrow> (string \<Rightarrow> string) \<Rightarrow> worker \<Rightarrow> int \<Rightarrow> 'k trust_bundle \<Rightarrow> string \<Rightarrow> string \<Rightarrow> token option \<Rightarrow> json \<Rightarrow> json \<Rightarrow> markers
   \<Rightarrow> (error + IdentityContext option) \<times> markers" where
  "before_start sg sha256 w now trust task_name task_id delivered args kwargs ms =
     (if \<not> wrk_strict w then (Inr None, ms)
      else (case delivered of
              None \<Rightarrow> (Inl (token_error ''unsigned task''), ms)
            | Some tok \<Rightarrow>
                (case map_of TASK_QUEUES task_name of
                   None \<Rightarrow> (Inl (token_error ''unclassified task''), ms)
                 | Some queue \<Rightarrow>
                     (case verify_publisher sg now (worker_urn (wrk_environment w) queue) tok trust of
                        Inl e \<Rightarrow> (Inl e, ms)
                      | Inr v \<Rightarrow>
                          if task_altered sha256 task_name queue args kwargs (vtk_claims v)
                          then (Inl (token_error ''altered task delivery''), ms)
                          else (case set_if_absent now (''ghostrecon:task-replay:'' @ py_str (dict_get (vtk_claims v) ''jti''))
                                  (marker_ttl now (vtk_claims v)) ms of
                                  (False, ms') \<Rightarrow> (Inl (token_error ''replayed task''), ms')
                                | (True, ms') \<Rightarrow>
                                    (map_sum id Some (worker_identity (wrk_environment w) (wrk_service_identity w) queue task_id now (vtk_claims v)), ms'))))))"

section \<open>Laws of tokens\<close>

lemma verify_eddsa_Inr:
  "verify_eddsa sg now tok keys typ issuer audience subject life = Inr v \<longleftrightarrow>
     check_signature sg tok keys typ = Inr v \<and> check_identity issuer audience subject (vtk_claims v) = None
     \<and> check_times life (unix_seconds now) (vtk_claims v) = None
     \<and> (\<exists>jti. dict_get (vtk_claims v) ''jti'' = JStr jti \<and> jti \<noteq> [])"
  by (auto simp: verify_eddsa_def split: sum.splits option.splits json.splits if_splits)

lemma check_times_None:
  "check_times life current claims = None \<longleftrightarrow>
     (\<exists>iat nbf e. claim_int claims ''iat'' = Some iat \<and> claim_int claims ''nbf'' = Some nbf \<and> claim_int claims ''exp'' = Some e
        \<and> iat \<le> current + 30 \<and> nbf \<le> current + 30 \<and> current - 30 < e \<and> iat < e \<and> e - iat \<le> life)"
  by (auto simp: check_times_def CLOCK_SKEW_SECONDS_def not_le not_less split: option.splits if_splits)

lemma verify_eddsa_later:
  assumes "verify_eddsa sg now tok keys typ issuer audience subject life = Inr v" and "now \<le> t"
    and "claim_int (vtk_claims v) ''exp'' = Some e" and "unix_seconds t < e + 30"
  shows "verify_eddsa sg t tok keys typ issuer audience subject life = Inr v"
proof -
  have "unix_seconds now \<le> unix_seconds t" using assms(2) by (simp add: unix_seconds_def usec_per_sec_def zdiv_mono1)
  with assms show ?thesis unfolding verify_eddsa_Inr check_times_None by auto
qed

lemma sign_verifies:
  assumes "\<forall>m. sig_verify sg pub (sig_sign sg key m) m" and "map_of keys kid = Some pub"
  shows "check_signature sg (sign_eddsa sg claims key kid typ) keys typ
    = Inr \<lparr>vtk_header = [(''alg'', JStr ''EdDSA''), (''kid'', JStr kid), (''typ'', JStr typ)], vtk_claims = claims\<rparr>"
  using assms by (simp add: check_signature_def sign_eddsa_def Let_def dict_get_def)

lemma unix_seconds_add: "unix_seconds (t + usec_of_seconds n) = unix_seconds t + n"
  by (simp add: unix_seconds_def usec_of_seconds_def usec_per_sec_def)

lemma unix_seconds_diff: "unix_seconds (t - usec_of_seconds n) = unix_seconds t - n"
  using unix_seconds_add [of t "- n"] by (simp add: usec_of_seconds_def)

lemma unix_seconds_mono: "s \<le> t \<Longrightarrow> unix_seconds s \<le> unix_seconds t"
  by (simp add: unix_seconds_def usec_per_sec_def zdiv_mono1)

section \<open>Replays\<close>

definition obo_marker :: "string \<Rightarrow> string" where
  "obo_marker jti = ''ghostrecon:security:replay:obo:'' @ jti"

lemma resolve_represented_step:
  assumes "verify_eddsa sg now tok (twl_public_keys trusted) OBO_JWT_PURPOSE (twl_issuer trusted)
      (service_urn (rcv_environment rcv) (rcv_service_name rcv)) None 45 = Inr v"
    and "dict_get (vtk_claims v) ''jti'' = JStr jti" and "jti \<noteq> []"
  shows "resolve_represented sg rcv now trusted caller tok q ms =
    (case set_if_absent now (obo_marker jti) (marker_ttl now (vtk_claims v)) ms of
       (False, ms') \<Rightarrow> (Inl (token_error ''replayed represented identity''), ms')
     | (True, ms') \<Rightarrow> (map_sum id Some (represented_identity rcv (vtk_claims v) caller
         (service_urn (rcv_environment rcv) (rcv_service_name rcv)) q), ms'))"
proof -
  have "map_of (vtk_claims v) ''jti'' = Some (JStr jti)" using assms(2) by (simp add: dict_get_def split: option.splits)
  then have "py_str (dict_get_default (vtk_claims v) ''jti'' (JStr [])) = jti"
    by (simp add: dict_get_default_def py_str_def)
  with assms show ?thesis
    by (simp add: resolve_represented_def Let_def replay_consume_def obo_marker_def marker_ttl_def)
qed

lemma resolve_represented_accepts:
  assumes "verify_eddsa sg now tok (twl_public_keys trusted) OBO_JWT_PURPOSE (twl_issuer trusted)
      (service_urn (rcv_environment rcv) (rcv_service_name rcv)) None 45 = Inr v"
    and "dict_get (vtk_claims v) ''jti'' = JStr jti" and "jti \<noteq> []"
    and "resolve_represented sg rcv now trusted caller tok q ms = (Inr (Some i), ms1)"
  shows "set_if_absent now (obo_marker jti) (marker_ttl now (vtk_claims v)) ms = (True, ms1)
    \<and> represented_identity rcv (vtk_claims v) caller (service_urn (rcv_environment rcv) (rcv_service_name rcv)) q = Inr i"
proof (cases "set_if_absent now (obo_marker jti) (marker_ttl now (vtk_claims v)) ms")
  case (Pair b ms')
  let ?r = "represented_identity rcv (vtk_claims v) caller (service_urn (rcv_environment rcv) (rcv_service_name rcv)) q"
  from assms(4) Pair resolve_represented_step [OF assms(1-3), of caller q ms]
  have "b \<and> map_sum id Some ?r = Inr (Some i) \<and> ms' = ms1" by (cases b) simp_all
  with Pair show ?thesis by (cases ?r) simp_all
qed

lemma check_signature_claims:
  "check_signature sg (Token (JObj header) (JObj claims) signature) keys typ = Inr v \<Longrightarrow> vtk_claims v = claims"
  by (auto simp: check_signature_def split: if_splits json.splits option.splits)

text \<open>A marker set at \<open>s\<close> for the seconds left to \<open>e\<close> is alive until the clock shows \<open>e\<close>, and gone a second later.\<close>

lemma marker_alive: "unix_seconds t < e \<Longrightarrow> t < s + usec_of_seconds (e - unix_seconds s)"
proof -
  assume "unix_seconds t < e"
  then have "t div 1000000 + 1 \<le> e" by (simp add: unix_seconds_def usec_per_sec_def)
  then show ?thesis by (simp add: unix_seconds_def usec_of_seconds_def usec_per_sec_def)
qed

lemma marker_dead: "e + 1 \<le> unix_seconds t \<Longrightarrow> s + usec_of_seconds (e - unix_seconds s) \<le> t"
  by (simp add: unix_seconds_def usec_of_seconds_def usec_per_sec_def)

text \<open>C38: A represented identity is accepted once only until its token expires: the marker that refuses a
  second use lives to the expiry, while the token itself is accepted for thirty seconds more.  Before the
  expiry a second use is refused and changes nothing; from one second after it, and as
  long as the tolerance lasts, the same token is accepted again.\<close>

theorem replay_after_expiry:
  assumes "resolve_represented sg rcv t1 trusted caller (Token (JObj header) (JObj claims) signature) q ms = (Inr (Some i), ms1)"
    and "claim_int claims ''exp'' = Some e" and "unix_seconds t1 < e" and "t1 \<le> t2"
  shows "(unix_seconds t2 < e \<longrightarrow>
      resolve_represented sg rcv t2 trusted caller (Token (JObj header) (JObj claims) signature) q ms1
        = (Inl (token_error ''replayed represented identity''), ms1))
    \<and> (e + 1 \<le> unix_seconds t2 \<and> unix_seconds t2 < e + 30 \<longrightarrow>
      fst (resolve_represented sg rcv t2 trusted caller (Token (JObj header) (JObj claims) signature) q ms1) = Inr (Some i))"
proof -
  let ?tok = "Token (JObj header) (JObj claims) signature"
  let ?aud = "service_urn (rcv_environment rcv) (rcv_service_name rcv)"
  let ?verify = "\<lambda>t. verify_eddsa sg t ?tok (twl_public_keys trusted) OBO_JWT_PURPOSE (twl_issuer trusted) ?aud None 45"
  from assms(1) obtain v where v1: "?verify t1 = Inr v"
    by (auto simp: resolve_represented_def Let_def split: sum.splits)
  then have claims: "vtk_claims v = claims" by (auto simp: verify_eddsa_Inr dest: check_signature_claims)
  from v1 obtain jti where jti: "dict_get (vtk_claims v) ''jti'' = JStr jti" "jti \<noteq> []" by (auto simp: verify_eddsa_Inr)
  from resolve_represented_accepts [OF v1 jti assms(1)]
  have used: "set_if_absent t1 (obo_marker jti) (marker_ttl t1 (vtk_claims v)) ms = (True, ms1)"
    and out: "represented_identity rcv (vtk_claims v) caller ?aud q = Inr i" by simp_all
  have ttl: "marker_ttl t1 (vtk_claims v) = e - unix_seconds t1" using assms(2,3) by (simp add: marker_ttl_def claims)
  have mark: "ms1 (obo_marker jti) = Some (t1 + usec_of_seconds (e - unix_seconds t1))"
    using used by (auto simp: set_if_absent_def ttl split: option.splits if_splits)
  have v2: "?verify t2 = Inr v" if "unix_seconds t2 < e + 30"
    using that assms(2) by (intro verify_eddsa_later [OF v1 assms(4)]) (simp_all add: claims)
  have early: "resolve_represented sg rcv t2 trusted caller ?tok q ms1 = (Inl (token_error ''replayed represented identity''), ms1)"
    if "unix_seconds t2 < e"
    using that marker_alive [OF that, of t1] mark resolve_represented_step [OF v2 jti, of caller q ms1] by (simp add: set_if_absent_def)
  have late: "fst (resolve_represented sg rcv t2 trusted caller ?tok q ms1) = Inr (Some i)"
    if "e + 1 \<le> unix_seconds t2" "unix_seconds t2 < e + 30"
    using marker_dead [OF that(1), of t1] mark resolve_represented_step [OF v2 [OF that(2)] jti, of caller q ms1] out
    by (simp add: set_if_absent_def)
  from early late show ?thesis by blast
qed

section \<open>Calls on behalf of a person\<close>

lemma string_list_strings: "string_list (JArr (map JStr ss)) = Inr ss"
  by (simp add: string_list_def string_items_def list_all_iff comp_def)

lemma assurance_of_value: "assurance_of (assurance_value a) = Inr a"
  by (cases a) (simp_all add: assurance_of_def)

lemma check_identity_issuer: "check_identity issuer audience subject claims = None \<Longrightarrow> dict_get claims ''iss'' = JStr issuer"
  by (simp add: check_identity_def split: if_splits)

lemma verified_claims_agree:
  "verify_eddsa sg now tok keys typ issuer audience subject life = Inr v \<Longrightarrow>
   verify_eddsa sg' now' tok keys' typ' issuer' audience' subject' life' = Inr v' \<Longrightarrow> vtk_claims v = vtk_claims v'"
  by (cases tok) (auto simp: verify_eddsa_Inr check_signature_def split: json.splits if_splits option.splits)

lemma workload_urn_visible: "py_strip (workload_urn environment workload) \<noteq> []"
  by (simp add: py_strip_def workload_urn_def is_space_def dropWhile_eq_Nil_conv)

text \<open>A service token that the entry of its issuer verifies is attributed to that entry, whatever the order of the bundle,
  as long as no other entry names the same issuer.\<close>

lemma verify_service_finds:
  assumes "(caller, trusted) \<in> set trust"
    and "verify_eddsa sg now tok (twl_public_keys trusted) SERVICE_JWT_PURPOSE (twl_issuer trusted) audience None 300 = Inr v"
    and "\<forall>(c, t)\<in>set trust. twl_issuer t = twl_issuer trusted \<longrightarrow> c = caller"
  shows "\<exists>v'. verify_service sg now audience tok trust = Inr (v', caller)"
  using assms(1,3)
proof (induction trust)
  case (Cons entry rest)
  obtain c t where entry: "entry = (c, t)" by (cases entry)
  show ?case
  proof (cases "verify_eddsa sg now tok (twl_public_keys t) SERVICE_JWT_PURPOSE (twl_issuer t) audience None 300")
    case (Inl e)
    with assms(2) Cons.prems(1) entry have "(caller, trusted) \<in> set rest" by auto
    with Cons Inl entry show ?thesis by simp
  next
    case (Inr v')
    with verified_claims_agree [OF Inr assms(2)] assms(2) have "twl_issuer t = twl_issuer trusted"
      by (auto simp: verify_eddsa_Inr dest!: check_identity_issuer)
    with Cons.prems(2) Inr entry show ?thesis by simp
  qed
qed simp

lemma service_token_verifies:
  assumes "\<forall>m. sig_verify sg pub (sig_sign sg (sgr_key s) m) m" and "map_of keys (sgr_kid s) = Some pub"
    and "jti \<noteq> []" and "sent \<le> now" and "unix_seconds now \<le> unix_seconds sent + sgr_lifetime s"
    and "service_token sg s sent jti receiver = Inr tok"
  shows "\<exists>v. verify_eddsa sg now tok keys SERVICE_JWT_PURPOSE (workload_urn (sgr_environment s) (sgr_identity s))
    (service_urn (sgr_environment s) receiver) None 300 = Inr v"
proof -
  from assms(6) obtain claims where claims: "service_claims (sgr_identity s) (sgr_environment s) receiver (sgr_lifetime s) sent jti = Inr claims"
      and tok: "tok = sign_eddsa sg claims (sgr_key s) (sgr_kid s) SERVICE_JWT_PURPOSE"
    by (auto simp: service_token_def split: sum.splits)
  have "check_times 300 (unix_seconds now) claims = None"
    using claims assms(5) unix_seconds_mono [OF assms(4)]
    by (auto simp: service_claims_def check_times_None claim_int_def py_int_def unix_seconds_add unix_seconds_diff split: if_splits)
  moreover have "check_identity (workload_urn (sgr_environment s) (sgr_identity s)) (service_urn (sgr_environment s) receiver) None claims = None"
    using claims by (auto simp: service_claims_def check_identity_def audience_list_def dict_get_def workload_urn_def split: if_splits)
  moreover have "dict_get claims ''jti'' = JStr jti"
    using claims by (auto simp: service_claims_def dict_get_def split: if_splits)
  ultimately show ?thesis using assms(3) by (simp add: tok verify_eddsa_Inr sign_verifies [OF assms(1,2)])
qed

text \<open>The claims of an on-behalf-of token.\<close>

definition carried_claims :: "'k signer \<Rightarrow> int \<Rightarrow> string \<Rightarrow> IdentityContext \<Rightarrow> string \<Rightarrow> string \<Rightarrow> dict" where
  "carried_claims s sent jti i owner operation =
     obo_claims (workload_urn (sgr_environment s) (sgr_identity s)) i (service_urn (sgr_environment s) owner) operation sent jti
     @ [(''roles'', JArr (map JStr (sorted_list_of_set (idn_roles i)))),
        (''permissions'', JArr (map JStr (sorted_list_of_set (idn_permissions i))))]"

lemma obo_token_carries:
  "obo_token sg s sent jti i owner operation = sign_eddsa sg (carried_claims s sent jti i owner operation) (sgr_key s) (sgr_kid s) OBO_JWT_PURPOSE"
  by (simp add: obo_token_def carried_claims_def Let_def)

lemma obo_token_verifies:
  assumes "\<forall>m. sig_verify sg pub (sig_sign sg (sgr_key s) m) m" and "map_of keys (sgr_kid s) = Some pub"
    and "jti \<noteq> []" and "sent \<le> now" and "unix_seconds now \<le> unix_seconds sent + 45" and "represented_subject i \<noteq> []"
  shows "\<exists>v. verify_eddsa sg now (obo_token sg s sent jti i owner operation) keys OBO_JWT_PURPOSE
      (workload_urn (sgr_environment s) (sgr_identity s)) (service_urn (sgr_environment s) owner) None 45 = Inr v
    \<and> vtk_claims v = carried_claims s sent jti i owner operation"
proof -
  let ?claims = "carried_claims s sent jti i owner operation"
  have "check_times 45 (unix_seconds now) ?claims = None"
    using assms(5) unix_seconds_mono [OF assms(4)]
    by (auto simp: carried_claims_def obo_claims_def check_times_None claim_int_def py_int_def unix_seconds_add unix_seconds_diff)
  moreover have "check_identity (workload_urn (sgr_environment s) (sgr_identity s)) (service_urn (sgr_environment s) owner) None ?claims = None"
    using assms(6) by (simp add: carried_claims_def obo_claims_def check_identity_def audience_list_def dict_get_def)
  moreover have "dict_get ?claims ''jti'' = JStr jti" by (simp add: carried_claims_def obo_claims_def dict_get_def)
  ultimately show ?thesis
    using assms(3) by (auto simp: obo_token_carries verify_eddsa_Inr sign_verifies [OF assms(1,2)])
qed

lemma carried_identity:
  assumes "finite (idn_roles i)" and "finite (idn_permissions i)" and "py_strip (represented_subject i) \<noteq> []"
  shows "\<exists>i'. represented_identity rcv (carried_claims s sent jti i owner operation) caller audience q = Inr i'
    \<and> idn_type i' = HUMAN \<and> idn_subject i' = represented_subject i
    \<and> idn_on_behalf_of_subject i' = Some (represented_subject i) \<and> idn_roles i' = idn_roles i
    \<and> idn_permissions i' = idn_permissions i \<and> idn_assurance i' = idn_assurance i
    \<and> idn_calling_service i' = Some caller \<and> idn_audience i' = [audience] \<and> idn_correlation_id i' = idn_correlation_id i
    \<and> idn_authenticated_at i' \<le> idn_authenticated_at i \<and> idn_authenticated_at i < idn_authenticated_at i' + usec_of_seconds 1
    \<and> idn_attributes i' = [(''obo_operation'', operation)]"
proof -
  let ?c = "carried_claims s sent jti i owner operation"
  have strs: "claim_str ?c ''sub'' = Inr (represented_subject i)"
      "claim_str ?c ''iss'' = Inr (workload_urn (sgr_environment s) (sgr_identity s))"
      "claim_str ?c ''authentication_method'' = Inr (idn_authentication_method i)"
      "claim_str ?c ''assurance'' = Inr (assurance_value (idn_assurance i))"
      "claim_str ?c ''correlation_id'' = Inr (idn_correlation_id i)"
      "claim_str ?c ''mapping_version'' = Inr (idn_claim_mapping_version i)"
      "claim_str ?c ''policy_version'' = Inr (idn_permission_policy_version i)" "claim_str ?c ''operation'' = Inr operation"
    by (simp_all add: claim_str_def carried_claims_def obo_claims_def py_str_def)
  have lists: "string_list (dict_get ?c ''roles'') = Inr (sorted_list_of_set (idn_roles i))"
      "string_list (dict_get ?c ''permissions'') = Inr (sorted_list_of_set (idn_permissions i))"
      "claim_number ?c ''authenticated_at'' = Inr (unix_seconds (idn_authenticated_at i))"
    by (simp_all add: carried_claims_def obo_claims_def dict_get_def string_list_strings claim_number_def py_int_def)
  have bounds: "usec_of_seconds (unix_seconds t) \<le> t" "t < usec_of_seconds (unix_seconds t) + usec_of_seconds 1" for t
    by (simp_all add: unix_seconds_def usec_of_seconds_def usec_per_sec_def)
  show ?thesis
    using assms workload_urn_visible bounds [of "idn_authenticated_at i"]
    by (simp add: represented_identity_def andthen_def strs lists assurance_of_value identity_post_init_def)
qed

text \<open>C15: A call on behalf of a person arrives as it was made: the service and on-behalf-of tokens that
  the gateway signs are resolved by the policy owner, within their lifetime, to a human identity with the person's
  subject, roles, permissions, assurance, correlation id and time of authentication (to the second), attributed to
  the gateway and bound to the one operation; the token's identifier is marked as used.  The
  signature scheme accepts what it signed, the trust bundle gives the gateway's key under the gateway's own
  issuer, and no other entry names that issuer.\<close>

theorem represented_identity_roundtrip:
  assumes "\<forall>m. sig_verify sg pub (sig_sign sg (sgr_key s) m) m"
    and "map_of trust gateway = Some trusted" and "twl_issuer trusted = workload_urn (sgr_environment s) (sgr_identity s)"
    and "map_of (twl_public_keys trusted) (sgr_kid s) = Some pub"
    and "\<forall>(c, t)\<in>set trust. twl_issuer t = twl_issuer trusted \<longrightarrow> c = gateway"
    and "sgr_environment s = rcv_environment rcv" and "1 \<le> sgr_lifetime s" and "sgr_lifetime s \<le> 300"
    and "jti1 \<noteq> []" and "jti2 \<noteq> []" and "ms (obo_marker jti2) = None"
    and "sent \<le> now" and "unix_seconds now \<le> unix_seconds sent + min 45 (sgr_lifetime s)"
    and "finite (idn_roles i)" and "finite (idn_permissions i)" and "py_strip (represented_subject i) \<noteq> []"
  shows "\<exists>tok i' ms'. service_token sg s sent jti1 (rcv_service_name rcv) = Inr tok
    \<and> resolve_workload sg rcv now trust (Some tok) (Some (obo_token sg s sent jti2 i (rcv_service_name rcv) operation)) q ms = (Inr (Some i'), ms')
    \<and> ms' (obo_marker jti2) \<noteq> None
    \<and> idn_type i' = HUMAN \<and> idn_subject i' = represented_subject i
    \<and> idn_on_behalf_of_subject i' = Some (represented_subject i) \<and> idn_roles i' = idn_roles i
    \<and> idn_permissions i' = idn_permissions i \<and> idn_assurance i' = idn_assurance i
    \<and> idn_calling_service i' = Some gateway \<and> idn_correlation_id i' = idn_correlation_id i
    \<and> idn_authenticated_at i' \<le> idn_authenticated_at i \<and> idn_authenticated_at i < idn_authenticated_at i' + usec_of_seconds 1
    \<and> idn_attributes i' = [(''obo_operation'', operation)]"
proof -
  let ?owner = "rcv_service_name rcv" and ?obo = "obo_token sg s sent jti2 i (rcv_service_name rcv) operation"
  obtain tok where tok: "service_token sg s sent jti1 ?owner = Inr tok"
    using assms(7,8) by (simp add: service_token_def service_claims_def)
  have times: "unix_seconds now \<le> unix_seconds sent + sgr_lifetime s" "unix_seconds now \<le> unix_seconds sent + 45"
    using assms(13) by simp_all
  from service_token_verifies [OF assms(1,4,9,12) times(1) tok]
  obtain v0 where "verify_eddsa sg now tok (twl_public_keys trusted) SERVICE_JWT_PURPOSE (twl_issuer trusted)
      (service_urn (rcv_environment rcv) ?owner) None 300 = Inr v0" by (auto simp: assms(3,6))
  from verify_service_finds [OF map_of_SomeD [OF assms(2)] this assms(5)]
  obtain v1 where caller: "verify_service sg now (service_urn (rcv_environment rcv) ?owner) tok trust = Inr (v1, gateway)" by blast
  have "represented_subject i \<noteq> []" using assms(16) by (auto simp: py_strip_def)
  from obo_token_verifies [OF assms(1,4,10,12) times(2) this, of ?owner operation]
  obtain v where v: "verify_eddsa sg now ?obo (twl_public_keys trusted) OBO_JWT_PURPOSE (twl_issuer trusted)
        (service_urn (rcv_environment rcv) ?owner) None 45 = Inr v"
      and claims: "vtk_claims v = carried_claims s sent jti2 i ?owner operation"
    by (auto simp: assms(3,6))
  have jti: "dict_get (vtk_claims v) ''jti'' = JStr jti2" by (simp add: claims carried_claims_def obo_claims_def dict_get_def)
  from carried_identity [OF assms(14,15,16)]
  obtain i' where i': "represented_identity rcv (vtk_claims v) gateway (service_urn (rcv_environment rcv) ?owner) q = Inr i'"
      and same: "idn_type i' = HUMAN" "idn_subject i' = represented_subject i"
        "idn_on_behalf_of_subject i' = Some (represented_subject i)" "idn_roles i' = idn_roles i"
        "idn_permissions i' = idn_permissions i" "idn_assurance i' = idn_assurance i" "idn_calling_service i' = Some gateway"
        "idn_correlation_id i' = idn_correlation_id i" "idn_authenticated_at i' \<le> idn_authenticated_at i"
        "idn_authenticated_at i < idn_authenticated_at i' + usec_of_seconds 1" "idn_attributes i' = [(''obo_operation'', operation)]"
    unfolding claims by blast
  let ?ms = "ms(obo_marker jti2 \<mapsto> now + usec_of_seconds (marker_ttl now (vtk_claims v)))"
  have "resolve_workload sg rcv now trust (Some tok) (Some ?obo) q ms = (Inr (Some i'), ?ms)"
    using assms(2,11) i' resolve_represented_step [OF v jti assms(10), of gateway q ms]
    by (simp add: resolve_workload_def caller set_if_absent_def)
  with tok same show ?thesis by auto
qed

section \<open>Deliveries of tasks\<close>

text \<open>What a worker starts in a strict deployment was signed by a trusted publisher for this queue, this task and these
  arguments, and its marker was free.\<close>

lemma verify_publisher_trusted:
  "verify_publisher sg now audience tok trust = Inr v \<Longrightarrow>
     \<exists>(c, t)\<in>set trust. verify_eddsa sg now tok (twl_public_keys t) TASK_JWT_PURPOSE (twl_issuer t) audience None 45 = Inr v"
  by (induction trust rule: list.induct) (auto split: sum.splits)

theorem started_tasks_are_signed:
  assumes "before_start sg sha256 w now trust task_name task_id delivered args kwargs ms = (Inr (Some i), ms')"
  shows "\<exists>tok queue v c t. delivered = Some tok \<and> map_of TASK_QUEUES task_name = Some queue \<and> (c, t) \<in> set trust
    \<and> verify_eddsa sg now tok (twl_public_keys t) TASK_JWT_PURPOSE (twl_issuer t) (worker_urn (wrk_environment w) queue) None 45 = Inr v
    \<and> \<not> task_altered sha256 task_name queue args kwargs (vtk_claims v)
    \<and> set_if_absent now (''ghostrecon:task-replay:'' @ py_str (dict_get (vtk_claims v) ''jti'')) (marker_ttl now (vtk_claims v)) ms = (True, ms')"
proof -
  from assms obtain tok queue v where d: "delivered = Some tok" "map_of TASK_QUEUES task_name = Some queue"
      and v: "verify_publisher sg now (worker_urn (wrk_environment w) queue) tok trust = Inr v"
      and same: "\<not> task_altered sha256 task_name queue args kwargs (vtk_claims v)"
      and strict: "wrk_strict w"
    by (auto simp: before_start_def split: if_splits option.splits sum.splits)
  obtain b ms1 where mark: "set_if_absent now (''ghostrecon:task-replay:'' @ py_str (dict_get (vtk_claims v) ''jti'')) (marker_ttl now (vtk_claims v)) ms = (b, ms1)"
    by fastforce
  from assms d v same strict mark have "b \<and> ms1 = ms'" by (cases b) (simp_all add: before_start_def)
  with mark have free: "set_if_absent now (''ghostrecon:task-replay:'' @ py_str (dict_get (vtk_claims v) ''jti''))
      (marker_ttl now (vtk_claims v)) ms = (True, ms')" by simp
  from verify_publisher_trusted [OF v] obtain c t where "(c, t) \<in> set trust"
      "verify_eddsa sg now tok (twl_public_keys t) TASK_JWT_PURPOSE (twl_issuer t) (worker_urn (wrk_environment w) queue) None 45 = Inr v"
    by blast
  with free d same show ?thesis by blast
qed

text \<open>A signed task is started by the worker of its queue.\<close>

lemma task_token_verifies:
  assumes "\<forall>m. sig_verify sg pub (sig_sign sg (sgr_key s) m) m" and "map_of keys (sgr_kid s) = Some pub"
    and "jti \<noteq> []" and "sent \<le> now" and "unix_seconds now \<le> unix_seconds sent + 45"
  shows "\<exists>v. verify_eddsa sg now (sign_eddsa sg (task_claims s task_name digest queue correlation causation sent jti) (sgr_key s) (sgr_kid s) TASK_JWT_PURPOSE)
      keys TASK_JWT_PURPOSE (workload_urn (sgr_environment s) (sgr_identity s)) (worker_urn (sgr_environment s) queue) None 45 = Inr v
    \<and> vtk_claims v = task_claims s task_name digest queue correlation causation sent jti"
proof -
  let ?claims = "task_claims s task_name digest queue correlation causation sent jti"
  have "check_times 45 (unix_seconds now) ?claims = None"
    using assms(5) unix_seconds_mono [OF assms(4)]
    by (auto simp: task_claims_def check_times_None claim_int_def py_int_def unix_seconds_add unix_seconds_diff)
  moreover have "check_identity (workload_urn (sgr_environment s) (sgr_identity s)) (worker_urn (sgr_environment s) queue) None ?claims = None"
    by (simp add: task_claims_def check_identity_def audience_list_def dict_get_def workload_urn_def)
  moreover have "dict_get ?claims ''jti'' = JStr jti" by (simp add: task_claims_def dict_get_def)
  ultimately show ?thesis using assms(3) by (auto simp: verify_eddsa_Inr sign_verifies [OF assms(1,2)])
qed

lemma verify_publisher_finds:
  assumes "(c, t) \<in> set trust"
    and "verify_eddsa sg now tok (twl_public_keys t) TASK_JWT_PURPOSE (twl_issuer t) audience None 45 = Inr v"
  shows "\<exists>v'. verify_publisher sg now audience tok trust = Inr v' \<and> vtk_claims v' = vtk_claims v"
  using assms(1)
proof (induction trust)
  case (Cons entry rest)
  obtain c' t' where entry: "entry = (c', t')" by (cases entry)
  show ?case
  proof (cases "verify_eddsa sg now tok (twl_public_keys t') TASK_JWT_PURPOSE (twl_issuer t') audience None 45")
    case (Inl e)
    with assms(2) Cons.prems entry have "(c, t) \<in> set rest" by auto
    with Cons Inl entry show ?thesis by simp
  next
    case (Inr v')
    with verified_claims_agree [OF Inr assms(2)] entry show ?thesis by simp
  qed
qed simp

theorem signed_task_starts:
  assumes "\<forall>m. sig_verify sg pub (sig_sign sg (sgr_key s) m) m" and "(c, t) \<in> set trust"
    and "twl_issuer t = workload_urn (sgr_environment s) (sgr_identity s)" and "map_of (twl_public_keys t) (sgr_kid s) = Some pub"
    and "jti \<noteq> []" and "sent \<le> now" and "unix_seconds now \<le> unix_seconds sent + 45"
    and "wrk_strict w" and "wrk_environment w = sgr_environment s" and "ms (''ghostrecon:task-replay:'' @ jti) = None"
    and "signed_task_headers sg sha256 s task_name args kwargs queue correlation causation sent jti = Inr [(TASK_HEADER, tok)]"
  shows "\<exists>i. fst (before_start sg sha256 w now trust task_name task_id (Some tok) args kwargs ms) = Inr (Some i)
    \<and> idn_permissions i = {''workload.execute''} \<and> idn_correlation_id i = correlation"
proof -
  let ?claims = "task_claims s task_name (canonical_argument_digest sha256 args kwargs) queue correlation causation sent jti"
  from assms(11) have queue: "map_of TASK_QUEUES task_name = Some queue"
      and tok: "tok = sign_eddsa sg ?claims (sgr_key s) (sgr_kid s) TASK_JWT_PURPOSE"
    by (auto simp: signed_task_headers_def split: if_splits)
  from task_token_verifies [OF assms(1,4,5,6,7)] assms(3)
  obtain v0 where "verify_eddsa sg now tok (twl_public_keys t) TASK_JWT_PURPOSE (twl_issuer t) (worker_urn (sgr_environment s) queue) None 45 = Inr v0"
      and "vtk_claims v0 = ?claims" unfolding tok by metis
  with verify_publisher_finds [OF assms(2)]
  obtain v where v: "verify_publisher sg now (worker_urn (sgr_environment s) queue) tok trust = Inr v" "vtk_claims v = ?claims" by metis
  have facts: "\<not> task_altered sha256 task_name queue args kwargs ?claims" "dict_get ?claims ''jti'' = JStr jti"
      "claim_str ?claims ''sub'' = Inr (workload_urn (sgr_environment s) (sgr_identity s))"
      "claim_str ?claims ''iss'' = Inr (workload_urn (sgr_environment s) (sgr_identity s))"
      "claim_str ?claims ''aud'' = Inr (worker_urn (sgr_environment s) queue)" "claim_str ?claims ''correlation_id'' = Inr correlation"
    by (simp_all add: task_altered_def task_claims_def dict_get_def claim_str_def py_str_def)
  show ?thesis
    using assms(8,9,10) workload_urn_visible by (simp add: before_start_def queue v facts set_if_absent_def py_str_def worker_identity_def andthen_def identity_post_init_def)
qed

end
