(* ===== verification/Workload_Identity_Examples.thy ===== *)
theory Workload_Identity_Examples
  imports Workload_Identity
begin

text \<open>
  A gateway that calls the scoring service for an analyst: the theorems about tokens are applied to
  its tokens, with a signature scheme whose signature is the key followed by the
  text it signs.
\<close>

definition text_signatures :: "string signatures" where
  "text_signatures =
     \<lparr>sig_sign = (\<lambda>k m. k @ dumps (fst m) @ dumps (snd m)), sig_verify = (\<lambda>k s m. s = k @ dumps (fst m) @ dumps (snd m))\<rparr>"

definition gateway_signer :: "string signer" where
  "gateway_signer = \<lparr>sgr_environment = ''production'', sgr_identity = ''api-gateway'', sgr_key = ''g'', sgr_kid = ''g1'', sgr_lifetime = 120\<rparr>"

definition gateway_trusted :: "string TrustedWorkload" where
  "gateway_trusted = \<lparr>twl_issuer = ''urn:ghostrecon:production:workload:api-gateway'', twl_public_keys = [(''g1'', ''g'')]\<rparr>"

definition worker_trusted :: "string TrustedWorkload" where
  "worker_trusted = \<lparr>twl_issuer = ''urn:ghostrecon:production:workload:worker'', twl_public_keys = [(''w1'', ''w'')]\<rparr>"

definition scoring_receiver :: receiver where
  "scoring_receiver = \<lparr>rcv_environment = ''production'', rcv_service_name = ''scoring''\<rparr>"

definition analyst_identity :: IdentityContext where
  "analyst_identity =
     \<lparr>idn_type = HUMAN, idn_subject = ''alex'', idn_actor_label = ''alex'', idn_issuer = ''https://id.example.com'', idn_audience = [''app''],
      idn_roles = {''analyst''}, idn_permissions = {''scores.read''}, idn_calling_service = None,
      idn_on_behalf_of_subject = None, idn_authentication_method = ''oidc'', idn_authenticated_at = 1699999990500000,
      idn_assurance = PHISHING_RESISTANT, idn_session_id = Some ''s'', idn_correlation_id = ''c1'', idn_request_id = ''r1'',
      idn_claim_mapping_version = ''oidc.v1'', idn_permission_policy_version = ''sprint25b.v1'',
      idn_environment = ''production'', idn_workspace_id = ''default'', idn_email_verified = None, idn_attributes = []\<rparr>"

definition owner_request :: HttpRequest where
  "owner_request = \<lparr>rq_method = ''GET'', rq_path = ''/v1/scores'', rq_headers = [], rq_client = None, rq_identity = None, rq_correlation_id = ''c1''\<rparr>"

lemmas gateway_defs = text_signatures_def gateway_signer_def gateway_trusted_def worker_trusted_def scoring_receiver_def workload_urn_def

lemma gateway_signs: "\<forall>m. sig_verify text_signatures ''g'' (sig_sign text_signatures (sgr_key gateway_signer) m) m"
  by (simp add: text_signatures_def gateway_signer_def)

lemma gateway_entry: "map_of [(''worker'', worker_trusted), (''api-gateway'', gateway_trusted)] ''api-gateway'' = Some gateway_trusted"
  by simp

lemma gateway_issuer: "twl_issuer gateway_trusted = workload_urn (sgr_environment gateway_signer) (sgr_identity gateway_signer)"
  by (simp add: gateway_defs)

lemma gateway_key: "map_of (twl_public_keys gateway_trusted) (sgr_kid gateway_signer) = Some ''g''"
  by (simp add: gateway_defs)

lemma only_gateway:
  "\<forall>(c, t)\<in>set [(''worker'', worker_trusted), (''api-gateway'', gateway_trusted)]. twl_issuer t = twl_issuer gateway_trusted \<longrightarrow> c = ''api-gateway''"
  by (simp add: gateway_defs)

lemma same_environment: "sgr_environment gateway_signer = rcv_environment scoring_receiver"
  by (simp add: gateway_defs)

lemma analyst_subject: "represented_subject analyst_identity = ''alex''"
  by (simp add: represented_subject_def analyst_identity_def str_or_def)

lemma analyst_visible: "py_strip (represented_subject analyst_identity) \<noteq> []"
  by (simp add: analyst_subject py_strip_def is_space_def)

lemma analyst_sets: "idn_roles analyst_identity = {''analyst''}" "idn_permissions analyst_identity = {''scores.read''}"
  by (simp_all add: analyst_identity_def)

lemma analyst_finite: "finite (idn_roles analyst_identity)" "finite (idn_permissions analyst_identity)"
  by (simp_all add: analyst_sets)

lemma receiver_name: "rcv_service_name scoring_receiver = ''scoring''"
  by (simp add: scoring_receiver_def)

theorem represented_identity_roundtrip_witness:
  "\<exists>tok i' ms'. service_token text_signatures gateway_signer 1700000000000000 ''j1'' ''scoring'' = Inr tok
    \<and> resolve_workload text_signatures scoring_receiver 1700000002000000
        [(''worker'', worker_trusted), (''api-gateway'', gateway_trusted)] (Some tok)
        (Some (obo_token text_signatures gateway_signer 1700000000000000 ''j2'' analyst_identity ''scoring'' ''scores.list'')) owner_request Map.empty
      = (Inr (Some i'), ms')
    \<and> idn_subject i' = ''alex'' \<and> idn_permissions i' = {''scores.read''} \<and> idn_calling_service i' = Some ''api-gateway''
    \<and> idn_attributes i' = [(''obo_operation'', ''scores.list'')]"
proof -
  have times: "1 \<le> sgr_lifetime gateway_signer" "sgr_lifetime gateway_signer \<le> 300" "(1700000000000000::int) \<le> 1700000002000000"
      "unix_seconds 1700000002000000 \<le> unix_seconds 1700000000000000 + min 45 (sgr_lifetime gateway_signer)"
    by (simp_all add: gateway_signer_def unix_seconds_def usec_per_sec_def)
  have fresh: "''j1'' \<noteq> []" "''j2'' \<noteq> []" "Map.empty (obo_marker ''j2'') = None" by simp_all
  note call = represented_identity_roundtrip [OF gateway_signs gateway_entry gateway_issuer gateway_key only_gateway same_environment
      times(1,2) fresh times(3,4) analyst_finite analyst_visible, of "''scores.list''" owner_request, unfolded receiver_name analyst_subject analyst_sets]
  then show ?thesis by (elim exE conjE) (intro exI conjI)
qed

text \<open>The same token is used a second later, and again two seconds after it expired.\<close>

definition analyst_obo :: token where
  "analyst_obo = obo_token text_signatures gateway_signer 1700000000000000 ''j2'' analyst_identity ''scoring'' ''scores.list''"

definition analyst_claims :: dict where
  "analyst_claims = carried_claims gateway_signer 1700000000000000 ''j2'' analyst_identity ''scoring'' ''scores.list''"

definition analyst_header :: dict where
  "analyst_header = [(''alg'', JStr ''EdDSA''), (''kid'', JStr ''g1''), (''typ'', JStr OBO_JWT_PURPOSE)]"

definition use_obo :: "int \<Rightarrow> markers \<Rightarrow> (error + IdentityContext option) \<times> markers" where
  "use_obo now ms = resolve_represented text_signatures scoring_receiver now gateway_trusted ''api-gateway''
     (Token (JObj analyst_header) (JObj analyst_claims) (Some (''g'' @ dumps (JObj analyst_header) @ dumps (JObj analyst_claims)))) owner_request ms"

lemma use_obo_first: "\<exists>i ms1. use_obo 1700000002000000 Map.empty = (Inr (Some i), ms1)"
proof -
  have tok: "obo_token text_signatures gateway_signer 1700000000000000 ''j2'' analyst_identity ''scoring'' ''scores.list''
      = Token (JObj analyst_header) (JObj analyst_claims) (Some (''g'' @ dumps (JObj analyst_header) @ dumps (JObj analyst_claims)))"
    by (simp add: obo_token_carries sign_eddsa_def Let_def analyst_header_def analyst_claims_def gateway_signer_def text_signatures_def)
  obtain v where v: "verify_eddsa text_signatures 1700000002000000 (obo_token text_signatures gateway_signer 1700000000000000 ''j2'' analyst_identity ''scoring'' ''scores.list'')
        (twl_public_keys gateway_trusted) OBO_JWT_PURPOSE (twl_issuer gateway_trusted)
        (service_urn (rcv_environment scoring_receiver) (rcv_service_name scoring_receiver)) None 45 = Inr v"
      and claims: "vtk_claims v = analyst_claims"
    using obo_token_verifies [of text_signatures "''g''" gateway_signer "twl_public_keys gateway_trusted" "''j2''" 1700000000000000 1700000002000000
        analyst_identity "''scoring''" "''scores.list''"]
    by (auto simp: gateway_defs analyst_claims_def analyst_identity_def represented_subject_def str_or_def unix_seconds_def usec_per_sec_def)
  have jti: "dict_get (vtk_claims v) ''jti'' = JStr ''j2''"
    by (simp add: claims analyst_claims_def carried_claims_def obo_claims_def dict_get_def)
  obtain i where "represented_identity scoring_receiver analyst_claims ''api-gateway''
      (service_urn (rcv_environment scoring_receiver) (rcv_service_name scoring_receiver)) owner_request = Inr i"
    using carried_identity [OF analyst_finite analyst_visible, of scoring_receiver gateway_signer 1700000000000000 "''j2''" "''scoring''"
        "''scores.list''" "''api-gateway''" _ owner_request, folded analyst_claims_def] by blast
  then show ?thesis
    using resolve_represented_step [OF v jti] by (simp add: use_obo_def tok set_if_absent_def claims)
qed

theorem replay_after_expiry_witness:
  "\<exists>i ms1. use_obo 1700000002000000 Map.empty = (Inr (Some i), ms1)
    \<and> use_obo 1700000003000000 ms1 = (Inl (token_error ''replayed represented identity''), ms1)
    \<and> fst (use_obo 1700000047000000 ms1) = Inr (Some i)"
proof -
  obtain i ms1 where first: "use_obo 1700000002000000 Map.empty = (Inr (Some i), ms1)" using use_obo_first by blast
  have e: "claim_int analyst_claims ''exp'' = Some 1700000045"
    by (simp add: analyst_claims_def carried_claims_def obo_claims_def claim_int_def py_int_def unix_seconds_def usec_of_seconds_def usec_per_sec_def)
  note again = replay_after_expiry [OF first [unfolded use_obo_def] e]
  have "use_obo 1700000003000000 ms1 = (Inl (token_error ''replayed represented identity''), ms1)"
    using again [of 1700000003000000] unfolding use_obo_def by (simp add: unix_seconds_def usec_per_sec_def)
  moreover have "fst (use_obo 1700000047000000 ms1) = Inr (Some i)"
    using again [of 1700000047000000] unfolding use_obo_def by (simp add: unix_seconds_def usec_per_sec_def)
  ultimately show ?thesis using first by blast
qed

end
