(* ===== verification/Meetings.thy ===== *)
theory Meetings
  imports Http_Api
begin

text \<open>
  Meetings (\<open>services/meeting\<close>, the calendar clients of \<open>services/calendar_adapters\<close>, the meeting step of
  \<open>services/sequencing/activities.py\<close> and \<open>service_apps/routers/meetings.py\<close>): a meeting is booked in the
  calendar for an exported target, gets preparation packets, an outcome and follow-up tasks, and is
  synchronised to the CRM.

  A calendar client is an argument like the CRM client: its answers may depend on the request and on
  the number of provider calls made so far.  The Google client is modelled over its request function,
  which is a parameter, as is its query of free and busy times.
\<close>

section \<open>Names and requests\<close>

definition MEETING_SERVICE_NAME :: string where
  "MEETING_SERVICE_NAME = ''meeting-handoff-service''"

definition MEETING_SEQUENCING_SERVICE_NAME :: string where
  "MEETING_SEQUENCING_SERVICE_NAME = ''sequencing-service''"

definition MEETING_ACTIVE_STATUSES :: "string set" where
  "MEETING_ACTIVE_STATUSES = {''active''}"

definition MeetingStatuses :: "string set" where
  "MeetingStatuses = {''scheduled'', ''completed'', ''canceled'', ''failed_sync''}"

datatype MeetingOutcomeStatus = OUTCOME_COMPLETED | NO_SHOW | RESCHEDULED | DISQUALIFIED

fun outcome_value :: "MeetingOutcomeStatus \<Rightarrow> string" where
  "outcome_value OUTCOME_COMPLETED = ''completed''"
| "outcome_value NO_SHOW = ''no_show''"
| "outcome_value RESCHEDULED = ''rescheduled''"
| "outcome_value DISQUALIFIED = ''disqualified''"

definition MeetingOutcomeStatuses :: "string set" where
  "MeetingOutcomeStatuses = {''completed'', ''no_show'', ''rescheduled'', ''disqualified''}"

definition MeetingCrmSyncStatuses :: "string set" where
  "MeetingCrmSyncStatuses = {''pending'', ''succeeded'', ''failed_retryable'', ''failed_terminal''}"

definition MeetingFollowUpTaskStatuses :: "string set" where
  "MeetingFollowUpTaskStatuses = {''open'', ''completed'', ''canceled''}"

record PrepPacketRequest =
  ppr_account :: dict
  ppr_contacts :: "dict list"
  ppr_signals :: "dict list"
  ppr_meeting_time :: "int option"

record PrepPacket =
  pkt_account_summary :: string
  pkt_stakeholder_map :: "string list"
  pkt_likely_security_priorities :: "string list"
  pkt_suggested_questions :: "string list"
  pkt_risks :: "string list"

record MeetingCreateRequest =
  mcr_crm_target_id :: string
  mcr_sequence_enrollment_id :: "string option"
  mcr_account_id :: "string option"
  mcr_contact_id :: "string option"
  mcr_subject :: string
  mcr_description :: "string option"
  mcr_location :: "string option"
  mcr_start_at :: int
  mcr_end_at :: int
  mcr_timezone :: string
  mcr_attendees :: "MeetingAttendee list"
  mcr_policy_snapshot :: dict
  mcr_send_updates :: "bool option"

record MeetingFollowUpTaskCreate =
  mfc_title :: string
  mfc_description :: "string option"
  mfc_owner :: "string option"
  mfc_due_at :: "int option"

record MeetingOutcomeRequest =
  mor_outcome_status :: MeetingOutcomeStatus
  mor_outcome_notes :: "string option"
  mor_next_steps :: "string list"
  mor_follow_up_tasks :: "MeetingFollowUpTaskCreate list"

record CalendarAvailabilityRequest =
  car_attendees :: "string list"
  car_time_min :: int
  car_time_max :: int
  car_timezone :: string

text \<open>\<open>x or y\<close> on optional strings.\<close>

definition opt_or :: "string option \<Rightarrow> string option \<Rightarrow> string option" where
  "opt_or x y = (if truthy_str x then x else y)"

section \<open>Calendar clients\<close>

record CalendarClient =
  calendar_identity :: string
  calendar_provider :: string
  calendar_create_event :: "nat \<Rightarrow> CalendarEventRequest \<Rightarrow> error + CalendarEventResult"
  calendar_cancel_event :: "nat \<Rightarrow> string \<Rightarrow> bool \<Rightarrow> error option"
  calendar_get_availability :: "string list \<Rightarrow> int \<Rightarrow> int \<Rightarrow> string \<Rightarrow> error + (string \<times> (int \<times> int) list) list"

definition fake_event :: "CalendarEventRequest \<Rightarrow> CalendarEventResult" where
  "fake_event q =
     (let event_id = ''fake-'' @ cal_meeting_id q; link = ''https://calendar.google.com/fake/'' @ event_id
      in \<lparr>cer_provider_event_id = event_id, cer_calendar_id = ''fake-calendar'', cer_html_link = Some link,
          cer_raw_response = [(''id'', JStr event_id), (''htmlLink'', JStr link)]\<rparr>)"

text \<open>A dictionary comprehension keeps one entry per key.\<close>

definition fake_availability :: "string list \<Rightarrow> (string \<times> (int \<times> int) list) list" where
  "fake_availability attendees = map (\<lambda>a. (a, [])) (unique_ordered (map py_lower attendees))"

definition fake_calendar :: CalendarClient where
  "fake_calendar =
     \<lparr>calendar_identity = ''FakeCalendarClient ghostrecon.services.calendar_adapters.fake fake '',
      calendar_provider = ''fake'', calendar_create_event = (\<lambda>_ q. Inr (fake_event q)),
      calendar_cancel_event = (\<lambda>_ _ _. None),
      calendar_get_availability = (\<lambda>attendees _ _ _. Inr (fake_availability attendees))\<rparr>"

text \<open>\<open>quote(value, safe="")\<close> on ASCII.\<close>

definition unreserved :: "char \<Rightarrow> bool" where
  "unreserved c =
     (let n = (of_char c :: nat)
      in (48 \<le> n \<and> n \<le> 57) \<or> (65 \<le> n \<and> n \<le> 90) \<or> (97 \<le> n \<and> n \<le> 122) \<or> c \<in> set ''_.-~'')"

definition quote_path :: "string \<Rightarrow> string" where
  "quote_path s = concat (map (\<lambda>c. if unreserved c then [c] else CHR ''%'' # map char_upper (hex2 (of_char c))) s)"

definition google_attendee :: "MeetingAttendee \<Rightarrow> json" where
  "google_attendee a =
     JObj [(''email'', JStr (py_lower (att_email a))), (''displayName'', opt_str (att_name a)), (''optional'', JBool (att_optional a))]"

definition google_event_body :: "CalendarEventRequest \<Rightarrow> dict" where
  "google_event_body q =
     [(''summary'', JStr (cal_subject q)),
      (''start'', JObj [(''dateTime'', JStr (isoformat (cal_start_at q))), (''timeZone'', JStr (cal_timezone q))]),
      (''end'', JObj [(''dateTime'', JStr (isoformat (cal_end_at q))), (''timeZone'', JStr (cal_timezone q))]),
      (''attendees'', JArr (map google_attendee (cal_attendees q))),
      (''extendedProperties'', JObj [(''private'', JObj [(''ghostrecon_meeting_id'', JStr (cal_meeting_id q))])])]
     @ (if truthy_str (cal_description q) then [(''description'', opt_str (cal_description q))] else [])
     @ (if truthy_str (cal_location q) then [(''location'', opt_str (cal_location q))] else [])"

definition event_result :: "dict \<Rightarrow> string \<Rightarrow> error + CalendarEventResult" where
  "event_result payload calendar_id =
     (case optional_str (dict_get payload ''id'') of
        None \<Rightarrow> Inl (CalendarProviderError ''Google Calendar response did not include event ID'' False None)
      | Some event_id \<Rightarrow>
          Inr \<lparr>cer_provider_event_id = event_id, cer_calendar_id = calendar_id,
               cer_html_link = (case dict_get payload ''htmlLink'' of JStr s \<Rightarrow> Some s | _ \<Rightarrow> None),
               cer_raw_response = payload\<rparr>)"

definition send_updates_value :: "bool \<Rightarrow> string" where
  "send_updates_value b = (if b then ''all'' else ''none'')"

type_synonym google_http = "nat \<Rightarrow> string \<Rightarrow> string \<Rightarrow> (string \<times> string) list \<Rightarrow> dict option \<Rightarrow> error + dict"

definition google_create ::
  "google_http \<Rightarrow> string \<Rightarrow> nat \<Rightarrow> CalendarEventRequest \<Rightarrow> error + CalendarEventResult" where
  "google_create http calendar_id n q =
     (case http n ''POST'' (''/calendars/'' @ quote_path calendar_id @ ''/events'')
             [(''conferenceDataVersion'', ''1''), (''sendUpdates'', send_updates_value (cal_send_updates q))]
             (Some (google_event_body q)) of
        Inl e \<Rightarrow> Inl e
      | Inr payload \<Rightarrow> event_result payload calendar_id)"

definition google_cancel :: "google_http \<Rightarrow> string \<Rightarrow> nat \<Rightarrow> string \<Rightarrow> bool \<Rightarrow> error option" where
  "google_cancel http calendar_id n event_id updates =
     (case http n ''DELETE'' (''/calendars/'' @ quote_path calendar_id @ ''/events/'' @ quote_path event_id)
             [(''sendUpdates'', send_updates_value updates)] None of
        Inl e \<Rightarrow> Some e
      | Inr _ \<Rightarrow> None)"

type_synonym free_busy = "string list \<Rightarrow> int \<Rightarrow> int \<Rightarrow> string \<Rightarrow> error + (string \<times> (int \<times> int) list) list"

definition google_calendar :: "Settings \<Rightarrow> google_http \<Rightarrow> free_busy \<Rightarrow> error + CalendarClient" where
  "google_calendar cfg http busy =
     (if \<not> truthy_str (cfg_google_calendar_id cfg) then Inl (ValueError ''GHOSTRECON_GOOGLE_CALENDAR_ID is required'')
      else if \<not> truthy_str (cfg_google_client_email cfg) then Inl (ValueError ''GHOSTRECON_GOOGLE_CLIENT_EMAIL is required'')
      else if \<not> truthy_str (cfg_google_private_key cfg) then Inl (ValueError ''GHOSTRECON_GOOGLE_PRIVATE_KEY is required'')
      else let calendar_id = str_or (cfg_google_calendar_id cfg) []
           in Inr \<lparr>calendar_identity = ''GoogleCalendarClient ghostrecon.services.calendar_adapters.google google '',
                   calendar_provider = ''google'', calendar_create_event = google_create http calendar_id,
                   calendar_cancel_event = google_cancel http calendar_id, calendar_get_availability = busy\<rparr>)"

text \<open>The services outside the process that a meeting operation may reach.\<close>

record calendars =
  given_calendar :: "CalendarClient option"
  google_request :: google_http
  google_free_busy :: free_busy

text \<open>A call without a client uses the one of the settings.\<close>

definition configured_calendars :: "calendars \<Rightarrow> calendars" where
  "configured_calendars cals = cals\<lparr>given_calendar := None\<rparr>"

definition allowed_calendar :: "env \<Rightarrow> CalendarClient \<Rightarrow> error + CalendarClient" where
  "allowed_calendar env c =
     (case assert_adapter_allowed (env_settings env) (calendar_identity c) ''calendar_provider'' of
        Some e \<Rightarrow> Inl e
      | None \<Rightarrow> Inr c)"

definition calendar_client_for_settings :: "env \<Rightarrow> calendars \<Rightarrow> error + CalendarClient" where
  "calendar_client_for_settings env cals =
     (case (case cfg_calendar_provider (env_settings env) of
              FAKE \<Rightarrow> Inr fake_calendar
            | GOOGLE \<Rightarrow> google_calendar (env_settings env) (google_request cals) (google_free_busy cals)
            | CALENDAR_DISABLED \<Rightarrow> Inl (ValueError ''calendar provider is disabled'')) of
        Inl e \<Rightarrow> Inl e
      | Inr c \<Rightarrow> allowed_calendar env c)"

definition resolve_calendar :: "env \<Rightarrow> calendars \<Rightarrow> error + CalendarClient" where
  "resolve_calendar env cals =
     (case (case given_calendar cals of Some c \<Rightarrow> Inr c | None \<Rightarrow> calendar_client_for_settings env cals) of
        Inl e \<Rightarrow> Inl e
      | Inr c \<Rightarrow> allowed_calendar env c)"

definition create_calendar_event :: "CalendarClient \<Rightarrow> CalendarEventRequest \<Rightarrow> CalendarEventResult op" where
  "create_calendar_event c q db =
     (calendar_create_event c (length (effects db)) q, db\<lparr>effects := effects db @ [CalendarCreate q]\<rparr>)"

definition cancel_calendar_event :: "CalendarClient \<Rightarrow> string \<Rightarrow> bool \<Rightarrow> unit op" where
  "cancel_calendar_event c event_id updates db =
     ((case calendar_cancel_event c (length (effects db)) event_id updates of Some e \<Rightarrow> Inl e | None \<Rightarrow> Inr ()),
      db\<lparr>effects := effects db @ [CalendarCancel event_id updates]\<rparr>)"

text \<open>The CRM of a synchronisation: a client that is passed in, or the requests of the configured one.\<close>

record crm_access =
  given_crm :: "CrmClient option"
  crm_http :: "nat \<Rightarrow> string \<Rightarrow> string \<Rightarrow> dict \<Rightarrow> error + dict"

section \<open>Serializers\<close>

definition meeting_to_api :: "MeetingHandoff \<Rightarrow> dict" where
  "meeting_to_api m =
     [(''id'', JStr (mtg_id m)), (''crm_target_id'', opt_str (mtg_crm_target_id m)),
      (''sequence_enrollment_id'', opt_str (mtg_sequence_enrollment_id m)), (''account_id'', opt_str (mtg_account_id m)),
      (''contact_id'', opt_str (mtg_contact_id m)), (''status'', JStr (mtg_status m)), (''subject'', JStr (mtg_subject m)),
      (''description'', opt_str (mtg_description m)), (''location'', opt_str (mtg_location m)),
      (''start_at'', JTime (mtg_start_at m)), (''end_at'', JTime (mtg_end_at m)), (''timezone'', JStr (mtg_timezone m)),
      (''attendees'', JArr (mtg_attendees m)), (''calendar_provider'', JStr (mtg_calendar_provider m)),
      (''calendar_id'', opt_str (mtg_calendar_id m)), (''provider_event_id'', opt_str (mtg_provider_event_id m)),
      (''provider_html_link'', opt_str (mtg_provider_html_link m)), (''outcome_status'', opt_str (mtg_outcome_status m)),
      (''outcome_notes'', opt_str (mtg_outcome_notes m)), (''next_steps'', JArr (mtg_next_steps m)),
      (''crm_sync_status'', JStr (mtg_crm_sync_status m)), (''crm_sync_error'', opt_str (mtg_crm_sync_error m)),
      (''crm_retry_after_seconds'', opt_int (mtg_crm_retry_after_seconds m)),
      (''policy_snapshot'', JObj (mtg_policy_snapshot m)), (''version'', JInt (mtg_version m)),
      (''created_at'', JTime (mtg_created_at m)), (''updated_at'', JTime (mtg_updated_at m))]"

definition meeting_prep_packet_to_api :: "MeetingPrepPacket \<Rightarrow> dict" where
  "meeting_prep_packet_to_api p =
     [(''id'', JStr (mpp_id p)), (''meeting_id'', JStr (mpp_meeting_id p)), (''account_summary'', JStr (mpp_account_summary p)),
      (''stakeholder_map'', JArr (mpp_stakeholder_map p)),
      (''likely_security_priorities'', JArr (mpp_likely_security_priorities p)),
      (''suggested_questions'', JArr (mpp_suggested_questions p)), (''risks'', JArr (mpp_risks p)),
      (''source_snapshot'', JObj (mpp_source_snapshot p)), (''generated_by'', JStr (mpp_generated_by p)),
      (''created_at'', JTime (mpp_created_at p)), (''updated_at'', JTime (mpp_updated_at p))]"

definition meeting_follow_up_task_to_api :: "MeetingFollowUpTask \<Rightarrow> dict" where
  "meeting_follow_up_task_to_api t =
     [(''id'', JStr (mft_id t)), (''meeting_id'', JStr (mft_meeting_id t)), (''title'', JStr (mft_title t)),
      (''description'', opt_str (mft_description t)), (''owner'', opt_str (mft_owner t)), (''due_at'', opt_time (mft_due_at t)),
      (''status'', JStr (mft_status t)), (''crm_sync_status'', JStr (mft_crm_sync_status t)),
      (''provider_task_id'', opt_str (mft_provider_task_id t)), (''last_error'', opt_str (mft_last_error t)),
      (''created_at'', JTime (mft_created_at t)), (''updated_at'', JTime (mft_updated_at t))]"

text \<open>The enumerations that \<open>MeetingHandoffOut\<close> and \<open>MeetingFollowUpTaskOut\<close> validate.\<close>

definition task_typed :: "MeetingFollowUpTask \<Rightarrow> bool" where
  "task_typed t = (mft_status t \<in> MeetingFollowUpTaskStatuses \<and> mft_crm_sync_status t \<in> MeetingCrmSyncStatuses)"

definition meeting_typed :: "MeetingHandoff \<Rightarrow> bool" where
  "meeting_typed m =
     (mtg_status m \<in> MeetingStatuses \<and> (case mtg_outcome_status m of None \<Rightarrow> True | Some s \<Rightarrow> s \<in> MeetingOutcomeStatuses)
      \<and> mtg_crm_sync_status m \<in> MeetingCrmSyncStatuses)"

definition meeting_to_model ::
  "MeetingHandoff \<Rightarrow> MeetingPrepPacket option \<Rightarrow> MeetingFollowUpTask list \<Rightarrow> error + dict" where
  "meeting_to_model m packet tasks =
     (if meeting_typed m \<and> list_all task_typed tasks
      then Inr (meeting_to_api m
        @ [(''prep_packet'', case packet of None \<Rightarrow> JNull | Some p \<Rightarrow> JObj (meeting_prep_packet_to_api p)),
           (''follow_up_tasks'', JArr (map (\<lambda>t. JObj (meeting_follow_up_task_to_api t)) tasks))])
      else Inl ValidationError)"

definition latest_prep_packet :: "string \<Rightarrow> db \<Rightarrow> MeetingPrepPacket option" where
  "latest_prep_packet meeting_id db =
     List.find (\<lambda>_. True)
       (sort_key (\<lambda>p. - mpp_created_at p)
          (rev (sort_key mpp_id (filter (\<lambda>p. mpp_meeting_id p = meeting_id) (meeting_prep_packets db)))))"

definition tasks_of_meeting :: "string \<Rightarrow> db \<Rightarrow> MeetingFollowUpTask list" where
  "tasks_of_meeting meeting_id db =
     sort_key mft_created_at (sort_key mft_id (filter (\<lambda>t. mft_meeting_id t = meeting_id) (meeting_follow_up_tasks db)))"

definition meeting_to_model_with_children :: "MeetingHandoff \<Rightarrow> db \<Rightarrow> error + dict" where
  "meeting_to_model_with_children m db =
     meeting_to_model m (latest_prep_packet (mtg_id m) db) (tasks_of_meeting (mtg_id m) db)"

section \<open>Events\<close>

definition meeting_event :: "env \<Rightarrow> EventName \<Rightarrow> string \<Rightarrow> string \<Rightarrow> dict \<Rightarrow> string \<Rightarrow> string \<Rightarrow> db \<Rightarrow> db" where
  "meeting_event env name aggregate_type aggregate_id payload key source_service db =
     emit env name aggregate_type aggregate_id source_service payload key None [] db"

definition booked_enrollment :: "env \<Rightarrow> SequenceEnrollment \<Rightarrow> SequenceEnrollment" where
  "booked_enrollment env e =
     e\<lparr>enr_status := ''completed'', enr_next_step_at := None, enr_pause_reason := Some ''meeting_booked'',
       enr_completed_at := Some (env_now env), enr_version := enr_version e + 1, enr_updated_at := env_now env\<rparr>"

definition booked_payload :: "SequenceEnrollment \<Rightarrow> dict" where
  "booked_payload e =
     [(''id'', JStr (enr_id e)), (''sequence_id'', JStr (enr_sequence_id e)), (''crm_target_id'', JStr (enr_crm_target_id e)),
      (''contact_id'', JStr (enr_contact_id e)), (''account_id'', opt_str (enr_account_id e)), (''status'', JStr (enr_status e)),
      (''approval_actor'', JStr (enr_approval_actor e)), (''approval_reason'', JStr (enr_approval_reason e)),
      (''current_step_order'', JInt (enr_current_step_order e)), (''next_step_at'', opt_time (enr_next_step_at e)),
      (''pause_reason'', opt_str (enr_pause_reason e)), (''policy_snapshot'', JObj (enr_policy_snapshot e)),
      (''version'', JInt (enr_version e)), (''created_at'', JTime (enr_created_at e)),
      (''updated_at'', JTime (enr_updated_at e)), (''completed_at'', opt_time (enr_completed_at e))]"

definition complete_sequence_for_meeting :: "env \<Rightarrow> SequenceEnrollment \<Rightarrow> db \<Rightarrow> db" where
  "complete_sequence_for_meeting env e db =
     (let e' = booked_enrollment env e
      in meeting_event env SEQUENCE_COMPLETED ''sequence_enrollment'' (enr_id e') (booked_payload e')
           (''sequence.completed:'' @ enr_id e' @ '':'' @ show_int (enr_version e')) MEETING_SEQUENCING_SERVICE_NAME
           (put_enrollment e' db))"

section \<open>Booking\<close>

definition require_time_window :: "int \<Rightarrow> int \<Rightarrow> error option" where
  "require_time_window start_at end_at =
     (if end_at \<le> start_at then Some (ValueError ''end_at must be after start_at'') else None)"

definition require_exported_target :: "CrmTarget option \<Rightarrow> error + CrmTarget" where
  "require_exported_target target =
     (case target of
        None \<Rightarrow> Inl (ValueError ''crm target not found'')
      | Some t \<Rightarrow> if tgt_status t \<noteq> ''exported'' \<or> tgt_export_status t \<noteq> ''exported''
                  then Inl (ValueError ''crm target must be exported before meeting handoff'') else Inr t)"

definition contact_for_meeting :: "CrmTarget \<Rightarrow> string option \<Rightarrow> db \<Rightarrow> error + Contact option" where
  "contact_for_meeting t requested db =
     (if truthy_str requested
      then (case get_contact (str_or requested []) db of
              None \<Rightarrow> Inl (ValueError ''contact not found'')
            | Some c \<Rightarrow> Inr (Some c))
      else if tgt_target_type t \<in> {''contact'', ''incident_contact''} then Inr (get_contact (tgt_target_id t) db)
      else if tgt_target_type t = ''email_candidate''
      then (case get_email_candidate (tgt_target_id t) db of
              None \<Rightarrow> Inr None
            | Some c \<Rightarrow> if truthy_str (ecr_contact_id c) then Inr (get_contact (str_or (ecr_contact_id c) []) db) else Inr None)
      else Inr None)"

text \<open>The contact is added to the attendees unless its address is already among them.\<close>

definition meeting_attendees :: "env \<Rightarrow> MeetingAttendee list \<Rightarrow> Contact option \<Rightarrow> error + MeetingAttendee list" where
  "meeting_attendees env requested contact =
     (let seen = (\<lambda>a. py_lower (att_email a)) ` set requested;
          added = (case contact of
                     None \<Rightarrow> Inr []
                   | Some c \<Rightarrow>
                       (let email = py_lower (str_or (con_email c) [])
                        in if truthy_str (con_email c) \<and> email \<notin> seen
                           then (case env_email_str env email of
                                   None \<Rightarrow> Inl ValidationError
                                 | Some a \<Rightarrow> Inr [\<lparr>att_email = a, att_name = Some (con_full_name c), att_optional = False\<rparr>])
                           else Inr []))
      in case added of
           Inl e \<Rightarrow> Inl e
         | Inr extra \<Rightarrow>
             if requested @ extra = [] then Inl (ValueError ''meeting requires at least one attendee'')
             else Inr (requested @ extra))"

text \<open>The address, its domain and, for the contact's own address, the contact are checked against the rules for
  addresses and against the suppressions of e-mail in force.\<close>

definition invite_criteria :: "Contact option \<Rightarrow> string \<Rightarrow> SuppressionCheckRequest" where
  "invite_criteria contact email =
     \<lparr>sck_email = Some email, sck_domain = domain_from_email (Some email),
      sck_contact_id = (case contact of
                          None \<Rightarrow> None
                        | Some c \<Rightarrow> if truthy_str (con_email c) \<and> py_lower (str_or (con_email c) []) = email
                                    then Some (con_id c) else None),
      sck_channel = ''email''\<rparr>"

text \<open>The clauses compare the columns with the lower-cased address and domain.\<close>

definition stored_invite_suppression :: "env \<Rightarrow> SuppressionCheckRequest \<Rightarrow> db \<Rightarrow> Suppression option" where
  "stored_invite_suppression env q db =
     List.find (\<lambda>s. suppression_in_force (env_now env) ''email'' s
                    \<and> (sup_email s = sck_email q
                       \<or> (truthy_str (sck_domain q) \<and> sup_domain s = sck_domain q)
                       \<or> (truthy_str (sck_contact_id q) \<and> sup_contact_id s = sck_contact_id q))) (suppressions db)"

definition invite_blocked :: "env \<Rightarrow> Contact option \<Rightarrow> MeetingAttendee \<Rightarrow> db \<Rightarrow> error option" where
  "invite_blocked env contact a db =
     (let email = py_lower (att_email a); q = invite_criteria contact email
      in case env_email_str env email of
           None \<Rightarrow> Some ValidationError
         | Some validated \<Rightarrow>
             (let baseline = evaluate_suppression (q\<lparr>sck_email := Some validated\<rparr>)
              in if \<not> scx_allowed baseline
                 then Some (ValueError (str_or (scx_reason baseline) ''suppression blocks meeting invite''))
                 else case stored_invite_suppression env q db of
                        None \<Rightarrow> None
                      | Some s \<Rightarrow> Some (ValueError (sup_reason s))))"

fun ensure_invite_allowed :: "env \<Rightarrow> Contact option \<Rightarrow> MeetingAttendee list \<Rightarrow> db \<Rightarrow> error option" where
  "ensure_invite_allowed env contact [] db = None"
| "ensure_invite_allowed env contact (a # as) db =
     (case invite_blocked env contact a db of
        Some e \<Rightarrow> Some e
      | None \<Rightarrow> ensure_invite_allowed env contact as db)"

definition attendee_dump :: "MeetingAttendee \<Rightarrow> json" where
  "attendee_dump a = JObj [(''email'', JStr (att_email a)), (''name'', opt_str (att_name a)), (''optional'', JBool (att_optional a))]"

definition meeting_row ::
  "env \<Rightarrow> MeetingCreateRequest \<Rightarrow> string \<Rightarrow> string \<Rightarrow> string \<Rightarrow> CrmTarget \<Rightarrow> Contact option \<Rightarrow> SequenceEnrollment option
     \<Rightarrow> MeetingAttendee list \<Rightarrow> string \<Rightarrow> MeetingHandoff" where
  "meeting_row env q actor key provider t contact enrollment attendees row_id =
     \<lparr>mtg_id = row_id, mtg_crm_target_id = Some (tgt_id t), mtg_sequence_enrollment_id = map_option enr_id enrollment,
      mtg_account_id = opt_or (mcr_account_id q) (Option.bind contact con_account_id),
      mtg_contact_id = (case contact of Some c \<Rightarrow> Some (con_id c) | None \<Rightarrow> mcr_contact_id q),
      mtg_status = ''scheduled'', mtg_subject = mcr_subject q, mtg_description = mcr_description q,
      mtg_location = mcr_location q, mtg_start_at = mcr_start_at q, mtg_end_at = mcr_end_at q,
      mtg_timezone = mcr_timezone q, mtg_attendees = map attendee_dump attendees, mtg_calendar_provider = provider,
      mtg_calendar_id = None, mtg_provider_event_id = None, mtg_provider_html_link = None, mtg_provider_payload = [],
      mtg_outcome_status = None, mtg_outcome_notes = None, mtg_next_steps = [], mtg_crm_sync_status = ''pending'',
      mtg_crm_sync_error = None, mtg_crm_retry_after_seconds = None,
      mtg_policy_snapshot =
        dict_set ''booked_by'' (JStr actor) (dict_update (tgt_policy_snapshot t) (mcr_policy_snapshot q)),
      mtg_idempotency_key = key, mtg_version = 1, mtg_created_at = env_now env, mtg_updated_at = env_now env\<rparr>"

definition event_request :: "env \<Rightarrow> bool option \<Rightarrow> MeetingAttendee list \<Rightarrow> MeetingHandoff \<Rightarrow> CalendarEventRequest" where
  "event_request env updates attendees m =
     \<lparr>cal_meeting_id = mtg_id m, cal_subject = mtg_subject m, cal_start_at = mtg_start_at m, cal_end_at = mtg_end_at m,
      cal_timezone = mtg_timezone m, cal_attendees = attendees, cal_description = mtg_description m,
      cal_location = mtg_location m,
      cal_send_updates = (case updates of Some b \<Rightarrow> b | None \<Rightarrow> cfg_google_calendar_send_updates (env_settings env))\<rparr>"

definition booked_meeting :: "env \<Rightarrow> CalendarEventResult \<Rightarrow> MeetingHandoff \<Rightarrow> MeetingHandoff" where
  "booked_meeting env r m =
     m\<lparr>mtg_calendar_id := Some (cer_calendar_id r), mtg_provider_event_id := Some (cer_provider_event_id r),
       mtg_provider_html_link := cer_html_link r, mtg_provider_payload := cer_raw_response r,
       mtg_updated_at := env_now env\<rparr>"

text \<open>What has to hold before anything is written: target, contact, attendees and enrollment of the meeting.\<close>

definition meeting_subject ::
  "env \<Rightarrow> MeetingCreateRequest \<Rightarrow> db \<Rightarrow> error + CrmTarget \<times> Contact option \<times> MeetingAttendee list \<times> SequenceEnrollment option" where
  "meeting_subject env q db =
     (case require_exported_target (get_crm_target (mcr_crm_target_id q) db) of
        Inl e \<Rightarrow> Inl e
      | Inr t \<Rightarrow>
          (case contact_for_meeting t (mcr_contact_id q) db of
             Inl e \<Rightarrow> Inl e
           | Inr contact \<Rightarrow>
               (case meeting_attendees env (mcr_attendees q) contact of
                  Inl e \<Rightarrow> Inl e
                | Inr attendees \<Rightarrow>
                    (case ensure_invite_allowed env contact attendees db of
                       Some e \<Rightarrow> Inl e
                     | None \<Rightarrow>
                         if truthy_str (mcr_sequence_enrollment_id q)
                         then (case get_enrollment (str_or (mcr_sequence_enrollment_id q) []) db of
                                 None \<Rightarrow> Inl (ValueError ''sequence enrollment not found'')
                               | Some e \<Rightarrow> Inr (t, contact, attendees, Some e))
                         else Inr (t, contact, attendees, None)))))"

text \<open>The booking in the calendar and what follows it.\<close>

definition record_booking ::
  "env \<Rightarrow> CalendarClient \<Rightarrow> bool option \<Rightarrow> MeetingAttendee list \<Rightarrow> SequenceEnrollment option \<Rightarrow> MeetingHandoff \<Rightarrow> dict op" where
  "record_booking env client updates attendees enrollment m0 db =
     (case create_calendar_event client (event_request env updates attendees m0) db of
        (Inl e, db1) \<Rightarrow> (Inl e, db1)
      | (Inr r, db1) \<Rightarrow>
          (let m = booked_meeting env r m0;
               db2 = put_meeting m db1;
               db3 = (case enrollment of
                        Some e \<Rightarrow> if enr_status e \<in> MEETING_ACTIVE_STATUSES then complete_sequence_for_meeting env e db2 else db2
                      | None \<Rightarrow> db2);
               db4 = meeting_event env MEETING_BOOKED ''meeting_handoff'' (mtg_id m) (meeting_to_api m)
                       (''meeting.booked:'' @ mtg_id m) MEETING_SERVICE_NAME db3
           in (meeting_to_model_with_children m db4, db4)))"

definition create_meeting_body ::
  "env \<Rightarrow> CalendarClient \<Rightarrow> MeetingCreateRequest \<Rightarrow> string \<Rightarrow> string \<Rightarrow> dict op" where
  "create_meeting_body env client q actor key db =
     (case List.find (\<lambda>m. mtg_idempotency_key m = key) (meeting_handoffs db) of
        Some m \<Rightarrow> (meeting_to_model_with_children m db, db)
      | None \<Rightarrow>
          (case meeting_subject env q db of
             Inl e \<Rightarrow> (Inl e, db)
           | Inr (t, contact, attendees, enrollment) \<Rightarrow>
               (let (row_id, db1) = draw_uuid env db;
                    m = meeting_row env q actor key (calendar_provider client) t contact enrollment attendees row_id
                in case flush env (add_meeting m db1) of
                     Inl e \<Rightarrow> (Inl e, db1)
                   | Inr db2 \<Rightarrow> record_booking env client (mcr_send_updates q) attendees enrollment m db2)))"

definition create_meeting :: "env \<Rightarrow> calendars \<Rightarrow> MeetingCreateRequest \<Rightarrow> string \<Rightarrow> string \<Rightarrow> dict op" where
  "create_meeting env cals q actor key db =
     (case require_time_window (mcr_start_at q) (mcr_end_at q) of
        Some e \<Rightarrow> (Inl e, db)
      | None \<Rightarrow>
          (case resolve_calendar env cals of
             Inl e \<Rightarrow> (Inl e, db)
           | Inr client \<Rightarrow> session_scope env (create_meeting_body env client q actor key) db))"

section \<open>Reading, cancelling and availability\<close>

definition list_meetings :: "env \<Rightarrow> string option \<Rightarrow> string option \<Rightarrow> nat \<Rightarrow> dict list op" where
  "list_meetings env status crm_target_id limit =
     session_scope env (\<lambda>db.
       (collect (map (\<lambda>m. meeting_to_model_with_children m db)
          (take limit (sort_key (\<lambda>m. - mtg_start_at m) (sort_key mtg_id
             (filter (\<lambda>m. (truthy_str status \<longrightarrow> Some (mtg_status m) = status)
                          \<and> (truthy_str crm_target_id \<longrightarrow> mtg_crm_target_id m = crm_target_id)) (meeting_handoffs db)))))), db))"

definition get_meeting_handoff :: "env \<Rightarrow> string \<Rightarrow> dict option op" where
  "get_meeting_handoff env meeting_id =
     session_scope env (\<lambda>db.
       (case get_meeting meeting_id db of
          None \<Rightarrow> (Inr None, db)
        | Some m \<Rightarrow> (map_sum id Some (meeting_to_model_with_children m db), db)))"

definition canceled_meeting :: "env \<Rightarrow> string \<Rightarrow> MeetingHandoff \<Rightarrow> MeetingHandoff" where
  "canceled_meeting env reason m =
     m\<lparr>mtg_status := ''canceled'', mtg_outcome_status := Some ''disqualified'', mtg_outcome_notes := Some reason,
       mtg_version := mtg_version m + 1, mtg_updated_at := env_now env\<rparr>"

definition cancel_meeting_body :: "env \<Rightarrow> CalendarClient \<Rightarrow> string \<Rightarrow> string \<Rightarrow> dict option op" where
  "cancel_meeting_body env client meeting_id reason db =
     (case get_meeting meeting_id db of
        None \<Rightarrow> (Inr None, db)
      | Some m \<Rightarrow>
          (case (if truthy_str (mtg_provider_event_id m)
                 then cancel_calendar_event client (str_or (mtg_provider_event_id m) [])
                        (cfg_google_calendar_send_updates (env_settings env)) db
                 else (Inr (), db)) of
             (Inl e, db1) \<Rightarrow> (Inl e, db1)
           | (Inr _, db1) \<Rightarrow>
               (let m' = canceled_meeting env reason m; db2 = put_meeting m' db1
                in (map_sum id Some (meeting_to_model_with_children m' db2), db2))))"

definition cancel_meeting :: "env \<Rightarrow> calendars \<Rightarrow> string \<Rightarrow> string \<Rightarrow> dict option op" where
  "cancel_meeting env cals meeting_id reason db =
     (case resolve_calendar env cals of
        Inl e \<Rightarrow> (Inl e, db)
      | Inr client \<Rightarrow> session_scope env (cancel_meeting_body env client meeting_id reason) db)"

definition get_calendar_availability ::
  "env \<Rightarrow> calendars \<Rightarrow> CalendarAvailabilityRequest \<Rightarrow> error + (string \<times> (int \<times> int) list) list \<times> string" where
  "get_calendar_availability env cals q =
     (if car_time_max q \<le> car_time_min q then Inl (ValueError ''time_max must be after time_min'')
      else case resolve_calendar env cals of
             Inl e \<Rightarrow> Inl e
           | Inr client \<Rightarrow>
               (case calendar_get_availability client (map py_lower (car_attendees q)) (car_time_min q) (car_time_max q) (car_timezone q) of
                  Inl e \<Rightarrow> Inl e
                | Inr slots \<Rightarrow> Inr (slots, calendar_provider client)))"

section \<open>Synchronisation with the CRM\<close>

definition crm_sync_plan :: "env \<Rightarrow> string \<Rightarrow> MeetingHandoff \<Rightarrow> MeetingFollowUpTask list \<Rightarrow> CrmSyncPlan" where
  "crm_sync_plan env actor m tasks =
     \<lparr>syn_sync_type = ''meeting_handoff'', syn_target_id = mtg_id m, syn_provider_object = ''meeting_handoffs'',
      syn_stable_match_key = ''ghostrecon_meeting:'' @ mtg_id m, syn_matching_attribute = ''ghostrecon_id'',
      syn_values =
        [(''ghostrecon_id'', JStr (mtg_id m)), (''crm_target_id'', opt_str (mtg_crm_target_id m)),
         (''account_id'', opt_str (mtg_account_id m)), (''contact_id'', opt_str (mtg_contact_id m)),
         (''subject'', JStr (mtg_subject m)), (''status'', JStr (mtg_status m)), (''start_at'', JStr (isoformat (mtg_start_at m))),
         (''end_at'', JStr (isoformat (mtg_end_at m))), (''timezone'', JStr (mtg_timezone m)),
         (''outcome_status'', opt_str (mtg_outcome_status m)), (''outcome_notes'', opt_str (mtg_outcome_notes m)),
         (''next_steps'', JArr (mtg_next_steps m)), (''calendar_provider'', JStr (mtg_calendar_provider m)),
         (''calendar_event_id'', opt_str (mtg_provider_event_id m)), (''calendar_link'', opt_str (mtg_provider_html_link m)),
         (''follow_up_tasks'', JArr (map (\<lambda>t. JObj (meeting_follow_up_task_to_api t)) tasks)), (''synced_by'', JStr actor)],
      syn_list_api_slug = Some (cfg_attio_meetings_list_api_slug (env_settings env)),
      syn_list_entry_values = [(''meeting_status'', JStr (mtg_status m)), (''outcome_status'', opt_str (mtg_outcome_status m))]\<rparr>"

text \<open>The tasks of the meeting ordered by creation alone, rows of one moment in the order of the table.\<close>

definition tasks_to_sync :: "string \<Rightarrow> db \<Rightarrow> MeetingFollowUpTask list" where
  "tasks_to_sync meeting_id db =
     sort_key mft_created_at (filter (\<lambda>t. mft_meeting_id t = meeting_id) (meeting_follow_up_tasks db))"

definition put_tasks :: "MeetingFollowUpTask list \<Rightarrow> db \<Rightarrow> db" where
  "put_tasks tasks db = fold put_follow_up_task tasks db"

definition sync_caught :: "error \<Rightarrow> bool" where
  "sync_caught e = (caught_as_value_error e \<or> (case e of CrmProviderError _ _ _ \<Rightarrow> True | _ \<Rightarrow> False))"

definition sync_retryable :: "error \<Rightarrow> bool" where
  "sync_retryable e = (case e of CrmProviderError _ retryable _ \<Rightarrow> retryable | _ \<Rightarrow> False)"

definition failed_sync_meeting :: "env \<Rightarrow> error \<Rightarrow> MeetingHandoff \<Rightarrow> MeetingHandoff" where
  "failed_sync_meeting env e m =
     m\<lparr>mtg_crm_sync_status := (if sync_retryable e then ''failed_retryable'' else ''failed_terminal''),
       mtg_crm_sync_error := Some (error_text e),
       mtg_crm_retry_after_seconds := (case e of CrmProviderError _ _ retry_after \<Rightarrow> retry_after | _ \<Rightarrow> None),
       mtg_status := (if sync_retryable e then ''failed_sync'' else mtg_status m), mtg_updated_at := env_now env\<rparr>"

definition failed_sync_task :: "env \<Rightarrow> error \<Rightarrow> MeetingFollowUpTask \<Rightarrow> MeetingFollowUpTask" where
  "failed_sync_task env e t =
     t\<lparr>mft_crm_sync_status := (if sync_retryable e then ''failed_retryable'' else ''failed_terminal''),
       mft_last_error := Some (error_text e), mft_updated_at := env_now env\<rparr>"

definition synced_meeting :: "env \<Rightarrow> MeetingHandoff \<Rightarrow> MeetingHandoff" where
  "synced_meeting env m =
     m\<lparr>mtg_crm_sync_status := ''succeeded'', mtg_crm_sync_error := None, mtg_crm_retry_after_seconds := None,
       mtg_updated_at := env_now env\<rparr>"

definition synced_task :: "env \<Rightarrow> CrmExportResult \<Rightarrow> MeetingFollowUpTask \<Rightarrow> MeetingFollowUpTask" where
  "synced_task env r t =
     t\<lparr>mft_crm_sync_status := ''succeeded'', mft_provider_task_id := Some (res_provider_record_id r),
       mft_last_error := None, mft_updated_at := env_now env\<rparr>"

text \<open>The pending state that the code stores before the call is never seen: both outcomes overwrite it, and an
  exception that is not caught rolls it back.\<close>

definition crm_sync_call :: "CrmClient \<Rightarrow> CrmSyncPlan \<Rightarrow> CrmExportResult op" where
  "crm_sync_call client p db = (client_sync client (length (effects db)) p, db\<lparr>effects := effects db @ [CrmSync p]\<rparr>)"

definition sync_outcome :: "env \<Rightarrow> crm_access \<Rightarrow> CrmSyncPlan \<Rightarrow> CrmExportResult op" where
  "sync_outcome env crm p db =
     (case resolve_client env (crm_http crm) (given_crm crm) of
        Inl e \<Rightarrow> (Inl e, db)
      | Inr client \<Rightarrow> crm_sync_call client p db)"

definition synced_key :: "MeetingHandoff \<Rightarrow> string" where
  "synced_key m = ''crm.synced:meeting:'' @ mtg_id m @ '':'' @ show_int (mtg_version m)"

definition synced_payload :: "MeetingHandoff \<Rightarrow> CrmExportResult \<Rightarrow> dict" where
  "synced_payload m r =
     [(''meeting_id'', JStr (mtg_id m)), (''provider_record_id'', JStr (res_provider_record_id r)),
      (''provider_list_entry_id'', opt_str (res_provider_list_entry_id r)), (''raw_response'', JObj (res_raw_response r))]"

definition sync_meeting_to_crm :: "env \<Rightarrow> crm_access \<Rightarrow> string \<Rightarrow> MeetingHandoff \<Rightarrow> MeetingHandoff op" where
  "sync_meeting_to_crm env crm actor m db =
     (let tasks = tasks_to_sync (mtg_id m) db; plan = crm_sync_plan env actor m tasks
      in case sync_outcome env crm plan db of
           (Inl e, db1) \<Rightarrow>
             if sync_caught e
             then (let m' = failed_sync_meeting env e m
                   in (Inr m', put_tasks (map (failed_sync_task env e) tasks) (put_meeting m' db1)))
             else (Inl e, db1)
         | (Inr r, db1) \<Rightarrow>
             (let m' = synced_meeting env m
              in (Inr m', meeting_event env CRM_SYNCED ''meeting_handoff'' (mtg_id m') (synced_payload m' r) (synced_key m')
                            CRM_SERVICE_NAME (put_tasks (map (synced_task env r) tasks) (put_meeting m' db1)))))"

section \<open>Outcomes\<close>

definition outcome_key :: "string \<Rightarrow> string \<Rightarrow> string" where
  "outcome_key meeting_id key = ''meeting.outcome_recorded:'' @ meeting_id @ '':'' @ key"

definition follow_up_key :: "string \<Rightarrow> nat \<Rightarrow> string \<Rightarrow> string" where
  "follow_up_key meeting_id index title = ''meeting-follow-up:'' @ meeting_id @ '':'' @ show_nat index @ '':'' @ py_lower title"

definition follow_up_row :: "env \<Rightarrow> string \<Rightarrow> MeetingFollowUpTaskCreate \<Rightarrow> string \<Rightarrow> string \<Rightarrow> MeetingFollowUpTask" where
  "follow_up_row env meeting_id q key row_id =
     \<lparr>mft_id = row_id, mft_meeting_id = meeting_id, mft_title = mfc_title q, mft_description = mfc_description q,
      mft_owner = mfc_owner q, mft_due_at = mfc_due_at q, mft_status = ''open'', mft_crm_sync_status = ''pending'',
      mft_provider_task_id = None, mft_last_error = None, mft_idempotency_key = Some key,
      mft_created_at = env_now env, mft_updated_at = env_now env\<rparr>"

text \<open>The query for an existing task sees the rows of the last flush, \<open>stored\<close>.\<close>

fun follow_up_tasks :: "env \<Rightarrow> string \<Rightarrow> MeetingFollowUpTask list \<Rightarrow> nat \<Rightarrow> MeetingFollowUpTaskCreate list \<Rightarrow> db
     \<Rightarrow> MeetingFollowUpTask list \<times> db" where
  "follow_up_tasks env meeting_id stored index [] db = ([], db)"
| "follow_up_tasks env meeting_id stored index (q # qs) db =
     (let key = follow_up_key meeting_id index (mfc_title q)
      in case List.find (\<lambda>t. mft_idempotency_key t = Some key) stored of
           Some t \<Rightarrow>
             (case follow_up_tasks env meeting_id stored (Suc index) qs db of (ts, db1) \<Rightarrow> (t # ts, db1))
         | None \<Rightarrow>
             (let (row_id, db1) = draw_uuid env db; t = follow_up_row env meeting_id q key row_id
              in case follow_up_tasks env meeting_id stored (Suc index) qs (add_follow_up_task t db1) of
                   (ts, db2) \<Rightarrow> (t # ts, db2)))"

definition create_follow_up_tasks ::
  "env \<Rightarrow> string \<Rightarrow> MeetingFollowUpTaskCreate list \<Rightarrow> MeetingFollowUpTask list op" where
  "create_follow_up_tasks env meeting_id requests db =
     (case follow_up_tasks env meeting_id (meeting_follow_up_tasks db) 1 requests db of
        (tasks, db1) \<Rightarrow> (case flush env db1 of Inl e \<Rightarrow> (Inl e, db1) | Inr db2 \<Rightarrow> (Inr tasks, db2)))"

definition outcome_meeting :: "env \<Rightarrow> MeetingOutcomeRequest \<Rightarrow> MeetingHandoff \<Rightarrow> MeetingHandoff" where
  "outcome_meeting env q m =
     m\<lparr>mtg_status := (if outcome_value (mor_outcome_status q) = ''rescheduled'' then ''scheduled'' else ''completed''),
       mtg_outcome_status := Some (outcome_value (mor_outcome_status q)), mtg_outcome_notes := mor_outcome_notes q,
       mtg_next_steps := map JStr (mor_next_steps q), mtg_updated_at := env_now env, mtg_version := mtg_version m + 1\<rparr>"

definition task_event :: "env \<Rightarrow> MeetingFollowUpTask \<Rightarrow> db \<Rightarrow> db" where
  "task_event env t db =
     meeting_event env MEETING_FOLLOW_UP_TASK_CREATED ''meeting_follow_up_task'' (mft_id t) (meeting_follow_up_task_to_api t)
       (''meeting.follow_up_task_created:'' @ mft_id t) MEETING_SERVICE_NAME db"

definition record_outcome_body ::
  "env \<Rightarrow> crm_access \<Rightarrow> string \<Rightarrow> MeetingOutcomeRequest \<Rightarrow> string \<Rightarrow> string \<Rightarrow> dict option op" where
  "record_outcome_body env crm meeting_id q actor key db =
     (case get_meeting meeting_id db of
        None \<Rightarrow> (Inr None, db)
      | Some m0 \<Rightarrow>
          if outcome_key (mtg_id m0) key \<in> obx_idempotency_key ` set (outbox_events db)
          then (map_sum id Some (meeting_to_model_with_children m0 db), db)
          else
            (let m = outcome_meeting env q m0
             in case create_follow_up_tasks env (mtg_id m) (mor_follow_up_tasks q) (put_meeting m db) of
                  (Inl e, db1) \<Rightarrow> (Inl e, db1)
                | (Inr tasks, db1) \<Rightarrow>
                    (let db2 = meeting_event env MEETING_OUTCOME_RECORDED ''meeting_handoff'' (mtg_id m) (meeting_to_api m)
                                 (outcome_key (mtg_id m) key) MEETING_SERVICE_NAME db1;
                         db3 = fold (task_event env) tasks db2
                     in case sync_meeting_to_crm env crm actor m db3 of
                          (Inl e, db4) \<Rightarrow> (Inl e, db4)
                        | (Inr m', db4) \<Rightarrow> (map_sum id Some (meeting_to_model_with_children m' db4), db4))))"

definition record_meeting_outcome ::
  "env \<Rightarrow> crm_access \<Rightarrow> string \<Rightarrow> MeetingOutcomeRequest \<Rightarrow> string \<Rightarrow> string \<Rightarrow> dict option op" where
  "record_meeting_outcome env crm meeting_id q actor key = session_scope env (record_outcome_body env crm meeting_id q actor key)"

definition retry_sync_body :: "env \<Rightarrow> crm_access \<Rightarrow> string \<Rightarrow> string \<Rightarrow> dict option op" where
  "retry_sync_body env crm meeting_id actor db =
     (case get_meeting meeting_id db of
        None \<Rightarrow> (Inr None, db)
      | Some m \<Rightarrow>
          (case sync_meeting_to_crm env crm actor m db of
             (Inl e, db1) \<Rightarrow> (Inl e, db1)
           | (Inr m', db1) \<Rightarrow> (map_sum id Some (meeting_to_model_with_children m' db1), db1)))"

definition retry_meeting_crm_sync :: "env \<Rightarrow> crm_access \<Rightarrow> string \<Rightarrow> string \<Rightarrow> dict option op" where
  "retry_meeting_crm_sync env crm meeting_id actor = session_scope env (retry_sync_body env crm meeting_id actor)"

section \<open>Preparation packets\<close>

definition SUGGESTED_QUESTIONS :: "string list" where
  "SUGGESTED_QUESTIONS =
     [''Which security initiatives are funded this quarter?'',
      ''What tools or processes are creating the most operational drag?'',
      ''Which integrations or controls must be validated before a pilot?'']"

definition PREP_RISKS :: "string list" where
  "PREP_RISKS =
     [''Signal relevance needs human validation before use in messaging'',
      ''Technical fit should be confirmed by AE/SE discovery'']"

definition build_prep_packet :: "PrepPacketRequest \<Rightarrow> PrepPacket" where
  "build_prep_packet q =
     (let account_name = py_str (py_or (py_or (dict_get (ppr_account q) ''company_name'') (dict_get (ppr_account q) ''domain''))
                                   (JStr ''Account''));
          topics = map py_str (filter truthy
                     (map (\<lambda>s. py_or (dict_get s ''signal_topic'') (dict_get s ''signal_type'')) (ppr_signals q)))
      in \<lparr>pkt_account_summary = account_name @ '' has '' @ show_nat (length (ppr_contacts q)) @ '' known stakeholders and ''
            @ show_nat (length (ppr_signals q)) @ '' active signals.'',
          pkt_stakeholder_map =
            map (\<lambda>c. py_str (dict_get_default c ''full_name'' (JStr ''Unknown'')) @ '' - ''
                     @ py_str (dict_get_default c ''title'' (JStr ''Unknown role''))) (ppr_contacts q),
          pkt_likely_security_priorities =
            (if take 5 topics = [] then [''Confirm current security priorities''] else take 5 topics),
          pkt_suggested_questions = SUGGESTED_QUESTIONS, pkt_risks = PREP_RISKS\<rparr>)"

definition target_signals :: "CrmTarget option \<Rightarrow> db \<Rightarrow> dict list" where
  "target_signals target db =
     (case target of
        None \<Rightarrow> []
      | Some t \<Rightarrow>
          if tgt_target_type t \<in> {''security_incident'', ''incident''}
          then (case get_incident (tgt_target_id t) db of
                  None \<Rightarrow> []
                | Some i \<Rightarrow> [[(''signal_type'', JStr ''security_incident''), (''signal_topic'', JStr (inc_title i)),
                              (''signal_strength'', JInt (inc_confidence i)), (''product_relevance'', opt_str (inc_attack_vector i))]])
          else if tgt_target_type t \<in> {''cyber_event'', ''event''}
          then (case get_cyber_event (tgt_target_id t) db of
                  None \<Rightarrow> []
                | Some e \<Rightarrow> [[(''signal_type'', JStr ''cyber_event''), (''signal_topic'', JStr (evt_name e)),
                              (''signal_strength'', JInt (evt_confidence e)),
                              (''product_relevance'', JStr (join '', '' (map py_str (evt_topics e))))]])
          else [])"

definition contact_payload :: "Contact \<Rightarrow> dict" where
  "contact_payload c =
     [(''id'', JStr (con_id c)), (''full_name'', JStr (con_full_name c)), (''title'', opt_str (con_title c)),
      (''email'', opt_str (con_email c)), (''persona_type'', opt_str (con_persona_type c)),
      (''buying_role'', opt_str (con_buying_role c))]"

definition signal_payload :: "Signal \<Rightarrow> dict" where
  "signal_payload s =
     [(''id'', JStr (sgl_id s)), (''signal_type'', JStr (sgl_signal_type s)), (''signal_topic'', opt_str (sgl_signal_topic s)),
      (''signal_strength'', JInt (sgl_signal_strength s)), (''product_relevance'', opt_str (sgl_product_relevance s)),
      (''recommended_play'', opt_str (sgl_recommended_play s))]"

definition account_payload :: "Account option \<Rightarrow> dict" where
  "account_payload account =
     (case account of
        None \<Rightarrow> [(''company_name'', JStr ''Account'')]
      | Some a \<Rightarrow>
          [(''id'', JStr (acc_id a)), (''company_name'', JStr (acc_company_name a)), (''domain'', JStr (acc_domain a)),
           (''industry'', opt_str (acc_industry a)), (''security_stack'', JObj (acc_security_stack a))])"

text \<open>\<open>session.get(T, id) if id else None\<close>.\<close>

definition get_if :: "(string \<Rightarrow> db \<Rightarrow> 'a option) \<Rightarrow> string option \<Rightarrow> db \<Rightarrow> 'a option" where
  "get_if get k db = (if truthy_str k then get (str_or k []) db else None)"

definition meeting_account :: "MeetingHandoff \<Rightarrow> db \<Rightarrow> Account option" where
  "meeting_account m db =
     (case get_if get_account (mtg_account_id m) db of
        Some a \<Rightarrow> Some a
      | None \<Rightarrow>
          (case get_if get_contact (mtg_contact_id m) db of
             None \<Rightarrow> None
           | Some c \<Rightarrow> get_if get_account (con_account_id c) db))"

definition prep_request_for_meeting :: "MeetingHandoff \<Rightarrow> db \<Rightarrow> PrepPacketRequest \<times> dict" where
  "prep_request_for_meeting m db =
     (let account = meeting_account m db;
          contacts = (case account of
                        Some a \<Rightarrow> sort_key con_full_name (filter (\<lambda>c. con_account_id c = Some (acc_id a)) (Datastore.contacts db))
                      | None \<Rightarrow> (case get_if get_contact (mtg_contact_id m) db of None \<Rightarrow> [] | Some c \<Rightarrow> [c]));
          found = (case account of
                     Some a \<Rightarrow> take 25 (sort_key (\<lambda>s. - sgl_signal_timestamp s)
                                 (filter (\<lambda>s. sgl_account_id s = Some (acc_id a)) (signals db)))
                   | None \<Rightarrow> []);
          target = get_if get_crm_target (mtg_crm_target_id m) db
      in (\<lparr>ppr_account = account_payload account, ppr_contacts = map contact_payload contacts,
           ppr_signals = map signal_payload found @ target_signals target db, ppr_meeting_time = Some (mtg_start_at m)\<rparr>,
          [(''account_id'', opt_str (map_option acc_id account)), (''contact_ids'', JArr (map (\<lambda>c. JStr (con_id c)) contacts)),
           (''signal_ids'', JArr (map (\<lambda>s. JStr (sgl_id s)) found)), (''crm_target_id'', opt_str (mtg_crm_target_id m)),
           (''crm_target_type'', opt_str (map_option tgt_target_type target)),
           (''crm_target_target_id'', opt_str (map_option tgt_target_id target))]))"

definition prep_packet_row :: "env \<Rightarrow> string \<Rightarrow> PrepPacket \<Rightarrow> dict \<Rightarrow> string \<Rightarrow> string option \<Rightarrow> string \<Rightarrow> MeetingPrepPacket" where
  "prep_packet_row env meeting_id p snapshot actor key row_id =
     \<lparr>mpp_id = row_id, mpp_meeting_id = meeting_id, mpp_account_summary = pkt_account_summary p,
      mpp_stakeholder_map = map JStr (pkt_stakeholder_map p),
      mpp_likely_security_priorities = map JStr (pkt_likely_security_priorities p),
      mpp_suggested_questions = map JStr (pkt_suggested_questions p), mpp_risks = map JStr (pkt_risks p),
      mpp_source_snapshot = snapshot, mpp_generated_by = actor, mpp_idempotency_key = key,
      mpp_created_at = env_now env, mpp_updated_at = env_now env\<rparr>"

definition packet_exists :: "string option \<Rightarrow> string \<Rightarrow> db \<Rightarrow> bool" where
  "packet_exists key meeting_id db =
     ((truthy_str key \<and> (\<exists>p \<in> set (meeting_prep_packets db). mpp_idempotency_key p = key))
      \<or> (latest_prep_packet meeting_id db \<noteq> None \<and> key = None))"

definition prep_packet_body :: "env \<Rightarrow> string \<Rightarrow> string \<Rightarrow> string option \<Rightarrow> dict option op" where
  "prep_packet_body env meeting_id actor key db =
     (case get_meeting meeting_id db of
        None \<Rightarrow> (Inr None, db)
      | Some m \<Rightarrow>
          if packet_exists key (mtg_id m) db then (map_sum id Some (meeting_to_model_with_children m db), db)
          else
            (let (request, snapshot) = prep_request_for_meeting m db;
                 (row_id, db1) = draw_uuid env db;
                 p = prep_packet_row env (mtg_id m) (build_prep_packet request) snapshot actor key row_id
             in case flush env (add_prep_packet p db1) of
                  Inl e \<Rightarrow> (Inl e, db1)
                | Inr db2 \<Rightarrow>
                    (let db3 = meeting_event env MEETING_PREP_PACKET_GENERATED ''meeting_prep_packet'' (mpp_id p)
                                 (meeting_prep_packet_to_api p) (''meeting.prep_packet_generated:'' @ mpp_id p) MEETING_SERVICE_NAME db2
                     in (map_sum id Some (meeting_to_model_with_children m db3), db3))))"

definition generate_meeting_prep_packet :: "env \<Rightarrow> string \<Rightarrow> string \<Rightarrow> string option \<Rightarrow> dict option op" where
  "generate_meeting_prep_packet env meeting_id actor key = session_scope env (prep_packet_body env meeting_id actor key)"

section \<open>The meeting step of a sequence\<close>

record SequenceActivityScheduleMeetingRequest =
  smr_subject :: "string option"
  smr_description :: "string option"
  smr_location :: "string option"
  smr_start_at :: int
  smr_end_at :: int
  smr_timezone :: string
  smr_attendees :: "MeetingAttendee list"
  smr_send_updates :: "bool option"

text \<open>The first session reads the activity and its enrollment.\<close>

definition meeting_step :: "string \<Rightarrow> (SequenceStepActivity \<times> SequenceEnrollment) option op" where
  "meeting_step activity_id db =
     (case get_activity activity_id db of
        None \<Rightarrow> (Inr None, db)
      | Some a \<Rightarrow>
          if act_channel a \<noteq> ''google_meet'' then (Inl (ValueError ''activity is not a Google Meet step''), db)
          else if act_status a \<notin> {''pending'', ''scheduled''}
          then (Inl (ValueError (''cannot schedule '' @ act_status a @ '' activity'')), db)
          else case get_enrollment (act_enrollment_id a) db of
                 None \<Rightarrow> (Inl (ValueError ''activity is missing enrollment''), db)
               | Some e \<Rightarrow> (Inr (Some (a, e)), db))"

text \<open>The request of the booking; pydantic bounds the length of the subject.\<close>

definition step_meeting_request ::
  "SequenceActivityScheduleMeetingRequest \<Rightarrow> SequenceStepActivity \<Rightarrow> SequenceEnrollment \<Rightarrow> error + MeetingCreateRequest" where
  "step_meeting_request q a e =
     (let metadata = act_metadata_payload a;
          subject = str_or (smr_subject q) (py_str (py_or (dict_get metadata ''meeting_subject'') (JStr ''Security discovery'')))
      in if length subject < 1 \<or> 512 < length subject then Inl ValidationError
         else Inr \<lparr>mcr_crm_target_id = enr_crm_target_id e, mcr_sequence_enrollment_id = Some (enr_id e),
                   mcr_account_id = enr_account_id e, mcr_contact_id = Some (enr_contact_id e), mcr_subject = subject,
                   mcr_description =
                     Some (str_or (smr_description q) (py_str (py_or (dict_get metadata ''meeting_description'') (JStr [])))),
                   mcr_location = smr_location q, mcr_start_at = smr_start_at q, mcr_end_at = smr_end_at q,
                   mcr_timezone = smr_timezone q, mcr_attendees = smr_attendees q,
                   mcr_policy_snapshot = enr_policy_snapshot e, mcr_send_updates = smr_send_updates q\<rparr>)"

definition scheduled_activity :: "env \<Rightarrow> string \<Rightarrow> string \<Rightarrow> SequenceStepActivity \<Rightarrow> SequenceStepActivity" where
  "scheduled_activity env actor meeting_id a =
     a\<lparr>act_meeting_handoff_id := Some meeting_id, act_status := ''scheduled'', act_completed_by := Some actor,
       act_completed_at := Some (env_now env), act_updated_at := env_now env\<rparr>"

definition step_scheduled :: "env \<Rightarrow> string \<Rightarrow> string \<Rightarrow> string \<Rightarrow> dict option op" where
  "step_scheduled env activity_id actor meeting_id db =
     (case get_activity activity_id db of
        None \<Rightarrow> (Inl (ValueError ''activity disappeared during meeting scheduling''), db)
      | Some a \<Rightarrow>
          (case (get_enrollment (act_enrollment_id a) db, get_step (act_sequence_step_id a) db) of
             (Some e, Some step) \<Rightarrow>
               (let a' = scheduled_activity env actor meeting_id a
                in respond_activity a' (advance_enrollment env e step (put_activity a' db)))
           | _ \<Rightarrow> (Inl (ValueError ''activity disappeared during meeting scheduling''), db)))"

definition schedule_sequence_meeting_activity ::
  "env \<Rightarrow> calendars \<Rightarrow> string \<Rightarrow> SequenceActivityScheduleMeetingRequest \<Rightarrow> string \<Rightarrow> dict option op" where
  "schedule_sequence_meeting_activity env cals activity_id q actor db =
     (case session_scope env (meeting_step activity_id) db of
        (Inl e, db1) \<Rightarrow> (Inl e, db1)
      | (Inr None, db1) \<Rightarrow> (Inr None, db1)
      | (Inr (Some (a, e)), db1) \<Rightarrow>
          (case step_meeting_request q a e of
             Inl err \<Rightarrow> (Inl err, db1)
           | Inr r \<Rightarrow>
               (case create_meeting env (configured_calendars cals) r actor (''sequence-meeting:'' @ activity_id) db1 of
                  (Inl err, db2) \<Rightarrow> (Inl err, db2)
                | (Inr m, db2) \<Rightarrow>
                    session_scope env (step_scheduled env activity_id actor (py_str (dict_get m ''id''))) db2)))"

section \<open>Endpoints\<close>

definition provider_status :: "error \<Rightarrow> failure" where
  "provider_status e =
     (case e of
        CalendarProviderError m retryable _ \<Rightarrow> HTTPException (if retryable then 503 else 502) m
      | _ \<Rightarrow> Raised e)"

definition calendar_conflict :: "error + 'a \<Rightarrow> failure + 'a" where
  "calendar_conflict r =
     (case r of
        Inl e \<Rightarrow> Inl (if caught_as_value_error e then HTTPException 409 (error_text e) else provider_status e)
      | Inr x \<Rightarrow> Inr x)"

definition busy_json :: "(string \<times> (int \<times> int) list) list \<times> string \<Rightarrow> json" where
  "busy_json r =
     JObj [(''calendars'', JObj (map (\<lambda>(c, slots). (c, JArr (map (\<lambda>(s, e). JObj [(''start'', JTime s), (''end'', JTime e)]) slots))) (fst r))),
           (''provider'', JStr (snd r))]"

definition calendar_availability :: "env \<Rightarrow> calendars \<Rightarrow> CalendarAvailabilityRequest \<Rightarrow> json reply" where
  "calendar_availability env cals q = reply calendar_conflict busy_json (\<lambda>db. (get_calendar_availability env (configured_calendars cals) q, db))"

definition meeting_create :: "env \<Rightarrow> calendars \<Rightarrow> MeetingCreateRequest \<Rightarrow> string \<Rightarrow> string \<Rightarrow> json reply" where
  "meeting_create env cals q key actor = reply calendar_conflict JObj (create_meeting env (configured_calendars cals) q actor key)"

definition meeting_list :: "env \<Rightarrow> string option \<Rightarrow> string option \<Rightarrow> nat \<Rightarrow> json reply" where
  "meeting_list env status crm_target_id limit =
     reply uncaught (\<lambda>ms. JObj [(''meetings'', JArr (map JObj ms))]) (list_meetings env status crm_target_id limit)"

definition meeting_detail :: "env \<Rightarrow> string \<Rightarrow> json reply" where
  "meeting_detail env meeting_id =
     reply (\<lambda>r. or_404 ''meeting not found'' (uncaught r)) JObj (get_meeting_handoff env meeting_id)"

definition meeting_generate_prep_packet :: "env \<Rightarrow> string \<Rightarrow> string option \<Rightarrow> string \<Rightarrow> json reply" where
  "meeting_generate_prep_packet env meeting_id key actor =
     reply (\<lambda>r. or_404 ''meeting not found'' (uncaught r)) JObj (generate_meeting_prep_packet env meeting_id actor key)"

definition meeting_record_outcome ::
  "env \<Rightarrow> crm_access \<Rightarrow> string \<Rightarrow> MeetingOutcomeRequest \<Rightarrow> string \<Rightarrow> string \<Rightarrow> json reply" where
  "meeting_record_outcome env crm meeting_id q key actor =
     reply (\<lambda>r. or_404 ''meeting not found'' (uncaught r)) JObj (record_meeting_outcome env (crm\<lparr>given_crm := None\<rparr>) meeting_id q actor key)"

definition meeting_cancel :: "env \<Rightarrow> calendars \<Rightarrow> string \<Rightarrow> string \<Rightarrow> json reply" where
  "meeting_cancel env cals meeting_id reason =
     reply (\<lambda>r. or_404 ''meeting not found'' (case r of Inl e \<Rightarrow> Inl (provider_status e) | Inr x \<Rightarrow> Inr x)) JObj
       (cancel_meeting env (configured_calendars cals) meeting_id reason)"

definition meeting_retry_sync :: "env \<Rightarrow> crm_access \<Rightarrow> string \<Rightarrow> string \<Rightarrow> json reply" where
  "meeting_retry_sync env crm meeting_id actor =
     reply (\<lambda>r. or_404 ''meeting not found'' (uncaught r)) JObj (retry_meeting_crm_sync env (crm\<lparr>given_crm := None\<rparr>) meeting_id actor)"

definition prep_packet_preview :: "PrepPacketRequest \<Rightarrow> json reply" where
  "prep_packet_preview q db =
     (let p = build_prep_packet q
      in (Inr (JObj [(''account_summary'', JStr (pkt_account_summary p)), (''stakeholder_map'', JArr (map JStr (pkt_stakeholder_map p))),
            (''likely_security_priorities'', JArr (map JStr (pkt_likely_security_priorities p))),
            (''suggested_questions'', JArr (map JStr (pkt_suggested_questions p))), (''risks'', JArr (map JStr (pkt_risks p)))]), db))"

definition sequence_activity_schedule_meeting ::
  "env \<Rightarrow> calendars \<Rightarrow> string \<Rightarrow> SequenceActivityScheduleMeetingRequest \<Rightarrow> string \<Rightarrow> json reply" where
  "sequence_activity_schedule_meeting env cals activity_id q actor =
     reply (\<lambda>r. or_404 ''sequence activity not found''
                  (case r of
                     Inl e \<Rightarrow> Inl (if caught_as_value_error e \<or> (case e of CalendarProviderError _ _ _ \<Rightarrow> True | _ \<Rightarrow> False)
                                   then HTTPException 409 (error_text e) else Raised e)
                   | Inr x \<Rightarrow> Inr x)) JObj
       (schedule_sequence_meeting_activity env cals activity_id q actor)"

end
