(* ===== verification/Meeting_Laws.thy ===== *)
theory Meeting_Laws
  imports Meetings
begin

text \<open>
  Properties of meetings: what an invitation requires, the states a meeting goes through, and what the
  synchronisation with the CRM, repeated outcomes and the meeting step of a sequence leave behind.
\<close>

section \<open>What an invitation requires\<close>

lemma session_effects:
  assumes "session_scope env body db = (r, db')"
  shows "effects db' = effects db \<or> effects db' = effects (snd (body (begin_session db)))"
  using assms by (cases rule: session_cases) auto

lemma meeting_event_frame [simp]:
  "effects (meeting_event env n aty ai p k ss db) = effects db"
  "meeting_handoffs (meeting_event env n aty ai p k ss db) = meeting_handoffs db"
  "meeting_prep_packets (meeting_event env n aty ai p k ss db) = meeting_prep_packets db"
  "meeting_follow_up_tasks (meeting_event env n aty ai p k ss db) = meeting_follow_up_tasks db"
  "sequence_enrollments (meeting_event env n aty ai p k ss db) = sequence_enrollments db"
  "sequence_step_activities (meeting_event env n aty ai p k ss db) = sequence_step_activities db"
  "sequence_steps (meeting_event env n aty ai p k ss db) = sequence_steps db"
  "suppressions (meeting_event env n aty ai p k ss db) = suppressions db"
  "new_audit_events (meeting_event env n aty ai p k ss db) = new_audit_events db"
  "clean_lineage (meeting_event env n aty ai p k ss db) = clean_lineage db"
  "crm_export_batches (meeting_event env n aty ai p k ss db) = crm_export_batches db"
  "cyber_events (meeting_event env n aty ai p k ss db) = cyber_events db"
  by (simp_all add: meeting_event_def)

lemma put_meeting_frame [simp]:
  "effects (put_meeting m db) = effects db"
  "meeting_prep_packets (put_meeting m db) = meeting_prep_packets db"
  "meeting_follow_up_tasks (put_meeting m db) = meeting_follow_up_tasks db"
  "sequence_enrollments (put_meeting m db) = sequence_enrollments db"
  "sequence_step_activities (put_meeting m db) = sequence_step_activities db"
  "sequence_steps (put_meeting m db) = sequence_steps db"
  "outbox_events (put_meeting m db) = outbox_events db"
  "meeting_handoffs (put_meeting m db) = row_put mtg_id m (meeting_handoffs db)"
  "suppressions (put_meeting m db) = suppressions db"
  "new_audit_events (put_meeting m db) = new_audit_events db"
  "clean_lineage (put_meeting m db) = clean_lineage db"
  "crm_export_batches (put_meeting m db) = crm_export_batches db"
  "cyber_events (put_meeting m db) = cyber_events db"
  by (simp_all add: put_meeting_def)

lemma complete_for_meeting_frame [simp]:
  "effects (complete_sequence_for_meeting env e db) = effects db"
  "meeting_handoffs (complete_sequence_for_meeting env e db) = meeting_handoffs db"
  "meeting_prep_packets (complete_sequence_for_meeting env e db) = meeting_prep_packets db"
  "meeting_follow_up_tasks (complete_sequence_for_meeting env e db) = meeting_follow_up_tasks db"
  "sequence_enrollments (complete_sequence_for_meeting env e db) = row_put enr_id (booked_enrollment env e) (sequence_enrollments db)"
  "sequence_step_activities (complete_sequence_for_meeting env e db) = sequence_step_activities db"
  "sequence_steps (complete_sequence_for_meeting env e db) = sequence_steps db"
  by (simp_all add: complete_sequence_for_meeting_def put_enrollment_def Let_def)

lemma record_booking_effects:
  "effects (snd (record_booking env client updates as en m db)) = effects db @ [CalendarCreate (event_request env updates as m)]"
  by (simp add: record_booking_def create_calendar_event_def Let_def split: sum.split option.split)

lemma ensure_invite_allowed_None:
  "ensure_invite_allowed env contact as db = None \<longleftrightarrow> (\<forall>a \<in> set as. invite_blocked env contact a db = None)"
  by (induction as) (auto split: option.split)

text \<open>The rows that stand against an invitation to an address: suppressions of e-mail in force for the address,
  for its domain or, when it is the contact's own address, for the contact.\<close>

definition bars_invite :: "env \<Rightarrow> Contact option \<Rightarrow> string \<Rightarrow> Suppression \<Rightarrow> bool" where
  "bars_invite env contact email s =
     (suppression_in_force (env_now env) ''email'' s
      \<and> (sup_email s = Some email
         \<or> (\<exists>d. domain_from_email (Some email) = Some d \<and> d \<noteq> [] \<and> sup_domain s = Some d)
         \<or> (\<exists>c. contact = Some c \<and> con_id c \<noteq> [] \<and> email \<noteq> [] \<and> py_lower (str_or (con_email c) []) = email
                \<and> sup_contact_id s = Some (con_id c))))"

lemma stored_invite_suppression_None:
  "stored_invite_suppression env (invite_criteria contact email) db = None \<longleftrightarrow>
     \<not> (\<exists>s \<in> set (suppressions db). bars_invite env contact email s)"
  unfolding stored_invite_suppression_def find_None_iff_ball
  by (auto simp: bars_invite_def invite_criteria_def truthy_str_def str_or_def split: option.splits if_splits)

lemma invite_allowed:
  assumes "invite_blocked env contact a db = None"
  shows "\<exists>v. env_email_str env (py_lower (att_email a)) = Some v
      \<and> (v \<noteq> [] \<longrightarrow> py_lower (before_first (CHR ''@'') v) \<notin> ROLE_BASED_PREFIXES)
      \<and> \<not> (\<exists>s \<in> set (suppressions db). bars_invite env contact (py_lower (att_email a)) s)"
proof -
  from assms obtain v where v: "env_email_str env (py_lower (att_email a)) = Some v"
      and base: "scx_allowed (evaluate_suppression ((invite_criteria contact (py_lower (att_email a)))\<lparr>sck_email := Some v\<rparr>))"
      and stored: "stored_invite_suppression env (invite_criteria contact (py_lower (att_email a))) db = None"
    by (auto simp: invite_blocked_def Let_def split: option.splits if_splits)
  from base have "v \<noteq> [] \<longrightarrow> py_lower (before_first (CHR ''@'') v) \<notin> ROLE_BASED_PREFIXES"
    by (auto simp: evaluate_suppression_def blocked_result_def Let_def str_or_def split: if_splits)
  with v stored show ?thesis by (auto simp: stored_invite_suppression_None)
qed

text \<open>What was checked when the subject of a meeting is found.\<close>

lemma meeting_subject_checked:
  assumes "meeting_subject env q db = Inr (t, contact, as, en)"
  shows "get_crm_target (mcr_crm_target_id q) db = Some t \<and> tgt_status t = ''exported'' \<and> tgt_export_status t = ''exported''
    \<and> contact_for_meeting t (mcr_contact_id q) db = Inr contact \<and> meeting_attendees env (mcr_attendees q) contact = Inr as
    \<and> as \<noteq> [] \<and> (\<forall>a \<in> set as. invite_blocked env contact a db = None)
    \<and> (\<forall>c. contact = Some c \<and> truthy_str (con_email c) \<and> env_email_str env (py_lower (str_or (con_email c) [])) = Some (py_lower (str_or (con_email c) []))
         \<longrightarrow> py_lower (str_or (con_email c) []) \<in> (\<lambda>a. py_lower (att_email a)) ` set as)
    \<and> (\<forall>e. en = Some e \<longrightarrow> get_enrollment (str_or (mcr_sequence_enrollment_id q) []) db = Some e)"
  using assms
  by (auto simp: meeting_subject_def require_exported_target_def meeting_attendees_def Let_def ensure_invite_allowed_None
      split: option.splits sum.splits if_splits)

text \<open>The one place of the service that calls the calendar for a new event.\<close>

lemma create_meeting_body_effects:
  assumes "create_meeting_body env client q actor key db = (r, db')"
  shows "effects db' = effects db \<or>
    (\<exists>t contact as en row_id. meeting_subject env q db = Inr (t, contact, as, en) \<and> key \<notin> mtg_idempotency_key ` set (meeting_handoffs db)
      \<and> effects db' = effects db @ [CalendarCreate (event_request env (mcr_send_updates q) as
           (meeting_row env q actor key (calendar_provider client) t contact en as row_id))])"
proof (cases "List.find (\<lambda>m. mtg_idempotency_key m = key) (meeting_handoffs db)")
  case (Some m)
  with assms show ?thesis by (simp add: create_meeting_body_def)
next
  case None
  then have fresh: "key \<notin> mtg_idempotency_key ` set (meeting_handoffs db)" by (auto simp: find_None_iff_ball)
  show ?thesis
  proof (cases "meeting_subject env q db")
    case (Inl e)
    with assms None show ?thesis by (simp add: create_meeting_body_def)
  next
    case (Inr x)
    obtain t contact as en where x: "x = (t, contact, as, en)" by (cases x) auto
    let ?row = "env_uuid4 env (uuid_seq db)"
    let ?m = "meeting_row env q actor key (calendar_provider client) t contact en as ?row"
    show ?thesis
    proof (cases "flush env (add_meeting ?m (db\<lparr>uuid_seq := Suc (uuid_seq db)\<rparr>))")
      case (Inl e)
      with assms None Inr x show ?thesis by (auto simp: create_meeting_body_def draw_uuid_def Let_def)
    next
      case flushed: (Inr db2)
      then have "effects db2 = effects db" by (auto dest!: flush_written simp: add_meeting_def)
      moreover from assms None Inr x flushed have "(r, db') = record_booking env client (mcr_send_updates q) as en ?m db2"
        by (simp add: create_meeting_body_def draw_uuid_def Let_def)
      ultimately have "effects db' = effects db @ [CalendarCreate (event_request env (mcr_send_updates q) as ?m)]"
        using record_booking_effects [of env client "mcr_send_updates q" as en ?m db2] by (metis snd_conv)
      with Inr x fresh show ?thesis by blast
    qed
  qed
qed

lemma create_meeting_session:
  assumes "create_meeting env cals q actor key db = (r, db')"
  shows "db' = db \<or> (mcr_start_at q < mcr_end_at q \<and> (\<exists>client. resolve_calendar env cals = Inr client
    \<and> session_scope env (create_meeting_body env client q actor key) db = (r, db')))"
  using assms by (auto simp: create_meeting_def require_time_window_def split: sum.splits if_splits)

lemma meeting_subject_begin [simp]: "meeting_subject env q (begin_session db) = meeting_subject env q db"
proof -
  have gets: "get_contact k (begin_session db) = get_contact k db" "get_email_candidate k (begin_session db) = get_email_candidate k db"
      "get_crm_target k (begin_session db) = get_crm_target k db" "get_enrollment k (begin_session db) = get_enrollment k db" for k
    by (simp_all add: table_defs)
  have stored: "stored_invite_suppression env x (begin_session db) = stored_invite_suppression env x db" for x
    by (simp add: stored_invite_suppression_def)
  have blocked: "invite_blocked env contact a (begin_session db) = invite_blocked env contact a db" for contact a
    unfolding invite_blocked_def stored ..
  have "ensure_invite_allowed env contact as (begin_session db) = ensure_invite_allowed env contact as db" for contact as
    by (induction as) (simp_all add: blocked split: option.split)
  then show ?thesis by (simp add: meeting_subject_def contact_for_meeting_def gets cong: option.case_cong sum.case_cong if_cong)
qed

text \<open>C6: A booking calls the calendar at most once, and only for a meeting that ends after it starts, under a key that was
  not used before, for a target that is exported in both of its states, with at least one attendee, none of them
  with a role-based address and none with an e-mail suppression in force for the address, its domain or the contact
  behind it.  The contact is the one the request names, or else the one behind the target, and the event invites the attendees of the request,
  and the contact where it has an address.\<close>

theorem meeting_invite_gate:
  assumes "create_meeting env cals q actor key db = (r, db')" and "effects db' \<noteq> effects db"
  shows "\<exists>t contact ev. effects db' = effects db @ [CalendarCreate ev]
    \<and> mcr_start_at q < mcr_end_at q \<and> cal_start_at ev = mcr_start_at q \<and> cal_end_at ev = mcr_end_at q
    \<and> key \<notin> mtg_idempotency_key ` set (meeting_handoffs db)
    \<and> get_crm_target (mcr_crm_target_id q) db = Some t \<and> tgt_status t = ''exported'' \<and> tgt_export_status t = ''exported''
    \<and> contact_for_meeting t (mcr_contact_id q) db = Inr contact
    \<and> meeting_attendees env (mcr_attendees q) contact = Inr (cal_attendees ev) \<and> cal_attendees ev \<noteq> []
    \<and> (\<forall>a \<in> set (cal_attendees ev).
         (\<exists>v. env_email_str env (py_lower (att_email a)) = Some v
              \<and> (v \<noteq> [] \<longrightarrow> py_lower (before_first (CHR ''@'') v) \<notin> ROLE_BASED_PREFIXES))
         \<and> \<not> (\<exists>s \<in> set (suppressions db). bars_invite env contact (py_lower (att_email a)) s))"
proof -
  from create_meeting_session [OF assms(1)] assms(2) obtain client where window: "mcr_start_at q < mcr_end_at q"
      and run: "session_scope env (create_meeting_body env client q actor key) db = (r, db')" by auto
  obtain x db1 where body: "create_meeting_body env client q actor key (begin_session db) = (x, db1)" by fastforce
  with session_effects [OF run] assms(2) have "effects db' = effects db1" "effects db1 \<noteq> effects db" by auto
  with create_meeting_body_effects [OF body] obtain t contact as en row_id
    where subject: "meeting_subject env q db = Inr (t, contact, as, en)" and fresh: "key \<notin> mtg_idempotency_key ` set (meeting_handoffs db)"
      and eff: "effects db' = effects db @ [CalendarCreate (event_request env (mcr_send_updates q) as
           (meeting_row env q actor key (calendar_provider client) t contact en as row_id))]"
    by auto
  let ?ev = "event_request env (mcr_send_updates q) as (meeting_row env q actor key (calendar_provider client) t contact en as row_id)"
  have ev: "cal_attendees ?ev = as" "cal_start_at ?ev = mcr_start_at q" "cal_end_at ?ev = mcr_end_at q"
    by (simp_all add: event_request_def meeting_row_def)
  note c = meeting_subject_checked [OF subject]
  have "\<forall>a \<in> set as. (\<exists>v. env_email_str env (py_lower (att_email a)) = Some v
              \<and> (v \<noteq> [] \<longrightarrow> py_lower (before_first (CHR ''@'') v) \<notin> ROLE_BASED_PREFIXES))
         \<and> \<not> (\<exists>s \<in> set (suppressions db). bars_invite env contact (py_lower (att_email a)) s)"
    using c by (auto dest!: invite_allowed)
  with c eff ev window fresh show ?thesis by metis
qed

lemma barred_invite_refused:
  assumes "s \<in> set (suppressions db)" and "sup_email s = Some (py_lower (att_email a))"
    and "suppression_in_force (env_now env) ''email'' s" and "a \<in> set (mcr_attendees q)"
    and "key \<notin> mtg_idempotency_key ` set (meeting_handoffs db)"
  shows "\<exists>err. create_meeting env cals q actor key db = (Inl err, db)"
proof -
  have bars: "bars_invite env contact (py_lower (att_email a)) s" for contact
    using assms(2,3) by (simp add: bars_invite_def)
  have "meeting_subject env q db \<noteq> Inr x" for x
  proof
    assume subject: "meeting_subject env q db = Inr x"
    obtain t contact as en where x: "x = (t, contact, as, en)" by (cases x)
    from subject x assms(4) have "a \<in> set as"
      by (auto simp: meeting_subject_def meeting_attendees_def Let_def split: sum.splits option.splits if_splits)
    with meeting_subject_checked [OF subject [unfolded x]] have "invite_blocked env contact a db = None" by blast
    from invite_allowed [OF this] assms(1) bars show False by blast
  qed
  then obtain e where e: "meeting_subject env q db = Inl e" by (cases "meeting_subject env q db") auto
  have "List.find (\<lambda>m. mtg_idempotency_key m = key) (meeting_handoffs db) = None"
    using assms(5) by (auto simp: find_None_iff_ball)
  with e have body: "create_meeting_body env client q actor key (begin_session db) = (Inl e, begin_session db)" for client
    by (simp add: create_meeting_body_def)
  have session: "\<exists>err. session_scope env (create_meeting_body env client q actor key) db = (Inl err, db)" for client
    using body [of client] by (simp add: session_scope_def)
  obtain r db' where run: "create_meeting env cals q actor key db = (r, db')" by fastforce
  with session have "(\<exists>err. r = Inl err) \<and> db' = db"
    by (auto simp: create_meeting_def split: option.splits sum.splits) (metis prod.inject)+
  with run show ?thesis by auto
qed

section \<open>Synchronisation\<close>

lemma put_tasks_frame [simp]:
  "effects (put_tasks ts db) = effects db"
  "meeting_handoffs (put_tasks ts db) = meeting_handoffs db"
  "meeting_prep_packets (put_tasks ts db) = meeting_prep_packets db"
  "outbox_events (put_tasks ts db) = outbox_events db"
  unfolding put_tasks_def by (induction ts arbitrary: db) (simp_all add: put_follow_up_task_def)

lemma outbox_meeting_event:
  "k \<noteq> [] \<Longrightarrow> map obx_idempotency_key (outbox_events (meeting_event env n aty ai p k ss db)) = map obx_idempotency_key (outbox_events db) @ [k]"
  by (simp add: meeting_event_def str_or_def)

lemma outbox_duplicate: "\<not> distinct (map obx_idempotency_key (outbox_events db)) \<Longrightarrow> \<not> constraints_ok db"
  by (simp add: constraints_ok_def)

text \<open>A session whose body would break a constraint of the schema whenever it returns always raises.\<close>

lemma session_cannot_commit:
  assumes "admitted env" and "\<And>v db1. body (begin_session db) = (Inr v, db1) \<Longrightarrow> \<not> constraints_ok (written env db1)"
  shows "\<exists>e. session_scope env body db = (Inl e, rollback db (snd (body (begin_session db))))"
proof (cases "session_scope env body db")
  case (Pair r db')
  then show ?thesis
  proof (cases rule: session_cases)
    case (refused e)
    obtain x db1 where body: "body (begin_session db) = (x, db1)" by fastforce
    with Pair assms(1) refused show ?thesis by (auto simp: session_scope_def admitted_def split: sum.splits)
  next
    case (raised e x db1)
    with Pair show ?thesis by auto
  next
    case (committed v db1)
    with assms(2) show ?thesis by blast
  qed
qed

lemma sync_cases:
  assumes "sync_meeting_to_crm env crm actor m db = (Inr m', db1)"
  obtains (failed) e db0 where "m' = failed_sync_meeting env e m" and "sync_caught e"
      and "sync_outcome env crm (crm_sync_plan env actor m (tasks_to_sync (mtg_id m) db)) db = (Inl e, db0)"
      and "db1 = put_tasks (map (failed_sync_task env e) (tasks_to_sync (mtg_id m) db)) (put_meeting m' db0)"
    | (synced) r db0 where "m' = synced_meeting env m"
      and "sync_outcome env crm (crm_sync_plan env actor m (tasks_to_sync (mtg_id m) db)) db = (Inr r, db0)"
      and "db1 = meeting_event env CRM_SYNCED ''meeting_handoff'' (mtg_id m') (synced_payload m' r) (synced_key m') CRM_SERVICE_NAME
             (put_tasks (map (synced_task env r) (tasks_to_sync (mtg_id m) db)) (put_meeting m' db0))"
  using assms by (auto simp: sync_meeting_to_crm_def Let_def split: sum.splits prod.splits if_splits)

lemma sync_outcome_tables:
  assumes "sync_outcome env crm p db = (r, db1)"
  shows "\<exists>es. db1 = db\<lparr>effects := es\<rparr>"
  using assms by (auto simp: sync_outcome_def crm_sync_call_def split: sum.splits intro: exI [of _ "effects db"])

lemma synced_fields [simp]:
  "mtg_id (synced_meeting env m) = mtg_id m" "mtg_version (synced_meeting env m) = mtg_version m"
  "mtg_status (synced_meeting env m) = mtg_status m" "mtg_crm_sync_status (synced_meeting env m) = ''succeeded''"
  "mtg_id (failed_sync_meeting env e m) = mtg_id m" "mtg_version (failed_sync_meeting env e m) = mtg_version m"
  "mtg_outcome_status (synced_meeting env m) = mtg_outcome_status m"
  by (simp_all add: synced_meeting_def failed_sync_meeting_def)

lemma synced_key_synced [simp]: "synced_key (synced_meeting env m) = synced_key m"
  by (simp add: synced_key_def)

lemma sync_not_synced: "mtg_crm_sync_status (failed_sync_meeting env e m) \<noteq> ''succeeded''"
  by (simp add: failed_sync_meeting_def)

lemma sync_meeting_row:
  assumes "sync_meeting_to_crm env crm actor m db = (Inr m', db1)"
  shows "meeting_handoffs db1 = row_put mtg_id m' (meeting_handoffs db)
    \<and> (m' = synced_meeting env m \<or> (\<exists>e. m' = failed_sync_meeting env e m))"
  using assms by (cases rule: sync_cases) (auto dest!: sync_outcome_tables)

lemma map_sum_Some_Inr [simp]: "map_sum id Some x = Inr y \<longleftrightarrow> (\<exists>d. x = Inr d \<and> y = Some d)"
  by (cases x) auto

text \<open>The meeting that a committed retry leaves.\<close>

lemma model_status:
  assumes "meeting_to_model_with_children m db = Inr d"
  shows "dict_get d ''crm_sync_status'' = JStr (mtg_crm_sync_status m)"
  using assms by (auto simp: meeting_to_model_with_children_def meeting_to_model_def meeting_to_api_def dict_get_def split: if_splits)

lemma retry_committed:
  assumes "retry_meeting_crm_sync env crm i actor db = (Inr (Some d), db')" and "dict_get d ''crm_sync_status'' = JStr ''succeeded''"
  shows "\<exists>m. get_meeting i db = Some m \<and> get_meeting i db' = Some (synced_meeting env m)
    \<and> synced_key m \<in> obx_idempotency_key ` set (outbox_events db')"
  using assms(1) unfolding retry_meeting_crm_sync_def
proof (cases rule: session_cases)
  case (committed v db1)
  from committed(1,2) obtain m m' where m: "get_meeting i (begin_session db) = Some m"
      and sync: "sync_meeting_to_crm env crm actor m (begin_session db) = (Inr m', db1)"
      and model: "meeting_to_model_with_children m' db1 = Inr d"
    by (auto simp: retry_sync_body_def split: option.splits sum.splits prod.splits)
  from model_status [OF model] assms(2) have status: "mtg_crm_sync_status m' = ''succeeded''" by simp
  from sync show ?thesis
  proof (cases rule: sync_cases)
    case (failed e db0)
    with status sync_not_synced show ?thesis by simp
  next
    case (synced r db0)
    from sync_outcome_tables [OF synced(2)] obtain es where db0: "db0 = (begin_session db)\<lparr>effects := es\<rparr>" by blast
    have "get_meeting i db1 = Some m'"
      using m by (simp add: synced db0 get_meeting_def put_meeting_def row_get_row_put row_get_key)
    moreover have "synced_key m \<noteq> []" by (simp add: synced_key_def)
    from outbox_meeting_event [OF this]
    have "synced_key m \<in> set (map obx_idempotency_key (outbox_events db1))" by (simp add: synced)
    ultimately show ?thesis using m committed(3) synced(1) by (auto simp: get_meeting_def)
  qed
qed auto

text \<open>The event of a synchronisation has a key made of the meeting and its version: with the key taken, a synchronisation that the
  provider accepts cannot be committed.\<close>

lemma taken_sync_key_raises:
  assumes "get_meeting i db' = Some m" and "synced_key m \<in> obx_idempotency_key ` set (outbox_events db')"
    and "admitted env'" and "resolve_client env' (crm_http crm') (given_crm crm') = Inr client"
    and "\<forall>n p. \<exists>r. client_sync client n p = Inr r"
  shows "\<exists>e p db''. retry_meeting_crm_sync env' crm' i actor' db' = (Inl e, db'') \<and> same_tables db' db''
    \<and> effects db'' = effects db' @ [CrmSync p]"
proof -
  note m = assms(1)
  from assms(2) have used: "synced_key m \<in> set (map obx_idempotency_key (outbox_events db'))" by simp
  let ?b = "begin_session db'" and ?body = "retry_sync_body env' crm' i actor'"
  define p where "p = crm_sync_plan env' actor' m (tasks_to_sync (mtg_id m) ?b)"
  from assms(5) obtain r where "client_sync client (length (effects ?b)) p = Inr r" by blast
  then have out: "sync_outcome env' crm' p ?b = (Inr r, ?b\<lparr>effects := effects db' @ [CrmSync p]\<rparr>)"
    by (simp add: sync_outcome_def assms(4) crm_sync_call_def)
  define db1 where "db1 = meeting_event env' CRM_SYNCED ''meeting_handoff'' (mtg_id m) (synced_payload (synced_meeting env' m) r) (synced_key m)
      CRM_SERVICE_NAME (put_tasks (map (synced_task env' r) (tasks_to_sync (mtg_id m) ?b))
        (put_meeting (synced_meeting env' m) (?b\<lparr>effects := effects db' @ [CrmSync p]\<rparr>)))"
  have "get_meeting i ?b = Some m" using m by (simp add: get_meeting_def)
  then have body: "snd (?body ?b) = db1"
    using out by (simp add: retry_sync_body_def sync_meeting_to_crm_def p_def db1_def Let_def)
  have "synced_key m \<noteq> []" by (simp add: synced_key_def)
  from outbox_meeting_event [OF this] used have "\<not> distinct (map obx_idempotency_key (outbox_events db1))"
    by (simp add: db1_def)
  then have "\<not> constraints_ok (written env' db1)" by (intro outbox_duplicate) simp
  with body session_cannot_commit [OF assms(3), of ?body db'] obtain e
    where "session_scope env' ?body db' = (Inl e, rollback db' db1)" by (metis snd_conv)
  moreover have "effects (rollback db' db1) = effects db' @ [CrmSync p]" by (simp add: db1_def)
  ultimately show ?thesis unfolding retry_meeting_crm_sync_def by (metis same_tables_rollback)
qed

text \<open>The steps of an outcome that is not a replay, and the store that it leaves.\<close>

definition outcome_events :: "env \<Rightarrow> MeetingHandoff \<Rightarrow> string \<Rightarrow> MeetingFollowUpTask list \<Rightarrow> db \<Rightarrow> db" where
  "outcome_events env m key tasks db = fold (task_event env) tasks
     (meeting_event env MEETING_OUTCOME_RECORDED ''meeting_handoff'' (mtg_id m) (meeting_to_api m) (outcome_key (mtg_id m) key)
        MEETING_SERVICE_NAME db)"

lemma outcome_body_new:
  assumes "record_outcome_body env crm i q actor key db = (Inr v, db')" and "get_meeting i db = Some m"
    and "outcome_key i key \<notin> obx_idempotency_key ` set (outbox_events db)"
  obtains tasks db1 m' d where "create_follow_up_tasks env i (mor_follow_up_tasks q) (put_meeting (outcome_meeting env q m) db) = (Inr tasks, db1)"
    and "sync_meeting_to_crm env crm actor (outcome_meeting env q m) (outcome_events env (outcome_meeting env q m) key tasks db1) = (Inr m', db')"
    and "meeting_to_model_with_children m' db' = Inr d" and "v = Some d"
proof -
  have i: "mtg_id m = i" "mtg_id (outcome_meeting env q m) = i"
    using assms(2) by (auto simp: get_meeting_def outcome_meeting_def dest: row_get_key)
  with assms show thesis by (auto simp: record_outcome_body_def Let_def outcome_events_def split: sum.splits prod.splits intro!: that)
qed

lemma outcome_committed:
  assumes "record_meeting_outcome env crm i q actor key db = (Inr (Some d), db')" and "outcome_key i key \<notin> obx_idempotency_key ` set (outbox_events db)"
  obtains m tasks db1 m' db4 where "get_meeting i db = Some m"
    and "create_follow_up_tasks env i (mor_follow_up_tasks q) (put_meeting (outcome_meeting env q m) (begin_session db)) = (Inr tasks, db1)"
    and "sync_meeting_to_crm env crm actor (outcome_meeting env q m) (outcome_events env (outcome_meeting env q m) key tasks db1) = (Inr m', db4)"
    and "meeting_to_model_with_children m' db4 = Inr d" and "db' = end_session db (written env db4)"
    and "constraints_ok (written env db4)"
  using assms(1) unfolding record_meeting_outcome_def
proof (cases rule: session_cases)
  case (committed v db4)
  from committed(1,2) obtain m where m: "get_meeting i (begin_session db) = Some m" by (auto simp: record_outcome_body_def split: option.splits)
  from assms(2) have "outcome_key i key \<notin> obx_idempotency_key ` set (outbox_events (begin_session db))" by simp
  from committed(2) m this obtain tasks db1 m' d' where
    "create_follow_up_tasks env i (mor_follow_up_tasks q) (put_meeting (outcome_meeting env q m) (begin_session db)) = (Inr tasks, db1)"
    "sync_meeting_to_crm env crm actor (outcome_meeting env q m) (outcome_events env (outcome_meeting env q m) key tasks db1) = (Inr m', db4)"
    "meeting_to_model_with_children m' db4 = Inr d'" "v = Some d'" by (rule outcome_body_new)
  with m committed show thesis by (intro that [of m tasks db1 m' db4]) (simp_all add: get_meeting_def)
qed auto

lemma task_events_frame [simp]:
  "effects (fold (task_event env) ts db) = effects db"
  "meeting_handoffs (fold (task_event env) ts db) = meeting_handoffs db"
  "meeting_prep_packets (fold (task_event env) ts db) = meeting_prep_packets db"
  "meeting_follow_up_tasks (fold (task_event env) ts db) = meeting_follow_up_tasks db"
  by (induction ts arbitrary: db) (simp_all add: task_event_def)

definition created_key :: "string \<Rightarrow> string" where
  "created_key task_id = ''meeting.follow_up_task_created:'' @ task_id"

lemma outbox_task_events:
  "map obx_idempotency_key (outbox_events (fold (task_event env) ts db))
     = map obx_idempotency_key (outbox_events db) @ map (\<lambda>t. created_key (mft_id t)) ts"
proof (induction ts arbitrary: db)
  case (Cons t ts)
  have "map obx_idempotency_key (outbox_events (task_event env t db)) = map obx_idempotency_key (outbox_events db) @ [created_key (mft_id t)]"
    by (simp add: task_event_def created_key_def outbox_meeting_event)
  with Cons show ?case by simp
qed simp

lemma outcome_events_frame [simp]:
  "meeting_handoffs (outcome_events env m key ts db) = meeting_handoffs db"
  "meeting_prep_packets (outcome_events env m key ts db) = meeting_prep_packets db"
  "meeting_follow_up_tasks (outcome_events env m key ts db) = meeting_follow_up_tasks db"
  "map obx_idempotency_key (outbox_events (outcome_events env m key ts db))
     = map obx_idempotency_key (outbox_events db) @ outcome_key (mtg_id m) key # map (\<lambda>t. created_key (mft_id t)) ts"
  by (simp_all add: outcome_events_def outbox_task_events outbox_meeting_event outcome_key_def)

lemma follow_up_tasks_frame:
  assumes "follow_up_tasks env i stored n qs db = (ts, db1)"
  shows "effects db1 = effects db \<and> meeting_handoffs db1 = meeting_handoffs db \<and> meeting_prep_packets db1 = meeting_prep_packets db
    \<and> outbox_events db1 = outbox_events db"
  using assms
  by (induction env i stored n qs db arbitrary: ts db1 rule: follow_up_tasks.induct)
    (auto simp: Let_def draw_uuid_def add_follow_up_task_def split: option.splits prod.splits)

lemma create_follow_up_tasks_frame:
  assumes "create_follow_up_tasks env i qs db = (Inr ts, db1)"
  shows "effects db1 = effects db \<and> meeting_handoffs db1 = meeting_handoffs db \<and> outbox_events db1 = outbox_events db
    \<and> constraints_ok db1"
  using assms
  by (auto simp: create_follow_up_tasks_def dest!: follow_up_tasks_frame flush_written split: prod.splits sum.splits)

text \<open>C30: When the CRM is unavailable while an outcome is recorded, the meeting gets the status \<open>failed_sync\<close> in place of
  the status of its outcome, and a later retry that succeeds does not give it back: the meeting is
  synchronised and still has the status of a failed synchronisation.\<close>

theorem failed_sync_sticks:
  assumes "record_meeting_outcome env crm i q actor key db = (Inr (Some d), db1)" and "outcome_key i key \<notin> obx_idempotency_key ` set (outbox_events db)"
    and "dict_get d ''crm_sync_status'' = JStr ''failed_retryable''"
    and "retry_meeting_crm_sync env' crm' i actor' db1 = (Inr (Some d'), db2)" and "dict_get d' ''crm_sync_status'' = JStr ''succeeded''"
  shows "\<exists>m. get_meeting i db2 = Some m \<and> mtg_crm_sync_status m = ''succeeded'' \<and> mtg_status m = ''failed_sync''
    \<and> mtg_outcome_status m = Some (outcome_value (mor_outcome_status q))"
proof -
  from assms(1,2) obtain m tasks db3 m' db4 where m: "get_meeting i db = Some m"
      and tasks: "create_follow_up_tasks env i (mor_follow_up_tasks q) (put_meeting (outcome_meeting env q m) (begin_session db)) = (Inr tasks, db3)"
      and sync: "sync_meeting_to_crm env crm actor (outcome_meeting env q m) (outcome_events env (outcome_meeting env q m) key tasks db3) = (Inr m', db4)"
      and model: "meeting_to_model_with_children m' db4 = Inr d" and db1: "db1 = end_session db (written env db4)"
    by (rule outcome_committed)
  let ?m = "outcome_meeting env q m"
  have id: "mtg_id ?m = i" "mtg_id m = i" using m by (auto simp: get_meeting_def outcome_meeting_def dest: row_get_key)
  from model_status [OF model] assms(3) have status: "mtg_crm_sync_status m' = ''failed_retryable''" by simp
  from sync_meeting_row [OF sync] status obtain e where m': "m' = failed_sync_meeting env e ?m"
      and db4: "meeting_handoffs db4 = row_put mtg_id m' (meeting_handoffs db3)" by auto
  have retryable: "sync_retryable e" using status by (simp add: m' failed_sync_meeting_def split: if_splits)
  from create_follow_up_tasks_frame [OF tasks] have "meeting_handoffs db3 = row_put mtg_id ?m (meeting_handoffs db)" by simp
  with db4 have "get_meeting i db1 = Some m'"
    using m id by (simp add: db1 get_meeting_def row_get_row_put m')
  with retry_committed [OF assms(4,5)] have "get_meeting i db2 = Some (synced_meeting env' m')" by auto
  with retryable show ?thesis by (simp add: m' failed_sync_meeting_def outcome_meeting_def)
qed

section \<open>Repeated follow-up tasks\<close>

definition task_keys :: "MeetingFollowUpTask \<Rightarrow> string \<times> string option" where
  "task_keys t = (mft_id t, mft_idempotency_key t)"

text \<open>Synchronising changes neither the identifiers nor the keys of the tasks.\<close>

lemma put_tasks_keys:
  assumes "distinct (map mft_id (meeting_follow_up_tasks db))" and "task_keys ` set ts \<subseteq> task_keys ` set (meeting_follow_up_tasks db)"
  shows "map task_keys (meeting_follow_up_tasks (put_tasks ts db)) = map task_keys (meeting_follow_up_tasks db)"
  using assms unfolding put_tasks_def
proof (induction ts arbitrary: db)
  case (Cons t ts)
  from Cons.prems(2) obtain t0 where t0: "t0 \<in> set (meeting_follow_up_tasks db)" "task_keys t = task_keys t0" by auto
  then have "row_get mft_id (mft_id t) (meeting_follow_up_tasks db) = Some t0"
    using row_get_unique [OF Cons.prems(1) t0(1)] by (simp add: task_keys_def)
  from column_row_put [OF this t0(2) Cons.prems(1)]
  have col: "map task_keys (meeting_follow_up_tasks (put_follow_up_task t db)) = map task_keys (meeting_follow_up_tasks db)"
    by (simp add: put_follow_up_task_def)
  then have set: "task_keys ` set (meeting_follow_up_tasks (put_follow_up_task t db)) = task_keys ` set (meeting_follow_up_tasks db)"
    by (metis list.set_map)
  have "distinct (map mft_id (meeting_follow_up_tasks (put_follow_up_task t db)))"
    using Cons.prems(1) by (simp add: put_follow_up_task_def keys_row_put)
  from Cons.IH [OF this] Cons.prems(2) set col show ?case by simp
qed simp

lemma sync_task_keys:
  assumes "sync_meeting_to_crm env crm actor m db = (Inr m', db1)" and "distinct (map mft_id (meeting_follow_up_tasks db))"
  shows "map task_keys (meeting_follow_up_tasks db1) = map task_keys (meeting_follow_up_tasks db)
    \<and> (\<exists>ks. map obx_idempotency_key (outbox_events db1) = map obx_idempotency_key (outbox_events db) @ ks)"
  using assms(1)
proof (cases rule: sync_cases)
  case (failed e db0)
  from sync_outcome_tables [OF failed(3)] obtain es where db0: "db0 = db\<lparr>effects := es\<rparr>" by blast
  have "task_keys ` set (map (failed_sync_task env e) (tasks_to_sync (mtg_id m) db)) \<subseteq> task_keys ` set (meeting_follow_up_tasks db)"
    by (auto simp: task_keys_def failed_sync_task_def tasks_to_sync_def)
  with put_tasks_keys [of "put_meeting m' db0"] assms(2) show ?thesis by (simp add: failed(4) db0)
next
  case (synced r db0)
  from sync_outcome_tables [OF synced(2)] obtain es where db0: "db0 = db\<lparr>effects := es\<rparr>" by blast
  have "task_keys ` set (map (synced_task env r) (tasks_to_sync (mtg_id m) db)) \<subseteq> task_keys ` set (meeting_follow_up_tasks db)"
    by (auto simp: task_keys_def synced_task_def tasks_to_sync_def)
  with put_tasks_keys [of "put_meeting m' db0"] assms(2) show ?thesis
    by (simp add: synced(3) db0 meeting_event_def)
qed

lemma follow_up_tasks_rows:
  assumes "follow_up_tasks env i stored n qs db = (ts, db1)"
  shows "set (meeting_follow_up_tasks db) \<subseteq> set (meeting_follow_up_tasks db1) \<and> set ts \<subseteq> set stored \<union> set (meeting_follow_up_tasks db1)"
  using assms
proof (induction env i stored n qs db arbitrary: ts db1 rule: follow_up_tasks.induct)
  case (2 env i stored n q qs db)
  show ?case
  proof (cases "List.find (\<lambda>t. mft_idempotency_key t = Some (follow_up_key i n (mfc_title q))) stored")
    case None
    with 2 show ?thesis by (fastforce simp: Let_def draw_uuid_def add_follow_up_task_def split: prod.splits)
  next
    case (Some t)
    with 2 show ?thesis by (fastforce dest: find_Some_iff_mem simp: Let_def split: prod.splits)
  qed
qed simp

lemma first_follow_up_task:
  assumes "create_follow_up_tasks env i (q # qs) db = (Inr ts, db1)"
  shows "\<exists>t ts'. ts = t # ts' \<and> t \<in> set (meeting_follow_up_tasks db1) \<and> mft_idempotency_key t = Some (follow_up_key i 1 (mfc_title q))"
proof -
  from assms obtain db2 where run: "follow_up_tasks env i (meeting_follow_up_tasks db) 1 (q # qs) db = (ts, db2)"
      and db1: "meeting_follow_up_tasks db1 = meeting_follow_up_tasks db2"
    by (auto simp: create_follow_up_tasks_def dest!: flush_written split: prod.splits sum.splits)
  from run obtain t ts' where "ts = t # ts'" "mft_idempotency_key t = Some (follow_up_key i 1 (mfc_title q))"
    by (auto simp: Let_def follow_up_row_def dest!: find_Some_iff_mem split: option.splits prod.splits)
  with follow_up_tasks_rows [OF run] db1 show ?thesis by auto
qed

lemma map_filter_unique:
  "distinct (List.map_filter f xs) \<Longrightarrow> x \<in> set xs \<Longrightarrow> y \<in> set xs \<Longrightarrow> f x = Some k \<Longrightarrow> f y = Some k \<Longrightarrow> x = y"
  unfolding List.map_filter_def distinct_map by (auto dest!: inj_onD [of _ _ x y])

text \<open>C31: An outcome whose first follow-up task has the title of the first task of an earlier outcome of the same meeting
  is never stored: the task is found and not created again, but its event is recorded again under the key it already
  has, so the call raises and the new outcome is lost.\<close>

theorem repeated_task_blocks_outcome:
  assumes "record_meeting_outcome env crm i q actor key db = (Inr (Some d), db')"
    and "outcome_key i key \<notin> obx_idempotency_key ` set (outbox_events db)" and "mor_follow_up_tasks q = f # fs"
    and "outcome_key i key' \<notin> obx_idempotency_key ` set (outbox_events db')" and "mor_follow_up_tasks q' = f' # fs'"
    and "py_lower (mfc_title f') = py_lower (mfc_title f)" and "admitted env'"
  shows "\<exists>e db''. record_meeting_outcome env' crm' i q' actor' key' db' = (Inl e, db'') \<and> same_tables db' db''"
proof -
  from assms(1,2) obtain m tasks db1 m' db4 where m: "get_meeting i db = Some m"
      and create: "create_follow_up_tasks env i (mor_follow_up_tasks q) (put_meeting (outcome_meeting env q m) (begin_session db)) = (Inr tasks, db1)"
      and sync: "sync_meeting_to_crm env crm actor (outcome_meeting env q m) (outcome_events env (outcome_meeting env q m) key tasks db1) = (Inr m', db4)"
      and db': "db' = end_session db (written env db4)" and ok: "constraints_ok (written env db4)"
    by (rule outcome_committed)
  from create assms(3) first_follow_up_task obtain t ts' where t: "tasks = t # ts'" "t \<in> set (meeting_follow_up_tasks db1)"
      "mft_idempotency_key t = Some (follow_up_key i 1 (mfc_title f))" by metis
  from create_follow_up_tasks_frame [OF create] have "distinct (map mft_id (meeting_follow_up_tasks db1))" by (simp add: constraints_ok_def)
  with sync_task_keys [OF sync] obtain ks where keys: "map task_keys (meeting_follow_up_tasks db4) = map task_keys (meeting_follow_up_tasks db1)"
      and out: "map obx_idempotency_key (outbox_events db4) = map obx_idempotency_key (outbox_events db1)
        @ (outcome_key (mtg_id (outcome_meeting env q m)) key # map (\<lambda>t. created_key (mft_id t)) tasks) @ ks" by auto
  have used: "created_key (mft_id t) \<in> set (map obx_idempotency_key (outbox_events db4))" unfolding out by (simp add: t(1))
  have "task_keys t \<in> set (map task_keys (meeting_follow_up_tasks db4))" unfolding keys using t(2) by simp
  then obtain t' where t': "t' \<in> set (meeting_follow_up_tasks db')" "mft_id t' = mft_id t"
      "mft_idempotency_key t' = Some (follow_up_key i 1 (mfc_title f))" by (auto simp: db' task_keys_def t(3))
  have ok': "constraints_ok db'" using ok by (simp add: db' constraints_ok_cong)
  have blocked: "\<not> constraints_ok (written env' db2)"
    if body: "record_outcome_body env' crm' i q' actor' key' (begin_session db') = (Inr v, db2)" for v db2
  proof -
    have "mtg_id m = i" "mtg_id m' = i"
      using m sync_meeting_row [OF sync] by (auto simp: get_meeting_def outcome_meeting_def dest: row_get_key)
    with m sync_meeting_row [OF sync] create_follow_up_tasks_frame [OF create] have "get_meeting i (begin_session db') = Some m'"
      by (simp add: db' get_meeting_def row_get_row_put outcome_meeting_def)
    from body this obtain ts2 db3 m2
      where create2: "create_follow_up_tasks env' i (mor_follow_up_tasks q') (put_meeting (outcome_meeting env' q' m') (begin_session db')) = (Inr ts2, db3)"
        and sync2: "sync_meeting_to_crm env' crm' actor' (outcome_meeting env' q' m') (outcome_events env' (outcome_meeting env' q' m') key' ts2 db3) = (Inr m2, db2)"
      by (rule outcome_body_new) (use assms(4) in simp)
    have "follow_up_key i 1 (mfc_title f') = follow_up_key i 1 (mfc_title f)" by (simp add: follow_up_key_def assms(6))
    with create2 assms(5) t' obtain t2 ts3 where t2: "ts2 = t2 # ts3" "t2 \<in> set (meeting_follow_up_tasks db')"
        "mft_idempotency_key t2 = Some (follow_up_key i 1 (mfc_title f))"
      by (auto simp: create_follow_up_tasks_def Let_def find_None_iff_ball dest!: find_Some_iff_mem split: option.splits prod.splits sum.splits)
    have "t2 = t'" using map_filter_unique [OF _ t2(2) t'(1) t2(3) t'(3)] ok' by (simp add: constraints_ok_def)
    with t'(2) used have "\<not> distinct (map obx_idempotency_key (outbox_events (outcome_events env' (outcome_meeting env' q' m') key' ts2 db3)))"
      using create_follow_up_tasks_frame [OF create2] by (auto simp: t2(1) db')
    moreover from create_follow_up_tasks_frame [OF create2] have "distinct (map mft_id (meeting_follow_up_tasks db3))" by (simp add: constraints_ok_def)
    with sync_task_keys [OF sync2] obtain ks where "map obx_idempotency_key (outbox_events db2)
        = map obx_idempotency_key (outbox_events (outcome_events env' (outcome_meeting env' q' m') key' ts2 db3)) @ ks" by auto
    ultimately show ?thesis by (intro outbox_duplicate) (metis distinct_append written_frame(13))
  qed
  have "\<exists>e. session_scope env' (record_outcome_body env' crm' i q' actor' key') db'
      = (Inl e, rollback db' (snd (record_outcome_body env' crm' i q' actor' key' (begin_session db'))))"
    by (rule session_cannot_commit [OF assms(7)]) (rule blocked)
  then show ?thesis unfolding record_meeting_outcome_def by (metis same_tables_rollback)
qed

section \<open>States of a meeting\<close>

definition meetings_typed :: "db \<Rightarrow> bool" where
  "meetings_typed db =
     ((\<forall>m \<in> set (meeting_handoffs db). meeting_typed m) \<and> (\<forall>t \<in> set (meeting_follow_up_tasks db). task_typed t))"

lemma get_meeting_typed: "meetings_typed db \<Longrightarrow> get_meeting i db = Some m \<Longrightarrow> meeting_typed m"
  by (auto simp: meetings_typed_def get_meeting_def dest: row_get_mem)

lemma meetings_typed_cong:
  "meeting_handoffs db' = meeting_handoffs db \<Longrightarrow> meeting_follow_up_tasks db' = meeting_follow_up_tasks db \<Longrightarrow> meetings_typed db' = meetings_typed db"
  by (simp add: meetings_typed_def)

lemma typed_put_meeting: "meetings_typed db \<Longrightarrow> meeting_typed m \<Longrightarrow> meetings_typed (put_meeting m db)"
  using set_row_put_subset [of mtg_id m "meeting_handoffs db"] by (auto simp: meetings_typed_def)

lemma typed_put_tasks: "meetings_typed db \<Longrightarrow> list_all task_typed ts \<Longrightarrow> meetings_typed (put_tasks ts db)"
  unfolding put_tasks_def
proof (induction ts arbitrary: db)
  case (Cons t ts)
  have "meetings_typed (put_follow_up_task t db)"
    using Cons.prems set_row_put_subset [of mft_id t "meeting_follow_up_tasks db"] by (auto simp: meetings_typed_def put_follow_up_task_def)
  from Cons.IH [OF this] Cons.prems(2) show ?case by simp
qed simp

lemma typed_meeting_event [simp]: "meetings_typed (meeting_event env n aty ai p k ss db) = meetings_typed db"
  by (rule meetings_typed_cong) simp_all

lemma typed_session:
  assumes "session_scope env body db = (r, db')" and "meetings_typed db"
    and "\<And>v db1. body (begin_session db) = (Inr v, db1) \<Longrightarrow> meetings_typed (begin_session db) \<Longrightarrow> meetings_typed db1"
  shows "meetings_typed db'"
  using assms(1)
proof (cases rule: session_cases)
  case (raised e x db1)
  with assms(2) show ?thesis by (simp add: meetings_typed_def)
next
  case (committed v db1)
  have "meetings_typed (begin_session db)" using assms(2) by (simp add: meetings_typed_def)
  from assms(3) [OF committed(2) this] committed show ?thesis by (simp add: meetings_typed_def)
qed (use assms in simp)

lemma typed_sync:
  assumes "sync_meeting_to_crm env crm actor m db = (Inr m', db1)" and "meetings_typed db" and "meeting_typed m"
  shows "meetings_typed db1 \<and> meeting_typed m'"
proof -
  have tasks: "list_all task_typed (tasks_to_sync (mtg_id m) db)"
    using assms(2) by (auto simp: list_all_iff tasks_to_sync_def meetings_typed_def)
  from assms(1) show ?thesis
  proof (cases rule: sync_cases)
    case (failed e db0)
    from sync_outcome_tables [OF failed(3)] have "meetings_typed db0" using assms(2) by (auto simp: meetings_typed_def)
    moreover have m': "meeting_typed m'"
      using assms(3) by (auto simp: failed meeting_typed_def failed_sync_meeting_def MeetingStatuses_def MeetingCrmSyncStatuses_def)
    moreover have "list_all task_typed (map (failed_sync_task env e) (tasks_to_sync (mtg_id m) db))"
      using tasks by (auto simp: list_all_iff task_typed_def failed_sync_task_def MeetingCrmSyncStatuses_def)
    ultimately show ?thesis by (simp add: failed(4) typed_put_tasks typed_put_meeting)
  next
    case (synced r db0)
    from sync_outcome_tables [OF synced(2)] have "meetings_typed db0" using assms(2) by (auto simp: meetings_typed_def)
    moreover have m': "meeting_typed m'"
      using assms(3) by (auto simp: synced meeting_typed_def synced_meeting_def MeetingCrmSyncStatuses_def)
    moreover have "list_all task_typed (map (synced_task env r) (tasks_to_sync (mtg_id m) db))"
      using tasks by (auto simp: list_all_iff task_typed_def synced_task_def MeetingCrmSyncStatuses_def)
    ultimately show ?thesis by (simp add: synced(3) typed_put_tasks typed_put_meeting)
  qed
qed

lemma follow_up_tasks_new_rows:
  assumes "follow_up_tasks env i stored n qs db = (ts, db1)" and "t \<in> set (meeting_follow_up_tasks db1)"
  shows "t \<in> set (meeting_follow_up_tasks db) \<or> (\<exists>q k r. t = follow_up_row env i q k r)"
  using assms
proof (induction qs arbitrary: n db ts)
  case (Cons q qs)
  let ?k = "follow_up_key i n (mfc_title q)"
  show ?case
  proof (cases "List.find (\<lambda>t. mft_idempotency_key t = Some ?k) stored")
    case None
    let ?t = "follow_up_row env i q ?k (env_uuid4 env (uuid_seq db))"
    obtain ts' where "follow_up_tasks env i stored (Suc n) qs (add_follow_up_task ?t (db\<lparr>uuid_seq := Suc (uuid_seq db)\<rparr>)) = (ts', db1)"
      using Cons.prems(1) None by (auto simp: Let_def draw_uuid_def split: prod.splits)
    from Cons.IH [OF this Cons.prems(2)] show ?thesis by (auto simp: add_follow_up_task_def)
  next
    case (Some t0)
    obtain ts' where "follow_up_tasks env i stored (Suc n) qs db = (ts', db1)"
      using Cons.prems(1) Some by (auto simp: Let_def split: prod.splits)
    from Cons.IH [OF this Cons.prems(2)] show ?thesis .
  qed
qed simp

lemma typed_follow_ups:
  assumes "create_follow_up_tasks env i qs db = (Inr ts, db1)" and "meetings_typed db"
  shows "meetings_typed db1"
proof -
  from assms(1) obtain ts' db2 where run: "follow_up_tasks env i (meeting_follow_up_tasks db) 1 qs db = (ts', db2)"
      and db1: "meeting_follow_up_tasks db1 = meeting_follow_up_tasks db2"
    by (auto simp: create_follow_up_tasks_def dest!: flush_written split: prod.splits sum.splits)
  have "task_typed (follow_up_row env i q k r)" for q k r
    by (simp add: task_typed_def follow_up_row_def MeetingFollowUpTaskStatuses_def MeetingCrmSyncStatuses_def)
  with follow_up_tasks_new_rows [OF run] assms(2) have "\<forall>t \<in> set (meeting_follow_up_tasks db1). task_typed t"
    unfolding db1 meetings_typed_def by blast
  with create_follow_up_tasks_frame [OF assms(1)] assms(2) show ?thesis by (simp add: meetings_typed_def)
qed

text \<open>Each operation keeps the enumerations.\<close>

lemma typed_record_booking:
  assumes "record_booking env client updates as en m db = (Inr d, db1)" and "meetings_typed db" and "meeting_typed m"
  shows "meetings_typed db1"
proof -
  obtain r where db1: "meeting_handoffs db1 = row_put mtg_id (booked_meeting env r m) (meeting_handoffs db)"
      "meeting_follow_up_tasks db1 = meeting_follow_up_tasks db"
    using assms(1) by (auto simp: record_booking_def create_calendar_event_def Let_def split: sum.splits option.splits if_splits)
  have "meeting_typed (booked_meeting env r m)" using assms(3) by (simp add: meeting_typed_def booked_meeting_def)
  from typed_put_meeting [OF assms(2) this] db1 show ?thesis by (simp add: meetings_typed_def)
qed

lemma typed_create:
  assumes "create_meeting env cals q actor key db = (r, db')" and "meetings_typed db"
  shows "meetings_typed db'"
proof -
  have body: "meetings_typed db2" if run: "create_meeting_body env client q actor key db0 = (Inr v, db2)" and ok: "meetings_typed db0"
    for client v db0 db2
  proof (cases "List.find (\<lambda>m. mtg_idempotency_key m = key) (meeting_handoffs db0)")
    case None
    with run obtain t contact as en db1 where flush: "flush env (add_meeting (meeting_row env q actor key (calendar_provider client) t contact en as
            (env_uuid4 env (uuid_seq db0))) (db0\<lparr>uuid_seq := Suc (uuid_seq db0)\<rparr>)) = Inr db1"
        and book: "record_booking env client (mcr_send_updates q) as en (meeting_row env q actor key (calendar_provider client) t contact en as
            (env_uuid4 env (uuid_seq db0))) db1 = (Inr v, db2)"
      by (auto simp: create_meeting_body_def draw_uuid_def Let_def split: sum.splits)
    have row: "meeting_typed (meeting_row env q actor key p t contact en as r)" for p r
      by (simp add: meeting_typed_def meeting_row_def MeetingStatuses_def MeetingCrmSyncStatuses_def)
    have "meetings_typed db1" using flush_written [OF flush] ok row by (auto simp: meetings_typed_def add_meeting_def)
    from typed_record_booking [OF book this row] show ?thesis .
  qed (use run ok in \<open>auto simp: create_meeting_body_def\<close>)
  from create_meeting_session [OF assms(1)] show ?thesis
  proof
    assume "mcr_start_at q < mcr_end_at q \<and> (\<exists>client. resolve_calendar env cals = Inr client
      \<and> session_scope env (create_meeting_body env client q actor key) db = (r, db'))"
    then obtain client where "session_scope env (create_meeting_body env client q actor key) db = (r, db')" by blast
    from this assms(2) body show ?thesis by (rule typed_session)
  qed (use assms in simp)
qed

lemma typed_cancel:
  assumes "cancel_meeting env cals i reason db = (r, db')" and "meetings_typed db"
  shows "meetings_typed db'"
proof -
  have body: "meetings_typed db2" if run: "cancel_meeting_body env client i reason db0 = (Inr v, db2)" and ok: "meetings_typed db0" for client v db0 db2
  proof (cases "get_meeting i db0")
    case (Some m)
    have "meeting_typed (canceled_meeting env reason m)"
      using get_meeting_typed [OF ok Some]
      by (simp add: meeting_typed_def canceled_meeting_def MeetingStatuses_def MeetingOutcomeStatuses_def)
    moreover have db2: "meeting_handoffs db2 = row_put mtg_id (canceled_meeting env reason m) (meeting_handoffs db0)"
        "meeting_follow_up_tasks db2 = meeting_follow_up_tasks db0"
      using run Some by (auto simp: cancel_meeting_body_def cancel_calendar_event_def Let_def put_meeting_def split: if_splits option.splits sum.splits)
    ultimately show ?thesis using typed_put_meeting [OF ok] by (simp add: meetings_typed_def put_meeting_def db2)
  qed (use run ok in \<open>auto simp: cancel_meeting_body_def\<close>)
  show ?thesis
  proof (cases "resolve_calendar env cals")
    case (Inr client)
    with assms(1) have "session_scope env (cancel_meeting_body env client i reason) db = (r, db')" by (simp add: cancel_meeting_def)
    from this assms(2) body show ?thesis by (rule typed_session)
  qed (use assms in \<open>simp add: cancel_meeting_def\<close>)
qed

lemma outcome_value_known: "outcome_value s \<in> MeetingOutcomeStatuses"
  by (cases s) (simp_all add: MeetingOutcomeStatuses_def)

lemma typed_outcome:
  assumes "record_meeting_outcome env crm i q actor key db = (r, db')" and "meetings_typed db"
  shows "meetings_typed db'"
  using assms unfolding record_meeting_outcome_def
proof (rule typed_session)
  fix v db2
  assume run: "record_outcome_body env crm i q actor key (begin_session db) = (Inr v, db2)" and ok: "meetings_typed (begin_session db)"
  show "meetings_typed db2"
  proof (cases "get_meeting i (begin_session db)")
    case (Some m)
    then have i: "mtg_id m = i" by (auto simp: get_meeting_def dest: row_get_key)
    have m: "meeting_typed (outcome_meeting env q m)"
      using get_meeting_typed [OF ok Some] outcome_value_known by (simp add: meeting_typed_def outcome_meeting_def MeetingStatuses_def)
    show ?thesis
    proof (cases "outcome_key i key \<in> obx_idempotency_key ` set (outbox_events (begin_session db))")
      case True
      with run Some i ok show ?thesis by (simp add: record_outcome_body_def)
    next
      case False
      with run Some obtain tasks db1 m' where
        create: "create_follow_up_tasks env i (mor_follow_up_tasks q) (put_meeting (outcome_meeting env q m) (begin_session db)) = (Inr tasks, db1)"
        and sync: "sync_meeting_to_crm env crm actor (outcome_meeting env q m) (outcome_events env (outcome_meeting env q m) key tasks db1) = (Inr m', db2)"
        by (rule outcome_body_new)
      from typed_follow_ups [OF create] ok m have "meetings_typed db1" by (simp add: typed_put_meeting)
      then have "meetings_typed (outcome_events env (outcome_meeting env q m) key tasks db1)" by (simp add: meetings_typed_def)
      from typed_sync [OF sync this m] show ?thesis by simp
    qed
  qed (use run ok in \<open>auto simp: record_outcome_body_def\<close>)
qed

lemma typed_retry:
  assumes "retry_meeting_crm_sync env crm i actor db = (r, db')" and "meetings_typed db"
  shows "meetings_typed db'"
  using assms unfolding retry_meeting_crm_sync_def
proof (rule typed_session)
  fix v db2
  assume "retry_sync_body env crm i actor (begin_session db) = (Inr v, db2)" and "meetings_typed (begin_session db)"
  then show "meetings_typed db2"
    by (auto simp: retry_sync_body_def dest: typed_sync get_meeting_typed split: option.splits sum.splits prod.splits)
qed

lemma typed_prep_packet:
  assumes "generate_meeting_prep_packet env i actor key db = (r, db')" and "meetings_typed db"
  shows "meetings_typed db'"
  using assms unfolding generate_meeting_prep_packet_def
proof (rule typed_session)
  fix v db2
  assume "prep_packet_body env i actor key (begin_session db) = (Inr v, db2)" and "meetings_typed (begin_session db)"
  then show "meetings_typed db2"
    by (auto simp: prep_packet_body_def Let_def draw_uuid_def add_prep_packet_def meetings_typed_def dest!: flush_written
        split: option.splits sum.splits prod.splits if_splits)
qed

lemma meetings_advance [simp]:
  "meeting_handoffs (advance_enrollment env e s db) = meeting_handoffs db"
  "meeting_follow_up_tasks (advance_enrollment env e s db) = meeting_follow_up_tasks db"
  "meeting_prep_packets (advance_enrollment env e s db) = meeting_prep_packets db"
  by (simp_all add: advance_enrollment_def complete_enrollment_def event_defs Let_def draw_uuid_def put_enrollment_def split: list.split)

lemma meeting_step_same: "snd (meeting_step i db) = db"
  by (simp add: meeting_step_def split: option.split)

lemma typed_schedule:
  assumes "schedule_sequence_meeting_activity env cals i q actor db = (r, db')" and "meetings_typed db"
  shows "meetings_typed db'"
proof -
  obtain x db1 where first: "session_scope env (meeting_step i) db = (x, db1)" by fastforce
  have "db1 = db" using session_scope_unchanged [OF first] meeting_step_same [of i "begin_session db"] by (metis prod.collapse)
  with assms(2) have ok1: "meetings_typed db1" by simp
  show ?thesis
  proof (cases "\<exists>a e k. x = Inr (Some (a, e)) \<and> step_meeting_request q a e = Inr k")
    case False
    with assms(1) first ok1 show ?thesis
      by (auto simp: schedule_sequence_meeting_activity_def split: sum.splits option.splits)
  next
    case True
    then obtain a e k where x: "x = Inr (Some (a, e))" "step_meeting_request q a e = Inr k" by blast
    obtain y db2 where book: "create_meeting env (configured_calendars cals) k actor (''sequence-meeting:'' @ i) db1 = (y, db2)" by fastforce
    from typed_create [OF book ok1] have ok2: "meetings_typed db2" .
    show ?thesis
    proof (cases y)
      case (Inl err)
      with assms(1) first x book ok2 show ?thesis by (simp add: schedule_sequence_meeting_activity_def)
    next
      case (Inr m)
      with assms(1) first x book have "session_scope env (step_scheduled env i actor (py_str (dict_get m ''id''))) db2 = (r, db')"
        by (simp add: schedule_sequence_meeting_activity_def)
      from this ok2 show ?thesis
      proof (rule typed_session)
        fix v db3
        assume "step_scheduled env i actor (py_str (dict_get m ''id'')) (begin_session db2) = (Inr v, db3)" and "meetings_typed (begin_session db2)"
        then show "meetings_typed db3"
          by (auto simp: step_scheduled_def respond_activity_def Let_def put_activity_def meetings_typed_def split: option.splits sum.splits)
      qed
    qed
  qed
qed

text \<open>Histories of meetings.\<close>

inductive meeting_history_step :: "db \<Rightarrow> db \<Rightarrow> bool" where
  book: "create_meeting env cals q actor key db = (r, db') \<Longrightarrow> meeting_history_step db db'"
| cancel: "cancel_meeting env cals i reason db = (r, db') \<Longrightarrow> meeting_history_step db db'"
| outcome: "record_meeting_outcome env crm i oq actor key db = (r, db') \<Longrightarrow> meeting_history_step db db'"
| retry: "retry_meeting_crm_sync env crm i actor db = (r, db') \<Longrightarrow> meeting_history_step db db'"
| packet: "generate_meeting_prep_packet env i actor pk db = (r, db') \<Longrightarrow> meeting_history_step db db'"
| schedule: "schedule_sequence_meeting_activity env cals i sq actor db = (r, db') \<Longrightarrow> meeting_history_step db db'"

inductive_cases meeting_history_stepE: "meeting_history_step db db'"

lemma meeting_op_constraints:
  assumes "constraints_ok db"
  shows "create_meeting env cals q actor key db = (r1, db') \<Longrightarrow> constraints_ok db'"
    and "cancel_meeting env cals i reason db = (r2, db') \<Longrightarrow> constraints_ok db'"
    and "record_meeting_outcome env crm i oq actor key db = (r2, db') \<Longrightarrow> constraints_ok db'"
    and "retry_meeting_crm_sync env crm i actor db = (r2, db') \<Longrightarrow> constraints_ok db'"
    and "generate_meeting_prep_packet env i actor pk db = (r2, db') \<Longrightarrow> constraints_ok db'"
  using assms session.constraints_after [of db]
  by (auto simp: cancel_meeting_def record_meeting_outcome_def retry_meeting_crm_sync_def
      generate_meeting_prep_packet_def dest!: create_meeting_session split: sum.splits)

lemma schedule_constraints:
  assumes "schedule_sequence_meeting_activity env cals i q actor db = (r, db')" and "constraints_ok db"
  shows "constraints_ok db'"
proof -
  obtain x db1 where first: "session_scope env (meeting_step i) db = (x, db1)" by fastforce
  from session.constraints_after [OF assms(2) first] have ok1: "constraints_ok db1" .
  show ?thesis
  proof (cases "\<exists>a e k. x = Inr (Some (a, e)) \<and> step_meeting_request q a e = Inr k")
    case False
    with assms(1) first ok1 show ?thesis
      by (auto simp: schedule_sequence_meeting_activity_def split: sum.splits option.splits)
  next
    case True
    then obtain a e k where x: "x = Inr (Some (a, e))" "step_meeting_request q a e = Inr k" by blast
    obtain y db2 where book: "create_meeting env (configured_calendars cals) k actor (''sequence-meeting:'' @ i) db1 = (y, db2)" by fastforce
    from meeting_op_constraints(1) [OF ok1 book] have ok2: "constraints_ok db2" .
    show ?thesis
    proof (cases y)
      case (Inl err)
      with assms(1) first x book ok2 show ?thesis by (simp add: schedule_sequence_meeting_activity_def)
    next
      case (Inr m)
      with assms(1) first x book have "session_scope env (step_scheduled env i actor (py_str (dict_get m ''id''))) db2 = (r, db')"
        by (simp add: schedule_sequence_meeting_activity_def)
      from session.constraints_after [OF ok2 this] show ?thesis .
    qed
  qed
qed

interpretation meeting_history: step_system meeting_history_step "\<lambda>db. constraints_ok db \<and> meetings_typed db"
  by unfold_locales
    (auto elim!: meeting_history_stepE intro: meeting_op_constraints schedule_constraints typed_create typed_cancel typed_outcome
      typed_retry typed_prep_packet typed_schedule)

text \<open>C8: Along every history of bookings, cancellations, outcomes, retries, packets and scheduled steps, the states of meetings and of
  their tasks stay within the enumerations the responses validate: reading one meeting or a page of them never fails, and
  changes nothing.\<close>

theorem meeting_reads_succeed:
  assumes "meeting_history_step\<^sup>*\<^sup>* db db'" and "constraints_ok db" and "meetings_typed db" and "admitted env"
  shows "\<exists>d ds. get_meeting_handoff env i db' = (Inr d, db') \<and> list_meetings env status target limit db' = (Inr ds, db')"
proof -
  from meeting_history.inv_history [OF assms(1)] assms(2,3) have ok: "constraints_ok db'" and typed: "meetings_typed db'" by auto
  have model: "\<exists>d. meeting_to_model_with_children m (begin_session db') = Inr d" if "m \<in> set (meeting_handoffs db')" for m
    using that typed
    by (auto simp: meeting_to_model_with_children_def meeting_to_model_def meetings_typed_def tasks_of_meeting_def list_all_iff)
  have "\<exists>d. (case get_meeting i (begin_session db') of None \<Rightarrow> (Inr None, begin_session db')
      | Some m \<Rightarrow> (map_sum id Some (meeting_to_model_with_children m (begin_session db')), begin_session db')) = (Inr d, begin_session db')"
    using model by (fastforce simp: get_meeting_def dest: row_get_mem split: option.split)
  then obtain d where read: "(case get_meeting i (begin_session db') of None \<Rightarrow> (Inr None, begin_session db')
      | Some m \<Rightarrow> (map_sum id Some (meeting_to_model_with_children m (begin_session db')), begin_session db')) = (Inr d, begin_session db')" ..
  have one: "get_meeting_handoff env i db' = (Inr d, db')"
    unfolding get_meeting_handoff_def by (intro session_scope_read [OF assms(4) ok]) (rule read)
  let ?rows = "take limit (sort_key (\<lambda>m. - mtg_start_at m) (sort_key mtg_id
      (filter (\<lambda>m. (truthy_str status \<longrightarrow> Some (mtg_status m) = status) \<and> (truthy_str target \<longrightarrow> mtg_crm_target_id m = target))
         (meeting_handoffs (begin_session db')))))"
  have "\<forall>m \<in> set ?rows. \<exists>d. meeting_to_model_with_children m (begin_session db') = Inr d"
  proof
    fix m
    assume "m \<in> set ?rows"
    then have "m \<in> set (meeting_handoffs db')" by (auto dest: in_set_takeD)
    then show "\<exists>d. meeting_to_model_with_children m (begin_session db') = Inr d" by (rule model)
  qed
  then obtain f where "\<forall>m \<in> set ?rows. meeting_to_model_with_children m (begin_session db') = Inr (f m)"
    unfolding Bex_def bchoice_iff by blast
  then have "collect (map (\<lambda>m. meeting_to_model_with_children m (begin_session db')) ?rows) = Inr (map f ?rows)"
    unfolding collect_Inr by simp
  then have "list_meetings env status target limit db' = (Inr (map f ?rows), db')"
    unfolding list_meetings_def by (intro session_scope_read [OF assms(4) ok]) simp
  with one show ?thesis by blast
qed

section \<open>The meeting step of a sequence\<close>

lemma booking_completes_enrollment:
  assumes "create_meeting env cals q actor key db = (Inr d, db')" and "key \<notin> mtg_idempotency_key ` set (meeting_handoffs db)"
    and "mcr_sequence_enrollment_id q = Some i" and "i \<noteq> []" and "get_enrollment i db = Some e" and "enr_status e = ''active''"
  shows "sequence_enrollments db' = row_put enr_id (booked_enrollment env e) (sequence_enrollments db)
    \<and> sequence_step_activities db' = sequence_step_activities db"
proof -
  from assms(1) obtain client where "session_scope env (create_meeting_body env client q actor key) db = (Inr d, db')"
    by (auto simp: create_meeting_def split: option.splits sum.splits)
  then obtain db1 where run: "create_meeting_body env client q actor key (begin_session db) = (Inr d, db1)"
      and db': "db' = end_session db (written env db1)"
    by (cases rule: session_cases) auto
  have none: "List.find (\<lambda>m. mtg_idempotency_key m = key) (meeting_handoffs (begin_session db)) = None"
    using assms(2) by (auto simp: find_None_iff_ball)
  with run obtain t contact as en m db2 where subject: "meeting_subject env q db = Inr (t, contact, as, en)"
      and flushed: "flush env (add_meeting m ((begin_session db)\<lparr>uuid_seq := Suc (uuid_seq (begin_session db))\<rparr>)) = Inr db2"
      and book: "record_booking env client (mcr_send_updates q) as en m db2 = (Inr d, db1)"
    by (auto simp: create_meeting_body_def draw_uuid_def Let_def split: sum.splits)
  from subject assms(3-5) have en: "en = Some e"
    by (auto simp: meeting_subject_def truthy_str_def str_or_def split: sum.splits option.splits if_splits)
  from flush_written [OF flushed] have "sequence_enrollments db2 = sequence_enrollments db"
      "sequence_step_activities db2 = sequence_step_activities db" by (simp_all add: add_meeting_def)
  with book en assms(6) have "sequence_enrollments db1 = row_put enr_id (booked_enrollment env e) (sequence_enrollments db)"
      "sequence_step_activities db1 = sequence_step_activities db"
    by (auto simp: record_booking_def create_calendar_event_def Let_def MEETING_ACTIVE_STATUSES_def split: sum.splits)
  then show ?thesis by (simp add: db')
qed

lemma advance_completed:
  assumes "enr_status e = ''completed''" and "get_enrollment (enr_id e) db \<noteq> None"
  shows "\<exists>e'. get_enrollment (enr_id e) (advance_enrollment env e step db) = Some e' \<and> enr_status e' = ''completed''
    \<and> enr_version e' = enr_version e + 1 \<and> (enr_next_step_at e' \<noteq> None \<or> enr_pause_reason e' = None)"
proof (cases "filter (\<lambda>t. step_step_order t > step_step_order step)
    (sequence_steps_of (enr_sequence_id e) (Some (enr_definition_version e)) db)")
  case Nil
  with assms(2) show ?thesis
    by (intro exI [of _ "completed_enrollment env e"])
       (simp add: advance_enrollment_def completed_enrollment_def get_enrollment_def row_get_row_put)
next
  case (Cons n ns)
  with assms show ?thesis
    by (intro exI [of _ "advanced_enrollment env n e"])
       (simp add: advance_enrollment_def advanced_enrollment_def put_enrollment_def get_enrollment_def row_get_row_put)
qed

lemma step_scheduled_enrollment:
  assumes "session_scope env (step_scheduled env i actor meeting_id) db = (Inr v, db')"
    and "get_activity i db = Some a" and "get_enrollment (act_enrollment_id a) db = Some e" and "enr_status e = ''completed''"
  shows "\<exists>e'. get_enrollment (enr_id e) db' = Some e' \<and> enr_status e' = ''completed''
    \<and> enr_version e' = enr_version e + 1 \<and> (enr_next_step_at e' \<noteq> None \<or> enr_pause_reason e' = None)"
proof -
  from assms(1) obtain db1 where run: "step_scheduled env i actor meeting_id (begin_session db) = (Inr v, db1)"
      and db': "db' = end_session db (written env db1)"
    by (cases rule: session_cases) auto
  have gets: "get_activity i (begin_session db) = Some a" "get_enrollment (act_enrollment_id a) (begin_session db) = Some e"
    using assms(2,3) by (simp_all add: get_activity_def get_enrollment_def)
  from assms(3) have id: "act_enrollment_id a = enr_id e" by (auto simp: get_enrollment_def dest: row_get_key)
  let ?db = "put_activity (scheduled_activity env actor meeting_id a) (begin_session db)"
  from run gets obtain step where "db1 = advance_enrollment env e step ?db"
    by (auto simp: step_scheduled_def Let_def dest!: respond_activity_cases split: option.splits)
  moreover have "get_enrollment (enr_id e) ?db \<noteq> None"
    using gets(2) id by (simp add: put_activity_def get_enrollment_def)
  ultimately show ?thesis using advance_completed [OF assms(4), of ?db env step] by (simp add: db' get_enrollment_def)
qed

text \<open>C32: Scheduling the meeting step of an active enrollment completes the enrollment twice: the booking has
  completed it for the meeting when the step advances it once more, so its version rises by two and the completed enrollment either
  has another step due or has lost the reason \<open>meeting_booked\<close> of its completion.\<close>

theorem step_booking_completes_twice:
  assumes "schedule_sequence_meeting_activity env cals i q actor db = (Inr (Some d), db')"
    and "get_activity i db = Some a" and "get_enrollment (act_enrollment_id a) db = Some e"
    and "enr_status e = ''active''" and "enr_id e \<noteq> []"
    and "''sequence-meeting:'' @ i \<notin> mtg_idempotency_key ` set (meeting_handoffs db)"
  shows "\<exists>e'. get_enrollment (enr_id e) db' = Some e' \<and> enr_status e' = ''completed'' \<and> enr_version e' = enr_version e + 2
    \<and> (enr_next_step_at e' \<noteq> None \<or> enr_pause_reason e' = None)"
proof -
  from assms(3) have id: "act_enrollment_id a = enr_id e" by (auto simp: get_enrollment_def dest: row_get_key)
  obtain x db1 where first: "session_scope env (meeting_step i) db = (x, db1)" by fastforce
  have db1: "db1 = db" using session_scope_unchanged [OF first] meeting_step_same [of i "begin_session db"] by (metis prod.collapse)
  from first assms(1) have "x = Inr (Some (a, e))"
  proof (cases rule: session_cases)
    case (committed v db2)
    moreover have "get_activity i (begin_session db) = Some a" "get_enrollment (act_enrollment_id a) (begin_session db) = Some e"
      using assms(2,3) by (simp_all add: get_activity_def get_enrollment_def)
    ultimately show ?thesis by (auto simp: meeting_step_def split: if_splits)
  qed (use assms(1) first in \<open>auto simp: schedule_sequence_meeting_activity_def\<close>)
  with assms(1) first db1 obtain k m db2 where k: "step_meeting_request q a e = Inr k"
      and book: "create_meeting env (configured_calendars cals) k actor (''sequence-meeting:'' @ i) db = (Inr m, db2)"
      and last: "session_scope env (step_scheduled env i actor (py_str (dict_get m ''id''))) db2 = (Inr (Some d), db')"
    by (auto simp: schedule_sequence_meeting_activity_def split: sum.splits prod.splits)
  from k have "mcr_sequence_enrollment_id k = Some (enr_id e)"
    by (auto simp: step_meeting_request_def Let_def split: if_splits)
  from booking_completes_enrollment [OF book assms(6) this assms(5)] assms(3,4) id
  have after: "sequence_enrollments db2 = row_put enr_id (booked_enrollment env e) (sequence_enrollments db)"
      "sequence_step_activities db2 = sequence_step_activities db" by simp_all
  have "get_activity i db2 = Some a" using after assms(2) by (simp add: get_activity_def)
  moreover have "get_enrollment (act_enrollment_id a) db2 = Some (booked_enrollment env e)"
    using after assms(3) id by (simp add: get_enrollment_def row_get_row_put booked_enrollment_def)
  ultimately show ?thesis
    using step_scheduled_enrollment [OF last] by (fastforce simp: booked_enrollment_def)
qed

end
