(* ===== verification/Meeting_History.thy ===== *)
theory Meeting_History
  imports Meeting_Laws Outreach_History
begin

text \<open>
  Histories in which meetings are booked, changed and synchronised beside the outreach: suppressions and events are only
  added, so that an unsubscribe also stops invitations, and a meeting that was synchronised cannot be synchronised again
  at the same version.
\<close>

section \<open>What only grows\<close>

definition grows :: "db \<Rightarrow> db \<Rightarrow> bool" where
  "grows db db' =
     (set (suppressions db) \<subseteq> set (suppressions db')
      \<and> obx_idempotency_key ` set (outbox_events db) \<subseteq> obx_idempotency_key ` set (outbox_events db'))"

lemma grows_trans [trans]: "grows db1 db2 \<Longrightarrow> grows db2 db3 \<Longrightarrow> grows db1 db3"
  unfolding grows_def by blast

lemma grows_same:
  "suppressions db' = suppressions db \<Longrightarrow> outbox_events db' = outbox_events db \<Longrightarrow> grows db db'"
  by (simp add: grows_def)

lemma grows_emit: "grows db (emit env n aty ai ss p k sd si db)"
  by (auto simp: grows_def emit_def new_event_def enqueue_event_def Let_def draw_uuid_def add_outbox_def)

lemma grows_meeting_event: "grows db (meeting_event env n aty ai p k ss db)"
  unfolding meeting_event_def by (rule grows_emit)

lemma grows_emitted: "grows db0 db \<Longrightarrow> grows db0 (meeting_event env n aty ai p k ss db)"
  by (rule grows_trans [OF _ grows_meeting_event])

lemma grows_assigned:
  "grows db0 db \<Longrightarrow> grows db0 (put_meeting m db)" "grows db0 db \<Longrightarrow> grows db0 (put_enrollment e db)"
  "grows db0 db \<Longrightarrow> grows db0 (put_activity a db)" "grows db0 db \<Longrightarrow> grows db0 (db\<lparr>effects := es\<rparr>)"
  by (simp_all add: grows_def put_meeting_def put_enrollment_def put_activity_def)

lemma grows_refl [simp]: "grows db db" by (simp add: grows_def)

lemma session_grows:
  assumes "session_scope env body db = (r, db')"
    and "\<And>v db1. body (begin_session db) = (Inr v, db1) \<Longrightarrow> grows (begin_session db) db1"
  shows "grows db db'"
  using assms(1)
proof (cases rule: session_cases)
  case (committed v db1)
  with assms(2) [OF committed(2)] show ?thesis by (simp add: grows_def)
qed (simp_all add: grows_def)

lemma put_tasks_suppressions [simp]: "suppressions (put_tasks ts db) = suppressions db"
  unfolding put_tasks_def by (induction ts arbitrary: db) (simp_all add: put_follow_up_task_def)

lemma grows_put_tasks: "grows db0 db \<Longrightarrow> grows db0 (put_tasks ts db)"
  by (simp add: grows_def)

lemma grows_sync:
  assumes "sync_meeting_to_crm env crm actor m db = (Inr m', db1)"
  shows "grows db db1"
  using assms
proof (cases rule: sync_cases)
  case (failed e db0)
  from sync_outcome_tables [OF failed(3)] obtain es where "db0 = db\<lparr>effects := es\<rparr>" by blast
  then show ?thesis by (simp add: failed(4) grows_put_tasks grows_assigned)
next
  case (synced r db0)
  from sync_outcome_tables [OF synced(2)] obtain es where "db0 = db\<lparr>effects := es\<rparr>" by blast
  then show ?thesis by (simp add: synced(3) grows_emitted grows_put_tasks grows_assigned)
qed

lemma grows_task_events: "grows db0 db \<Longrightarrow> grows db0 (fold (task_event env) ts db)"
  by (induction ts arbitrary: db) (simp_all add: task_event_def grows_emitted)

lemma follow_up_tasks_suppressions:
  assumes "follow_up_tasks env i stored n qs db = (ts, db1)"
  shows "suppressions db1 = suppressions db"
  using assms
  by (induction env i stored n qs db arbitrary: ts db1 rule: follow_up_tasks.induct)
    (auto simp: Let_def draw_uuid_def add_follow_up_task_def split: option.splits prod.splits)

lemma grows_follow_ups:
  assumes "create_follow_up_tasks env i qs db = (Inr ts, db1)"
  shows "grows db db1"
proof (rule grows_same)
  show "outbox_events db1 = outbox_events db" using create_follow_up_tasks_frame [OF assms] by simp
  show "suppressions db1 = suppressions db"
    using assms by (auto simp: create_follow_up_tasks_def dest!: follow_up_tasks_suppressions flush_written split: prod.splits sum.splits)
qed

section \<open>Each operation\<close>

lemma grows_booking:
  assumes "record_booking env client updates as en m db = (Inr d, db1)"
  shows "grows db db1"
  using assms
  by (auto simp: record_booking_def create_calendar_event_def complete_sequence_for_meeting_def Let_def grows_emitted grows_assigned
      split: sum.splits option.splits if_splits)

lemma grows_create_body:
  assumes "create_meeting_body env client q actor key db = (Inr v, db1)"
  shows "grows db db1"
proof (cases "db1 = db")
  case False
  with assms obtain t contact as en db2 where flushed: "flush env (add_meeting (meeting_row env q actor key (calendar_provider client) t contact en as
          (env_uuid4 env (uuid_seq db))) (db\<lparr>uuid_seq := Suc (uuid_seq db)\<rparr>)) = Inr db2"
      and book: "record_booking env client (mcr_send_updates q) as en (meeting_row env q actor key (calendar_provider client) t contact en as
          (env_uuid4 env (uuid_seq db))) db2 = (Inr v, db1)"
    by (auto simp: create_meeting_body_def draw_uuid_def Let_def split: sum.splits option.splits)
  have "grows db db2" using flush_written [OF flushed] by (auto simp: add_meeting_def intro: grows_same)
  also note grows_booking [OF book]
  finally show ?thesis .
qed simp

lemma grows_create:
  assumes "create_meeting env cals q actor key db = (r, db')"
  shows "grows db db'"
  using create_meeting_session [OF assms] by (auto intro: session_grows grows_create_body)

lemma grows_cancel_body: "cancel_meeting_body env client i reason db = (Inr v, db1) \<Longrightarrow> grows db db1"
  by (auto simp: cancel_meeting_body_def cancel_calendar_event_def Let_def grows_assigned split: option.splits sum.splits if_splits)

lemma grows_outcome_body:
  assumes "record_outcome_body env crm i q actor key db = (Inr v, db1)"
  shows "grows db db1"
proof (cases "db1 = db")
  case False
  with assms obtain m tasks db2 m' where create: "create_follow_up_tasks env (mtg_id m) (mor_follow_up_tasks q) (put_meeting m db) = (Inr tasks, db2)"
      and sync: "sync_meeting_to_crm env crm actor m (outcome_events env m key tasks db2) = (Inr m', db1)"
    by (auto simp: record_outcome_body_def outcome_events_def Let_def split: option.splits if_splits sum.splits prod.splits)
  have "grows db (put_meeting m db)" by (simp add: grows_assigned)
  also note grows_follow_ups [OF create]
  also have "grows db2 (outcome_events env m key tasks db2)"
    by (simp add: outcome_events_def grows_task_events grows_emitted)
  also note grows_sync [OF sync]
  finally show ?thesis .
qed simp

lemma grows_packet_body: "prep_packet_body env i actor key db = (Inr v, db1) \<Longrightarrow> grows db db1"
  by (auto simp: prep_packet_body_def Let_def draw_uuid_def add_prep_packet_def intro!: grows_emitted grows_same dest!: flush_written
      split: option.splits sum.splits prod.splits if_splits)

lemma grows_advance: "grows db0 db \<Longrightarrow> grows db0 (advance_enrollment env e s db)"
  by (auto simp: advance_enrollment_def complete_enrollment_def event_defs Let_def grows_assigned
      intro: grows_trans [OF grows_assigned(2) grows_emit] split: list.split)

lemma grows_scheduled_body: "step_scheduled env i actor mid db = (Inr v, db1) \<Longrightarrow> grows db db1"
  by (auto simp: step_scheduled_def Let_def grows_advance grows_assigned dest!: respond_same split: option.splits)

lemma grows_schedule:
  assumes "schedule_sequence_meeting_activity env cals i q actor db = (r, db')"
  shows "grows db db'"
proof -
  obtain x db1 where first: "session_scope env (meeting_step i) db = (x, db1)" by fastforce
  have "db1 = db" using session_scope_unchanged [OF first] meeting_step_same [of i "begin_session db"] by (metis prod.collapse)
  then have "grows db db1" by simp
  show ?thesis
  proof (cases "\<exists>a e k. x = Inr (Some (a, e)) \<and> step_meeting_request q a e = Inr k")
    case False
    with assms(1) first \<open>grows db db1\<close> show ?thesis
      by (auto simp: schedule_sequence_meeting_activity_def split: sum.splits option.splits)
  next
    case True
    then obtain a e k where x: "x = Inr (Some (a, e))" "step_meeting_request q a e = Inr k" by blast
    obtain y db2 where book: "create_meeting env (configured_calendars cals) k actor (''sequence-meeting:'' @ i) db1 = (y, db2)" by fastforce
    from \<open>grows db db1\<close> grows_create [OF book] have two: "grows db db2" by (rule grows_trans)
    show ?thesis
    proof (cases y)
      case (Inl err)
      with assms(1) first x book two show ?thesis by (simp add: schedule_sequence_meeting_activity_def)
    next
      case (Inr m)
      with assms(1) first x book have "session_scope env (step_scheduled env i actor (py_str (dict_get m ''id''))) db2 = (r, db')"
        by (simp add: schedule_sequence_meeting_activity_def)
      then have "grows db2 db'" by (rule session_grows) (rule grows_scheduled_body)
      with two show ?thesis by (rule grows_trans)
    qed
  qed
qed

lemma meeting_step_grows:
  assumes "meeting_history_step db db'"
  shows "grows db db'"
  using assms
proof (cases rule: meeting_history_step.cases)
  case book
  then show ?thesis by (rule grows_create)
next
  case (cancel env cals i reason r)
  show ?thesis
  proof (cases "resolve_calendar env cals")
    case (Inr client)
    with cancel have "session_scope env (cancel_meeting_body env client i reason) db = (r, db')" by (simp add: cancel_meeting_def)
    then show ?thesis by (rule session_grows) (rule grows_cancel_body)
  qed (use cancel in \<open>simp add: cancel_meeting_def\<close>)
next
  case outcome
  then show ?thesis unfolding record_meeting_outcome_def by (rule session_grows) (rule grows_outcome_body)
next
  case retry
  then show ?thesis
    unfolding retry_meeting_crm_sync_def
    by (rule session_grows) (auto simp: retry_sync_body_def dest: grows_sync split: option.splits sum.splits prod.splits)
next
  case packet
  then show ?thesis unfolding generate_meeting_prep_packet_def by (rule session_grows) (rule grows_packet_body)
next
  case schedule
  then show ?thesis by (rule grows_schedule)
qed

interpretation meetings_grow: step_system meeting_history_step "grows db0" for db0
  by unfold_locales (blast intro: grows_trans meeting_step_grows)

section \<open>Unsubscribing and invitations\<close>

text \<open>A step of the outreach or of the meetings.\<close>

definition service_step :: "db \<Rightarrow> db \<Rightarrow> bool" where
  "service_step db db' = (outreach_step db db' \<or> meeting_history_step db db')"

interpretation suppressed_everywhere: step_system service_step "\<lambda>db. T \<subseteq> set (suppressions db)" for T
proof
  fix db db'
  assume "service_step db db'" and T: "T \<subseteq> set (suppressions db)"
  then have "set (suppressions db) \<subseteq> set (suppressions db')"
    unfolding service_step_def using outreach_step_suppressions meeting_step_grows grows_def by blast
  with T show "T \<subseteq> set (suppressions db')" by blast
qed

text \<open>C7: Once an unsubscribe of an address from e-mail is processed, a booking whose request names the address among its attendees
  raises, invites nobody and stores nothing: in every later store of the outreach and the meetings, unless the key is that of a
  meeting booked before.  The conditions are those for mails: the event is new, it names an address, its payload names no other channel,
  and the suppression of the address that was already marked active, if there is one, has not expired when the booking is made.\<close>

theorem unsubscribe_stops_invites:
  assumes "process_inbound_email_event env q key db = (Inr m, db1)" and "inbound_with_key key db = None"
    and "iec_event_type q = UNSUBSCRIBE" and "unsubscribe_address q \<noteq> []"
    and "py_lower (payload_text (iec_provider_payload q) ''channel'' ''email'') = ''email''"
    and "\<forall>s. active_suppression (unsubscribe_address q) ''email'' db = Some s
           \<longrightarrow> (case sup_expires_at s of None \<Rightarrow> True | Some t \<Rightarrow> t > env_now env')"
    and "service_step\<^sup>*\<^sup>* db1 db'"
    and "a \<in> set (mcr_attendees q')" and "py_lower (att_email a) = unsubscribe_address q"
    and "key' \<notin> mtg_idempotency_key ` set (meeting_handoffs db')"
  shows "\<exists>err. create_meeting env' cals q' actor key' db' = (Inl err, db')"
proof -
  from unsubscribe_suppresses [OF assms(1-6)] obtain s where s: "s \<in> set (suppressions db1)"
      "sup_email s = Some (unsubscribe_address q)" "suppression_in_force (env_now env') ''email'' s" by blast
  from suppressed_everywhere.inv_history [OF assms(7), of "{s}"] s(1) have "s \<in> set (suppressions db')" by simp
  from barred_invite_refused [OF this _ s(3) assms(8,10)] s(2) assms(9) show ?thesis by simp
qed

section \<open>Synchronising again\<close>

text \<open>C29: A meeting that a retry has synchronised cannot be synchronised again while its version stays the same (an outcome
  and a cancellation raise it): after any history of the meetings that leaves the version, a retry calls the
  provider, which accepts the update, and then raises, because the event it records has the key of the first one; nothing
  is stored.\<close>

theorem resync_raises:
  assumes "retry_meeting_crm_sync env crm i actor db = (Inr (Some d), db1)" and "dict_get d ''crm_sync_status'' = JStr ''succeeded''"
    and "meeting_history_step\<^sup>*\<^sup>* db1 db'"
    and "get_meeting i db1 = Some m1" and "get_meeting i db' = Some m" and "mtg_version m = mtg_version m1"
    and "admitted env'" and "resolve_client env' (crm_http crm') (given_crm crm') = Inr client"
    and "\<forall>n p. \<exists>r. client_sync client n p = Inr r"
  shows "\<exists>e p db''. retry_meeting_crm_sync env' crm' i actor' db' = (Inl e, db'') \<and> same_tables db' db''
    \<and> effects db'' = effects db' @ [CrmSync p]"
proof (rule taken_sync_key_raises [OF assms(5) _ assms(7-9)])
  from retry_committed [OF assms(1,2)] assms(4) obtain m0 where "m1 = synced_meeting env m0"
      and key: "synced_key m0 \<in> obx_idempotency_key ` set (outbox_events db1)" by auto
  moreover have "mtg_id m = mtg_id m1"
    using assms(4,5) by (auto simp: get_meeting_def dest!: row_get_key)
  ultimately have "synced_key m = synced_key m0" using assms(6) by (simp add: synced_key_def)
  moreover have "grows db1 db'" using meetings_grow.inv_history [OF assms(3), of db1] by simp
  ultimately show "synced_key m \<in> obx_idempotency_key ` set (outbox_events db')"
    using key by (auto simp: grows_def)
qed

end
