(* ===== verification/Meetings_Examples.thy ===== *)
theory Meetings_Examples
  imports Meeting_History Outreach_Examples Crm_Export_Examples
begin

text \<open>
  Concrete meetings: each theorem about meetings is applied to a small store where its hypotheses hold.
\<close>

section \<open>A store with a booked meeting\<close>

definition no_google :: google_http where
  "no_google n verb path query body = Inl (CalendarProviderError ''unreachable'' True None)"

definition no_free_busy :: free_busy where
  "no_free_busy as t1 t2 zone = Inr []"

definition local_calendars :: calendars where
  "local_calendars = \<lparr>given_calendar = None, google_request = no_google, google_free_busy = no_free_busy\<rparr>"

definition sample_meeting_request :: MeetingCreateRequest where
  "sample_meeting_request =
     \<lparr>mcr_crm_target_id = ''t1'', mcr_sequence_enrollment_id = Some ''e1'', mcr_account_id = None, mcr_contact_id = None,
      mcr_subject = ''Discovery'', mcr_description = None, mcr_location = None, mcr_start_at = 10, mcr_end_at = 20,
      mcr_timezone = ''UTC'', mcr_attendees = [\<lparr>att_email = ''Dana@acme.io'', att_name = None, att_optional = False\<rparr>],
      mcr_policy_snapshot = [], mcr_send_updates = None\<rparr>"

definition crm_result :: CrmExportResult where
  "crm_result = \<lparr>res_provider_record_id = ''r1'', res_provider_list_id = None, res_provider_list_entry_id = None, res_raw_response = []\<rparr>"

definition working_crm :: crm_access where
  "working_crm = \<lparr>given_crm = Some \<lparr>client_identity = ''crm'', client_export = (\<lambda>_ _. Inr crm_result),
     client_sync = (\<lambda>_ _. Inr crm_result)\<rparr>, crm_http = no_http\<rparr>"

definition busy_crm :: crm_access where
  "busy_crm = working_crm\<lparr>given_crm := Some \<lparr>client_identity = ''crm'', client_export = (\<lambda>_ _. Inr crm_result),
     client_sync = (\<lambda>_ _. Inl (CrmProviderError ''rate limited'' True (Some 30)))\<rparr>\<rparr>"

definition sample_task :: MeetingFollowUpTaskCreate where
  "sample_task = \<lparr>mfc_title = ''Send notes'', mfc_description = None, mfc_owner = None, mfc_due_at = None\<rparr>"

definition sample_outcome :: MeetingOutcomeRequest where
  "sample_outcome = \<lparr>mor_outcome_status = OUTCOME_COMPLETED, mor_outcome_notes = None, mor_next_steps = [],
     mor_follow_up_tasks = [sample_task]\<rparr>"

definition sample_meeting :: MeetingHandoff where
  "sample_meeting = meeting_row example_env sample_meeting_request ''alex'' ''mk1'' ''fake'' sample_target (Some sample_contact) None
     (mcr_attendees sample_meeting_request) ''m1''"

definition meeting_db :: db where
  "meeting_db = outreach_db\<lparr>meeting_handoffs := [sample_meeting]\<rparr>"

definition meet_db :: db where
  "meet_db = outreach_db\<lparr>sequence_step_activities :=
     [sample_activity\<lparr>act_channel := ''google_meet'', act_status := ''pending'', act_outbound_email_id := None\<rparr>]\<rparr>"

definition sample_schedule :: SequenceActivityScheduleMeetingRequest where
  "sample_schedule =
     \<lparr>smr_subject = None, smr_description = None, smr_location = None, smr_start_at = 10, smr_end_at = 20,
      smr_timezone = ''UTC'', smr_attendees = [], smr_send_updates = None\<rparr>"

lemma meeting_samples_ok: "constraints_ok meeting_db" "meetings_typed meeting_db" "constraints_ok meet_db"
  by code_simp+

section \<open>Equations for evaluation\<close>

text \<open>As for the sends, each continuation is a function of the result it is given, so that it is unfolded on concrete
  stores only.\<close>

definition answer_meeting :: "MeetingHandoff \<Rightarrow> dict op" where
  "answer_meeting m db = (meeting_to_model_with_children m db, db)"

definition after_booking :: "env \<Rightarrow> SequenceEnrollment option \<Rightarrow> db \<Rightarrow> db" where
  "after_booking env enrollment db =
     (case enrollment of
        Some e \<Rightarrow> if enr_status e \<in> MEETING_ACTIVE_STATUSES then complete_sequence_for_meeting env e db else db
      | None \<Rightarrow> db)"

definition close_booking :: "env \<Rightarrow> SequenceEnrollment option \<Rightarrow> db \<Rightarrow> MeetingHandoff \<Rightarrow> (error + dict) \<times> db" where
  "close_booking env enrollment db m =
     answer_meeting m (meeting_event env MEETING_BOOKED ''meeting_handoff'' (mtg_id m) (meeting_to_api m)
       (''meeting.booked:'' @ mtg_id m) MEETING_SERVICE_NAME (after_booking env enrollment (put_meeting m db)))"

fun conclude_booking ::
  "env \<Rightarrow> SequenceEnrollment option \<Rightarrow> MeetingHandoff \<Rightarrow> (error + CalendarEventResult) \<times> db \<Rightarrow> (error + dict) \<times> db" where
  "conclude_booking env enrollment m0 (Inl e, db) = (Inl e, db)"
| "conclude_booking env enrollment m0 (Inr r, db) = close_booking env enrollment db (booked_meeting env r m0)"

lemma record_booking_code [code]:
  "record_booking env client updates attendees enrollment m0 db =
     conclude_booking env enrollment m0 (create_calendar_event client (event_request env updates attendees m0) db)"
  by (simp add: record_booking_def close_booking_def answer_meeting_def after_booking_def Let_def create_calendar_event_def
      split: sum.split option.split)

fun book_row ::
  "env \<Rightarrow> CalendarClient \<Rightarrow> bool option \<Rightarrow> MeetingAttendee list \<Rightarrow> SequenceEnrollment option \<Rightarrow> db \<Rightarrow> MeetingHandoff
     \<Rightarrow> error + db \<Rightarrow> (error + dict) \<times> db" where
  "book_row env client updates attendees enrollment db m (Inl e) = (Inl e, db)"
| "book_row env client updates attendees enrollment db m (Inr db2) = record_booking env client updates attendees enrollment m db2"

definition insert_row ::
  "env \<Rightarrow> CalendarClient \<Rightarrow> bool option \<Rightarrow> MeetingAttendee list \<Rightarrow> SequenceEnrollment option \<Rightarrow> db \<Rightarrow> MeetingHandoff \<Rightarrow> (error + dict) \<times> db" where
  "insert_row env client updates attendees enrollment db m =
     book_row env client updates attendees enrollment db m (flush env (add_meeting m db))"

fun book_subject ::
  "env \<Rightarrow> CalendarClient \<Rightarrow> MeetingCreateRequest \<Rightarrow> string \<Rightarrow> string
     \<Rightarrow> CrmTarget \<times> Contact option \<times> MeetingAttendee list \<times> SequenceEnrollment option \<Rightarrow> string \<times> db \<Rightarrow> (error + dict) \<times> db" where
  "book_subject env client q actor key (t, contact, attendees, enrollment) (row_id, db) =
     insert_row env client (mcr_send_updates q) attendees enrollment db
       (meeting_row env q actor key (calendar_provider client) t contact enrollment attendees row_id)"

lemma create_meeting_body_code [code]:
  "create_meeting_body env client q actor key db =
     (case List.find (\<lambda>m. mtg_idempotency_key m = key) (meeting_handoffs db) of
        Some m \<Rightarrow> (meeting_to_model_with_children m db, db)
      | None \<Rightarrow>
          (case meeting_subject env q db of
             Inl e \<Rightarrow> (Inl e, db)
           | Inr x \<Rightarrow> book_subject env client q actor key x (draw_uuid env db)))"
  by (auto simp: create_meeting_body_def insert_row_def draw_uuid_def Let_def split: option.split sum.split)

definition store_sync :: "MeetingFollowUpTask list \<Rightarrow> db \<Rightarrow> MeetingHandoff \<Rightarrow> (error + MeetingHandoff) \<times> db" where
  "store_sync tasks db m = (Inr m, put_tasks tasks (put_meeting m db))"

definition store_synced ::
  "env \<Rightarrow> CrmExportResult \<Rightarrow> MeetingFollowUpTask list \<Rightarrow> db \<Rightarrow> MeetingHandoff \<Rightarrow> (error + MeetingHandoff) \<times> db" where
  "store_synced env r tasks db m =
     (Inr m, meeting_event env CRM_SYNCED ''meeting_handoff'' (mtg_id m) (synced_payload m r) (synced_key m) CRM_SERVICE_NAME
               (put_tasks tasks (put_meeting m db)))"

fun conclude_sync ::
  "env \<Rightarrow> MeetingHandoff \<Rightarrow> MeetingFollowUpTask list \<Rightarrow> (error + CrmExportResult) \<times> db \<Rightarrow> (error + MeetingHandoff) \<times> db" where
  "conclude_sync env m tasks (Inl e, db) =
     (if sync_caught e then store_sync (map (failed_sync_task env e) tasks) db (failed_sync_meeting env e m) else (Inl e, db))"
| "conclude_sync env m tasks (Inr r, db) = store_synced env r (map (synced_task env r) tasks) db (synced_meeting env m)"

definition sync_tasks :: "env \<Rightarrow> crm_access \<Rightarrow> string \<Rightarrow> MeetingHandoff \<Rightarrow> db \<Rightarrow> MeetingFollowUpTask list \<Rightarrow> (error + MeetingHandoff) \<times> db" where
  "sync_tasks env crm actor m db tasks = conclude_sync env m tasks (sync_outcome env crm (crm_sync_plan env actor m tasks) db)"

lemma sync_meeting_code [code]: "sync_meeting_to_crm env crm actor m db = sync_tasks env crm actor m db (tasks_to_sync (mtg_id m) db)"
  by (auto simp: sync_meeting_to_crm_def sync_tasks_def store_sync_def store_synced_def Let_def split: prod.split sum.split)

fun answer_sync :: "(error + MeetingHandoff) \<times> db \<Rightarrow> (error + dict option) \<times> db" where
  "answer_sync (Inl e, db) = (Inl e, db)"
| "answer_sync (Inr m, db) = (map_sum id Some (meeting_to_model_with_children m db), db)"

definition outcome_recorded :: "env \<Rightarrow> string \<Rightarrow> MeetingHandoff \<Rightarrow> db \<Rightarrow> db" where
  "outcome_recorded env key m db =
     meeting_event env MEETING_OUTCOME_RECORDED ''meeting_handoff'' (mtg_id m) (meeting_to_api m) (outcome_key (mtg_id m) key)
       MEETING_SERVICE_NAME db"

fun conclude_outcome ::
  "env \<Rightarrow> crm_access \<Rightarrow> string \<Rightarrow> string \<Rightarrow> MeetingHandoff \<Rightarrow> (error + MeetingFollowUpTask list) \<times> db \<Rightarrow> (error + dict option) \<times> db" where
  "conclude_outcome env crm actor key m (Inl e, db) = (Inl e, db)"
| "conclude_outcome env crm actor key m (Inr tasks, db) =
     answer_sync (sync_meeting_to_crm env crm actor m (fold (task_event env) tasks (outcome_recorded env key m db)))"

definition write_outcome ::
  "env \<Rightarrow> crm_access \<Rightarrow> MeetingOutcomeRequest \<Rightarrow> string \<Rightarrow> string \<Rightarrow> db \<Rightarrow> MeetingHandoff \<Rightarrow> (error + dict option) \<times> db" where
  "write_outcome env crm q actor key db m =
     conclude_outcome env crm actor key m (create_follow_up_tasks env (mtg_id m) (mor_follow_up_tasks q) (put_meeting m db))"

lemma record_outcome_code [code]:
  "record_outcome_body env crm meeting_id q actor key db =
     (case get_meeting meeting_id db of
        None \<Rightarrow> (Inr None, db)
      | Some m \<Rightarrow>
          if outcome_key (mtg_id m) key \<in> obx_idempotency_key ` set (outbox_events db)
          then (map_sum id Some (meeting_to_model_with_children m db), db)
          else write_outcome env crm q actor key db (outcome_meeting env q m))"
  by (auto simp: record_outcome_body_def write_outcome_def outcome_recorded_def Let_def split: option.split prod.split sum.split)

lemma retry_sync_code [code]:
  "retry_sync_body env crm meeting_id actor db =
     (case get_meeting meeting_id db of
        None \<Rightarrow> (Inr None, db)
      | Some m \<Rightarrow> answer_sync (sync_meeting_to_crm env crm actor m db))"
  by (auto simp: retry_sync_body_def split: option.split prod.split sum.split)

section \<open>Booking\<close>

theorem meeting_invite_gate_witness:
  "\<exists>ev. effects (snd (create_meeting example_env local_calendars sample_meeting_request ''alex'' ''mk1'' outreach_db)) = [CalendarCreate ev]
     \<and> cal_attendees ev \<noteq> [] \<and> contact_for_meeting sample_target None outreach_db = Inr (Some sample_contact)"
proof -
  let ?run = "create_meeting example_env local_calendars sample_meeting_request ''alex'' ''mk1'' outreach_db"
  have "effects (snd ?run) \<noteq> effects outreach_db" by code_simp
  moreover have "get_crm_target ''t1'' outreach_db = Some sample_target"
    "contact_for_meeting sample_target None outreach_db = Inr (Some sample_contact)" by code_simp+
  ultimately show ?thesis
    using meeting_invite_gate [OF prod.collapse [symmetric], of example_env local_calendars sample_meeting_request "''alex''" "''mk1''" outreach_db]
    by (auto simp: sample_rows sample_meeting_request_def)
qed


theorem unsubscribe_stops_invites_witness:
  "\<exists>m db1 r db' err. process_inbound_email_event example_env sample_unsubscribe ''ik1'' outreach_db = (Inr m, db1)
     \<and> send_next_sequence_step example_env ''e1'' db1 = (Inr r, db')
     \<and> create_meeting example_env local_calendars sample_meeting_request ''alex'' ''mk1'' db' = (Inl err, db')"
proof -
  have "succeeds (process_inbound_email_event example_env sample_unsubscribe ''ik1'' outreach_db)
      (\<lambda>r db1. succeeds (send_next_sequence_step example_env ''e1'' db1) (\<lambda>r' db'. meeting_handoffs db' = []))" by code_simp
  then obtain m db1 r db' where run: "process_inbound_email_event example_env sample_unsubscribe ''ik1'' outreach_db = (Inr m, db1)"
    and sched: "send_next_sequence_step example_env ''e1'' db1 = (Inr r, db')"
    and new: "''mk1'' \<notin> mtg_idempotency_key ` set (meeting_handoffs db')"
    by (auto elim!: succeedsE)
  have hist: "service_step\<^sup>*\<^sup>* db1 db'"
    using outreach_step.enrollments [OF enrollment_step.schedule [OF sched]]
    by (intro r_into_rtranclp) (simp add: service_step_def)
  let ?a = "\<lparr>att_email = ''Dana@acme.io'', att_name = None, att_optional = False\<rparr>"
  have q: "iec_event_type sample_unsubscribe = UNSUBSCRIBE" "unsubscribe_address sample_unsubscribe \<noteq> []"
      "py_lower (payload_text (iec_provider_payload sample_unsubscribe) ''channel'' ''email'') = ''email''"
    and a: "?a \<in> set (mcr_attendees sample_meeting_request)" "py_lower (att_email ?a) = unsubscribe_address sample_unsubscribe"
    by code_simp+
  have none: "\<forall>s. active_suppression (unsubscribe_address sample_unsubscribe) ''email'' outreach_db = Some s
      \<longrightarrow> (case sup_expires_at s of None \<Rightarrow> True | Some t \<Rightarrow> t > env_now example_env)"
    by (simp add: active_suppression_def sample_rows)
  from unsubscribe_stops_invites [OF run sample_rows(8) q none hist a new, of local_calendars "''alex''"] run sched
  show ?thesis by blast
qed

section \<open>Outcomes and synchronisation\<close>

lemma no_outcome_yet: "outcome_key i key \<notin> obx_idempotency_key ` set (outbox_events meeting_db)"
  by (simp add: meeting_db_def outreach_db_def sequence_db_def empty_db_def)

theorem resync_raises_witness:
  "\<exists>d db1 r db' e db''. retry_meeting_crm_sync example_env working_crm ''m1'' ''alex'' meeting_db = (Inr (Some d), db1)
     \<and> generate_meeting_prep_packet example_env ''m1'' ''alex'' (Some ''pk1'') db1 = (Inr r, db')
     \<and> retry_meeting_crm_sync example_env working_crm ''m1'' ''alex'' db' = (Inl e, db'')"
proof -
  have "succeeds (retry_meeting_crm_sync example_env working_crm ''m1'' ''alex'' meeting_db)
      (\<lambda>r db1. case r of None \<Rightarrow> False | Some d \<Rightarrow> dict_get d ''crm_sync_status'' = JStr ''succeeded''
         \<and> map_option mtg_version (get_meeting ''m1'' db1) = Some 1
         \<and> succeeds (generate_meeting_prep_packet example_env ''m1'' ''alex'' (Some ''pk1'') db1)
             (\<lambda>r' db'. map_option mtg_version (get_meeting ''m1'' db') = Some 1))" by code_simp
  then obtain d db1 r db' m1 m where run: "retry_meeting_crm_sync example_env working_crm ''m1'' ''alex'' meeting_db = (Inr (Some d), db1)"
      and ok: "dict_get d ''crm_sync_status'' = JStr ''succeeded''"
      and packet: "generate_meeting_prep_packet example_env ''m1'' ''alex'' (Some ''pk1'') db1 = (Inr r, db')"
      and m: "get_meeting ''m1'' db1 = Some m1" "get_meeting ''m1'' db' = Some m" "mtg_version m = mtg_version m1"
    by (auto elim!: succeedsE split: option.splits)
  have hist: "meeting_history_step\<^sup>*\<^sup>* db1 db'" by (rule r_into_rtranclp) (rule meeting_history_step.packet [OF packet])
  let ?c = "\<lparr>client_identity = ''crm'', client_export = (\<lambda>_ _. Inr crm_result), client_sync = (\<lambda>_ _. Inr crm_result)\<rparr>"
  have "resolve_client example_env (crm_http working_crm) (given_crm working_crm) = Inr ?c"
    by (simp add: resolve_client_def working_crm_def allowed_client_def assert_adapter_allowed_def example_env_def example_settings_def
        strict_runtime_def)
  from resync_raises [OF run ok hist m admitted_example this, of "''alex''"] run packet show ?thesis by auto
qed

theorem failed_sync_sticks_witness:
  "\<exists>d db1 d' db2 m. record_meeting_outcome example_env busy_crm ''m1'' sample_outcome ''alex'' ''ok1'' meeting_db = (Inr (Some d), db1)
     \<and> retry_meeting_crm_sync example_env working_crm ''m1'' ''alex'' db1 = (Inr (Some d'), db2)
     \<and> get_meeting ''m1'' db2 = Some m \<and> mtg_crm_sync_status m = ''succeeded'' \<and> mtg_status m = ''failed_sync''"
proof -
  have "succeeds (record_meeting_outcome example_env busy_crm ''m1'' sample_outcome ''alex'' ''ok1'' meeting_db)
      (\<lambda>r db1. case r of None \<Rightarrow> False | Some d \<Rightarrow> dict_get d ''crm_sync_status'' = JStr ''failed_retryable''
         \<and> succeeds (retry_meeting_crm_sync example_env working_crm ''m1'' ''alex'' db1)
             (\<lambda>r' db2. case r' of None \<Rightarrow> False | Some d' \<Rightarrow> dict_get d' ''crm_sync_status'' = JStr ''succeeded''))" by code_simp
  then obtain d db1 d' db2 where run: "record_meeting_outcome example_env busy_crm ''m1'' sample_outcome ''alex'' ''ok1'' meeting_db = (Inr (Some d), db1)"
      and bad: "dict_get d ''crm_sync_status'' = JStr ''failed_retryable''"
      and retry: "retry_meeting_crm_sync example_env working_crm ''m1'' ''alex'' db1 = (Inr (Some d'), db2)"
      and ok: "dict_get d' ''crm_sync_status'' = JStr ''succeeded''"
    by (auto elim!: succeedsE split: option.splits)
  from failed_sync_sticks [OF run no_outcome_yet bad retry ok] run retry show ?thesis by blast
qed

theorem repeated_task_blocks_outcome_witness:
  "\<exists>d db' e db''. record_meeting_outcome example_env working_crm ''m1'' sample_outcome ''alex'' ''ok1'' meeting_db = (Inr (Some d), db')
     \<and> record_meeting_outcome example_env working_crm ''m1'' sample_outcome ''alex'' ''ok2'' db' = (Inl e, db'')"
proof -
  have "succeeds (record_meeting_outcome example_env working_crm ''m1'' sample_outcome ''alex'' ''ok1'' meeting_db)
      (\<lambda>r db'. r \<noteq> None \<and> outcome_key ''m1'' ''ok2'' \<notin> obx_idempotency_key ` set (outbox_events db'))" by code_simp
  then obtain d db' where run: "record_meeting_outcome example_env working_crm ''m1'' sample_outcome ''alex'' ''ok1'' meeting_db = (Inr (Some d), db')"
      and new: "outcome_key ''m1'' ''ok2'' \<notin> obx_idempotency_key ` set (outbox_events db')"
    by (auto elim!: succeedsE)
  have tasks: "mor_follow_up_tasks sample_outcome = sample_task # []" by (simp add: sample_outcome_def)
  from repeated_task_blocks_outcome [OF run no_outcome_yet tasks new tasks refl admitted_example] run show ?thesis by blast
qed

section \<open>Histories and steps\<close>

theorem meeting_reads_succeed_witness:
  "\<exists>d. get_meeting_handoff example_env ''m1'' (snd (cancel_meeting example_env local_calendars ''m1'' ''moved'' meeting_db))
     = (Inr d, snd (cancel_meeting example_env local_calendars ''m1'' ''moved'' meeting_db))"
proof -
  have "meeting_history_step\<^sup>*\<^sup>* meeting_db (snd (cancel_meeting example_env local_calendars ''m1'' ''moved'' meeting_db))"
    by (rule r_into_rtranclp) (rule meeting_history_step.cancel [OF prod.collapse [symmetric]])
  from meeting_reads_succeed [OF this meeting_samples_ok(1,2) admitted_example, of "''m1''" None None 10] show ?thesis by blast
qed

theorem step_booking_completes_twice_witness:
  "\<exists>d db' e. schedule_sequence_meeting_activity example_env local_calendars ''a1'' sample_schedule ''alex'' meet_db = (Inr (Some d), db')
     \<and> get_enrollment ''e1'' db' = Some e \<and> enr_version e = 3 \<and> enr_status e = ''completed''"
proof -
  let ?a = "sample_activity\<lparr>act_channel := ''google_meet'', act_status := ''pending'', act_outbound_email_id := None\<rparr>"
  have "succeeds (schedule_sequence_meeting_activity example_env local_calendars ''a1'' sample_schedule ''alex'' meet_db)
      (\<lambda>r db'. r \<noteq> None)"
    and rows: "get_activity ''a1'' meet_db = Some ?a" "get_enrollment (act_enrollment_id ?a) meet_db = Some sample_enrollment"
      "enr_status sample_enrollment = ''active''" "enr_id sample_enrollment \<noteq> []"
      "''sequence-meeting:'' @ ''a1'' \<notin> mtg_idempotency_key ` set (meeting_handoffs meet_db)"
    and i: "enr_id sample_enrollment = ''e1''" "enr_version sample_enrollment = 1"
    by code_simp+
  then obtain d db' where run: "schedule_sequence_meeting_activity example_env local_calendars ''a1'' sample_schedule ''alex'' meet_db
      = (Inr (Some d), db')" by (auto elim!: succeedsE)
  from step_booking_completes_twice [OF run rows] run show ?thesis by (auto simp: i)
qed

end
