(* ===== verification/Configuration.thy ===== *)
theory Configuration
  imports Meetings
begin

text \<open>
  The validation of the settings at start-up (\<open>common/configuration.py\<close>): which settings each service
  needs, and the issues that keep it from starting in a strict profile.

  The settings are the record \<open>Deployment\<close>: those the services read, extended by those the validation reads.  A URL setting is the
  text of a URL that pydantic accepted.  \<open>urlsplit\<close> is modelled on ASCII text.  Parameters are the check of an RSA
  key (\<open>cryptography\<close>) and, for IPv6 literals alone, what the library says of a network location with
  brackets and of an address with a dotted part.
\<close>

section \<open>Enumerations and requirements\<close>

datatype ServiceName =
    SVC_GATEWAY | SVC_EVENT_INTELLIGENCE | SVC_INCIDENT_INTELLIGENCE | SVC_ENRICHMENT | SVC_EMAIL_INTELLIGENCE | SVC_CRM
  | SVC_SEQUENCING | SVC_MEETING_HANDOFF | SVC_SCORING_ROUTING | SVC_GOVERNANCE | SVC_REPORTING | SVC_INGESTION
  | SVC_CONSOLE | SVC_WORKER | SVC_SCHEDULER | SVC_MIGRATION

fun service_value :: "ServiceName \<Rightarrow> string" where
  "service_value SVC_GATEWAY = ''gateway-service''"
| "service_value SVC_EVENT_INTELLIGENCE = ''event-intelligence-service''"
| "service_value SVC_INCIDENT_INTELLIGENCE = ''incident-intelligence-service''"
| "service_value SVC_ENRICHMENT = ''enrichment-service''"
| "service_value SVC_EMAIL_INTELLIGENCE = ''email-intelligence-service''"
| "service_value SVC_CRM = ''crm-service''"
| "service_value SVC_SEQUENCING = ''sequencing-service''"
| "service_value SVC_MEETING_HANDOFF = ''meeting-handoff-service''"
| "service_value SVC_SCORING_ROUTING = ''scoring-routing-service''"
| "service_value SVC_GOVERNANCE = ''governance-service''"
| "service_value SVC_REPORTING = ''reporting-service''"
| "service_value SVC_INGESTION = ''ingestion-service''"
| "service_value SVC_CONSOLE = ''console-service''"
| "service_value SVC_WORKER = ''worker''"
| "service_value SVC_SCHEDULER = ''scheduler''"
| "service_value SVC_MIGRATION = ''migration-job''"

fun profile_value :: "RuntimeProfile \<Rightarrow> string" where
  "profile_value LOCAL = ''local''"
| "profile_value TEST = ''test''"
| "profile_value STAGING = ''staging''"
| "profile_value PRODUCTION = ''production''"

datatype GeocoderProvider = NOMINATIM | GEOCODER_LOCAL_DEMO | GEOCODER_DISABLED
datatype SearchProviderName = OPENSERP | SEARCH_LOCAL_DEMO | SEARCH_DISABLED
datatype NewsProviderName = SERPAPI | NEWS_LOCAL_DEMO | NEWS_DISABLED
datatype EmailVerifierProvider = HTTP_VERIFIER | VERIFIER_DISABLED
datatype SmtpProvider = SMTP_LIVE | SMTP_DISABLED
datatype ImapProvider = IMAP_LIVE | IMAP_DISABLED

fun geocoder_value :: "GeocoderProvider \<Rightarrow> string" where
  "geocoder_value NOMINATIM = ''nominatim''"
| "geocoder_value GEOCODER_LOCAL_DEMO = ''local_demo''"
| "geocoder_value GEOCODER_DISABLED = ''disabled''"

fun search_value :: "SearchProviderName \<Rightarrow> string" where
  "search_value OPENSERP = ''openserp''"
| "search_value SEARCH_LOCAL_DEMO = ''local_demo''"
| "search_value SEARCH_DISABLED = ''disabled''"

fun news_value :: "NewsProviderName \<Rightarrow> string" where
  "news_value SERPAPI = ''serpapi''"
| "news_value NEWS_LOCAL_DEMO = ''local_demo''"
| "news_value NEWS_DISABLED = ''disabled''"

fun crm_value :: "CrmProvider \<Rightarrow> string" where
  "crm_value ATTIO = ''attio''"
| "crm_value LOCAL_DEMO = ''local_demo''"
| "crm_value CRM_DISABLED = ''disabled''"

fun calendar_value :: "CalendarProvider \<Rightarrow> string" where
  "calendar_value GOOGLE = ''google''"
| "calendar_value FAKE = ''fake''"
| "calendar_value CALENDAR_DISABLED = ''disabled''"

fun verifier_value :: "EmailVerifierProvider \<Rightarrow> string" where
  "verifier_value HTTP_VERIFIER = ''http''"
| "verifier_value VERIFIER_DISABLED = ''disabled''"

fun smtp_value :: "SmtpProvider \<Rightarrow> string" where
  "smtp_value SMTP_LIVE = ''smtp''"
| "smtp_value SMTP_DISABLED = ''disabled''"

fun imap_value :: "ImapProvider \<Rightarrow> string" where
  "imap_value IMAP_LIVE = ''imap''"
| "imap_value IMAP_DISABLED = ''disabled''"

text \<open>A requirement by the name of its setting.\<close>

definition ALL_LIVE_PROVIDERS :: "string list" where
  "ALL_LIVE_PROVIDERS =
     [''geocoder_provider'', ''search_provider'', ''news_provider'', ''email_verifier_provider'', ''crm_provider'',
      ''calendar_provider'', ''smtp_provider'', ''imap_provider'', ''crawl_user_agent'']"

fun requirements_for :: "ServiceName \<Rightarrow> string list" where
  "requirements_for SVC_GATEWAY = [''database_url'', ''redis_url'']"
| "requirements_for SVC_EVENT_INTELLIGENCE = [''database_url'', ''geocoder_provider'']"
| "requirements_for SVC_INCIDENT_INTELLIGENCE = [''database_url'', ''news_provider'']"
| "requirements_for SVC_ENRICHMENT = [''database_url'', ''search_provider'', ''email_verifier_provider'', ''crawl_user_agent'']"
| "requirements_for SVC_EMAIL_INTELLIGENCE = [''database_url'', ''email_verifier_provider'']"
| "requirements_for SVC_CRM = [''database_url'', ''crm_provider'']"
| "requirements_for SVC_SEQUENCING = [''database_url'', ''crm_provider'', ''smtp_provider'', ''imap_provider'', ''calendar_provider'']"
| "requirements_for SVC_MEETING_HANDOFF = [''database_url'', ''crm_provider'', ''calendar_provider'']"
| "requirements_for SVC_SCORING_ROUTING = [''database_url'']"
| "requirements_for SVC_GOVERNANCE = [''database_url'']"
| "requirements_for SVC_REPORTING = [''database_url'']"
| "requirements_for SVC_INGESTION = [''database_url'']"
| "requirements_for SVC_CONSOLE = [''gateway_base_url'']"
| "requirements_for SVC_WORKER = ''database_url'' # ''redis_url'' # ALL_LIVE_PROVIDERS"
| "requirements_for SVC_SCHEDULER = [''redis_url'']"
| "requirements_for SVC_MIGRATION = [''database_url'']"

section \<open>Settings\<close>

record Deployment = Settings +
  dep_service_name :: ServiceName
  dep_database_url :: string
  dep_redis_url :: string
  dep_gateway_base_url :: string
  dep_attio_base_url :: string
  dep_nominatim_base_url :: string
  dep_serpapi_base_url :: string
  dep_openserp_base_url :: string
  dep_email_verifier_url :: string
  dep_geocoder_provider :: GeocoderProvider
  dep_search_provider :: SearchProviderName
  dep_news_provider :: NewsProviderName
  dep_email_verifier_provider :: EmailVerifierProvider
  dep_smtp_provider :: SmtpProvider
  dep_imap_provider :: ImapProvider
  dep_crawl_user_agent :: string
  dep_nominatim_user_agent :: string
  dep_serpapi_api_key :: "string option"
  dep_smtp_username :: "string option"
  dep_smtp_password :: "string option"
  dep_imap_host :: "string option"
  dep_imap_username :: "string option"
  dep_imap_password :: "string option"
  dep_authentication_backend :: string
  dep_service_identity :: "string option"
  dep_service_private_key_path :: "string option"
  dep_service_private_key_id :: "string option"
  dep_service_trust_bundle_path :: "string option"
  dep_oidc_issuer :: "string option"
  dep_oidc_client_id :: "string option"
  dep_oidc_redirect_uri :: "string option"
  dep_oidc_post_logout_redirect_uri :: "string option"
  dep_session_hmac_key :: "string option"
  dep_oidc_transaction_encryption_key :: "string option"
  dep_secure_cookies :: bool
  dep_allowed_cors_origins :: "string list"
  dep_trusted_proxy_cidrs :: "string list"
  dep_docs_enabled :: bool

text \<open>What \<open>getattr(settings, name)\<close> gives: nothing, a string (an enumeration member is one) or a URL object, which is
  not a string.\<close>

datatype setting = Absent | Text string | Link string

definition opt_text :: "string option \<Rightarrow> setting" where
  "opt_text v = (case v of None \<Rightarrow> Absent | Some s \<Rightarrow> Text s)"

definition setting_values :: "Deployment \<Rightarrow> (string \<times> setting) list" where
  "setting_values d =
     [(''database_url'', Link (dep_database_url d)), (''redis_url'', Link (dep_redis_url d)),
      (''gateway_base_url'', Link (dep_gateway_base_url d)),
      (''geocoder_provider'', Text (geocoder_value (dep_geocoder_provider d))),
      (''search_provider'', Text (search_value (dep_search_provider d))),
      (''news_provider'', Text (news_value (dep_news_provider d))),
      (''email_verifier_provider'', Text (verifier_value (dep_email_verifier_provider d))),
      (''crm_provider'', Text (crm_value (cfg_crm_provider d))),
      (''calendar_provider'', Text (calendar_value (cfg_calendar_provider d))),
      (''smtp_provider'', Text (smtp_value (dep_smtp_provider d))),
      (''imap_provider'', Text (imap_value (dep_imap_provider d))),
      (''crawl_user_agent'', Text (dep_crawl_user_agent d)), (''nominatim_user_agent'', Text (dep_nominatim_user_agent d)),
      (''serpapi_api_key'', opt_text (dep_serpapi_api_key d)), (''attio_access_token'', opt_text (cfg_attio_access_token d)),
      (''google_calendar_id'', opt_text (cfg_google_calendar_id d)),
      (''google_client_email'', opt_text (cfg_google_client_email d)),
      (''google_private_key'', opt_text (cfg_google_private_key d)),
      (''smtp_host'', opt_text (cfg_smtp_host d)), (''smtp_username'', opt_text (dep_smtp_username d)),
      (''smtp_password'', opt_text (dep_smtp_password d)), (''smtp_from_address'', Text (cfg_smtp_from_address d)),
      (''imap_host'', opt_text (dep_imap_host d)), (''imap_username'', opt_text (dep_imap_username d)),
      (''imap_password'', opt_text (dep_imap_password d)), (''service_identity'', opt_text (dep_service_identity d)),
      (''service_private_key_path'', opt_text (dep_service_private_key_path d)),
      (''service_private_key_id'', opt_text (dep_service_private_key_id d)),
      (''service_trust_bundle_path'', opt_text (dep_service_trust_bundle_path d)),
      (''audit_hmac_key'', opt_text (cfg_audit_hmac_key d)), (''oidc_issuer'', opt_text (dep_oidc_issuer d)),
      (''oidc_client_id'', opt_text (dep_oidc_client_id d)), (''oidc_redirect_uri'', opt_text (dep_oidc_redirect_uri d)),
      (''oidc_post_logout_redirect_uri'', opt_text (dep_oidc_post_logout_redirect_uri d)),
      (''session_hmac_key'', opt_text (dep_session_hmac_key d)),
      (''oidc_transaction_encryption_key'', opt_text (dep_oidc_transaction_encryption_key d))]"

text \<open>Every name the validation asks for is one of these.\<close>

definition setting_of :: "Deployment \<Rightarrow> string \<Rightarrow> setting" where
  "setting_of d name = (case map_of (setting_values d) name of Some v \<Rightarrow> v | None \<Rightarrow> Absent)"

section \<open>URLs and addresses\<close>

record SplitResult =
  url_scheme :: string
  url_netloc :: string
  url_path :: string
  url_query :: string
  url_fragment :: string

text \<open>The text after the first separator, and the text before the last one.\<close>

definition after_first :: "char \<Rightarrow> string \<Rightarrow> string" where
  "after_first c s = drop 1 (dropWhile (\<lambda>x. x \<noteq> c) s)"

definition before_last :: "char \<Rightarrow> string \<Rightarrow> string" where
  "before_last c s = rev (after_first c (rev s))"

definition is_alpha :: "char \<Rightarrow> bool" where
  "is_alpha c = (let n = (of_char c :: nat) in (65 \<le> n \<and> n \<le> 90) \<or> (97 \<le> n \<and> n \<le> 122))"

definition scheme_char :: "char \<Rightarrow> bool" where
  "scheme_char c = (is_alpha c \<or> is_digit c \<or> c \<in> set ''+-.'')"

text \<open>IPv6 literals: whether the library accepts a network location with brackets, and whether it reads a text with a dotted part
  as an address that is private, loopback or link-local.\<close>

record ipv6_facts =
  bracketed_netloc_ok :: "string \<Rightarrow> bool"
  ipv6_local :: "string \<Rightarrow> bool"

definition split_scheme :: "string \<Rightarrow> string \<times> string" where
  "split_scheme url =
     (let scheme = before_first (CHR '':'') url
      in if CHR '':'' \<in> set url \<and> scheme \<noteq> [] \<and> is_alpha (hd scheme) \<and> list_all scheme_char scheme
         then (py_lower scheme, after_first (CHR '':'') url) else ([], url))"

definition netloc_error :: "ipv6_facts \<Rightarrow> string \<Rightarrow> bool" where
  "netloc_error net netloc =
     (if CHR ''['' \<in> set netloc \<longleftrightarrow> CHR '']'' \<in> set netloc
      then CHR ''['' \<in> set netloc \<and> \<not> bracketed_netloc_ok net netloc
      else True)"

definition split_tail :: "string \<Rightarrow> string \<Rightarrow> string \<Rightarrow> SplitResult" where
  "split_tail scheme netloc rest =
     (let fragment = after_first (CHR ''#'') rest; rest1 = before_first (CHR ''#'') rest
      in \<lparr>url_scheme = scheme, url_netloc = netloc, url_path = before_first (CHR ''?'') rest1,
          url_query = after_first (CHR ''?'') rest1, url_fragment = fragment\<rparr>)"

text \<open>The characters \<open>urlsplit\<close> removes, and those that end the network location.\<close>

definition url_removed :: "char \<Rightarrow> bool" where
  "url_removed c = (c \<in> {CHR 0x09, CHR 0x0D, CHR 0x0A})"

definition netloc_end :: "char \<Rightarrow> bool" where
  "netloc_end c = (c \<in> set ''/?#'')"

definition urlsplit :: "ipv6_facts \<Rightarrow> string \<Rightarrow> error + SplitResult" where
  "urlsplit net raw =
     (let url = filter (\<lambda>c. \<not> url_removed c) (dropWhile (\<lambda>c. (of_char c :: nat) \<le> 32) raw);
          (scheme, rest) = split_scheme url
      in if take 2 rest = ''//''
         then (let netloc = takeWhile (\<lambda>c. \<not> netloc_end c) (drop 2 rest)
               in if netloc_error net netloc then Inl (ValueError ''Invalid IPv6 URL'')
                  else Inr (split_tail scheme netloc (drop (2 + length netloc) rest)))
         else Inr (split_tail scheme [] rest))"

definition url_username :: "SplitResult \<Rightarrow> string option" where
  "url_username u =
     (if CHR ''@'' \<in> set (url_netloc u) then Some (before_first (CHR '':'') (before_last (CHR ''@'') (url_netloc u))) else None)"

definition url_password :: "SplitResult \<Rightarrow> string option" where
  "url_password u =
     (let info = before_last (CHR ''@'') (url_netloc u)
      in if CHR ''@'' \<in> set (url_netloc u) \<and> CHR '':'' \<in> set info then Some (after_first (CHR '':'') info) else None)"

definition url_hostname :: "SplitResult \<Rightarrow> string option" where
  "url_hostname u =
     (let info = after_last (CHR ''@'') (url_netloc u);
          host = (if CHR ''['' \<in> set info then before_first (CHR '']'') (after_first (CHR ''['') info)
                  else before_first (CHR '':'') info)
      in if host = [] then None
         else Some (py_lower (before_first (CHR ''%'') host) @ dropWhile (\<lambda>c. c \<noteq> CHR ''%'') host))"

definition starts_with :: "string \<Rightarrow> string \<Rightarrow> bool" where
  "starts_with p s = (take (length p) s = p)"

definition ends_with :: "string \<Rightarrow> string \<Rightarrow> bool" where
  "ends_with p s = starts_with (rev p) (rev s)"

definition rstrip_dots :: "string \<Rightarrow> string" where
  "rstrip_dots s = rev (dropWhile (\<lambda>c. c = CHR ''.'') (rev s))"

fun split_on :: "char \<Rightarrow> string \<Rightarrow> string list" where
  "split_on c [] = [[]]"
| "split_on c (x # s) =
     (if x = c then [] # split_on c s else case split_on c s of [] \<Rightarrow> [[x]] | w # ws \<Rightarrow> (x # w) # ws)"

definition ipv4_octet :: "string \<Rightarrow> nat option" where
  "ipv4_octet s =
     (if s = [] \<or> \<not> list_all is_digit s \<or> 3 < length s \<or> (s \<noteq> ''0'' \<and> hd s = CHR ''0'') \<or> 255 < read_nat s
      then None else Some (read_nat s))"

definition ipv4_address :: "string \<Rightarrow> nat option" where
  "ipv4_address s =
     (case map ipv4_octet (split_on (CHR ''.'') s) of
        [Some a, Some b, Some c, Some e] \<Rightarrow> Some (((a * 256 + b) * 256 + c) * 256 + e)
      | _ \<Rightarrow> None)"

definition in_network :: "nat \<Rightarrow> nat \<Rightarrow> nat \<Rightarrow> bool" where
  "in_network network bits a = (a div 2 ^ (32 - bits) = network div 2 ^ (32 - bits))"

definition ipv4 :: "nat \<Rightarrow> nat \<Rightarrow> nat \<Rightarrow> nat \<Rightarrow> nat" where
  "ipv4 a b c e = ((a * 256 + b) * 256 + c) * 256 + e"

text \<open>The private networks of the library (loopback and link-local among them) and the two addresses it takes out again.\<close>

definition ipv4_private :: "nat \<Rightarrow> bool" where
  "ipv4_private a =
     (list_ex (\<lambda>(n, bits). in_network n bits a)
        [(0, 8), (ipv4 10 0 0 0, 8), (ipv4 127 0 0 0, 8), (ipv4 169 254 0 0, 16), (ipv4 172 16 0 0, 12), (ipv4 192 0 0 0, 24),
         (ipv4 192 0 0 170, 31), (ipv4 192 0 2 0, 24), (ipv4 192 168 0 0, 16), (ipv4 198 18 0 0, 15), (ipv4 198 51 100 0, 24),
         (ipv4 203 0 113 0, 24), (ipv4 240 0 0 0, 4), (ipv4 255 255 255 255, 32)]
      \<and> a \<notin> {ipv4 192 0 0 9, ipv4 192 0 0 10})"

definition is_placeholder :: "string \<Rightarrow> bool" where
  "is_placeholder v =
     (let s = py_lower (py_strip v)
      in s = [] \<or> starts_with ''replace_'' s \<or> starts_with ''replace-'' s \<or> s \<in> {''changeme'', ''change-me''})"

definition has_default_database_credentials :: "SplitResult \<Rightarrow> bool" where
  "has_default_database_credentials u =
     ((url_username u, url_password u) \<in>
        {(Some ''ghostrecon'', Some ''ghostrecon''), (Some ''postgres'', Some ''postgres'')})"

definition dsn_has_placeholder :: "SplitResult \<Rightarrow> bool" where
  "dsn_has_placeholder u = (is_placeholder (str_or (url_username u) []) \<or> is_placeholder (str_or (url_password u) []))"

definition is_example_address :: "string \<Rightarrow> bool" where
  "is_example_address v =
     (let domain = py_lower (after_last (CHR ''@'') v)
      in CHR ''@'' \<in> set v
         \<and> (domain \<in> {''example.com'', ''example.org'', ''example.net''} \<or> ends_with ''.test'' domain \<or> ends_with ''.invalid'' domain))"

definition is_safe_service_url :: "ipv6_facts \<Rightarrow> SplitResult \<Rightarrow> bool" where
  "is_safe_service_url net u =
     (if url_scheme u = ''https'' then True
      else if url_scheme u \<noteq> ''http'' then False
      else case url_hostname u of
        None \<Rightarrow> False
      | Some name \<Rightarrow>
          (let host = rstrip_dots (py_lower name)
           in if host = ''localhost'' \<or> CHR ''.'' \<notin> set host then True
              else if list_ex (\<lambda>p. ends_with p host) [''.internal'', ''.local'', ''.svc'', ''.cluster.local''] then True
              else case ipv4_address host of Some a \<Rightarrow> ipv4_private a | None \<Rightarrow> ipv6_local net host))"

definition is_identifying_user_agent :: "string \<Rightarrow> bool" where
  "is_identifying_user_agent v =
     (let s = py_lower (py_strip v)
      in s \<noteq> [] \<and> (CHR ''@'' \<in> set s \<or> is_substring ''http://'' s \<or> is_substring ''https://'' s) \<and> \<not> is_substring ''example.com'' s)"

section \<open>Issues\<close>

record ConfigurationIssue =
  iss_profile :: RuntimeProfile
  iss_service :: ServiceName
  iss_setting_name :: string
  iss_error_code :: string
  iss_remediation :: string

definition issue_as_dict :: "ConfigurationIssue \<Rightarrow> dict" where
  "issue_as_dict i =
     [(''profile'', JStr (profile_value (iss_profile i))), (''service'', JStr (service_value (iss_service i))),
      (''setting_name'', JStr (iss_setting_name i)), (''error_code'', JStr (iss_error_code i)),
      (''remediation'', JStr (iss_remediation i))]"

text \<open>\<open>_deduplicate\<close>: the first issue of each setting and code.\<close>

fun deduplicate :: "(string \<times> string) list \<Rightarrow> ConfigurationIssue list \<Rightarrow> ConfigurationIssue list" where
  "deduplicate seen [] = []"
| "deduplicate seen (i # is) =
     (let key = (iss_setting_name i, iss_error_code i)
      in if key \<in> set seen then deduplicate seen is else i # deduplicate (key # seen) is)"

text \<open>The checks in the order of the code; each gives the issues it appends.\<close>

definition blank :: "setting \<Rightarrow> bool" where
  "blank v = (case v of Absent \<Rightarrow> True | Text s \<Rightarrow> py_strip s = [] | Link _ \<Rightarrow> False)"

definition env_name :: "string \<Rightarrow> string" where
  "env_name name = ''set GHOSTRECON_'' @ map char_upper name"

type_synonym reporter = "string \<Rightarrow> string \<Rightarrow> string \<Rightarrow> ConfigurationIssue"

definition reporter_for :: "Deployment \<Rightarrow> ServiceName \<Rightarrow> reporter" where
  "reporter_for d svc name code remediation =
     \<lparr>iss_profile = cfg_profile d, iss_service = svc, iss_setting_name = name, iss_error_code = code, iss_remediation = remediation\<rparr>"

definition missing_issues :: "reporter \<Rightarrow> Deployment \<Rightarrow> ServiceName \<Rightarrow> ConfigurationIssue list" where
  "missing_issues issue d svc =
     map (\<lambda>name. issue name ''missing'' (env_name name)) (filter (\<lambda>name. blank (setting_of d name)) (requirements_for svc))"

definition PROVIDER_SETTINGS :: "string list" where
  "PROVIDER_SETTINGS =
     [''geocoder_provider'', ''search_provider'', ''news_provider'', ''email_verifier_provider'', ''crm_provider'',
      ''calendar_provider'', ''smtp_provider'', ''imap_provider'']"

definition NON_LIVE_VALUES :: "string list" where
  "NON_LIVE_VALUES = [''disabled'', ''fake'', ''local_demo'', ''local-demo'']"

definition provider_issues :: "reporter \<Rightarrow> Deployment \<Rightarrow> ServiceName \<Rightarrow> ConfigurationIssue list" where
  "provider_issues issue d svc =
     map (\<lambda>name. issue name ''non_live_provider'' ''select the supported live provider'')
       (filter (\<lambda>name. name \<in> set (requirements_for svc) \<and> setting_of d name \<in> Text ` set NON_LIVE_VALUES) PROVIDER_SETTINGS)"

definition CREDENTIALS :: "(string \<times> string list) list" where
  "CREDENTIALS =
     [(''news_provider'', [''serpapi_api_key'']), (''crm_provider'', [''attio_access_token'']),
      (''calendar_provider'', [''google_calendar_id'', ''google_client_email'', ''google_private_key'']),
      (''smtp_provider'', [''smtp_host'', ''smtp_username'', ''smtp_password'', ''smtp_from_address'']),
      (''imap_provider'', [''imap_host'', ''imap_username'', ''imap_password''])]"

definition credential_issue :: "reporter \<Rightarrow> Deployment \<Rightarrow> string \<Rightarrow> ConfigurationIssue list" where
  "credential_issue issue d name =
     (if blank (setting_of d name) then [issue name ''missing_credential'' (env_name name)]
      else case setting_of d name of
             Text s \<Rightarrow> if is_placeholder s then [issue name ''placeholder'' ''replace the placeholder with a deployment secret''] else []
           | _ \<Rightarrow> [])"

definition credential_issues :: "reporter \<Rightarrow> Deployment \<Rightarrow> ServiceName \<Rightarrow> ConfigurationIssue list" where
  "credential_issues issue d svc =
     concat (map (\<lambda>(owner, names). if owner \<in> set (requirements_for svc) then concat (map (credential_issue issue d) names) else [])
       CREDENTIALS)"

definition database_issues :: "ipv6_facts \<Rightarrow> reporter \<Rightarrow> Deployment \<Rightarrow> ServiceName \<Rightarrow> error + ConfigurationIssue list" where
  "database_issues net issue d svc =
     (if ''database_url'' \<notin> set (requirements_for svc) then Inr []
      else case urlsplit net (dep_database_url d) of
             Inl e \<Rightarrow> Inl e
           | Inr u \<Rightarrow>
               Inr ((if has_default_database_credentials u
                     then [issue ''database_url'' ''default_credentials'' ''use non-default database credentials''] else [])
                 @ (if dsn_has_placeholder u
                    then [issue ''database_url'' ''placeholder'' ''replace placeholder database credentials''] else [])))"

definition redis_issues :: "ipv6_facts \<Rightarrow> reporter \<Rightarrow> Deployment \<Rightarrow> ServiceName \<Rightarrow> error + ConfigurationIssue list" where
  "redis_issues net issue d svc =
     (if ''redis_url'' \<notin> set (requirements_for svc) then Inr []
      else if is_placeholder (dep_redis_url d) then Inr [issue ''redis_url'' ''placeholder'' ''configure a deployment Redis URL'']
      else case urlsplit net (dep_redis_url d) of
             Inl e \<Rightarrow> Inl e
           | Inr u \<Rightarrow>
               if dsn_has_placeholder u then Inr [issue ''redis_url'' ''placeholder'' ''configure a deployment Redis URL'']
               else if url_password u = None
               then Inr [issue ''redis_url'' ''default_credentials'' ''configure Redis authentication''] else Inr [])"

definition service_urls :: "Deployment \<Rightarrow> (string \<times> string \<times> string \<times> bool) list" where
  "service_urls d =
     [(''crm_provider'', ''attio_base_url'', dep_attio_base_url d, True),
      (''geocoder_provider'', ''nominatim_base_url'', dep_nominatim_base_url d, True),
      (''news_provider'', ''serpapi_base_url'', dep_serpapi_base_url d, True),
      (''search_provider'', ''openserp_base_url'', dep_openserp_base_url d, False),
      (''email_verifier_provider'', ''email_verifier_url'', dep_email_verifier_url d, False),
      (''gateway_base_url'', ''gateway_base_url'', dep_gateway_base_url d, False)]"

fun url_issues :: "ipv6_facts \<Rightarrow> reporter \<Rightarrow> ServiceName \<Rightarrow> string \<times> string \<times> string \<times> bool \<Rightarrow> error + ConfigurationIssue list" where
  "url_issues net issue svc (owner, name, url, is_public) =
     (if owner \<notin> set (requirements_for svc) then Inr []
      else case urlsplit net url of
             Inl e \<Rightarrow> Inl e
           | Inr u \<Rightarrow>
               Inr ((if url_username u \<noteq> None \<or> url_password u \<noteq> None
                     then [issue name ''credential_bearing_url'' ''move credentials to an owned secret setting''] else [])
                 @ (if is_public \<and> url_scheme u \<noteq> ''https''
                    then [issue name ''insecure_public_url'' ''use an HTTPS provider endpoint'']
                    else if \<not> is_public \<and> \<not> is_safe_service_url net u
                    then [issue name ''unsafe_url'' ''use HTTPS or an internal HTTP service URL''] else [])))"

definition user_agent_issues :: "reporter \<Rightarrow> Deployment \<Rightarrow> ServiceName \<Rightarrow> ConfigurationIssue list" where
  "user_agent_issues issue d svc =
     concat (map (\<lambda>(name, owner, agent).
         if owner \<in> set (requirements_for svc) \<and> \<not> is_identifying_user_agent agent
         then [issue name ''non_identifying_user_agent'' ''include a real operator URL or email address''] else [])
       [(''nominatim_user_agent'', ''geocoder_provider'', dep_nominatim_user_agent d),
        (''crawl_user_agent'', ''crawl_user_agent'', dep_crawl_user_agent d)])"

definition EXAMPLE_ADDRESSES :: "(string \<times> string list) list" where
  "EXAMPLE_ADDRESSES =
     [(''calendar_provider'', [''google_client_email'']), (''smtp_provider'', [''smtp_from_address'', ''smtp_username'']),
      (''imap_provider'', [''imap_username''])]"

definition example_issues :: "reporter \<Rightarrow> Deployment \<Rightarrow> ServiceName \<Rightarrow> ConfigurationIssue list" where
  "example_issues issue d svc =
     concat (map (\<lambda>(owner, names).
         if owner \<in> set (requirements_for svc)
         then map (\<lambda>name. issue name ''example_address'' ''configure a real deployment address'')
                (filter (\<lambda>name. case setting_of d name of Text s \<Rightarrow> s \<noteq> [] \<and> is_example_address s | _ \<Rightarrow> False) names)
         else []) EXAMPLE_ADDRESSES)"

definition private_key_issues :: "(string \<Rightarrow> bool) \<Rightarrow> reporter \<Rightarrow> Deployment \<Rightarrow> ServiceName \<Rightarrow> ConfigurationIssue list" where
  "private_key_issues is_rsa issue d svc =
     (if ''calendar_provider'' \<in> set (requirements_for svc) \<and> truthy_str (cfg_google_private_key d)
         \<and> \<not> is_rsa (str_or (cfg_google_private_key d) [])
      then [issue ''google_private_key'' ''malformed_private_key'' ''provide a PEM encoded RSA private key''] else [])"

text \<open>The code goes through a set here; the user agent of the crawler is the one required setting that can be reported, so the
  order does not matter.\<close>

definition placeholder_issues :: "reporter \<Rightarrow> Deployment \<Rightarrow> ServiceName \<Rightarrow> ConfigurationIssue list" where
  "placeholder_issues issue d svc =
     map (\<lambda>name. issue name ''placeholder'' (''set a non-placeholder value for '' @ name))
       (filter (\<lambda>name. case setting_of d name of Text s \<Rightarrow> is_placeholder s | _ \<Rightarrow> False) (requirements_for svc))"

definition security_names :: "ServiceName \<Rightarrow> string list" where
  "security_names svc =
     (if svc \<noteq> SVC_MIGRATION
      then [''service_identity'', ''service_private_key_path'', ''service_private_key_id'', ''service_trust_bundle_path''] else [])
     @ (if ''database_url'' \<in> set (requirements_for svc) then [''audit_hmac_key''] else [])
     @ (if svc = SVC_GATEWAY
        then [''oidc_issuer'', ''oidc_client_id'', ''oidc_redirect_uri'', ''oidc_post_logout_redirect_uri'', ''session_hmac_key'',
              ''oidc_transaction_encryption_key''] else [])"

definition security_issues :: "reporter \<Rightarrow> Deployment \<Rightarrow> ServiceName \<Rightarrow> ConfigurationIssue list" where
  "security_issues issue d svc =
     (if svc = SVC_GATEWAY \<and> dep_authentication_backend d = ''local_oidc''
      then [issue ''authentication_backend'' ''local_auth_forbidden'' ''select the oidc backend in staging and production''] else [])
     @ map (\<lambda>name. issue name ''missing_security_configuration'' (env_name name))
         (filter (\<lambda>name. blank (setting_of d name)) (security_names svc))"

definition issuer_issues :: "ipv6_facts \<Rightarrow> reporter \<Rightarrow> Deployment \<Rightarrow> ServiceName \<Rightarrow> error + ConfigurationIssue list" where
  "issuer_issues net issue d svc =
     (if svc = SVC_GATEWAY \<and> truthy_str (dep_oidc_issuer d)
      then (case urlsplit net (str_or (dep_oidc_issuer d) []) of
              Inl e \<Rightarrow> Inl e
            | Inr u \<Rightarrow>
                if url_scheme u \<noteq> ''https'' \<or> url_hostname u = None \<or> url_query u \<noteq> [] \<or> url_fragment u \<noteq> []
                then Inr [issue ''oidc_issuer'' ''unsafe_issuer'' ''configure an exact HTTPS issuer URL''] else Inr [])
      else Inr [])"

definition redirect_issues ::
  "ipv6_facts \<Rightarrow> reporter \<Rightarrow> ServiceName \<Rightarrow> string \<Rightarrow> string option \<Rightarrow> error + ConfigurationIssue list" where
  "redirect_issues net issue svc name uri =
     (if svc = SVC_GATEWAY \<and> truthy_str uri
      then (case urlsplit net (str_or uri []) of
              Inl e \<Rightarrow> Inl e
            | Inr u \<Rightarrow>
                if url_scheme u \<noteq> ''https'' \<or> url_hostname u = None \<or> url_fragment u \<noteq> []
                then Inr [issue name ''unsafe_redirect_uri'' ''configure an exact HTTPS redirect URI''] else Inr [])
      else Inr [])"

definition browser_issues :: "reporter \<Rightarrow> Deployment \<Rightarrow> ServiceName \<Rightarrow> ConfigurationIssue list" where
  "browser_issues issue d svc =
     (if svc = SVC_GATEWAY
      then (if dep_secure_cookies d then [] else [issue ''secure_cookies'' ''insecure_cookie'' ''enable Secure host-only cookies''])
         @ (if ''*'' \<in> set (dep_allowed_cors_origins d)
            then [issue ''allowed_cors_origins'' ''wildcard_cors'' ''configure exact browser origins''] else [])
         @ (if dep_trusted_proxy_cidrs d = []
            then [issue ''trusted_proxy_cidrs'' ''missing'' ''configure trusted ingress proxy CIDRs''] else [])
      else [])"

definition key_issues :: "reporter \<Rightarrow> Deployment \<Rightarrow> ConfigurationIssue list" where
  "key_issues issue d =
     map (\<lambda>name. issue name ''weak_key'' ''provide at least 256 bits of secret material'')
       (filter (\<lambda>name. case setting_of d name of Text s \<Rightarrow> s \<noteq> [] \<and> length s < 32 | _ \<Rightarrow> False)
          [''session_hmac_key'', ''oidc_transaction_encryption_key'', ''audit_hmac_key''])
     @ (if dep_docs_enabled d then [issue ''docs_enabled'' ''strict_docs_enabled'' ''disable docs by default in strict profiles''] else [])"

definition checks :: "ipv6_facts \<Rightarrow> (string \<Rightarrow> bool) \<Rightarrow> Deployment \<Rightarrow> ServiceName \<Rightarrow> (error + ConfigurationIssue list) list" where
  "checks net is_rsa d svc =
     (let issue = reporter_for d svc
      in [Inr (missing_issues issue d svc), Inr (provider_issues issue d svc), Inr (credential_issues issue d svc),
          database_issues net issue d svc, redis_issues net issue d svc]
         @ map (url_issues net issue svc) (service_urls d)
         @ [Inr (user_agent_issues issue d svc), Inr (example_issues issue d svc), Inr (private_key_issues is_rsa issue d svc),
            Inr (placeholder_issues issue d svc), Inr (security_issues issue d svc), issuer_issues net issue d svc,
            redirect_issues net issue svc ''oidc_redirect_uri'' (dep_oidc_redirect_uri d),
            redirect_issues net issue svc ''oidc_post_logout_redirect_uri'' (dep_oidc_post_logout_redirect_uri d),
            Inr (browser_issues issue d svc), Inr (key_issues issue d)])"

definition validate_configuration ::
  "ipv6_facts \<Rightarrow> (string \<Rightarrow> bool) \<Rightarrow> Deployment \<Rightarrow> ServiceName option \<Rightarrow> error + ConfigurationIssue list" where
  "validate_configuration net is_rsa d service =
     (if \<not> strict_runtime (Settings.truncate d) then Inr []
      else case collect (checks net is_rsa d (case service of Some s \<Rightarrow> s | None \<Rightarrow> dep_service_name d)) of
             Inl e \<Rightarrow> Inl e
           | Inr found \<Rightarrow> Inr (deduplicate [] (concat found)))"

definition issue_summary :: "ConfigurationIssue \<Rightarrow> string" where
  "issue_summary i = iss_setting_name i @ '': '' @ iss_error_code i @ '' ('' @ iss_remediation i @ '')''"

definition require_valid_configuration ::
  "ipv6_facts \<Rightarrow> (string \<Rightarrow> bool) \<Rightarrow> Deployment \<Rightarrow> ServiceName option \<Rightarrow> error option" where
  "require_valid_configuration net is_rsa d service =
     (case validate_configuration net is_rsa d service of
        Inl e \<Rightarrow> Some e
      | Inr [] \<Rightarrow> None
      | Inr issues \<Rightarrow> Some (RuntimeError (''configuration validation failed: '' @ join ''; '' (map issue_summary issues))))"

section \<open>What a valid configuration gives\<close>

definition issue_key :: "ConfigurationIssue \<Rightarrow> string \<times> string" where
  "issue_key i = (iss_setting_name i, iss_error_code i)"

lemma deduplicate_keys: "issue_key ` set (deduplicate seen is) = issue_key ` set is - set seen"
  by (induction "is" arbitrary: seen) (auto simp: issue_key_def Let_def)

lemma deduplicate_Nil [simp]: "deduplicate [] is = [] \<longleftrightarrow> is = []"
  using deduplicate_keys [of "[]" "is"] by auto

lemma reporter_key [simp]: "issue_key (reporter_for d svc name code r) = (name, code)"
  by (simp add: issue_key_def reporter_for_def)

lemma valid_checks:
  assumes "require_valid_configuration net is_rsa d (Some svc) = None" and "strict_runtime (Settings.truncate d)"
    and "c \<in> set (checks net is_rsa d svc)"
  shows "c = Inr []"
proof -
  obtain found where "collect (checks net is_rsa d svc) = Inr found" and "concat found = []"
    using assms(1,2) by (auto simp: require_valid_configuration_def validate_configuration_def split: sum.splits list.splits)
  then show ?thesis using assms(3) unfolding collect_Inr by auto
qed

text \<open>Any issue that a check reports keeps the service from starting.\<close>

lemma reported:
  assumes "strict_runtime (Settings.truncate d)" and "Inr is \<in> set (checks net is_rsa d svc)" and "i \<in> set is"
  shows "(\<exists>e. require_valid_configuration net is_rsa d (Some svc) = Some e)
    \<and> (\<forall>issues. validate_configuration net is_rsa d (Some svc) = Inr issues \<longrightarrow> issue_key i \<in> issue_key ` set issues)"
proof
  show "\<exists>e. require_valid_configuration net is_rsa d (Some svc) = Some e"
    using valid_checks [OF _ assms(1,2)] assms(3) by (cases "require_valid_configuration net is_rsa d (Some svc)") auto
  show "\<forall>issues. validate_configuration net is_rsa d (Some svc) = Inr issues \<longrightarrow> issue_key i \<in> issue_key ` set issues"
  proof (intro allI impI)
    fix issues
    assume "validate_configuration net is_rsa d (Some svc) = Inr issues"
    then obtain found where "checks net is_rsa d svc = map Inr found" and issues: "issues = deduplicate [] (concat found)"
      using assms(1) by (auto simp: validate_configuration_def collect_Inr split: sum.splits)
    with assms(2,3) have "i \<in> set (concat found)" by auto
    then show "issue_key i \<in> issue_key ` set issues" unfolding issues deduplicate_keys by simp
  qed
qed

lemma provider_live:
  assumes "provider_issues issue d svc = []" and "name \<in> set (requirements_for svc)" and "name \<in> set PROVIDER_SETTINGS"
  shows "setting_of d name \<notin> Text ` set NON_LIVE_VALUES"
  using assms by (auto simp: provider_issues_def filter_empty_conv)

lemma credential_given:
  assumes "credential_issues issue d svc = []" and "owner \<in> set (requirements_for svc)" and "(owner, names) \<in> set CREDENTIALS"
    and "name \<in> set names"
  shows "\<not> blank (setting_of d name)"
proof -
  have "credential_issue issue d name = []" using assms by (fastforce simp: credential_issues_def)
  then show ?thesis by (auto simp: credential_issue_def split: if_splits)
qed

lemma setting_values_simps:
  "setting_of d ''crm_provider'' = Text (crm_value (cfg_crm_provider d))"
  "setting_of d ''calendar_provider'' = Text (calendar_value (cfg_calendar_provider d))"
  "setting_of d ''attio_access_token'' = opt_text (cfg_attio_access_token d)"
  "setting_of d ''google_calendar_id'' = opt_text (cfg_google_calendar_id d)"
  "setting_of d ''google_client_email'' = opt_text (cfg_google_client_email d)"
  "setting_of d ''google_private_key'' = opt_text (cfg_google_private_key d)"
  "setting_of d ''smtp_host'' = opt_text (cfg_smtp_host d)"
  by (simp_all add: setting_of_def setting_values_def)

lemma not_blank_opt: "\<not> blank (opt_text v) \<Longrightarrow> \<exists>s. v = Some s \<and> s \<noteq> []"
  by (auto simp: blank_def opt_text_def py_strip_def split: option.splits)

text \<open>The live adapters carry none of the markers of a synthetic one.\<close>

lemma live_adapters_allowed:
  "assert_adapter_allowed cfg ''AttioCrmClient ghostrecon.services.crm_attio  '' capability = None"
  "assert_adapter_allowed cfg ''GoogleCalendarClient ghostrecon.services.calendar_adapters.google google '' capability = None"
  "assert_adapter_allowed cfg ''StdlibSmtpSender ghostrecon.services.sequence_adapters  '' capability = None"
proof -
  have "\<not> list_ex (\<lambda>m. is_substring m (py_lower ''AttioCrmClient ghostrecon.services.crm_attio  '')) SYNTHETIC_ADAPTER_MARKERS"
    and "\<not> list_ex (\<lambda>m. is_substring m (py_lower ''GoogleCalendarClient ghostrecon.services.calendar_adapters.google google ''))
        SYNTHETIC_ADAPTER_MARKERS"
    and "\<not> list_ex (\<lambda>m. is_substring m (py_lower ''StdlibSmtpSender ghostrecon.services.sequence_adapters  '')) SYNTHETIC_ADAPTER_MARKERS"
    by code_simp+
  then show "assert_adapter_allowed cfg ''AttioCrmClient ghostrecon.services.crm_attio  '' capability = None"
    and "assert_adapter_allowed cfg ''GoogleCalendarClient ghostrecon.services.calendar_adapters.google google '' capability = None"
    and "assert_adapter_allowed cfg ''StdlibSmtpSender ghostrecon.services.sequence_adapters  '' capability = None"
    by (simp_all only: assert_adapter_allowed_def simp_thms if_False)
qed

lemma crm_configured:
  assumes "cfg_crm_provider (env_settings env) = ATTIO" and "\<exists>s. cfg_attio_access_token (env_settings env) = Some s \<and> s \<noteq> []"
  shows "\<exists>c. attio_client (env_settings env) http = Inr c \<and> resolve_client env http None = Inr c"
  using assms
  by (auto simp: resolve_client_def crm_client_for_settings_def attio_client_def allowed_client_def live_adapters_allowed str_or_def)

lemma calendar_configured:
  assumes "cfg_calendar_provider (env_settings env) = GOOGLE" and "\<exists>s. cfg_google_calendar_id (env_settings env) = Some s \<and> s \<noteq> []"
    and "\<exists>s. cfg_google_client_email (env_settings env) = Some s \<and> s \<noteq> []"
    and "\<exists>s. cfg_google_private_key (env_settings env) = Some s \<and> s \<noteq> []"
  shows "\<exists>c. resolve_calendar env (configured_calendars cals) = Inr c \<and> calendar_provider c = ''google''"
  using assms
  by (auto simp: resolve_calendar_def calendar_client_for_settings_def configured_calendars_def google_calendar_def allowed_calendar_def
      live_adapters_allowed str_or_def truthy_str_def)

lemma sender_configured:
  assumes "\<exists>h. cfg_smtp_host (env_settings env) = Some h \<and> h \<noteq> []"
  shows "\<exists>s. stdlib_sender (env_settings env) transport = Inr s \<and> resolve_sender env transport None = Inr s"
  using assms by (auto simp: resolve_sender_def stdlib_sender_def str_or_def live_adapters_allowed)

lemma credential_present:
  assumes "credential_issues issue d svc = []" and "owner \<in> set (requirements_for svc)" and "(owner, names) \<in> set CREDENTIALS"
    and "name \<in> set names" and "setting_of d name = opt_text v"
  shows "\<exists>s. v = Some s \<and> s \<noteq> []"
  using credential_given [OF assms(1-4)] assms(5) not_blank_opt by simp

lemma crm_settings:
  assumes "provider_issues issue d svc = []" and "credential_issues issue d svc = []" and "''crm_provider'' \<in> set (requirements_for svc)"
  shows "cfg_crm_provider d = ATTIO \<and> (\<exists>s. cfg_attio_access_token d = Some s \<and> s \<noteq> [])"
proof
  from provider_live [OF assms(1,3)] show "cfg_crm_provider d = ATTIO"
    by (cases "cfg_crm_provider d") (simp_all add: setting_values_simps PROVIDER_SETTINGS_def NON_LIVE_VALUES_def)
  show "\<exists>s. cfg_attio_access_token d = Some s \<and> s \<noteq> []"
    by (rule credential_present [OF assms(2,3) _ _ setting_values_simps(3), of "[''attio_access_token'']"]) (simp_all add: CREDENTIALS_def)
qed

lemma calendar_settings:
  assumes "provider_issues issue d svc = []" and "credential_issues issue d svc = []" and "''calendar_provider'' \<in> set (requirements_for svc)"
  shows "cfg_calendar_provider d = GOOGLE \<and> (\<exists>s. cfg_google_calendar_id d = Some s \<and> s \<noteq> [])
    \<and> (\<exists>s. cfg_google_client_email d = Some s \<and> s \<noteq> []) \<and> (\<exists>s. cfg_google_private_key d = Some s \<and> s \<noteq> [])"
proof (intro conjI)
  from provider_live [OF assms(1,3)] show "cfg_calendar_provider d = GOOGLE"
    by (cases "cfg_calendar_provider d") (simp_all add: setting_values_simps PROVIDER_SETTINGS_def NON_LIVE_VALUES_def)
  let ?names = "[''google_calendar_id'', ''google_client_email'', ''google_private_key'']"
  have names: "(''calendar_provider'', ?names) \<in> set CREDENTIALS" by (simp add: CREDENTIALS_def)
  note present = credential_present [OF assms(2,3) names]
  show "\<exists>s. cfg_google_calendar_id d = Some s \<and> s \<noteq> []" by (rule present [OF _ setting_values_simps(4)]) simp
  show "\<exists>s. cfg_google_client_email d = Some s \<and> s \<noteq> []" by (rule present [OF _ setting_values_simps(5)]) simp
  show "\<exists>s. cfg_google_private_key d = Some s \<and> s \<noteq> []" by (rule present [OF _ setting_values_simps(6)]) simp
qed

text \<open>C17: A service that passes the validation in a strict profile can build the CRM client, the calendar client and the mail sender
  its requirements name, and none of the three is a stand-in: the CRM client is the one for Attio, the calendar is Google's, and the mail
  sender is the SMTP sender for a configured host.  (The geocoder, the search, news and verification providers and the mailbox are not
  covered.)\<close>

theorem started_service_has_clients:
  assumes "require_valid_configuration net is_rsa d (Some svc) = None" and "strict_runtime (Settings.truncate d)"
    and "env_settings env = Settings.truncate d"
  shows "(''crm_provider'' \<in> set (requirements_for svc)
      \<longrightarrow> (\<exists>c. attio_client (env_settings env) http = Inr c \<and> resolve_client env http None = Inr c))
    \<and> (''calendar_provider'' \<in> set (requirements_for svc)
      \<longrightarrow> (\<exists>c. resolve_calendar env (configured_calendars cals) = Inr c \<and> calendar_provider c = ''google''))
    \<and> (''smtp_provider'' \<in> set (requirements_for svc)
      \<longrightarrow> (\<exists>h. cfg_smtp_host (env_settings env) = Some h \<and> h \<noteq> [])
        \<and> (\<exists>s. stdlib_sender (env_settings env) transport = Inr s \<and> resolve_sender env transport None = Inr s))"
proof -
  let ?issue = "reporter_for d svc"
  have live: "provider_issues ?issue d svc = []" and given: "credential_issues ?issue d svc = []"
    using valid_checks [OF assms(1,2), of "Inr (provider_issues ?issue d svc)"]
      valid_checks [OF assms(1,2), of "Inr (credential_issues ?issue d svc)"] by (simp_all add: checks_def Let_def)
  have fields: "cfg_crm_provider (env_settings env) = cfg_crm_provider d" "cfg_attio_access_token (env_settings env) = cfg_attio_access_token d"
      "cfg_calendar_provider (env_settings env) = cfg_calendar_provider d" "cfg_google_calendar_id (env_settings env) = cfg_google_calendar_id d"
      "cfg_google_client_email (env_settings env) = cfg_google_client_email d"
      "cfg_google_private_key (env_settings env) = cfg_google_private_key d" "cfg_smtp_host (env_settings env) = cfg_smtp_host d"
    by (simp_all add: assms(3) Settings.defs)
  have "\<exists>h. cfg_smtp_host d = Some h \<and> h \<noteq> []" if "''smtp_provider'' \<in> set (requirements_for svc)"
    by (rule credential_present [OF given that _ _ setting_values_simps(7),
          of "[''smtp_host'', ''smtp_username'', ''smtp_password'', ''smtp_from_address'']"]) (simp_all add: CREDENTIALS_def)
  then show ?thesis
    using crm_settings [OF live given] calendar_settings [OF live given] crm_configured [of env http]
      calendar_configured [of env cals] sender_configured [of env transport] unfolding fields by blast
qed

section \<open>Redis URLs\<close>

text \<open>The parts of a URL whose network location is \<open>:password@host\<close>.\<close>

lemma takeWhile_unless: "\<forall>x \<in> set xs. P x \<Longrightarrow> takeWhile P (xs @ ys) = xs @ takeWhile P ys"
  by (induction xs) auto

lemma password_only_user:
  assumes "CHR ''@'' \<notin> set host" and that: "url_netloc u = CHR '':'' # password @ CHR ''@'' # host"
  shows "url_username u = Some []"
proof -
  have "before_last (CHR ''@'') (url_netloc u) = CHR '':'' # password"
    using assms that by (simp add: before_last_def after_first_def dropWhile_append)
  then show ?thesis using that by (simp add: url_username_def before_first_def)
qed

lemma dsn_without_user: "url_username u = Some [] \<Longrightarrow> dsn_has_placeholder u"
  by (simp add: dsn_has_placeholder_def is_placeholder_def str_or_def py_strip_def)

text \<open>A character that stays inside the network location.\<close>

definition netloc_char :: "char \<Rightarrow> bool" where
  "netloc_char c = (\<not> netloc_end c \<and> \<not> url_removed c \<and> c \<noteq> CHR ''['' \<and> c \<noteq> CHR '']'')"

lemma split_redis_scheme:
  assumes "scheme \<in> {''redis'', ''rediss''}"
  shows "split_scheme (scheme @ CHR '':'' # rest) = (scheme, rest)"
  using assms by (auto simp: split_scheme_def before_first_def after_first_def is_alpha_def scheme_char_def is_digit_def py_lower_def
      char_lower_def Let_def)

lemma split_redis:
  assumes "scheme \<in> {''redis'', ''rediss''}" and "list_all netloc_char netloc" and "list_all (\<lambda>c. \<not> url_removed c) tail"
    and "tail = [] \<or> netloc_end (hd tail)"
  shows "\<exists>u. urlsplit net (scheme @ CHR '':'' # ''//'' @ netloc @ tail) = Inr u \<and> url_netloc u = netloc"
proof -
  let ?url = "scheme @ CHR '':'' # ''//'' @ netloc @ tail"
  have head: "dropWhile (\<lambda>c. (of_char c :: nat) \<le> 32) ?url = ?url" using assms(1) by auto
  have kept: "\<forall>c \<in> set scheme \<union> set ''://''. \<not> url_removed c" using assms(1) by (auto simp: url_removed_def)
  have "list_all (\<lambda>c. \<not> url_removed c) netloc" using assms(2) by (auto simp: list_all_iff netloc_char_def)
  then have same: "filter (\<lambda>c. \<not> url_removed c) ?url = ?url"
    using kept assms(3) by (simp add: filter_id_conv list_all_iff)
  have "takeWhile (\<lambda>c. \<not> netloc_end c) (netloc @ tail) = netloc"
    using assms(2,4) by (cases tail) (simp_all add: takeWhile_unless list_all_iff netloc_char_def)
  moreover have "CHR ''['' \<notin> set netloc" "CHR '']'' \<notin> set netloc" using assms(2) by (auto simp: list_all_iff netloc_char_def)
  then have "\<not> netloc_error net netloc" by (simp add: netloc_error_def)
  ultimately show ?thesis
    unfolding urlsplit_def Let_def head same split_redis_scheme [OF assms(1)] by (simp add: split_tail_def Let_def)
qed

text \<open>C40: A Redis URL with a password and no user name, the form the deployment guide and the chart
  use, is reported as a placeholder in a strict profile, so no service that needs Redis starts with it.\<close>

theorem password_only_redis_refused:
  assumes "strict_runtime (Settings.truncate d)" and "''redis_url'' \<in> set (requirements_for svc)" and "scheme \<in> {''redis'', ''rediss''}"
    and "dep_redis_url d = scheme @ ''://:'' @ password @ ''@'' @ host @ tail"
    and "list_all netloc_char password" and "list_all netloc_char host" and "CHR ''@'' \<notin> set host"
    and "list_all (\<lambda>c. \<not> url_removed c) tail" and "tail = [] \<or> netloc_end (hd tail)"
  shows "(\<exists>e. require_valid_configuration net is_rsa d (Some svc) = Some e)
    \<and> (\<forall>issues. validate_configuration net is_rsa d (Some svc) = Inr issues
         \<longrightarrow> (''redis_url'', ''placeholder'') \<in> issue_key ` set issues)"
proof -
  let ?netloc = "CHR '':'' # password @ CHR ''@'' # host"
  have "list_all netloc_char ?netloc" using assms(5,6) by (simp add: netloc_char_def netloc_end_def url_removed_def)
  from split_redis [OF assms(3) this assms(8,9)] obtain u
    where u: "urlsplit net (dep_redis_url d) = Inr u" and netloc: "url_netloc u = ?netloc" by (auto simp: assms(4))
  from dsn_without_user [OF password_only_user [OF assms(7) netloc]]
  have "redis_issues net (reporter_for d svc) d svc
      = Inr [reporter_for d svc ''redis_url'' ''placeholder'' ''configure a deployment Redis URL'']"
    using assms(2) u by (simp add: redis_issues_def)
  then have "Inr [reporter_for d svc ''redis_url'' ''placeholder'' ''configure a deployment Redis URL''] \<in> set (checks net is_rsa d svc)"
    by (simp add: checks_def Let_def)
  from reported [OF assms(1) this] show ?thesis by simp
qed

end
