(* ===== verification/Perimeter.thy ===== *)
theory Perimeter
  imports Configuration
begin

text \<open>
  The outermost middleware of every service (\<open>security/perimeter.py\<close>, as \<open>common/service.py\<close> installs it): it bounds
  a request, refuses identity headers and unsafe transports, and marks every response.

  A request has its raw headers with lower-case names, as ASGI servers deliver them.  Its body is the list of messages
  still to be received; the application gets from each call of \<open>receive\<close> a message or an exception.  Whether the
  address of a client lies in one of the trusted proxy networks is a parameter, as is the random correlation id.
\<close>

section \<open>Requests\<close>

datatype Message = RequestBody string | Disconnect

record PerimeterRequest = HttpRequest +
  prq_query_string :: string
  prq_scheme :: string
  prq_receive :: "(error + Message) list"

record SecurityPerimeter =
  per_strict :: bool
  per_maximum_body_bytes :: nat
  per_maximum_header_bytes :: nat
  per_maximum_query_bytes :: nat
  per_internal_request :: "(PerimeterRequest \<Rightarrow> bool) option"
  per_allow_internal_headers :: bool
  per_allowed_origins :: "string list"
  per_trusted_proxy :: "string \<Rightarrow> bool"
  per_require_tls :: bool

definition LEGACY_IDENTITY_HEADERS :: "string set" where
  "LEGACY_IDENTITY_HEADERS = {''x-actor'', ''x-operator-role'', ''x-user'', ''x-user-role'', ''x-user-email''}"

definition RESERVED_INTERNAL_HEADERS :: "string set" where
  "RESERVED_INTERNAL_HEADERS = {''x-ghostrecon-obo'', ''x-ghostrecon-service-authorization''}"

definition correlation_ok :: "string \<Rightarrow> bool" where
  "correlation_ok s =
     (1 \<le> length s \<and> length s \<le> 128 \<and> list_all (\<lambda>c. is_alpha c \<or> is_digit c \<or> c \<in> set ''._-'') s)"

definition request_header :: "string \<Rightarrow> PerimeterRequest \<Rightarrow> string option" where
  "request_header name q = map_of (rq_headers q) name"

definition header_names :: "PerimeterRequest \<Rightarrow> string set" where
  "header_names q = py_lower ` fst ` set (rq_headers q)"

definition header_bytes :: "PerimeterRequest \<Rightarrow> nat" where
  "header_bytes q = sum_list (map (\<lambda>(name, v). length name + length v) (rq_headers q))"

definition content_lengths :: "PerimeterRequest \<Rightarrow> string list" where
  "content_lengths q = map snd (filter (\<lambda>(name, v). py_lower name = ''content-length'') (rq_headers q))"

definition content_too_large :: "nat \<Rightarrow> PerimeterRequest \<Rightarrow> bool" where
  "content_too_large maximum q =
     (case request_header ''content-length'' q of
        None \<Rightarrow> False
      | Some v \<Rightarrow> v \<noteq> [] \<and> (case parse_int v of None \<Rightarrow> True | Some n \<Rightarrow> int maximum < n))"

definition is_secure_request :: "SecurityPerimeter \<Rightarrow> PerimeterRequest \<Rightarrow> bool" where
  "is_secure_request p q =
     (prq_scheme q = ''https''
      \<or> (per_trusted_proxy p (str_or (rq_client q) []) \<and> request_header ''x-forwarded-proto'' q = Some ''https''))"

section \<open>Checks\<close>

definition SAFE_METHODS :: "string set" where
  "SAFE_METHODS = {''GET'', ''HEAD'', ''OPTIONS''}"

definition size_refusal :: "SecurityPerimeter \<Rightarrow> PerimeterRequest \<Rightarrow> HttpResponse option" where
  "size_refusal p q =
     (if header_bytes q > per_maximum_header_bytes p
      then Some (security_error 431 ''headers_too_large'' ''request headers exceed the configured limit'' (rq_correlation_id q))
      else if length (prq_query_string q) > per_maximum_query_bytes p
      then Some (security_error 414 ''query_too_large'' ''request query exceeds the configured limit'' (rq_correlation_id q))
      else if length (content_lengths q) > 1
      then Some (security_error 400 ''invalid_content_length'' ''request content length is invalid'' (rq_correlation_id q))
      else if content_too_large (per_maximum_body_bytes p) q
      then Some (security_error 413 ''body_too_large'' ''request body exceeds the configured limit'' (rq_correlation_id q))
      else None)"

definition header_refusal :: "SecurityPerimeter \<Rightarrow> PerimeterRequest \<Rightarrow> HttpResponse option" where
  "header_refusal p q =
     (if header_names q \<inter> LEGACY_IDENTITY_HEADERS \<noteq> {}
      then Some (security_error 400 ''reserved_identity_header'' ''caller identity headers are not accepted'' (rq_correlation_id q))
      else if per_strict p \<and> \<not> per_allow_internal_headers p \<and> header_names q \<inter> RESERVED_INTERNAL_HEADERS \<noteq> {}
           \<and> \<not> (case per_internal_request p of None \<Rightarrow> False | Some trusted \<Rightarrow> trusted q)
      then Some (security_error 400 ''reserved_internal_header'' ''reserved internal headers are not accepted'' (rq_correlation_id q))
      else None)"

definition content_type :: "PerimeterRequest \<Rightarrow> string" where
  "content_type q = before_first (CHR '';'') (case request_header ''content-type'' q of None \<Rightarrow> [] | Some v \<Rightarrow> v)"

definition strict_refusal :: "SecurityPerimeter \<Rightarrow> PerimeterRequest \<Rightarrow> HttpResponse option" where
  "strict_refusal p q =
     (if truthy_str (request_header ''origin'' q) \<and> str_or (request_header ''origin'' q) [] \<notin> set (per_allowed_origins p)
      then Some (security_error 403 ''origin_denied'' ''request origin is not allowed'' (rq_correlation_id q))
      else if rq_method q \<notin> SAFE_METHODS
           \<and> (case request_header ''content-encoding'' q of None \<Rightarrow> False | Some v \<Rightarrow> v \<noteq> ''identity'')
      then Some (security_error 415 ''content_encoding_denied'' ''compressed request bodies are not accepted'' (rq_correlation_id q))
      else if rq_method q \<notin> SAFE_METHODS \<and> content_type q \<noteq> ''application/json''
      then Some (security_error 415 ''json_required'' ''unsafe API requests require JSON'' (rq_correlation_id q))
      else if per_require_tls p \<and> \<not> is_secure_request p q
      then Some (security_error 400 ''tls_required'' ''HTTPS is required'' (rq_correlation_id q))
      else None)"

definition perimeter_refusal :: "SecurityPerimeter \<Rightarrow> PerimeterRequest \<Rightarrow> HttpResponse option" where
  "perimeter_refusal p q =
     (case size_refusal p q of
        Some r \<Rightarrow> Some r
      | None \<Rightarrow>
          (case header_refusal p q of
             Some r \<Rightarrow> Some r
           | None \<Rightarrow> if per_strict p then strict_refusal p q else None))"

text \<open>\<open>bounded_receive\<close>: the bytes of the messages are counted as they arrive.\<close>

fun bounded_receive :: "nat \<Rightarrow> nat \<Rightarrow> (error + Message) list \<Rightarrow> (error + Message) list" where
  "bounded_receive maximum consumed [] = []"
| "bounded_receive maximum consumed (Inl e # ms) = Inl e # bounded_receive maximum consumed ms"
| "bounded_receive maximum consumed (Inr Disconnect # ms) = Inr Disconnect # bounded_receive maximum consumed ms"
| "bounded_receive maximum consumed (Inr (RequestBody b) # ms) =
     (if consumed + length b > maximum then Inl (ValueError ''streamed request body exceeds the configured limit'')
      else Inr (RequestBody b)) # bounded_receive maximum (consumed + length b) ms"

section \<open>Responses\<close>

definition CONTENT_SECURITY_POLICY :: string where
  "CONTENT_SECURITY_POLICY =
     ''default-src 'self'; base-uri 'self'; frame-ancestors 'none'; ''
     @ ''object-src 'none'; form-action 'self'; script-src 'self'; ''
     @ ''style-src 'self'; img-src 'self' data:; connect-src 'self'' @ [CHR 0x27]"

definition base_headers :: "string \<Rightarrow> (string \<times> string) list" where
  "base_headers correlation_id =
     [(''x-correlation-id'', correlation_id), (''x-content-type-options'', ''nosniff''), (''referrer-policy'', ''no-referrer''),
      (''permissions-policy'', ''camera=(), microphone=(), geolocation=(), payment=(), usb=()''), (''x-frame-options'', ''DENY'')]"

definition strict_headers :: "string \<Rightarrow> (string \<times> string) list" where
  "strict_headers path =
     [(''content-security-policy'', CONTENT_SECURITY_POLICY),
      (''strict-transport-security'', ''max-age=31536000; includeSubDomains'')]
     @ (if path \<noteq> ''/healthz'' then [(''cache-control'', ''no-store'')] else [])"

definition set_headers :: "(string \<times> string) list \<Rightarrow> (string \<times> string) list \<Rightarrow> (string \<times> string) list" where
  "set_headers news hs = fold (\<lambda>(k, v). set_header k v) news hs"

definition marked_response :: "SecurityPerimeter \<Rightarrow> PerimeterRequest \<Rightarrow> HttpResponse \<Rightarrow> HttpResponse" where
  "marked_response p q r =
     r\<lparr>rs_headers := set_headers (base_headers (rq_correlation_id q) @ (if per_strict p then strict_headers (rq_path q) else []))
        (rs_headers r)\<rparr>"

definition correlated :: "string \<Rightarrow> PerimeterRequest \<Rightarrow> PerimeterRequest" where
  "correlated token q =
     (let given = (case request_header ''x-correlation-id'' q of None \<Rightarrow> [] | Some v \<Rightarrow> v)
      in q\<lparr>rq_correlation_id := if correlation_ok given then given else token\<rparr>)"

definition perimeter_dispatch ::
  "SecurityPerimeter \<Rightarrow> string \<Rightarrow> (PerimeterRequest \<Rightarrow> 's \<Rightarrow> (failure + HttpResponse) \<times> 's) \<Rightarrow> PerimeterRequest
     \<Rightarrow> 's \<Rightarrow> (failure + HttpResponse) \<times> 's" where
  "perimeter_dispatch p token call_next q0 s =
     (let q = correlated token q0
      in case perimeter_refusal p q of
           Some r \<Rightarrow> (Inr r, s)
         | None \<Rightarrow>
             (case call_next (q\<lparr>prq_receive := bounded_receive (per_maximum_body_bytes p) 0 (prq_receive q)\<rparr>) s of
                (Inl e, s') \<Rightarrow> (Inl e, s')
              | (Inr r, s') \<Rightarrow> (Inr (marked_response p q r), s')))"

text \<open>The perimeter that \<open>create_base_app\<close> installs.\<close>

definition base_perimeter :: "Deployment \<Rightarrow> (string list \<Rightarrow> string \<Rightarrow> bool) \<Rightarrow> SecurityPerimeter" where
  "base_perimeter d in_networks =
     \<lparr>per_strict = strict_runtime (Settings.truncate d), per_maximum_body_bytes = 1048576, per_maximum_header_bytes = 16384,
      per_maximum_query_bytes = 8192, per_internal_request = None, per_allow_internal_headers = True,
      per_allowed_origins = dep_allowed_cors_origins d, per_trusted_proxy = in_networks (dep_trusted_proxy_cidrs d),
      per_require_tls = (strict_runtime (Settings.truncate d) \<and> service_value (dep_service_name d) = ''gateway-service'')\<rparr>"

section \<open>What passes\<close>

text \<open>The bytes of the request body that the application can read from a list of messages.\<close>

fun body_bytes :: "(error + Message) list \<Rightarrow> nat" where
  "body_bytes [] = 0"
| "body_bytes (Inr (RequestBody b) # ms) = length b + body_bytes ms"
| "body_bytes (Inr Disconnect # ms) = body_bytes ms"
| "body_bytes (Inl e # ms) = body_bytes ms"

lemma bounded_receive_over: "maximum < consumed \<Longrightarrow> body_bytes (bounded_receive maximum consumed ms) = 0"
  by (induction maximum consumed ms rule: bounded_receive.induct) auto

lemma bounded_receive_bytes: "consumed \<le> maximum \<Longrightarrow> consumed + body_bytes (bounded_receive maximum consumed ms) \<le> maximum"
  by (induction maximum consumed ms rule: bounded_receive.induct) (auto simp: bounded_receive_over)

lemma map_of_set_header [simp]: "map_of (set_header k v hs) k' = (if k' = k then Some v else map_of hs k')"
proof (induction k v hs rule: set_header.induct)
  case (2 k v k0 w hs)
  have "map_of (filter (\<lambda>h. fst h \<noteq> k) hs) k' = map_of hs k'" if "k' \<noteq> k"
    using that by (induction hs) auto
  with 2 show ?case by auto
qed simp

lemma map_of_set_headers: "map_of (set_headers news hs) k = (case map_of (rev news) k of Some v \<Rightarrow> Some v | None \<Rightarrow> map_of hs k)"
  unfolding set_headers_def
proof (induction news arbitrary: hs)
  case (Cons kv news)
  obtain k0 v0 where kv: "kv = (k0, v0)" by (cases kv)
  show ?case using Cons.IH [of "set_header k0 v0 hs"] by (auto simp: kv map_add_Some_iff split: option.split)
qed simp

definition is_error :: "string \<Rightarrow> HttpResponse \<Rightarrow> bool" where
  "is_error i r = (\<exists>status code message. 400 \<le> status \<and> r = security_error status code message i)"

lemma is_error_intro [simp]: "400 \<le> n \<Longrightarrow> is_error i (security_error n c m i)"
  by (auto simp: is_error_def)

lemma refusals_are_errors:
  "size_refusal p q = Some r \<Longrightarrow> is_error (rq_correlation_id q) r"
  "header_refusal p q = Some r \<Longrightarrow> is_error (rq_correlation_id q) r"
  "strict_refusal p q = Some r \<Longrightarrow> is_error (rq_correlation_id q) r"
  by (auto simp: size_refusal_def header_refusal_def strict_refusal_def split: if_splits)

lemma refusal_is_error: "perimeter_refusal p q = Some r \<Longrightarrow> is_error (rq_correlation_id q) r"
  by (auto simp: perimeter_refusal_def refusals_are_errors split: option.splits if_splits)

lemma size_passed:
  assumes "size_refusal p q = None"
  shows "header_bytes q \<le> per_maximum_header_bytes p \<and> length (prq_query_string q) \<le> per_maximum_query_bytes p
    \<and> length (content_lengths q) \<le> 1 \<and> \<not> content_too_large (per_maximum_body_bytes p) q"
  using assms by (auto simp: size_refusal_def split: if_splits)

lemma strict_passed:
  assumes "strict_refusal p q = None"
  shows "(truthy_str (request_header ''origin'' q) \<longrightarrow> str_or (request_header ''origin'' q) [] \<in> set (per_allowed_origins p))
    \<and> (rq_method q \<notin> SAFE_METHODS \<longrightarrow> content_type q = ''application/json'') \<and> (per_require_tls p \<longrightarrow> is_secure_request p q)"
  using assms unfolding strict_refusal_def by (auto split: if_splits)

lemma refusal_passed:
  assumes "perimeter_refusal p q = None"
  shows "size_refusal p q = None \<and> header_refusal p q = None \<and> (per_strict p \<longrightarrow> strict_refusal p q = None)"
  using assms by (auto simp: perimeter_refusal_def split: option.splits if_splits)

text \<open>The correlation id is not read by any check.\<close>

lemma correlated_frame [simp]:
  "rq_headers (correlated token q) = rq_headers q" "rq_method (correlated token q) = rq_method q" "rq_path (correlated token q) = rq_path q"
  "rq_client (correlated token q) = rq_client q" "prq_query_string (correlated token q) = prq_query_string q"
  "prq_scheme (correlated token q) = prq_scheme q" "prq_receive (correlated token q) = prq_receive q"
  "request_header name (correlated token q) = request_header name q" "header_names (correlated token q) = header_names q"
  "header_bytes (correlated token q) = header_bytes q" "content_type (correlated token q) = content_type q"
  by (simp_all add: correlated_def Let_def request_header_def header_names_def header_bytes_def content_type_def)

lemma wildcard_refused:
  assumes "require_valid_configuration net is_rsa d (Some SVC_GATEWAY) = None" and "strict_runtime (Settings.truncate d)"
  shows "''*'' \<notin> set (dep_allowed_cors_origins d)"
proof -
  have "browser_issues (reporter_for d SVC_GATEWAY) d SVC_GATEWAY = []"
    using valid_checks [OF assms, of "Inr (browser_issues (reporter_for d SVC_GATEWAY) d SVC_GATEWAY)"] by (simp add: checks_def Let_def)
  then show ?thesis by (auto simp: browser_issues_def split: if_splits)
qed

text \<open>C11: In front of a gateway that passed the validation of a strict profile, a request is answered with an
  error and goes no further unless its headers, query and body are within their bounds, it carries none of the legacy identity headers
  (\<open>x-actor\<close> and the like; the headers of represented calls between services are let through and left to their own check), its origin is
  one of the listed ones and not a wildcard, a changing request is JSON, and it came over HTTPS, directly or through a trusted proxy; the
  application can read at most 1 MiB of body, and every response of the application leaves with the transport and framing headers.  The
  perimeter's own refusals leave without any of them.\<close>

theorem gateway_perimeter:
  assumes "require_valid_configuration net is_rsa d (Some SVC_GATEWAY) = None" and "strict_runtime (Settings.truncate d)"
    and "dep_service_name d = SVC_GATEWAY"
    and "perimeter_dispatch (base_perimeter d in_networks) token call_next q s = (r, s')"
  shows "(\<exists>status code message i. 400 \<le> status \<and> r = Inr (security_error status code message i) \<and> s' = s
        \<and> rs_headers (security_error status code message i) = [])
    \<or> (\<exists>q'. s' = snd (call_next q' s) \<and> rq_headers q' = rq_headers q \<and> rq_method q' = rq_method q \<and> rq_path q' = rq_path q
        \<and> header_bytes q \<le> 16384 \<and> length (prq_query_string q) \<le> 8192 \<and> body_bytes (prq_receive q') \<le> 1048576
        \<and> header_names q \<inter> LEGACY_IDENTITY_HEADERS = {}
        \<and> (\<forall>origin. request_header ''origin'' q = Some origin \<and> origin \<noteq> [] \<longrightarrow> origin \<in> set (dep_allowed_cors_origins d) \<and> origin \<noteq> ''*'')
        \<and> (rq_method q \<notin> SAFE_METHODS \<longrightarrow> content_type q = ''application/json'')
        \<and> (prq_scheme q = ''https'' \<or> (in_networks (dep_trusted_proxy_cidrs d) (str_or (rq_client q) [])
             \<and> request_header ''x-forwarded-proto'' q = Some ''https''))
        \<and> (\<forall>resp. r = Inr resp \<longrightarrow> map_of (rs_headers resp) ''x-frame-options'' = Some ''DENY''
             \<and> map_of (rs_headers resp) ''strict-transport-security'' = Some ''max-age=31536000; includeSubDomains''))"
proof (cases "perimeter_refusal (base_perimeter d in_networks) (correlated token q)")
  case (Some x)
  with refusal_is_error [OF this] assms(4) show ?thesis by (auto simp: perimeter_dispatch_def Let_def is_error_def security_error_def)
next
  case None
  let ?p = "base_perimeter d in_networks" and ?q = "correlated token q"
  let ?q' = "?q\<lparr>prq_receive := bounded_receive (per_maximum_body_bytes ?p) 0 (prq_receive ?q)\<rparr>"
  have p: "per_strict ?p" "per_require_tls ?p" using assms(2,3) by (simp_all add: base_perimeter_def)
  from refusal_passed [OF None] p have passed: "size_refusal ?p ?q = None" "header_refusal ?p ?q = None" "strict_refusal ?p ?q = None" by auto
  have sizes: "header_bytes q \<le> 16384" "length (prq_query_string q) \<le> 8192"
    using size_passed [OF passed(1)] by (simp_all add: base_perimeter_def)
  have body: "body_bytes (prq_receive ?q') \<le> 1048576"
    using bounded_receive_bytes [of 0 1048576 "prq_receive ?q"] by (simp add: base_perimeter_def)
  have legacy: "header_names q \<inter> LEGACY_IDENTITY_HEADERS = {}"
    using passed(2) by (auto simp: header_refusal_def split: if_splits)
  have origin: "origin \<in> set (dep_allowed_cors_origins d) \<and> origin \<noteq> ''*''" if "request_header ''origin'' q = Some origin \<and> origin \<noteq> []" for origin
    using strict_passed [OF passed(3)] wildcard_refused [OF assms(1,2)] that
    by (auto simp: truthy_str_def str_or_def base_perimeter_def)
  have json: "rq_method q \<notin> SAFE_METHODS \<longrightarrow> content_type q = ''application/json''"
    and tls: "prq_scheme q = ''https'' \<or> (in_networks (dep_trusted_proxy_cidrs d) (str_or (rq_client q) [])
        \<and> request_header ''x-forwarded-proto'' q = Some ''https'')"
    using strict_passed [OF passed(3)] p(2) by (simp_all add: is_secure_request_def base_perimeter_def)
  have frame: "rq_headers ?q' = rq_headers q \<and> rq_method ?q' = rq_method q \<and> rq_path ?q' = rq_path q" by simp
  have run: "s' = snd (call_next ?q' s)"
    using assms(4) None by (auto simp: perimeter_dispatch_def Let_def split: prod.splits sum.splits)
  have headers: "map_of (rs_headers resp) ''x-frame-options'' = Some ''DENY''
      \<and> map_of (rs_headers resp) ''strict-transport-security'' = Some ''max-age=31536000; includeSubDomains''" if "r = Inr resp" for resp
    using assms(4) None that p(1)
    by (auto simp: perimeter_dispatch_def Let_def marked_response_def map_of_set_headers base_headers_def strict_headers_def
        split: prod.splits sum.splits)
  show ?thesis using run frame sizes body legacy origin json tls headers by blast
qed

end
