(* ===== verification/Prospects.thy ===== *)
theory Prospects
  imports Meeting_Laws
begin

text \<open>
  Prospects of the CRM (\<open>services/sequencing/prospects.py\<close>, the searches of \<open>services/crm_attio.py\<close> and of the local
  client, and their endpoints): finding them, and importing one into a sequence as an account, a contact, an
  exported target and an enrollment.
\<close>

section \<open>Prospects at the provider\<close>

record CrmProspect =
  prs_provider_record_id :: string
  prs_provider_object :: string
  prs_display_name :: string
  prs_email :: "string option"
  prs_title :: "string option"
  prs_company_name :: "string option"
  prs_company_domain :: "string option"
  prs_source_payload :: dict

text \<open>The first text that is not empty, as the loops over keys and items find it.\<close>

definition first_found :: "string option list \<Rightarrow> string option" where
  "first_found xs = (case List.find truthy_str xs of Some v \<Rightarrow> v | None \<Rightarrow> None)"

lemma size_dict_get: "size (dict_get d k) < size (JObj d)"
proof (cases "map_of d k")
  case (Some v)
  from size_obj_member [OF map_of_SomeD [OF Some]] Some show ?thesis by (simp add: dict_get_def)
qed (simp add: dict_get_def)

function attribute_text :: "json \<Rightarrow> string option" where
  "attribute_text (JStr s) = Some s"
| "attribute_text (JObj d) =
     first_found (map (\<lambda>k. attribute_text (dict_get d k)) [''value'', ''full_name'', ''first_name'', ''name''])"
| "attribute_text (JArr xs) = first_found (map attribute_text xs)"
| "attribute_text JNull = None"
| "attribute_text (JBool b) = None"
| "attribute_text (JInt i) = None"
| "attribute_text (JFloat r t) = None"
| "attribute_text (JTime t) = None"
  by pat_completeness auto
termination
  by (relation "measure size") (use size_dict_get size_arr_member in auto)

function attribute_email :: "json \<Rightarrow> string option" where
  "attribute_email (JStr s) = (if CHR ''@'' \<in> set s then Some (py_lower s) else None)"
| "attribute_email (JObj d) =
     first_found (map (\<lambda>k. attribute_email (dict_get d k)) [''email_address'', ''email'', ''value''])"
| "attribute_email (JArr xs) = first_found (map attribute_email xs)"
| "attribute_email JNull = None"
| "attribute_email (JBool b) = None"
| "attribute_email (JInt i) = None"
| "attribute_email (JFloat r t) = None"
| "attribute_email (JTime t) = None"
  by pat_completeness auto
termination
  by (relation "measure size") (use size_dict_get size_arr_member in auto)

function attribute_domain :: "json \<Rightarrow> string option" where
  "attribute_domain (JStr s) = (if CHR ''.'' \<in> set s then Some (py_lower s) else None)"
| "attribute_domain (JObj d) = first_found (map (\<lambda>k. attribute_domain (dict_get d k)) [''domain'', ''value''])"
| "attribute_domain (JArr xs) = first_found (map attribute_domain xs)"
| "attribute_domain JNull = None"
| "attribute_domain (JBool b) = None"
| "attribute_domain (JInt i) = None"
| "attribute_domain (JFloat r t) = None"
| "attribute_domain (JTime t) = None"
  by pat_completeness auto
termination
  by (relation "measure size") (use size_dict_get size_arr_member in auto)

definition prospect_from_search_result :: "dict \<Rightarrow> CrmProspect" where
  "prospect_from_search_result item =
     (let nested = str_or (optional_str (dict_get (object_or_empty (dict_get item ''id'')) ''record_id'')) [];
          rid = str_or (Some nested) (str_or (optional_str (dict_get item ''record_id'')) [])
      in \<lparr>prs_provider_record_id = rid,
          prs_provider_object = str_or (optional_str (dict_get item ''object_slug'')) ''people'',
          prs_display_name = str_or (optional_str (dict_get item ''record_text'')) rid, prs_email = None, prs_title = None,
          prs_company_name = None, prs_company_domain = None, prs_source_payload = item\<rparr>)"

definition prospect_from_record_payload :: "dict \<Rightarrow> string \<Rightarrow> CrmProspect" where
  "prospect_from_record_payload payload rid =
     (let data = payload_data payload; attributes = object_or_empty (dict_get data ''values'')
      in \<lparr>prs_provider_record_id = rid, prs_provider_object = ''people'',
          prs_display_name =
            str_or (opt_or (attribute_text (dict_get attributes ''name'')) (attribute_text (dict_get attributes ''full_name''))) rid,
          prs_email = opt_or (attribute_email (dict_get attributes ''email_addresses'')) (attribute_email (dict_get attributes ''email'')),
          prs_title = opt_or (attribute_text (dict_get attributes ''job_title'')) (attribute_text (dict_get attributes ''title'')),
          prs_company_name =
            opt_or (attribute_text (dict_get attributes ''company'')) (attribute_text (dict_get attributes ''primary_company'')),
          prs_company_domain =
            opt_or (attribute_domain (dict_get attributes ''domains'')) (attribute_domain (dict_get attributes ''domain'')),
          prs_source_payload = data\<rparr>)"

record ProspectClient =
  prospect_search :: "string \<Rightarrow> nat \<Rightarrow> error + CrmProspect list"
  prospect_get :: "string \<Rightarrow> error + CrmProspect option"

definition attio_search :: "(string \<Rightarrow> string \<Rightarrow> dict \<Rightarrow> error + dict) \<Rightarrow> string \<Rightarrow> nat \<Rightarrow> error + CrmProspect list" where
  "attio_search http query limit =
     (case http ''POST'' ''/v2/objects/records/search''
             [(''query'', JStr (take 256 query)), (''objects'', JArr [JStr ''people'', JStr ''companies'']),
              (''request_as'', JObj [(''type'', JStr ''workspace'')]), (''limit'', JInt (int (max 1 (min limit 25))))] of
        Inl e \<Rightarrow> Inl e
      | Inr payload \<Rightarrow>
          Inr (List.map_filter (\<lambda>item. case item of JObj d \<Rightarrow> Some (prospect_from_search_result d) | _ \<Rightarrow> None)
                 (case dict_get payload ''data'' of JArr items \<Rightarrow> items | _ \<Rightarrow> [])))"

text \<open>An error of the provider is an unknown record.\<close>

definition attio_get :: "(string \<Rightarrow> string \<Rightarrow> dict \<Rightarrow> error + dict) \<Rightarrow> string \<Rightarrow> error + CrmProspect option" where
  "attio_get http rid =
     (case http ''GET'' (''/v2/objects/people/records/'' @ rid) [] of
        Inl (CrmProviderError m r a) \<Rightarrow> Inr None
      | Inl e \<Rightarrow> Inl e
      | Inr payload \<Rightarrow> Inr (Some (prospect_from_record_payload payload rid)))"

definition demo_prospect :: "string \<Rightarrow> string \<Rightarrow> string \<Rightarrow> string \<Rightarrow> string \<Rightarrow> string \<Rightarrow> CrmProspect" where
  "demo_prospect rid name email title company domain =
     \<lparr>prs_provider_record_id = rid, prs_provider_object = ''people'', prs_display_name = name, prs_email = Some email,
      prs_title = Some title, prs_company_name = Some company, prs_company_domain = Some domain,
      prs_source_payload = [(''provider'', JStr ''local-demo''), (''fixture'', JStr ''sequence-import'')]\<rparr>"

definition demo_prospects :: "CrmProspect list" where
  "demo_prospects =
     [demo_prospect ''demo-crm-prospect-taylor-ng'' ''Taylor Ng'' ''taylor.ng@example-industries.com'' ''VP Security Operations''
        ''Example Industries'' ''example-industries.com'',
      demo_prospect ''demo-crm-prospect-morgan-shah'' ''Morgan Shah'' ''morgan.shah@nimbus-retail.com'' ''CISO'' ''Nimbus Retail''
        ''nimbus-retail.com'',
      demo_prospect ''demo-crm-prospect-riley-kim'' ''Riley Kim'' ''riley.kim@northstar-health.com'' ''Director of IT Risk''
        ''Northstar Health'' ''northstar-health.com'']"

definition demo_search :: "string \<Rightarrow> nat \<Rightarrow> CrmProspect list" where
  "demo_search query limit =
     (let text = py_strip (py_lower query)
      in take (max 1 (min limit 25))
           (if text = [] then demo_prospects
            else filter (\<lambda>p. is_substring text (py_lower (prs_display_name p))
                             \<or> is_substring text (py_lower (str_or (prs_company_name p) []))
                             \<or> is_substring text (py_lower (str_or (prs_email p) []))
                             \<or> is_substring text (py_lower (str_or (prs_title p) []))) demo_prospects))"

definition demo_get :: "string \<Rightarrow> CrmProspect option" where
  "demo_get rid = List.find (\<lambda>p. prs_provider_record_id p = rid) demo_prospects"

text \<open>The client of the settings, seen through its searches; \<open>http\<close> is the request function of the provider.\<close>

definition prospect_client ::
  "env \<Rightarrow> (nat \<Rightarrow> string \<Rightarrow> string \<Rightarrow> dict \<Rightarrow> error + dict) \<Rightarrow> nat \<Rightarrow> error + ProspectClient" where
  "prospect_client env http n =
     (case crm_client_for_settings env http of
        Inl e \<Rightarrow> Inl e
      | Inr _ \<Rightarrow>
          Inr (if cfg_crm_provider (env_settings env) = ATTIO
               then \<lparr>prospect_search = attio_search (http n), prospect_get = attio_get (http n)\<rparr>
               else \<lparr>prospect_search = (\<lambda>query limit. Inr (demo_search query limit)), prospect_get = (\<lambda>rid. Inr (demo_get rid))\<rparr>))"

section \<open>Searching\<close>

text \<open>The address is validated on the way out.\<close>

definition prospect_to_model :: "env \<Rightarrow> CrmProspect \<Rightarrow> error + dict" where
  "prospect_to_model env p =
     (let rest = (\<lambda>email. [(''provider'', JStr ''attio''), (''provider_record_id'', JStr (prs_provider_record_id p)),
          (''provider_object'', JStr (prs_provider_object p)), (''display_name'', JStr (prs_display_name p)), (''email'', email),
          (''title'', opt_str (prs_title p)), (''company_name'', opt_str (prs_company_name p)),
          (''company_domain'', opt_str (prs_company_domain p)), (''source_payload'', JObj (prs_source_payload p))])
      in case prs_email p of
           None \<Rightarrow> Inr (rest JNull)
         | Some e \<Rightarrow> (case env_email_str env e of None \<Rightarrow> Inl ValidationError | Some v \<Rightarrow> Inr (rest (JStr v))))"

definition provider_label :: "env \<Rightarrow> string \<Rightarrow> string" where
  "provider_label env otherwise = (if truthy_str (cfg_attio_access_token (env_settings env)) then ''attio'' else otherwise)"

definition search_crm_prospects ::
  "env \<Rightarrow> (nat \<Rightarrow> string \<Rightarrow> string \<Rightarrow> dict \<Rightarrow> error + dict) \<Rightarrow> string \<Rightarrow> nat \<Rightarrow> dict op" where
  "search_crm_prospects env http query limit db =
     ((case prospect_client env http (length (effects db)) of
         Inl e \<Rightarrow> Inl e
       | Inr client \<Rightarrow>
           (case prospect_search client query limit of
              Inl e \<Rightarrow> Inl e
            | Inr found \<Rightarrow>
                (case collect (map (prospect_to_model env) (filter (\<lambda>p. prs_provider_record_id p \<noteq> []) found)) of
                   Inl e \<Rightarrow> Inl e
                 | Inr ms \<Rightarrow> Inr [(''prospects'', JArr (map JObj ms)), (''provider'', JStr (provider_label env ''local-demo''))]))), db)"

section \<open>Importing\<close>

record SequenceCrmProspectImportRequest =
  pir_provider_record_id :: string
  pir_sequence_id :: string
  pir_outreach_approved :: bool
  pir_approval_reason :: string
  pir_start_at :: "int option"
  pir_policy_snapshot :: dict

definition find_prospect :: "ProspectClient \<Rightarrow> string \<Rightarrow> error + CrmProspect option" where
  "find_prospect client rid =
     (case prospect_get client rid of
        Inl e \<Rightarrow> Inl e
      | Inr (Some p) \<Rightarrow> Inr (Some p)
      | Inr None \<Rightarrow>
          (case prospect_search client rid 25 of
             Inl e \<Rightarrow> Inl e
           | Inr matches \<Rightarrow> Inr (List.find (\<lambda>p. prs_provider_record_id p = rid) matches)))"

definition prospect_domain :: "CrmProspect \<Rightarrow> string" where
  "prospect_domain p = py_lower (str_or (prs_company_domain p) (str_or (domain_from_email (prs_email p)) ''unknown.local''))"

definition imported_account :: "env \<Rightarrow> CrmProspect \<Rightarrow> string \<Rightarrow> string \<Rightarrow> Account" where
  "imported_account env p actor row_id =
     \<lparr>acc_id = row_id, acc_crm_account_id = Some (''crm-account:'' @ prospect_domain p), acc_domain = prospect_domain p,
      acc_company_name = str_or (prs_company_name p) (prospect_domain p), acc_hq_country = None, acc_employee_count = None,
      acc_revenue_band = None, acc_industry = None, acc_sub_industry = None, acc_tech_stack = [], acc_security_stack = [],
      acc_intent_topics = [], acc_territory = None, acc_owner_id = Some actor, acc_named_account_flag = False,
      acc_priority_tier = None, acc_fit_score = 0, acc_intent_score = 0, acc_composite_score = 0, acc_last_signal_at = None,
      acc_created_at = env_now env, acc_updated_at = env_now env\<rparr>"

definition import_contact_key :: "string \<Rightarrow> string" where
  "import_contact_key rid = ''crm-import-contact:'' @ rid"

definition import_email :: "CrmProspect \<Rightarrow> string" where
  "import_email p = py_lower (str_or (prs_email p) [])"

definition imported_contact :: "env \<Rightarrow> CrmProspect \<Rightarrow> string \<Rightarrow> string \<Rightarrow> Contact" where
  "imported_contact env p account_id row_id =
     \<lparr>con_id = row_id, con_crm_contact_id = Some (prs_provider_record_id p), con_account_id = Some account_id,
      con_full_name = prs_display_name p, con_title = prs_title p, con_seniority = None, con_function = Some ''security'',
      con_email = Some (import_email p), con_email_status = Some ''verified'', con_phone = None, con_linkedin_url = None,
      con_timezone = None, con_persona_type = Some ''security_leader'', con_buying_role = None,
      con_last_enriched_at = Some (env_now env), con_do_not_contact_flag = False, con_lawful_basis = Some ''legitimate_interest'',
      con_source_vendor = Some (provider_label env ''local-demo-crm''), con_source_confidence = 80, con_source_url = None,
      con_source_definition_id = None, con_source_item_ids = [], con_origin_type = Some ''manual'',
      con_origin_id = Some (prs_provider_record_id p), con_source_policy_snapshot = [(''source'', JStr ''crm_import'')],
      con_review_status = ''not_required'', con_review_reason = None,
      con_idempotency_key = Some (import_contact_key (prs_provider_record_id p)), con_version = 1,
      con_created_at = env_now env, con_updated_at = env_now env\<rparr>"

definition import_target_key :: "string \<Rightarrow> string" where
  "import_target_key rid = ''crm-import-target:'' @ rid"

definition imported_target ::
  "env \<Rightarrow> SequenceCrmProspectImportRequest \<Rightarrow> CrmProspect \<Rightarrow> string \<Rightarrow> string \<Rightarrow> string \<Rightarrow> CrmTarget" where
  "imported_target env q p actor contact_id row_id =
     \<lparr>tgt_id = row_id, tgt_review_candidate_id = None, tgt_review_decision_id = None, tgt_target_type = ''contact'',
      tgt_target_id = contact_id, tgt_origin_type = Some ''manual'', tgt_origin_id = Some (prs_provider_record_id p),
      tgt_source_definition_id = None, tgt_source_item_ids = [], tgt_status = ''exported'', tgt_export_status = ''exported'',
      tgt_policy_snapshot = dict_update [(''source'', JStr ''crm_import'')] (pir_policy_snapshot q),
      tgt_approval_snapshot = [(''approved_by'', JStr actor), (''approval_reason'', JStr (pir_approval_reason q))],
      tgt_idempotency_key = import_target_key (prs_provider_record_id p), tgt_version = 1,
      tgt_created_at = env_now env, tgt_updated_at = env_now env\<rparr>"

text \<open>Each step finds its row or adds it and flushes.\<close>

definition add_row :: "env \<Rightarrow> (string \<Rightarrow> 'a) \<Rightarrow> ('a \<Rightarrow> db \<Rightarrow> db) \<Rightarrow> 'a op" where
  "add_row env row add db =
     (let (row_id, db1) = draw_uuid env db
      in case flush env (add (row row_id) db1) of Inl e \<Rightarrow> (Inl e, db1) | Inr db2 \<Rightarrow> (Inr (row row_id), db2))"

definition import_account :: "env \<Rightarrow> CrmProspect \<Rightarrow> string \<Rightarrow> Account op" where
  "import_account env p actor db =
     (case List.find (\<lambda>a. acc_domain a = prospect_domain p) (accounts db) of
        Some a \<Rightarrow> (Inr a, db)
      | None \<Rightarrow> add_row env (imported_account env p actor) add_account db)"

definition import_contact :: "env \<Rightarrow> CrmProspect \<Rightarrow> string \<Rightarrow> Contact op" where
  "import_contact env p account_id db =
     (case List.find (\<lambda>c. con_account_id c = Some account_id \<and> con_email c = Some (import_email p)) (contacts db) of
        Some c \<Rightarrow> (Inr c, db)
      | None \<Rightarrow> add_row env (imported_contact env p account_id) add_contact db)"

definition import_target ::
  "env \<Rightarrow> SequenceCrmProspectImportRequest \<Rightarrow> CrmProspect \<Rightarrow> string \<Rightarrow> string \<Rightarrow> CrmTarget op" where
  "import_target env q p actor contact_id db =
     (case List.find (\<lambda>t. tgt_idempotency_key t = import_target_key (prs_provider_record_id p)) (crm_targets db) of
        Some t \<Rightarrow> (Inr t, db)
      | None \<Rightarrow> add_row env (imported_target env q p actor contact_id) add_crm_target db)"

definition import_rows ::
  "env \<Rightarrow> SequenceCrmProspectImportRequest \<Rightarrow> CrmProspect \<Rightarrow> string \<Rightarrow> (string \<times> string \<times> string) op" where
  "import_rows env q p actor db =
     (case import_account env p actor db of
        (Inl e, db1) \<Rightarrow> (Inl e, db1)
      | (Inr a, db1) \<Rightarrow>
          (case import_contact env p (acc_id a) db1 of
             (Inl e, db2) \<Rightarrow> (Inl e, db2)
           | (Inr c, db2) \<Rightarrow>
               (case import_target env q p actor (con_id c) db2 of
                  (Inl e, db3) \<Rightarrow> (Inl e, db3)
                | (Inr t, db3) \<Rightarrow> (Inr (acc_id a, con_id c, tgt_id t), db3))))"

definition import_enrollment :: "SequenceCrmProspectImportRequest \<Rightarrow> string \<times> string \<times> string \<Rightarrow> SequenceEnrollmentCreateRequest" where
  "import_enrollment q ids =
     \<lparr>ecq_sequence_id = pir_sequence_id q, ecq_crm_target_id = snd (snd ids), ecq_contact_id = Some (fst (snd ids)),
      ecq_account_id = Some (fst ids), ecq_start_at = pir_start_at q, ecq_outreach_approved = True,
      ecq_approval_reason = pir_approval_reason q, ecq_policy_snapshot = pir_policy_snapshot q\<rparr>"

definition prospect_to_import ::
  "env \<Rightarrow> (nat \<Rightarrow> string \<Rightarrow> string \<Rightarrow> dict \<Rightarrow> error + dict) \<Rightarrow> SequenceCrmProspectImportRequest \<Rightarrow> db \<Rightarrow> error + CrmProspect" where
  "prospect_to_import env http q db =
     (if \<not> pir_outreach_approved q then Inl (ValueError ''separate outreach approval is required'')
      else case prospect_client env http (length (effects db)) of
             Inl e \<Rightarrow> Inl e
           | Inr client \<Rightarrow>
               (case find_prospect client (pir_provider_record_id q) of
                  Inl e \<Rightarrow> Inl e
                | Inr None \<Rightarrow> Inl (ValueError ''CRM prospect not found'')
                | Inr (Some p) \<Rightarrow>
                    if truthy_str (prs_email p) then Inr p
                    else Inl (ValueError ''CRM prospect requires an email before sequence assignment'')))"

definition import_crm_prospect_to_sequence ::
  "env \<Rightarrow> (nat \<Rightarrow> string \<Rightarrow> string \<Rightarrow> dict \<Rightarrow> error + dict) \<Rightarrow> SequenceCrmProspectImportRequest \<Rightarrow> string \<Rightarrow> string \<Rightarrow> dict op" where
  "import_crm_prospect_to_sequence env http q actor key db =
     (case prospect_to_import env http q db of
        Inl e \<Rightarrow> (Inl e, db)
      | Inr p \<Rightarrow>
          (case session_scope env (import_rows env q p actor) db of
             (Inl e, db1) \<Rightarrow> (Inl e, db1)
           | (Inr ids, db1) \<Rightarrow> create_sequence_enrollment env (import_enrollment q ids) actor key db1))"

section \<open>Endpoints\<close>

definition sequence_crm_prospect_list ::
  "env \<Rightarrow> (nat \<Rightarrow> string \<Rightarrow> string \<Rightarrow> dict \<Rightarrow> error + dict) \<Rightarrow> string \<Rightarrow> nat \<Rightarrow> json reply" where
  "sequence_crm_prospect_list env http query limit = reply uncaught JObj (search_crm_prospects env http query limit)"

definition sequence_enrollment_import_crm_prospect ::
  "env \<Rightarrow> (nat \<Rightarrow> string \<Rightarrow> string \<Rightarrow> dict \<Rightarrow> error + dict) \<Rightarrow> SequenceCrmProspectImportRequest \<Rightarrow> string \<Rightarrow> string \<Rightarrow> json reply" where
  "sequence_enrollment_import_crm_prospect env http q key actor =
     reply conflict JObj (import_crm_prospect_to_sequence env http q actor key)"

section \<open>Importing again\<close>

lemma add_row_Inr:
  assumes "add_row env row add db = (Inr r, db')"
  shows "\<exists>row_id. r = row row_id \<and> db' = written env (add r (db\<lparr>uuid_seq := Suc (uuid_seq db)\<rparr>)) \<and> constraints_ok db'"
  using assms by (auto simp: add_row_def draw_uuid_def Let_def dest!: flush_written split: sum.splits)

lemma import_account_contacts: "import_account env p actor db = (Inr a, db') \<Longrightarrow> contacts db' = contacts db"
  by (auto simp: import_account_def add_account_def dest!: add_row_Inr split: option.splits)

lemma contact_key_taken:
  assumes "c \<in> set (contacts db)" and "con_idempotency_key c = Some k" and "con_idempotency_key r = Some k"
    and "contacts db' = contacts db @ [r]"
  shows "\<not> constraints_ok db'"
proof
  assume "constraints_ok db'"
  then have "distinct (List.map_filter con_idempotency_key (contacts db @ [r]))" using assms(4) by (simp add: constraints_ok_def)
  with assms(1-3) show False by (auto simp: List.map_filter_def image_iff)
qed

lemma import_contact_refused:
  assumes "c \<in> set (contacts db)" and "con_idempotency_key c = Some (import_contact_key (prs_provider_record_id p))"
    and "\<forall>x \<in> set (contacts db). con_email x \<noteq> Some (import_email p)"
  shows "import_contact env p account_id db \<noteq> (Inr r, db')"
proof
  assume run: "import_contact env p account_id db = (Inr r, db')"
  have "List.find (\<lambda>c. con_account_id c = Some account_id \<and> con_email c = Some (import_email p)) (contacts db) = None"
    using assms(3) by (simp add: find_None_iff_ball)
  with run have "add_row env (imported_contact env p account_id) add_contact db = (Inr r, db')" by (simp add: import_contact_def)
  from add_row_Inr [OF this] obtain row_id where "r = imported_contact env p account_id row_id"
      and db': "contacts db' = contacts db @ [r]" and "constraints_ok db'"
    by (auto simp: add_contact_def)
  with contact_key_taken [OF assms(1,2) _ db'] show False by (simp add: imported_contact_def)
qed

text \<open>C33: Once a contact was imported from a record of the CRM, that record cannot be imported after its address
  changed: the import looks for a contact with the new address, finds none, and adds one under the key of the first, so the call raises and
  stores nothing.\<close>

theorem changed_email_blocks_import:
  assumes "prospect_to_import env http q db = Inr p" and "admitted env"
    and "c \<in> set (contacts db)" and "con_idempotency_key c = Some (import_contact_key (prs_provider_record_id p))"
    and "\<forall>x \<in> set (contacts db). con_email x \<noteq> Some (import_email p)"
  shows "\<exists>e db'. import_crm_prospect_to_sequence env http q actor key db = (Inl e, db') \<and> same_tables db db'"
proof -
  let ?db = "begin_session db"
  have refused: "import_rows env q p actor ?db \<noteq> (Inr v, db1)" for v db1
  proof
    assume "import_rows env q p actor ?db = (Inr v, db1)"
    then obtain a db2 r db3 where "import_account env p actor ?db = (Inr a, db2)" and contact: "import_contact env p (acc_id a) db2 = (Inr r, db3)"
      by (auto simp: import_rows_def split: prod.splits sum.splits)
    then have "contacts db2 = contacts db" using import_account_contacts by fastforce
    with import_contact_refused [of c db2 p env "acc_id a" r db3] assms(3-5) contact show False by simp
  qed
  from session_cannot_commit [OF assms(2), of "import_rows env q p actor" db] refused
  obtain e where fail: "session_scope env (import_rows env q p actor) db = (Inl e, rollback db (snd (import_rows env q p actor ?db)))" by blast
  with assms(1) show ?thesis by (simp add: import_crm_prospect_to_sequence_def)
qed

end
