(* ===== verification/Prospects_Examples.thy ===== *)
theory Prospects_Examples
  imports Prospects Outreach_Examples Crm_Export_Examples
begin

text \<open>
  Concrete imports of a prospect of the local CRM client.
\<close>

definition sample_import :: SequenceCrmProspectImportRequest where
  "sample_import =
     \<lparr>pir_provider_record_id = ''demo-crm-prospect-taylor-ng'', pir_sequence_id = ''s1'', pir_outreach_approved = True,
      pir_approval_reason = ''fit'', pir_start_at = None, pir_policy_snapshot = []\<rparr>"

definition imported_db :: db where
  "imported_db = sequence_db\<lparr>contacts :=
     [sample_contact\<lparr>con_idempotency_key := Some (import_contact_key ''demo-crm-prospect-taylor-ng'')\<rparr>]\<rparr>"

lemma sample_import_succeeds:
  "succeeds (import_crm_prospect_to_sequence example_env no_http sample_import ''alex'' ''k1'' sequence_db)
     (\<lambda>r db'. length (sequence_enrollments db') = 1 \<and> length (crm_targets db') = 2 \<and> length (accounts db') = 1)"
  by code_simp

theorem changed_email_blocks_import_witness:
  "\<exists>e db'. import_crm_prospect_to_sequence example_env no_http sample_import ''alex'' ''k1'' imported_db = (Inl e, db')
     \<and> same_tables imported_db db'"
proof -
  let ?p = "demo_prospect ''demo-crm-prospect-taylor-ng'' ''Taylor Ng'' ''taylor.ng@example-industries.com'' ''VP Security Operations''
    ''Example Industries'' ''example-industries.com''"
  let ?c = "sample_contact\<lparr>con_idempotency_key := Some (import_contact_key ''demo-crm-prospect-taylor-ng'')\<rparr>"
  have found: "prospect_to_import example_env no_http sample_import imported_db = Inr ?p"
    and c: "?c \<in> set (contacts imported_db)" "con_idempotency_key ?c = Some (import_contact_key (prs_provider_record_id ?p))"
      "\<forall>x \<in> set (contacts imported_db). con_email x \<noteq> Some (import_email ?p)"
    by code_simp+
  from changed_email_blocks_import [OF found admitted_example c] show ?thesis .
qed

end
