(* ===== verification/Spec2Isabelle.thy ===== *)
theory Spec2Isabelle
  imports Governance_Examples Outreach_Examples Crm_Export_Examples Http_Api_Examples User_Sessions_Examples
    Workload_Identity_Examples Meetings_Examples Configuration_Examples
    Prospects_Examples
begin

text \<open>
  A verification of the core of GhostRecon (\<open>src/src/ghostrecon\<close>), a sales-intelligence
  platform that scores candidates, has people review them, exports the approved ones to a CRM,
  and writes to them in e-mail sequences.

  \<^bold>\<open>The program.\<close>  Services share one relational store.  \<open>services/scoring\<close> computes a score and
  opens a review; \<open>services/governance\<close> records the decisions on reviews and incidents and the
  suppressions of addresses; an approval creates a CRM target; \<open>services/crm_exports\<close> sends targets to
  the provider in batches; an exported target may be enrolled by \<open>services/sequencing\<close>, whose
  scheduler prepares the steps of a sequence and whose sequence mails leave only after a person approves each
  one; replies, bounces and unsubscribes come back as inbound events and change enrollments and
  suppressions.  \<open>services/meeting\<close> books meetings with exported targets in a calendar, on request or as a step of a
  sequence, records their outcomes and synchronises them to the CRM.  Every service function runs in a database session (\<open>common/database.py\<close>) with
  listeners for audit and synthetic data.  In front of the services, \<open>security\<close> and
  \<open>service_apps\<close> resolve a cookie to an identity, limit request rates and check the policy of each
  operation before its handler runs.

  \<^bold>\<open>The theories.\<close>
  \<^item> \<open>GR_Prelude\<close>: list, option and table lemmas; the locales \<open>repository\<close> (laws of a keyed table) and
    \<open>step_system\<close> (an invariant along a history).
  \<^item> \<open>Py_Values\<close>: exceptions, strings, JSON values and dictionaries, dates, \<open>int\<close>, \<open>str\<close> and
    \<open>json.dumps\<close>, and binary64 arithmetic with \<open>round\<close>.
  \<^item> \<open>Identity\<close>: \<open>security/identity.py\<close>, \<open>security/policy.py\<close>.
  \<^item> \<open>Schema\<close>: the rows of the tables in \<open>models/db\<close> that the services use.
  \<^item> \<open>Datastore\<close>: the store, \<open>session_scope\<close>, flush and its listeners, events, audit records and
    idempotent operations.
  \<^item> \<open>Scoring\<close>: \<open>services/scoring\<close>.  \<open>Governance\<close>: \<open>services/governance\<close>.
  \<^item> \<open>Templating\<close>: list filters and the templates of \<open>services/sequencing/templating.py\<close>.
  \<^item> \<open>Sequencing\<close>: definitions, enrollments, queries, policy, state changes and the scheduler of
    \<open>services/sequencing\<close>.  \<open>Outreach\<close>: sending, tasks, alerts and inbound mail.  \<open>Lifecycle\<close>: the
    abstract life cycle of enrollments and its refinement.  \<open>Outreach_History\<close>: all operations of the outreach
    in any order, what every history keeps, and what follows for unsubscribes and sent mails.
  \<^item> \<open>Crm_Export\<close>: \<open>services/crm_exports\<close> and the upserts of \<open>services/crm_attio.py\<close>.
  \<^item> \<open>Access_Control\<close>: \<open>security/operations.py\<close>, \<open>security/routing.py\<close>, \<open>security/rate_limit.py\<close>.
  \<^item> \<open>User_Sessions\<close>: \<open>security/sessions.py\<close>, \<open>security/repositories.py\<close>,
    \<open>security/authentication.py\<close> and the endpoints of \<open>service_apps/routers/auth.py\<close> that change state.
  \<^item> \<open>Workload_Identity\<close>: \<open>security/jwt.py\<close>, \<open>security/workload.py\<close>, \<open>security/tasks.py\<close> and the replay
    markers of \<open>security/transactions.py\<close>.
  \<^item> \<open>Http_Api\<close>: the route functions of the modelled services and their composition with the secured route.
  \<^item> \<open>Meetings\<close>: \<open>services/meeting\<close>, \<open>services/calendar_adapters\<close>, the meeting step of
    \<open>services/sequencing/activities.py\<close> and their endpoints.  \<open>Meeting_Laws\<close>: what is proved of each operation.  \<open>Meeting_History\<close>: histories of
    meetings beside the outreach.
  \<^item> \<open>Prospects\<close>: \<open>services/sequencing/prospects.py\<close> and the searches of the CRM clients.
  \<^item> \<open>Configuration\<close>: \<open>common/configuration.py\<close>, the validation of the settings at start-up.  \<open>Perimeter\<close>:
    \<open>security/perimeter.py\<close>, the outermost middleware.
  \<^item> the theories ending in \<open>_Examples\<close> apply each theorem with hypotheses to a concrete store.

  \<^bold>\<open>State and operations.\<close>  The store is the record \<open>db\<close>: one list of rows per table, the audit rows of
  the current session, the number of identifiers drawn and the log of calls made to mail, CRM
  and calendar providers.  An operation has type \<open>'a op\<close>: from a store to an exception or a result, and a store.
  The body of a source function is a definition of its own where the function opens a session
  (\<open>create_sequence_body\<close> for \<open>create_sequence\<close>); \<open>session_scope\<close> wraps it, so that an exception
  restores the tables but not the identifiers drawn nor the provider calls.  The security tables are
  the separate record \<open>security_store\<close> with its own \<open>transaction\<close>.  A handler is a function of the
  request, the two context variables and the state behind it.

  \<^bold>\<open>Parameters.\<close>  What is outside the sources is an argument: the record \<open>env\<close> has the clock (read once per
  operation), the identifier supply, the hash functions, e-mail validation and the formatting of
  replacement fields that are more than a name; the SMTP transport, the CRM and calendar providers as functions of
  the number of calls made so far, the forwarding of requests, request parsing, the signature scheme and the trust bundle, and the outcome of the code exchange
  at sign-in.  The theorems hold for every value of these arguments unless a hypothesis is stated.

  \<^bold>\<open>What is shown.\<close>
  \<^item> Outreach: the mail of a sequence leaves only through an approval that passes every check at that moment, within the
    daily limits, and it is the draft of the approved activity; it is sent at most once, whatever happens later; an unsubscribe
    stops later mails to contacts with the address, in every later store; the scheduler never sends; a finished enrollment
    stays finished under the operations of its life cycle, which every history refines;
    versions of a sequence are frozen; the suppression queries of sequencing and governance, each with its own definition, find the same row.
    The alert mails of \<open>alerts.py\<close> are modelled and pass none of these checks.
  \<^item> Governance and scoring: an approval needs an open candidate without blockers and creates one
    target; a candidate is decided once; targets are always backed by an approved decision; decisions on incidents
    lose no update; suppressions take effect; the composite score is within a proved distance of the exact mean.
  \<^item> CRM export: the provider is called only with the plans of targets that were waiting for export; a batch
    that returns has settled every item with the provider's answer to its own call.
  \<^item> Meetings: an invitation needs an exported target and attendees without a suppression in force; an unsubscribe stops later
    invitations in every later store; reading meetings never fails along any history of the operations on them.
  \<^item> Access: a secured route fails closed (the CSRF check only where the process serves the request itself); the rate limit bounds what goes through; an approval over HTTP is by a caller
    with the right and the recent authentication, under that caller's name; a cookie is worth what its session, its principal and the roles allow;
    ended sessions stay ended, and a changed principal's old sessions are worth nothing; a call on behalf of a person
    arrives with that person's identity, and a worker starts only signed tasks.
  \<^item> Start-up: a service that passes the validation can build its CRM, calendar and mail clients, none of them a stand-in, and a validated gateway lets only bounded
    requests over HTTPS from listed origins through its perimeter.
  \<^item> Where the code does something its authors cannot have meant, a theorem states what it does: expired
    suppressions that stay allowed, a draft that goes to a suppressed address after the contact's address changed, forwarded requests that no CSRF
    check sees, a scheduler run that one bad template ends, sends that are
    never retried, finished enrollments that a bounce or a task brings back, replayed bulk decisions that raise, an export
    batch that one missing entity blocks, tokens that can be used again after they expire, console pages that cannot be resolved,
    a synchronised meeting that cannot be synchronised again, a failed synchronisation whose status stays, an outcome that a repeated task
    blocks, a meeting step that completes its enrollment twice, a Redis URL without a user that is refused,
    a CRM record that cannot be imported after its address changed.

  \<^bold>\<open>Bounds.\<close>  No definition uses fuel: loops are structural recursions over the rows or steps they visit, and those
  that are not (printing, path templates, recursion over nested JSON) have termination proofs.  Integers are
  Python's.  Floating point is binary64, as rationals rounded after each operation.  Strings are
  ASCII.  The database orders strings by code point.

  \<^bold>\<open>Not modelled.\<close>  Engine creation, row-level security, foreign keys and column lengths; the SMTP, IMAP and HTTP
  protocols; the identity provider; Google's token exchange, free and busy times and the update of events;
  enrichment, the intelligence services, source adapters and reporting, with their routers; the
  console, workers, migrations and demo data.  The first groups are input and output or other systems;
  the services among the rest are candidates for extension.
\<close>

end
